(* ===== verification/Prelude.thy ===== *)
theory Prelude
  imports Complex_Main "HOL-Library.AList"
begin

text \<open>
  The shared base of the development: the exceptions the Python code raises and their class
  hierarchy, computations that thread a state and may raise, a small Hoare logic for them,
  aware and naive datetimes, decimal text and the tables (lists of rows looked up by key) that
  stand for the SQL tables.
\<close>

named_theorems py_defs \<open>definitions of the basic computations\<close>
named_theorems hoare_rules \<open>Hoare rules of the basic computations\<close>

section \<open>Exceptions\<close>

text \<open>
  One constructor per exception class the modelled code raises or catches. The class hierarchy
  is the one of Python and of the repository: \<open>isinstance\<close> tests are the predicates below.
\<close>

datatype exn =
    VerificationFailure string
  | RuntimeError string
  | SourceChangedError string
  | ColdRestorePending bool
  | ICloudCleanupBlocked string
  | ICloudControlError string
  | ValueError string
  | UnsafePath string
  | InvalidTransition
  | InvalidToken string
  | OSErr string
  | FileNotFoundError
  | NotADirectoryError
  | IsADirectoryError
  | FileExistsError
  | PermissionError string
  | InterruptedError
  | InsufficientScratchSpace
  | TypeError
  | KeyError
  | IndexError
  | AssertionError
  | IntegrityError
  | ObjectDeletedError
  | RcloneCommandError string int
  | ClientError string
  | HTTPException nat string
  | InvalidTag
  | OtherError string

definition is_OSError :: "exn \<Rightarrow> bool" where
  "is_OSError e = (case e of OSErr _ \<Rightarrow> True | FileNotFoundError \<Rightarrow> True | NotADirectoryError \<Rightarrow> True
     | IsADirectoryError \<Rightarrow> True | FileExistsError \<Rightarrow> True
     | PermissionError _ \<Rightarrow> True | InterruptedError \<Rightarrow> True | InsufficientScratchSpace \<Rightarrow> True
     | _ \<Rightarrow> False)"

definition is_ValueError :: "exn \<Rightarrow> bool" where
  "is_ValueError e = (case e of ValueError _ \<Rightarrow> True | UnsafePath _ \<Rightarrow> True
     | InvalidTransition \<Rightarrow> True | _ \<Rightarrow> False)"

definition is_UnsafePath :: "exn \<Rightarrow> bool" where
  "is_UnsafePath e = (case e of UnsafePath _ \<Rightarrow> True | _ \<Rightarrow> False)"

definition is_RuntimeError :: "exn \<Rightarrow> bool" where
  "is_RuntimeError e = (case e of RuntimeError _ \<Rightarrow> True | VerificationFailure _ \<Rightarrow> True
     | SourceChangedError _ \<Rightarrow> True | ColdRestorePending _ \<Rightarrow> True
     | ICloudCleanupBlocked _ \<Rightarrow> True | ICloudControlError _ \<Rightarrow> True
     | RcloneCommandError _ _ \<Rightarrow> True | _ \<Rightarrow> False)"

definition is_SourceChangedError :: "exn \<Rightarrow> bool" where
  "is_SourceChangedError e = (case e of SourceChangedError _ \<Rightarrow> True | _ \<Rightarrow> False)"

definition is_PermissionError :: "exn \<Rightarrow> bool" where
  "is_PermissionError e = (case e of PermissionError _ \<Rightarrow> True | _ \<Rightarrow> False)"

section \<open>Computations with a state and exceptions\<close>

text \<open>
  A Python routine is a function from the state to its outcome, an exception or a value, and
  the state it leaves. State changes made before an exception stay, as they do in Python.
\<close>

type_synonym ('s, 'a) py = "'s \<Rightarrow> (exn + 'a) \<times> 's"

definition ret :: "'a \<Rightarrow> ('s, 'a) py" where
  "ret x = (\<lambda>s. (Inr x, s))"

definition raise_py :: "exn \<Rightarrow> ('s, 'a) py" where
  "raise_py e = (\<lambda>s. (Inl e, s))"

definition bind_py :: "('s, 'a) py \<Rightarrow> ('a \<Rightarrow> ('s, 'b) py) \<Rightarrow> ('s, 'b) py" where
  "bind_py m f = (\<lambda>s. case m s of (r, s') \<Rightarrow>
     (case r of Inl e \<Rightarrow> (Inl e, s') | Inr x \<Rightarrow> f x s'))"

definition seq :: "('s, 'a) py \<Rightarrow> ('s, 'b) py \<Rightarrow> ('s, 'b) py" where
  "seq m n = bind_py m (\<lambda>_. n)"

definition gets :: "('s \<Rightarrow> 'a) \<Rightarrow> ('s, 'a) py" where
  "gets f = (\<lambda>s. (Inr (f s), s))"

definition modify :: "('s \<Rightarrow> 's) \<Rightarrow> ('s, unit) py" where
  "modify f = (\<lambda>s. (Inr (), f s))"

text \<open>\<open>require b e\<close> is \<open>if not b: raise e\<close>; \<open>when_py b m\<close> is \<open>if b: m\<close>.\<close>

definition require :: "bool \<Rightarrow> exn \<Rightarrow> ('s, unit) py" where
  "require b e = (if b then ret () else raise_py e)"

definition when_py :: "bool \<Rightarrow> ('s, unit) py \<Rightarrow> ('s, unit) py" where
  "when_py b m = (if b then m else ret ())"

text \<open>
  \<open>try_py m h\<close> is \<open>try: m\<close> with the \<open>except\<close> clauses \<open>h\<close>: \<open>h e\<close> is the handler of an
  exception \<open>e\<close>, \<open>None\<close> when no clause catches it.
\<close>

definition try_py :: "('s, 'a) py \<Rightarrow> (exn \<Rightarrow> ('s, 'a) py option) \<Rightarrow> ('s, 'a) py" where
  "try_py m h = (\<lambda>s. case m s of (r, s') \<Rightarrow>
     (case r of Inl e \<Rightarrow> (case h e of None \<Rightarrow> (Inl e, s') | Some k \<Rightarrow> k s')
      | Inr x \<Rightarrow> (Inr x, s')))"

definition lift_sum :: "exn + 'a \<Rightarrow> ('s, 'a) py" where
  "lift_sum r = (\<lambda>s. (r, s))"

fun block :: "('s, unit) py list \<Rightarrow> ('s, unit) py" where
  "block [] = ret ()"
| "block (m # ms) = seq m (block ms)"

fun for_each :: "('a \<Rightarrow> ('s, unit) py) \<Rightarrow> 'a list \<Rightarrow> ('s, unit) py" where
  "for_each f [] = ret ()"
| "for_each f (x # xs) = seq (f x) (for_each f xs)"

fun map_py :: "('a \<Rightarrow> ('s, 'b) py) \<Rightarrow> 'a list \<Rightarrow> ('s, 'b list) py" where
  "map_py f [] = ret []"
| "map_py f (x # xs) = bind_py (f x) (\<lambda>y. bind_py (map_py f xs) (\<lambda>ys. ret (y # ys)))"

lemmas [py_defs] = ret_def raise_py_def bind_py_def seq_def gets_def modify_def require_def
  when_py_def try_py_def lift_sum_def

lemma bind_py_Inr [simp]: "m s = (Inr x, s') \<Longrightarrow> bind_py m f s = f x s'"
  by (simp add: bind_py_def)

lemma bind_py_Inl [simp]: "m s = (Inl e, s') \<Longrightarrow> bind_py m f s = (Inl e, s')"
  by (simp add: bind_py_def)

lemma bind_py_Inr_E:
  assumes "bind_py m f s = (Inr y, t)"
  obtains x s' where "m s = (Inr x, s')" and "f x s' = (Inr y, t)"
  using assms by (auto simp: bind_py_def split: prod.splits sum.splits)

lemma seq_Inr_E:
  assumes "seq m n s = (Inr y, t)"
  obtains x s' where "m s = (Inr x, s')" and "n s' = (Inr y, t)"
  using assms unfolding seq_def by (rule bind_py_Inr_E)

lemma ret_run [simp]: "ret x s = (Inr x, s)"
  by (simp add: ret_def)

lemma raise_py_run [simp]: "raise_py e s = (Inl e, s)"
  by (simp add: raise_py_def)

lemma gets_run [simp]: "gets f s = (Inr (f s), s)"
  by (simp add: gets_def)

lemma modify_run [simp]: "modify f s = (Inr (), f s)"
  by (simp add: modify_def)

lemma lift_sum_run [simp]: "lift_sum r s = (r, s)"
  by (simp add: lift_sum_def)

lemma require_True [simp]: "require True e = ret ()"
  by (simp add: require_def)

lemma require_False [simp]: "require False e = raise_py e"
  by (simp add: require_def)

lemma when_True [simp]: "when_py True m = m"
  by (simp add: when_py_def)

lemma when_False [simp]: "when_py False m = ret ()"
  by (simp add: when_py_def)

lemma require_Inr_iff: "require b e s = (Inr x, t) \<longleftrightarrow> b \<and> t = s"
  by (auto simp: require_def)

section \<open>Hoare triples\<close>

text \<open>
  \<open>hoare P m Q E\<close>: from a state satisfying \<open>P\<close>, \<open>m\<close> ends normally in \<open>Q\<close> of its value and
  state, or with an exception in \<open>E\<close> of the exception and state. \<open>keeps P m\<close> is the special
  case of an invariant, which an exception must keep as well.
\<close>

definition hoare :: "('s \<Rightarrow> bool) \<Rightarrow> ('s, 'a) py \<Rightarrow> ('a \<Rightarrow> 's \<Rightarrow> bool) \<Rightarrow> (exn \<Rightarrow> 's \<Rightarrow> bool) \<Rightarrow> bool"
  where "hoare P m Q E = (\<forall>s. P s \<longrightarrow>
     (case m s of (r, t) \<Rightarrow> (case r of Inl e \<Rightarrow> E e t | Inr x \<Rightarrow> Q x t)))"

definition keeps :: "('s \<Rightarrow> bool) \<Rightarrow> ('s, 'a) py \<Rightarrow> bool" where
  "keeps P m = (\<forall>s. P s \<longrightarrow> P (snd (m s)))"

lemma hoare_Inr: "hoare P m Q E \<Longrightarrow> P s \<Longrightarrow> m s = (Inr x, t) \<Longrightarrow> Q x t"
  by (auto simp: hoare_def)

lemma hoare_Inl: "hoare P m Q E \<Longrightarrow> P s \<Longrightarrow> m s = (Inl e, t) \<Longrightarrow> E e t"
  by (auto simp: hoare_def)

lemma keepsI: "(\<And>s. P s \<Longrightarrow> P (snd (m s))) \<Longrightarrow> keeps P m"
  by (simp add: keeps_def)

lemma keepsD: "keeps P m \<Longrightarrow> P s \<Longrightarrow> P (snd (m s))"
  by (simp add: keeps_def)

lemma keepsD2: "keeps P m \<Longrightarrow> P s \<Longrightarrow> m s = (r, t) \<Longrightarrow> P t"
  by (metis keepsD snd_conv)

lemma keeps_ret [hoare_rules]: "keeps P (ret x)"
  by (simp add: keeps_def)

lemma keeps_raise [hoare_rules]: "keeps P (raise_py e)"
  by (simp add: keeps_def)

lemma keeps_gets [hoare_rules]: "keeps P (gets f)"
  by (simp add: keeps_def)

lemma keeps_lift_sum [hoare_rules]: "keeps P (lift_sum r)"
  by (simp add: keeps_def)

lemma keeps_require [hoare_rules]: "keeps P (require b e)"
  by (simp add: keeps_def require_def)

lemma keeps_bind [hoare_rules]:
  "keeps P m \<Longrightarrow> (\<And>x. keeps P (f x)) \<Longrightarrow> keeps P (bind_py m f)"
  by (auto simp: keeps_def bind_py_def split: prod.split sum.split)

lemma keeps_seq [hoare_rules]: "keeps P m \<Longrightarrow> keeps P n \<Longrightarrow> keeps P (seq m n)"
  unfolding seq_def by (rule keeps_bind)

lemma keeps_when [hoare_rules]: "(b \<Longrightarrow> keeps P m) \<Longrightarrow> keeps P (when_py b m)"
  by (auto simp: when_py_def keeps_def)

lemma keeps_if [hoare_rules]: "(b \<Longrightarrow> keeps P m) \<Longrightarrow> (\<not> b \<Longrightarrow> keeps P n) \<Longrightarrow> keeps P (if b then m else n)"
  by simp

lemma keeps_modify: "(\<And>s. P s \<Longrightarrow> P (f s)) \<Longrightarrow> keeps P (modify f)"
  by (simp add: keeps_def)

lemma keeps_try [hoare_rules]:
  "keeps P m \<Longrightarrow> (\<And>e k. h e = Some k \<Longrightarrow> keeps P k) \<Longrightarrow> keeps P (try_py m h)"
  by (auto simp: keeps_def try_py_def split: prod.split sum.split option.split)

lemma keeps_block [hoare_rules]: "(\<And>m. m \<in> set ms \<Longrightarrow> keeps P m) \<Longrightarrow> keeps P (block ms)"
  by (induction ms) (auto intro: keeps_ret keeps_seq)

lemma keeps_for_each [hoare_rules]:
  "(\<And>x. x \<in> set xs \<Longrightarrow> keeps P (f x)) \<Longrightarrow> keeps P (for_each f xs)"
  by (induction xs) (auto intro: keeps_ret keeps_seq)

lemma keeps_map_py [hoare_rules]:
  "(\<And>x. x \<in> set xs \<Longrightarrow> keeps P (f x)) \<Longrightarrow> keeps P (map_py f xs)"
  by (induction xs) (auto intro!: keeps_ret keeps_bind)


section \<open>Datetimes\<close>

text \<open>
  A Python datetime as the microseconds since 1970 on the UTC clock, aware or naive. SQLite drops
  the time zone, so values read back are naive; \<open>_aware\<close> (the same helper in several modules)
  reads a naive value as UTC. Subtracting a naive and an aware value raises \<open>TypeError\<close>.
\<close>

datatype datetime = Naive int | Aware int

definition instant :: "datetime \<Rightarrow> int" where
  "instant d = (case d of Naive t \<Rightarrow> t | Aware t \<Rightarrow> t)"

definition aware :: "datetime \<Rightarrow> datetime" where
  "aware d = Aware (instant d)"

definition is_aware :: "datetime \<Rightarrow> bool" where
  "is_aware d = (case d of Naive _ \<Rightarrow> False | Aware _ \<Rightarrow> True)"

definition dt_sub :: "datetime \<Rightarrow> datetime \<Rightarrow> exn + int" where
  "dt_sub a b = (if is_aware a = is_aware b then Inr (instant a - instant b) else Inl TypeError)"

definition dt_add :: "datetime \<Rightarrow> int \<Rightarrow> datetime" where
  "dt_add d delta = (case d of Naive t \<Rightarrow> Naive (t + delta) | Aware t \<Rightarrow> Aware (t + delta))"

definition seconds :: "int \<Rightarrow> int" where "seconds n = n * 1000000"
definition minutes :: "int \<Rightarrow> int" where "minutes n = seconds (n * 60)"
definition hours :: "int \<Rightarrow> int" where "hours n = minutes (n * 60)"
definition days :: "int \<Rightarrow> int" where "days n = hours (n * 24)"

lemma instant_simps [simp]: "instant (Aware t) = t" "instant (Naive t) = t"
  by (simp_all add: instant_def)

lemma instant_dt_add [simp]: "instant (dt_add d n) = instant d + n"
  by (cases d) (simp_all add: dt_add_def)

lemma aware_simps [simp]: "instant (aware d) = instant d" "is_aware (aware d)"
    "aware (aware d) = aware d" "is_aware (Aware t)" "\<not> is_aware (Naive t)"
  by (simp_all add: aware_def is_aware_def)

section \<open>Strings\<close>

text \<open>Python strings as lists of characters; bytes objects have the same representation.\<close>

type_synonym bytes = "char list"

definition startswith :: "string \<Rightarrow> string \<Rightarrow> bool" where
  "startswith s p = (take (length p) s = p)"

definition endswith :: "string \<Rightarrow> string \<Rightarrow> bool" where
  "endswith s p = (length p \<le> length s \<and> drop (length s - length p) s = p)"

definition removeprefix :: "string \<Rightarrow> string \<Rightarrow> string" where
  "removeprefix s p = (if startswith s p then drop (length p) s else s)"

definition removesuffix :: "string \<Rightarrow> string \<Rightarrow> string" where
  "removesuffix s p = (if endswith s p \<and> p \<noteq> [] then take (length s - length p) s else s)"

fun split_on :: "char \<Rightarrow> string \<Rightarrow> string list" where
  "split_on c [] = [[]]"
| "split_on c (x # xs) = (if x = c then [] # split_on c xs
     else (case split_on c xs of [] \<Rightarrow> [[x]] | y # ys \<Rightarrow> (x # y) # ys))"

fun join :: "string \<Rightarrow> string list \<Rightarrow> string" where
  "join sep [] = []"
| "join sep [x] = x"
| "join sep (x # y # ys) = x @ sep @ join sep (y # ys)"

text \<open>\<open>s.partition(c)\<close>: the part before the first \<open>c\<close>, whether \<open>c\<close> occurs, the part after it.\<close>

fun partition_at :: "char \<Rightarrow> string \<Rightarrow> string \<times> bool \<times> string" where
  "partition_at c [] = ([], False, [])"
| "partition_at c (x # xs) = (if x = c then ([], True, xs)
     else (case partition_at c xs of (a, found, b) \<Rightarrow> (x # a, found, b)))"

definition is_space :: "char \<Rightarrow> bool" where
  "is_space c = (of_char c \<in> {9, 10, 11, 12, 13, 28, 29, 30, 31, 32 :: nat})"

definition lstrip :: "string \<Rightarrow> string" where
  "lstrip s = dropWhile is_space s"

definition strip :: "string \<Rightarrow> string" where
  "strip s = rev (lstrip (rev (lstrip s)))"

definition rstrip_char :: "char \<Rightarrow> string \<Rightarrow> string" where
  "rstrip_char c s = rev (dropWhile (\<lambda>x. x = c) (rev s))"

definition is_digit :: "char \<Rightarrow> bool" where
  "is_digit c = (of_char c \<ge> (48 :: nat) \<and> of_char c \<le> (57 :: nat))"

definition is_upper :: "char \<Rightarrow> bool" where
  "is_upper c = (of_char c \<ge> (65 :: nat) \<and> of_char c \<le> (90 :: nat))"

definition is_lower :: "char \<Rightarrow> bool" where
  "is_lower c = (of_char c \<ge> (97 :: nat) \<and> of_char c \<le> (122 :: nat))"

definition is_alnum :: "char \<Rightarrow> bool" where
  "is_alnum c = (is_digit c \<or> is_upper c \<or> is_lower c)"

definition lower_char :: "char \<Rightarrow> char" where
  "lower_char c = (if is_upper c then char_of (of_char c + 32 :: nat) else c)"

definition lower :: "string \<Rightarrow> string" where
  "lower s = map lower_char s"

definition isdigit :: "string \<Rightarrow> bool" where
  "isdigit s = (s \<noteq> [] \<and> list_all is_digit s)"

text \<open>\<open>contains sub s\<close> is \<open>sub in s\<close>.\<close>

fun contains :: "string \<Rightarrow> string \<Rightarrow> bool" where
  "contains sub [] = (sub = [])"
| "contains sub (x # xs) = (startswith (x # xs) sub \<or> contains sub xs)"

section \<open>Decimal text\<close>

definition digit_char :: "nat \<Rightarrow> char" where
  "digit_char d = char_of (48 + d)"

definition digit_val :: "char \<Rightarrow> nat" where
  "digit_val c = of_char c - 48"

fun dec :: "nat \<Rightarrow> string" where
  "dec n = (if n < 10 then [digit_char n] else dec (n div 10) @ [digit_char (n mod 10)])"

declare dec.simps [simp del]

definition undec :: "string \<Rightarrow> nat" where
  "undec s = foldl (\<lambda>acc c. acc * 10 + digit_val c) 0 s"

text \<open>\<open>str(n)\<close> and \<open>int(s)\<close>: surrounding space, a sign and single underscores between digits.\<close>

definition py_str_int :: "int \<Rightarrow> string" where
  "py_str_int n = (if n < 0 then CHR ''-'' # dec (nat (- n)) else dec (nat n))"

fun digits_ok :: "bool \<Rightarrow> string \<Rightarrow> bool" where
  "digits_ok prev [] = prev"
| "digits_ok prev (c # cs) =
     (if c = CHR ''_'' then prev \<and> digits_ok False cs else is_digit c \<and> digits_ok True cs)"

definition py_int :: "string \<Rightarrow> exn + int" where
  "py_int s =
     (let t = strip s;
          neg = startswith t ''-'';
          body = (if neg \<or> startswith t ''+'' then drop 1 t else t)
      in if digits_ok False body
         then Inr ((if neg then -1 else 1) * int (undec (filter (\<lambda>c. c \<noteq> CHR ''_'') body)))
         else Inl (ValueError ''invalid literal for int()''))"

lemma of_char_digit_char: "d < 10 \<Longrightarrow> of_char (digit_char d) = 48 + d"
  by (simp add: digit_char_def of_char_of)

lemma is_digit_digit_char: "d < 10 \<Longrightarrow> is_digit (digit_char d)"
  by (simp add: is_digit_def of_char_digit_char)

lemma digit_val_digit_char: "d < 10 \<Longrightarrow> digit_val (digit_char d) = d"
  by (simp add: digit_val_def of_char_digit_char)

lemma undec_snoc: "undec (s @ [c]) = undec s * 10 + digit_val c"
  by (simp add: undec_def)

lemma undec_dec [simp]: "undec (dec n) = n"
proof (induction n rule: dec.induct)
  case (1 n)
  show ?case
  proof (cases "n < 10")
    case True
    then show ?thesis by (subst dec.simps) (simp add: undec_def digit_val_digit_char)
  next
    case False
    with "1.IH" have "undec (dec (n div 10)) = n div 10" by simp
    with False show ?thesis
      by (subst dec.simps) (simp add: undec_snoc digit_val_digit_char)
  qed
qed

lemma dec_inject [simp]: "dec m = dec n \<longleftrightarrow> m = n"
  by (metis undec_dec)

lemma dec_digits: "list_all is_digit (dec n)"
proof (induction n rule: dec.induct)
  case (1 n)
  then show ?case
    by (subst dec.simps) (simp add: is_digit_digit_char)
qed

lemma dec_nonempty [simp]: "dec n \<noteq> []"
  by (subst dec.simps) simp

lemma not_digit_facts: "is_digit c \<Longrightarrow> \<not> is_space c \<and> c \<noteq> CHR ''_'' \<and> c \<noteq> CHR ''-'' \<and> c \<noteq> CHR ''+''"
  by (auto simp: is_digit_def is_space_def)

lemma strip_digits:
  assumes "list_all is_digit s" shows "strip s = s"
proof -
  have drop: "dropWhile is_space t = t" if "list_all is_digit t" for t
    using that by (cases t) (auto dest: not_digit_facts)
  have "list_all is_digit (rev s)" using assms by (simp add: list_all_iff)
  with assms show ?thesis by (simp add: strip_def lstrip_def drop)
qed

lemma digits_ok_digits: "list_all is_digit s \<Longrightarrow> digits_ok p s = (p \<or> s \<noteq> [])"
  by (induction s arbitrary: p) (auto dest: not_digit_facts)

lemma filter_digits: "list_all is_digit s \<Longrightarrow> filter (\<lambda>c. c \<noteq> CHR ''_'') s = s"
  by (induction s) (auto dest: not_digit_facts)

lemma startswith_digits:
  assumes "list_all is_digit s" "s \<noteq> []"
  shows "\<not> startswith s ''-''" "\<not> startswith s ''+''"
  using assms by (cases s; auto simp: startswith_def dest: not_digit_facts)+

lemma py_int_dec [simp]: "py_int (dec n) = Inr (int n)"
  by (simp add: py_int_def Let_def strip_digits dec_digits startswith_digits digits_ok_digits
      filter_digits)

section \<open>Tables\<close>

text \<open>
  A SQL table is the list of its rows in rowid order. \<open>tbl_get key k t\<close> is \<open>session.get\<close> or a
  \<open>select\<close> on a unique column, \<open>tbl_upd\<close> an update of the row with that key, \<open>fresh_id\<close> the
  integer primary key SQLite gives a new row (one more than the largest).
\<close>

definition tbl_get :: "('r \<Rightarrow> 'k) \<Rightarrow> 'k \<Rightarrow> 'r list \<Rightarrow> 'r option" where
  "tbl_get key k t = List.find (\<lambda>r. key r = k) t"

definition tbl_upd :: "('r \<Rightarrow> 'k) \<Rightarrow> 'k \<Rightarrow> ('r \<Rightarrow> 'r) \<Rightarrow> 'r list \<Rightarrow> 'r list" where
  "tbl_upd key k f t = map (\<lambda>r. if key r = k then f r else r) t"

definition fresh_id :: "('r \<Rightarrow> nat) \<Rightarrow> 'r list \<Rightarrow> nat" where
  "fresh_id key t = foldr max (map key t) 0 + 1"

lemma tbl_get_Nil [simp]: "tbl_get key k [] = None"
  by (simp add: tbl_get_def)

lemma tbl_get_Cons [simp]:
  "tbl_get key k (r # t) = (if key r = k then Some r else tbl_get key k t)"
  by (simp add: tbl_get_def)

lemma tbl_get_Some: "tbl_get key k t = Some r \<Longrightarrow> r \<in> set t \<and> key r = k"
  by (induction t) (auto split: if_splits)

lemma tbl_get_None: "tbl_get key k t = None \<longleftrightarrow> k \<notin> key ` set t"
  by (induction t) auto

lemma tbl_get_append:
  "tbl_get key k (t @ u) = (case tbl_get key k t of Some r \<Rightarrow> Some r | None \<Rightarrow> tbl_get key k u)"
  by (induction t) auto

lemma tbl_upd_Nil [simp]: "tbl_upd key k f [] = []"
  by (simp add: tbl_upd_def)

lemma tbl_get_upd_same:
  "(\<And>r. key (f r) = key r) \<Longrightarrow> tbl_get key k (tbl_upd key k f t) = map_option f (tbl_get key k t)"
  by (induction t) (auto simp: tbl_upd_def)

lemma tbl_get_upd_other:
  "(\<And>r. key (f r) = key r) \<Longrightarrow> k \<noteq> j \<Longrightarrow> tbl_get key k (tbl_upd key j f t) = tbl_get key k t"
  by (induction t) (auto simp: tbl_upd_def)

lemma keys_tbl_upd: "(\<And>r. key (f r) = key r) \<Longrightarrow> map key (tbl_upd key k f t) = map key t"
  by (induction t) (auto simp: tbl_upd_def)

lemma length_tbl_upd [simp]: "length (tbl_upd key k f t) = length t"
  by (simp add: tbl_upd_def)

lemma set_tbl_upd: "r \<in> set (tbl_upd key k f t) \<Longrightarrow>
    \<exists>r0 \<in> set t. (key r0 = k \<and> r = f r0) \<or> (key r0 \<noteq> k \<and> r = r0)"
  by (auto simp: tbl_upd_def)

lemma tbl_get_in: "distinct (map key t) \<Longrightarrow> r \<in> set t \<Longrightarrow> tbl_get key (key r) t = Some r"
  by (induction t) (auto simp: rev_image_eqI)

lemma fresh_id_gt: "r \<in> set t \<Longrightarrow> key r < fresh_id key t"
  by (induction t) (auto simp: fresh_id_def less_Suc_eq_le le_max_iff_disj)

lemma fresh_id_notin: "fresh_id key t \<notin> key ` set t"
  by (metis imageE less_irrefl fresh_id_gt)

end
