(* ===== verification/States.thy ===== *)
theory States
  imports Prelude
begin

text \<open>
  The archive state machine (\<open>domain/states.py\<close>): the states, the transition table built from
  the linear pipeline and its exceptions, and the check every state change passes. The lemmas
  describe the graph: where \<open>DELETING\<close> can be entered from, and that no sequence of allowed
  transitions reaches it around a verification stage.
\<close>

datatype archive_state =
    DISCOVERED
  | INELIGIBLE
  | ELIGIBLE
  | QUEUED
  | DOWNLOADING
  | LOCAL_STAGED
  | LOCAL_VERIFIED
  | LOCAL_COMMITTED
  | LOCAL_BACKUP_PENDING
  | LOCAL_BACKUP_VERIFIED
  | COLD_UPLOAD_PENDING
  | COLD_UPLOADED
  | COLD_VERIFIED
  | COLD_ARCHIVE_PENDING
  | COLD_ARCHIVED
  | QUARANTINED
  | READY_FOR_REVALIDATION
  | READY_FOR_DELETION
  | DELETING
  | DELETED_FROM_SOURCE
  | ARCHIVED
  | RESTORE_REQUESTED
  | RESTORING
  | RESTORED
  | SOURCE_CHANGED
  | FAILED_RETRYABLE
  | MANUAL_REVIEW
  | TEST_CLEANED

fun state_value :: "archive_state \<Rightarrow> string" where
  "state_value DISCOVERED = ''DISCOVERED''"
| "state_value INELIGIBLE = ''INELIGIBLE''"
| "state_value ELIGIBLE = ''ELIGIBLE''"
| "state_value QUEUED = ''QUEUED''"
| "state_value DOWNLOADING = ''DOWNLOADING''"
| "state_value LOCAL_STAGED = ''LOCAL_STAGED''"
| "state_value LOCAL_VERIFIED = ''LOCAL_VERIFIED''"
| "state_value LOCAL_COMMITTED = ''LOCAL_COMMITTED''"
| "state_value LOCAL_BACKUP_PENDING = ''LOCAL_BACKUP_PENDING''"
| "state_value LOCAL_BACKUP_VERIFIED = ''LOCAL_BACKUP_VERIFIED''"
| "state_value COLD_UPLOAD_PENDING = ''COLD_UPLOAD_PENDING''"
| "state_value COLD_UPLOADED = ''COLD_UPLOADED''"
| "state_value COLD_VERIFIED = ''COLD_VERIFIED''"
| "state_value COLD_ARCHIVE_PENDING = ''COLD_ARCHIVE_PENDING''"
| "state_value COLD_ARCHIVED = ''COLD_ARCHIVED''"
| "state_value QUARANTINED = ''QUARANTINED''"
| "state_value READY_FOR_REVALIDATION = ''READY_FOR_REVALIDATION''"
| "state_value READY_FOR_DELETION = ''READY_FOR_DELETION''"
| "state_value DELETING = ''DELETING''"
| "state_value DELETED_FROM_SOURCE = ''DELETED_FROM_SOURCE''"
| "state_value ARCHIVED = ''ARCHIVED''"
| "state_value RESTORE_REQUESTED = ''RESTORE_REQUESTED''"
| "state_value RESTORING = ''RESTORING''"
| "state_value RESTORED = ''RESTORED''"
| "state_value SOURCE_CHANGED = ''SOURCE_CHANGED''"
| "state_value FAILED_RETRYABLE = ''FAILED_RETRYABLE''"
| "state_value MANUAL_REVIEW = ''MANUAL_REVIEW''"
| "state_value TEST_CLEANED = ''TEST_CLEANED''"

definition linear :: "archive_state list" where
  "linear = [
    DISCOVERED, ELIGIBLE, QUEUED, DOWNLOADING, LOCAL_STAGED, LOCAL_VERIFIED,
    LOCAL_COMMITTED, LOCAL_BACKUP_PENDING, LOCAL_BACKUP_VERIFIED, COLD_UPLOAD_PENDING,
    COLD_UPLOADED, COLD_VERIFIED, COLD_ARCHIVE_PENDING, COLD_ARCHIVED, QUARANTINED,
    READY_FOR_REVALIDATION, READY_FOR_DELETION, DELETING, DELETED_FROM_SOURCE, ARCHIVED]"

text \<open>
  \<open>ALLOWED_TRANSITIONS\<close>: first every state of the pipeline with its successor, then the
  entries of \<open>update\<close>, which replace earlier entries of the same state.
\<close>

definition linear_transitions :: "(archive_state \<times> archive_state list) list" where
  "linear_transitions = map (\<lambda>(s, t). (s, [t])) (zip linear (tl linear))"

definition updated_transitions :: "(archive_state \<times> archive_state list) list" where
  "updated_transitions = [
    (DISCOVERED, [ELIGIBLE, INELIGIBLE]),
    (INELIGIBLE, [ELIGIBLE, INELIGIBLE]),
    (SOURCE_CHANGED, [QUEUED]),
    (FAILED_RETRYABLE, [QUEUED, MANUAL_REVIEW]),
    (MANUAL_REVIEW, [QUEUED]),
    (LOCAL_STAGED, [LOCAL_VERIFIED, TEST_CLEANED]),
    (ARCHIVED, [RESTORE_REQUESTED]),
    (RESTORE_REQUESTED, [RESTORING]),
    (RESTORING, [RESTORED, FAILED_RETRYABLE]),
    (RESTORED, [ARCHIVED])]"

definition allowed_transitions :: "archive_state \<rightharpoonup> archive_state list" where
  "allowed_transitions s = map_of (updated_transitions @ linear_transitions) s"

definition failure_targets :: "archive_state list" where
  "failure_targets = [FAILED_RETRYABLE, MANUAL_REVIEW, SOURCE_CHANGED]"

definition validate_transition :: "archive_state \<Rightarrow> archive_state \<Rightarrow> exn + unit" where
  "validate_transition current target =
     (if target = current then Inr ()
      else let allowed = (case allowed_transitions current of None \<Rightarrow> [] | Some ts \<Rightarrow> ts)
                         @ failure_targets
      in if target \<notin> set allowed then Inl InvalidTransition else Inr ())"

section \<open>The states as an enumerated, linearly ordered type\<close>

fun state_rank :: "archive_state \<Rightarrow> nat" where
  "state_rank DISCOVERED = 0"
| "state_rank INELIGIBLE = 1"
| "state_rank ELIGIBLE = 2"
| "state_rank QUEUED = 3"
| "state_rank DOWNLOADING = 4"
| "state_rank LOCAL_STAGED = 5"
| "state_rank LOCAL_VERIFIED = 6"
| "state_rank LOCAL_COMMITTED = 7"
| "state_rank LOCAL_BACKUP_PENDING = 8"
| "state_rank LOCAL_BACKUP_VERIFIED = 9"
| "state_rank COLD_UPLOAD_PENDING = 10"
| "state_rank COLD_UPLOADED = 11"
| "state_rank COLD_VERIFIED = 12"
| "state_rank COLD_ARCHIVE_PENDING = 13"
| "state_rank COLD_ARCHIVED = 14"
| "state_rank QUARANTINED = 15"
| "state_rank READY_FOR_REVALIDATION = 16"
| "state_rank READY_FOR_DELETION = 17"
| "state_rank DELETING = 18"
| "state_rank DELETED_FROM_SOURCE = 19"
| "state_rank ARCHIVED = 20"
| "state_rank RESTORE_REQUESTED = 21"
| "state_rank RESTORING = 22"
| "state_rank RESTORED = 23"
| "state_rank SOURCE_CHANGED = 24"
| "state_rank FAILED_RETRYABLE = 25"
| "state_rank MANUAL_REVIEW = 26"
| "state_rank TEST_CLEANED = 27"

instantiation archive_state :: enum
begin

definition enum_archive_state :: "archive_state list" where
  "enum_archive_state = [
    DISCOVERED, INELIGIBLE, ELIGIBLE, QUEUED, DOWNLOADING, LOCAL_STAGED, LOCAL_VERIFIED,
    LOCAL_COMMITTED, LOCAL_BACKUP_PENDING, LOCAL_BACKUP_VERIFIED, COLD_UPLOAD_PENDING,
    COLD_UPLOADED, COLD_VERIFIED, COLD_ARCHIVE_PENDING, COLD_ARCHIVED, QUARANTINED,
    READY_FOR_REVALIDATION, READY_FOR_DELETION, DELETING, DELETED_FROM_SOURCE, ARCHIVED,
    RESTORE_REQUESTED, RESTORING, RESTORED, SOURCE_CHANGED, FAILED_RETRYABLE, MANUAL_REVIEW,
    TEST_CLEANED]"

definition enum_all_archive_state :: "(archive_state \<Rightarrow> bool) \<Rightarrow> bool" where
  "enum_all_archive_state P = list_all P enum_class.enum"

definition enum_ex_archive_state :: "(archive_state \<Rightarrow> bool) \<Rightarrow> bool" where
  "enum_ex_archive_state P = list_ex P enum_class.enum"

instance
proof
  show univ: "(UNIV :: archive_state set) = set enum_class.enum"
  proof (rule UNIV_eq_I)
    fix s :: archive_state
    show "s \<in> set enum_class.enum" by (cases s) (simp_all add: enum_archive_state_def)
  qed
  show "distinct (enum_class.enum :: archive_state list)"
    by (simp add: enum_archive_state_def)
  show "enum_class.enum_all P \<longleftrightarrow> Ball UNIV P" for P :: "archive_state \<Rightarrow> bool"
    by (simp add: enum_all_archive_state_def univ list_all_iff)
  show "enum_class.enum_ex P \<longleftrightarrow> Bex UNIV P" for P :: "archive_state \<Rightarrow> bool"
    by (simp add: enum_ex_archive_state_def univ list_ex_iff)
qed

end

lemma state_rank_nth: "enum_class.enum ! state_rank s = s"
  by (cases s) (simp_all add: enum_archive_state_def)

lemma state_rank_inject: "state_rank s = state_rank t \<Longrightarrow> s = t"
  by (metis state_rank_nth)

text \<open>The order of declaration, which is the order of the pipeline up to \<open>ARCHIVED\<close>.\<close>

instantiation archive_state :: linorder
begin

definition less_eq_archive_state :: "archive_state \<Rightarrow> archive_state \<Rightarrow> bool" where
  "less_eq_archive_state s t = (state_rank s \<le> state_rank t)"

definition less_archive_state :: "archive_state \<Rightarrow> archive_state \<Rightarrow> bool" where
  "less_archive_state s t = (state_rank s < state_rank t)"

instance
  by standard (auto simp: less_eq_archive_state_def less_archive_state_def intro: state_rank_inject)

end

lemmas state_order = less_eq_archive_state_def less_archive_state_def

section \<open>The graph\<close>

definition valid :: "archive_state \<Rightarrow> archive_state \<Rightarrow> bool" where
  "valid s t = (validate_transition s t = Inr ())"

lemmas validate_defs = validate_transition_def allowed_transitions_def updated_transitions_def
  linear_transitions_def linear_def failure_targets_def

lemma validate_cases: "validate_transition s t = Inr () \<or> validate_transition s t = Inl InvalidTransition"
  by (simp add: validate_transition_def Let_def)

lemma validate_refl [simp]: "validate_transition s s = Inr ()"
  by (simp add: validate_transition_def)

lemma validate_failure [simp]:
  "t \<in> set failure_targets \<Longrightarrow> validate_transition s t = Inr ()"
  by (simp add: validate_transition_def Let_def)

text \<open>What may precede a state, for the states the safety arguments need.\<close>

lemma valid_DELETING_D: "validate_transition s DELETING = Inr () \<Longrightarrow> s \<in> {DELETING, READY_FOR_DELETION}"
  by (cases s) (simp_all add: validate_defs)

lemma valid_pred_table:
  "validate_transition s QUEUED = Inr () \<longleftrightarrow> s \<in> {QUEUED, ELIGIBLE, SOURCE_CHANGED, FAILED_RETRYABLE, MANUAL_REVIEW}"
  "validate_transition s READY_FOR_REVALIDATION = Inr () \<longleftrightarrow> s \<in> {READY_FOR_REVALIDATION, QUARANTINED}"
  "validate_transition s READY_FOR_DELETION = Inr () \<longleftrightarrow> s \<in> {READY_FOR_DELETION, READY_FOR_REVALIDATION}"
  "validate_transition s DELETING = Inr () \<longleftrightarrow> s \<in> {DELETING, READY_FOR_DELETION}"
  "validate_transition s LOCAL_STAGED = Inr () \<longleftrightarrow> s \<in> {LOCAL_STAGED, DOWNLOADING}"
  "validate_transition s TEST_CLEANED = Inr () \<longleftrightarrow> s \<in> {TEST_CLEANED, LOCAL_STAGED}"
  by (cases s; simp add: validate_defs)+

text \<open>
  \<open>avoids m s t\<close>: a sequence of allowed transitions leads from \<open>s\<close> to \<open>t\<close> and never visits
  \<open>m\<close>.
\<close>

inductive avoids :: "archive_state \<Rightarrow> archive_state \<Rightarrow> archive_state \<Rightarrow> bool" for m where
  start: "s \<noteq> m \<Longrightarrow> avoids m s s"
| step: "avoids m s t \<Longrightarrow> valid t u \<Longrightarrow> u \<noteq> m \<Longrightarrow> avoids m s u"

definition before :: "archive_state \<Rightarrow> archive_state \<Rightarrow> bool" where
  "before m s = (s < m \<or> s \<in> {SOURCE_CHANGED, FAILED_RETRYABLE, MANUAL_REVIEW, TEST_CLEANED})"

definition mandatory :: "archive_state list" where
  "mandatory = filter (\<lambda>m. QUEUED \<le> m \<and> m \<le> READY_FOR_DELETION) linear"

lemma before_closed:
  "list_all (\<lambda>m. \<forall>s. before m s \<longrightarrow> (\<forall>t. valid s t \<and> t \<noteq> m \<longrightarrow> before m t)) mandatory"
  by code_simp

lemma avoids_before:
  assumes "avoids m s t" and "m \<in> set mandatory" and "before m s"
  shows "before m t"
  using assms
proof (induction rule: avoids.induct)
  case (start s)
  then show ?case by simp
next
  case (step s t u)
  then show ?case using before_closed by (auto simp: list_all_iff)
qed

lemma DELETING_after: "m \<in> set mandatory \<Longrightarrow> \<not> before m DELETING"
  by (auto simp: mandatory_def linear_def before_def state_order)

lemma starts_before:
  "m \<in> set mandatory \<Longrightarrow> s \<in> {DISCOVERED, INELIGIBLE, ELIGIBLE, SOURCE_CHANGED, FAILED_RETRYABLE, MANUAL_REVIEW} \<Longrightarrow>
     before m s"
  by (auto simp: mandatory_def linear_def before_def state_order)

text \<open>C9: no sequence of allowed state changes takes an item that is newly discovered, has failed or
  has changed to \<open>DELETING\<close> without passing through every state from \<open>QUEUED\<close> to
  \<open>READY_FOR_DELETION\<close>, the verification of both copies and the quarantine among them.\<close>

theorem deleting_passes_mandatory:
  assumes "m \<in> set mandatory"
    and "s \<in> {DISCOVERED, INELIGIBLE, ELIGIBLE, SOURCE_CHANGED, FAILED_RETRYABLE, MANUAL_REVIEW}"
  shows "\<not> avoids m s DELETING"
  using avoids_before [OF _ assms(1)] starts_before [OF assms] DELETING_after [OF assms(1)] by blast

theorem deleting_passes_mandatory_witness:
  "\<not> avoids COLD_VERIFIED SOURCE_CHANGED DELETING \<and> COLD_VERIFIED \<in> set mandatory"
proof -
  have m: "COLD_VERIFIED \<in> set mandatory" by (simp add: mandatory_def linear_def state_order)
  with deleting_passes_mandatory [OF m, of SOURCE_CHANGED] show ?thesis by simp
qed

end
