(* ===== verification/Redaction.thy ===== *)
theory Redaction
  imports Prelude
begin

text \<open>
  The redaction of log and audit values (\<open>security/redaction.py\<close>): the Python values it walks,
  the two regular expressions as matchers, and what the result can no longer contain.
\<close>

datatype pyval = PNone | PBool bool | PInt int | PStr string
  | PList "pyval list" | PTuple "pyval list" | PDict "(string \<times> pyval) list"

text \<open>
  \<open>_SENSITIVE.search\<close>: the alternatives of the pattern, with the optional separators of
  \<open>api[_-]?key\<close> and \<open>access[_-]?key\<close> written out, looked for in any letter case.
\<close>

definition sensitive_words :: "string list" where
  "sensitive_words = [''secret'', ''password'', ''token'', ''authorization'', ''credential'',
     ''apikey'', ''api_key'', ''api-key'', ''accesskey'', ''access_key'', ''access-key'']"

definition sensitive :: "string \<Rightarrow> bool" where
  "sensitive key = list_ex (\<lambda>w. contains w (lower key)) sensitive_words"

text \<open>
  \<open>_BEARER.sub\<close>: at a word boundary, the word \<open>Bearer\<close> in any letter case, white space and a
  non-empty run of token characters. A match is the token's last character and what follows it.
\<close>

definition word_char :: "char \<Rightarrow> bool" where
  "word_char c = (is_alnum c \<or> c = CHR ''_'')"

definition token_char :: "char \<Rightarrow> bool" where
  "token_char c = (is_alnum c \<or> c \<in> set ''._~+/=-'')"

definition match_bearer :: "bool \<Rightarrow> string \<Rightarrow> (char \<times> string) option" where
  "match_bearer prev_word s =
     (if \<not> prev_word \<and> lower (take 6 s) = ''bearer''
      then let r = drop 6 s; t = dropWhile is_space r; tok = takeWhile token_char t
           in if r \<noteq> t \<and> tok \<noteq> [] then Some (last tok, dropWhile token_char t) else None
      else None)"

lemma dropWhile_le: "length (dropWhile p s) \<le> length s"
  by (induction s) auto

lemma match_bearer_shorter:
  assumes "match_bearer p s = Some (c, rest)" shows "length rest < length s"
proof -
  from assms have ne: "takeWhile token_char (dropWhile is_space (drop 6 s)) \<noteq> []"
    and rest: "rest = dropWhile token_char (dropWhile is_space (drop 6 s))"
    by (auto simp: match_bearer_def Let_def split: if_splits)
  let ?t = "dropWhile is_space (drop 6 s)"
  from ne have "?t \<noteq> []" and "token_char (hd ?t)" by (cases ?t; auto split: if_splits)+
  then have "length rest < length ?t"
    unfolding rest by (cases ?t) (auto simp: dropWhile_le less_Suc_eq_le)
  also have "length ?t \<le> length s"
    using dropWhile_le [of is_space "drop 6 s"] by simp
  finally show ?thesis .
qed

function bearer_sub :: "bool \<Rightarrow> string \<Rightarrow> string" where
  "bearer_sub prev_word [] = []"
| "bearer_sub prev_word (c # cs) =
     (case match_bearer prev_word (c # cs) of
        Some (l, rest) \<Rightarrow> ''Bearer [REDACTED]'' @ bearer_sub (word_char l) rest
      | None \<Rightarrow> c # bearer_sub (word_char c) cs)"
  by pat_completeness auto
termination
  by (relation "measure (\<lambda>(p, s). length s)") (auto dest: match_bearer_shorter)

fun redact :: "pyval \<Rightarrow> pyval" where
  "redact (PStr s) = PStr (bearer_sub False s)"
| "redact (PDict kvs) =
     PDict (map (\<lambda>(k, v). (k, if sensitive k then PStr ''[REDACTED]'' else redact v)) kvs)"
| "redact (PList vs) = PList (map redact vs)"
| "redact (PTuple vs) = PTuple (map redact vs)"
| "redact PNone = PNone"
| "redact (PBool b) = PBool b"
| "redact (PInt n) = PInt n"

definition redact_str :: "string \<Rightarrow> string" where
  "redact_str s = bearer_sub False s"

section \<open>What redaction promises\<close>

text \<open>
  \<open>no_bearer prev s\<close>: no position of \<open>s\<close> starts a bearer credential. \<open>clean v\<close>: no string
  inside \<open>v\<close> holds one, and every value under a sensitive key is the placeholder.
\<close>

fun no_bearer :: "bool \<Rightarrow> string \<Rightarrow> bool" where
  "no_bearer prev_word [] = True"
| "no_bearer prev_word (c # cs) =
     (match_bearer prev_word (c # cs) = None \<and> no_bearer (word_char c) cs)"

fun clean :: "pyval \<Rightarrow> bool" where
  "clean (PStr s) = no_bearer False s"
| "clean (PDict kvs) = list_all (\<lambda>(k, v). if sensitive k then v = PStr ''[REDACTED]'' else clean v) kvs"
| "clean (PList vs) = list_all clean vs"
| "clean (PTuple vs) = list_all clean vs"
| "clean PNone = True"
| "clean (PBool b) = True"
| "clean (PInt n) = True"

lemma bearer_sub_id: "no_bearer p s \<Longrightarrow> bearer_sub p s = s"
  by (induction p s rule: no_bearer.induct) simp_all

lemma match_bearer_word [simp]: "match_bearer True s = None"
  by (simp add: match_bearer_def)

lemma bearer_sub_word: "bearer_sub True (c # s) = c # bearer_sub (word_char c) s"
  by (simp add: match_bearer_word)

definition token_head :: "string \<Rightarrow> bool" where
  "token_head s = (case s of [] \<Rightarrow> False | c # _ \<Rightarrow> token_char c)"

definition bearer_at :: "bool \<Rightarrow> string \<Rightarrow> bool" where
  "bearer_at p s = (\<not> p \<and> lower (take 6 s) = ''bearer''
     \<and> (case drop 6 s of [] \<Rightarrow> False | x # r \<Rightarrow> is_space x \<and> token_head (dropWhile is_space r)))"

lemma match_bearer_None: "match_bearer p s = None \<longleftrightarrow> \<not> bearer_at p s"
proof -
  have space: "drop 6 s \<noteq> dropWhile is_space (drop 6 s) \<longleftrightarrow>
      (case drop 6 s of [] \<Rightarrow> False | x # r \<Rightarrow> is_space x)"
    using dropWhile_le [of is_space] by (cases "drop 6 s") (auto, metis Suc_n_not_le_n length_Cons)
  have tok: "takeWhile token_char t \<noteq> [] \<longleftrightarrow> token_head t" for t
    by (cases t) (auto simp: token_head_def)
  show ?thesis
    unfolding match_bearer_def Let_def bearer_at_def
    using space tok by (auto split: list.splits)
qed

lemma b_token: "\<forall>c. lower_char c = CHR ''b'' \<longrightarrow> token_char c \<and> \<not> is_space c"
  by code_simp

lemma bearer_word_chars:
  "\<forall>c. lower_char c \<in> set ''bearer'' \<longrightarrow> word_char c"
  by code_simp

lemma token_head_sub:
  "token_head (dropWhile is_space (bearer_sub q r)) \<Longrightarrow> token_head (dropWhile is_space r)"
proof (induction r arbitrary: q)
  case Nil
  then show ?case by simp
next
  case (Cons c r)
  show ?case
  proof (cases "match_bearer q (c # r)")
    case None
    with Cons show ?thesis by (auto simp: token_head_def)
  next
    case (Some m)
    then have "lower_char c = CHR ''b''"
      using match_bearer_None [of q "c # r"] by (simp add: lower_def bearer_at_def)
    with b_token show ?thesis by (simp add: token_head_def)
  qed
qed

lemma sub_prefix:
  assumes "lower (take n (bearer_sub True s)) = w" and "length w = n" and "set w \<subseteq> set ''bearer''"
  shows "lower (take n s) = w \<and> drop n (bearer_sub True s) = bearer_sub True (drop n s)"
  using assms
proof (induction n arbitrary: s w)
  case 0
  then show ?case by simp
next
  case (Suc n)
  from Suc.prems obtain x w' where w: "w = x # w'" by (cases w) auto
  with Suc.prems obtain c s' where s: "s = c # s'"
    by (cases s) (auto simp: lower_def)
  have step: "bearer_sub True s = c # bearer_sub (word_char c) s'"
    unfolding s by (rule bearer_sub_word)
  with Suc.prems(1) w have c: "lower_char c = x" by (simp add: lower_def)
  with Suc.prems(3) w have "word_char c" using bearer_word_chars by auto
  with step have sub: "bearer_sub True s = c # bearer_sub True s'" by simp
  with Suc.prems w have "lower (take n (bearer_sub True s')) = w'" "length w' = n"
    "set w' \<subseteq> set ''bearer''" by (auto simp: lower_def)
  from Suc.IH [OF this] c w s sub show ?case by (simp add: lower_def)
qed

lemma match_sub:
  assumes at: "bearer_at p (c # bearer_sub (word_char c) s)"
  shows "bearer_at p (c # s)"
proof -
  let ?o = "bearer_sub (word_char c) s"
  from at have p: "\<not> p" and low: "lower (take 6 (c # ?o)) = ''bearer''"
    and tail: "case drop 5 ?o of [] \<Rightarrow> False
      | x # r \<Rightarrow> is_space x \<and> token_head (dropWhile is_space r)"
    by (auto simp: bearer_at_def)
  from low have c: "lower_char c = CHR ''b''" and low5: "lower (take 5 ?o) = ''earer''"
    by (simp_all add: lower_def)
  from c bearer_word_chars have w: "word_char c" by simp
  with low5 have pre: "lower (take 5 s) = ''earer''"
    and rest: "drop 5 ?o = bearer_sub True (drop 5 s)"
    using sub_prefix [of 5 s "''earer''"] by simp_all
  have "case drop 5 s of [] \<Rightarrow> False
      | x # r \<Rightarrow> is_space x \<and> token_head (dropWhile is_space r)"
  proof (cases "drop 5 s")
    case Nil
    with tail rest show ?thesis by simp
  next
    case (Cons x r)
    then have "drop 5 ?o = x # bearer_sub (word_char x) r"
      unfolding rest by (simp only: bearer_sub_word)
    with tail Cons show ?thesis by (auto dest: token_head_sub)
  qed
  with p c pre show ?thesis by (auto simp: bearer_at_def lower_def)
qed

lemma placeholder_no_match:
  "match_bearer False (''Bearer [REDACTED]'' @ r) = None" "\<not> token_char CHR ''[''"
  by (auto simp: match_bearer_def Let_def is_space_def token_char_def is_alnum_def is_digit_def
      is_upper_def is_lower_def)

lemma no_match_not_b: "lower_char c \<noteq> CHR ''b'' \<Longrightarrow> match_bearer p (c # s) = None"
  by (simp add: match_bearer_None bearer_at_def lower_def)

lemma lower_consts: "list_all (\<lambda>c. lower_char c \<noteq> CHR ''b'') ''earer [REDACTED]''"
  by code_simp

lemma no_bearer_append_plain:
  "list_all (\<lambda>c. lower_char c \<noteq> CHR ''b'') w \<Longrightarrow> w \<noteq> [] \<Longrightarrow>
     no_bearer p (w @ r) = no_bearer (word_char (last w)) r"
  by (induction w arbitrary: p) (auto simp: no_match_not_b)

lemma no_bearer_placeholder:
  "\<not> p \<Longrightarrow> no_bearer False r \<Longrightarrow> no_bearer p (''Bearer [REDACTED]'' @ r)"
  using placeholder_no_match(1) [of r] no_bearer_append_plain [OF lower_consts, of _ r]
  by (simp add: word_char_def is_alnum_def is_digit_def is_upper_def is_lower_def)

lemma dropWhile_head: "\<not> token_head (dropWhile token_char t)"
  by (induction t) (auto simp: token_head_def)

lemma match_rest_no_token:
  "match_bearer p s = Some (l, rest) \<Longrightarrow> \<not> token_head rest"
  by (auto simp: match_bearer_def Let_def dropWhile_head split: if_splits)

lemma no_bearer_any_prev:
  assumes "no_bearer q r" "\<not> token_head r" shows "no_bearer p r"
proof (cases r)
  case (Cons c cs)
  with assms have "\<not> token_char c" by (simp add: token_head_def)
  then have "lower_char c \<noteq> CHR ''b''" using b_token by blast
  with assms Cons show ?thesis by (simp add: no_match_not_b)
qed simp

lemma sub_not_token_head:
  "\<not> token_head r \<Longrightarrow> \<not> token_head (bearer_sub q r)"
proof (cases r)
  case (Cons c cs)
  assume "\<not> token_head r"
  with Cons have "\<not> token_char c" by (simp add: token_head_def)
  moreover then have "lower_char c \<noteq> CHR ''b''" using b_token by blast
  ultimately show ?thesis using Cons by (simp add: no_match_not_b token_head_def)
qed (simp add: token_head_def)

lemma no_bearer_sub: "no_bearer p (bearer_sub p s)"
proof (induction p s rule: bearer_sub.induct)
  case (1 p)
  then show ?case by simp
next
  case (2 p c cs)
  show ?case
  proof (cases "match_bearer p (c # cs)")
    case None
    then have "match_bearer p (c # bearer_sub (word_char c) cs) = None"
      using match_sub by (auto simp: match_bearer_None)
    with None 2(1) show ?thesis by simp
  next
    case (Some m)
    obtain l rest where m: "m = (l, rest)" by (cases m)
    from Some have "\<not> p" using match_bearer_word by (cases p) auto
    moreover have "no_bearer False (bearer_sub (word_char l) rest)"
    proof (rule no_bearer_any_prev)
      show "no_bearer (word_char l) (bearer_sub (word_char l) rest)"
        using 2(2) Some m by blast
      show "\<not> token_head (bearer_sub (word_char l) rest)"
        using sub_not_token_head match_rest_no_token Some m by blast
    qed
    ultimately show ?thesis using Some m no_bearer_placeholder by simp
  qed
qed

lemma clean_redact: "clean (redact v)"
  by (induction v rule: redact.induct)
    (auto simp: no_bearer_sub list_all_iff split: if_splits)

lemma redact_clean: "clean v \<Longrightarrow> redact v = v"
  by (induction v rule: redact.induct)
    (auto simp: bearer_sub_id list_all_iff intro!: map_idI split: if_splits)

text \<open>C15: Redaction removes every credential it is meant to remove, at any depth: in the redacted
  value no string holds a bearer token and every entry under a sensitive key is the placeholder.
  Redacting a second time changes nothing, so a value redacted on the way into a job and again
  on the way into an audit event is stored as it was.
\<close>

theorem redact_clean_and_idempotent: "clean (redact v) \<and> redact (redact v) = redact v"
  using clean_redact redact_clean by blast

end
