(* ===== verification/Paths.thy ===== *)
theory Paths
  imports Prelude
begin

text \<open>
  Paths and the file system the code works on, and the containment checks of
  \<open>domain/storage.py\<close>. An absolute path is the list of its components; a file system maps
  paths to files, directories and symbolic links. Resolution follows links as the operating
  system does. The lemmas show that a path the checks accept lies beneath its root and holds no
  link, so no source name can make the code read or write elsewhere.
\<close>

type_synonym path = "string list"

datatype node = File bytes nat int | Dir | Symlink string

type_synonym fsys = "(path \<times> node) list"

section \<open>Pure paths\<close>

text \<open>\<open>PurePath\<close> drops empty and dot components when it parses a string.\<close>

definition parts :: "string \<Rightarrow> string list" where
  "parts s = filter (\<lambda>p. p \<noteq> [] \<and> p \<noteq> ''.'') (split_on (CHR ''/'') s)"

definition is_absolute :: "string \<Rightarrow> bool" where
  "is_absolute s = startswith s ''/''"

definition is_relative_to :: "path \<Rightarrow> path \<Rightarrow> bool" where
  "is_relative_to p rt = (take (length rt) p = rt)"

text \<open>\<open>PurePath.suffix\<close> and \<open>stem\<close> of a name: the last dot, unless it starts or ends the name.\<close>

fun rfind_dot :: "string \<Rightarrow> nat option" where
  "rfind_dot [] = None"
| "rfind_dot (c # cs) = (case rfind_dot cs of Some i \<Rightarrow> Some (Suc i)
     | None \<Rightarrow> if c = CHR ''.'' then Some 0 else None)"

definition dot_at :: "string \<Rightarrow> nat option" where
  "dot_at name = (case rfind_dot name of None \<Rightarrow> None
     | Some i \<Rightarrow> if 0 < i \<and> i < length name - 1 then Some i else None)"

definition path_stem :: "string \<Rightarrow> string" where
  "path_stem name = (case dot_at name of None \<Rightarrow> name | Some i \<Rightarrow> take i name)"

definition path_suffix :: "string \<Rightarrow> string" where
  "path_suffix name = (case dot_at name of None \<Rightarrow> [] | Some i \<Rightarrow> drop i name)"

definition with_name :: "path \<Rightarrow> string \<Rightarrow> path" where
  "with_name p name = butlast p @ [name]"

lemma stem_suffix: "path_stem name @ path_suffix name = name"
  by (simp add: path_stem_def path_suffix_def split: option.split)

section \<open>The file system\<close>

definition node_at :: "fsys \<Rightarrow> path \<Rightarrow> node option" where
  "node_at fs p = (if p = [] then Some Dir else map_of fs p)"

definition set_node :: "path \<Rightarrow> node \<Rightarrow> fsys \<Rightarrow> fsys" where
  "set_node p n fs = AList.update p n fs"

definition del_node :: "path \<Rightarrow> fsys \<Rightarrow> fsys" where
  "del_node p fs = AList.delete p fs"

definition is_link :: "node option \<Rightarrow> bool" where
  "is_link n = (case n of Some (Symlink _) \<Rightarrow> True | _ \<Rightarrow> False)"

definition is_reg :: "node option \<Rightarrow> bool" where
  "is_reg n = (case n of Some (File _ _ _) \<Rightarrow> True | _ \<Rightarrow> False)"

text \<open>The kernel's bound on the links followed in one resolution (Linux: 40).\<close>

definition max_links :: nat where "max_links = 40"

text \<open>
  \<open>Path.resolve\<close>: \<open>acc\<close> is the resolved part, the list the components still to walk. A missing
  component, or one below a regular file, is an error only when \<open>strict\<close>; a link restarts at its
  target; too many links are the symlink-loop error.
\<close>

function resolve :: "fsys \<Rightarrow> bool \<Rightarrow> nat \<Rightarrow> path \<Rightarrow> string list \<Rightarrow> exn + path" where
  "resolve fs strict n acc [] = Inr acc"
| "resolve fs strict n acc (c # cs) =
     (if c = ''..'' then resolve fs strict n (butlast acc) cs
      else if strict \<and> is_reg (node_at fs acc) then Inl NotADirectoryError
      else case node_at fs (acc @ [c]) of
        None \<Rightarrow> (if strict then Inl FileNotFoundError else resolve fs strict n (acc @ [c]) cs)
      | Some (Symlink t) \<Rightarrow>
          (if n = 0 then Inl (RuntimeError ''Symlink loop'')
           else resolve fs strict (n - 1) (if is_absolute t then [] else acc) (parts t @ cs))
      | Some (File b i m) \<Rightarrow> resolve fs strict n (acc @ [c]) cs
      | Some Dir \<Rightarrow> resolve fs strict n (acc @ [c]) cs)"
  by pat_completeness auto
termination
  by (relation "measures [\<lambda>(fs, strict, n, acc, cs). n, \<lambda>(fs, strict, n, acc, cs). length cs]") auto

definition resolve_path :: "fsys \<Rightarrow> bool \<Rightarrow> path \<Rightarrow> exn + path" where
  "resolve_path fs strict p = resolve fs strict max_links [] p"

text \<open>\<open>follow\<close> is what \<open>stat\<close> sees (links followed), \<open>lnode\<close> what \<open>lstat\<close> sees.\<close>

definition follow :: "fsys \<Rightarrow> path \<Rightarrow> node option" where
  "follow fs p = (case resolve_path fs True p of Inl _ \<Rightarrow> None | Inr q \<Rightarrow> node_at fs q)"

definition lnode :: "fsys \<Rightarrow> path \<Rightarrow> node option" where
  "lnode fs p = (if p = [] then Some Dir
     else case resolve_path fs True (butlast p) of Inl _ \<Rightarrow> None
       | Inr q \<Rightarrow> if node_at fs q = Some Dir then node_at fs (q @ [last p]) else None)"

definition path_exists :: "fsys \<Rightarrow> path \<Rightarrow> bool" where
  "path_exists fs p = (follow fs p \<noteq> None)"

definition is_file :: "fsys \<Rightarrow> path \<Rightarrow> bool" where
  "is_file fs p = is_reg (follow fs p)"

definition is_dir :: "fsys \<Rightarrow> path \<Rightarrow> bool" where
  "is_dir fs p = (follow fs p = Some Dir)"

definition is_symlink :: "fsys \<Rightarrow> path \<Rightarrow> bool" where
  "is_symlink fs p = is_link (lnode fs p)"

definition st_size :: "node \<Rightarrow> nat" where
  "st_size n = (case n of File b _ _ \<Rightarrow> length b | Dir \<Rightarrow> 4096 | Symlink t \<Rightarrow> length t)"

lemma node_at_set [simp]:
  "p \<noteq> [] \<Longrightarrow> node_at (set_node p n fs) q = (if q = p then Some n else node_at fs q)"
  by (auto simp: node_at_def set_node_def update_conv)

lemma node_at_del [simp]:
  "p \<noteq> [] \<Longrightarrow> node_at (del_node p fs) q = (if q = p then None else node_at fs q)"
  by (auto simp: node_at_def del_node_def delete_conv)

lemma node_at_root [simp]: "node_at fs [] = Some Dir"
  by (simp add: node_at_def)

text \<open>\<open>canonical fs p\<close>: no component of \<open>p\<close> is a link or a parent reference.\<close>

definition canonical :: "fsys \<Rightarrow> path \<Rightarrow> bool" where
  "canonical fs p = ((\<forall>k \<le> length p. \<not> is_link (node_at fs (take k p))) \<and> ''..'' \<notin> set p)"

lemma canonical_code [code]:
  "canonical fs p \<longleftrightarrow>
     list_all (\<lambda>k. \<not> is_link (node_at fs (take k p))) [0..<Suc (length p)] \<and> ''..'' \<notin> set p"
  by (auto simp: canonical_def list_all_iff less_Suc_eq_le)

lemma canonical_Nil [simp]: "canonical fs []"
  by (simp add: canonical_def is_link_def)

lemma canonical_snoc:
  "canonical fs (p @ [c]) \<longleftrightarrow> canonical fs p \<and> \<not> is_link (node_at fs (p @ [c])) \<and> c \<noteq> ''..''"
  by (auto simp: canonical_def le_Suc_eq)

lemma canonical_prefix: "canonical fs (p @ q) \<Longrightarrow> canonical fs p"
proof (induction q rule: rev_induct)
  case (snoc c q)
  then show ?case by (metis append_assoc canonical_snoc)
qed simp

lemma canonical_butlast: "canonical fs p \<Longrightarrow> canonical fs (butlast p)"
  by (cases p rule: rev_cases) (auto dest: canonical_prefix)

lemma canonical_node: "canonical fs p \<Longrightarrow> \<not> is_link (node_at fs p)"
  by (auto simp: canonical_def)

lemma resolve_canonical:
  "resolve fs strict n acc cs = Inr p \<Longrightarrow> canonical fs acc \<Longrightarrow> canonical fs p"
proof (induction fs strict n acc cs rule: resolve.induct)
  case (1 fs strict n acc)
  then show ?case by simp
next
  case (2 fs strict n acc c cs)
  then show ?case
    by (auto simp: canonical_snoc canonical_butlast is_link_def
        split: if_splits option.splits node.splits)
qed

lemma resolve_fixed:
  "canonical fs (acc @ cs) \<Longrightarrow> resolve fs False n acc cs = Inr (acc @ cs)"
proof (induction cs arbitrary: acc)
  case (Cons c cs)
  from Cons.prems have "canonical fs (acc @ [c])"
    using canonical_prefix [of fs "acc @ [c]" cs] by simp
  with Cons show ?case
    by (auto simp: canonical_snoc is_link_def split: option.splits node.splits)
qed simp

lemma resolve_no_links:
  "resolve fs strict n acc cs = Inr p \<Longrightarrow> canonical fs (acc @ cs) \<Longrightarrow> p = acc @ cs"
proof (induction cs arbitrary: acc)
  case (Cons c cs)
  from Cons.prems have "canonical fs (acc @ [c])"
    using canonical_prefix [of fs "acc @ [c]" cs] by simp
  with Cons.prems Cons.IH [of "acc @ [c]"] show ?case
    by (auto simp: canonical_snoc is_link_def split: option.splits node.splits if_splits)
qed simp

lemma resolve_prefix:
  "resolve fs strict n acc cs = Inr p \<Longrightarrow> cs = as @ bs \<Longrightarrow> \<exists>q. resolve fs strict n acc as = Inr q"
proof (induction fs strict n acc cs arbitrary: as rule: resolve.induct)
  case (1 fs strict n acc)
  then show ?case by simp
next
  case (2 fs strict n acc c cs)
  show ?case
  proof (cases as)
    case Nil
    then show ?thesis by simp
  next
    case (Cons a as')
    with "2.prems"(2) have a: "a = c" "cs = as' @ bs" by simp_all
    show ?thesis
    proof (cases "c \<noteq> ''..'' \<and> is_link (node_at fs (acc @ [c]))")
      case True
      then obtain t where t: "node_at fs (acc @ [c]) = Some (Symlink t)"
        by (auto simp: is_link_def split: option.splits node.splits)
      from True t "2.prems"(1) have n: "n \<noteq> 0" and reg: "\<not> (strict \<and> is_reg (node_at fs acc))"
        by (auto split: if_splits)
      have "\<exists>q. resolve fs strict (n - 1) (if is_absolute t then [] else acc) (parts t @ as') = Inr q"
        using "2.IH"(5) [OF _ reg t refl n, of "parts t @ as'"] True reg t n a "2.prems"(1)
        by (auto split: if_splits)
      with True reg t n Cons a show ?thesis by auto
    next
      case False
      with a Cons "2.prems"(1) "2.IH"(1) "2.IH"(2) "2.IH"(3) "2.IH"(4) show ?thesis
        by (auto simp: is_link_def split: if_splits option.splits node.splits)
    qed
  qed
qed

definition dirs_to :: "fsys \<Rightarrow> path \<Rightarrow> bool" where
  "dirs_to fs p = (\<forall>k < length p. node_at fs (take k p) = Some Dir)"

lemma dirs_to_code [code]:
  "dirs_to fs p = list_all (\<lambda>k. node_at fs (take k p) = Some Dir) [0..<length p]"
  by (auto simp: dirs_to_def list_all_iff)

lemma dirs_to_snoc: "dirs_to fs (p @ [c]) \<longleftrightarrow> dirs_to fs p \<and> node_at fs p = Some Dir"
  by (auto simp: dirs_to_def less_Suc_eq)

lemma dirs_to_prefix: "dirs_to fs (p @ q) \<Longrightarrow> dirs_to fs p"
  by (auto simp: dirs_to_def) (metis add.commute append.right_neutral diff_is_0_eq' less_imp_le
      take_0 take_append trans_less_add2)

lemma resolve_dirs_to:
  "resolve fs True n acc cs = Inr p \<Longrightarrow> canonical fs (acc @ cs) \<Longrightarrow> dirs_to fs acc \<Longrightarrow>
     node_at fs acc \<noteq> None \<Longrightarrow> dirs_to fs (acc @ cs) \<and> node_at fs (acc @ cs) \<noteq> None"
proof (induction cs arbitrary: acc)
  case (Cons c cs)
  have can: "canonical fs (acc @ [c])" "canonical fs acc"
    using Cons.prems(2) canonical_prefix [of fs "acc @ [c]" cs] canonical_prefix [of fs acc] by auto
  then have c: "c \<noteq> ''..''" "\<not> is_link (node_at fs (acc @ [c]))"
    by (simp_all add: canonical_snoc)
  with Cons.prems(1) have reg: "\<not> is_reg (node_at fs acc)" by auto
  have "node_at fs acc = Some Dir"
    using reg canonical_node [OF can(2)] Cons.prems(4)
    by (cases "node_at fs acc") (auto simp: is_reg_def is_link_def split: node.splits)
  with Cons.prems(3) have dirs: "dirs_to fs (acc @ [c])" by (simp add: dirs_to_snoc)
  have rest: "resolve fs True n (acc @ [c]) cs = Inr p" "node_at fs (acc @ [c]) \<noteq> None"
    using Cons.prems(1) c reg by (auto simp: is_link_def split: option.splits node.splits)
  from Cons.IH [OF rest(1) _ dirs rest(2)] Cons.prems(2) show ?case by simp
qed simp

lemma resolve_dirs:
  "dirs_to fs (acc @ cs) \<Longrightarrow> canonical fs (acc @ cs) \<Longrightarrow> node_at fs (acc @ cs) \<noteq> None \<Longrightarrow>
     resolve fs True n acc cs = Inr (acc @ cs)"
proof (induction cs arbitrary: acc)
  case (Cons c cs)
  have can: "canonical fs (acc @ [c])" and dirs: "dirs_to fs (acc @ [c])"
    using Cons.prems canonical_prefix [of fs "acc @ [c]" cs] dirs_to_prefix [of fs "acc @ [c]" cs]
    by auto
  have ex: "node_at fs (acc @ [c]) \<noteq> None"
  proof (cases cs)
    case Nil
    with Cons.prems(3) show ?thesis by simp
  next
    case (Cons x xs)
    with Cons.prems(1) have "dirs_to fs ((acc @ [c]) @ x # xs)" by simp
    then have "node_at fs (take (Suc (length acc)) ((acc @ [c]) @ x # xs)) = Some Dir"
      unfolding dirs_to_def by (elim allE [of _ "Suc (length acc)"]) simp
    then show ?thesis by simp
  qed
  have acc: "node_at fs acc = Some Dir" using dirs by (simp add: dirs_to_snoc)
  from Cons.IH [of "acc @ [c]"] Cons.prems have "resolve fs True n (acc @ [c]) cs = Inr (acc @ c # cs)"
    by simp
  with can ex acc show ?case
    by (auto simp: canonical_snoc is_link_def is_reg_def split: option.splits node.splits)
qed simp

lemma resolve_path_strict_iff:
  assumes "canonical fs p"
  shows "resolve_path fs True p = Inr q \<longleftrightarrow> q = p \<and> dirs_to fs p \<and> node_at fs p \<noteq> None"
proof
  assume r: "resolve_path fs True p = Inr q"
  with assms show "q = p \<and> dirs_to fs p \<and> node_at fs p \<noteq> None"
    using resolve_no_links [of fs True max_links "[]" p q]
      resolve_dirs_to [of fs max_links "[]" p q]
    by (simp add: resolve_path_def dirs_to_def)
next
  assume "q = p \<and> dirs_to fs p \<and> node_at fs p \<noteq> None"
  with assms show "resolve_path fs True p = Inr q"
    using resolve_dirs [of fs "[]" p max_links] by (simp add: resolve_path_def)
qed

lemma resolve_path_strict_cases:
  assumes "canonical fs p"
  obtains (ok) "resolve_path fs True p = Inr p" "dirs_to fs p" "node_at fs p \<noteq> None"
    | (bad) e where "resolve_path fs True p = Inl e" "\<not> (dirs_to fs p \<and> node_at fs p \<noteq> None)"
proof (cases "resolve_path fs True p")
  case (Inl e)
  then have "resolve_path fs True p \<noteq> Inr p" by simp
  with resolve_path_strict_iff [OF assms, of p] Inl that(2) show ?thesis by blast
next
  case (Inr q)
  with resolve_path_strict_iff [OF assms, of q] that(1) show ?thesis by blast
qed

lemma follow_canonical:
  assumes "canonical fs p"
  shows "follow fs p = (if dirs_to fs p then node_at fs p else None)"
  using assms by (cases rule: resolve_path_strict_cases) (auto simp: follow_def)

lemma lnode_canonical:
  assumes "canonical fs p"
  shows "lnode fs p = (if dirs_to fs p then node_at fs p else None)"
proof (cases p rule: rev_cases)
  case Nil
  then show ?thesis by (simp add: lnode_def dirs_to_def)
next
  case (snoc q c)
  with assms have q: "canonical fs q" by (simp add: canonical_snoc)
  show ?thesis
    using q by (cases rule: resolve_path_strict_cases) (auto simp: lnode_def dirs_to_snoc snoc)
qed

lemma resolve_below_dir:
  "resolve fs True n acc (cs @ [c]) = Inr p \<Longrightarrow> canonical fs (acc @ cs) \<Longrightarrow> c \<noteq> ''..'' \<Longrightarrow>
     \<not> is_reg (node_at fs (acc @ cs))"
proof (induction cs arbitrary: acc)
  case Nil
  then show ?case by auto
next
  case (Cons d ds)
  have "canonical fs (acc @ [d])"
    using Cons.prems(2) canonical_prefix [of fs "acc @ [d]" ds] by auto
  with Cons.prems Cons.IH [of "acc @ [d]"] show ?case
    by (auto simp: canonical_snoc is_link_def split: option.splits node.splits if_splits)
qed

lemma resolve_strict_exists:
  "resolve fs True n acc cs = Inr p \<Longrightarrow> cs \<noteq> [] \<or> node_at fs acc \<noteq> None \<Longrightarrow>
     (\<forall>k. node_at fs (take k acc) \<noteq> None) \<Longrightarrow> (\<forall>k. node_at fs (take k p) \<noteq> None)"
proof (induction fs True n acc cs rule: resolve.induct)
  case (1 fs n acc)
  then show ?case by simp
next
  case (2 fs n acc c cs)
  have up: "\<forall>k. node_at fs (take k (butlast acc)) \<noteq> None"
    using "2.prems"(3) by (metis butlast_conv_take take_take)
  have down: "node_at fs (acc @ [c]) \<noteq> None \<Longrightarrow> \<forall>k. node_at fs (take k (acc @ [c])) \<noteq> None"
    using "2.prems"(3) by (simp add: take_Cons')
  have ne: "node_at fs acc \<noteq> None" "node_at fs (butlast acc) \<noteq> None"
    using "2.prems"(3) up by (metis order_refl take_all)+
  from 2 up down ne show ?case
    by (auto split: if_splits option.splits node.splits)
qed

section \<open>domain/storage.py\<close>

definition safe_relative_path :: "string \<Rightarrow> exn + string list" where
  "safe_relative_path v =
     (let ps = parts v in
      if is_absolute v \<or> ps = [] then Inl (UnsafePath ''path must be non-empty and relative'')
      else if list_ex (\<lambda>p. p \<in> {[], ''.'', ''..''}) ps
           then Inl (UnsafePath ''path contains unsafe segment'')
      else Inr ps)"

definition resolve_beneath :: "fsys \<Rightarrow> path \<Rightarrow> string \<Rightarrow> bool \<Rightarrow> exn + path" where
  "resolve_beneath fs rt relative must_exist =
     (case resolve_path fs True rt of Inl e \<Rightarrow> Inl e
      | Inr root_resolved \<Rightarrow>
     (case safe_relative_path relative of Inl e \<Rightarrow> Inl e
      | Inr rel \<Rightarrow>
     (case resolve_path fs must_exist (root_resolved @ rel) of Inl e \<Rightarrow> Inl e
      | Inr resolved \<Rightarrow>
        if \<not> is_relative_to resolved root_resolved
        then Inl (UnsafePath ''path escapes configured root'')
        else if must_exist \<and>
             list_ex (\<lambda>k. is_symlink fs (root_resolved @ take (Suc k) rel)) [0..<length rel]
        then Inl (UnsafePath ''symlinks are not allowed'')
        else Inr resolved)))"

record storage_identity =
  si_path :: path
  device_id :: nat
  filesystem_uuid :: "string option"

text \<open>The device number \<open>os.stat\<close> reports is the parameter \<open>st_dev\<close>.\<close>

definition storage_identity_of ::
  "fsys \<Rightarrow> (path \<Rightarrow> nat) \<Rightarrow> path \<Rightarrow> string option \<Rightarrow> exn + storage_identity" where
  "storage_identity_of fs st_dev p uuid =
     (case resolve_path fs True p of Inl e \<Rightarrow> Inl e
      | Inr q \<Rightarrow> Inr \<lparr>si_path = q, device_id = st_dev q, filesystem_uuid = uuid\<rparr>)"

definition truthy_str :: "string option \<Rightarrow> bool" where
  "truthy_str s = (case s of None \<Rightarrow> False | Some t \<Rightarrow> t \<noteq> [])"

definition storage_is_separate :: "storage_identity \<Rightarrow> storage_identity \<Rightarrow> bool" where
  "storage_is_separate active backup =
     (if truthy_str (filesystem_uuid active) \<and> truthy_str (filesystem_uuid backup)
      then filesystem_uuid active \<noteq> filesystem_uuid backup
      else device_id active \<noteq> device_id backup)"

lemma parts_clean: "p \<in> set (parts v) \<Longrightarrow> p \<noteq> [] \<and> p \<noteq> ''.''"
  by (simp add: parts_def)

lemma safe_relative_path_Inr:
  "safe_relative_path v = Inr ps \<longleftrightarrow>
     \<not> is_absolute v \<and> ps = parts v \<and> ps \<noteq> [] \<and> ''..'' \<notin> set ps"
  by (auto simp: safe_relative_path_def Let_def list_ex_iff dest: parts_clean)

lemma resolve_beneath_under:
  assumes "resolve_beneath fs rt rel ex = Inr p"
  shows "\<exists>r. resolve_path fs True rt = Inr r \<and> is_relative_to p r \<and> canonical fs p"
  using assms
  by (auto simp: resolve_beneath_def resolve_path_def split: sum.splits if_splits
      dest: resolve_canonical)

lemma resolve_root_canonical: "resolve_path fs s rt = Inr r \<Longrightarrow> canonical fs r"
  unfolding resolve_path_def by (erule resolve_canonical) simp


lemma no_symlinks_canonical:
  assumes res: "resolve_path fs True (r @ rel) = Inr p" and r: "canonical fs r"
    and rel: "''..'' \<notin> set rel"
    and links: "\<forall>k < length rel. \<not> is_symlink fs (r @ take (Suc k) rel)"
  shows "canonical fs (r @ rel)"
proof -
  have "k \<le> length rel \<Longrightarrow> canonical fs (r @ take k rel)" for k
  proof (induction k)
    case 0
    from r show ?case by simp
  next
    case (Suc k)
    then have k: "k < length rel" and can: "canonical fs (r @ take k rel)" by simp_all
    have split: "r @ take (Suc k) rel = (r @ take k rel) @ [rel ! k]"
      using k by (simp add: take_Suc_conv_app_nth)
    have ex: "\<exists>q. resolve_path fs True (r @ take j rel) = Inr q" for j
      using res unfolding resolve_path_def
      by (metis append.assoc append_take_drop_id resolve_prefix)
    obtain q where "resolve_path fs True (r @ take k rel) = Inr q" using ex by blast
    with resolve_path_strict_iff [OF can] have dirs: "dirs_to fs (r @ take k rel)"
      and some: "node_at fs (r @ take k rel) \<noteq> None"
      and q: "resolve_path fs True (r @ take k rel) = Inr (r @ take k rel)" by auto
    have c: "rel ! k \<noteq> ''..''" using rel k by (metis nth_mem)
    have "\<not> is_reg (node_at fs (r @ take k rel))"
      using ex [of "Suc k"] resolve_below_dir [OF _ _ c, of fs max_links "[]" "r @ take k rel"] can
      unfolding split resolve_path_def by auto
    then have dir: "node_at fs (r @ take k rel) = Some Dir"
      using some canonical_node [OF can]
      by (auto simp: is_reg_def is_link_def split: option.splits node.splits)
    with q have "lnode fs (r @ take (Suc k) rel) = node_at fs (r @ take (Suc k) rel)"
      unfolding split by (simp add: lnode_def del: append_assoc)
    moreover from links k have "\<not> is_link (lnode fs (r @ take (Suc k) rel))"
      by (simp add: is_symlink_def)
    ultimately have "\<not> is_link (node_at fs (r @ take (Suc k) rel))" by simp
    then show ?case using can c unfolding split by (simp add: canonical_snoc del: append_assoc)
  qed
  from this [of "length rel"] show ?thesis by simp
qed

lemma resolve_beneath_existing:
  assumes "resolve_beneath fs rt rel True = Inr p"
  shows "\<exists>r. resolve_path fs True rt = Inr r \<and> p = r @ parts rel \<and> canonical fs p
    \<and> node_at fs p \<noteq> None"
proof -
  from assms obtain r ps where r: "resolve_path fs True rt = Inr r"
    and ps: "safe_relative_path rel = Inr ps" and p: "resolve_path fs True (r @ ps) = Inr p"
    and links: "\<forall>k < length ps. \<not> is_symlink fs (r @ take (Suc k) ps)"
    by (auto simp: resolve_beneath_def list_ex_iff split: sum.splits if_splits)
  from ps have ps': "ps = parts rel" "ps \<noteq> []" "''..'' \<notin> set ps"
    by (auto simp: safe_relative_path_Inr)
  have can: "canonical fs (r @ ps)"
    using p resolve_root_canonical [OF r] ps'(3) links by (rule no_symlinks_canonical)
  with p have "p = r @ ps"
    using resolve_no_links [of fs True max_links "[]"] by (simp add: resolve_path_def)
  moreover have "node_at fs (take (length p) p) \<noteq> None"
    using resolve_strict_exists p ps'(2) unfolding resolve_path_def by (metis append_is_Nil_conv
        list.distinct(1) node_at_root option.discI take_Nil)
  ultimately show ?thesis using r ps' can by simp
qed

text \<open>C11: a path \<open>resolve_beneath\<close> returns lies beneath the resolved root and no component of it
  is a link or a parent reference; when existence is required it is exactly the root followed by
  the components of the name, and it exists.\<close>

theorem resolve_beneath_contained:
  assumes "resolve_beneath fs rt rel must_exist = Inr p"
  shows "\<exists>r. resolve_path fs True rt = Inr r \<and> is_relative_to p r \<and> canonical fs p
    \<and> (if must_exist then p = r @ parts rel \<and> node_at fs p \<noteq> None else True)"
  using resolve_beneath_under [OF assms] resolve_beneath_existing [of fs rt rel p] assms by auto

theorem resolve_beneath_contained_witness:
  "\<exists>p. resolve_beneath [([''data''], Symlink ''srv''), ([''srv''], Dir), ([''srv'', ''a''], File [] 1 0)] [''data''] ''a'' True = Inr p
     \<and> is_relative_to p [''srv'']"
proof -
  let ?fs = "[([''data''], Symlink ''srv''), ([''srv''], Dir), ([''srv'', ''a''], File [] 1 0)]"
  have r: "resolve_beneath ?fs [''data''] ''a'' True = Inr [''srv'', ''a'']" by code_simp
  have "resolve_path ?fs True [''data''] = Inr [''srv'']" by code_simp
  with resolve_beneath_contained [OF r] r show ?thesis by auto
qed

end
