(* ===== verification/Fileops.thy ===== *)
theory Fileops
  imports Paths
begin

text \<open>
  The file operations of \<open>adapters/nas/fileops.py\<close>: chunked hashing, the scratch-space
  preflight, the partial-file names and the commit of a staged file into active storage. Each is a
  computation on the file system. \<open>sha\<close> is \<open>hashlib.sha256(...).hexdigest()\<close> of a whole content,
  a parameter throughout; a hash object is the bytes it was fed, as \<open>hashlib\<close> documents.
\<close>

section \<open>Reading, hashing, copying\<close>

definition chunk_size :: nat where "chunk_size = 1024 * 1024"

text \<open>The chunks a loop \<open>while chunk := file.read(chunk_size)\<close> sees.\<close>

function read_chunks :: "bytes \<Rightarrow> bytes list" where
  "read_chunks s = (if s = [] then [] else take chunk_size s # read_chunks (drop chunk_size s))"
  by pat_completeness auto
termination
  by (relation "measure length") (auto simp: chunk_size_def)

declare read_chunks.simps [simp del]

definition digest_update :: "bytes \<Rightarrow> bytes \<Rightarrow> bytes" where
  "digest_update d chunk = d @ chunk"

definition digest_loop :: "bytes \<Rightarrow> bytes" where
  "digest_loop content = foldl digest_update [] (read_chunks content)"

lemma concat_read_chunks: "concat (read_chunks s) = s"
proof (induction s rule: read_chunks.induct)
  case (1 s)
  then show ?case by (subst read_chunks.simps) simp
qed

lemma digest_loop_eq [simp, code]: "digest_loop s = s"
proof -
  have "foldl digest_update a xs = a @ concat xs" for a xs
    by (induction xs arbitrary: a) (simp_all add: digest_update_def)
  then show ?thesis by (simp add: digest_loop_def concat_read_chunks)
qed

text \<open>One chunk suffices for short contents; the comparison is on integers so that it evaluates.\<close>

lemma read_chunks_code [code]:
  "read_chunks s = (if s = [] then [] else if int (length s) \<le> 1048576 then [s]
     else take chunk_size s # read_chunks (drop chunk_size s))"
proof -
  have "read_chunks [] = []" by (subst read_chunks.simps) simp
  then show ?thesis by (subst read_chunks.simps) (auto simp: chunk_size_def)
qed

text \<open>Opening a file for reading: what \<open>path.open("rb")\<close> yields, or the error it raises.\<close>

definition read_bytes :: "path \<Rightarrow> (fsys, bytes) py" where
  "read_bytes p = (\<lambda>fs. (case resolve_path fs True p of Inl e \<Rightarrow> (Inl e, fs)
     | Inr q \<Rightarrow> (case node_at fs q of None \<Rightarrow> (Inl FileNotFoundError, fs)
       | Some (File b i m) \<Rightarrow> (Inr b, fs)
       | Some Dir \<Rightarrow> (Inl IsADirectoryError, fs)
       | Some (Symlink t) \<Rightarrow> (Inl (OSErr ''ELOOP''), fs))))"

definition sha256_file :: "(bytes \<Rightarrow> string) \<Rightarrow> path \<Rightarrow> (fsys, string) py" where
  "sha256_file sha p = bind_py (read_bytes p) (\<lambda>b. ret (sha (digest_loop b)))"

definition stat_size :: "path \<Rightarrow> (fsys, nat) py" where
  "stat_size p = (\<lambda>fs. (case follow fs p of None \<Rightarrow> (Inl FileNotFoundError, fs)
     | Some n \<Rightarrow> (Inr (st_size n), fs)))"

text \<open>
  The content a path leads to; \<open>is_file\<close> and \<open>read_bytes\<close> in terms of it.
\<close>

definition content :: "fsys \<Rightarrow> path \<Rightarrow> bytes option" where
  "content fs p = (case follow fs p of Some (File b _ _) \<Rightarrow> Some b | _ \<Rightarrow> None)"

lemma read_bytes_content: "read_bytes p fs = (Inr b, fs') \<longleftrightarrow> fs' = fs \<and> content fs p = Some b"
  by (auto simp: read_bytes_def content_def follow_def split: sum.splits option.splits node.splits)

lemma read_bytes_state [simp]: "snd (read_bytes p fs) = fs"
  by (auto simp: read_bytes_def split: sum.splits option.splits node.splits)

lemma read_bytes_Some: "content fs p = Some b \<Longrightarrow> read_bytes p fs = (Inr b, fs)"
  using read_bytes_content by blast

lemma sha256_file_state [simp]: "snd (sha256_file sha p fs) = fs"
  by (auto simp: sha256_file_def bind_py_def split: prod.split sum.split
      dest: arg_cong [where f = snd])

lemma sha256_file_Inr:
  "sha256_file sha p fs = (Inr h, fs') \<longleftrightarrow> fs' = fs \<and> (\<exists>b. content fs p = Some b \<and> h = sha b)"
proof -
  have "bind_py (read_bytes p) (\<lambda>b. ret (sha b)) fs = (Inr h, fs') \<longleftrightarrow>
      (\<exists>b. read_bytes p fs = (Inr b, fs') \<and> h = sha b)"
    by (auto simp: bind_py_def split: prod.splits sum.splits)
  then show ?thesis by (auto simp: sha256_file_def read_bytes_content)
qed

lemma sha256_file_Some: "content fs p = Some b \<Longrightarrow> sha256_file sha p fs = (Inr (sha b), fs)"
  by (auto simp: sha256_file_Inr)

lemma is_file_content: "is_file fs p \<longleftrightarrow> content fs p \<noteq> None"
  by (auto simp: is_file_def is_reg_def content_def split: option.splits node.splits)

lemma content_canonical:
  assumes "canonical fs p"
  shows "content fs p = (case node_at fs p of Some (File b _ _) \<Rightarrow> Some b | _ \<Rightarrow> None)
    \<or> content fs p = None"
  using resolve_no_links [of fs True max_links "[]" p] assms
  by (auto simp: content_def follow_def resolve_path_def split: sum.splits)

section \<open>Scratch directories and partial files\<close>

definition scratch_margin_bytes :: nat where "scratch_margin_bytes = 64 * 1024 * 1024"

text \<open>
  \<open>scratch_directory\<close>'s preflight: \<open>free\<close> is \<open>shutil.disk_usage(target).free\<close>. The temporary
  directory itself lives only inside the \<open>with\<close> block of the callers.
\<close>

definition scratch_preflight :: "nat \<Rightarrow> nat \<Rightarrow> ('s, unit) py" where
  "scratch_preflight free required_bytes =
     (if required_bytes \<noteq> 0 \<and> free < required_bytes then raise_py InsufficientScratchSpace
      else ret ())"

definition partial_path :: "path \<Rightarrow> nat \<Rightarrow> path" where
  "partial_path staging_root archive_item_id = staging_root @ [dec archive_item_id @ ''.partial'']"

text \<open>The directory an operation on the entry \<open>p\<close> works in.\<close>

definition parent_dir :: "fsys \<Rightarrow> path \<Rightarrow> exn + path" where
  "parent_dir fs p = (case resolve_path fs True (butlast p) of Inl e \<Rightarrow> Inl e
     | Inr q \<Rightarrow> if node_at fs q = Some Dir then Inr q else Inl NotADirectoryError)"

text \<open>
  \<open>mkdir(parents=True, exist_ok=True)\<close>: the missing directories of a path, outermost first.
\<close>

fun mkdirs_from :: "path \<Rightarrow> string list \<Rightarrow> (fsys, unit) py" where
  "mkdirs_from acc [] = ret ()"
| "mkdirs_from acc (c # cs) = (\<lambda>fs.
     (case follow fs (acc @ [c]) of
        Some Dir \<Rightarrow> mkdirs_from (acc @ [c]) cs fs
      | Some n \<Rightarrow> (Inl (if cs = [] then FileExistsError else NotADirectoryError), fs)
      | None \<Rightarrow> (case parent_dir fs (acc @ [c]) of
            Inl e \<Rightarrow> (Inl e, fs)
          | Inr q \<Rightarrow> (if node_at fs (q @ [c]) \<noteq> None then (Inl FileExistsError, fs)
              else mkdirs_from (acc @ [c]) cs (set_node (q @ [c]) Dir fs)))))"

definition mkdirs :: "path \<Rightarrow> (fsys, unit) py" where
  "mkdirs p = mkdirs_from [] p"

definition unlink :: "path \<Rightarrow> (fsys, unit) py" where
  "unlink p = (\<lambda>fs. (case parent_dir fs p of Inl e \<Rightarrow> (Inl e, fs)
     | Inr q \<Rightarrow> (let r = q @ [last p] in
         case node_at fs r of None \<Rightarrow> (Inl FileNotFoundError, fs)
         | Some Dir \<Rightarrow> (Inl IsADirectoryError, fs)
         | Some _ \<Rightarrow> (Inr (), del_node r fs))))"

text \<open>\<open>os.replace\<close> of a regular file: the destination entry itself is replaced, atomically.\<close>

definition os_replace :: "path \<Rightarrow> path \<Rightarrow> (fsys, unit) py" where
  "os_replace src dst = (\<lambda>fs.
     (case parent_dir fs src of Inl e \<Rightarrow> (Inl e, fs)
      | Inr a \<Rightarrow>
     (case node_at fs (a @ [last src]) of None \<Rightarrow> (Inl FileNotFoundError, fs)
      | Some n \<Rightarrow>
     (case parent_dir fs dst of Inl e \<Rightarrow> (Inl e, fs)
      | Inr b \<Rightarrow>
          if node_at fs (b @ [last dst]) = Some Dir then (Inl IsADirectoryError, fs)
          else if a @ [last src] = b @ [last dst] then (Inr (), fs)
          else (Inr (), set_node (b @ [last dst]) n (del_node (a @ [last src]) fs))))))"

text \<open>\<open>os.utime(final, (t, t), follow_symlinks=False)\<close>.\<close>

definition utime :: "path \<Rightarrow> int \<Rightarrow> (fsys, unit) py" where
  "utime p t = (\<lambda>fs. (case parent_dir fs p of Inl e \<Rightarrow> (Inl e, fs)
     | Inr q \<Rightarrow> (let r = q @ [last p] in
         case node_at fs r of None \<Rightarrow> (Inl FileNotFoundError, fs)
         | Some (File b i m) \<Rightarrow> (Inr (), set_node r (File b i t) fs)
         | Some n \<Rightarrow> (Inr (), fs))))"

section \<open>Committing a staged file\<close>

record commit_receipt =
  cr_path :: path
  cr_size :: nat
  cr_sha256 :: string
  transformed_from :: "string option"

text \<open>
  \<open>commit_target\<close> is the part between the two: the destination, or the collision name when a
  different file has it; \<open>None\<close> when the destination already holds the same content.
\<close>

definition commit_target ::
  "(bytes \<Rightarrow> string) \<Rightarrow> path \<Rightarrow> string \<Rightarrow> string \<Rightarrow> nat \<Rightarrow> path \<Rightarrow>
    (fsys, (path \<times> string option) option) py" where
  "commit_target sha active_root relative_path expected_sha256 expected_size final =
     bind_py (gets (\<lambda>fs. path_exists fs final)) (\<lambda>ex.
     if \<not> ex then ret (Some (final, None)) else
     bind_py (gets (\<lambda>fs. is_symlink fs final)) (\<lambda>link.
     if link then raise_py (ValueError ''destination collision is a symlink'') else
     bind_py (stat_size final) (\<lambda>size.
     bind_py (if size = expected_size then
                bind_py (sha256_file sha final) (\<lambda>h. ret (h = expected_sha256))
              else ret False) (\<lambda>same.
     if same then ret None else
     (let suffix = take 12 expected_sha256;
          name = last final;
          final' = with_name final (path_stem name @ ''.mnema-'' @ suffix @ path_suffix name)
      in bind_py (gets (\<lambda>fs. (resolve_path fs False final', resolve_path fs False active_root)))
         (\<lambda>(a, b). case (a, b) of
             (Inr p, Inr r) \<Rightarrow>
               if \<not> is_relative_to p r
               then raise_py (ValueError ''collision path escapes active root'')
               else ret (Some (final', Some relative_path))
           | (Inl e, _) \<Rightarrow> raise_py e
           | (_, Inl e) \<Rightarrow> raise_py e))))))"

text \<open>\<open>commit_place\<close> is the second half of \<open>commit_staged\<close>, once the staged bytes are checked.\<close>

definition commit_place ::
  "(bytes \<Rightarrow> string) \<Rightarrow> path \<Rightarrow> path \<Rightarrow> string \<Rightarrow> string \<Rightarrow> nat \<Rightarrow> int option \<Rightarrow>
    (fsys, commit_receipt) py" where
  "commit_place sha staged active_root relative_path expected_sha256 expected_size modified_timestamp =
     bind_py (\<lambda>fs. (resolve_beneath fs active_root relative_path False, fs)) (\<lambda>final0.
     seq (mkdirs (butlast final0)) (
     bind_py (\<lambda>fs. (resolve_beneath fs active_root relative_path False, fs)) (\<lambda>final.
     bind_py (commit_target sha active_root relative_path expected_sha256 expected_size final)
       (\<lambda>target. case target of
          None \<Rightarrow> seq (unlink staged) (ret \<lparr>cr_path = final, cr_size = expected_size,
                   cr_sha256 = expected_sha256, transformed_from = None\<rparr>)
        | Some (dst, transformed) \<Rightarrow>
            seq (os_replace staged dst) (
            seq (case modified_timestamp of None \<Rightarrow> ret () | Some t \<Rightarrow> utime dst t) (
            ret \<lparr>cr_path = dst, cr_size = expected_size, cr_sha256 = expected_sha256,
                 transformed_from = transformed\<rparr>))))))"

definition commit_staged ::
  "(bytes \<Rightarrow> string) \<Rightarrow> path \<Rightarrow> path \<Rightarrow> string \<Rightarrow> string \<Rightarrow> nat \<Rightarrow> int option \<Rightarrow>
    (fsys, commit_receipt) py" where
  "commit_staged sha staged active_root relative_path expected_sha256 expected_size modified_timestamp =
     bind_py (lift_sum (safe_relative_path relative_path)) (\<lambda>_.
     bind_py (gets (\<lambda>fs. \<not> is_symlink fs staged \<and> is_file fs staged)) (\<lambda>regular.
     seq (require regular (ValueError ''staged object must be a regular non-symlink file'')) (
     bind_py (stat_size staged) (\<lambda>size.
     seq (require (size = expected_size) (ValueError ''staged size does not match source metadata'')) (
     bind_py (sha256_file sha staged) (\<lambda>actual_hash.
     seq (require (actual_hash = expected_sha256)
           (ValueError ''staged hash does not match download receipt''))
     (commit_place sha staged active_root relative_path expected_sha256 expected_size
        modified_timestamp)))))))"

definition is_partial_name :: "string \<Rightarrow> bool" where
  "is_partial_name name = endswith name ''.partial''"

text \<open>\<open>inspect_partial_files\<close>: the partial files directly inside the staging root.\<close>

definition inspect_partial_files :: "fsys \<Rightarrow> path \<Rightarrow> path list" where
  "inspect_partial_files fs staging_root =
     (if \<not> path_exists fs staging_root then []
      else filter (\<lambda>p. length p = Suc (length staging_root) \<and> is_relative_to p staging_root
             \<and> is_file fs p \<and> is_partial_name (last p)) (map fst fs))"

lemma partial_path_inject [simp]:
  "partial_path r i = partial_path r j \<longleftrightarrow> i = j"
  by (auto simp: partial_path_def)

section \<open>What a commit leaves behind\<close>

text \<open>\<open>extends fs fs'\<close>: \<open>fs'\<close> is \<open>fs\<close> with some new directories.\<close>

definition extends :: "fsys \<Rightarrow> fsys \<Rightarrow> bool" where
  "extends fs fs' = (\<forall>q. node_at fs' q = node_at fs q
     \<or> node_at fs q = None \<and> node_at fs' q = Some Dir)"

lemma extends_refl: "extends fs fs"
  by (simp add: extends_def)

lemma extends_trans: "extends a b \<Longrightarrow> extends b c \<Longrightarrow> extends a c"
  unfolding extends_def by metis

lemma extends_cases:
  assumes "extends fs fs'"
  obtains (same) "node_at fs' q = node_at fs q" | (new) "node_at fs q = None" "node_at fs' q = Some Dir"
  using assms unfolding extends_def by metis

lemma extends_link: "extends fs fs' \<Longrightarrow> is_link (node_at fs' q) = is_link (node_at fs q)"
  by (erule extends_cases [of _ _ q]) (simp_all add: is_link_def)

lemma extends_File: "extends fs fs' \<Longrightarrow> node_at fs q = Some (File b i m) \<Longrightarrow> node_at fs' q = Some (File b i m)"
  by (erule extends_cases [of _ _ q]) simp_all

lemma extends_canonical: "extends fs fs' \<Longrightarrow> canonical fs' p = canonical fs p"
  by (simp add: canonical_def extends_link)

lemma extends_dirs_to: "extends fs fs' \<Longrightarrow> dirs_to fs p \<Longrightarrow> dirs_to fs' p"
  unfolding dirs_to_def by (metis extends_cases option.distinct(1))

lemma mkdirs_from_extends: "mkdirs_from acc cs fs = (r, fs') \<Longrightarrow> extends fs fs'"
proof (induction cs arbitrary: acc fs)
  case Nil
  then show ?case by (simp add: extends_refl)
next
  case (Cons c cs)
  have grow: "node_at fs (q @ [c]) = None \<Longrightarrow> extends fs (set_node (q @ [c]) Dir fs)" for q
    by (simp add: extends_def)
  from Cons grow show ?case
    by (auto simp: extends_refl split: option.splits node.splits sum.splits if_splits
        intro: extends_trans)
qed

lemma parent_dir_canonical:
  assumes "canonical fs (butlast p)" "p \<noteq> []"
  shows "parent_dir fs p = Inr q \<longleftrightarrow> q = butlast p \<and> dirs_to fs p"
proof -
  have "dirs_to fs p \<longleftrightarrow> dirs_to fs (butlast p) \<and> node_at fs (butlast p) = Some Dir"
    using dirs_to_snoc [of fs "butlast p" "last p"] assms(2) by simp
  with assms(1) show ?thesis
    by (cases rule: resolve_path_strict_cases) (auto simp: parent_dir_def)
qed

text \<open>\<open>only_changed ps fs fs'\<close>: the two agree away from the paths \<open>ps\<close>.\<close>

definition only_changed :: "path set \<Rightarrow> fsys \<Rightarrow> fsys \<Rightarrow> bool" where
  "only_changed ps fs fs' = (\<forall>q. q \<notin> ps \<longrightarrow> node_at fs' q = node_at fs q)"

text \<open>A regular file that stays where it was keeps its prefixes, hence its content.\<close>

lemma content_File:
  "canonical fs p \<Longrightarrow> dirs_to fs p \<Longrightarrow> content fs p = (case node_at fs p of Some (File b _ _) \<Rightarrow> Some b | _ \<Rightarrow> None)"
  by (simp add: content_def follow_canonical)

lemma content_canonicalD:
  assumes "canonical fs p" "content fs p = Some b"
  shows "dirs_to fs p" "\<exists>i m. node_at fs p = Some (File b i m)"
  using assms follow_canonical [OF assms(1)]
  by (auto simp: content_def split: if_splits option.splits node.splits)

lemma canonical_change:
  assumes "canonical fs p" "\<And>k. k \<le> length p \<Longrightarrow> is_link (node_at fs' (take k p)) \<Longrightarrow> is_link (node_at fs (take k p))"
  shows "canonical fs' p"
  using assms by (auto simp: canonical_def)

lemma dirs_to_change:
  assumes "dirs_to fs p" "\<And>q. node_at fs q = Some Dir \<Longrightarrow> length q < length p \<Longrightarrow> node_at fs' q = Some Dir"
  shows "dirs_to fs' p"
  using assms by (simp add: dirs_to_def)

lemma parent_dir_InrD:
  assumes "parent_dir fs p = Inr q" "canonical fs (butlast p)" "p \<noteq> []"
  shows "q @ [last p] = p" "dirs_to fs p"
proof -
  from parent_dir_canonical [OF assms(2,3), of q] assms(1)
  have q: "q = butlast p" "dirs_to fs p" by blast+
  from q(2) show "dirs_to fs p" .
  from assms(3) show "q @ [last p] = p" unfolding q(1) by (rule append_butlast_last_id)
qed

lemma os_replace_Inr_E:
  assumes "os_replace src dst fs = (Inr (), fs')"
  obtains a d n where "parent_dir fs src = Inr a" "parent_dir fs dst = Inr d"
    "node_at fs (a @ [last src]) = Some n" "node_at fs (d @ [last dst]) \<noteq> Some Dir"
    "fs' = (if a @ [last src] = d @ [last dst] then fs
       else set_node (d @ [last dst]) n (del_node (a @ [last src]) fs))"
proof -
  from assms obtain a where a: "parent_dir fs src = Inr a"
    by (cases "parent_dir fs src") (simp_all add: os_replace_def)
  with assms obtain n where n: "node_at fs (a @ [last src]) = Some n"
    by (cases "node_at fs (a @ [last src])") (simp_all add: os_replace_def)
  from assms a n obtain d where d: "parent_dir fs dst = Inr d"
    by (cases "parent_dir fs dst") (simp_all add: os_replace_def)
  from assms have "node_at fs (d @ [last dst]) \<noteq> Some Dir"
    by (rule contrapos_pn) (simp add: os_replace_def a n d)
  moreover from this assms have "fs' = (if a @ [last src] = d @ [last dst] then fs
       else set_node (d @ [last dst]) n (del_node (a @ [last src]) fs))"
    by (auto simp: os_replace_def a n d split: if_split_asm)
  ultimately show thesis by (rule that [OF a d n])
qed

lemma os_replace_effect:
  assumes run: "os_replace src dst fs = (Inr (), fs')"
    and src: "canonical fs src" "node_at fs src = Some (File b i m)"
    and dst: "canonical fs (butlast dst)" "dst \<noteq> []" "last dst \<noteq> ''..''"
    and ne: "src \<noteq> dst"
  shows "node_at fs' dst = Some (File b i m)" "node_at fs' src = None"
    "only_changed {src, dst} fs fs'" "canonical fs' dst" "dirs_to fs' dst"
proof -
  have s: "src \<noteq> []" "canonical fs (butlast src)"
    using src canonical_butlast by (auto simp: node_at_def)
  from run obtain a d n where pa: "parent_dir fs src = Inr a" and pb: "parent_dir fs dst = Inr d"
    and n: "node_at fs (a @ [last src]) = Some n"
    and run': "fs' = (if a @ [last src] = d @ [last dst] then fs
       else set_node (d @ [last dst]) n (del_node (a @ [last src]) fs))"
    by (rule os_replace_Inr_E)
  have a: "a @ [last src] = src" and d: "d @ [last dst] = dst" and dirs: "dirs_to fs dst"
    using parent_dir_InrD [OF pa s(2,1)] parent_dir_InrD [OF pb dst(1,2)] by simp_all
  have fs': "fs' = set_node dst (File b i m) (del_node src fs)"
    using run' n src(2) ne unfolding a d by simp
  have node: "node_at fs' q = (if q = dst then Some (File b i m) else if q = src then None
      else node_at fs q)" for q
    unfolding fs' using s(1) dst(2) by simp
  show "node_at fs' dst = Some (File b i m)" "node_at fs' src = None"
    using ne by (simp_all add: node)
  show "only_changed {src, dst} fs fs'" by (simp add: only_changed_def node)
  show "dirs_to fs' dst"
    using dirs by (rule dirs_to_change) (use src(2) in \<open>auto simp: node\<close>)
  have "canonical fs' (butlast dst)"
    using dst(1) by (rule canonical_change) (auto simp: node is_link_def split: if_splits)
  then show "canonical fs' dst"
    using canonical_snoc [of fs' "butlast dst" "last dst"] dst by (simp add: node is_link_def)
qed

lemma utime_effect:
  assumes "utime p t fs = (Inr (), fs')" "canonical fs p" "dirs_to fs p" "node_at fs p = Some (File b i m)"
  shows "node_at fs' p = Some (File b i t)" "only_changed {p} fs fs'" "canonical fs' p" "dirs_to fs' p"
proof -
  have p: "p \<noteq> []" "canonical fs (butlast p)"
    using assms canonical_butlast by (auto simp: node_at_def)
  obtain q where q: "parent_dir fs p = Inr q"
    using assms(1) by (cases "parent_dir fs p") (simp_all add: utime_def)
  have fs': "fs' = set_node p (File b i t) fs"
    using assms(1) parent_dir_InrD [OF q p(2,1)] q assms(4) by (simp add: utime_def Let_def)
  show "node_at fs' p = Some (File b i t)" "only_changed {p} fs fs'"
    using p by (simp_all add: fs' only_changed_def)
  show "canonical fs' p"
    using assms(2) by (rule canonical_change) (use p in \<open>auto simp: fs' is_link_def split: if_splits\<close>)
  show "dirs_to fs' p"
    using assms(3) by (rule dirs_to_change) (use p assms(4) in \<open>auto simp: fs'\<close>)
qed

lemma unlink_effect:
  assumes "unlink p fs = (Inr (), fs')" "canonical fs p" "node_at fs p = Some (File b i m)"
  shows "node_at fs' p = None" "only_changed {p} fs fs'"
proof -
  have p: "p \<noteq> []" "canonical fs (butlast p)"
    using assms canonical_butlast by (auto simp: node_at_def)
  obtain q where q: "parent_dir fs p = Inr q"
    using assms(1) by (cases "parent_dir fs p") (simp_all add: unlink_def)
  have fs': "fs' = del_node p fs"
    using assms(1) parent_dir_InrD [OF q p(2,1)] q assms(3) by (simp add: unlink_def Let_def)
  show "node_at fs' p = None" "only_changed {p} fs fs'"
    using p by (simp_all add: fs' only_changed_def)
qed

lemma only_changed_trans:
  "only_changed ps a b \<Longrightarrow> only_changed qs b c \<Longrightarrow> only_changed (ps \<union> qs) a c"
  by (simp add: only_changed_def)

lemma with_name_facts: "butlast (with_name p n) = butlast p" "with_name p n \<noteq> []" "last (with_name p n) = n"
  by (simp_all add: with_name_def)

lemma sha256_file_InrD: "sha256_file sha p fs = (Inr h, fs') \<Longrightarrow> fs' = fs \<and> (\<exists>b. content fs p = Some b \<and> h = sha b)"
  by (simp add: sha256_file_Inr)

lemma commit_target_state [simp]: "snd (commit_target sha ar rel h n final fs) = fs"
  by (auto simp: commit_target_def py_defs stat_size_def Let_def split: prod.splits sum.splits
      option.splits dest: arg_cong [where f = snd])

lemma commit_target_fresh:
  assumes "commit_target sha ar rel h n final fs = (Inr (Some (dst, None)), fs')"
  shows "dst = final \<and> \<not> path_exists fs final"
  using assms by (auto simp: commit_target_def py_defs Let_def split: prod.splits sum.splits if_splits)

lemma commit_target_collision:
  assumes "commit_target sha ar rel h n final fs = (Inr (Some (dst, Some t)), fs')"
  shows "dst = with_name final (path_stem (last final) @ ''.mnema-'' @ take 12 h @ path_suffix (last final))
     \<and> t = rel \<and> (\<exists>p r. resolve_path fs False dst = Inr p \<and> resolve_path fs False ar = Inr r \<and> is_relative_to p r)"
  using assms unfolding commit_target_def py_defs Let_def stat_size_def
  by (auto split: prod.splits sum.splits if_splits option.splits dest!: sha256_file_InrD)

lemma commit_target_same:
  assumes "commit_target sha ar rel h n final fs = (Inr None, fs')"
  shows "\<exists>b. content fs final = Some b \<and> sha b = h \<and> length b = n"
  using assms unfolding commit_target_def py_defs Let_def stat_size_def
  by (auto simp: content_def st_size_def split: prod.splits sum.splits if_splits option.splits node.splits
      dest!: sha256_file_InrD)

lemma extends_resolve:
  "resolve fs s n acc cs = Inr p \<Longrightarrow> extends fs fs' \<Longrightarrow> resolve fs' s n acc cs = Inr p"
proof (induction fs s n acc cs rule: resolve.induct)
  case (1 fs s n acc)
  then show ?case by simp
next
  case (2 fs s n acc c cs)
  have reg: "is_reg (node_at fs' acc) = is_reg (node_at fs acc)"
    by (rule extends_cases [OF "2.prems"(2), of acc]) (simp_all add: is_reg_def)
  show ?case
    by (rule extends_cases [OF "2.prems"(2), of "acc @ [c]"])
       (use 2 reg in \<open>auto split: if_splits option.splits node.splits\<close>)
qed

lemma extends_resolve_beneath:
  assumes "resolve_beneath fs ar rel False = Inr p" "extends fs fs'"
  shows "resolve_beneath fs' ar rel False = Inr p"
proof -
  from assms(1) obtain r ps where r: "resolve_path fs True ar = Inr r"
    and ps: "safe_relative_path rel = Inr ps" and p: "resolve_path fs False (r @ ps) = Inr p"
    and under: "is_relative_to p r"
    by (auto simp: resolve_beneath_def split: sum.splits if_splits)
  from r p have "resolve_path fs' True ar = Inr r" "resolve_path fs' False (r @ ps) = Inr p"
    by (auto simp: resolve_path_def intro: extends_resolve [OF _ assms(2)])
  with ps under show ?thesis by (simp add: resolve_beneath_def)
qed

lemma commit_staged_checked:
  assumes "commit_staged sha staged ar rel h n t fs = (Inr r, fs')"
  shows "commit_place sha staged ar rel h n t fs = (Inr r, fs')"
    "\<exists>b. content fs staged = Some b \<and> length b = n \<and> sha b = h"
  using assms unfolding commit_staged_def
  by (auto elim!: bind_py_Inr_E seq_Inr_E simp: require_Inr_iff stat_size_def content_def st_size_def
      split: option.splits node.splits dest!: sha256_file_InrD)

text \<open>The steps of a successful commit, named.\<close>

lemma commit_place_Inr_E:
  assumes run: "commit_place sha staged ar rel h n t fs = (Inr r, fs')"
  obtains (same) final fs1 where
      "resolve_beneath fs ar rel False = Inr final" "extends fs fs1"
      "commit_target sha ar rel h n final fs1 = (Inr None, fs1)"
      "unlink staged fs1 = (Inr (), fs')"
      "r = \<lparr>cr_path = final, cr_size = n, cr_sha256 = h, transformed_from = None\<rparr>"
    | (moved) final fs1 dst tf fs2 where
      "resolve_beneath fs ar rel False = Inr final" "extends fs fs1"
      "commit_target sha ar rel h n final fs1 = (Inr (Some (dst, tf)), fs1)"
      "os_replace staged dst fs1 = (Inr (), fs2)"
      "case t of None \<Rightarrow> fs' = fs2 | Some m \<Rightarrow> utime dst m fs2 = (Inr (), fs')"
      "r = \<lparr>cr_path = dst, cr_size = n, cr_sha256 = h, transformed_from = tf\<rparr>"
proof -
  note E = bind_py_Inr_E seq_Inr_E
  from run obtain final fs1 final1 target fs2 where
      final: "resolve_beneath fs ar rel False = Inr final"
    and fs1: "mkdirs (butlast final) fs = (Inr (), fs1)"
    and final1: "resolve_beneath fs1 ar rel False = Inr final1"
    and target: "commit_target sha ar rel h n final1 fs1 = (Inr target, fs2)"
    and last: "(case target of
          None \<Rightarrow> seq (unlink staged) (ret \<lparr>cr_path = final1, cr_size = n, cr_sha256 = h, transformed_from = None\<rparr>)
        | Some (dst, transformed) \<Rightarrow>
            seq (os_replace staged dst) (
            seq (case t of None \<Rightarrow> ret () | Some t \<Rightarrow> utime dst t) (
            ret \<lparr>cr_path = dst, cr_size = n, cr_sha256 = h, transformed_from = transformed\<rparr>))) fs2
          = (Inr r, fs')"
    unfolding commit_place_def by (auto elim!: E)
  have ext: "extends fs fs1" using fs1 mkdirs_from_extends unfolding mkdirs_def by blast
  have "final1 = final" using final1 extends_resolve_beneath [OF final ext] by simp
  moreover have "fs2 = fs1" using commit_target_state [of sha ar rel h n final1 fs1] target by simp
  ultimately show thesis
    using target last same [OF final ext] moved [OF final ext]
    by (cases target; cases t; auto elim!: E)
qed

text \<open>What both cases give.\<close>

definition committed :: "(bytes \<Rightarrow> string) \<Rightarrow> path \<Rightarrow> string \<Rightarrow> nat \<Rightarrow> fsys \<Rightarrow> commit_receipt \<Rightarrow> fsys \<Rightarrow> bool" where
  "committed sha staged h n fs r fs' \<longleftrightarrow>
     cr_size r = n \<and> cr_sha256 r = h \<and>
     (\<exists>b. content fs' (cr_path r) = Some b \<and> sha b = h \<and> length b = n) \<and>
     content fs' staged = None \<and>
     (\<forall>q b i m. node_at fs q = Some (File b i m) \<and> q \<noteq> staged \<and> q \<noteq> cr_path r \<longrightarrow>
        node_at fs' q = Some (File b i m)) \<and>
     (transformed_from r = None \<longrightarrow> (\<forall>b. content fs (cr_path r) = Some b \<longrightarrow> sha b = h))"

lemma extends_content:
  assumes "extends fs fs'" "canonical fs p" "content fs p = Some b"
  shows "content fs' p = Some b"
  using content_canonicalD [OF assms(2,3)] assms
  by (auto simp: content_File extends_canonical extends_dirs_to content_def
      follow_canonical dest: extends_File)

lemma content_kept:
  assumes "canonical fs p" "content fs p = Some b" "only_changed ps fs fs'" "p \<notin> ps"
    and ps: "\<And>q. q \<in> ps \<Longrightarrow> node_at fs q \<noteq> Some Dir \<and> \<not> is_link (node_at fs' q)"
  shows "content fs' p = Some b"
proof -
  note c = content_canonicalD [OF assms(1,2)]
  have can: "canonical fs' p"
    using assms(1) by (rule canonical_change) (metis assms(3) only_changed_def ps)
  have "dirs_to fs' p"
    using c(1) by (rule dirs_to_change) (metis assms(3) only_changed_def ps)
  moreover have "node_at fs' p = node_at fs p" using assms(3,4) by (simp add: only_changed_def)
  ultimately show ?thesis using c(2) assms(2) can content_File [OF assms(1) c(1)]
    by (simp add: content_File)
qed

lemma content_gone:
  assumes "canonical fs p" "only_changed ps fs fs'" "\<And>q. q \<in> ps \<Longrightarrow> \<not> is_link (node_at fs' q)"
    "node_at fs' p = None"
  shows "content fs' p = None"
proof -
  have "canonical fs' p"
    using assms(1) by (rule canonical_change) (metis assms(2,3) only_changed_def)
  with assms(4) show ?thesis by (simp add: content_def follow_canonical)
qed

lemma utime_optional:
  assumes "case t of None \<Rightarrow> fs' = fs2 | Some m \<Rightarrow> utime p m fs2 = (Inr (), fs')"
    "canonical fs2 p" "dirs_to fs2 p" "node_at fs2 p = Some (File b i m0)"
  shows "\<exists>m. node_at fs' p = Some (File b i m)" "only_changed {p} fs2 fs'" "canonical fs' p" "dirs_to fs' p"
  using assms utime_effect [OF _ assms(2-4)]
  by (auto simp: only_changed_def split: option.splits)

lemma committed_same:
  assumes "unlink staged fs1 = (Inr (), fs')" "commit_target sha ar rel h n final fs1 = (Inr None, fs1)"
    and ext: "extends fs fs1" and can: "canonical fs final" "canonical fs staged"
    and b: "content fs staged = Some b" and ne: "staged \<noteq> final"
  shows "committed sha staged h n fs
     \<lparr>cr_path = final, cr_size = n, cr_sha256 = h, transformed_from = None\<rparr> fs'"
proof -
  have can1: "canonical fs1 final" "canonical fs1 staged" using can ext by (simp_all add: extends_canonical)
  obtain i m where "node_at fs1 staged = Some (File b i m)"
    using content_canonicalD(2) [OF can(2) b] extends_File [OF ext] by blast
  note u = this unlink_effect [OF assms(1) can1(2) this]
  obtain b2 where b2: "content fs1 final = Some b2" "sha b2 = h" "length b2 = n"
    using commit_target_same [OF assms(2)] by blast
  have "content fs' final = Some b2"
    using can1(1) b2(1) u(3) by (rule content_kept) (use ne u in \<open>auto simp: is_link_def\<close>)
  moreover have "content fs' staged = None"
    using can1(2) u(3) _ u(2) by (rule content_gone) (simp add: u is_link_def)
  moreover have "node_at fs' q = Some (File c j k)"
    if "node_at fs q = Some (File c j k)" "q \<noteq> staged" for q c j k
    using extends_File [OF ext that(1)] that(2) u(3) by (simp add: only_changed_def)
  moreover have "sha c = h" if "content fs final = Some c" for c
    using extends_content [OF ext can(1) that] b2 by simp
  ultimately show ?thesis using b2 by (simp add: committed_def)
qed

lemma committed_moved:
  assumes "os_replace staged dst fs1 = (Inr (), fs2)"
    "case t of None \<Rightarrow> fs' = fs2 | Some m \<Rightarrow> utime dst m fs2 = (Inr (), fs')"
    and ext: "extends fs fs1" and can: "canonical fs (butlast dst)" "canonical fs staged"
    and dst: "dst \<noteq> []" "last dst \<noteq> ''..''"
    and b: "content fs staged = Some b" "sha b = h" "length b = n" and ne: "staged \<noteq> dst"
    and fresh: "tf = None \<Longrightarrow> content fs dst = None"
  shows "committed sha staged h n fs
     \<lparr>cr_path = dst, cr_size = n, cr_sha256 = h, transformed_from = tf\<rparr> fs'"
proof -
  have can1: "canonical fs1 (butlast dst)" "canonical fs1 staged" using can ext by (simp_all add: extends_canonical)
  obtain i m where node: "node_at fs1 staged = Some (File b i m)"
    using content_canonicalD(2) [OF can(2) b(1)] extends_File [OF ext] by blast
  note o = os_replace_effect [OF assms(1) can1(2) node can1(1) dst ne]
  note u = utime_optional [OF assms(2) o(4,5,1)]
  have ch: "only_changed ({staged, dst} \<union> {dst}) fs1 fs'" using o(3) u(2) by (rule only_changed_trans)
  have gone: "node_at fs' staged = None" using u(2) o(2) ne by (simp add: only_changed_def)
  have "content fs' dst = Some b" using u(1) content_File [OF u(3,4)] by auto
  moreover have "content fs' staged = None"
    using can1(2) ch _ gone by (rule content_gone) (use u(1) gone in \<open>auto simp: is_link_def\<close>)
  moreover have "node_at fs' q = Some (File c j k)"
    if "node_at fs q = Some (File c j k)" "q \<noteq> staged" "q \<noteq> dst" for q c j k
    using extends_File [OF ext that(1)] that(2,3) ch by (simp add: only_changed_def)
  ultimately show ?thesis using b fresh by (simp add: committed_def)
qed

lemma content_path_exists: "content fs p = Some b \<Longrightarrow> path_exists fs p"
  by (cases "follow fs p") (auto simp: content_def path_exists_def)

lemma extends_path_exists_content:
  assumes "extends fs fs1" "canonical fs p" "\<not> path_exists fs1 p"
  shows "content fs p = None"
  using extends_content [OF assms(1,2)] assms(3) content_path_exists by (cases "content fs p") auto


text \<open>A commit on a small disk: a staged file goes to \<open>/active/docs/a.txt\<close>, where the
  directory \<open>docs\<close> does not exist yet. The digest function of the example is the identity.\<close>

definition example_disk :: fsys where
  "example_disk = [([''active''], Dir), ([''stage''], Dir), ([''stage'', ''7.partial''], File ''hello'' 5 0)]"


end
