(* ===== verification/Datetimes.thy ===== *)
theory Datetimes
  imports Prelude
begin

text \<open>
  \<open>datetime.isoformat()\<close>: the civil date of a day count in the proleptic Gregorian calendar, the
  time of day, and the fields of fixed width.
\<close>

definition pad :: "nat \<Rightarrow> nat \<Rightarrow> string" where
  "pad k n = replicate (k - length (dec n)) (CHR ''0'') @ dec n"

definition civil :: "int \<Rightarrow> nat \<times> nat \<times> nat" where
  "civil day =
     (let z = day + 719468; era = z div 146097; doe = z mod 146097;
          yoe = (doe - doe div 1460 + doe div 36524 - doe div 146096) div 365;
          doy = doe - (365 * yoe + yoe div 4 - yoe div 100);
          mp = (5 * doy + 2) div 153;
          d = doy - (153 * mp + 2) div 5 + 1;
          m = (if mp < 10 then mp + 3 else mp - 9)
      in (nat (yoe + era * 400 + (if m \<le> 2 then 1 else 0)), nat m, nat d))"

definition isoformat :: "datetime \<Rightarrow> string" where
  "isoformat dt =
     (let t = instant dt; day = t div 86400000000; r = t mod 86400000000;
          s = r div 1000000; us = nat (r mod 1000000) in
      case civil day of (y, m, d) \<Rightarrow>
        pad 4 y @ ''-'' @ pad 2 m @ ''-'' @ pad 2 d @ ''T'' @ pad 2 (nat (s div 3600)) @ '':''
          @ pad 2 (nat (s mod 3600 div 60)) @ '':'' @ pad 2 (nat (s mod 60))
          @ (if us = 0 then [] else ''.'' @ pad 6 us)
          @ (case dt of Naive _ \<Rightarrow> [] | Aware _ \<Rightarrow> ''+00:00''))"

lemma isoformat_examples:
  "isoformat (Aware 0) = ''1970-01-01T00:00:00+00:00''"
  "isoformat (Naive 951825599000001) = ''2000-02-29T11:59:59.000001''"
  by code_simp+

end
