(* ===== verification/Models.thy ===== *)
theory Models
  imports States Redaction Fileops Datetimes
begin

text \<open>
  The rows of the tables of \<open>jobs/models.py\<close>, the database with its sessions
  (\<open>jobs/database.py\<close>) and the state change of an item (\<open>jobs/state_service.py\<close>). The
  world of a routine is the disk, the database as the open session sees it, the database as last
  committed, the clock and the source of random tokens. The columns \<open>created_at\<close> and
  \<open>updated_at\<close> that the ORM fills by default and that no modelled routine reads are left out;
  an absolute path in a text column is kept as a path.
\<close>

section \<open>Rows\<close>

record archive_item =
  ai_id :: nat
  source_provider :: string
  source_identifier :: string
  original_path :: string
  original_size :: nat
  original_modified_at :: datetime
  source_version :: string
  ai_state :: archive_state
  plaintext_sha256 :: "string option"
  nas_path :: "path option"
  nas_verified_at :: "datetime option"
  kopia_snapshot_id :: "string option"
  kopia_verified_at :: "datetime option"
  remote_provider :: "string option"
  remote_bucket :: "string option"
  remote_object_identifier :: "string option"
  encryption_mode :: "string option"
  remote_size :: "nat option"
  remote_checksum :: "string option"
  uploaded_at :: "datetime option"
  remote_verified_at :: "datetime option"
  remote_verification_method :: "string option"
  cold_archived_at :: "datetime option"
  quarantine_expires_at :: "datetime option"
  deletion_timestamp :: "datetime option"
  restore_test_status :: "string option"

record audit_event =
  au_id :: nat
  au_item :: "nat option"
  event_type :: string
  from_state :: "string option"
  to_state :: "string option"
  actor :: string
  au_details :: pyval

datatype job_status = JPending | JRunning | JSucceeded | JRetry | JManualReview

record job =
  jb_id :: nat
  jb_kind :: string
  jb_adapter :: string
  payload :: pyval
  idempotency_key :: string
  jb_status :: job_status
  attempts :: nat
  max_attempts :: nat
  available_at :: datetime
  lease_owner :: "string option"
  lease_expires_at :: "datetime option"
  heartbeat_at :: "datetime option"
  last_error :: "string option"

record job_log =
  jl_id :: nat
  jl_job :: nat
  jl_level :: string
  jl_message :: string
  jl_fields :: pyval

record worker_heartbeat =
  wh_worker :: string
  wh_adapter :: string
  wh_at :: datetime

record runtime_setting =
  rs_key :: string
  rs_value :: string

datatype cleanup_status =
  PendingApproval | Executing | Completed | Partial | CleanupReview | Expired

record icloud_asset =
  ia_id :: nat
  ia_apple_id :: string
  ia_record_name :: string
  ia_change_tag :: string
  created_at_remote :: datetime
  ia_size :: nat
  favorite :: bool
  ia_library :: string
  expected_components :: nat
  last_seen_at :: datetime
  remotely_deleted_at :: "datetime option"
  manual_review_reason :: "string option"

record icloud_component =
  ic_id :: nat
  ic_asset :: nat
  ic_item :: nat

record quota_observation =
  iq_id :: nat
  iq_used :: int
  iq_quota :: int
  observed_at :: datetime

record cleanup_manifest =
  im_id :: nat
  im_status :: cleanup_status
  im_digest :: string
  im_used :: int
  im_quota :: int
  im_target :: int
  im_planned :: int
  im_expires_at :: datetime
  approved_at :: "datetime option"
  im_completed_at :: "datetime option"
  failure_reason :: "string option"

record cleanup_entry =
  ie_id :: nat
  ie_manifest :: nat
  ie_asset :: nat
  ie_position :: nat
  ie_apple_id :: string
  ie_record_name :: string
  ie_change_tag :: string
  ie_size :: nat
  evidence_digest :: string
  ie_completed_at :: "datetime option"

datatype fp_kind = FileKind | FolderKind

datatype fp_status = Ready | Processing | Failed

record fp_item =
  fi_id :: string
  fi_parent :: "string option"
  fi_name :: string
  fi_kind :: fp_kind
  fi_status :: fp_status
  fi_archive_item :: "nat option"
  fi_size :: nat
  content_type :: string
  content_version :: string
  metadata_version :: nat
  error_message :: "string option"
  fi_modified_at :: datetime

record fp_change =
  fc_sequence :: nat
  fc_item :: string
  fc_operation :: string

datatype upload_status = Open | Sealing | Sealed | UploadFailed

record fp_upload =
  fu_id :: string
  fu_item :: string
  fu_archive_item :: nat
  expected_size :: nat
  received_size :: nat
  expected_sha256 :: "string option"
  fu_status :: upload_status
  fu_expires_at :: datetime

record pairing_code =
  pc_id :: string
  code_hash :: string
  pc_expires_at :: datetime
  consumed_at :: "datetime option"

record device =
  dv_id :: string
  dv_name :: string
  refresh_token_hash :: string
  refresh_expires_at :: datetime
  last_used_at :: "datetime option"
  revoked_at :: "datetime option"

instantiation job_status :: enum
begin

definition enum_job_status :: "job_status list" where
  "enum_job_status = [JPending, JRunning, JSucceeded, JRetry, JManualReview]"

definition enum_all_job_status :: "(job_status \<Rightarrow> bool) \<Rightarrow> bool" where
  "enum_all_job_status P = list_all P enum_class.enum"

definition enum_ex_job_status :: "(job_status \<Rightarrow> bool) \<Rightarrow> bool" where
  "enum_ex_job_status P = list_ex P enum_class.enum"

instance
proof
  show univ: "(UNIV :: job_status set) = set enum_class.enum"
  proof (rule UNIV_eq_I)
    fix s :: job_status
    show "s \<in> set enum_class.enum" by (cases s) (simp_all add: enum_job_status_def)
  qed
  show "distinct (enum_class.enum :: job_status list)" by (simp add: enum_job_status_def)
  show "enum_class.enum_all P \<longleftrightarrow> Ball UNIV P" for P :: "job_status \<Rightarrow> bool"
    by (simp add: enum_all_job_status_def univ list_all_iff)
  show "enum_class.enum_ex P \<longleftrightarrow> Bex UNIV P" for P :: "job_status \<Rightarrow> bool"
    by (simp add: enum_ex_job_status_def univ list_ex_iff)
qed

end

section \<open>Database and sessions\<close>

record db =
  items :: "archive_item list"
  audits :: "audit_event list"
  jobs :: "job list"
  job_logs :: "job_log list"
  heartbeats :: "worker_heartbeat list"
  settings :: "runtime_setting list"
  assets :: "icloud_asset list"
  components :: "icloud_component list"
  quotas :: "quota_observation list"
  manifests :: "cleanup_manifest list"
  entries :: "cleanup_entry list"
  fp_items :: "fp_item list"
  fp_changes :: "fp_change list"
  fp_uploads :: "fp_upload list"
  pairing_codes :: "pairing_code list"
  devices :: "device list"

definition empty_db :: db where
  "empty_db = \<lparr>items = [], audits = [], jobs = [], job_logs = [], heartbeats = [], settings = [],
     assets = [], components = [], quotas = [], manifests = [], entries = [], fp_items = [],
     fp_changes = [], fp_uploads = [], pairing_codes = [], devices = []\<rparr>"

text \<open>
  \<open>clock\<close> and \<open>rand\<close> are the results of the successive calls of \<open>datetime.now(UTC)\<close> and of
  the token generators; \<open>ticks\<close> and \<open>draws\<close> count the calls.
\<close>

record world =
  disk :: fsys
  live :: db
  durable :: db
  clock :: "nat \<Rightarrow> int"
  ticks :: nat
  rand :: "nat \<Rightarrow> string"
  draws :: nat

definition utcnow :: "(world, datetime) py" where
  "utcnow = (\<lambda>w. (Inr (Aware (clock w (ticks w))), w\<lparr>ticks := Suc (ticks w)\<rparr>))"

definition fresh_token :: "(world, string) py" where
  "fresh_token = (\<lambda>w. (Inr (rand w (draws w)), w\<lparr>draws := Suc (draws w)\<rparr>))"

definition on_disk :: "(fsys, 'a) py \<Rightarrow> (world, 'a) py" where
  "on_disk m = (\<lambda>w. case m (disk w) of (r, d) \<Rightarrow> (r, w\<lparr>disk := d\<rparr>))"

text \<open>A query reads the session's database, \<open>on_db\<close> changes it.\<close>

definition query :: "(db \<Rightarrow> 'a) \<Rightarrow> (world, 'a) py" where
  "query f = gets (\<lambda>w. f (live w))"

definition on_db :: "(db \<Rightarrow> db) \<Rightarrow> (world, unit) py" where
  "on_db f = modify (\<lambda>w. w\<lparr>live := f (live w)\<rparr>)"

definition commit :: "(world, unit) py" where
  "commit = modify (\<lambda>w. w\<lparr>durable := live w\<rparr>)"

text \<open>
  \<open>with database.session() as session\<close>: a new session sees the committed data; its block ends
  in a commit, or in a rollback when an exception leaves it.
\<close>

definition session_block :: "(world, 'a) py \<Rightarrow> (world, 'a) py" where
  "session_block m = (\<lambda>w. case m (w\<lparr>live := durable w\<rparr>) of
     (Inr x, w') \<Rightarrow> (Inr x, w'\<lparr>durable := live w'\<rparr>)
   | (Inl e, w') \<Rightarrow> (Inl e, w'\<lparr>live := durable w'\<rparr>))"

definition load_item :: "nat \<Rightarrow> (world, archive_item) py" where
  "load_item i = bind_py (query (\<lambda>d. tbl_get ai_id i (items d)))
     (\<lambda>r. case r of None \<Rightarrow> raise_py ObjectDeletedError | Some x \<Rightarrow> ret x)"

definition upd_item :: "nat \<Rightarrow> (archive_item \<Rightarrow> archive_item) \<Rightarrow> (world, unit) py" where
  "upd_item i f = on_db (items_update (tbl_upd ai_id i f))"

definition add_audit ::
  "nat option \<Rightarrow> string \<Rightarrow> string option \<Rightarrow> string option \<Rightarrow> string \<Rightarrow> pyval \<Rightarrow> (world, unit) py" where
  "add_audit item kind old new who details = on_db (\<lambda>d. audits_update (\<lambda>t. t @
     [\<lparr>au_id = fresh_id au_id t, au_item = item, event_type = kind, from_state = old,
       to_state = new, actor = who, au_details = details\<rparr>]) d)"

definition transition_item ::
  "nat \<Rightarrow> archive_state \<Rightarrow> string \<Rightarrow> (string \<times> pyval) list \<Rightarrow> (world, unit) py" where
  "transition_item i target who details =
     bind_py (load_item i) (\<lambda>item.
     seq (lift_sum (validate_transition (ai_state item) target)) (
     seq (upd_item i (ai_state_update (\<lambda>_. target)))
      (add_audit (Some i) ''state_transition'' (Some (state_value (ai_state item)))
         (Some (state_value target)) who (redact (PDict details)))))"

end
