(* ===== verification/Evidence.thy ===== *)
theory Evidence
  imports Models
begin

text \<open>
  The invariant that ties an item's state to the evidence recorded with it: from
  \<open>LOCAL_STAGED\<close> on its digest is known, from \<open>LOCAL_COMMITTED\<close> on its path, and so on to
  the deletion timestamp. The rules below show which updates and state changes keep it.
\<close>

fun level :: "archive_state \<Rightarrow> nat" where
  "level LOCAL_STAGED = 1"
| "level LOCAL_VERIFIED = 1"
| "level LOCAL_COMMITTED = 2"
| "level LOCAL_BACKUP_PENDING = 2"
| "level LOCAL_BACKUP_VERIFIED = 3"
| "level COLD_UPLOAD_PENDING = 3"
| "level COLD_UPLOADED = 4"
| "level COLD_VERIFIED = 5"
| "level COLD_ARCHIVE_PENDING = 5"
| "level COLD_ARCHIVED = 6"
| "level QUARANTINED = 7"
| "level READY_FOR_REVALIDATION = 7"
| "level READY_FOR_DELETION = 7"
| "level DELETING = 7"
| "level DELETED_FROM_SOURCE = 8"
| "level ARCHIVED = 8"
| "level RESTORE_REQUESTED = 8"
| "level RESTORING = 8"
| "level RESTORED = 8"
| "level _ = 0"

definition evidence_at :: "nat \<Rightarrow> archive_item \<Rightarrow> bool" where
  "evidence_at k r \<longleftrightarrow>
     (1 \<le> k \<longrightarrow> plaintext_sha256 r \<noteq> None) \<and>
     (2 \<le> k \<longrightarrow> nas_path r \<noteq> None \<and> nas_verified_at r \<noteq> None) \<and>
     (3 \<le> k \<longrightarrow> kopia_snapshot_id r \<noteq> None \<and> kopia_verified_at r \<noteq> None) \<and>
     (4 \<le> k \<longrightarrow> remote_provider r \<noteq> None \<and> remote_bucket r \<noteq> None \<and> remote_object_identifier r \<noteq> None
        \<and> encryption_mode r \<noteq> None \<and> remote_size r \<noteq> None \<and> uploaded_at r \<noteq> None) \<and>
     (5 \<le> k \<longrightarrow> remote_verified_at r \<noteq> None \<and> remote_verification_method r \<noteq> None) \<and>
     (6 \<le> k \<longrightarrow> cold_archived_at r \<noteq> None) \<and>
     (7 \<le> k \<longrightarrow> quarantine_expires_at r \<noteq> None) \<and>
     (8 \<le> k \<longrightarrow> deletion_timestamp r \<noteq> None)"

definition evidence :: "archive_item \<Rightarrow> bool" where
  "evidence r = evidence_at (level (ai_state r)) r"

text \<open>The states whose evidence is more than their predecessor's.\<close>

definition gaining :: "archive_state list" where
  "gaining = [LOCAL_STAGED, LOCAL_COMMITTED, LOCAL_BACKUP_VERIFIED, COLD_UPLOADED, COLD_VERIFIED,
     COLD_ARCHIVED, QUARANTINED, DELETED_FROM_SOURCE]"

lemma valid_level:
  "validate_transition s t = Inr () \<Longrightarrow> level t \<le> Suc (level s) \<and> (t \<notin> set gaining \<longrightarrow> level t \<le> level s)"
  by (cases s) (auto simp: validate_defs gaining_def Let_def split: if_splits)

lemma evidence_at_mono: "evidence_at k r \<Longrightarrow> j \<le> k \<Longrightarrow> evidence_at j r"
  by (auto simp: evidence_at_def)

lemma evidence_at_state [simp]: "evidence_at k (r\<lparr>ai_state := s\<rparr>) = evidence_at k r"
  by (simp add: evidence_at_def)

definition evidenced :: "world \<Rightarrow> bool" where
  "evidenced w \<longleftrightarrow> (\<forall>d \<in> {live w, durable w}.
     distinct (map ai_id (items d)) \<and> (\<forall>r \<in> set (items d). evidence r))"

named_theorems evidence_rules \<open>what keeps the evidence invariant\<close>

lemma evidenced_frame:
  assumes "\<And>w. items (live (snd (m w))) = items (live w)" "\<And>w. durable (snd (m w)) = durable w"
  shows "keeps evidenced m"
  using assms by (simp add: keeps_def evidenced_def)

lemma keeps_on_disk [evidence_rules]: "keeps evidenced (on_disk m)"
  by (rule evidenced_frame) (simp_all add: on_disk_def split: prod.split)

lemma keeps_utcnow [evidence_rules]: "keeps evidenced utcnow"
  by (rule evidenced_frame) (simp_all add: utcnow_def)

lemma keeps_fresh_token [evidence_rules]: "keeps evidenced fresh_token"
  by (rule evidenced_frame) (simp_all add: fresh_token_def)

lemma keeps_query [evidence_rules]: "keeps evidenced (query f)"
  by (simp add: query_def keeps_gets)

lemma keeps_commit [evidence_rules]: "keeps evidenced commit"
  by (simp add: keeps_def commit_def evidenced_def)

lemma keeps_on_db:
  assumes "\<And>d. items (f d) = items d" shows "keeps evidenced (on_db f)"
  by (rule evidenced_frame) (simp_all add: on_db_def assms)

lemma keeps_add_audit [evidence_rules]: "keeps evidenced (add_audit i k a b c d)"
  unfolding add_audit_def by (rule keeps_on_db) simp

lemma keeps_load_item [evidence_rules]: "keeps evidenced (load_item i)"
  unfolding load_item_def
  by (rule keeps_bind [OF keeps_query]) (auto intro: keeps_raise keeps_ret split: option.split)

lemma keeps_upd_item [evidence_rules]:
  assumes "\<And>r. evidence r \<Longrightarrow> evidence (f r)" "\<And>r. ai_id (f r) = ai_id r"
  shows "keeps evidenced (upd_item i f)"
  using assms
  by (auto simp: keeps_def upd_item_def on_db_def evidenced_def keys_tbl_upd dest!: set_tbl_upd)

lemma keeps_session [evidence_rules]:
  assumes "keeps evidenced m" shows "keeps evidenced (session_block m)"
proof (rule keepsI)
  fix w assume "evidenced w"
  then have "evidenced (w\<lparr>live := durable w\<rparr>)" by (simp add: evidenced_def)
  then have "evidenced (snd (m (w\<lparr>live := durable w\<rparr>)))" by (rule keepsD [OF assms])
  then show "evidenced (snd (session_block m w))"
    by (auto simp: session_block_def evidenced_def split: prod.split sum.split)
qed

text \<open>
  A state change runs the update only when the graph allows it, so an update may use that the
  item was in an allowed predecessor.
\<close>

definition gain :: "archive_state \<Rightarrow> (archive_item \<Rightarrow> archive_item) \<Rightarrow> bool" where
  "gain t f \<longleftrightarrow> (\<forall>r. ai_id (f r) = ai_id r \<and> ai_state (f r) = ai_state r) \<and> (\<forall>r. evidence r \<longrightarrow> evidence (f r) \<and>
     (validate_transition (ai_state r) t = Inr () \<longrightarrow> evidence_at (level t) (f r)))"

lemma gainI:
  assumes "\<And>r. ai_id (f r) = ai_id r" "\<And>r. ai_state (f r) = ai_state r" "\<And>r k. evidence_at k r \<Longrightarrow> evidence_at k (f r)"
    "\<And>r. evidence_at (level t - 1) r \<Longrightarrow> evidence_at (level t) (f r)"
  shows "gain t f"
  unfolding gain_def
proof (intro allI impI conjI)
  fix r
  show "ai_id (f r) = ai_id r" "ai_state (f r) = ai_state r" by (rule assms)+
  assume r: "evidence r"
  show "evidence (f r)" using assms r by (simp add: evidence_def)
  assume "validate_transition (ai_state r) t = Inr ()"
  with valid_level have "level t - 1 \<le> level (ai_state r)" by fastforce
  with r have "evidence_at (level t - 1) r" unfolding evidence_def by (rule evidence_at_mono)
  then show "evidence_at (level t) (f r)" by (rule assms(4))
qed

lemma gain_id: "t \<notin> set gaining \<Longrightarrow> gain t (\<lambda>r. r)"
  by (auto simp: gain_def evidence_def dest: valid_level intro: evidence_at_mono)

lemma transition_item_run:
  "transition_item i t who d w =
     (case tbl_get ai_id i (items (live w)) of None \<Rightarrow> (Inl ObjectDeletedError, w)
      | Some r \<Rightarrow> (case validate_transition (ai_state r) t of Inl e \<Rightarrow> (Inl e, w)
        | Inr _ \<Rightarrow> seq (upd_item i (ai_state_update (\<lambda>_. t)))
            (add_audit (Some i) ''state_transition'' (Some (state_value (ai_state r)))
              (Some (state_value t)) who (redact (PDict d))) w))"
  by (simp add: transition_item_def load_item_def query_def py_defs split: option.split sum.split)

lemma items_add_audit [simp]:
  "items (live (snd (add_audit i k a b c d w))) = items (live w)"
  "durable (snd (add_audit i k a b c d w)) = durable w" "disk (snd (add_audit i k a b c d w)) = disk w"
  "fst (add_audit i k a b c d w) = Inr ()"
  by (simp_all add: add_audit_def on_db_def)

text \<open>A state change that succeeds: the item was there, the change is allowed, nothing else moved.\<close>

lemma transition_item_outcome:
  assumes "transition_item i t who d w = (res, w')"
  shows "disk w' = disk w \<and> durable w' = durable w \<and>
    (case res of Inl e \<Rightarrow> w' = w
     | Inr _ \<Rightarrow> \<exists>r. tbl_get ai_id i (items (live w)) = Some r \<and> validate_transition (ai_state r) t = Inr ()
         \<and> items (live w') = tbl_upd ai_id i (ai_state_update (\<lambda>_. t)) (items (live w)))"
proof (cases "tbl_get ai_id i (items (live w))")
  case None
  with assms show ?thesis by (auto simp: transition_item_run)
next
  case (Some r)
  show ?thesis
  proof (cases "validate_transition (ai_state r) t")
    case (Inl e)
    with assms Some have "res = Inl e" "w' = w" by (simp_all add: transition_item_run)
    then show ?thesis by simp
  next
    case (Inr u)
    with assms Some have "(res, w') = add_audit (Some i) ''state_transition'' (Some (state_value (ai_state r)))
        (Some (state_value t)) who (redact (PDict d))
        (w\<lparr>live := items_update (tbl_upd ai_id i (ai_state_update (\<lambda>_. t))) (live w)\<rparr>)"
      by (simp add: transition_item_run seq_def upd_item_def on_db_def)
    then have "w' = snd (add_audit (Some i) ''state_transition'' (Some (state_value (ai_state r)))
        (Some (state_value t)) who (redact (PDict d))
        (w\<lparr>live := items_update (tbl_upd ai_id i (ai_state_update (\<lambda>_. t))) (live w)\<rparr>))"
      and "\<exists>u. res = Inr u" by (metis snd_conv, metis fst_conv items_add_audit(4))
    with Some Inr show ?thesis by auto
  qed
qed

lemma evidenced_transition:
  assumes w: "evidenced w" and run: "transition_item i t who d w = (res, w')"
    and new: "\<And>r. tbl_get ai_id i (items (live w)) = Some r \<Longrightarrow> validate_transition (ai_state r) t = Inr () \<Longrightarrow>
      evidence_at (level t) r"
  shows "evidenced w'"
proof (cases res)
  case (Inl e)
  with transition_item_outcome [OF run] w show ?thesis by simp
next
  case (Inr u)
  with transition_item_outcome [OF run] obtain r where r: "tbl_get ai_id i (items (live w)) = Some r"
    "validate_transition (ai_state r) t = Inr ()" "durable w' = durable w"
    and items: "items (live w') = tbl_upd ai_id i (ai_state_update (\<lambda>_. t)) (items (live w))" by auto
  have "evidence x" if "x \<in> set (items (live w'))" for x
  proof -
    from that obtain y where y: "y \<in> set (items (live w))"
      "ai_id y = i \<and> x = y\<lparr>ai_state := t\<rparr> \<or> ai_id y \<noteq> i \<and> x = y"
      unfolding items by (auto dest!: set_tbl_upd)
    show ?thesis
    proof (cases "ai_id y = i")
      case True
      with w y(1) have "tbl_get ai_id i (items (live w)) = Some y"
        by (metis evidenced_def insertI1 tbl_get_in)
      with r have "y = r" by simp
      with y True new r show ?thesis by (simp add: evidence_def)
    next
      case False
      with w y show ?thesis by (auto simp: evidenced_def)
    qed
  qed
  with w r(3) items show ?thesis by (auto simp: evidenced_def keys_tbl_upd)
qed

lemma keeps_transition [evidence_rules]:
  assumes "t \<notin> set gaining" shows "keeps evidenced (transition_item i t who d)"
proof (rule keepsI)
  fix w assume w: "evidenced w"
  obtain res w' where run: "transition_item i t who d w = (res, w')" by force
  have "evidenced w'"
    using w run
  proof (rule evidenced_transition)
    fix r assume r: "tbl_get ai_id i (items (live w)) = Some r" "validate_transition (ai_state r) t = Inr ()"
    with w have "evidence r" by (auto simp: evidenced_def dest: tbl_get_Some)
    then show "evidence_at (level t) r"
      unfolding evidence_def using valid_level [OF r(2)] assms by (blast intro: evidence_at_mono)
  qed
  with run show "evidenced (snd (transition_item i t who d w))" by simp
qed

lemma keeps_gain:
  assumes "gain t f" "keeps evidenced m"
  shows "keeps evidenced (seq (upd_item i f) (seq (transition_item i t who d) m))"
proof (rule keepsI)
  fix w assume w: "evidenced w"
  let ?w = "w\<lparr>live := items_update (tbl_upd ai_id i f) (live w)\<rparr>"
  have id: "ai_id (f r) = ai_id r" for r using assms(1) by (simp add: gain_def)
  have w1: "evidenced ?w"
    using keepsD [OF keeps_upd_item w, of f i] assms(1) id by (simp add: gain_def upd_item_def on_db_def)
  obtain res w2 where run: "transition_item i t who d ?w = (res, w2)" by force
  have "evidenced w2"
    using w1 run
  proof (rule evidenced_transition)
    fix r assume r: "tbl_get ai_id i (items (live ?w)) = Some r" "validate_transition (ai_state r) t = Inr ()"
    then obtain r0 where r0: "tbl_get ai_id i (items (live w)) = Some r0" "r = f r0"
      using tbl_get_upd_same [of ai_id f, OF id] by auto
    with w have "evidence r0" by (auto simp: evidenced_def dest: tbl_get_Some)
    with assms(1) r r0 show "evidence_at (level t) r" by (simp add: gain_def)
  qed
  then have "evidenced (snd (seq (transition_item i t who d) m ?w))"
    using run assms(2) by (cases res) (simp_all add: seq_def keeps_def)
  then show "evidenced (snd (seq (upd_item i f) (seq (transition_item i t who d) m) w))"
    by (simp add: seq_def upd_item_def on_db_def)
qed

lemma keeps_attempt: "keeps P m \<Longrightarrow> keeps P (\<lambda>s. case m s of (r, s') \<Rightarrow> (Inr r, s'))"
  by (auto simp: keeps_def split: prod.split)

lemma not_gaining [simp]:
  "QUEUED \<notin> set gaining" "DOWNLOADING \<notin> set gaining" "SOURCE_CHANGED \<notin> set gaining"
  "LOCAL_VERIFIED \<notin> set gaining" "LOCAL_BACKUP_PENDING \<notin> set gaining" "COLD_UPLOAD_PENDING \<notin> set gaining"
  "COLD_ARCHIVE_PENDING \<notin> set gaining" "ELIGIBLE \<notin> set gaining" "INELIGIBLE \<notin> set gaining"
  "MANUAL_REVIEW \<notin> set gaining" "FAILED_RETRYABLE \<notin> set gaining" "READY_FOR_REVALIDATION \<notin> set gaining"
  "READY_FOR_DELETION \<notin> set gaining" "DELETING \<notin> set gaining" "ARCHIVED \<notin> set gaining"
  "RESTORE_REQUESTED \<notin> set gaining" "RESTORING \<notin> set gaining" "RESTORED \<notin> set gaining" "TEST_CLEANED \<notin> set gaining"
  by (simp_all add: gaining_def)

lemma gain_sha: "gain LOCAL_STAGED (\<lambda>x. x\<lparr>plaintext_sha256 := Some h\<rparr>)"
  by (rule gainI) (auto simp: evidence_at_def)

end
