(* ===== verification/Policies.thy ===== *)
theory Policies
  imports Paths
begin

text \<open>
  The two pure decisions: which source objects a policy admits
  (\<open>policies/eligibility.py\<close>, with the shell patterns of \<open>fnmatch\<close>) and whether a verified
  item may be deleted from its source (\<open>policies/deletion.py\<close>), over the policy and limit records
  of \<open>config/settings.py\<close> and the source objects of \<open>domain/source.py\<close>.
\<close>

section \<open>Data\<close>

record source_policy =
  included_directories :: "string list"
  excluded_directories :: "string list"
  included_globs :: "string list"
  excluded_globs :: "string list"
  minimum_file_size :: int
  maximum_file_size :: "int option"
  archive_after_days :: int
  stability_window_hours :: int
  quarantine_days :: int
  dry_run :: bool
  manual_approval :: bool
  deletion_enabled :: bool

definition default_policy :: source_policy where
  "default_policy = \<lparr>included_directories = [], excluded_directories = [],
     included_globs = [''**/*'', ''*''], excluded_globs = [], minimum_file_size = 0,
     maximum_file_size = None, archive_after_days = 30, stability_window_hours = 24,
     quarantine_days = 7, dry_run = True, manual_approval = True, deletion_enabled = False\<rparr>"

record deletion_limits =
  max_files_deleted_per_run :: nat
  max_bytes_deleted_per_run :: nat
  max_percentage_deleted_per_run :: rat

definition default_limits :: deletion_limits where
  "default_limits = \<lparr>max_files_deleted_per_run = 5, max_bytes_deleted_per_run = 1000000000,
     max_percentage_deleted_per_run = 1\<rparr>"

record source_object =
  so_id :: string
  relative_path :: string
  so_size :: nat
  modified_at :: datetime
  so_version :: string

section \<open>Shell patterns\<close>

text \<open>
  \<open>fnmatch.translate\<close>: a star matches any string (slashes included), a question mark any
  character, a bracket a class of characters and ranges; an unclosed bracket is literal.
\<close>

datatype glob = GStar | GAny | GLit char | GClass bool "(char \<times> char) list"

fun class_items :: "string \<Rightarrow> (char \<times> char) list" where
  "class_items (a # m # b # cs) =
     (if m = CHR ''-'' then (a, b) # class_items cs else (a, a) # class_items (m # b # cs))"
| "class_items (a # cs) = (a, a) # class_items cs"
| "class_items [] = []"

text \<open>The end of a bracket: a closing bracket in first place, after the optional \<open>!\<close>, is literal.\<close>

definition class_body :: "string \<Rightarrow> (bool \<times> string \<times> string) option" where
  "class_body cs =
     (let neg = startswith cs ''!''; r = (if neg then drop 1 cs else cs);
          lead = (if startswith r '']'' then '']'' else []);
          rest = drop (length lead) r;
          body = takeWhile (\<lambda>c. c \<noteq> CHR '']'') rest;
          after = dropWhile (\<lambda>c. c \<noteq> CHR '']'') rest
      in if after = [] then None else Some (neg, lead @ body, drop 1 after))"

lemma class_body_shorter:
  assumes "class_body cs = Some (n, b, rest)" shows "length rest < length cs"
proof -
  let ?P = "\<lambda>c. c \<noteq> CHR '']''"
  have le: "length (dropWhile P xs) \<le> length xs" for P and xs :: string
    by (induction xs) auto
  have "\<exists>k. rest = drop 1 (dropWhile ?P (drop k cs)) \<and> dropWhile ?P (drop k cs) \<noteq> []"
  proof -
    let ?r = "if startswith cs ''!'' then drop 1 cs else cs"
    let ?l = "if startswith ?r '']'' then '']'' else []"
    have "drop (length ?l) ?r = drop (length ?l + (if startswith cs ''!'' then 1 else 0)) cs" by simp
    moreover from assms have "rest = drop 1 (dropWhile ?P (drop (length ?l) ?r))"
      "dropWhile ?P (drop (length ?l) ?r) \<noteq> []"
      unfolding class_body_def Let_def by (metis option.distinct(1) option.inject prod.inject)+
    ultimately show ?thesis by metis
  qed
  then obtain k where k: "rest = drop 1 (dropWhile ?P (drop k cs))" "dropWhile ?P (drop k cs) \<noteq> []"
    by blast
  have "length rest < length (dropWhile ?P (drop k cs))"
    unfolding k(1) using k(2) by (cases "dropWhile ?P (drop k cs)") auto
  also have "\<dots> \<le> length cs" using le [of ?P "drop k cs"] by simp
  finally show ?thesis .
qed

function glob_parse :: "string \<Rightarrow> glob list" where
  "glob_parse [] = []"
| "glob_parse (c # cs) =
     (if c = CHR ''*'' then GStar # glob_parse cs
      else if c = CHR ''?'' then GAny # glob_parse cs
      else if c = CHR ''['' then
        (case class_body cs of None \<Rightarrow> GLit c # glob_parse cs
         | Some (neg, body, rest) \<Rightarrow> GClass neg (class_items body) # glob_parse rest)
      else GLit c # glob_parse cs)"
  by pat_completeness auto
termination
  by (relation "measure length") (auto dest: class_body_shorter)

definition in_range :: "char \<Rightarrow> char \<times> char \<Rightarrow> bool" where
  "in_range c r = (of_char (fst r) \<le> (of_char c :: nat) \<and> of_char c \<le> (of_char (snd r) :: nat))"

fun glob_match :: "glob list \<Rightarrow> string \<Rightarrow> bool" where
  "glob_match [] s = (s = [])"
| "glob_match (GStar # gs) [] = glob_match gs []"
| "glob_match (GStar # gs) (c # cs) = (glob_match gs (c # cs) \<or> glob_match (GStar # gs) cs)"
| "glob_match (g # gs) [] = False"
| "glob_match (GAny # gs) (c # cs) = glob_match gs cs"
| "glob_match (GLit x # gs) (c # cs) = (c = x \<and> glob_match gs cs)"
| "glob_match (GClass neg rs # gs) (c # cs) = (list_ex (in_range c) rs \<noteq> neg \<and> glob_match gs cs)"

definition fnmatch :: "string \<Rightarrow> string \<Rightarrow> bool" where
  "fnmatch name pat = glob_match (glob_parse pat) name"

section \<open>Eligibility\<close>

record policy_decision =
  eligible :: bool
  reasons :: "string list"

definition pure_parts :: "string \<Rightarrow> string list" where
  "pure_parts s = (if startswith s ''//'' \<and> \<not> startswith s ''///'' then ''//'' # parts s
     else if is_absolute s then ''/'' # parts s else parts s)"

definition reason :: "bool \<Rightarrow> string \<Rightarrow> string list" where
  "reason b message = (if b then [message] else [])"

definition required_age :: "source_policy \<Rightarrow> int" where
  "required_age p = max (days (archive_after_days p)) (hours (stability_window_hours p))"

text \<open>
  \<open>path.parts[0]\<close> of a path without parts is an \<open>IndexError\<close>, and subtracting a naive modification
  time from the aware \<open>now\<close> a \<open>TypeError\<close>.
\<close>

definition evaluate_policy :: "source_object \<Rightarrow> source_policy \<Rightarrow> datetime \<Rightarrow> exn + policy_decision" where
  "evaluate_policy item p now =
     (let path = pure_parts (relative_path item); name = relative_path item;
          included = included_directories p; size = int (so_size item) in
      if included \<noteq> [] \<and> path = [] then Inl IndexError
      else case dt_sub now (modified_at item) of Inl e \<Rightarrow> Inl e
      | Inr age \<Rightarrow>
        (let rs =
           reason (included \<noteq> [] \<and> hd path \<notin> set included) ''directory not included''
         @ reason (path \<noteq> [] \<and> hd path \<in> set (excluded_directories p)) ''directory excluded''
         @ reason (included_globs p \<noteq> [] \<and> \<not> list_ex (fnmatch name) (included_globs p)) ''pattern not included''
         @ reason (list_ex (fnmatch name) (excluded_globs p)) ''pattern excluded''
         @ reason (size < minimum_file_size p) ''below minimum file size''
         @ reason (case maximum_file_size p of None \<Rightarrow> False | Some m \<Rightarrow> m < size) ''above maximum file size''
         @ reason (age < required_age p) ''age or stability window not reached''
         in Inr \<lparr>eligible = (rs = []), reasons = rs\<rparr>))"

section \<open>The deletion gate\<close>

record deletion_facts =
  local_exists :: bool
  local_size_matches :: bool
  local_sha256_exists :: bool
  local_sha256_matches :: bool
  kopia_verified :: bool
  remote_verified :: bool
  df_quarantine_expires_at :: "datetime option"
  source_exists :: bool
  source_unchanged :: bool
  source_identity_matches :: bool
  active_disk_healthy :: bool
  backup_disk_healthy :: bool
  storage_devices_differ :: bool
  sqlite_integrity_healthy :: bool
  remote_available :: bool
  global_deletion_enabled :: bool
  source_deletion_enabled :: bool
  safety_lock :: bool
  manual_approval_required :: bool
  manual_approval_granted :: bool

record deletion_run_usage =
  files_deleted :: nat
  bytes_deleted :: nat
  eligible_files :: int

record gate_decision =
  allowed :: bool
  blockers :: "string list"

definition gate_checks :: "deletion_facts \<Rightarrow> (string \<times> bool) list" where
  "gate_checks f = [
     (''local file missing'', local_exists f),
     (''local size mismatch'', local_size_matches f),
     (''local SHA-256 missing'', local_sha256_exists f),
     (''local SHA-256 mismatch'', local_sha256_matches f),
     (''local Kopia backup not verified'', kopia_verified f),
     (''remote copy not verified'', remote_verified f),
     (''quarantine not configured'', df_quarantine_expires_at f \<noteq> None),
     (''source item missing'', source_exists f),
     (''source changed'', source_unchanged f),
     (''source identity mismatch'', source_identity_matches f),
     (''active disk unhealthy'', active_disk_healthy f),
     (''backup disk unhealthy'', backup_disk_healthy f),
     (''active and backup storage share a device'', storage_devices_differ f),
     (''SQLite integrity failed'', sqlite_integrity_healthy f),
     (''remote storage unavailable'', remote_available f),
     (''global deletion disabled'', global_deletion_enabled f),
     (''source deletion disabled'', source_deletion_enabled f),
     (''safety lock active'', \<not> safety_lock f),
     (''manual approval missing'', \<not> manual_approval_required f \<or> manual_approval_granted f)]"

definition over_percentage :: "deletion_run_usage \<Rightarrow> deletion_limits \<Rightarrow> bool" where
  "over_percentage u l =
     (of_nat (files_deleted u + 1) / of_int (eligible_files u) * 100 > max_percentage_deleted_per_run l)"

definition limit_blockers :: "deletion_run_usage \<Rightarrow> deletion_limits \<Rightarrow> nat \<Rightarrow> string list" where
  "limit_blockers u l item_size =
     reason (files_deleted u + 1 > max_files_deleted_per_run l) ''per-run file deletion limit exceeded''
   @ reason (bytes_deleted u + item_size > max_bytes_deleted_per_run l) ''per-run byte deletion limit exceeded''
   @ (if eligible_files u \<le> 0 then [''eligible file count is invalid'']
      else reason (over_percentage u l) ''per-run percentage deletion limit exceeded'')"

definition evaluate_deletion_gate ::
  "deletion_facts \<Rightarrow> deletion_run_usage \<Rightarrow> deletion_limits \<Rightarrow> nat \<Rightarrow> datetime \<Rightarrow> exn + gate_decision" where
  "evaluate_deletion_gate f u l item_size now =
     (let failed = map fst (filter (\<lambda>(m, passed). \<not> passed) (gate_checks f));
          finish = (\<lambda>b. Inr \<lparr>allowed = (b = []), blockers = b\<rparr>) in
      case df_quarantine_expires_at f of
        None \<Rightarrow> finish (failed @ limit_blockers u l item_size)
      | Some expires \<Rightarrow>
          (case dt_sub now (aware expires) of Inl e \<Rightarrow> Inl e
           | Inr d \<Rightarrow> finish (failed @ reason (d < 0) ''quarantine has not elapsed''
                @ limit_blockers u l item_size)))"

lemma reason_Nil [simp]: "reason b m = [] \<longleftrightarrow> \<not> b"
  by (simp add: reason_def)

lemma failed_Nil: "map fst (filter (\<lambda>(m, passed). \<not> passed) cs) = [] \<longleftrightarrow> list_all snd cs"
  by (induction cs) auto

definition quarantine_over :: "datetime option \<Rightarrow> int \<Rightarrow> bool" where
  "quarantine_over q now = (case q of None \<Rightarrow> False | Some e \<Rightarrow> instant e \<le> now)"

definition limits_allow :: "deletion_run_usage \<Rightarrow> deletion_limits \<Rightarrow> nat \<Rightarrow> bool" where
  "limits_allow u l sz \<longleftrightarrow> files_deleted u < max_files_deleted_per_run l
     \<and> bytes_deleted u + sz \<le> max_bytes_deleted_per_run l
     \<and> 0 < eligible_files u \<and> over_percentage u l = False"

lemma limit_blockers_Nil: "limit_blockers u l sz = [] \<longleftrightarrow> limits_allow u l sz"
  by (auto simp: limit_blockers_def limits_allow_def)

lemma gate_checks_quarantine: "list_all snd (gate_checks f) \<Longrightarrow> df_quarantine_expires_at f \<noteq> None"
  by (simp add: gate_checks_def)

lemma gate_run:
  assumes "evaluate_deletion_gate f u l sz now = Inr d"
  shows "allowed d = (blockers d = [])"
    "allowed d \<longleftrightarrow> list_all snd (gate_checks f)
       \<and> quarantine_over (df_quarantine_expires_at f) (instant now) \<and> limits_allow u l sz"
proof -
  let ?failed = "map fst (filter (\<lambda>(m, passed). \<not> passed) (gate_checks f))"
  show "allowed d = (blockers d = [])"
    using assms by (auto simp: evaluate_deletion_gate_def Let_def split: option.splits sum.splits)
  show "allowed d \<longleftrightarrow> list_all snd (gate_checks f)
       \<and> quarantine_over (df_quarantine_expires_at f) (instant now) \<and> limits_allow u l sz"
  proof (cases "df_quarantine_expires_at f")
    case None
    then have "\<not> list_all snd (gate_checks f)" using gate_checks_quarantine by blast
    then have "?failed \<noteq> []" by (simp only: failed_Nil simp_thms)
    with None assms show ?thesis
      by (auto simp: evaluate_deletion_gate_def Let_def quarantine_over_def)
  next
    case (Some e)
    with assms obtain x where x: "dt_sub now (aware e) = Inr x"
      and d: "allowed d = (?failed @ reason (x < 0) ''quarantine has not elapsed'' @ limit_blockers u l sz = [])"
      by (auto simp: evaluate_deletion_gate_def Let_def split: sum.splits)
    from x have "x < 0 \<longleftrightarrow> \<not> quarantine_over (Some e) (instant now)"
      by (auto simp: dt_sub_def quarantine_over_def split: if_splits)
    with d Some show ?thesis
      by (simp only: append_is_Nil_conv failed_Nil reason_Nil limit_blockers_Nil simp_thms)
  qed
qed


lemma gate_allowedD:
  assumes "evaluate_deletion_gate f u l sz now = Inr d" "allowed d"
  shows "list_all snd (gate_checks f)" "quarantine_over (df_quarantine_expires_at f) (instant now)"
    "limits_allow u l sz"
  using gate_run(2) [OF assms(1)] assms(2) by blast+

text \<open>What a run of deletions can remove: each step must pass the gate with the usage so far.\<close>

fun run_admitted :: "deletion_limits \<Rightarrow> int \<Rightarrow> nat \<Rightarrow> nat \<Rightarrow> (deletion_facts \<times> nat \<times> datetime) list \<Rightarrow> bool" where
  "run_admitted l n files bytes [] = True"
| "run_admitted l n files bytes ((f, sz, now) # rest) =
     (case evaluate_deletion_gate f \<lparr>files_deleted = files, bytes_deleted = bytes, eligible_files = n\<rparr> l sz now of
        Inl e \<Rightarrow> False
      | Inr d \<Rightarrow> allowed d \<and> run_admitted l n (files + 1) (bytes + sz) rest)"

lemma run_admitted_bounds:
  assumes "run_admitted l n files bytes run" "files \<le> max_files_deleted_per_run l"
    "bytes \<le> max_bytes_deleted_per_run l" "of_nat files * 100 \<le> max_percentage_deleted_per_run l * of_int n \<or> files = 0"
  shows "files + length run \<le> max_files_deleted_per_run l
    \<and> bytes + sum_list (map (fst \<circ> snd) run) \<le> max_bytes_deleted_per_run l
    \<and> (of_nat (files + length run) * 100 \<le> max_percentage_deleted_per_run l * of_int n \<or> files + length run = 0)"
  using assms
proof (induction l n files bytes run rule: run_admitted.induct)
  case (1 l n files bytes)
  then show ?case by simp
next
  case (2 l n files bytes f sz now rest)
  let ?u = "\<lparr>files_deleted = files, bytes_deleted = bytes, eligible_files = n\<rparr>"
  from "2.prems"(1) obtain d where d: "evaluate_deletion_gate f ?u l sz now = Inr d" "allowed d"
    and rest: "run_admitted l n (files + 1) (bytes + sz) rest"
    by (auto split: sum.splits)
  note g = gate_allowedD(3) [OF d, unfolded limits_allow_def, simplified]
  have "of_nat (files + 1) * 100 \<le> max_percentage_deleted_per_run l * of_int n"
    using g by (auto simp: over_percentage_def not_less pos_divide_le_eq mult.commute algebra_simps)
  from "2.IH" [OF d(1) rest] this g show ?case by (simp add: add.assoc)
qed

text \<open>Deletions admitted one after the other by the gate, each counted in the usage the next
  one sees, together stay within the limits on files, bytes and percentage of the run.\<close>

theorem gated_run_within_limits:
  assumes "run_admitted l n 0 0 run"
  shows "length run \<le> max_files_deleted_per_run l
    \<and> sum_list (map (fst \<circ> snd) run) \<le> max_bytes_deleted_per_run l
    \<and> (of_nat (length run) * 100 \<le> max_percentage_deleted_per_run l * of_int n \<or> run = [])"
  using run_admitted_bounds [OF assms] by simp

definition example_facts :: deletion_facts where
  "example_facts = \<lparr>local_exists = True, local_size_matches = True, local_sha256_exists = True,
     local_sha256_matches = True, kopia_verified = True, remote_verified = True,
     df_quarantine_expires_at = Some (Naive 5), source_exists = True, source_unchanged = True,
     source_identity_matches = True, active_disk_healthy = True, backup_disk_healthy = True,
     storage_devices_differ = True, sqlite_integrity_healthy = True, remote_available = True,
     global_deletion_enabled = True, source_deletion_enabled = True, safety_lock = False,
     manual_approval_required = True, manual_approval_granted = True\<rparr>"

definition example_limits :: deletion_limits where
  "example_limits = \<lparr>max_files_deleted_per_run = 2, max_bytes_deleted_per_run = 10,
     max_percentage_deleted_per_run = 50\<rparr>"

theorem gated_run_within_limits_witness:
  "run_admitted example_limits 4 0 0 [(example_facts, 3, Aware 6), (example_facts, 4, Aware 7)]
   \<and> sum_list (map (fst \<circ> snd) [(example_facts, 3, Aware 6), (example_facts, 4, Aware 7)])
       \<le> max_bytes_deleted_per_run example_limits"
proof -
  have r: "run_admitted example_limits 4 0 0 [(example_facts, 3, Aware 6), (example_facts, 4, Aware 7)]"
    by (simp add: evaluate_deletion_gate_def dt_sub_def gate_checks_def limit_blockers_def
        over_percentage_def example_facts_def example_limits_def reason_def)
  from gated_run_within_limits [OF r] r show ?thesis by blast
qed

text \<open>A source object is eligible exactly when its first directory is included and not
  excluded, its path matches an included and no excluded pattern, its size is within the bounds, and
  it is older than both the archive age and the stability window.\<close>

theorem evaluate_policy_iff:
  "(case evaluate_policy item p (Aware now) of
      Inl e \<Rightarrow> pure_parts (relative_path item) = [] \<or> is_aware (modified_at item) = False
    | Inr d \<Rightarrow> (eligible d \<longleftrightarrow> reasons d = []) \<and> (eligible d \<longleftrightarrow>
         (if included_directories p = [] then True
          else hd (pure_parts (relative_path item)) \<in> set (included_directories p))
       \<and> (case pure_parts (relative_path item) of [] \<Rightarrow> True
          | q # qs \<Rightarrow> q \<notin> set (excluded_directories p))
       \<and> (if included_globs p = [] then True
          else list_ex (fnmatch (relative_path item)) (included_globs p))
       \<and> list_all (\<lambda>g. fnmatch (relative_path item) g = False) (excluded_globs p)
       \<and> minimum_file_size p \<le> int (so_size item)
       \<and> (case maximum_file_size p of None \<Rightarrow> True | Some m \<Rightarrow> int (so_size item) \<le> m)
       \<and> instant (modified_at item) + days (archive_after_days p) \<le> now
       \<and> instant (modified_at item) + hours (stability_window_hours p) \<le> now))"
proof (cases "evaluate_policy item p (Aware now)")
  case (Inl e)
  then show ?thesis
    by (auto simp: evaluate_policy_def Let_def dt_sub_def split: if_splits)
next
  case (Inr d)
  then have d: "eligible d = (reasons d = [])"
    and rs: "reasons d =
           reason (included_directories p \<noteq> [] \<and> hd (pure_parts (relative_path item)) \<notin> set (included_directories p)) ''directory not included''
         @ reason (pure_parts (relative_path item) \<noteq> [] \<and> hd (pure_parts (relative_path item)) \<in> set (excluded_directories p)) ''directory excluded''
         @ reason (included_globs p \<noteq> [] \<and> \<not> list_ex (fnmatch (relative_path item)) (included_globs p)) ''pattern not included''
         @ reason (list_ex (fnmatch (relative_path item)) (excluded_globs p)) ''pattern excluded''
         @ reason (int (so_size item) < minimum_file_size p) ''below minimum file size''
         @ reason (case maximum_file_size p of None \<Rightarrow> False | Some m \<Rightarrow> m < int (so_size item)) ''above maximum file size''
         @ reason (now - instant (modified_at item) < required_age p) ''age or stability window not reached''"
    by (auto simp: evaluate_policy_def Let_def dt_sub_def split: if_splits)
  have age: "\<not> now - instant (modified_at item) < required_age p \<longleftrightarrow>
      instant (modified_at item) + days (archive_after_days p) \<le> now
       \<and> instant (modified_at item) + hours (stability_window_hours p) \<le> now"
    by (auto simp: required_age_def)
  show ?thesis
    unfolding Inr d rs sum.case append_is_Nil_conv reason_Nil age
    by (cases "pure_parts (relative_path item)"; cases "maximum_file_size p")
       (auto simp: list_ex_iff list_all_iff not_less)
qed

end
