(* ===== verification/Source_Local.thy ===== *)
theory Source_Local
  imports Fileops Policies Datetimes "HOL-Library.List_Lexorder" "HOL-Library.Char_ord"
begin

text \<open>
  The two file-system sources: the local test source (\<open>adapters/sources/local.py\<close>) and the
  read-only view of imported iCloud originals (\<open>adapters/sources/icloud.py\<close>), with the receipts of
  \<open>domain/source.py\<close>. A source is a record of its settings; its operations are computations on
  the file system. File times are nanoseconds; \<open>ls_mtime\<close> is the time the kernel gives to a
  file it writes and \<open>ls_env\<close> whether \<open>MNEMA_ALLOW_TEST_DELETE\<close> is 1.
\<close>

section \<open>Receipts and settings\<close>

record source_capabilities =
  can_delete :: bool
  supports_cursor :: bool
  stable_versions :: bool

record authentication_status =
  authenticated :: bool
  detail :: string

record discovery_page =
  objects :: "source_object list"
  next_cursor :: "string option"

record download_receipt =
  dr_source_id :: string
  bytes_written :: nat
  dr_sha256 :: string
  dr_version :: string

record delete_receipt =
  del_source_id :: string
  expected_version :: string
  confirmed_absent :: bool

record local_source =
  ls_root :: path
  page_size :: nat
  interrupt_after_bytes :: "nat option"
  allow_delete :: bool
  ls_env :: bool
  ls_mtime :: int

section \<open>Python slices and new files\<close>

definition slice_bound :: "nat \<Rightarrow> int \<Rightarrow> nat" where
  "slice_bound n i = nat (if i < 0 then max 0 (i + int n) else min i (int n))"

definition py_slice :: "'a list \<Rightarrow> int \<Rightarrow> int \<Rightarrow> 'a list" where
  "py_slice xs a b = take (slice_bound (length xs) b - slice_bound (length xs) a)
     (drop (slice_bound (length xs) a) xs)"

definition node_inode :: "node \<Rightarrow> nat" where
  "node_inode n = (case n of File _ i _ \<Rightarrow> i | _ \<Rightarrow> 0)"

definition fresh_inode :: "fsys \<Rightarrow> nat" where
  "fresh_inode fs = foldr max (map (node_inode \<circ> snd) fs) 0 + 1"

text \<open>\<open>write_new p b t\<close>: open \<open>p\<close> in mode \<open>xb\<close> and write \<open>b\<close>; an existing entry is an error.\<close>

definition write_new :: "path \<Rightarrow> bytes \<Rightarrow> int \<Rightarrow> (fsys, unit) py" where
  "write_new p b t = (\<lambda>fs. (case parent_dir fs p of Inl e \<Rightarrow> (Inl e, fs)
     | Inr q \<Rightarrow> (if node_at fs (q @ [last p]) \<noteq> None then (Inl FileExistsError, fs)
         else (Inr (), set_node (q @ [last p]) (File b (fresh_inode fs) t) fs))))"

section \<open>The local source\<close>

definition capabilities :: "local_source \<Rightarrow> source_capabilities" where
  "capabilities a = \<lparr>can_delete = allow_delete a, supports_cursor = True, stable_versions = True\<rparr>"

definition object_version :: "nat \<Rightarrow> nat \<Rightarrow> int \<Rightarrow> string" where
  "object_version ino sz mtime = dec ino @ '':'' @ dec sz @ '':'' @ py_str_int mtime"

definition local_object :: "local_source \<Rightarrow> path \<Rightarrow> (fsys, source_object) py" where
  "local_object a p = (\<lambda>fs.
     if \<not> is_relative_to p (ls_root a) then (Inl (ValueError ''not in the subpath''), fs)
     else (case lnode fs p of
        None \<Rightarrow> (Inl FileNotFoundError, fs)
      | Some (File b ino mtime) \<Rightarrow>
          (let relative = join ''/'' (drop (length (ls_root a)) p) in
           (Inr \<lparr>so_id = relative, relative_path = relative, so_size = length b,
                 modified_at = Aware ((mtime + 500) div 1000),
                 so_version = object_version ino (length b) mtime\<rparr>, fs))
      | Some _ \<Rightarrow> (Inl (UnsafePath ''source object must be a regular non-symlink file''), fs)))"

text \<open>\<open>rglob\<close> without following links: the regular files below real directories, in path order.\<close>

definition regular_files :: "fsys \<Rightarrow> path \<Rightarrow> path list" where
  "regular_files fs rt = sort (filter (\<lambda>p. is_relative_to p rt \<and> length rt < length p \<and> dirs_to fs p
     \<and> is_reg (node_at fs p)) (remdups (map fst fs)))"

definition cursor_start :: "string option \<Rightarrow> exn + int" where
  "cursor_start c = py_int (case c of None \<Rightarrow> ''0'' | Some s \<Rightarrow> if s = [] then ''0'' else s)"

text \<open>The paging both adapters share: a page of the files and the cursor after it.\<close>

definition discover_page ::
  "(path \<Rightarrow> (fsys, source_object) py) \<Rightarrow> nat \<Rightarrow> path list \<Rightarrow> string option \<Rightarrow> (fsys, discovery_page) py" where
  "discover_page obj psize files cursor =
     bind_py (lift_sum (cursor_start cursor)) (\<lambda>start.
     (let page = py_slice files start (start + int psize);
          next_index = start + int (length page)
      in bind_py (map_py obj page) (\<lambda>os.
         ret \<lparr>objects = os, next_cursor =
            (if next_index < int (length files) then Some (py_str_int next_index) else None)\<rparr>)))"

definition local_discover :: "local_source \<Rightarrow> string option \<Rightarrow> (fsys, discovery_page) py" where
  "local_discover a cursor = (\<lambda>fs. discover_page (local_object a) (page_size a) (regular_files fs (ls_root a)) cursor fs)"

definition local_stat :: "local_source \<Rightarrow> string \<Rightarrow> (fsys, source_object) py" where
  "local_stat a sid = bind_py (\<lambda>fs. (resolve_beneath fs (ls_root a) sid True, fs)) (local_object a)"

text \<open>The copying loop: the bytes written, and whether the simulated interruption struck.\<close>

fun copy_loop :: "nat option \<Rightarrow> bytes \<Rightarrow> bytes list \<Rightarrow> bytes \<times> bool" where
  "copy_loop cap acc [] = (acc, False)"
| "copy_loop cap acc (c # cs) =
     (let acc' = acc @ c in
      if (case cap of None \<Rightarrow> False | Some n \<Rightarrow> n \<le> length acc') then (acc', True)
      else copy_loop cap acc' cs)"

definition local_download ::
  "(bytes \<Rightarrow> string) \<Rightarrow> local_source \<Rightarrow> string \<Rightarrow> path \<Rightarrow> (fsys, download_receipt) py" where
  "local_download sha a sid destination =
     bind_py (local_stat a sid) (\<lambda>before.
     bind_py (\<lambda>fs. (resolve_beneath fs (ls_root a) sid True, fs)) (\<lambda>source.
     seq (mkdirs (butlast destination)) (
     bind_py (read_bytes source) (\<lambda>data.
     (case copy_loop (interrupt_after_bytes a) [] (read_chunks data) of (written, interrupted) \<Rightarrow>
        seq (write_new destination written (ls_mtime a)) (
        seq (require (\<not> interrupted) InterruptedError) (
        bind_py (local_stat a sid) (\<lambda>after.
        seq (require (so_version before = so_version after)
              (SourceChangedError ''source changed during transfer'')) (
        ret \<lparr>dr_source_id = sid, bytes_written = length written, dr_sha256 = sha written,
             dr_version = so_version before\<rparr>)))))))))"

definition local_delete :: "local_source \<Rightarrow> string \<Rightarrow> string \<Rightarrow> (fsys, delete_receipt) py" where
  "local_delete a sid expected =
     seq (require (allow_delete a \<and> ls_env a) (PermissionError ''test deletion is disabled'')) (
     bind_py (local_stat a sid) (\<lambda>current.
     seq (require (so_version current = expected) (SourceChangedError ''source changed before deletion'')) (
     bind_py (\<lambda>fs. (resolve_beneath fs (ls_root a) sid True, fs)) (\<lambda>p.
     seq (unlink p) (
     bind_py (gets (\<lambda>fs. \<not> path_exists fs p)) (\<lambda>absent.
     ret \<lparr>del_source_id = sid, expected_version = expected, confirmed_absent = absent\<rparr>))))))"

section \<open>The iCloud view\<close>

definition icloud_session_status ::
  "fsys \<Rightarrow> path \<Rightarrow> datetime option \<Rightarrow> string option \<Rightarrow> int \<Rightarrow> datetime \<Rightarrow> exn + authentication_status" where
  "icloud_session_status fs session_directory last_success last_result stale_after now =
     (let present = is_dir fs session_directory \<and>
        (case resolve_path fs True session_directory of Inl e \<Rightarrow> False
         | Inr d \<Rightarrow> regular_files fs d \<noteq> []) in
      if \<not> present then Inr \<lparr>authenticated = False, detail = ''iCloud authentication required''\<rparr>
      else if last_result = Some ''failed'' then Inr \<lparr>authenticated = False,
        detail = ''last iCloud import failed; reauthentication may be required''\<rparr>
      else case last_success of
        None \<Rightarrow> Inr \<lparr>authenticated = False, detail = ''iCloud session has never completed an import''\<rparr>
      | Some t \<Rightarrow> (case dt_sub now (aware t) of Inl e \<Rightarrow> Inl e
        | Inr age \<Rightarrow>
          if age > stale_after
          then Inr \<lparr>authenticated = False,
                 detail = ''no successful iCloud import since '' @ isoformat (aware t)\<rparr>
          else Inr \<lparr>authenticated = True,
                 detail = ''last iCloud import succeeded at '' @ isoformat (aware t)\<rparr>))"

definition incomplete_suffixes :: "string list" where
  "incomplete_suffixes = [''.icloud'', ''.part'', ''.partial'', ''.tmp'']"

definition icloud_complete :: "path \<Rightarrow> path \<Rightarrow> bool" where
  "icloud_complete rt p \<longleftrightarrow>
     \<not> list_ex (\<lambda>q. startswith q ''.'') (drop (length rt) p)
     \<and> lower (path_suffix (last p)) \<notin> set incomplete_suffixes"

definition icloud_object :: "local_source \<Rightarrow> path \<Rightarrow> (fsys, source_object) py" where
  "icloud_object a p = bind_py (local_object a p)
     (\<lambda>item. ret (item\<lparr>relative_path := ''iCloud Photos/'' @ relative_path item\<rparr>))"

definition icloud_discover :: "local_source \<Rightarrow> string option \<Rightarrow> (fsys, discovery_page) py" where
  "icloud_discover a cursor = (\<lambda>fs. discover_page (icloud_object a) (page_size a)
     (filter (icloud_complete (ls_root a)) (regular_files fs (ls_root a))) cursor fs)"

definition icloud_stat :: "local_source \<Rightarrow> string \<Rightarrow> (fsys, source_object) py" where
  "icloud_stat a sid = bind_py (\<lambda>fs. (resolve_beneath fs (ls_root a) sid True, fs)) (icloud_object a)"

definition icloud_delete :: "local_source \<Rightarrow> string \<Rightarrow> string \<Rightarrow> (fsys, delete_receipt) py" where
  "icloud_delete a sid expected = raise_py (PermissionError ''iCloud Photos deletion is not implemented'')"

section \<open>Downloads and deletions\<close>

lemma copy_loop_complete: "copy_loop cap acc cs = (w, False) \<Longrightarrow> w = acc @ concat cs"
  by (induction cap acc cs rule: copy_loop.induct) (auto simp: Let_def split: if_splits)

lemma local_object_state [simp]: "snd (local_object a p fs) = fs"
  by (auto simp: local_object_def Let_def split: option.split node.split)

lemma local_object_InrD:
  assumes "local_object a p fs = (Inr ob, fs')"
  shows "fs' = fs" "\<exists>b i m. lnode fs p = Some (File b i m) \<and> so_size ob = length b
    \<and> so_version ob = object_version i (length b) m"
  using assms by (auto simp: local_object_def Let_def split: option.splits node.splits if_splits)

lemma local_stat_InrD:
  assumes "local_stat a sid fs = (Inr ob, fs')"
  obtains p b i m where "fs' = fs" "resolve_beneath fs (ls_root a) sid True = Inr p" "canonical fs p"
    "node_at fs p = Some (File b i m)" "dirs_to fs p" "so_version ob = object_version i (length b) m"
proof -
  from assms obtain p where p: "resolve_beneath fs (ls_root a) sid True = Inr p"
    and ob: "local_object a p fs = (Inr ob, fs')"
    by (auto simp: local_stat_def bind_py_def split: sum.splits)
  have can: "canonical fs p" using resolve_beneath_existing [OF p] by blast
  from local_object_InrD [OF ob] obtain b i m where "fs' = fs" and
    l: "lnode fs p = Some (File b i m)" "so_version ob = object_version i (length b) m" by blast
  with can have "node_at fs p = Some (File b i m)" "dirs_to fs p"
    by (auto simp: lnode_canonical split: if_splits)
  with p can l(2) \<open>fs' = fs\<close> show thesis using that by blast
qed

lemma local_stat_same: "local_stat a sid fs = (Inr ob, fs') \<Longrightarrow> fs' = fs"
  by (erule local_stat_InrD)

lemma is_digit_colon: "list_all is_digit s \<Longrightarrow> CHR '':'' \<notin> set s"
  by (auto simp: list_all_iff is_digit_def)

lemma split_at_colon:
  assumes "CHR '':'' \<notin> set s" "CHR '':'' \<notin> set t"
  shows "s @ CHR '':'' # u = t @ CHR '':'' # v \<longleftrightarrow> s = t \<and> u = v"
proof
  have tw: "takeWhile (\<lambda>c. c \<noteq> CHR '':'') (x @ CHR '':'' # y) = x" if "CHR '':'' \<notin> set x" for x y
    using that by (induction x) auto
  assume eq: "s @ CHR '':'' # u = t @ CHR '':'' # v"
  then have "takeWhile (\<lambda>c. c \<noteq> CHR '':'') (s @ CHR '':'' # u)
      = takeWhile (\<lambda>c. c \<noteq> CHR '':'') (t @ CHR '':'' # v)" by (rule arg_cong)
  then have "s = t" unfolding tw [OF assms(1)] tw [OF assms(2)] .
  with eq show "s = t \<and> u = v" by simp
qed simp

lemma py_str_int_inject: "py_str_int m = py_str_int n \<longleftrightarrow> m = n"
proof -
  have "dec k \<noteq> CHR ''-'' # s" for k s
    using dec_digits [of k] by (auto simp: is_digit_def)
  then have "dec k \<noteq> CHR ''-'' # s" "CHR ''-'' # s \<noteq> dec k" for k s by metis+
  then show ?thesis by (auto simp: py_str_int_def)
qed

text \<open>A version names inode, size and modification time.\<close>

lemma object_version_inject:
  "object_version i n m = object_version i' n' m' \<longleftrightarrow> i = i' \<and> n = n' \<and> m = m'"
  by (simp add: object_version_def split_at_colon is_digit_colon dec_digits py_str_int_inject)

lemma write_new_InrD:
  assumes "write_new p b t fs = (Inr (), fs')" "canonical fs (butlast p)" "p \<noteq> []" "last p \<noteq> ''..''"
  shows "node_at fs p = None" "fs' = set_node p (File b (fresh_inode fs) t) fs" "dirs_to fs p"
    "content fs' p = Some b"
proof -
  obtain q where q: "parent_dir fs p = Inr q"
    using assms(1) by (cases "parent_dir fs p") (simp_all add: write_new_def)
  note pd = parent_dir_InrD [OF q assms(2,3)]
  show none: "node_at fs p = None" and fs': "fs' = set_node p (File b (fresh_inode fs) t) fs"
    using assms(1) pd(1) by (auto simp: write_new_def q split: if_splits)
  show d: "dirs_to fs p" by (rule pd(2))
  have node: "node_at fs' q = (if q = p then Some (File b (fresh_inode fs) t) else node_at fs q)" for q
    using assms(3) by (simp add: fs')
  have "canonical fs' (butlast p)"
    using assms(2) by (rule canonical_change) (auto simp: node is_link_def split: if_splits)
  then have can: "canonical fs' p"
    using canonical_snoc [of fs' "butlast p" "last p"] assms(3,4) by (simp add: node is_link_def)
  have "dirs_to fs' p" using d by (rule dirs_to_change) (use none in \<open>auto simp: node\<close>)
  with can show "content fs' p = Some b" by (simp add: content_File node)
qed

lemma write_new_only: "write_new p b t fs = (Inr (), fs') \<Longrightarrow> node_at fs q = Some n \<Longrightarrow> node_at fs' q = Some n"
  by (auto simp: write_new_def split: sum.splits if_splits)

text \<open>A finished download has written, to a path that did not exist, exactly the bytes of a
  regular file beneath the source root that no link leads to; the receipt carries their number and
  digest and that file's version, and no existing file changed.\<close>

theorem local_download_correct:
  assumes run: "local_download sha a sid dst fs = (Inr r, fs')" and dst: "canonical fs dst" "dst \<noteq> []"
  shows "\<exists>p b i m. resolve_beneath fs (ls_root a) sid True = Inr p \<and> canonical fs p
    \<and> node_at fs p = Some (File b i m) \<and> dr_version r = object_version i (length b) m
    \<and> dr_sha256 r = sha b \<and> bytes_written r = length b
    \<and> node_at fs dst = None \<and> content fs' dst = Some b
    \<and> (\<forall>q c j k. node_at fs q = Some (File c j k) \<longrightarrow> node_at fs' q = Some (File c j k))"
proof -
  note E = bind_py_Inr_E seq_Inr_E
  from run obtain before fs0 where before: "local_stat a sid fs = (Inr before, fs0)"
    and run: "bind_py (\<lambda>fs. (resolve_beneath fs (ls_root a) sid True, fs)) (\<lambda>source.
     seq (mkdirs (butlast dst)) (bind_py (read_bytes source) (\<lambda>data.
     (case copy_loop (interrupt_after_bytes a) [] (read_chunks data) of (written, interrupted) \<Rightarrow>
        seq (write_new dst written (ls_mtime a)) (
        seq (require (\<not> interrupted) InterruptedError) (
        bind_py (local_stat a sid) (\<lambda>after.
        seq (require (so_version before = so_version after)
              (SourceChangedError ''source changed during transfer'')) (
        ret \<lparr>dr_source_id = sid, bytes_written = length written, dr_sha256 = sha written,
             dr_version = so_version before\<rparr>)))))))) fs0 = (Inr r, fs')"
    unfolding local_download_def by (rule bind_py_Inr_E)
  from before obtain p b i m where p: "fs0 = fs" "resolve_beneath fs (ls_root a) sid True = Inr p"
    "canonical fs p" "node_at fs p = Some (File b i m)" "dirs_to fs p"
    "so_version before = object_version i (length b) m" by (rule local_stat_InrD)
  from run p(2) obtain fs1 fs2 data w where mk: "mkdirs (butlast dst) fs = (Inr (), fs1)"
    and data: "read_bytes p fs1 = (Inr data, fs2)"
    and loop: "copy_loop (interrupt_after_bytes a) [] (read_chunks data) = (w, False)"
    and rest: "seq (write_new dst w (ls_mtime a)) (
        bind_py (local_stat a sid) (\<lambda>after.
        seq (require (so_version before = so_version after)
              (SourceChangedError ''source changed during transfer'')) (
        ret \<lparr>dr_source_id = sid, bytes_written = length w, dr_sha256 = sha w,
             dr_version = so_version before\<rparr>))) fs2 = (Inr r, fs')"
    unfolding p(1)
    by (auto elim!: E simp: require_Inr_iff seq_def bind_py_def split: prod.splits sum.splits if_splits)
  have ext: "extends fs fs1" using mk mkdirs_from_extends unfolding mkdirs_def by blast
  have "content fs p = Some b" using p(3-5) by (simp add: content_File)
  with ext p(3) have c1: "content fs1 p = Some b" by (rule extends_content)
  with data have "fs2 = fs1" "data = b" by (simp_all add: read_bytes_content)
  with loop have w: "w = b" using copy_loop_complete concat_read_chunks by fastforce
  from rest w \<open>fs2 = fs1\<close> obtain fs3 where wr: "write_new dst b (ls_mtime a) fs1 = (Inr (), fs3)"
    and r: "dr_version r = so_version before \<and> dr_sha256 r = sha b \<and> bytes_written r = length b"
    and st: "fs' = fs3"
    by (auto elim!: E simp: require_Inr_iff dest!: local_stat_same)
  have can1: "canonical fs1 (butlast dst)" "last dst \<noteq> ''..''"
    using dst canonical_butlast extends_canonical [OF ext] last_in_set unfolding canonical_def by metis+
  note w = write_new_InrD [OF wr can1(1) dst(2) can1(2)]
  have "node_at fs dst = None" using w(1) by (metis extends_cases [OF ext] option.distinct(1))
  moreover have "node_at fs' q = Some (File c j k)" if "node_at fs q = Some (File c j k)" for q c j k
    using write_new_only [OF wr extends_File [OF ext that]] st by simp
  ultimately show ?thesis using p r w(4) st
    by (intro exI [of _ p] exI [of _ b] exI [of _ i] exI [of _ m] conjI allI impI) simp_all
qed

text \<open>The test source removes a file only when deletion is enabled twice, and then only the
  regular file beneath its root whose version is the expected one; the receipt confirms it is gone.\<close>

theorem local_delete_safe:
  assumes run: "local_delete a sid ver fs = (res, fs')" and changed: "fs' \<noteq> fs"
  shows "allow_delete a \<and> ls_env a \<and> (\<exists>p b i m. resolve_beneath fs (ls_root a) sid True = Inr p
    \<and> node_at fs p = Some (File b i m) \<and> ver = object_version i (length b) m
    \<and> node_at fs' p = None \<and> only_changed {p} fs fs'
    \<and> res = Inr \<lparr>del_source_id = sid, expected_version = ver, confirmed_absent = True\<rparr>)"
proof -
  have enabled: "allow_delete a" "ls_env a"
    using run changed by (auto simp: local_delete_def require_def seq_def bind_py_def split: if_splits)
  obtain ob where stat: "local_stat a sid fs = (Inr ob, fs)"
  proof (cases "fst (local_stat a sid fs)")
    case (Inl e)
    moreover have "snd (local_stat a sid fs) = fs"
      by (simp add: local_stat_def bind_py_def split: sum.split)
    ultimately have "local_stat a sid fs = (Inl e, fs)" by (metis prod.collapse)
    with run changed enabled show ?thesis by (simp add: local_delete_def seq_def)
  next
    case (Inr ob)
    then have "local_stat a sid fs = (Inr ob, snd (local_stat a sid fs))" by (metis prod.collapse)
    with that show ?thesis by (metis local_stat_InrD)
  qed
  from stat obtain p b i m where p: "resolve_beneath fs (ls_root a) sid True = Inr p"
    "canonical fs p" "node_at fs p = Some (File b i m)" "dirs_to fs p"
    "so_version ob = object_version i (length b) m" by (rule local_stat_InrD)
  have ver: "so_version ob = ver"
    using run changed enabled stat by (auto simp: local_delete_def seq_def require_def bind_py_def split: if_splits)
  have ne: "p \<noteq> []" "canonical fs (butlast p)" using p canonical_butlast by (auto simp: node_at_def)
  have "unlink p fs = (Inr (), del_node p fs)"
    using parent_dir_canonical [OF ne(2,1), of "butlast p"] p ne(1) by (simp add: unlink_def Let_def)
  note u = this unlink_effect [OF this p(2,3)]
  have "\<not> path_exists (del_node p fs) p"
  proof -
    have "canonical (del_node p fs) p"
      using p(2) by (rule canonical_change) (use ne(1) in \<open>auto simp: is_link_def split: if_splits\<close>)
    then show ?thesis using ne(1) by (simp add: path_exists_def follow_canonical)
  qed
  with run enabled stat ver p(1) u(1)
  have "fs' = del_node p fs" "res = Inr \<lparr>del_source_id = sid, expected_version = ver, confirmed_absent = True\<rparr>"
    by (auto simp: local_delete_def seq_def)
  with enabled p ver u show ?thesis by metis
qed

text \<open>The scanner's loop over the pages of a source, without what it does with the objects.\<close>

fun collect_pages ::
  "nat \<Rightarrow> (string option \<Rightarrow> (fsys, discovery_page) py) \<Rightarrow> string option \<Rightarrow> (fsys, source_object list option) py" where
  "collect_pages 0 d c = ret None"
| "collect_pages (Suc n) d c = bind_py (d c) (\<lambda>page.
     case next_cursor page of None \<Rightarrow> ret (Some (objects page))
     | Some k \<Rightarrow> bind_py (collect_pages n d (Some k)) (\<lambda>r. ret (map_option ((@) (objects page)) r)))"

lemma map_py_append:
  "map_py f (xs @ ys) s = bind_py (map_py f xs) (\<lambda>as. bind_py (map_py f ys) (\<lambda>bs. ret (as @ bs))) s"
  by (induction xs arbitrary: s) (auto simp: bind_py_def split: prod.split sum.split)

lemma map_py_state: "(\<And>x s. snd (f x s) = s) \<Longrightarrow> snd (map_py f xs s) = s"
proof (induction xs arbitrary: s)
  case (Cons x xs)
  from Cons.prems have "snd (f x s) = s" by blast
  moreover from Cons have "snd (map_py f xs s) = s" by blast
  ultimately show ?case by (auto simp: bind_py_def split: prod.splits sum.splits)
qed simp

lemma py_slice_nat:
  "k \<le> length xs \<Longrightarrow> py_slice xs (int k) (int k + int n) = take n (drop k xs)"
  by (auto simp: py_slice_def slice_bound_def min_def nat_add_distrib)

lemma collect_pages_from:
  assumes d: "\<And>c. d c fs = discover_page obj n files c fs" and n: "0 < n"
    and obj: "\<And>x s. snd (obj x s) = s"
  shows "k \<le> length files \<Longrightarrow> length files - k < fuel \<Longrightarrow> cursor_start c = Inr (int k) \<Longrightarrow>
     collect_pages fuel d c fs = bind_py (map_py obj (drop k files)) (\<lambda>os. ret (Some os)) fs"
proof (induction fuel arbitrary: k c)
  case 0
  then show ?case by simp
next
  case (Suc fuel)
  let ?page = "take n (drop k files)"
  define N where "N = k + length ?page"
  obtain r where r: "map_py obj ?page fs = (r, fs)"
    using map_py_state [where f = obj and xs = ?page and s = fs, OF obj] by (cases "map_py obj ?page fs") simp
  have page: "d c fs = (case r of Inl e \<Rightarrow> (Inl e, fs) | Inr os \<Rightarrow> (Inr \<lparr>objects = os, next_cursor =
      if N < length files then Some (dec N) else None\<rparr>, fs))"
    using Suc.prems(1,3) r unfolding N_def
    by (simp add: d discover_page_def bind_py_def py_slice_nat Let_def py_str_int_def nat_add_distrib
        split: sum.split) (auto simp: min_def split: if_splits)
  have split: "drop k files = ?page @ drop N files"
    unfolding N_def
    by (metis append_take_drop_id add.commute drop_drop length_drop length_take min.commute min_def
        drop_all take_all nat_le_linear)
  have run: "bind_py (map_py obj (drop k files)) (\<lambda>os. ret (Some os)) fs
      = (case r of Inl e \<Rightarrow> (Inl e, fs) | Inr os \<Rightarrow>
          bind_py (map_py obj (drop N files)) (\<lambda>bs. ret (Some (os @ bs))) fs)"
  proof -
    have "map_py obj (drop k files) fs = map_py obj (?page @ drop N files) fs"
      by (rule arg_cong [OF split])
    then have all: "map_py obj (drop k files) fs = (case r of Inl e \<Rightarrow> (Inl e, fs)
        | Inr os \<Rightarrow> bind_py (map_py obj (drop N files)) (\<lambda>bs. ret (os @ bs)) fs)"
      unfolding map_py_append by (cases r) (simp_all add: r)
    show ?thesis
      using all by (cases r; cases "map_py obj (drop N files) fs")
        (auto simp: bind_py_def split: prod.split sum.split)
  qed
  show ?case
  proof (cases r)
    case (Inl e)
    have "collect_pages (Suc fuel) d c fs = (Inl e, fs)" by (simp add: page Inl)
    moreover have "bind_py (map_py obj (drop k files)) (\<lambda>os. ret (Some os)) fs = (Inl e, fs)"
      unfolding run by (simp add: Inl)
    ultimately show ?thesis by (rule trans [OF _ sym])
  next
    case (Inr os)
    show ?thesis
    proof (cases "N < length files")
      case False
      have "collect_pages (Suc fuel) d c fs = (Inr (Some os), fs)" using False by (simp add: page Inr)
      moreover have "bind_py (map_py obj (drop k files)) (\<lambda>os. ret (Some os)) fs = (Inr (Some os), fs)"
        unfolding run using False by (simp add: Inr)
      ultimately show ?thesis by (rule trans [OF _ sym])
    next
      case True
      with n have "length ?page \<noteq> 0" unfolding N_def by auto
      then have IH: "collect_pages fuel d (Some (dec N)) fs
          = bind_py (map_py obj (drop N files)) (\<lambda>os. ret (Some os)) fs"
        using True Suc.prems(2) unfolding N_def by (intro Suc.IH) (auto simp: cursor_start_def)
      obtain r' where r': "map_py obj (drop N files) fs = (r', fs)"
        using map_py_state [where f = obj and xs = "drop N files" and s = fs, OF obj]
        by (cases "map_py obj (drop N files) fs") simp
      have "bind_py (map_py obj (drop k files)) (\<lambda>os. ret (Some os)) fs
          = (case r' of Inl e \<Rightarrow> (Inl e, fs) | Inr bs \<Rightarrow> (Inr (Some (os @ bs)), fs))"
        unfolding run by (cases r') (simp_all add: Inr r')
      moreover have "collect_pages (Suc fuel) d c fs
          = (case r' of Inl e \<Rightarrow> (Inl e, fs) | Inr bs \<Rightarrow> (Inr (Some (os @ bs)), fs))"
        using True IH r' by (cases r') (simp_all add: page Inr)
      ultimately show ?thesis by (rule trans [OF _ sym, rotated])
    qed
  qed
qed

text \<open>C12: following the cursors of the local source from the start ends within one page per file
  and yields every regular file beneath the root exactly once, in path order.\<close>

theorem local_discover_complete:
  assumes "0 < page_size a"
  shows "collect_pages (Suc (length (regular_files fs (ls_root a)))) (local_discover a) None fs
      = bind_py (map_py (local_object a) (regular_files fs (ls_root a))) (\<lambda>os. ret (Some os)) fs
    \<and> distinct (regular_files fs (ls_root a))"
proof
  have "cursor_start None = Inr (int 0)" by code_simp
  with assms have "collect_pages fuel (local_discover a) None fs
      = bind_py (map_py (local_object a) (drop 0 (regular_files fs (ls_root a)))) (\<lambda>os. ret (Some os)) fs"
    if "length (regular_files fs (ls_root a)) - 0 < fuel" for fuel
    by (intro collect_pages_from [where n = "page_size a"] that) (simp_all add: local_discover_def)
  then show "collect_pages (Suc (length (regular_files fs (ls_root a)))) (local_discover a) None fs
      = bind_py (map_py (local_object a) (regular_files fs (ls_root a))) (\<lambda>os. ret (Some os)) fs"
    by (simp del: collect_pages.simps)
  show "distinct (regular_files fs (ls_root a))" by (simp add: regular_files_def)
qed

definition example_source :: local_source where
  "example_source = \<lparr>ls_root = [''src''], page_size = 1, interrupt_after_bytes = None,
     allow_delete = True, ls_env = True, ls_mtime = 7\<rparr>"

definition example_files :: fsys where
  "example_files = [([''src''], Dir), ([''src'', ''b.txt''], File ''hi'' 3 4000), ([''stage''], Dir)]"

lemma example_steps:
  "local_stat example_source ''b.txt'' example_files = (Inr \<lparr>so_id = ''b.txt'',
     relative_path = ''b.txt'', so_size = 2, modified_at = Aware 4, so_version = ''3:2:4000''\<rparr>, example_files)"
  "resolve_beneath example_files (ls_root example_source) ''b.txt'' True = Inr [''src'', ''b.txt'']"
  "unlink [''src'', ''b.txt''] example_files = (Inr (), [([''src''], Dir), ([''stage''], Dir)])"
  "mkdirs [''stage''] example_files = (Inr (), example_files)"
  "read_bytes [''src'', ''b.txt''] example_files = (Inr ''hi'', example_files)"
  "read_chunks ''hi'' = [''hi'']"
  "canonical example_files [''stage'', ''1.partial'']"
  by code_simp+

lemma example_write:
  "write_new [''stage'', ''1.partial''] ''hi'' (ls_mtime example_source) example_files
     = (Inr (), example_files @ [([''stage'', ''1.partial''], File ''hi'' 4 7)])"
  "local_stat example_source ''b.txt'' (example_files @ [([''stage'', ''1.partial''], File ''hi'' 4 7)])
     = (Inr \<lparr>so_id = ''b.txt'', relative_path = ''b.txt'', so_size = 2, modified_at = Aware 4,
          so_version = ''3:2:4000''\<rparr>, example_files @ [([''stage'', ''1.partial''], File ''hi'' 4 7)])"
  by code_simp+

theorem local_download_correct_witness:
  "\<exists>r fs'. local_download (\<lambda>b. b) example_source ''b.txt'' [''stage'', ''1.partial''] example_files = (Inr r, fs')
     \<and> content fs' [''stage'', ''1.partial''] = Some ''hi'' \<and> dr_sha256 r = ''hi''"
proof -
  have "interrupt_after_bytes example_source = None" by (simp add: example_source_def)
  then obtain r fs' where run: "local_download (\<lambda>b. b) example_source ''b.txt'' [''stage'', ''1.partial''] example_files
     = (Inr r, fs')" "dr_sha256 r = ''hi''"
    by (simp add: local_download_def seq_def example_steps example_write)
  from local_download_correct [OF run(1) example_steps(7)] run show ?thesis by auto
qed

theorem local_delete_safe_witness:
  "\<exists>fs'. snd (local_delete example_source ''b.txt'' ''3:2:4000'' example_files) = fs'
     \<and> fs' \<noteq> example_files \<and> node_at fs' [''src'', ''b.txt''] = None"
proof -
  have flags: "allow_delete example_source" "ls_env example_source" by (simp_all add: example_source_def)
  obtain r where run: "local_delete example_source ''b.txt'' ''3:2:4000'' example_files
      = (r, [([''src''], Dir), ([''stage''], Dir)])"
    by (simp add: local_delete_def seq_def flags example_steps)
  have ne: "[([''src''], Dir), ([''stage''], Dir)] \<noteq> example_files" by (simp add: example_files_def)
  from local_delete_safe [OF run ne] run ne show ?thesis by (auto simp: example_steps)
qed

theorem local_discover_complete_witness:
  "collect_pages 2 (local_discover example_source) None example_files
     = (Inr (Some [\<lparr>so_id = ''b.txt'', relative_path = ''b.txt'', so_size = 2, modified_at = Aware 4,
          so_version = ''3:2:4000''\<rparr>]), example_files)
   \<and> 0 < page_size example_source"
proof -
  have files: "regular_files example_files (ls_root example_source) = [[''src'', ''b.txt'']]" by code_simp
  have ob: "local_object example_source [''src'', ''b.txt''] example_files
    = (Inr \<lparr>so_id = ''b.txt'', relative_path = ''b.txt'', so_size = 2, modified_at = Aware 4,
          so_version = ''3:2:4000''\<rparr>, example_files)" by code_simp
  have size: "0 < page_size example_source" by (simp add: example_source_def)
  from local_discover_complete [OF size, of example_files] size ob show ?thesis
    unfolding files by (simp add: eval_nat_numeral del: collect_pages.simps)
qed

end
