(* ===== verification/Interfaces.thy ===== *)
theory Interfaces
  imports Source_Local
begin

text \<open>
  The protocols the archive workflow is written against: sources (\<open>domain/source.py\<close>), versioned
  backups (\<open>adapters/backup/base.py\<close>) and cold storage (\<open>adapters/cold_storage/base.py\<close>), as
  records of operations on the disk. What the workflow relies on is stated once, as locales: an
  object that verifies against a digest restores to content with that digest; a key without a stored
  object gets one that verifies; a key with one keeps it.
\<close>

record source_ops =
  sc_capabilities :: source_capabilities
  sc_discover :: "string option \<Rightarrow> (fsys, discovery_page) py"
  sc_stat :: "string \<Rightarrow> (fsys, source_object) py"
  sc_download :: "string \<Rightarrow> path \<Rightarrow> (fsys, download_receipt) py"
  sc_delete :: "string \<Rightarrow> string \<Rightarrow> (fsys, delete_receipt) py"

record backup_receipt =
  snapshot_id :: string

record backup_ops =
  bk_snapshot :: "path \<Rightarrow> string \<Rightarrow> (fsys, backup_receipt) py"
  bk_verify :: "backup_receipt \<Rightarrow> string \<Rightarrow> (fsys, bool) py"
  bk_restore :: "backup_receipt \<Rightarrow> path \<Rightarrow> (fsys, unit) py"

record cold_receipt =
  rc_provider :: string
  rc_bucket :: string
  rc_object :: string
  rc_encryption :: string
  rc_size :: nat
  rc_checksum :: "string option"

record cold_ops =
  cs_upload :: "path \<Rightarrow> string \<Rightarrow> string \<Rightarrow> (fsys, cold_receipt) py"
  cs_verify :: "cold_receipt \<Rightarrow> string \<Rightarrow> (fsys, bool) py"
  cs_archive :: "cold_receipt \<Rightarrow> (fsys, unit) py"
  cs_restore :: "cold_receipt \<Rightarrow> path \<Rightarrow> (fsys, unit) py"
  cs_available :: "(fsys, bool) py"

definition local_source_ops :: "(bytes \<Rightarrow> string) \<Rightarrow> local_source \<Rightarrow> source_ops" where
  "local_source_ops sha a = \<lparr>sc_capabilities = capabilities a, sc_discover = local_discover a,
     sc_stat = local_stat a, sc_download = local_download sha a, sc_delete = local_delete a\<rparr>"

definition icloud_source_ops :: "(bytes \<Rightarrow> string) \<Rightarrow> local_source \<Rightarrow> source_ops" where
  "icloud_source_ops sha a = \<lparr>sc_capabilities = capabilities (a\<lparr>allow_delete := False\<rparr>),
     sc_discover = icloud_discover a, sc_stat = icloud_stat a, sc_download = local_download sha a,
     sc_delete = icloud_delete a\<rparr>"

text \<open>A destination an adapter can create: no link on its way.\<close>

definition plain_target :: "fsys \<Rightarrow> path \<Rightarrow> bool" where
  "plain_target fs p \<longleftrightarrow> canonical fs (butlast p) \<and> p \<noteq> [] \<and> last p \<noteq> ''..''"

locale verifiable =
  fixes sha :: "bytes \<Rightarrow> string"
    and verify :: "'r \<Rightarrow> string \<Rightarrow> (fsys, bool) py"
    and restore :: "'r \<Rightarrow> path \<Rightarrow> (fsys, unit) py"
  assumes verify_restores:
      "verify r h fs = (Inr True, fs1) \<Longrightarrow> restore r dst fs1 = (Inr (), fs2) \<Longrightarrow> plain_target fs1 dst \<Longrightarrow>
         \<exists>b. content fs2 dst = Some b \<and> sha b = h"
    and verify_keeps_files: "verify r h fs = (x, fs1) \<Longrightarrow> extends fs fs1"
begin

text \<open>Two digests that verify for one receipt are digests of the same restored bytes.\<close>

lemma verify_unique:
  assumes "verify r h fs = (Inr True, fs)" "verify r k fs = (Inr True, fs)"
    "restore r dst fs = (Inr (), fs2)" "plain_target fs dst"
  shows "h = k"
  using verify_restores [OF assms(1,3,4)] verify_restores [OF assms(2,3,4)] by auto

text \<open>Verification never touches a regular file.\<close>

lemma verify_content: "verify r h fs = (x, fs1) \<Longrightarrow> canonical fs p \<Longrightarrow> content fs p = Some b \<Longrightarrow> content fs1 p = Some b"
  using verify_keeps_files extends_content by blast

end

text \<open>
  A provider that stores an object per idempotency key: \<open>ready\<close> says its directory is usable,
  \<open>present\<close> that the key has an object.
\<close>

locale keyed_store = verifiable sha verify restore
  for sha :: "bytes \<Rightarrow> string"
    and verify :: "'r \<Rightarrow> string \<Rightarrow> (fsys, bool) py"
    and restore :: "'r \<Rightarrow> path \<Rightarrow> (fsys, unit) py" +
  fixes put :: "path \<Rightarrow> string \<Rightarrow> (fsys, 'r) py"
    and ready :: "fsys \<Rightarrow> string \<Rightarrow> bool"
    and present :: "fsys \<Rightarrow> string \<Rightarrow> bool"
  assumes put_verifies:
      "put src key fs = (Inr r, fs1) \<Longrightarrow> ready fs key \<Longrightarrow> \<not> present fs key \<Longrightarrow> content fs src = Some b \<Longrightarrow>
         fst (verify r (sha b) fs1) = Inr True \<or> (\<exists>e. fst (verify r (sha b) fs1) = Inl e)"
    and put_present: "put src key fs = (Inr r, fs1) \<Longrightarrow> ready fs key \<Longrightarrow> ready fs1 key \<and> present fs1 key"
    and put_again: "ready fs key \<Longrightarrow> present fs key \<Longrightarrow>
         snd (put src key fs) = fs \<and> fst (put src key fs) = fst (put src' key fs)"
begin

text \<open>
  Storing is idempotent, and for that very reason a key whose object holds other bytes keeps them:
  whatever is stored later under the key, the receipt is the one of the first object.
\<close>

lemma put_idempotent:
  assumes "put src key fs = (Inr r, fs1)" "ready fs key" "\<not> present fs key"
  shows "\<exists>x. put src' key fs1 = (x, fs1) \<and> put src'' key fs1 = (x, fs1)"
  using put_present [OF assms(1,2)] put_again [of fs1 key src' src''] put_again [of fs1 key src'' src']
  by (metis prod.collapse)

lemma put_stale:
  assumes "ready fs key" "present fs key" "put src key fs = (Inr r, fs1)" "put src' key fs = (Inr r', fs2)"
  shows "r = r' \<and> fs1 = fs2"
  using put_again [OF assms(1,2), of src src'] put_again [OF assms(1,2), of src' src] assms(3,4) by simp

end

end
