(* ===== verification/Workflow.thy ===== *)
theory Workflow
  imports Evidence Interfaces
begin

text \<open>
  The archive workflow (\<open>domain/workflow.py\<close>): scanning a source, moving an item step by step
  from its source through local staging, active storage, the versioned backup and cold storage into
  quarantine, restoring it, deciding its deletion and deleting it. The workflow is a record of its
  adapters and settings; an item is passed by its id. Every \<open>if item.state == ...\<close> block of
  \<open>archive\<close> is a definition of its own, run in the order of the code. A naive datetime's
  \<open>timestamp()\<close> is taken in the local zone, \<open>wf_utc_offset\<close> microseconds ahead of UTC.
\<close>

record workflow =
  wf_source :: source_ops
  wf_backup :: backup_ops
  wf_cold :: cold_ops
  wf_active_root :: path
  wf_staging_root :: path
  wf_policy :: source_policy
  wf_provider :: string
  wf_source_is_active :: bool
  wf_sha :: "bytes \<Rightarrow> string"
  wf_utc_offset :: int

section \<open>Scanning\<close>

definition source_matches :: "archive_item \<Rightarrow> source_object \<Rightarrow> bool" where
  "source_matches item current \<longleftrightarrow>
     so_id current = source_identifier item
     \<and> relative_path current = original_path item
     \<and> so_size current = original_size item
     \<and> aware (modified_at current) = aware (original_modified_at item)
     \<and> so_version current = source_version item"

definition source_changed :: "archive_item \<Rightarrow> source_object \<Rightarrow> bool" where
  "source_changed item current = (\<not> source_matches item current)"

definition blank_item :: "nat \<Rightarrow> string \<Rightarrow> string \<Rightarrow> archive_item" where
  "blank_item i provider identifier = \<lparr>ai_id = i, source_provider = provider, source_identifier = identifier,
     original_path = [], original_size = 0, original_modified_at = Aware 0, source_version = [],
     ai_state = DISCOVERED, plaintext_sha256 = None, nas_path = None, nas_verified_at = None,
     kopia_snapshot_id = None, kopia_verified_at = None, remote_provider = None, remote_bucket = None,
     remote_object_identifier = None, encryption_mode = None, remote_size = None, remote_checksum = None,
     uploaded_at = None, remote_verified_at = None, remote_verification_method = None,
     cold_archived_at = None, quarantine_expires_at = None, deletion_timestamp = None,
     restore_test_status = None\<rparr>"

definition record_source :: "source_object \<Rightarrow> archive_item \<Rightarrow> archive_item" where
  "record_source ob r = r\<lparr>original_path := relative_path ob, original_size := so_size ob,
     original_modified_at := modified_at ob, source_version := so_version ob\<rparr>"

definition new_item :: "workflow \<Rightarrow> nat \<Rightarrow> source_object \<Rightarrow> archive_item" where
  "new_item wk i ob = record_source ob (blank_item i (wf_provider wk) (so_id ob))"

definition find_item :: "string \<Rightarrow> string \<Rightarrow> db \<Rightarrow> archive_item option" where
  "find_item provider identifier d =
     List.find (\<lambda>r. source_provider r = provider \<and> source_identifier r = identifier) (items d)"

definition add_item :: "(nat \<Rightarrow> archive_item) \<Rightarrow> (world, nat) py" where
  "add_item mk = bind_py (query (\<lambda>d. fresh_id ai_id (items d))) (\<lambda>i.
     seq (on_db (items_update (\<lambda>t. t @ [mk i]))) (ret i))"

definition policy_details :: "policy_decision \<Rightarrow> (string \<times> pyval) list" where
  "policy_details d = [(''policy_reasons'', PTuple (map PStr (reasons d)))]"

definition apply_policy :: "workflow \<Rightarrow> nat \<Rightarrow> source_object \<Rightarrow> (world, unit) py" where
  "apply_policy wk i ob =
     bind_py utcnow (\<lambda>now. bind_py (lift_sum (evaluate_policy ob (wf_policy wk) now)) (\<lambda>decision.
       transition_item i (if eligible decision then ELIGIBLE else INELIGIBLE) ''scanner''
         (policy_details decision)))"

definition discover_object :: "workflow \<Rightarrow> source_object \<Rightarrow> (world, nat) py" where
  "discover_object wk ob =
     bind_py (query (find_item (wf_provider wk) (so_id ob))) (\<lambda>found.
     case found of
       None \<Rightarrow> bind_py (add_item (\<lambda>i. new_item wk i ob)) (\<lambda>i. seq (apply_policy wk i ob) (ret i))
     | Some item \<Rightarrow>
         seq (if source_changed item ob then
                seq (transition_item (ai_id item) SOURCE_CHANGED ''scanner''
                       [(''reason'', PStr ''source metadata changed'')])
                    (upd_item (ai_id item) (record_source ob))
              else if ai_state item = INELIGIBLE then apply_policy wk (ai_id item) ob
              else ret ())
         (ret (ai_id item)))"

text \<open>The loop over the pages, at most \<open>n\<close> of them; \<open>None\<close> when there are more.\<close>

fun discover :: "nat \<Rightarrow> workflow \<Rightarrow> string option \<Rightarrow> (world, nat list option) py" where
  "discover 0 wk cursor = ret None"
| "discover (Suc n) wk cursor =
     bind_py (on_disk (sc_discover (wf_source wk) cursor)) (\<lambda>page.
     bind_py (map_py (discover_object wk) (objects page)) (\<lambda>found.
     case next_cursor page of None \<Rightarrow> ret (Some found)
     | Some c \<Rightarrow> bind_py (discover n wk (Some c)) (\<lambda>rest. ret (map_option ((@) found) rest))))"

section \<open>Archiving\<close>

definition at_state :: "nat \<Rightarrow> archive_state \<Rightarrow> (archive_item \<Rightarrow> (world, unit) py) \<Rightarrow> (world, unit) py" where
  "at_state i s m = bind_py (load_item i) (\<lambda>item. when_py (ai_state item = s) (m item))"

text \<open>Most steps end alike: record what was learnt, change the state, commit.\<close>

definition advance ::
  "nat \<Rightarrow> (archive_item \<Rightarrow> archive_item) \<Rightarrow> archive_state \<Rightarrow> (string \<times> pyval) list \<Rightarrow> (world, unit) py" where
  "advance i f t details = seq (upd_item i f) (seq (transition_item i t ''worker'' details) commit)"

definition verification_failure :: "string \<Rightarrow> exn" where
  "verification_failure m = VerificationFailure m"

definition stage_queue :: "nat \<Rightarrow> (world, unit) py" where
  "stage_queue i =
     seq (bind_py (load_item i) (\<lambda>item.
       when_py (ai_state item \<in> {ELIGIBLE, SOURCE_CHANGED, FAILED_RETRYABLE, MANUAL_REVIEW})
         (transition_item i QUEUED ''worker'' [])))
     (at_state i QUEUED (\<lambda>item. seq (transition_item i DOWNLOADING ''worker'' []) commit))"

definition staged_partial :: "workflow \<Rightarrow> nat \<Rightarrow> (world, path) py" where
  "staged_partial wk i = seq (on_disk (mkdirs (wf_staging_root wk))) (ret (partial_path (wf_staging_root wk) i))"

definition discard_staged :: "workflow \<Rightarrow> archive_item \<Rightarrow> path \<Rightarrow> (world, unit) py" where
  "discard_staged wk item staged =
     bind_py (gets (\<lambda>w. path_exists (disk w) staged)) (\<lambda>ex. when_py ex (
       seq (try_py (bind_py (on_disk (sc_stat (wf_source wk) (source_identifier item))) (\<lambda>_. ret ()))
              (\<lambda>e. if is_OSError e \<or> is_UnsafePath e
                   then Some (raise_py (verification_failure
                     ''staged partial cannot be re-downloaded from the source; refusing to discard it''))
                   else None))
           (on_disk (unlink staged))))"

definition stage_download :: "workflow \<Rightarrow> nat \<Rightarrow> (world, bool) py" where
  "stage_download wk i =
     bind_py (load_item i) (\<lambda>item.
     if ai_state item \<noteq> DOWNLOADING then ret True else
     bind_py (staged_partial wk i) (\<lambda>staged.
     seq (discard_staged wk item staged) (
     bind_py (try_py
        (bind_py (on_disk (sc_download (wf_source wk) (source_identifier item) staged)) (\<lambda>r. ret (Some r)))
        (\<lambda>e. if is_SourceChangedError e
             then Some (seq (transition_item i SOURCE_CHANGED ''worker'' [(''stage'', PStr ''download'')])
                        (seq commit (ret None)))
             else None)) (\<lambda>r.
     case r of None \<Rightarrow> ret False
     | Some receipt \<Rightarrow>
         seq (advance i (\<lambda>x. x\<lparr>plaintext_sha256 := Some (dr_sha256 receipt)\<rparr>) LOCAL_STAGED [])
         (ret True)))))"

definition stage_staged :: "workflow \<Rightarrow> nat \<Rightarrow> path \<Rightarrow> (world, unit) py" where
  "stage_staged wk i staged = at_state i LOCAL_STAGED (\<lambda>item.
     bind_py (on_disk (sha256_file (wf_sha wk) staged)) (\<lambda>h.
     seq (require (Some h = plaintext_sha256 item) (verification_failure ''staged copy hash mismatch''))
     (advance i (\<lambda>x. x) LOCAL_VERIFIED [])))"

definition adopt_active :: "workflow \<Rightarrow> archive_item \<Rightarrow> path \<Rightarrow> (world, path) py" where
  "adopt_active wk item staged =
     bind_py (on_disk (\<lambda>fs. (resolve_beneath fs (wf_active_root wk) (original_path item) True, fs))) (\<lambda>active.
     bind_py (gets (\<lambda>w. \<not> is_symlink (disk w) active \<and> is_file (disk w) active)) (\<lambda>regular.
     seq (require regular (verification_failure ''active source must be a regular non-symlink file'')) (
     bind_py (on_disk (stat_size active)) (\<lambda>sz.
     seq (require (sz = original_size item) (verification_failure ''active source size changed before adoption'')) (
     bind_py (on_disk (sha256_file (wf_sha wk) active)) (\<lambda>h.
     seq (require (Some h = plaintext_sha256 item) (verification_failure ''active source hash changed before adoption'')) (
     seq (on_disk (unlink staged)) (ret active))))))))"

text \<open>\<open>original_modified_at.timestamp()\<close>, in nanoseconds.\<close>

definition timestamp_ns :: "int \<Rightarrow> datetime \<Rightarrow> int" where
  "timestamp_ns offset d = (case d of Aware t \<Rightarrow> t * 1000 | Naive t \<Rightarrow> (t - offset) * 1000)"

definition stage_commit :: "workflow \<Rightarrow> nat \<Rightarrow> path \<Rightarrow> (world, unit) py" where
  "stage_commit wk i staged = at_state i LOCAL_VERIFIED (\<lambda>item.
     case plaintext_sha256 item of None \<Rightarrow> raise_py AssertionError
     | Some digest \<Rightarrow>
       bind_py (if wf_source_is_active wk
                then bind_py (adopt_active wk item staged) (\<lambda>active. ret (active, None))
                else bind_py (on_disk (commit_staged (wf_sha wk) staged (wf_active_root wk)
                       (original_path item) digest (original_size item)
                       (Some (timestamp_ns (wf_utc_offset wk) (original_modified_at item)))))
                     (\<lambda>c. ret (cr_path c, transformed_from c)))
         (\<lambda>(final, transformed). bind_py utcnow (\<lambda>now.
           advance i (\<lambda>x. x\<lparr>nas_path := Some final, nas_verified_at := Some now\<rparr>) LOCAL_COMMITTED
             [(''filename_transformed_from'', case transformed of None \<Rightarrow> PNone | Some s \<Rightarrow> PStr s)])))"

definition item_key :: "nat \<Rightarrow> string" where
  "item_key i = ''item-'' @ dec i"

definition stage_backup :: "workflow \<Rightarrow> nat \<Rightarrow> (world, unit) py" where
  "stage_backup wk i = at_state i LOCAL_BACKUP_PENDING (\<lambda>item.
     case (nas_path item, plaintext_sha256 item) of
       (Some nas, Some digest) \<Rightarrow>
         bind_py (on_disk (bk_snapshot (wf_backup wk) nas (item_key i))) (\<lambda>receipt.
         bind_py (on_disk (bk_verify (wf_backup wk) receipt digest)) (\<lambda>verified.
         seq (require verified (verification_failure ''independent local backup restore verification failed'')) (
         bind_py utcnow (\<lambda>now.
         advance i (\<lambda>x. x\<lparr>kopia_snapshot_id := Some (snapshot_id receipt), kopia_verified_at := Some now\<rparr>)
           LOCAL_BACKUP_VERIFIED []))))
     | _ \<Rightarrow> raise_py AssertionError)"

definition record_cold_receipt :: "cold_receipt \<Rightarrow> datetime \<Rightarrow> archive_item \<Rightarrow> archive_item" where
  "record_cold_receipt r now x = x\<lparr>remote_provider := Some (rc_provider r), remote_bucket := Some (rc_bucket r),
     remote_object_identifier := Some (rc_object r), encryption_mode := Some (rc_encryption r),
     remote_size := Some (rc_size r), remote_checksum := rc_checksum r, uploaded_at := Some now\<rparr>"

definition cold_receipt_of :: "archive_item \<Rightarrow> exn + cold_receipt" where
  "cold_receipt_of item =
     (case (remote_provider item, remote_bucket item, remote_object_identifier item, encryption_mode item,
            remote_size item) of
        (Some p, Some b, Some ob, Some m, Some n) \<Rightarrow>
          Inr \<lparr>rc_provider = p, rc_bucket = b, rc_object = ob, rc_encryption = m, rc_size = n,
               rc_checksum = remote_checksum item\<rparr>
      | _ \<Rightarrow> Inl (verification_failure ''remote receipt is incomplete''))"

definition stage_upload :: "workflow \<Rightarrow> nat \<Rightarrow> (world, unit) py" where
  "stage_upload wk i = at_state i COLD_UPLOAD_PENDING (\<lambda>item.
     case (nas_path item, plaintext_sha256 item) of
       (Some nas, Some digest) \<Rightarrow>
         bind_py (on_disk (cs_upload (wf_cold wk) nas (original_path item) (item_key i))) (\<lambda>receipt.
         bind_py utcnow (\<lambda>now.
         advance i (record_cold_receipt receipt now) COLD_UPLOADED []))
     | _ \<Rightarrow> raise_py AssertionError)"

definition stage_cold_verify :: "workflow \<Rightarrow> nat \<Rightarrow> (world, unit) py" where
  "stage_cold_verify wk i = at_state i COLD_UPLOADED (\<lambda>item.
     case plaintext_sha256 item of None \<Rightarrow> raise_py AssertionError
     | Some digest \<Rightarrow>
       bind_py (lift_sum (cold_receipt_of item)) (\<lambda>receipt.
       bind_py (on_disk (cs_verify (wf_cold wk) receipt digest)) (\<lambda>verified.
       seq (require verified (verification_failure ''independent remote restore verification failed'')) (
       bind_py utcnow (\<lambda>now.
       advance i (\<lambda>x. x\<lparr>remote_verified_at := Some now,
           remote_verification_method := Some ''download-decrypt-sha256''\<rparr>) COLD_VERIFIED [])))))"

definition stage_cold_archive :: "workflow \<Rightarrow> nat \<Rightarrow> (world, unit) py" where
  "stage_cold_archive wk i = at_state i COLD_ARCHIVE_PENDING (\<lambda>item.
     bind_py (lift_sum (cold_receipt_of item)) (\<lambda>receipt.
     seq (on_disk (cs_archive (wf_cold wk) receipt)) (
     bind_py utcnow (\<lambda>now. advance i (\<lambda>x. x\<lparr>cold_archived_at := Some now\<rparr>) COLD_ARCHIVED []))))"

definition stage_quarantine :: "workflow \<Rightarrow> nat \<Rightarrow> (world, unit) py" where
  "stage_quarantine wk i = at_state i COLD_ARCHIVED (\<lambda>item.
     bind_py utcnow (\<lambda>now.
       advance i (\<lambda>x. x\<lparr>quarantine_expires_at := Some (dt_add now (days (quarantine_days (wf_policy wk))))\<rparr>)
         QUARANTINED []))"

definition pass_on :: "nat \<Rightarrow> archive_state \<Rightarrow> archive_state \<Rightarrow> (world, unit) py" where
  "pass_on i s t = at_state i s (\<lambda>item. advance i (\<lambda>x. x) t [])"

definition archive_rest :: "workflow \<Rightarrow> nat \<Rightarrow> path \<Rightarrow> (world, unit) py list" where
  "archive_rest wk i staged =
     [stage_staged wk i staged, stage_commit wk i staged,
      pass_on i LOCAL_COMMITTED LOCAL_BACKUP_PENDING, stage_backup wk i,
      pass_on i LOCAL_BACKUP_VERIFIED COLD_UPLOAD_PENDING, stage_upload wk i, stage_cold_verify wk i,
      pass_on i COLD_VERIFIED COLD_ARCHIVE_PENDING, stage_cold_archive wk i, stage_quarantine wk i]"

definition archive :: "workflow \<Rightarrow> nat \<Rightarrow> (world, unit) py" where
  "archive wk i = seq (stage_queue i) (bind_py (stage_download wk i) (\<lambda>go.
     if \<not> go then ret () else bind_py (staged_partial wk i) (\<lambda>staged. block (archive_rest wk i staged))))"

section \<open>Restoring\<close>

definition restore_local :: "workflow \<Rightarrow> archive_item \<Rightarrow> path \<Rightarrow> (world, bool) py" where
  "restore_local wk item destination =
     (case (kopia_snapshot_id item, plaintext_sha256 item) of
        (Some sid, Some digest) \<Rightarrow>
          seq (on_disk (bk_restore (wf_backup wk) \<lparr>snapshot_id = sid\<rparr> destination)) (
          bind_py (on_disk (sha256_file (wf_sha wk) destination)) (\<lambda>h. ret (h = digest)))
      | _ \<Rightarrow> ret False)"

definition restore_remote :: "workflow \<Rightarrow> archive_item \<Rightarrow> path \<Rightarrow> (world, bool) py" where
  "restore_remote wk item destination =
     (case plaintext_sha256 item of None \<Rightarrow> ret False
      | Some digest \<Rightarrow>
          bind_py (lift_sum (cold_receipt_of item)) (\<lambda>receipt.
          seq (on_disk (cs_restore (wf_cold wk) receipt destination)) (
          bind_py (on_disk (sha256_file (wf_sha wk) destination)) (\<lambda>h. ret (h = digest)))))"

section \<open>Deleting from the source\<close>

record deletion_environment =
  env_active_healthy :: bool
  env_backup_healthy :: bool
  env_devices_differ :: bool
  env_sqlite_healthy :: bool
  env_deletion_enabled :: bool
  env_safety_lock :: bool
  env_approved :: bool

definition source_state :: "workflow \<Rightarrow> archive_item \<Rightarrow> (world, bool \<times> bool \<times> bool) py" where
  "source_state wk item =
     try_py (bind_py (on_disk (sc_stat (wf_source wk) (source_identifier item))) (\<lambda>current.
               ret (True, source_matches item current, so_id current = source_identifier item)))
       (\<lambda>e. if e = FileNotFoundError then Some (ret (False, False, False)) else None)"

definition local_state :: "workflow \<Rightarrow> archive_item \<Rightarrow> (world, bool \<times> bool \<times> bool) py" where
  "local_state wk item =
     (case nas_path item of None \<Rightarrow> ret (False, False, False)
      | Some p \<Rightarrow> bind_py (gets (\<lambda>w. is_file (disk w) p)) (\<lambda>ex.
          if \<not> ex then ret (False, False, False)
          else bind_py (on_disk (stat_size p)) (\<lambda>sz.
            case plaintext_sha256 item of
              None \<Rightarrow> ret (True, sz = original_size item, False)
            | Some digest \<Rightarrow>
                if digest = [] then ret (True, sz = original_size item, False)
                else bind_py (on_disk (sha256_file (wf_sha wk) p)) (\<lambda>h.
                  ret (True, sz = original_size item, h = digest)))))"

definition deletion_decision ::
  "workflow \<Rightarrow> nat \<Rightarrow> deletion_environment \<Rightarrow> deletion_run_usage \<Rightarrow> deletion_limits \<Rightarrow> datetime option \<Rightarrow>
    (world, gate_decision) py" where
  "deletion_decision wk i env usage limits now =
     bind_py (load_item i) (\<lambda>item.
     bind_py (source_state wk item) (\<lambda>(exists, unchanged, identity).
     bind_py (local_state wk item) (\<lambda>(lexists, lsize, lhash).
     bind_py (on_disk (cs_available (wf_cold wk))) (\<lambda>remote.
     bind_py (case now of Some t \<Rightarrow> ret t | None \<Rightarrow> utcnow) (\<lambda>t.
     lift_sum (evaluate_deletion_gate
       \<lparr>local_exists = lexists, local_size_matches = lsize,
        local_sha256_exists = (plaintext_sha256 item \<noteq> None), local_sha256_matches = lhash,
        kopia_verified = (kopia_verified_at item \<noteq> None), remote_verified = (remote_verified_at item \<noteq> None),
        df_quarantine_expires_at = quarantine_expires_at item,
        source_exists = exists, source_unchanged = unchanged, source_identity_matches = identity,
        active_disk_healthy = env_active_healthy env, backup_disk_healthy = env_backup_healthy env,
        storage_devices_differ = env_devices_differ env, sqlite_integrity_healthy = env_sqlite_healthy env,
        remote_available = remote, global_deletion_enabled = env_deletion_enabled env,
        source_deletion_enabled = deletion_enabled (wf_policy wk), safety_lock = env_safety_lock env,
        manual_approval_required = manual_approval (wf_policy wk), manual_approval_granted = env_approved env\<rparr>
       usage limits (original_size item) t))))))"

fun exn_name :: "exn \<Rightarrow> string" where
  "exn_name (VerificationFailure _) = ''VerificationFailure''"
| "exn_name (RuntimeError _) = ''RuntimeError''"
| "exn_name (UnsafePath _) = ''UnsafePath''"
| "exn_name (PermissionError _) = ''PermissionError''"
| "exn_name FileNotFoundError = ''FileNotFoundError''"
| "exn_name (ValueError _) = ''ValueError''"
| "exn_name (OSErr _) = ''OSError''"
| "exn_name NotADirectoryError = ''NotADirectoryError''"
| "exn_name IsADirectoryError = ''IsADirectoryError''"
| "exn_name FileExistsError = ''FileExistsError''"
| "exn_name InterruptedError = ''InterruptedError''"
| "exn_name (SourceChangedError _) = ''SourceChangedError''"
| "exn_name (ColdRestorePending _) = ''ColdRestorePending''"
| "exn_name (ICloudCleanupBlocked _) = ''ICloudCleanupBlocked''"
| "exn_name (ICloudControlError _) = ''ICloudControlError''"
| "exn_name InvalidTransition = ''InvalidTransition''"
| "exn_name TypeError = ''TypeError''"
| "exn_name KeyError = ''KeyError''"
| "exn_name IndexError = ''IndexError''"
| "exn_name AssertionError = ''AssertionError''"
| "exn_name (OtherError s) = s"
| "exn_name _ = ''Exception''"

text \<open>
  \<open>delete_test_item\<close> in three parts: the guard, which ends in the committed state
  \<open>DELETING\<close> unless it returns early; the deletion; what its outcome is recorded as.
\<close>

definition delete_guard :: "workflow \<Rightarrow> nat \<Rightarrow> gate_decision \<Rightarrow> (world, bool) py" where
  "delete_guard wk i decision =
     seq (require (can_delete (sc_capabilities (wf_source wk)))
            (PermissionError (wf_provider wk @ '' source deletion is unavailable''))) (
     seq (require (allowed decision) (PermissionError (join ''; '' (blockers decision)))) (
     bind_py (load_item i) (\<lambda>item.
     bind_py (on_disk (sc_stat (wf_source wk) (source_identifier item))) (\<lambda>current.
     if \<not> source_matches item current
     then seq (transition_item i SOURCE_CHANGED ''guard'' []) (ret False)
     else
       seq (at_state i QUARANTINED (\<lambda>_. transition_item i READY_FOR_REVALIDATION ''guard'' [])) (
       seq (at_state i READY_FOR_REVALIDATION (\<lambda>_. transition_item i READY_FOR_DELETION ''guard'' [])) (
       seq (transition_item i DELETING ''guard'' []) (seq commit (ret True))))))))"

definition delete_outcome :: "nat \<Rightarrow> exn + delete_receipt \<Rightarrow> (world, unit) py" where
  "delete_outcome i r =
     (case r of
        Inl e \<Rightarrow>
          if is_SourceChangedError e then transition_item i SOURCE_CHANGED ''guard'' []
          else transition_item i MANUAL_REVIEW ''guard'' [(''ambiguous_delete_error'', PStr (exn_name e))]
      | Inr receipt \<Rightarrow>
          if \<not> confirmed_absent receipt
          then transition_item i MANUAL_REVIEW ''guard'' [(''delete_result'', PStr ''source presence ambiguous'')]
          else bind_py utcnow (\<lambda>now.
            seq (upd_item i (\<lambda>x. x\<lparr>deletion_timestamp := Some now\<rparr>)) (
            seq (transition_item i DELETED_FROM_SOURCE ''guard'' [])
                (transition_item i ARCHIVED ''guard'' [(''tombstone'', PBool True)]))))"

definition attempt :: "('s, 'a) py \<Rightarrow> ('s, exn + 'a) py" where
  "attempt m = (\<lambda>s. case m s of (r, s') \<Rightarrow> (Inr r, s'))"

definition delete_test_item :: "workflow \<Rightarrow> nat \<Rightarrow> gate_decision \<Rightarrow> (world, unit) py" where
  "delete_test_item wk i decision =
     bind_py (delete_guard wk i decision) (\<lambda>go.
     if \<not> go then ret () else
     bind_py (load_item i) (\<lambda>item.
     bind_py (attempt (on_disk (sc_delete (wf_source wk) (source_identifier item) (source_version item))))
       (delete_outcome i)))"

text \<open>A row added without evidence keeps the invariant.\<close>

lemma keeps_add_item:
  assumes "\<And>i. ai_id (mk i) = i" "\<And>i. evidence (mk i)"
  shows "keeps evidenced (add_item mk)"
  unfolding add_item_def query_def on_db_def seq_def
proof (rule keepsI)
  fix w assume "evidenced w"
  with assms fresh_id_notin [of ai_id "items (live w)"]
  show "evidenced (snd (bind_py (gets (\<lambda>w. fresh_id ai_id (items (live w))))
      (\<lambda>i. bind_py (modify (\<lambda>w. w\<lparr>live := items_update (\<lambda>t. t @ [mk i]) (live w)\<rparr>)) (\<lambda>_. ret i)) w))"
    by (auto simp: evidenced_def)
qed

end
