(* ===== verification/Backup_Fs.thy ===== *)
theory Backup_Fs
  imports Interfaces
begin

text \<open>
  The content-addressed file-system backup (\<open>adapters/backup/filesystem.py\<close>): a snapshot per
  idempotency key, copied to a partial file first and renamed. \<open>fb_mtime\<close> is the time the
  kernel gives to the copy.
\<close>

record fs_backup =
  fb_repository :: path
  fb_mtime :: int

definition with_suffix :: "path \<Rightarrow> string \<Rightarrow> path" where
  "with_suffix p s = with_name p (path_stem (last p) @ s)"

definition copyfile :: "path \<Rightarrow> path \<Rightarrow> int \<Rightarrow> (fsys, unit) py" where
  "copyfile src dst t = bind_py (read_bytes src) (\<lambda>b. write_new dst (concat (read_chunks b)) t)"

definition snapshot_path :: "fs_backup \<Rightarrow> string \<Rightarrow> path" where
  "snapshot_path a key = fb_repository a @ [key @ ''.snapshot'']"

definition fsb_snapshot :: "fs_backup \<Rightarrow> path \<Rightarrow> string \<Rightarrow> (fsys, backup_receipt) py" where
  "fsb_snapshot a source key =
     (let target = snapshot_path a key; temporary = with_suffix target ''.partial'' in
      bind_py (gets (\<lambda>fs. path_exists fs target)) (\<lambda>ex.
      seq (when_py (\<not> ex) (seq (copyfile source temporary (fb_mtime a)) (os_replace temporary target)))
        (ret \<lparr>snapshot_id = last target\<rparr>)))"

definition fsb_verify :: "(bytes \<Rightarrow> string) \<Rightarrow> fs_backup \<Rightarrow> backup_receipt \<Rightarrow> string \<Rightarrow> (fsys, bool) py" where
  "fsb_verify sha a receipt expected =
     bind_py (sha256_file sha (fb_repository a @ [snapshot_id receipt])) (\<lambda>h. ret (h = expected))"

definition fsb_restore :: "fs_backup \<Rightarrow> backup_receipt \<Rightarrow> path \<Rightarrow> (fsys, unit) py" where
  "fsb_restore a receipt destination = copyfile (fb_repository a @ [snapshot_id receipt]) destination (fb_mtime a)"

definition fs_backup_ops :: "(bytes \<Rightarrow> string) \<Rightarrow> fs_backup \<Rightarrow> backup_ops" where
  "fs_backup_ops sha a = \<lparr>bk_snapshot = fsb_snapshot a, bk_verify = fsb_verify sha a,
     bk_restore = fsb_restore a\<rparr>"

section \<open>The contract\<close>

definition fsb_ready :: "fs_backup \<Rightarrow> fsys \<Rightarrow> string \<Rightarrow> bool" where
  "fsb_ready a fs key \<longleftrightarrow> canonical fs (snapshot_path a key) \<and> CHR ''.'' \<notin> set key \<and> key \<noteq> []"

definition fsb_present :: "fs_backup \<Rightarrow> fsys \<Rightarrow> string \<Rightarrow> bool" where
  "fsb_present a fs key = path_exists fs (snapshot_path a key)"

lemma fsb_verify_run:
  "fsb_verify sha a r h fs = (x, fs1) \<Longrightarrow> fs1 = fs \<and>
     (\<forall>v. x = Inr v \<longrightarrow> (\<exists>b. content fs (fb_repository a @ [snapshot_id r]) = Some b \<and> v = (sha b = h)))"
  by (cases "sha256_file sha (fb_repository a @ [snapshot_id r]) fs")
     (use sha256_file_state [of sha "fb_repository a @ [snapshot_id r]" fs] in
       \<open>auto simp: fsb_verify_def bind_py_def split: sum.splits dest: sha256_file_InrD\<close>)

lemma copyfile_InrD:
  assumes "copyfile src dst t fs = (Inr (), fs')" "plain_target fs dst"
  shows "\<exists>b. content fs src = Some b \<and> content fs' dst = Some b
    \<and> fs' = set_node dst (File b (fresh_inode fs) t) fs \<and> node_at fs dst = None \<and> dirs_to fs dst"
proof -
  from assms(1) obtain b where b: "content fs src = Some b" "write_new dst b t fs = (Inr (), fs')"
    unfolding copyfile_def by (auto elim!: bind_py_Inr_E simp: read_bytes_content concat_read_chunks)
  from write_new_InrD [OF b(2)] assms(2) b(1) show ?thesis by (auto simp: plain_target_def)
qed

lemma rfind_dot_none: "CHR ''.'' \<notin> set s \<Longrightarrow> rfind_dot (s @ t) = map_option ((+) (length s)) (rfind_dot t)"
  by (induction s; cases "rfind_dot t") auto

lemma with_suffix_snapshot:
  "CHR ''.'' \<notin> set key \<Longrightarrow> key \<noteq> [] \<Longrightarrow> with_suffix (snapshot_path a key) ''.partial'' = fb_repository a @ [key @ ''.partial'']"
  by (simp add: with_suffix_def snapshot_path_def with_name_def path_stem_def dot_at_def rfind_dot_none)

lemma fsb_snapshot_new:
  assumes run: "fsb_snapshot a src key fs = (Inr r, fs1)" and ready: "fsb_ready a fs key"
    and new: "\<not> fsb_present a fs key"
  shows "r = \<lparr>snapshot_id = key @ ''.snapshot''\<rparr>" "\<exists>b. content fs src = Some b \<and> content fs1 (snapshot_path a key) = Some b"
    "canonical fs1 (snapshot_path a key)"
proof -
  let ?t = "snapshot_path a key" and ?p = "fb_repository a @ [key @ ''.partial'']"
  have rd: "canonical fs ?t" "CHR ''.'' \<notin> set key" "key \<noteq> []" using ready by (auto simp: fsb_ready_def)
  have repo: "canonical fs (fb_repository a)" using rd(1) canonical_prefix unfolding snapshot_path_def by blast
  from run new obtain fs2 where r: "r = \<lparr>snapshot_id = key @ ''.snapshot''\<rparr>"
    and cp: "copyfile src ?p (fb_mtime a) fs = (Inr (), fs2)" and mv: "os_replace ?p ?t fs2 = (Inr (), fs1)"
    by (auto simp: fsb_snapshot_def fsb_present_def Let_def with_suffix_snapshot [OF rd(2,3), unfolded snapshot_path_def]
        snapshot_path_def elim!: seq_Inr_E)
  have plain: "plain_target fs ?p"
    using repo by (auto simp: plain_target_def append_eq_Cons_conv)
  from copyfile_InrD [OF cp plain] obtain b where b: "content fs src = Some b"
    "fs2 = set_node ?p (File b (fresh_inode fs) (fb_mtime a)) fs" "content fs2 ?p = Some b" by blast
  have node: "node_at fs2 q = (if q = ?p then Some (File b (fresh_inode fs) (fb_mtime a)) else node_at fs q)" for q
    by (simp add: b(2))
  have repo2: "canonical fs2 (fb_repository a)"
    using repo by (rule canonical_change) (auto simp: node is_link_def split: if_splits)
  then have can2: "canonical fs2 ?p" "canonical fs2 (butlast ?t)"
    by (auto simp: canonical_snoc node is_link_def snapshot_path_def append_eq_Cons_conv)
  have t: "?t \<noteq> []" "last ?t \<noteq> ''..''" "?p \<noteq> ?t"
    by (auto simp: snapshot_path_def append_eq_Cons_conv)
  have n2: "node_at fs2 ?p = Some (File b (fresh_inode fs) (fb_mtime a))" by (simp add: node)
  note o = os_replace_effect [OF mv can2(1) n2 can2(2) t]
  show "r = \<lparr>snapshot_id = key @ ''.snapshot''\<rparr>" by (rule r)
  show "canonical fs1 ?t" by (rule o(4))
  show "\<exists>b. content fs src = Some b \<and> content fs1 ?t = Some b"
    using b(1) o by (simp add: content_File)
qed

lemma fsb_snapshot_old:
  "fsb_present a fs key \<Longrightarrow> fsb_snapshot a src key fs = (Inr \<lparr>snapshot_id = key @ ''.snapshot''\<rparr>, fs)"
  by (simp add: fsb_snapshot_def fsb_present_def Let_def seq_def snapshot_path_def)

interpretation fsb: keyed_store sha "fsb_verify sha a" "fsb_restore a" "fsb_snapshot a" "fsb_ready a" "fsb_present a"
  for sha a
proof (unfold_locales, goal_cases)
  case (1 r h fs fs1 dst fs2)
  from fsb_verify_run [OF 1(1)] obtain b where b: "fs1 = fs" "content fs (fb_repository a @ [snapshot_id r]) = Some b" "sha b = h"
    by auto
  with copyfile_InrD [OF 1(2) [unfolded fsb_restore_def] 1(3)] show ?case by auto
next
  case (2 r h fs x fs1)
  then show ?case using fsb_verify_run extends_refl by blast
next
  case (3 src key fs r fs1 b)
  note s = fsb_snapshot_new [OF 3(1-3)]
  from s(2) 3(4) have "content fs1 (fb_repository a @ [snapshot_id r]) = Some b"
    by (simp add: s(1) snapshot_path_def)
  then show ?case by (simp add: fsb_verify_def sha256_file_Some bind_py_def)
next
  case (4 src key fs r fs1)
  then show ?case
    using fsb_snapshot_new(2,3) [OF 4(1,2)] fsb_snapshot_old [of a fs key src] content_path_exists
    by (cases "fsb_present a fs key") (auto simp: fsb_ready_def fsb_present_def)
next
  case (5 fs key src src')
  then show ?case by (simp add: fsb_snapshot_old)
qed

text \<open>A snapshot taken under a new key verifies against the digest of the file it was taken of,
  and restoring it then writes a file with that digest.\<close>

theorem snapshot_verify_restore:
  assumes "fsb_snapshot a src key fs = (Inr r, fs1)" "fsb_ready a fs key" "\<not> fsb_present a fs key"
    and "content fs src = Some b"
    and "fsb_restore a r dst fs1 = (Inr (), fs2)" "plain_target fs1 dst"
  shows "fsb_verify sha a r (sha b) fs1 = (Inr True, fs1) \<and> (\<exists>c. content fs2 dst = Some c \<and> sha c = sha b)"
proof -
  note s = fsb_snapshot_new [OF assms(1-3)]
  from s(2) assms(4) have "content fs1 (fb_repository a @ [snapshot_id r]) = Some b"
    by (simp add: s(1) snapshot_path_def)
  then have v: "fsb_verify sha a r (sha b) fs1 = (Inr True, fs1)"
    by (simp add: fsb_verify_def sha256_file_Some bind_py_def)
  with fsb.verify_restores [OF v assms(5,6)] show ?thesis by blast
qed

text \<open>A key that has a snapshot keeps it: a later snapshot of a changed file under the same key
  changes nothing and its receipt does not verify against the new digest, so an item archived again
  after its source changed stops at the backup step instead of trusting the old copy.\<close>

theorem stale_snapshot_rejected:
  assumes "fsb_present a fs key" "content fs (snapshot_path a key) = Some old" "sha old \<noteq> sha new"
  shows "fsb_snapshot a src key fs = (Inr \<lparr>snapshot_id = key @ ''.snapshot''\<rparr>, fs)
    \<and> fsb_verify sha a \<lparr>snapshot_id = key @ ''.snapshot''\<rparr> (sha new) fs = (Inr False, fs)"
  using assms
  by (simp add: fsb_snapshot_old fsb_verify_def sha256_file_Some bind_py_def snapshot_path_def)

definition example_backup :: fs_backup where
  "example_backup = \<lparr>fb_repository = [''repo''], fb_mtime = 5\<rparr>"

definition example_backup_disk :: fsys where
  "example_backup_disk = [([''repo''], Dir), ([''a.txt''], File ''abc'' 2 0)]"

theorem snapshot_verify_restore_witness:
  "\<exists>r fs1 fs2. fsb_snapshot example_backup [''a.txt''] ''item-1'' example_backup_disk = (Inr r, fs1)
     \<and> fsb_restore example_backup r [''b.txt''] fs1 = (Inr (), fs2)
     \<and> fsb_verify (\<lambda>b. b) example_backup r ''abc'' fs1 = (Inr True, fs1) \<and> content fs2 [''b.txt''] = Some ''abc''"
proof -
  define fs1 where fs1: "fs1 = [([''repo''], Dir), ([''a.txt''], File ''abc'' 2 0),
      ([''repo'', ''item-1.snapshot''], File ''abc'' 3 5)]"
  have s: "fsb_snapshot example_backup [''a.txt''] ''item-1'' example_backup_disk
      = (Inr \<lparr>snapshot_id = ''item-1.snapshot''\<rparr>, fs1)"
    unfolding fs1 by code_simp
  have r: "fsb_restore example_backup \<lparr>snapshot_id = ''item-1.snapshot''\<rparr> [''b.txt''] fs1
      = (Inr (), fs1 @ [([''b.txt''], File ''abc'' 4 5)])"
    unfolding fs1 by code_simp
  have "fsb_ready example_backup example_backup_disk ''item-1''" "\<not> fsb_present example_backup example_backup_disk ''item-1''"
    "content example_backup_disk [''a.txt''] = Some ''abc''" by code_simp+
  moreover have "plain_target fs1 [''b.txt'']" unfolding fs1 by code_simp
  ultimately show ?thesis using snapshot_verify_restore [OF s _ _ _ r, of "''abc''" "\<lambda>b. b"] s r by metis
qed

theorem stale_snapshot_rejected_witness:
  "fst (fsb_verify (\<lambda>b. b) example_backup \<lparr>snapshot_id = ''item-1.snapshot''\<rparr> ''new''
     [([''repo''], Dir), ([''repo'', ''item-1.snapshot''], File ''abc'' 3 5)]) = Inr False"
  using stale_snapshot_rejected [of example_backup
      "[([''repo''], Dir), ([''repo'', ''item-1.snapshot''], File ''abc'' 3 5)]" "''item-1''" "''abc''" "\<lambda>b. b" "''new''"]
  by (simp add: fsb_present_def snapshot_path_def example_backup_def path_exists_def content_def follow_def
      resolve_path_def node_at_def is_reg_def)

end
