(* ===== verification/Cold_Local.thy ===== *)
theory Cold_Local
  imports Backup_Fs
begin

text \<open>
  Encrypted objects (\<open>adapters/cold_storage/crypto.py\<close>) and the local cold store
  (\<open>adapters/cold_storage/local.py\<close>). AES-GCM is a parameter: \<open>gcm_enc\<close> and \<open>gcm_dec\<close> are the
  whole output of the streaming encryptor and decryptor for a key and nonce, \<open>gcm_tag\<close> the
  authentication tag of a ciphertext. \<open>cl_nonce\<close> is the result of \<open>os.urandom(12)\<close>, \<open>cl_free\<close>
  the free scratch space, \<open>cl_writable\<close> the result of \<open>os.access\<close>.
\<close>

record gcm =
  gcm_enc :: "bytes \<Rightarrow> bytes \<Rightarrow> bytes \<Rightarrow> bytes"
  gcm_dec :: "bytes \<Rightarrow> bytes \<Rightarrow> bytes \<Rightarrow> bytes"
  gcm_tag :: "bytes \<Rightarrow> bytes \<Rightarrow> bytes \<Rightarrow> bytes"

definition magic :: bytes where "magic = ''MNEMA1''"
definition nonce_size :: nat where "nonce_size = 12"
definition tag_size :: nat where "tag_size = 16"

definition sealed :: "gcm \<Rightarrow> bytes \<Rightarrow> bytes \<Rightarrow> bytes \<Rightarrow> bytes" where
  "sealed g key nonce plain =
     (let body = gcm_enc g key nonce (concat (read_chunks plain))
      in magic @ nonce @ body @ gcm_tag g key nonce body)"

definition encrypt_file :: "gcm \<Rightarrow> path \<Rightarrow> path \<Rightarrow> bytes \<Rightarrow> bytes \<Rightarrow> int \<Rightarrow> (fsys, unit) py" where
  "encrypt_file g source destination key nonce t =
     seq (require (length key = 32) (ValueError ''cold encryption key must contain exactly 32 bytes'')) (
     bind_py (read_bytes source) (\<lambda>plain. write_new destination (sealed g key nonce plain) t))"

text \<open>
  \<open>unseal\<close>: what \<open>decrypt_file\<close> does with the bytes of the object. The decrypted bytes are
  written chunk by chunk before the tag is checked, so a wrong tag raises after the destination
  exists: the result is the bytes written, if the destination was opened, and the error, if any.
\<close>

definition unseal :: "gcm \<Rightarrow> bytes \<Rightarrow> bytes \<Rightarrow> bytes option \<times> exn option" where
  "unseal g key data =
     (if length data < length magic + nonce_size + tag_size
      then (None, Some (ValueError ''encrypted object is truncated''))
      else if take (length magic) data \<noteq> magic
      then (None, Some (ValueError ''encrypted object header is invalid''))
      else if length key \<notin> {16, 24, 32} then (None, Some (ValueError ''Invalid key size''))
      else
        let nonce = take nonce_size (drop (length magic) data);
            tag = drop (length data - tag_size) data;
            remaining = length data - length magic - nonce_size - tag_size;
            body = take remaining (drop (length magic + nonce_size) data)
        in (Some (gcm_dec g key nonce (concat (read_chunks body))),
            if gcm_tag g key nonce body = tag then None else Some InvalidTag))"

definition decrypt_file :: "gcm \<Rightarrow> path \<Rightarrow> path \<Rightarrow> bytes \<Rightarrow> int \<Rightarrow> (fsys, unit) py" where
  "decrypt_file g source destination key t =
     bind_py (read_bytes source) (\<lambda>data.
       (case unseal g key data of (out, err) \<Rightarrow>
         seq (case out of None \<Rightarrow> ret () | Some b \<Rightarrow> write_new destination b t)
             (case err of None \<Rightarrow> ret () | Some e \<Rightarrow> raise_py e)))"

section \<open>The local cold store\<close>

record cold_local =
  cl_root :: path
  cl_key :: bytes
  cl_bucket :: string
  cl_scratch :: "path option"
  cl_nonce :: bytes
  cl_mtime :: int
  cl_free :: nat
  cl_writable :: bool

definition object_path :: "cold_local \<Rightarrow> string \<Rightarrow> path" where
  "object_path a key = cl_root a @ [key @ ''.mnema'']"

definition cl_upload :: "(bytes \<Rightarrow> string) \<Rightarrow> gcm \<Rightarrow> cold_local \<Rightarrow> path \<Rightarrow> string \<Rightarrow> string \<Rightarrow> (fsys, cold_receipt) py" where
  "cl_upload sha g a source object_identifier key =
     (let target = object_path a key; temporary = with_suffix target ''.partial'' in
      bind_py (gets (\<lambda>fs. path_exists fs target)) (\<lambda>ex.
      seq (when_py (\<not> ex) (seq (encrypt_file g source temporary (cl_key a) (cl_nonce a) (cl_mtime a))
                               (os_replace temporary target))) (
      bind_py (stat_size target) (\<lambda>sz.
      bind_py (sha256_file sha target) (\<lambda>h.
      ret \<lparr>rc_provider = ''local-test'', rc_bucket = cl_bucket a, rc_object = last target,
           rc_encryption = ''AES-256-GCM'', rc_size = sz, rc_checksum = Some h\<rparr>)))))"

text \<open>
  Verification restores into a fresh directory that is removed afterwards: on the disk only the
  scratch root remains, and the restored bytes are those \<open>unseal\<close> writes.
\<close>

definition cl_verify :: "(bytes \<Rightarrow> string) \<Rightarrow> gcm \<Rightarrow> cold_local \<Rightarrow> cold_receipt \<Rightarrow> string \<Rightarrow> (fsys, bool) py" where
  "cl_verify sha g a receipt expected =
     seq (case cl_scratch a of None \<Rightarrow> ret () | Some p \<Rightarrow> mkdirs p) (
     seq (scratch_preflight (cl_free a) (rc_size receipt + scratch_margin_bytes)) (
     bind_py (read_bytes (cl_root a @ [rc_object receipt])) (\<lambda>data.
       (case unseal g (cl_key a) data of
          (Some b, None) \<Rightarrow> ret (sha b = expected)
        | (_, Some e) \<Rightarrow> raise_py e
        | (None, None) \<Rightarrow> raise_py FileNotFoundError))))"

definition cl_archive :: "cold_local \<Rightarrow> cold_receipt \<Rightarrow> (fsys, unit) py" where
  "cl_archive a receipt = ret ()"

definition cl_restore :: "gcm \<Rightarrow> cold_local \<Rightarrow> cold_receipt \<Rightarrow> path \<Rightarrow> (fsys, unit) py" where
  "cl_restore g a receipt destination =
     decrypt_file g (cl_root a @ [rc_object receipt]) destination (cl_key a) (cl_mtime a)"

definition cl_available :: "cold_local \<Rightarrow> (fsys, bool) py" where
  "cl_available a = gets (\<lambda>fs. is_dir fs (cl_root a) \<and> cl_writable a)"

definition cold_local_ops :: "(bytes \<Rightarrow> string) \<Rightarrow> gcm \<Rightarrow> cold_local \<Rightarrow> cold_ops" where
  "cold_local_ops sha g a = \<lparr>cs_upload = cl_upload sha g a, cs_verify = cl_verify sha g a,
     cs_archive = cl_archive a, cs_restore = cl_restore g a, cs_available = cl_available a\<rparr>"

section \<open>Round trip and errors\<close>

text \<open>What the code relies on of AES-GCM: decryption with the same key and nonce inverts
  encryption, and tags have 16 bytes.\<close>

definition gcm_sound :: "gcm \<Rightarrow> bool" where
  "gcm_sound g \<longleftrightarrow> (\<forall>k n p. gcm_dec g k n (gcm_enc g k n p) = p)
     \<and> (\<forall>k n c. length (gcm_tag g k n c) = tag_size)"

lemma length_magic [simp]: "length magic = 6"
  by (simp add: magic_def)

lemmas seal_sizes = nonce_size_def tag_size_def length_magic

lemma unseal_sealed:
  assumes "gcm_sound g" "length nonce = nonce_size" "length key = 32"
  shows "unseal g key (sealed g key nonce plain) = (Some plain, None)"
proof -
  define body where "body = gcm_enc g key nonce plain"
  define data where "data = sealed g key nonce plain"
  have data: "data = magic @ nonce @ body @ gcm_tag g key nonce body"
    by (simp add: data_def sealed_def body_def concat_read_chunks Let_def)
  have tag: "length (gcm_tag g key nonce body) = 16" and dec: "gcm_dec g key nonce body = plain"
    using assms(1) by (simp_all add: gcm_sound_def tag_size_def body_def)
  have len: "length data = 34 + length body" using tag assms(2) by (simp add: data nonce_size_def)
  have parts: "take 6 data = magic" "take 12 (drop 6 data) = nonce" "take (length body) (drop 18 data) = body"
    "drop (length data - 16) data = gcm_tag g key nonce body"
    using assms(2) tag by (simp_all add: len) (simp_all add: data nonce_size_def)
  show ?thesis
    unfolding data_def [symmetric] using assms(3)
    by (simp add: unseal_def Let_def seal_sizes len parts [unfolded len, simplified] concat_read_chunks dec)
qed

text \<open>An object written by \<open>encrypt_file\<close> decrypts to the plaintext; an object shorter than
  its fixed parts, or with another magic, is refused before the destination is opened; an object
  whose tag does not match is refused, after the decrypted bytes were written.\<close>

theorem unseal_outcomes:
  "(case unseal g key data of
      (None, Some e) \<Rightarrow> is_ValueError e
    | (Some b, None) \<Rightarrow> startswith data magic \<and> 34 \<le> length data
        \<and> gcm_tag g key (take 12 (drop 6 data)) (take (length data - 34) (drop 18 data)) = drop (length data - 16) data
    | (Some b, Some e) \<Rightarrow> e = InvalidTag
    | (None, None) \<Rightarrow> False)"
  by (auto simp: unseal_def Let_def is_ValueError_def seal_sizes startswith_def)

lemma decrypt_file_Inr:
  assumes "decrypt_file g src dst key t fs = (Inr (), fs')" "plain_target fs dst"
  shows "\<exists>data b. content fs src = Some data \<and> unseal g key data = (Some b, None) \<and> content fs' dst = Some b"
proof -
  from assms(1) obtain data where d: "content fs src = Some data"
    and run: "(case unseal g key data of (out, err) \<Rightarrow>
         seq (case out of None \<Rightarrow> ret () | Some b \<Rightarrow> write_new dst b t)
             (case err of None \<Rightarrow> ret () | Some e \<Rightarrow> raise_py e)) fs = (Inr (), fs')"
    unfolding decrypt_file_def by (auto elim!: bind_py_Inr_E simp: read_bytes_content)
  have "\<not> (fst (unseal g key data) = None \<and> snd (unseal g key data) = None)"
    by (simp add: unseal_def Let_def)
  with run obtain b where b: "unseal g key data = (Some b, None)" "write_new dst b t fs = (Inr (), fs')"
    by (cases "unseal g key data") (auto elim!: seq_Inr_E split: option.splits)
  with write_new_InrD(4) [OF b(2)] assms(2) d show ?thesis unfolding plain_target_def by blast
qed

lemma cl_verify_run:
  assumes "cl_verify sha g a r h fs = (x, fs1)"
  shows "extends fs fs1" "x = Inr True \<Longrightarrow> \<exists>data b. content fs1 (cl_root a @ [rc_object r]) = Some data
     \<and> unseal g (cl_key a) data = (Some b, None) \<and> sha b = h"
proof -
  have mk: "extends fs fs2" if "(case cl_scratch a of None \<Rightarrow> ret () | Some p \<Rightarrow> mkdirs p) fs = (y, fs2)" for y fs2
    using that mkdirs_from_extends [of "[]"] by (auto simp: mkdirs_def extends_refl split: option.splits)
  obtain y fs2 where y: "(case cl_scratch a of None \<Rightarrow> ret () | Some p \<Rightarrow> mkdirs p) fs = (y, fs2)" by force
  have pre: "snd (scratch_preflight f n fs2) = fs2" for f n by (simp add: scratch_preflight_def)
  have rd: "snd (read_bytes p fs2) = fs2" for p by simp
  have "fs1 = fs2"
    using assms y pre rd unfolding cl_verify_def seq_def
    by (auto simp: bind_py_def scratch_preflight_def split: sum.splits prod.splits if_splits option.splits
        dest: arg_cong [where f = snd])
  with mk [OF y] show "extends fs fs1" by simp
  assume "x = Inr True"
  with assms show "\<exists>data b. content fs1 (cl_root a @ [rc_object r]) = Some data
     \<and> unseal g (cl_key a) data = (Some b, None) \<and> sha b = h"
    unfolding cl_verify_def
    by (auto elim!: bind_py_Inr_E seq_Inr_E simp: read_bytes_content split: prod.splits option.splits)
qed

section \<open>The contract\<close>

definition cl_ready :: "gcm \<Rightarrow> cold_local \<Rightarrow> fsys \<Rightarrow> string \<Rightarrow> bool" where
  "cl_ready g a fs key \<longleftrightarrow> canonical fs (object_path a key) \<and> CHR ''.'' \<notin> set key \<and> key \<noteq> []
     \<and> gcm_sound g \<and> length (cl_nonce a) = nonce_size"

definition cl_present :: "cold_local \<Rightarrow> fsys \<Rightarrow> string \<Rightarrow> bool" where
  "cl_present a fs key = path_exists fs (object_path a key)"

lemma with_suffix_object:
  "CHR ''.'' \<notin> set key \<Longrightarrow> key \<noteq> [] \<Longrightarrow> with_suffix (object_path a key) ''.partial'' = cl_root a @ [key @ ''.partial'']"
  by (simp add: with_suffix_def object_path_def with_name_def path_stem_def dot_at_def rfind_dot_none)

lemma cl_upload_tail:
  "snd (bind_py (stat_size p) (\<lambda>sz. bind_py (sha256_file sha p) (\<lambda>h. ret (f sz h))) fs) = fs"
proof -
  have "snd (stat_size p fs) = fs" by (simp add: stat_size_def split: option.split)
  moreover have "snd (sha256_file sha p fs) = fs" by simp
  ultimately show ?thesis by (auto simp: bind_py_def split: prod.split sum.split dest: arg_cong [where f = snd])
qed

lemma cl_upload_old:
  assumes "cl_present a fs key"
  shows "cl_upload sha g a src ob key fs = bind_py (stat_size (object_path a key)) (\<lambda>sz.
      bind_py (sha256_file sha (object_path a key)) (\<lambda>h.
      ret \<lparr>rc_provider = ''local-test'', rc_bucket = cl_bucket a, rc_object = last (object_path a key),
           rc_encryption = ''AES-256-GCM'', rc_size = sz, rc_checksum = Some h\<rparr>)) fs"
  using assms by (simp add: cl_upload_def cl_present_def Let_def seq_def)

lemma cl_upload_new:
  assumes run: "cl_upload sha g a src ob key fs = (Inr r, fs1)" and ready: "cl_ready g a fs key"
    and new: "\<not> cl_present a fs key"
  shows "rc_object r = key @ ''.mnema''" "length (cl_key a) = 32" "canonical fs1 (object_path a key)"
    "\<exists>b. content fs src = Some b \<and> content fs1 (object_path a key) = Some (sealed g (cl_key a) (cl_nonce a) b)"
proof -
  let ?t = "object_path a key" and ?p = "cl_root a @ [key @ ''.partial'']"
  have rd: "canonical fs ?t" "CHR ''.'' \<notin> set key" "key \<noteq> []" using ready by (auto simp: cl_ready_def)
  have rt: "canonical fs (cl_root a)" using rd(1) canonical_prefix unfolding object_path_def by blast
  from run new obtain fs2 fs3 sz fs4 h fs5 where
    enc: "encrypt_file g src ?p (cl_key a) (cl_nonce a) (cl_mtime a) fs = (Inr (), fs2)"
    and mv: "os_replace ?p ?t fs2 = (Inr (), fs3)"
    and st: "stat_size ?t fs3 = (Inr sz, fs4)" "sha256_file sha ?t fs4 = (Inr h, fs5)" "fs1 = fs5"
    and r: "rc_object r = key @ ''.mnema''"
    unfolding cl_upload_def cl_present_def Let_def with_suffix_object [OF rd(2,3)]
    by (auto elim!: seq_Inr_E bind_py_Inr_E simp: object_path_def)
  have fs1: "fs1 = fs3"
    using st sha256_file_InrD [OF st(2)] by (auto simp: stat_size_def split: option.splits)
  from enc obtain b where key: "length (cl_key a) = 32" and b: "content fs src = Some b"
    and w: "write_new ?p (sealed g (cl_key a) (cl_nonce a) b) (cl_mtime a) fs = (Inr (), fs2)"
    unfolding encrypt_file_def by (auto elim!: seq_Inr_E bind_py_Inr_E simp: read_bytes_content require_Inr_iff)
  let ?n = "File (sealed g (cl_key a) (cl_nonce a) b) (fresh_inode fs) (cl_mtime a)"
  have "last ?p \<noteq> ''..''" by (auto simp: append_eq_Cons_conv)
  with w rt have "fs2 = set_node ?p ?n fs" by (intro write_new_InrD(2)) simp_all
  then have node: "node_at fs2 q = (if q = ?p then Some ?n else node_at fs q)" for q by simp
  have rt2: "canonical fs2 (cl_root a)"
    using rt by (rule canonical_change) (auto simp: node is_link_def split: if_splits)
  then have can2: "canonical fs2 ?p" "canonical fs2 (butlast ?t)"
    by (auto simp: canonical_snoc node is_link_def object_path_def append_eq_Cons_conv)
  have t: "?t \<noteq> []" "last ?t \<noteq> ''..''" "?p \<noteq> ?t"
    by (auto simp: object_path_def append_eq_Cons_conv)
  have n2: "node_at fs2 ?p = Some ?n" by (simp add: node)
  note o = os_replace_effect [OF mv can2(1) n2 can2(2) t]
  show "rc_object r = key @ ''.mnema''" by (rule r)
  show "length (cl_key a) = 32" by (rule key)
  show "canonical fs1 ?t" using o(4) fs1 by simp
  show "\<exists>b. content fs src = Some b \<and> content fs1 ?t = Some (sealed g (cl_key a) (cl_nonce a) b)"
    using b o fs1 by (simp add: content_File)
qed

lemma cl_verify_object:
  assumes "canonical fs (cl_root a @ [rc_object r])" "content fs (cl_root a @ [rc_object r]) = Some data"
    "unseal g (cl_key a) data = (Some b, None)"
  shows "fst (cl_verify sha g a r (sha b) fs) = Inr True \<or> (\<exists>e. fst (cl_verify sha g a r (sha b) fs) = Inl e)"
proof -
  have mk: "content fs2 (cl_root a @ [rc_object r]) = Some data"
    if "(case cl_scratch a of None \<Rightarrow> ret () | Some p \<Rightarrow> mkdirs p) fs = (y, fs2)" for y fs2
  proof -
    from that have "extends fs fs2"
      using mkdirs_from_extends [of "[]"] by (auto simp: mkdirs_def extends_refl split: option.splits)
    then show ?thesis using assms(1,2) by (rule extends_content)
  qed
  show ?thesis
    using assms(3) unfolding cl_verify_def seq_def
    by (auto simp: bind_py_def scratch_preflight_def dest!: mk dest: read_bytes_Some split: sum.splits prod.splits)
qed

interpretation cl: keyed_store sha "cl_verify sha g a" "cl_restore g a" "\<lambda>src key. cl_upload sha g a src ob key"
    "cl_ready g a" "cl_present a"
  for sha g a ob
proof (unfold_locales, goal_cases)
  case (1 r h fs fs1 dst fs2)
  from cl_verify_run(2) [OF 1(1)] obtain data b where d: "content fs1 (cl_root a @ [rc_object r]) = Some data"
    "unseal g (cl_key a) data = (Some b, None)" "sha b = h" by blast
  with decrypt_file_Inr [OF 1(2) [unfolded cl_restore_def] 1(3)] show ?case by auto
next
  case (2 r h fs x fs1)
  then show ?case by (rule cl_verify_run(1))
next
  case (3 src key fs r fs1 b)
  note u = cl_upload_new [OF 3(1-3)]
  from u(4) 3(4) have "content fs1 (cl_root a @ [rc_object r]) = Some (sealed g (cl_key a) (cl_nonce a) b)"
    by (simp add: u(1) object_path_def)
  moreover have "unseal g (cl_key a) (sealed g (cl_key a) (cl_nonce a) b) = (Some b, None)"
    using 3(2) u(2) by (intro unseal_sealed) (auto simp: cl_ready_def)
  moreover have "canonical fs1 (cl_root a @ [rc_object r])" using u(1,3) by (simp add: object_path_def)
  ultimately show ?case by (intro cl_verify_object)
next
  case (4 src key fs r fs1)
  show ?case
  proof (cases "cl_present a fs key")
    case True
    then have "fs1 = fs" using 4(1) cl_upload_tail unfolding cl_upload_old [OF True] by (metis snd_conv)
    with True 4 show ?thesis by simp
  next
    case False
    note u = cl_upload_new [OF 4(1,2) False]
    from u(4) have "path_exists fs1 (object_path a key)" by (auto dest: content_path_exists)
    with u 4(2) show ?thesis by (auto simp: cl_ready_def cl_present_def)
  qed
next
  case (5 fs key src src')
  then show ?case by (simp add: cl_upload_old cl_upload_tail)
qed

text \<open>C13: an object uploaded under a new key, restored, is the uploaded file byte for byte, and the
  receipt's verification against its digest never answers no.\<close>

theorem cold_upload_restore:
  assumes "cl_upload sha g a src ob key fs = (Inr r, fs1)" "cl_ready g a fs key" "\<not> cl_present a fs key"
    and "content fs src = Some b" "cl_restore g a r dst fs1 = (Inr (), fs2)" "plain_target fs1 dst"
  shows "content fs2 dst = Some b \<and> fst (cl_verify sha g a r (sha b) fs1) \<noteq> Inr False"
proof
  note u = cl_upload_new [OF assms(1-3)]
  from u(4) assms(4) have o: "content fs1 (cl_root a @ [rc_object r]) = Some (sealed g (cl_key a) (cl_nonce a) b)"
    by (simp add: u(1) object_path_def)
  moreover have "unseal g (cl_key a) (sealed g (cl_key a) (cl_nonce a) b) = (Some b, None)"
    using assms(2) u(2) by (intro unseal_sealed) (auto simp: cl_ready_def)
  ultimately show "content fs2 dst = Some b"
    using decrypt_file_Inr [OF assms(5) [unfolded cl_restore_def] assms(6)] by auto
  show "fst (cl_verify sha g a r (sha b) fs1) \<noteq> Inr False"
    using cl.put_verifies [OF assms(1-4)] by auto
qed

definition toy_gcm :: gcm where
  "toy_gcm = \<lparr>gcm_enc = \<lambda>k n p. rev p, gcm_dec = \<lambda>k n c. rev c, gcm_tag = \<lambda>k n c. replicate 16 (CHR ''t'')\<rparr>"

definition example_cold :: cold_local where
  "example_cold = \<lparr>cl_root = [''cold''], cl_key = replicate 32 (CHR ''k''), cl_bucket = ''b'', cl_scratch = None,
     cl_nonce = replicate 12 (CHR ''n''), cl_mtime = 5, cl_free = 0, cl_writable = True\<rparr>"

definition example_cold_disk :: fsys where
  "example_cold_disk = [([''cold''], Dir), ([''a.txt''], File ''abc'' 2 0)]"

theorem cold_upload_restore_witness:
  "\<exists>r fs1 fs2. cl_upload (\<lambda>b. b) toy_gcm example_cold [''a.txt''] ''docs/a.txt'' ''item-1'' example_cold_disk = (Inr r, fs1)
     \<and> cl_restore toy_gcm example_cold r [''b.txt''] fs1 = (Inr (), fs2) \<and> content fs2 [''b.txt''] = Some ''abc''"
proof -
  define ob where "ob = ''MNEMA1'' @ replicate 12 (CHR ''n'') @ ''cba'' @ replicate 16 (CHR ''t'')"
  define r where "r = \<lparr>rc_provider = ''local-test'', rc_bucket = ''b'', rc_object = ''item-1.mnema'',
     rc_encryption = ''AES-256-GCM'', rc_size = 37, rc_checksum = Some ob\<rparr>"
  define fs1 where "fs1 = [([''cold''], Dir), ([''a.txt''], File ''abc'' 2 0), ([''cold'', ''item-1.mnema''], File ob 3 5)]"
  have up: "cl_upload (\<lambda>b. b) toy_gcm example_cold [''a.txt''] ''docs/a.txt'' ''item-1'' example_cold_disk = (Inr r, fs1)"
    unfolding fs1_def r_def ob_def by code_simp
  have down: "cl_restore toy_gcm example_cold r [''b.txt''] fs1 = (Inr (), fs1 @ [([''b.txt''], File ''abc'' 4 5)])"
    unfolding fs1_def r_def ob_def by code_simp
  have "canonical example_cold_disk (object_path example_cold ''item-1'')" by code_simp
  then have ready: "cl_ready toy_gcm example_cold example_cold_disk ''item-1''"
    by (simp add: cl_ready_def gcm_sound_def toy_gcm_def tag_size_def nonce_size_def example_cold_def)
  have "\<not> cl_present example_cold example_cold_disk ''item-1''" "content example_cold_disk [''a.txt''] = Some ''abc''"
    by code_simp+
  moreover have "plain_target fs1 [''b.txt'']" unfolding fs1_def by code_simp
  ultimately show ?thesis using cold_upload_restore [OF up ready _ _ down] up down by blast
qed

end
