(* ===== verification/Workflow_Proofs.thy ===== *)
theory Workflow_Proofs
  imports Workflow Cold_Local
begin

text \<open>
  What the workflow guarantees: the evidence invariant over every operation, the states an archive
  run ends in, what an open gate says of the disk, and when a deletion touches the source.
\<close>

section \<open>The evidence invariant\<close>

lemma keeps_advance:
  assumes "gain t f" shows "keeps evidenced (advance i f t d)"
  unfolding advance_def by (rule keeps_gain [OF assms keeps_commit])

lemma keeps_at_state [evidence_rules]:
  "(\<And>r. keeps evidenced (m r)) \<Longrightarrow> keeps evidenced (at_state i s m)"
  unfolding at_state_def by (intro keeps_bind keeps_load_item keeps_when)

lemma gain_nas: "gain LOCAL_COMMITTED (\<lambda>x. x\<lparr>nas_path := Some p, nas_verified_at := Some t\<rparr>)"
  by (rule gainI) (auto simp: evidence_at_def)

lemma gain_backup: "gain LOCAL_BACKUP_VERIFIED (\<lambda>x. x\<lparr>kopia_snapshot_id := Some p, kopia_verified_at := Some t\<rparr>)"
  by (rule gainI) (auto simp: evidence_at_def)

lemma gain_upload: "gain COLD_UPLOADED (record_cold_receipt r t)"
  by (rule gainI) (auto simp: evidence_at_def record_cold_receipt_def)

lemma gain_remote: "gain COLD_VERIFIED (\<lambda>x. x\<lparr>remote_verified_at := Some t, remote_verification_method := Some m\<rparr>)"
  by (rule gainI) (auto simp: evidence_at_def)

lemma gain_archived: "gain COLD_ARCHIVED (\<lambda>x. x\<lparr>cold_archived_at := Some t\<rparr>)"
  by (rule gainI) (auto simp: evidence_at_def)

lemma gain_quarantine: "gain QUARANTINED (\<lambda>x. x\<lparr>quarantine_expires_at := Some t\<rparr>)"
  by (rule gainI) (auto simp: evidence_at_def)

lemma gain_deleted: "gain DELETED_FROM_SOURCE (\<lambda>x. x\<lparr>deletion_timestamp := Some t\<rparr>)"
  by (rule gainI) (auto simp: evidence_at_def)

lemma keeps_pass_on:
  assumes "t \<notin> set gaining" shows "keeps evidenced (pass_on i s t)"
  unfolding pass_on_def by (intro keeps_at_state keeps_advance gain_id assms)

lemmas gains = gain_sha gain_nas gain_backup gain_upload gain_remote gain_archived gain_quarantine
  gain_deleted

lemmas keeps_steps = evidence_rules hoare_rules keeps_advance gains

lemma keeps_staged_partial: "keeps evidenced (staged_partial wk i)"
  unfolding staged_partial_def by (intro keeps_steps)

lemma keeps_stage_queue: "keeps evidenced (stage_queue i)"
  unfolding stage_queue_def by (intro keeps_steps not_gaining)

lemma keeps_discard_staged: "keeps evidenced (discard_staged wk item staged)"
  unfolding discard_staged_def
  by (intro keeps_steps) (auto split: if_splits intro: keeps_raise)

lemma keeps_stage_download: "keeps evidenced (stage_download wk i)"
  unfolding stage_download_def
  by (intro keeps_steps keeps_staged_partial keeps_discard_staged)
     (auto split: if_splits option.splits intro!: keeps_steps not_gaining)

lemma keeps_stage_staged: "keeps evidenced (stage_staged wk i p)"
  unfolding stage_staged_def by (intro keeps_steps gain_id not_gaining)

lemma keeps_adopt_active: "keeps evidenced (adopt_active wk item p)"
  unfolding adopt_active_def by (intro keeps_steps)

lemma keeps_stage_commit: "keeps evidenced (stage_commit wk i p)"
  unfolding stage_commit_def
  by (intro keeps_steps) (auto split: option.split intro!: keeps_steps keeps_adopt_active)

lemma keeps_stage_backup: "keeps evidenced (stage_backup wk i)"
  unfolding stage_backup_def
  by (intro keeps_steps) (auto split: option.split intro!: keeps_steps)

lemma keeps_stage_upload: "keeps evidenced (stage_upload wk i)"
  unfolding stage_upload_def
  by (intro keeps_steps) (auto split: option.split intro!: keeps_steps)

lemma keeps_stage_cold_verify: "keeps evidenced (stage_cold_verify wk i)"
  unfolding stage_cold_verify_def
  by (intro keeps_steps) (auto split: option.split intro!: keeps_steps)

lemma keeps_stage_cold_archive: "keeps evidenced (stage_cold_archive wk i)"
  unfolding stage_cold_archive_def by (intro keeps_steps)

lemma keeps_stage_quarantine: "keeps evidenced (stage_quarantine wk i)"
  unfolding stage_quarantine_def by (intro keeps_steps)

lemmas keeps_stages = keeps_stage_staged keeps_stage_commit keeps_stage_backup keeps_stage_upload
  keeps_stage_cold_verify keeps_stage_cold_archive keeps_stage_quarantine keeps_pass_on

lemma keeps_archive: "keeps evidenced (archive wk i)"
  unfolding archive_def
  by (intro keeps_seq keeps_bind keeps_if keeps_block keeps_ret keeps_stage_queue keeps_stage_download
      keeps_staged_partial)
     (auto simp: archive_rest_def intro!: keeps_stages)

lemma evidence_new_item: "ai_id (new_item wk i ob) = i" "evidence (new_item wk i ob)"
  by (simp_all add: new_item_def record_source_def blank_item_def evidence_def evidence_at_def)

lemma keeps_apply_policy: "keeps evidenced (apply_policy wk i ob)"
  unfolding apply_policy_def by (intro keeps_steps) simp

lemma keeps_discover_object: "keeps evidenced (discover_object wk ob)"
  unfolding discover_object_def
  by (intro keeps_steps)
     (auto split: option.split intro!: keeps_steps keeps_add_item evidence_new_item keeps_apply_policy
       simp: record_source_def evidence_def evidence_at_def)

lemma keeps_discover: "keeps evidenced (discover n wk c)"
proof (induction n wk c rule: discover.induct)
  case (1 wk c)
  show ?case by (simp add: keeps_def)
next
  case (2 n wk c)
  show ?case
    by (subst discover.simps, intro keeps_steps keeps_discover_object)
       (auto split: option.split intro!: keeps_steps "2.IH")
qed

lemma keeps_delete_guard: "keeps evidenced (delete_guard wk i d)"
  unfolding delete_guard_def by (intro keeps_steps not_gaining)

lemma keeps_delete_outcome: "keeps evidenced (delete_outcome i r)"
  unfolding delete_outcome_def
  by (auto split: sum.split intro!: keeps_steps keeps_gain)

lemma keeps_delete_test_item: "keeps evidenced (delete_test_item wk i d)"
  unfolding delete_test_item_def attempt_def
  by (intro keeps_steps keeps_delete_guard keeps_delete_outcome keeps_attempt)

text \<open>C7: every operation of the workflow keeps, in the session and in the committed database, that
  items have distinct ids and carry the evidence of their state, whatever the adapters answer and
  whether the operation ends normally or with an exception.\<close>

theorem workflow_keeps_evidence:
  "keeps evidenced (discover n wk cursor) \<and> keeps evidenced (archive wk i)
   \<and> keeps evidenced (delete_test_item wk i d) \<and> keeps evidenced (session_block (archive wk i))"
  by (intro conjI keeps_discover keeps_archive keeps_delete_test_item keeps_session)

section \<open>Where an archive run ends\<close>

definition st :: "nat \<Rightarrow> world \<Rightarrow> archive_state option" where
  "st i w = map_option ai_state (tbl_get ai_id i (items (live w)))"

text \<open>\<open>moves i m t\<close>: when \<open>m\<close> ends normally the item is in state \<open>t\<close>; \<open>steps i s t m\<close>: it has
  moved to \<open>t\<close> if it was in \<open>s\<close> and stayed where it was otherwise.\<close>

definition moves :: "nat \<Rightarrow> (world, 'a) py \<Rightarrow> archive_state \<Rightarrow> bool" where
  "moves i m t = (\<forall>w x w'. m w = (Inr x, w') \<longrightarrow> st i w' = Some t)"

definition steps :: "nat \<Rightarrow> archive_state \<Rightarrow> archive_state \<Rightarrow> (world, 'a) py \<Rightarrow> bool" where
  "steps i s t m = (\<forall>w x w'. m w = (Inr x, w') \<longrightarrow> st i w' = (if st i w = Some s then Some t else st i w))"

lemma moves_bind: "(\<And>x. moves i (f x) t) \<Longrightarrow> moves i (bind_py m f) t"
  unfolding moves_def by (metis bind_py_Inr_E)

lemma moves_seq: "moves i n t \<Longrightarrow> moves i (seq m n) t"
  unfolding seq_def by (rule moves_bind)

lemma moves_raise: "moves i (raise_py e) t"
  by (simp add: moves_def)

lemma st_same: "items (live w') = items (live w) \<Longrightarrow> st i w' = st i w"
  by (simp add: st_def)

lemma transition_st:
  assumes "transition_item i t who d w = (Inr x, w')" shows "st i w' = Some t"
  using transition_item_outcome [OF assms] by (auto simp: st_def tbl_get_upd_same)

lemma moves_transition: "moves i (transition_item i t who d) t"
  unfolding moves_def using transition_st by blast

lemma moves_advance: "moves i (advance i f t d) t"
  unfolding advance_def
proof (rule moves_seq)
  show "moves i (seq (transition_item i t ''worker'' d) commit) t"
    unfolding moves_def
    by (auto elim!: seq_Inr_E dest!: transition_st simp: commit_def st_def)
qed

lemma load_item_run:
  "load_item i w = (case tbl_get ai_id i (items (live w)) of None \<Rightarrow> (Inl ObjectDeletedError, w) | Some r \<Rightarrow> (Inr r, w))"
  by (simp add: load_item_def query_def split: option.split)

lemma steps_at_state:
  assumes "\<And>r. moves i (m r) t" shows "steps i s t (at_state i s m)"
  unfolding steps_def
proof (intro allI impI)
  fix w x w' assume run: "at_state i s m w = (Inr x, w')"
  then obtain r where r: "tbl_get ai_id i (items (live w)) = Some r"
    and m: "when_py (ai_state r = s) (m r) w = (Inr x, w')"
    unfolding at_state_def by (auto elim!: bind_py_Inr_E simp: load_item_run split: option.splits)
  from r m assms show "st i w' = (if st i w = Some s then Some t else st i w)"
    by (cases "ai_state r = s") (auto simp: st_def [of _ w] moves_def st_def when_py_def)
qed

lemma steps_stages:
  "steps i LOCAL_STAGED LOCAL_VERIFIED (stage_staged wk i p)"
  "steps i LOCAL_VERIFIED LOCAL_COMMITTED (stage_commit wk i p)"
  "steps i s t (pass_on i s t)"
  "steps i LOCAL_BACKUP_PENDING LOCAL_BACKUP_VERIFIED (stage_backup wk i)"
  "steps i COLD_UPLOAD_PENDING COLD_UPLOADED (stage_upload wk i)"
  "steps i COLD_UPLOADED COLD_VERIFIED (stage_cold_verify wk i)"
  "steps i COLD_ARCHIVE_PENDING COLD_ARCHIVED (stage_cold_archive wk i)"
  "steps i COLD_ARCHIVED QUARANTINED (stage_quarantine wk i)"
  unfolding stage_staged_def stage_commit_def pass_on_def stage_backup_def stage_upload_def
    stage_cold_verify_def stage_cold_archive_def stage_quarantine_def
  by (rule steps_at_state; auto split: option.split intro!: moves_bind moves_seq moves_advance moves_raise)+

definition pipeline :: "(archive_state \<times> archive_state) list" where
  "pipeline = [(LOCAL_STAGED, LOCAL_VERIFIED), (LOCAL_VERIFIED, LOCAL_COMMITTED),
     (LOCAL_COMMITTED, LOCAL_BACKUP_PENDING), (LOCAL_BACKUP_PENDING, LOCAL_BACKUP_VERIFIED),
     (LOCAL_BACKUP_VERIFIED, COLD_UPLOAD_PENDING), (COLD_UPLOAD_PENDING, COLD_UPLOADED),
     (COLD_UPLOADED, COLD_VERIFIED), (COLD_VERIFIED, COLD_ARCHIVE_PENDING),
     (COLD_ARCHIVE_PENDING, COLD_ARCHIVED), (COLD_ARCHIVED, QUARANTINED)]"

fun follow_pipeline :: "(archive_state \<times> archive_state) list \<Rightarrow> archive_state option \<Rightarrow> archive_state option" where
  "follow_pipeline [] s = s"
| "follow_pipeline ((a, b) # ps) s = follow_pipeline ps (if s = Some a then Some b else s)"

lemma block_steps:
  assumes "list_all2 (\<lambda>m (a, b). steps i a b m) ms ps" "block ms w = (Inr x, w')"
  shows "st i w' = follow_pipeline ps (st i w)"
  using assms
proof (induction ms ps arbitrary: w rule: list_all2_induct)
  case Nil
  then show ?case by simp
next
  case (Cons m ms p ps)
  from Cons.prems obtain y w1 where "m w = (Inr y, w1)" "block ms w1 = (Inr x, w')"
    by (auto elim: seq_Inr_E)
  with Cons show ?case by (cases p) (simp add: steps_def)
qed

lemma archive_rest_steps: "list_all2 (\<lambda>m (a, b). steps i a b m) (archive_rest wk i p) pipeline"
  by (simp add: archive_rest_def pipeline_def steps_stages)

lemma on_disk_frame:
  "on_disk m w = (x, w') \<Longrightarrow> live w' = live w \<and> durable w' = durable w"
  by (auto simp: on_disk_def split: prod.splits)

lemma stage_download_st:
  assumes "stage_download wk i w = (Inr go, w')"
  shows "if go then st i w' = (if st i w = Some DOWNLOADING then Some LOCAL_STAGED else st i w)
    else st i w = Some DOWNLOADING \<and> st i w' = Some SOURCE_CHANGED"
proof -
  let ?rest = "\<lambda>item. bind_py (staged_partial wk i) (\<lambda>staged.
     seq (discard_staged wk item staged) (
     bind_py (try_py
        (bind_py (on_disk (sc_download (wf_source wk) (source_identifier item) staged)) (\<lambda>r. ret (Some r)))
        (\<lambda>e. if is_SourceChangedError e
             then Some (seq (transition_item i SOURCE_CHANGED ''worker'' [(''stage'', PStr ''download'')])
                        (seq commit (ret None)))
             else None)) (\<lambda>r.
     case r of None \<Rightarrow> ret False
     | Some receipt \<Rightarrow>
         seq (advance i (\<lambda>x. x\<lparr>plaintext_sha256 := Some (dr_sha256 receipt)\<rparr>) LOCAL_STAGED [])
         (ret True))))"
  from assms obtain item where item: "tbl_get ai_id i (items (live w)) = Some item"
    and run: "(if ai_state item \<noteq> DOWNLOADING then ret True else ?rest item) w = (Inr go, w')"
    unfolding stage_download_def by (auto elim!: bind_py_Inr_E simp: load_item_run split: option.splits)
  have sw: "st i w = Some (ai_state item)" using item by (simp add: st_def)
  show ?thesis
  proof (cases "ai_state item = DOWNLOADING")
    case False
    with run sw show ?thesis by simp
  next
    case True
    have dl: "st i w' = Some SOURCE_CHANGED"
      if "try_py (bind_py (on_disk d) (\<lambda>r. ret (Some r))) (\<lambda>e. if is_SourceChangedError e
             then Some (seq (transition_item i SOURCE_CHANGED ''worker'' ds) (seq commit (ret None)))
             else None) u = (Inr None, w')" for d u ds w'
      using that
      by (auto simp: try_py_def split: prod.splits sum.splits option.splits if_splits
          elim!: bind_py_Inr_E seq_Inr_E dest!: transition_st) (auto simp: commit_def st_def)
    from True run have "?rest item w = (Inr go, w')" by simp
    then show ?thesis
      using True sw moves_advance [of i _ LOCAL_STAGED "[]"]
      by (auto elim!: bind_py_Inr_E seq_Inr_E split: option.splits dest!: dl simp: moves_def)
  qed
qed

lemma stage_queue_st:
  assumes "stage_queue i w = (Inr x, w')"
  shows "st i w' = (if st i w \<in> Some ` {ELIGIBLE, SOURCE_CHANGED, FAILED_RETRYABLE, MANUAL_REVIEW, QUEUED}
     then Some DOWNLOADING else st i w)"
proof -
  have q: "steps i QUEUED DOWNLOADING (at_state i QUEUED (\<lambda>item. seq (transition_item i DOWNLOADING ''worker'' []) commit))"
  proof (rule steps_at_state)
    show "moves i (seq (transition_item i DOWNLOADING ''worker'' []) commit) DOWNLOADING"
      unfolding moves_def by (auto elim!: seq_Inr_E dest!: transition_st simp: commit_def st_def)
  qed
  from assms obtain y w1 where
    first: "bind_py (load_item i) (\<lambda>item.
       when_py (ai_state item \<in> {ELIGIBLE, SOURCE_CHANGED, FAILED_RETRYABLE, MANUAL_REVIEW})
         (transition_item i QUEUED ''worker'' [])) w = (Inr y, w1)"
    and second: "at_state i QUEUED (\<lambda>item. seq (transition_item i DOWNLOADING ''worker'' []) commit) w1 = (Inr x, w')"
    unfolding stage_queue_def by (rule seq_Inr_E)
  from first have "st i w1 = (if st i w \<in> Some ` {ELIGIBLE, SOURCE_CHANGED, FAILED_RETRYABLE, MANUAL_REVIEW}
      then Some QUEUED else st i w)"
    by (auto elim!: bind_py_Inr_E simp: load_item_run when_py_def st_def [of _ w] split: option.splits if_splits
        dest: transition_st) (simp add: st_def)
  with q second show ?thesis by (auto simp: steps_def split: if_splits)
qed

definition archivable :: "archive_state list" where
  "archivable = [ELIGIBLE, SOURCE_CHANGED, FAILED_RETRYABLE, MANUAL_REVIEW, QUEUED, DOWNLOADING,
     LOCAL_STAGED, LOCAL_VERIFIED, LOCAL_COMMITTED, LOCAL_BACKUP_PENDING, LOCAL_BACKUP_VERIFIED,
     COLD_UPLOAD_PENDING, COLD_UPLOADED, COLD_VERIFIED, COLD_ARCHIVE_PENDING, COLD_ARCHIVED]"


section \<open>When a deletion touches the source\<close>

text \<open>The source coordinates of an item, which no state change alters.\<close>

definition coords :: "nat \<Rightarrow> world \<Rightarrow> (string \<times> string) option" where
  "coords i w = map_option (\<lambda>r. (source_identifier r, source_version r)) (tbl_get ai_id i (items (live w)))"

lemma transition_coords:
  "transition_item i t who d w = (x, w') \<Longrightarrow> coords i w' = coords i w \<and> disk w' = disk w \<and> durable w' = durable w"
  using transition_item_outcome [of i t who d w x w']
  by (cases x) (auto simp: coords_def tbl_get_upd_same)

lemma transition_valid:
  assumes "transition_item i t who d w = (Inr x, w')"
  shows "\<exists>s. st i w = Some s \<and> validate_transition s t = Inr ()"
  using transition_item_outcome [OF assms] by (auto simp: st_def)

lemma local_stat_state [simp]: "snd (local_stat a sid fs) = fs"
  by (simp add: local_stat_def bind_py_def split: sum.split)

lemma at_state_transition:
  assumes "at_state i s (\<lambda>_. transition_item i t who d) w = (x, w')"
  shows "coords i w' = coords i w \<and> disk w' = disk w \<and> durable w' = durable w"
  using assms
  by (auto simp: at_state_def bind_py_def load_item_run when_py_def split: prod.splits sum.splits option.splits if_splits
      dest: transition_coords)

lemma steps_transition: "steps i s t (at_state i s (\<lambda>_. transition_item i t who d))"
  by (intro steps_at_state moves_transition)

lemma delete_guard_disk:
  assumes "wf_source wk = local_source_ops sha a" "delete_guard wk i dcn w = (g, w1)"
  shows "disk w1 = disk w"
proof -
  have stat: "on_disk (sc_stat (wf_source wk) sid) u = (fst (local_stat a sid (disk u)), u)" for sid u
    using local_stat_state [of a sid "disk u"] assms(1)
    by (cases "local_stat a sid (disk u)") (simp add: local_source_ops_def on_disk_def)
  have t: "disk (snd (transition_item i t who d u)) = disk u" for t who d u
    using transition_coords by (metis prod.collapse)
  have at: "disk (snd (at_state i s (\<lambda>_. transition_item i t who d) u)) = disk u" for s t who d u
    using at_state_transition by (metis prod.collapse)
  have c: "disk (snd (seq m n u)) = disk u" if "disk (snd (m u)) = disk u" "\<And>v. disk (snd (n v)) = disk v"
    for u and m :: "(world, unit) py" and n :: "(world, 'x) py"
    using that by (auto simp: seq_def bind_py_def split: prod.split sum.split)
  have r: "disk (snd (require b e u)) = disk u" for b e u by (simp add: require_def)
  have cm: "disk (snd (seq commit (ret y) u)) = disk u" for y u by (simp add: commit_def seq_def)
  have "disk (snd (delete_guard wk i dcn w)) = disk w"
    unfolding delete_guard_def
    by (intro c r) (auto simp: bind_py_def load_item_run stat t intro!: c t at cm split: option.split sum.split)
  with assms(2) show ?thesis by simp
qed

lemma delete_guard_True:
  assumes src: "wf_source wk = local_source_ops sha a" and run: "delete_guard wk i dcn w = (Inr True, w1)"
  shows "allowed dcn" "allow_delete a" "durable w1 = live w1" "st i w1 = Some DELETING" "coords i w1 = coords i w"
    "st i w \<in> Some ` {QUARANTINED, READY_FOR_REVALIDATION, READY_FOR_DELETION, DELETING}"
proof -
  from run src show "allowed dcn" "allow_delete a"
    by (auto simp: delete_guard_def capabilities_def local_source_ops_def require_Inr_iff elim!: seq_Inr_E)
  from run obtain item :: archive_item and fs0 wa wb wc wd where
    stat: "on_disk (sc_stat (wf_source wk) (source_identifier item)) w = (Inr fs0, wa)"
    and a: "at_state i QUARANTINED (\<lambda>_. transition_item i READY_FOR_REVALIDATION ''guard'' []) wa = (Inr (), wb)"
    and b: "at_state i READY_FOR_REVALIDATION (\<lambda>_. transition_item i READY_FOR_DELETION ''guard'' []) wb = (Inr (), wc)"
    and c: "transition_item i DELETING ''guard'' [] wc = (Inr (), wd)" and cm: "commit wd = (Inr (), w1)"
    unfolding delete_guard_def
    by (auto elim!: seq_Inr_E bind_py_Inr_E simp: require_Inr_iff load_item_run
        split: option.splits if_splits)
  from cm have w1: "w1 = wd\<lparr>durable := live wd\<rparr>" by (simp add: commit_def)
  have wa: "live wa = live w" using on_disk_frame [OF stat] by simp
  show "durable w1 = live w1" by (simp add: w1)
  show "st i w1 = Some DELETING" using transition_st [OF c] by (simp add: w1 st_def)
  show "coords i w1 = coords i w"
    using at_state_transition [OF a] at_state_transition [OF b] transition_coords [OF c] wa
    by (simp add: w1 coords_def)
  have "st i wb = (if st i wa = Some QUARANTINED then Some READY_FOR_REVALIDATION else st i wa)"
    "st i wc = (if st i wb = Some READY_FOR_REVALIDATION then Some READY_FOR_DELETION else st i wb)"
    using steps_transition a b unfolding steps_def by blast+
  moreover obtain s where "st i wc = Some s" "s \<in> {DELETING, READY_FOR_DELETION}"
    using transition_valid [OF c] valid_DELETING_D by blast
  moreover have "st i wa = st i w" using wa by (simp add: st_def)
  ultimately show "st i w \<in> Some ` {QUARANTINED, READY_FOR_REVALIDATION, READY_FOR_DELETION, DELETING}"
    by (auto split: if_splits)
qed

lemma delete_outcome_frame:
  assumes "delete_outcome i r w = (x, w')" shows "disk w' = disk w" "durable w' = durable w"
proof -
  have t: "disk (snd (transition_item i t who d u)) = disk u \<and> durable (snd (transition_item i t who d u)) = durable u"
    for t who d u using transition_coords by (metis prod.collapse)
  have "disk (snd (delete_outcome i r w)) = disk w \<and> durable (snd (delete_outcome i r w)) = durable w"
  proof (cases r)
    case (Inl e)
    then show ?thesis by (simp add: delete_outcome_def t)
  next
    case (Inr receipt)
    have c: "disk (snd (seq m n u)) = disk u \<and> durable (snd (seq m n u)) = durable u"
      if "disk (snd (m u)) = disk u \<and> durable (snd (m u)) = durable u"
        "\<And>v. disk (snd (n v)) = disk v \<and> durable (snd (n v)) = durable v"
      for u and m :: "(world, unit) py" and n :: "(world, unit) py"
      using that by (auto simp: seq_def bind_py_def split: prod.split sum.split)
    have u: "disk (snd (upd_item i f v)) = disk v \<and> durable (snd (upd_item i f v)) = durable v" for f v
      by (simp add: upd_item_def on_db_def)
    let ?now = "Aware (clock w (ticks w))"
    have "disk (snd (seq (upd_item i (\<lambda>x. x\<lparr>deletion_timestamp := Some ?now\<rparr>)) (
            seq (transition_item i DELETED_FROM_SOURCE ''guard'' [])
                (transition_item i ARCHIVED ''guard'' [(''tombstone'', PBool True)])) v)) = disk v
       \<and> durable (snd (seq (upd_item i (\<lambda>x. x\<lparr>deletion_timestamp := Some ?now\<rparr>)) (
            seq (transition_item i DELETED_FROM_SOURCE ''guard'' [])
                (transition_item i ARCHIVED ''guard'' [(''tombstone'', PBool True)])) v)) = durable v" for v
      by (intro c t u)
    with Inr show ?thesis by (simp add: delete_outcome_def t utcnow_def bind_py_def)
  qed
  with assms show "disk w' = disk w" "durable w' = durable w" by simp_all
qed


section \<open>What an open gate says\<close>

lemma on_disk_read:
  assumes "snd (m (disk w)) = disk w" shows "on_disk m w = (fst (m (disk w)), w)"
  using assms by (cases "m (disk w)") (simp add: on_disk_def)

lemma stat_size_state [simp]: "snd (stat_size p fs) = fs"
  by (simp add: stat_size_def split: option.split)

lemma local_state_InrD:
  assumes "local_state wk item w = (Inr (ex, sz, h), w')"
  shows "w' = w" "ex \<and> sz \<and> h \<Longrightarrow> \<exists>p b. nas_path item = Some p \<and> content (disk w) p = Some b
    \<and> plaintext_sha256 item = Some (wf_sha wk b) \<and> length b = original_size item"
proof -
  have stat: "on_disk (stat_size p) u = (fst (stat_size p (disk u)), u)" for p u
    by (rule on_disk_read) simp
  have hash: "on_disk (sha256_file (wf_sha wk) p) u = (fst (sha256_file (wf_sha wk) p (disk u)), u)" for p u
    by (rule on_disk_read) simp
  have "w' = w \<and> (ex \<and> sz \<and> h \<longrightarrow> (\<exists>p b. nas_path item = Some p \<and> content (disk w) p = Some b
    \<and> plaintext_sha256 item = Some (wf_sha wk b) \<and> length b = original_size item))"
  proof (cases "nas_path item")
    case None
    with assms show ?thesis by (auto simp: local_state_def)
  next
    case (Some p)
    show ?thesis
    proof (cases "is_file (disk w) p")
      case False
      with assms Some show ?thesis by (auto simp: local_state_def)
    next
      case True
      then obtain b where b: "content (disk w) p = Some b" by (auto simp: is_file_content)
      then have size: "fst (stat_size p (disk w)) = Inr (length b)"
        by (auto simp: content_def stat_size_def st_size_def split: option.splits node.splits)
      have digest: "fst (sha256_file (wf_sha wk) p (disk w)) = Inr (wf_sha wk b)"
        by (simp add: sha256_file_Some [OF b])
      show ?thesis
        using assms Some True b
        by (cases "plaintext_sha256 item")
           (auto simp: local_state_def bind_py_def stat hash size digest split: if_splits)
    qed
  qed
  then show "w' = w" "ex \<and> sz \<and> h \<Longrightarrow> \<exists>p b. nas_path item = Some p \<and> content (disk w) p = Some b
    \<and> plaintext_sha256 item = Some (wf_sha wk b) \<and> length b = original_size item" by blast+
qed

lemma source_state_InrD:
  assumes "wf_source wk = local_source_ops sha a" "source_state wk item w = (Inr (ex, un, idn), w')"
  shows "w' = w" "ex \<and> un \<Longrightarrow> \<exists>ob. local_stat a (source_identifier item) (disk w) = (Inr ob, disk w) \<and> source_matches item ob"
proof -
  let ?s = "local_stat a (source_identifier item) (disk w)"
  have stat: "on_disk (sc_stat (wf_source wk) (source_identifier item)) w = (fst ?s, w)"
    using on_disk_read [of "local_stat a (source_identifier item)" w] assms(1) by (simp add: local_source_ops_def)
  have "?s = (fst ?s, disk w)" by (metis local_stat_state prod.collapse)
  with assms(2) stat show "w' = w"
    "ex \<and> un \<Longrightarrow> \<exists>ob. local_stat a (source_identifier item) (disk w) = (Inr ob, disk w) \<and> source_matches item ob"
    by (auto simp: source_state_def try_py_def bind_py_def split: sum.splits option.splits if_splits)
qed

text \<open>When the workflow's decision allows a deletion, active storage holds the bytes with the
  recorded digest and length, the backup and the remote copy were verified, the quarantine is over,
  the source still has the recorded identity, size, time and version, and deletion is enabled,
  unlocked and within the limits.\<close>

theorem deletion_decision_sound:
  assumes src: "wf_source wk = local_source_ops sha a"
    and run: "deletion_decision wk i env u l now w = (Inr d, w')" and ok: "allowed d"
  shows "\<exists>item p b ob t. tbl_get ai_id i (items (live w)) = Some item
    \<and> nas_path item = Some p \<and> content (disk w) p = Some b
    \<and> plaintext_sha256 item = Some (wf_sha wk b) \<and> length b = original_size item
    \<and> kopia_verified_at item \<noteq> None \<and> remote_verified_at item \<noteq> None
    \<and> quarantine_over (quarantine_expires_at item) t
    \<and> local_stat a (source_identifier item) (disk w) = (Inr ob, disk w) \<and> source_matches item ob
    \<and> deletion_enabled (wf_policy wk) \<and> env_deletion_enabled env \<and> env_safety_lock env = False
    \<and> limits_allow u l (original_size item)"
proof -
  from run obtain item :: archive_item and ex un idn w1 lex lsz lh w2 remote w3 t w4 where
    item: "tbl_get ai_id i (items (live w)) = Some item"
    and s: "source_state wk item w = (Inr (ex, un, idn), w1)"
    and loc: "local_state wk item w1 = (Inr (lex, lsz, lh), w2)"
    and gate: "evaluate_deletion_gate
       \<lparr>local_exists = lex, local_size_matches = lsz,
        local_sha256_exists = (plaintext_sha256 item \<noteq> None), local_sha256_matches = lh,
        kopia_verified = (kopia_verified_at item \<noteq> None), remote_verified = (remote_verified_at item \<noteq> None),
        df_quarantine_expires_at = quarantine_expires_at item,
        source_exists = ex, source_unchanged = un, source_identity_matches = idn,
        active_disk_healthy = env_active_healthy env, backup_disk_healthy = env_backup_healthy env,
        storage_devices_differ = env_devices_differ env, sqlite_integrity_healthy = env_sqlite_healthy env,
        remote_available = remote, global_deletion_enabled = env_deletion_enabled env,
        source_deletion_enabled = deletion_enabled (wf_policy wk), safety_lock = env_safety_lock env,
        manual_approval_required = manual_approval (wf_policy wk), manual_approval_granted = env_approved env\<rparr>
       u l (original_size item) t = Inr d"
    unfolding deletion_decision_def
    by (auto elim!: bind_py_Inr_E simp: load_item_run split: option.splits prod.splits)
  note g = gate_allowedD [OF gate ok]
  from g(1) have facts: "lex" "lsz" "lh" "kopia_verified_at item \<noteq> None" "remote_verified_at item \<noteq> None"
    "ex" "un" "deletion_enabled (wf_policy wk)" "env_deletion_enabled env" "\<not> env_safety_lock env"
    by (simp_all add: gate_checks_def)
  from source_state_InrD [OF src s] facts obtain ob where
    "w1 = w" "local_stat a (source_identifier item) (disk w) = (Inr ob, disk w)" "source_matches item ob" by blast
  moreover from local_state_InrD [OF loc] facts \<open>w1 = w\<close> obtain p b where "nas_path item = Some p" "content (disk w) p = Some b"
    "plaintext_sha256 item = Some (wf_sha wk b)" "length b = original_size item" by blast
  ultimately show ?thesis using item facts g(2,3) by auto
qed

section \<open>A small installation\<close>

text \<open>One source file, committed to \<open>/active\<close>, its item in quarantine until time 5.\<close>

definition example_item :: archive_item where
  "example_item = (record_source \<lparr>so_id = ''b.txt'', relative_path = ''b.txt'', so_size = 2,
       modified_at = Aware 4, so_version = ''3:2:4000''\<rparr> (blank_item 1 ''local_test'' ''b.txt''))
     \<lparr>ai_state := QUARANTINED, plaintext_sha256 := Some ''hi'', nas_path := Some [''active'', ''b.txt''],
      nas_verified_at := Some (Aware 1), kopia_snapshot_id := Some ''item-1.snapshot'',
      kopia_verified_at := Some (Aware 2), remote_provider := Some ''local-test'', remote_bucket := Some ''b'',
      remote_object_identifier := Some ''item-1.mnema'', encryption_mode := Some ''AES-256-GCM'',
      remote_size := Some 36, uploaded_at := Some (Aware 2), remote_verified_at := Some (Aware 3),
      remote_verification_method := Some ''download-decrypt-sha256'', cold_archived_at := Some (Aware 3),
      quarantine_expires_at := Some (Naive 5)\<rparr>"

definition installed_disk :: fsys where
  "installed_disk = [([''src''], Dir), ([''src'', ''b.txt''], File ''hi'' 3 4000), ([''active''], Dir),
     ([''active'', ''b.txt''], File ''hi'' 9 4000), ([''cold''], Dir), ([''stage''], Dir)]"

definition example_world :: "archive_item \<Rightarrow> world" where
  "example_world r = \<lparr>disk = installed_disk, live = empty_db\<lparr>items := [r]\<rparr>, durable = empty_db\<lparr>items := [r]\<rparr>,
     clock = (\<lambda>n. int n + 6), ticks = 0, rand = (\<lambda>n. dec n), draws = 0\<rparr>"

definition example_workflow :: workflow where
  "example_workflow = \<lparr>wf_source = local_source_ops (\<lambda>b. b) example_source,
     wf_backup = fs_backup_ops (\<lambda>b. b) example_backup, wf_cold = cold_local_ops (\<lambda>b. b) toy_gcm example_cold,
     wf_active_root = [''active''], wf_staging_root = [''stage''],
     wf_policy = default_policy\<lparr>manual_approval := False, deletion_enabled := True\<rparr>,
     wf_provider = ''local_test'', wf_source_is_active = False, wf_sha = (\<lambda>b. b), wf_utc_offset = 0\<rparr>"

definition example_environment :: deletion_environment where
  "example_environment = \<lparr>env_active_healthy = True, env_backup_healthy = True, env_devices_differ = True,
     env_sqlite_healthy = True, env_deletion_enabled = True, env_safety_lock = False, env_approved = False\<rparr>"


theorem deletion_decision_sound_witness:
  "\<exists>d w'. deletion_decision example_workflow 1 example_environment
       \<lparr>files_deleted = 0, bytes_deleted = 0, eligible_files = 2\<rparr> example_limits None (example_world example_item) = (Inr d, w')
     \<and> allowed d \<and> (\<exists>b. content (disk (example_world example_item)) [''active'', ''b.txt''] = Some b
        \<and> plaintext_sha256 example_item = Some b)"
proof -
  let ?run = "deletion_decision example_workflow 1 example_environment
       \<lparr>files_deleted = 0, bytes_deleted = 0, eligible_files = 2\<rparr> example_limits None (example_world example_item)"
  have src: "wf_source example_workflow = local_source_ops (\<lambda>b. b) example_source" by (simp add: example_workflow_def)
  have "case fst ?run of Inl e \<Rightarrow> False | Inr d \<Rightarrow> allowed d" by code_simp
  then obtain d w' where run: "?run = (Inr d, w')" and ok: "allowed d"
    by (cases ?run) (auto split: sum.splits)
  have row: "tbl_get ai_id 1 (items (live (example_world example_item))) = Some example_item"
    "nas_path example_item = Some [''active'', ''b.txt'']" "wf_sha example_workflow = (\<lambda>b. b)"
    by (simp_all add: example_world_def example_item_def record_source_def blank_item_def example_workflow_def)
  from deletion_decision_sound [OF src run ok] row obtain b where
    "content (disk (example_world example_item)) [''active'', ''b.txt''] = Some b" "plaintext_sha256 example_item = Some b"
    by auto
  with run ok show ?thesis by blast
qed


end
