(* ===== verification/Cursors.thy ===== *)
theory Cursors
  imports Prelude
begin

text \<open>
  The change cursor of the File Provider (\<open>encode_cursor\<close> and \<open>decode_cursor\<close> of
  \<open>file_provider/service.py\<close>) with what it uses of the standard library: URL-safe base64 as
  \<open>binascii\<close> decodes it (foreign characters skipped, no data after the padding), UTF-8 and JSON. Text
  is a list of characters, decoded text a list of code points, since JSON escapes reach beyond the
  characters. Python's recursion limit on nested JSON is not modelled.
\<close>

section \<open>Base64\<close>

definition b64_alphabet :: string where
  "b64_alphabet = ''ABCDEFGHIJKLMNOPQRSTUVWXYZabcdefghijklmnopqrstuvwxyz0123456789-_''"

definition b64_char :: "nat \<Rightarrow> char" where
  "b64_char n = b64_alphabet ! n"

fun b64_nopad :: "nat list \<Rightarrow> string" where
  "b64_nopad [] = []"
| "b64_nopad [a] = [b64_char (a div 4), b64_char (a mod 4 * 16)]"
| "b64_nopad [a, b] = [b64_char (a div 4), b64_char (a mod 4 * 16 + b div 16), b64_char (b mod 16 * 4)]"
| "b64_nopad (a # b # c # r) = b64_char (a div 4) # b64_char (a mod 4 * 16 + b div 16)
     # b64_char (b mod 16 * 4 + c div 64) # b64_char (c mod 64) # b64_nopad r"

definition b64_pad :: "nat \<Rightarrow> string" where
  "b64_pad n = replicate ((4 - n mod 4) mod 4) (CHR ''='')"

text \<open>\<open>base64.urlsafe_b64encode\<close> of bytes given as numbers.\<close>

definition b64_encode :: "nat list \<Rightarrow> string" where
  "b64_encode bs = b64_nopad bs @ b64_pad (length (b64_nopad bs))"

text \<open>The decoder's table after the translation of \<open>-\<close> and \<open>_\<close>, which leaves \<open>+\<close> and \<open>/\<close> valid.\<close>

definition b64_val :: "char \<Rightarrow> nat option" where
  "b64_val c =
     (let n = of_char c in
      if 65 \<le> n \<and> n \<le> 90 then Some (n - 65)
      else if 97 \<le> n \<and> n \<le> 122 then Some (n - 71)
      else if 48 \<le> n \<and> n \<le> 57 then Some (n + 4)
      else if c = CHR ''+'' \<or> c = CHR ''-'' then Some 62
      else if c = CHR ''/'' \<or> c = CHR ''_'' then Some 63
      else None)"

text \<open>
  \<open>binascii.a2b_base64\<close>: position in the quad, bits left over, padding seen. \<open>None\<close> is the error of
  an incomplete quad.
\<close>

fun b64_dec :: "nat \<Rightarrow> nat \<Rightarrow> nat \<Rightarrow> string \<Rightarrow> nat list option" where
  "b64_dec q l p [] = (if q = 0 then Some [] else None)"
| "b64_dec q l p (c # cs) =
     (if c = CHR ''='' then
        (if q \<ge> 2 \<and> q + p + 1 \<ge> 4 then Some [] else b64_dec q l (if q \<ge> 2 then p + 1 else p) cs)
      else case b64_val c of
        None \<Rightarrow> b64_dec q l p cs
      | Some v \<Rightarrow>
          if q = 0 then b64_dec 1 v 0 cs
          else if q = 1 then map_option ((#) (l * 4 + v div 16)) (b64_dec 2 (v mod 16) 0 cs)
          else if q = 2 then map_option ((#) (l * 16 + v div 4)) (b64_dec 3 (v mod 4) 0 cs)
          else map_option ((#) (l * 64 + v)) (b64_dec 0 0 0 cs))"

definition b64_decode :: "string \<Rightarrow> nat list option" where
  "b64_decode s = (if list_all (\<lambda>c. of_char c < (128 :: nat)) s then b64_dec 0 0 0 s else None)"

section \<open>UTF-8\<close>

definition cont :: "nat \<Rightarrow> bool" where
  "cont b \<longleftrightarrow> 128 \<le> b \<and> b \<le> 191"

text \<open>The ranges of the second byte exclude overlong forms, surrogates and code points past 10FFFF.\<close>

fun utf8_decode :: "nat list \<Rightarrow> nat list option" where
  "utf8_decode [] = Some []"
| "utf8_decode (a # r) =
     (if a < 128 then map_option ((#) a) (utf8_decode r)
      else case r of [] \<Rightarrow> None
      | b # r1 \<Rightarrow>
        if 194 \<le> a \<and> a \<le> 223 then
          (if cont b then map_option ((#) (a mod 32 * 64 + b mod 64)) (utf8_decode r1) else None)
        else case r1 of [] \<Rightarrow> None
        | c # r2 \<Rightarrow>
          if 224 \<le> a \<and> a \<le> 239 then
            (if cont b \<and> cont c \<and> (a = 224 \<longrightarrow> 160 \<le> b) \<and> (a = 237 \<longrightarrow> b \<le> 159)
             then map_option ((#) (a mod 16 * 4096 + b mod 64 * 64 + c mod 64)) (utf8_decode r2) else None)
          else case r2 of [] \<Rightarrow> None
          | d # r3 \<Rightarrow>
            if 240 \<le> a \<and> a \<le> 244 \<and> cont b \<and> cont c \<and> cont d \<and> (a = 240 \<longrightarrow> 144 \<le> b) \<and> (a = 244 \<longrightarrow> b \<le> 143)
            then map_option ((#) (a mod 8 * 262144 + b mod 64 * 4096 + c mod 64 * 64 + d mod 64)) (utf8_decode r3)
            else None)"

section \<open>JSON\<close>

text \<open>A number with a fraction or an exponent is kept as its text.\<close>

datatype json = JNull | JBool bool | JInt int | JFloat "nat list" | JText "nat list"
  | JList "json list" | JObject "(nat list \<times> json) list"

definition cps :: "string \<Rightarrow> nat list" where
  "cps s = map of_char s"

definition digit_cp :: "nat \<Rightarrow> bool" where
  "digit_cp n \<longleftrightarrow> 48 \<le> n \<and> n \<le> 57"

definition skip_ws :: "nat list \<Rightarrow> nat list" where
  "skip_ws s = dropWhile (\<lambda>n. n \<in> {32, 9, 10, 13}) s"

definition hex_val :: "nat \<Rightarrow> nat option" where
  "hex_val n = (if digit_cp n then Some (n - 48) else if 97 \<le> n \<and> n \<le> 102 then Some (n - 87)
     else if 65 \<le> n \<and> n \<le> 70 then Some (n - 55) else None)"

fun hex4 :: "nat list \<Rightarrow> (nat \<times> nat list) option" where
  "hex4 (a # b # c # d # r) =
     (case (hex_val a, hex_val b, hex_val c, hex_val d) of
        (Some w, Some x, Some y, Some z) \<Rightarrow> Some (w * 4096 + x * 256 + y * 16 + z, r)
      | _ \<Rightarrow> None)"
| "hex4 _ = None"

lemma hex4_shorter: "hex4 s = Some (n, r) \<Longrightarrow> length r < length s"
  by (cases s rule: hex4.cases) (auto split: option.splits)

text \<open>The low surrogate that completes a pair, if one follows.\<close>

definition low_surrogate :: "nat list \<Rightarrow> (nat \<times> nat list) option" where
  "low_surrogate s = (case s of b # u # t \<Rightarrow>
       if b = 92 \<and> u = 117 then (case hex4 t of Some (n, r) \<Rightarrow> if 56320 \<le> n \<and> n \<le> 57343 then Some (n, r) else None
         | None \<Rightarrow> None)
       else None
     | _ \<Rightarrow> None)"

lemma low_surrogate_shorter: "low_surrogate s = Some (n, r) \<Longrightarrow> length r < length s"
  by (auto simp: low_surrogate_def dest!: hex4_shorter split: list.splits if_splits option.splits)

definition unescape :: "nat \<Rightarrow> nat option" where
  "unescape e = map_of [(34, 34), (92, 92), (47, 47), (98, 8), (102, 12), (110, 10), (114, 13), (116, 9)] e"

text \<open>The text after an opening quote, up to the closing one (\<open>scanstring\<close>, strict).\<close>

function json_text :: "nat list \<Rightarrow> (nat list \<times> nat list) option" where
  "json_text [] = None"
| "json_text (a # s) =
     (if a = 34 then Some ([], s)
      else if a < 32 then None
      else if a \<noteq> 92 then map_option (apfst ((#) a)) (json_text s)
      else case s of [] \<Rightarrow> None
      | e # t \<Rightarrow>
        if e \<noteq> 117 then
          (case unescape e of None \<Rightarrow> None | Some x \<Rightarrow> map_option (apfst ((#) x)) (json_text t))
        else case hex4 t of None \<Rightarrow> None
        | Some (n, r) \<Rightarrow>
            (case (if 55296 \<le> n \<and> n \<le> 56319 then low_surrogate r else None) of
               Some (k, r2) \<Rightarrow> map_option (apfst ((#) (65536 + (n - 55296) * 1024 + (k - 56320)))) (json_text r2)
             | None \<Rightarrow> map_option (apfst ((#) n)) (json_text r)))"
  by pat_completeness auto
termination
  by (relation "measure length")
    (auto dest!: hex4_shorter low_surrogate_shorter split: if_splits)

declare json_text.simps [simp del]

definition digits_value :: "nat list \<Rightarrow> nat" where
  "digits_value ds = foldl (\<lambda>acc d. acc * 10 + (d - 48)) 0 ds"

definition json_exponent :: "nat list \<Rightarrow> nat list option" where
  "json_exponent s = (case s of e # t \<Rightarrow>
       if e \<noteq> 101 \<and> e \<noteq> 69 then None
       else (let u = (case t of x # v \<Rightarrow> if x = 43 \<or> x = 45 then v else t | [] \<Rightarrow> t) in
         if takeWhile digit_cp u = [] then None else Some (dropWhile digit_cp u))
     | [] \<Rightarrow> None)"

definition json_fraction :: "nat list \<Rightarrow> nat list option" where
  "json_fraction s = (case s of d # t \<Rightarrow>
       if d = 46 \<and> takeWhile digit_cp t \<noteq> [] then Some (dropWhile digit_cp t) else None
     | [] \<Rightarrow> None)"

text \<open>The longest number at the start; an integer of more than 4300 digits is refused.\<close>

definition json_number :: "nat list \<Rightarrow> (json \<times> nat list) option" where
  "json_number s =
     (let neg = (s \<noteq> [] \<and> hd s = 45);
          t = (if neg then tl s else s);
          ds = (if t \<noteq> [] \<and> hd t = 48 then [48] else takeWhile digit_cp t);
          r = drop (length ds) t;
          r1 = (case json_fraction r of None \<Rightarrow> r | Some v \<Rightarrow> v);
          r2 = (case json_exponent r1 of None \<Rightarrow> r1 | Some v \<Rightarrow> v)
      in if ds = [] then None
         else if length r2 < length r then Some (JFloat (take (length s - length r2) s), r2)
         else if length ds > 4300 then None
         else Some (JInt ((if neg then -1 else 1) * int (digits_value ds)), r))"

definition json_word :: "nat list \<Rightarrow> (json \<times> nat list) option" where
  "json_word s =
     (let reads = (\<lambda>w. take (length w) s = cps w); after = (\<lambda>w v. Some (v, drop (length w) s)) in
      if reads ''null'' then after ''null'' JNull
      else if reads ''true'' then after ''true'' (JBool True)
      else if reads ''false'' then after ''false'' (JBool False)
      else if reads ''NaN'' then after ''NaN'' (JFloat (cps ''NaN''))
      else if reads ''Infinity'' then after ''Infinity'' (JFloat (cps ''Infinity''))
      else if reads ''-Infinity'' then after ''-Infinity'' (JFloat (cps ''-Infinity''))
      else json_number s)"

text \<open>
  \<open>json_value n s\<close> reads a value at the start of \<open>s\<close>; every call is made after at least one more
  character was read, so fuel above the length of the text never runs out.
\<close>

fun json_value :: "nat \<Rightarrow> nat list \<Rightarrow> (json \<times> nat list) option"
  and json_elements :: "nat \<Rightarrow> nat list \<Rightarrow> (json list \<times> nat list) option"
  and json_members :: "nat \<Rightarrow> nat list \<Rightarrow> ((nat list \<times> json) list \<times> nat list) option" where
  "json_value 0 s = None"
| "json_value (Suc n) s =
     (case s of [] \<Rightarrow> None
      | a # t \<Rightarrow>
        if a = 34 then map_option (apfst JText) (json_text t)
        else if a = 91 then
          (case skip_ws t of b # r \<Rightarrow> if b = 93 then Some (JList [], r)
              else map_option (apfst JList) (json_elements n (skip_ws t))
           | [] \<Rightarrow> None)
        else if a = 123 then
          (case skip_ws t of b # r \<Rightarrow> if b = 125 then Some (JObject [], r)
              else map_option (apfst JObject) (json_members n (skip_ws t))
           | [] \<Rightarrow> None)
        else json_word s)"
| "json_elements 0 s = None"
| "json_elements (Suc n) s =
     (case json_value n s of None \<Rightarrow> None
      | Some (v, r) \<Rightarrow>
        (case skip_ws r of [] \<Rightarrow> None
         | b # t \<Rightarrow> if b = 93 then Some ([v], t)
             else if b = 44 then map_option (apfst ((#) v)) (json_elements n (skip_ws t))
             else None))"
| "json_members 0 s = None"
| "json_members (Suc n) s =
     (case s of [] \<Rightarrow> None
      | a # t \<Rightarrow>
        if a \<noteq> 34 then None
        else case json_text t of None \<Rightarrow> None
        | Some (k, r) \<Rightarrow>
          (case skip_ws r of [] \<Rightarrow> None
           | c # r1 \<Rightarrow>
             if c \<noteq> 58 then None
             else case json_value n (skip_ws r1) of None \<Rightarrow> None
             | Some (v, r2) \<Rightarrow>
               (case skip_ws r2 of [] \<Rightarrow> None
                | b # r3 \<Rightarrow> if b = 125 then Some ([(k, v)], r3)
                    else if b = 44 then map_option (apfst ((#) (k, v))) (json_members n (skip_ws r3))
                    else None)))"

text \<open>\<open>json.loads\<close> of a text; \<open>None\<close> is a \<open>ValueError\<close>.\<close>

definition json_loads :: "nat list \<Rightarrow> json option" where
  "json_loads s =
     (if s \<noteq> [] \<and> hd s = 65279 then None
      else case json_value (2 * length s + 2) (skip_ws s) of None \<Rightarrow> None
      | Some (v, r) \<Rightarrow> if skip_ws r = [] then Some v else None)"

text \<open>\<open>json.dumps\<close> of a string, ASCII only.\<close>

definition hex_char :: "nat \<Rightarrow> char" where
  "hex_char d = ''0123456789abcdef'' ! d"

definition escape_char :: "char \<Rightarrow> string" where
  "escape_char c =
     (if c = CHR 0x22 then [CHR 0x5C, CHR 0x22] else if c = CHR 0x5C then [CHR 0x5C, CHR 0x5C]
      else if of_char c = (10 :: nat) then [CHR 0x5C, CHR ''n'']
      else if of_char c = (13 :: nat) then [CHR 0x5C, CHR ''r'']
      else if of_char c = (9 :: nat) then [CHR 0x5C, CHR ''t'']
      else if of_char c = (12 :: nat) then [CHR 0x5C, CHR ''f'']
      else if of_char c = (8 :: nat) then [CHR 0x5C, CHR ''b'']
      else if 32 \<le> (of_char c :: nat) \<and> (of_char c :: nat) \<le> 126 then [c]
      else [CHR 0x5C, CHR ''u'', CHR ''0'', CHR ''0'', hex_char (of_char c div 16), hex_char (of_char c mod 16)])"

definition json_string :: "string \<Rightarrow> string" where
  "json_string s = CHR 0x22 # concat (map escape_char s) @ [CHR 0x22]"

section \<open>Cursors\<close>

definition cursor_payload :: "string \<Rightarrow> int \<Rightarrow> string" where
  "cursor_payload generation seqno = [CHR 0x7B] @ json_string ''g'' @ '':'' @ json_string generation
     @ '','' @ json_string ''s'' @ '':'' @ py_str_int seqno @ [CHR 0x7D]"

definition encode_cursor :: "string \<Rightarrow> int \<Rightarrow> string" where
  "encode_cursor generation seqno = rstrip_char (CHR ''='') (b64_encode (cps (cursor_payload generation seqno)))"

text \<open>\<open>payload[k]\<close> of a decoded object; the last entry of a key counts.\<close>

definition json_item :: "json \<Rightarrow> string \<Rightarrow> json option" where
  "json_item v k = (case v of JObject kvs \<Rightarrow> map_of (rev kvs) (cps k) | _ \<Rightarrow> None)"

definition cursor_fields :: "json \<Rightarrow> (nat list \<times> int) option" where
  "cursor_fields v =
     (case (json_item v ''g'', json_item v ''s'') of
        (Some (JText g), Some (JInt n)) \<Rightarrow> if n < 0 then None else Some (g, n)
      | (Some (JText g), Some (JBool b)) \<Rightarrow> Some (g, if b then 1 else 0)
      | _ \<Rightarrow> None)"

definition decode_cursor :: "string \<Rightarrow> exn + nat list \<times> int" where
  "decode_cursor cursor =
     (let padded = cursor @ replicate ((4 - length cursor mod 4) mod 4) (CHR ''='');
          result = Option.bind (b64_decode padded) (\<lambda>bs. Option.bind (utf8_decode bs) (\<lambda>text.
            Option.bind (json_loads text) cursor_fields))
      in case result of None \<Rightarrow> Inl (ValueError ''invalid change cursor'') | Some r \<Rightarrow> Inr r)"

section \<open>The round trip\<close>

lemma b64_alphabet_values: "list_all2 (\<lambda>v c. b64_val c = Some v \<and> c \<noteq> CHR ''='' \<and> of_char c < (128 :: nat))
    [0..<64] b64_alphabet"
  by (simp add: b64_alphabet_def b64_val_def upt_conv_Cons)

lemma b64_char_facts: "v < 64 \<Longrightarrow> b64_val (b64_char v) = Some v" "v < 64 \<Longrightarrow> b64_char v \<noteq> CHR ''=''"
  "v < 64 \<Longrightarrow> of_char (b64_char v) < (128 :: nat)"
  using list_all2_nthD [OF b64_alphabet_values, of v] unfolding b64_char_def length_upt by (simp_all del: upt_rec_numeral)

lemma pack: "y < m \<Longrightarrow> (x * m + y) div m = x" "y < m \<Longrightarrow> (x * m + y) mod m = y" for x y m :: nat
  by simp_all

lemma parts_small: "a < 256 \<Longrightarrow> a div 4 < 64" "a < 256 \<Longrightarrow> a div 16 < 16" "a < 256 \<Longrightarrow> a div 64 < 4"
  "a mod 4 < 4" "a mod 16 < 16" "a mod 64 < 64" for a :: nat
  by (auto intro: less_mult_imp_div_less)

lemma sextets: "a < 256 \<Longrightarrow> a div 4 < 64" "a mod 4 * 16 < 64" "b < 256 \<Longrightarrow> a mod 4 * 16 + b div 16 < 64"
  "b mod 16 * 4 < 64" "c < 256 \<Longrightarrow> b mod 16 * 4 + c div 64 < 64" "c mod 64 < 64" for a b c :: nat
  using parts_small(1,4,5,6) [of a] parts_small(2,5) [of b] parts_small(3,6) [of c] by linarith+

lemma octets:
  "a div 4 * 4 + a mod 4 * 16 div 16 = a" "a mod 4 * 16 mod 16 = 0"
  "b < 256 \<Longrightarrow> a div 4 * 4 + (a mod 4 * 16 + b div 16) div 16 = a"
  "b < 256 \<Longrightarrow> (a mod 4 * 16 + b div 16) mod 16 * 16 + b mod 16 * 4 div 4 = b"
  "b < 256 \<Longrightarrow> c < 256 \<Longrightarrow> (a mod 4 * 16 + b div 16) mod 16 * 16 + (b mod 16 * 4 + c div 64) div 4 = b"
  "c < 256 \<Longrightarrow> (b mod 16 * 4 + c div 64) mod 4 * 64 + c mod 64 = c" for a b c :: nat
  using parts_small(2,5) [of b] parts_small(3) [of c] by (simp_all add: pack parts_small)

lemma b64_dec_step: "v < 64 \<Longrightarrow> b64_dec q l p (b64_char v # cs) =
    (if q = 0 then b64_dec 1 v 0 cs
     else if q = 1 then map_option ((#) (l * 4 + v div 16)) (b64_dec 2 (v mod 16) 0 cs)
     else if q = 2 then map_option ((#) (l * 16 + v div 4)) (b64_dec 3 (v mod 4) 0 cs)
     else map_option ((#) (l * 64 + v)) (b64_dec 0 0 0 cs))"
  by (simp add: b64_char_facts b64_dec.simps)

declare b64_dec.simps(2) [simp del]

lemma b64_dec_pad: "b64_dec q l p (CHR ''='' # cs) =
    (if q \<ge> 2 \<and> q + p + 1 \<ge> 4 then Some [] else b64_dec q l (if q \<ge> 2 then p + 1 else p) cs)"
  by (simp add: b64_dec.simps)

lemma b64_dec_nopad:
  "\<forall>b \<in> set bs. b < 256 \<Longrightarrow> b64_dec 0 0 0 (b64_nopad bs @ b64_pad (length (b64_nopad bs))) = Some bs"
proof (induction bs rule: b64_nopad.induct)
  case 1
  then show ?case by (simp add: b64_pad_def)
next
  case (2 a)
  then show ?case by (simp add: b64_dec_step b64_dec_pad sextets b64_pad_def numeral_2_eq_2 octets)
next
  case (3 a b)
  then show ?case by (simp add: b64_dec_step b64_dec_pad sextets b64_pad_def octets parts_small)
next
  case (4 a b c r)
  then show ?case by (simp add: b64_dec_step sextets b64_pad_def octets parts_small)
qed

lemma b64_nopad_chars:
  "\<forall>b \<in> set bs. b < 256 \<Longrightarrow> x \<in> set (b64_nopad bs) \<Longrightarrow> x \<noteq> CHR ''='' \<and> of_char x < (128 :: nat)"
  by (induction bs rule: b64_nopad.induct) (auto simp: b64_char_facts sextets)

lemma rstrip_b64: "\<forall>b \<in> set bs. b < 256 \<Longrightarrow> rstrip_char (CHR ''='') (b64_encode bs) = b64_nopad bs"
proof -
  assume small: "\<forall>b \<in> set bs. b < 256"
  have "dropWhile (\<lambda>x. x = CHR ''='') (replicate k (CHR ''='') @ t) = dropWhile (\<lambda>x. x = CHR ''='') t" for k t
    by (induction k) simp_all
  moreover have "dropWhile (\<lambda>x. x = CHR ''='') (rev (b64_nopad bs)) = rev (b64_nopad bs)"
    using b64_nopad_chars [OF small, of "last (b64_nopad bs)"]
    by (cases "b64_nopad bs" rule: rev_cases) auto
  ultimately show ?thesis by (simp add: rstrip_char_def b64_encode_def b64_pad_def)
qed

lemma b64_round:
  assumes "\<forall>b \<in> set bs. b < 256"
  shows "b64_decode (b64_nopad bs @ replicate ((4 - length (b64_nopad bs) mod 4) mod 4) (CHR ''='')) = Some bs"
  using b64_dec_nopad [OF assms] b64_nopad_chars [OF assms]
  by (auto simp: b64_decode_def b64_pad_def list_all_iff)

lemma utf8_ascii: "\<forall>b \<in> set bs. b < 128 \<Longrightarrow> utf8_decode bs = Some bs"
  by (induction bs rule: utf8_decode.induct) auto

subsection \<open>Text\<close>

lemma hex_values: "list_all2 (\<lambda>d c. hex_val (of_char c) = Some d) [0..<16] ''0123456789abcdef''"
  by (simp add: hex_val_def digit_cp_def upt_conv_Cons)

lemma hex_val_char: "d < 16 \<Longrightarrow> hex_val (of_char (hex_char d)) = Some d"
  using list_all2_nthD [OF hex_values, of d] unfolding hex_char_def length_upt by (simp del: upt_rec_numeral)

lemma json_text_plain: "32 \<le> a \<Longrightarrow> a \<noteq> 34 \<Longrightarrow> a \<noteq> 92 \<Longrightarrow> json_text (a # s) = map_option (apfst ((#) a)) (json_text s)"
  by (subst json_text.simps) simp

lemma json_text_escape: "unescape e = Some x \<Longrightarrow> e \<noteq> 117 \<Longrightarrow> json_text (92 # e # s) = map_option (apfst ((#) x)) (json_text s)"
  by (subst json_text.simps) simp

lemma json_text_hex: "x < 16 \<Longrightarrow> y < 16 \<Longrightarrow>
    json_text (92 # 117 # 48 # 48 # of_char (hex_char x) # of_char (hex_char y) # s)
      = map_option (apfst ((#) (x * 16 + y))) (json_text s)"
  by (subst json_text.simps) (simp add: hex_val_char hex_val_def [of 48] digit_cp_def)

lemma of_char_lit: "c = CHR 0x22 \<longleftrightarrow> of_char c = (34 :: nat)" "c = CHR 0x5C \<longleftrightarrow> of_char c = (92 :: nat)"
  using of_char_eq_iff [of c "CHR 0x22", where 'a = nat] of_char_eq_iff [of c "CHR 0x5C", where 'a = nat] by simp_all

lemma json_text_char: "json_text (cps (escape_char c) @ s) = map_option (apfst ((#) (of_char c))) (json_text s)"
proof -
  let ?n = "of_char c :: nat"
  have n: "?n < 256" by simp
  have div: "?n div 16 < 16" "?n mod 16 < 16" "?n div 16 * 16 + ?n mod 16 = ?n"
    using parts_small(2) [OF n] by simp_all
  show ?thesis
  proof (cases "?n \<in> {34, 92, 10, 13, 9, 12, 8}")
    case True
    then show ?thesis
      by (elim insertE) (simp_all add: escape_char_def of_char_lit cps_def json_text_escape unescape_def)
  next
    case False
    show ?thesis
    proof (cases "32 \<le> ?n \<and> ?n \<le> 126")
      case True
      with False show ?thesis
        by (simp add: escape_char_def of_char_lit cps_def json_text_plain)
    next
      case no: False
      have "escape_char c = [CHR 0x5C, CHR ''u'', CHR ''0'', CHR ''0'', hex_char (?n div 16), hex_char (?n mod 16)]"
        unfolding escape_char_def using False no by (simp add: of_char_lit)
      then show ?thesis using json_text_hex [OF div(1,2), of s] div(3) by (simp add: cps_def)
    qed
  qed
qed

lemma json_text_string: "json_text (cps (concat (map escape_char s)) @ 34 # r) = Some (cps s, r)"
proof (induction s)
  case Nil
  have "json_text (34 # r) = Some ([], r)" by (subst json_text.simps) simp
  then show ?case by (simp add: cps_def)
next
  case (Cons c s)
  then show ?case using json_text_char [of c "cps (concat (map escape_char s)) @ 34 # r"] by (simp add: cps_def)
qed

subsection \<open>Numbers\<close>

lemma cps_digits: "list_all is_digit s \<Longrightarrow> takeWhile digit_cp (cps s @ 125 # r) = cps s"
  by (induction s) (auto simp: cps_def is_digit_def digit_cp_def)

lemma digits_value_dec: "digits_value (cps s) = undec s"
proof -
  have "foldl (\<lambda>acc d. acc * 10 + (d - 48)) a (map of_char s) = foldl (\<lambda>acc c. acc * 10 + digit_val c) a s" for a :: nat
    by (induction s arbitrary: a) (simp_all add: digit_val_def)
  then show ?thesis by (simp add: digits_value_def undec_def cps_def)
qed

lemma dec_leading_zero: "dec n = CHR ''0'' # s \<Longrightarrow> s = []"
proof (induction n arbitrary: s rule: dec.induct)
  case (1 n)
  show ?case
  proof (cases "n < 10")
    case True
    with 1(2) show ?thesis by (subst (asm) dec.simps) simp
  next
    case False
    then have rec: "dec n = dec (n div 10) @ [digit_char (n mod 10)]" by (subst dec.simps) simp
    with 1(2) obtain t where t: "dec (n div 10) = CHR ''0'' # t" by (cases "dec (n div 10)") auto
    with "1.IH" [OF False] have "dec (n div 10) = ''0''" by simp
    then have "n div 10 = undec ''0''" by (metis undec_dec)
    with False show ?thesis by (simp add: undec_def digit_val_def)
  qed
qed

lemma json_number_dec:
  assumes "length (dec n) \<le> 4300"
  shows "json_number (cps (dec n) @ 125 # r) = Some (JInt (int n), 125 # r)"
proof -
  obtain c t where ct: "dec n = c # t" by (cases "dec n") auto
  with dec_digits [of n] have c: "is_digit c" "list_all is_digit t" by auto
  let ?s = "cps (dec n) @ 125 # r"
  have hd: "hd ?s = of_char c" "?s \<noteq> []" "tl ?s = cps t @ 125 # r" by (simp_all add: ct cps_def)
  have ds: "(if ?s \<noteq> [] \<and> hd ?s = 48 then [48] else takeWhile digit_cp ?s) = cps (dec n)"
  proof (cases "of_char c = (48 :: nat)")
    case True
    then have "c = CHR ''0''" using of_char_eq_iff [of c "CHR ''0''", where 'a = nat] by simp
    with ct dec_leading_zero have "dec n = ''0''" by blast
    then show ?thesis by (simp add: cps_def)
  next
    case False
    with hd show ?thesis using cps_digits [OF dec_digits] by simp
  qed
  have neg: "\<not> (?s \<noteq> [] \<and> hd ?s = 45)" using hd c by (auto simp: is_digit_def)
  have rest: "drop (length (cps (dec n))) ?s = 125 # r" by simp
  have stop: "json_fraction (125 # r) = None" "json_exponent (125 # r) = None"
    by (simp_all add: json_fraction_def json_exponent_def)
  have "json_number ?s = (if cps (dec n) = [] then None
      else if length (125 # r) < length (125 # r) then Some (JFloat (take (length ?s - length (125 # r)) ?s), 125 # r)
      else if length (cps (dec n)) > 4300 then None
      else Some (JInt (1 * int (digits_value (cps (dec n)))), 125 # r))"
    unfolding json_number_def Let_def if_not_P [OF neg] ds rest stop option.case by (simp only: neg if_False)
  then show ?thesis using assms by (simp add: digits_value_dec) (simp add: cps_def)
qed

lemma json_word_dec:
  assumes "length (dec n) \<le> 4300"
  shows "json_word (cps (dec n) @ 125 # r) = Some (JInt (int n), 125 # r)"
proof -
  obtain c t where ct: "dec n = c # t" by (cases "dec n") auto
  with dec_digits [of n] have c: "is_digit c" by auto
  let ?s = "cps (dec n) @ 125 # r"
  have no: "(take (length w) ?s = cps w) = False" if "w \<noteq> []" "\<not> is_digit (hd w)" for w
    using that c by (cases w) (auto simp: ct cps_def is_digit_def)
  have "(take (length ''null'') ?s = cps ''null'') = False" "(take (length ''true'') ?s = cps ''true'') = False"
    "(take (length ''false'') ?s = cps ''false'') = False" "(take (length ''NaN'') ?s = cps ''NaN'') = False"
    "(take (length ''Infinity'') ?s = cps ''Infinity'') = False" "(take (length ''-Infinity'') ?s = cps ''-Infinity'') = False"
    by (rule no; simp add: is_digit_def)+
  then show ?thesis
    unfolding json_word_def Let_def by (simp only: if_False json_number_dec [OF assms])
qed

lemma json_value_dec:
  assumes "length (dec n) \<le> 4300"
  shows "json_value (Suc k) (cps (dec n) @ 125 # r) = Some (JInt (int n), 125 # r)"
proof -
  obtain c t where ct: "dec n = c # t" by (cases "dec n") auto
  with dec_digits [of n] have c: "48 \<le> (of_char c :: nat)" "of_char c \<le> (57 :: nat)" by (auto simp: is_digit_def)
  then show ?thesis using json_word_dec [OF assms, of r] by (simp add: ct cps_def)
qed

subsection \<open>The payload\<close>

lemma cps_append [simp]: "cps (s @ t) = cps s @ cps t" by (simp add: cps_def)
lemma cps_Nil [simp]: "cps [] = []" by (simp add: cps_def)
lemma cps_Cons [simp]: "cps (c # t) = of_char c # cps t" by (simp add: cps_def)

lemma cps_payload:
  "cps (cursor_payload g (int n)) =
     123 # 34 # 103 # 34 # 58 # 34 # cps (concat (map escape_char g)) @ 34 # 44 # 34 # 115 # 34 # 58 # cps (dec n) @ [125]"
  by (simp add: cursor_payload_def json_string_def py_str_int_def escape_char_def)

lemma json_loads_payload:
  assumes "length (dec n) \<le> 4300"
  shows "json_loads (cps (cursor_payload g (int n))) =
    Some (JObject [([103], JText (cps g)), ([115], JInt (int n))])"
proof -
  let ?p = "cps (cursor_payload g (int n))"
  have dig: "skip_ws (cps (dec n) @ [125]) = cps (dec n) @ [125]"
    using dec_digits [of n] by (cases "dec n") (auto simp: skip_ws_def is_digit_def)
  have one: "json_text (a # 34 # r) = Some ([a], r)" if "32 \<le> a" "a \<noteq> 34" "a \<noteq> 92" for a r
    using that json_text_string [of "[]" r] by (simp add: json_text_plain)
  obtain k where k: "2 * length ?p + 2 = Suc (Suc (Suc (Suc k)))"
    unfolding cps_payload by simp
  let ?tail = "34 # 115 # 34 # 58 # cps (dec n) @ [125]" and ?text = "cps (concat (map escape_char g))"
  have ws: "skip_ws (a # r) = a # r" if "a \<notin> {32, 9, 10, 13}" for a r using that by (simp add: skip_ws_def)
  have m2: "json_members (Suc (Suc k)) ?tail = Some ([([115], JInt (int n))], [])"
    by (subst json_members.simps)
      (simp add: one dig json_value_dec [OF assms, of k "[]"] ws del: json_members.simps json_value.simps)
  have v1: "json_value (Suc (Suc k)) (34 # ?text @ 34 # r) = Some (JText (cps g), r)" for r
    by (simp add: json_text_string)
  have m1: "json_members (Suc (Suc (Suc k))) (34 # 103 # 34 # 58 # 34 # ?text @ 34 # 44 # ?tail)
      = Some ([([103], JText (cps g)), ([115], JInt (int n))], [])"
    by (subst json_members.simps)
      (simp add: one v1 m2 ws del: json_members.simps json_value.simps)
  have "json_value (Suc (Suc (Suc (Suc k)))) ?p = Some (JObject [([103], JText (cps g)), ([115], JInt (int n))], [])"
    unfolding cps_payload by (subst json_value.simps) (simp add: m1 ws del: json_members.simps json_value.simps)
  moreover have "skip_ws ?p = ?p" "?p \<noteq> []" "hd ?p \<noteq> 65279" unfolding cps_payload by (simp_all add: skip_ws_def)
  ultimately show ?thesis using k by (simp add: json_loads_def skip_ws_def)
qed

lemma payload_ascii: "b \<in> set (cps (cursor_payload g (int n))) \<Longrightarrow> b < 128"
proof -
  have hex: "of_char (hex_char d) < (128 :: nat)" if "d < 16" for d
    using hex_val_char [OF that] by (auto simp: hex_val_def digit_cp_def split: if_splits)
  have esc: "x \<in> set (cps (escape_char c)) \<Longrightarrow> x < 128" for x c
    using hex [of "of_char c div 16"] hex [of "of_char c mod 16"] parts_small(2) [of "of_char c :: nat"]
    by (auto simp: escape_char_def split: if_splits)
  have "x < 128" if "x \<in> set (cps (concat (map escape_char g)))" for x
    using that esc by (induction g) auto
  moreover have "x < 128" if "x \<in> set (cps (dec n))" for x
    using that dec_digits [of n] by (auto simp: cps_def list_all_iff is_digit_def)
  ultimately show "b \<in> set (cps (cursor_payload g (int n))) \<Longrightarrow> b < 128"
    unfolding cps_payload by auto
qed

lemma decode_encode:
  assumes "length (dec n) \<le> 4300"
  shows "decode_cursor (encode_cursor g (int n)) = Inr (cps g, int n)"
proof -
  let ?p = "cps (cursor_payload g (int n))"
  have small: "\<forall>b \<in> set ?p. b < 128" using payload_ascii by blast
  then have byte: "\<forall>b \<in> set ?p. b < 256" by fastforce
  have "b64_decode (encode_cursor g (int n) @ replicate ((4 - length (encode_cursor g (int n)) mod 4) mod 4) (CHR ''='')) = Some ?p"
    unfolding encode_cursor_def rstrip_b64 [OF byte] by (rule b64_round [OF byte])
  then show ?thesis
    using utf8_ascii [OF small] json_loads_payload [OF assms, of g]
    by (simp add: decode_cursor_def Let_def cursor_fields_def json_item_def)
qed

text \<open>Decoding an encoded cursor gives back the generation, character by character, and the sequence
  number, for every generation text and every number within Python's limit on integer text.\<close>

theorem cursor_roundtrip:
  assumes "length (dec n) \<le> 4300"
  shows "decode_cursor (encode_cursor g (int n)) = Inr (cps g, int n)"
  using assms by (rule decode_encode)

theorem cursor_roundtrip_witness:
  "decode_cursor (encode_cursor ''a1-f'' (int 42)) = Inr ([97, 49, 45, 102], 42)"
proof -
  have "dec 42 = ''42''" by code_simp
  then show ?thesis using cursor_roundtrip [of 42 "''a1-f''"] by simp
qed

end
