(* ===== verification/Provider_Auth.thy ===== *)
theory Provider_Auth
  imports Models Cursors
begin

text \<open>
  Pairing and tokens of the File Provider (\<open>file_provider/auth.py\<close>): the signing key, pairing codes
  that are exchanged once, refresh tokens that rotate, access tokens and revocation. \<open>PyJWT\<close> is a
  parameter: \<open>jwt_encode\<close> signs claims, \<open>jwt_decode\<close> returns the claims of a token that is signed with
  the key, has the audience, all required claims and has not expired at the given time. Only digests
  of codes and refresh tokens are stored.
\<close>

record claims =
  jc_sub :: string
  jc_aud :: string
  jc_iat :: int
  jc_exp :: int
  jc_scope :: string
  jc_type :: string

record auth_config =
  jwt_encode :: "claims \<Rightarrow> nat list \<Rightarrow> string"
  jwt_decode :: "string \<Rightarrow> nat list \<Rightarrow> string \<Rightarrow> int \<Rightarrow> claims option"
  au_sha :: "string \<Rightarrow> string"

record issued_tokens =
  it_access :: string
  it_refresh :: string
  it_expires :: nat
  it_device :: string

section \<open>The signing key\<close>

text \<open>The code points \<open>str.strip\<close> removes.\<close>

definition space_cp :: "nat \<Rightarrow> bool" where
  "space_cp n \<longleftrightarrow> 9 \<le> n \<and> n \<le> 13 \<or> 28 \<le> n \<and> n \<le> 32 \<or> 8192 \<le> n \<and> n \<le> 8202
     \<or> n \<in> {133, 160, 5760, 8232, 8233, 8239, 8287, 12288}"

definition strip_cps :: "nat list \<Rightarrow> nat list" where
  "strip_cps s = rev (dropWhile space_cp (rev (dropWhile space_cp s)))"

text \<open>\<open>read_text\<close> decodes the bytes and turns every line ending into one line feed.\<close>

fun newlines :: "nat list \<Rightarrow> nat list" where
  "newlines [] = []"
| "newlines [c] = [if c = 13 then 10 else c]"
| "newlines (c # d # s) = (if c = 13 then 10 # (if d = 10 then newlines s else newlines (d # s))
     else c # newlines (d # s))"

definition text_cps :: "bytes \<Rightarrow> exn + nat list" where
  "text_cps b = (case utf8_decode (map of_char b) of
     None \<Rightarrow> Inl (ValueError ''invalid utf-8'') | Some s \<Rightarrow> Inr (newlines s))"

text \<open>\<open>env\<close> is the value of \<open>MNEMA_SECRET_KEY\<close>, empty when it is unset.\<close>

definition secret_key :: "nat list \<Rightarrow> path \<Rightarrow> fsys \<Rightarrow> exn + nat list" where
  "secret_key env p fs =
     (let value = (if is_file fs p then
          (case fst (read_bytes p fs) of Inl e \<Rightarrow> Inl e
           | Inr b \<Rightarrow> (case text_cps b of Inl e \<Rightarrow> Inl e | Inr s \<Rightarrow> Inr (strip_cps s)))
        else Inr env)
      in case value of Inl e \<Rightarrow> Inl e
      | Inr v \<Rightarrow> if length v < 32 then Inl (RuntimeError ''File Provider token signing key is unavailable'') else Inr v)"

section \<open>Codes and tokens\<close>

text \<open>Writing rows that break a unique column raises.\<close>

definition write_codes :: "(pairing_code list \<Rightarrow> pairing_code list) \<Rightarrow> (world, unit) py" where
  "write_codes f = bind_py (query (\<lambda>d. let t = f (pairing_codes d) in distinct (map pc_id t) \<and> distinct (map code_hash t)))
     (\<lambda>ok. seq (require ok IntegrityError) (on_db (pairing_codes_update f)))"

definition write_devices :: "(device list \<Rightarrow> device list) \<Rightarrow> (world, unit) py" where
  "write_devices f = bind_py (query (\<lambda>d. let t = f (devices d) in distinct (map dv_id t) \<and> distinct (map refresh_token_hash t)))
     (\<lambda>ok. seq (require ok IntegrityError) (on_db (devices_update f)))"

definition create_pairing_code :: "auth_config \<Rightarrow> (world, string) py" where
  "create_pairing_code cfg =
     bind_py fresh_token (\<lambda>code. bind_py fresh_token (\<lambda>i. bind_py utcnow (\<lambda>now.
     seq (write_codes (\<lambda>t. t @ [\<lparr>pc_id = i, code_hash = au_sha cfg code,
            pc_expires_at = dt_add now (minutes 10), consumed_at = None\<rparr>]))
     (ret code))))"

definition access_claims :: "string \<Rightarrow> int \<Rightarrow> claims" where
  "access_claims i now = \<lparr>jc_sub = i, jc_aud = ''mnema-file-provider'', jc_iat = now, jc_exp = now + minutes 15,
     jc_scope = ''files:read files:upload'', jc_type = ''access''\<rparr>"

definition access_token :: "auth_config \<Rightarrow> nat list \<Rightarrow> string \<Rightarrow> (world, string) py" where
  "access_token cfg key i = bind_py utcnow (\<lambda>now. ret (jwt_encode cfg (access_claims i (instant now)) key))"

definition code_usable :: "datetime \<Rightarrow> pairing_code option \<Rightarrow> bool" where
  "code_usable now p = (case p of None \<Rightarrow> False
     | Some c \<Rightarrow> consumed_at c = None \<and> \<not> instant (aware (pc_expires_at c)) \<le> instant now)"

definition exchange_pairing_code ::
  "auth_config \<Rightarrow> string \<Rightarrow> string \<Rightarrow> nat list \<Rightarrow> (world, issued_tokens) py" where
  "exchange_pairing_code cfg code device_name key =
     bind_py utcnow (\<lambda>now.
     bind_py (query (\<lambda>d. tbl_get code_hash (au_sha cfg code) (pairing_codes d))) (\<lambda>pairing.
     seq (require (code_usable now pairing) (PermissionError ''pairing code is invalid or expired'')) (
     bind_py fresh_token (\<lambda>refresh. bind_py fresh_token (\<lambda>i.
     (let name = take 100 (strip device_name);
          dev = \<lparr>dv_id = i, dv_name = (if name = [] then ''iPhone'' else name), refresh_token_hash = au_sha cfg refresh,
            refresh_expires_at = dt_add now (days 90), last_used_at = None, revoked_at = None\<rparr>
      in seq (on_db (pairing_codes_update (tbl_upd pc_id (pc_id (the pairing)) (\<lambda>c. c\<lparr>consumed_at := Some now\<rparr>)))) (
         seq (write_devices (\<lambda>t. t @ [dev])) (
         bind_py (access_token cfg key i) (\<lambda>acc.
         ret \<lparr>it_access = acc, it_refresh = refresh, it_expires = 900, it_device = i\<rparr>)))))))))"

definition refresh_usable :: "datetime \<Rightarrow> device option \<Rightarrow> bool" where
  "refresh_usable now p = (case p of None \<Rightarrow> False
     | Some v \<Rightarrow> revoked_at v = None \<and> \<not> instant (aware (refresh_expires_at v)) \<le> instant now)"

definition rotate_refresh_token :: "auth_config \<Rightarrow> string \<Rightarrow> nat list \<Rightarrow> (world, issued_tokens) py" where
  "rotate_refresh_token cfg refresh key =
     bind_py utcnow (\<lambda>now.
     bind_py (query (\<lambda>d. tbl_get refresh_token_hash (au_sha cfg refresh) (devices d))) (\<lambda>dev.
     seq (require (refresh_usable now dev) (PermissionError ''refresh token is invalid or expired'')) (
     bind_py fresh_token (\<lambda>replacement.
     (let i = dv_id (the dev) in
      seq (write_devices (tbl_upd dv_id i (\<lambda>v. v\<lparr>refresh_token_hash := au_sha cfg replacement,
             refresh_expires_at := dt_add now (days 90), last_used_at := Some now\<rparr>))) (
      bind_py (access_token cfg key i) (\<lambda>acc.
      ret \<lparr>it_access = acc, it_refresh = replacement, it_expires = 900, it_device = i\<rparr>)))))))"

definition verify_access_token :: "auth_config \<Rightarrow> string \<Rightarrow> nat list \<Rightarrow> (world, string) py" where
  "verify_access_token cfg token key =
     bind_py utcnow (\<lambda>now.
     case jwt_decode cfg token key ''mnema-file-provider'' (instant now) of
       None \<Rightarrow> raise_py (PermissionError ''access token is invalid'')
     | Some c \<Rightarrow>
       seq (require (jc_type c = ''access'' \<and> jc_scope c = ''files:read files:upload'')
              (PermissionError ''access token scope is invalid'')) (
       bind_py (query (\<lambda>d. tbl_get dv_id (jc_sub c) (devices d))) (\<lambda>dev.
       seq (require (case dev of None \<Rightarrow> False | Some v \<Rightarrow> revoked_at v = None) (PermissionError ''device is revoked'')) (
       bind_py utcnow (\<lambda>used.
       seq (on_db (devices_update (tbl_upd dv_id (jc_sub c) (\<lambda>v. v\<lparr>last_used_at := Some used\<rparr>))))
       (ret (jc_sub c)))))))"

definition revoke_device :: "string \<Rightarrow> (world, bool) py" where
  "revoke_device i =
     bind_py (query (\<lambda>d. tbl_get dv_id i (devices d))) (\<lambda>dev.
     case dev of None \<Rightarrow> ret False
     | Some _ \<Rightarrow> bind_py utcnow (\<lambda>now.
         seq (on_db (devices_update (tbl_upd dv_id i (\<lambda>v. v\<lparr>revoked_at := Some now\<rparr>)))) (ret True)))"

section \<open>What one operation does\<close>

lemma write_codes_run: "write_codes f w = (let t = f (pairing_codes (live w)) in
    if distinct (map pc_id t) \<and> distinct (map code_hash t) then (Inr (), w\<lparr>live := pairing_codes_update f (live w)\<rparr>)
    else (Inl IntegrityError, w))"
  by (simp add: write_codes_def query_def on_db_def bind_py_def seq_def Let_def require_def)

lemma write_devices_run: "write_devices f w = (let t = f (devices (live w)) in
    if distinct (map dv_id t) \<and> distinct (map refresh_token_hash t) then (Inr (), w\<lparr>live := devices_update f (live w)\<rparr>)
    else (Inl IntegrityError, w))"
  by (simp add: write_devices_def query_def on_db_def bind_py_def seq_def Let_def require_def)

lemma exchange_Inr:
  assumes "exchange_pairing_code cfg code nm key w = (Inr t, w')"
  obtains p v where "tbl_get code_hash (au_sha cfg code) (pairing_codes (live w)) = Some p"
    "code_usable (Aware (clock w (ticks w))) (Some p)"
    "it_access t = jwt_encode cfg (access_claims (rand w (Suc (draws w))) (clock w (Suc (ticks w)))) key"
    "it_refresh t = rand w (draws w)" "it_device t = rand w (Suc (draws w))" "it_expires t = 900"
    "dv_id v = rand w (Suc (draws w))" "refresh_token_hash v = au_sha cfg (rand w (draws w))" "revoked_at v = None"
    "refresh_expires_at v = Aware (clock w (ticks w) + days 90)"
    "pairing_codes (live w') = tbl_upd pc_id (pc_id p) (\<lambda>c. c\<lparr>consumed_at := Some (Aware (clock w (ticks w)))\<rparr>)
       (pairing_codes (live w))"
    "devices (live w') = devices (live w) @ [v]" "distinct (map dv_id (devices (live w')))"
    "distinct (map refresh_token_hash (devices (live w')))" "draws w' = draws w + 2" "rand w' = rand w" "clock w' = clock w"
    "ticks w' = ticks w + 2"
proof -
  let ?now = "Aware (clock w (ticks w))"
  obtain q where q: "tbl_get code_hash (au_sha cfg code) (pairing_codes (live w)) = q" by blast
  with assms have use: "code_usable ?now q"
    by (auto simp: exchange_pairing_code_def utcnow_def query_def bind_py_def seq_def require_def split: if_splits)
  then obtain p where p: "q = Some p" by (auto simp: code_usable_def split: option.splits)
  from assms q use p show thesis
    by (intro that [of p "\<lparr>dv_id = rand w (Suc (draws w)),
        dv_name = (if take 100 (strip nm) = [] then ''iPhone'' else take 100 (strip nm)),
        refresh_token_hash = au_sha cfg (rand w (draws w)), refresh_expires_at = dt_add ?now (days 90),
        last_used_at = None, revoked_at = None\<rparr>"])
      (auto simp: exchange_pairing_code_def utcnow_def fresh_token_def query_def bind_py_def seq_def on_db_def
        write_devices_run access_token_def Let_def dt_add_def split: if_splits)
qed

lemma rotate_Inr:
  assumes "rotate_refresh_token cfg r key w = (Inr t, w')"
  obtains p where "tbl_get refresh_token_hash (au_sha cfg r) (devices (live w)) = Some p"
    "refresh_usable (Aware (clock w (ticks w))) (Some p)"
    "it_refresh t = rand w (draws w)" "it_device t = dv_id p" "pairing_codes (live w') = pairing_codes (live w)"
    "devices (live w') = tbl_upd dv_id (dv_id p) (\<lambda>v. v\<lparr>refresh_token_hash := au_sha cfg (rand w (draws w)),
       refresh_expires_at := Aware (clock w (ticks w) + days 90), last_used_at := Some (Aware (clock w (ticks w)))\<rparr>)
       (devices (live w))"
    "distinct (map refresh_token_hash (devices (live w')))"
    "draws w' = draws w + 1" "rand w' = rand w" "clock w' = clock w" "ticks w' = ticks w + 2"
proof -
  let ?now = "Aware (clock w (ticks w))"
  obtain q where q: "tbl_get refresh_token_hash (au_sha cfg r) (devices (live w)) = q" by blast
  with assms have use: "refresh_usable ?now q"
    by (auto simp: rotate_refresh_token_def utcnow_def query_def bind_py_def seq_def require_def split: if_splits)
  then obtain p where p: "q = Some p" by (auto simp: refresh_usable_def split: option.splits)
  from assms q use p show thesis
    by (intro that [of p])
      (auto simp: rotate_refresh_token_def utcnow_def fresh_token_def query_def bind_py_def seq_def
        write_devices_run access_token_def Let_def dt_add_def split: if_splits)
qed

lemma create_Inr:
  assumes "create_pairing_code cfg w = (Inr c, w')"
  obtains p where "c = rand w (draws w)" "devices (live w') = devices (live w)" "draws w' = draws w + 2"
    "rand w' = rand w" "pairing_codes (live w') = pairing_codes (live w) @ [p]" "code_hash p = au_sha cfg c"
    "distinct (map pc_id (pairing_codes (live w')))" "distinct (map code_hash (pairing_codes (live w')))"
  using assms
  by (auto simp: create_pairing_code_def fresh_token_def utcnow_def bind_py_def seq_def write_codes_run Let_def
      intro!: that split: if_splits)

lemma verify_Inr:
  assumes "verify_access_token cfg token key w = (Inr i, w')"
  obtains v u where "tbl_get dv_id i (devices (live w)) = Some v" "revoked_at v = None"
    "devices (live w') = tbl_upd dv_id i (\<lambda>v. v\<lparr>last_used_at := u\<rparr>) (devices (live w))"
    "pairing_codes (live w') = pairing_codes (live w)" "draws w' = draws w" "rand w' = rand w"
  using assms
  by (auto simp: verify_access_token_def utcnow_def query_def bind_py_def seq_def on_db_def require_Inr_iff
      require_def intro!: that split: if_splits option.splits)

lemma revoke_Inr:
  assumes "revoke_device i w = (Inr b, w')"
  obtains u where "devices (live w') = tbl_upd dv_id i (\<lambda>v. v\<lparr>revoked_at := Some u\<rparr>) (devices (live w))"
    "pairing_codes (live w') = pairing_codes (live w)" "draws w' = draws w" "rand w' = rand w"
    "b \<longleftrightarrow> i \<in> dv_id ` set (devices (live w))"
proof (cases "tbl_get dv_id i (devices (live w))")
  case None
  with assms have "w' = w" "\<not> b" by (auto simp: revoke_device_def query_def bind_py_def)
  with None show thesis
    by (intro that [of undefined]) (auto simp: tbl_get_None tbl_upd_def image_iff intro!: map_idI [symmetric])
next
  case (Some v)
  with assms show thesis
    by (auto simp: revoke_device_def query_def bind_py_def seq_def on_db_def utcnow_def intro!: that
        dest: tbl_get_Some)
qed

section \<open>Sequences of requests\<close>

text \<open>
  A state of a run is the world with what happened so far: the refresh tokens that were rotated away,
  the codes that were exchanged and the devices that were revoked. A request that fails rolls its
  session back and may still have drawn randomness and read the clock.
\<close>

record auth_trace =
  tr_world :: world
  tr_spent :: "string set"
  tr_used :: "string set"
  tr_revoked :: "string set"

inductive auth_step :: "auth_config \<Rightarrow> nat list \<Rightarrow> auth_trace \<Rightarrow> auth_trace \<Rightarrow> bool"
  for cfg :: auth_config and key :: "nat list" where
  created: "create_pairing_code cfg (tr_world s) = (Inr c, w) \<Longrightarrow> auth_step cfg key s (s\<lparr>tr_world := w\<rparr>)"
| exchanged: "exchange_pairing_code cfg c name key (tr_world s) = (Inr t, w)
    \<Longrightarrow> auth_step cfg key s (s\<lparr>tr_world := w, tr_used := insert c (tr_used s)\<rparr>)"
| rotated: "rotate_refresh_token cfg r key (tr_world s) = (Inr t, w)
    \<Longrightarrow> auth_step cfg key s (s\<lparr>tr_world := w, tr_spent := insert r (tr_spent s)\<rparr>)"
| verified: "verify_access_token cfg token key (tr_world s) = (Inr i, w)
    \<Longrightarrow> auth_step cfg key s (s\<lparr>tr_world := w\<rparr>)"
| revoked: "revoke_device i (tr_world s) = (Inr True, w)
    \<Longrightarrow> auth_step cfg key s (s\<lparr>tr_world := w, tr_revoked := insert i (tr_revoked s)\<rparr>)"
| refused: "auth_step cfg key s (s\<lparr>tr_world := (tr_world s)\<lparr>draws := draws (tr_world s) + n, ticks := ticks (tr_world s) + m\<rparr>\<rparr>)"

inductive auth_run :: "auth_config \<Rightarrow> nat list \<Rightarrow> auth_trace \<Rightarrow> bool"
  for cfg :: auth_config and key :: "nat list" where
  fresh: "devices (live (tr_world s)) = [] \<Longrightarrow> pairing_codes (live (tr_world s)) = [] \<Longrightarrow>
    tr_spent s = {} \<Longrightarrow> tr_used s = {} \<Longrightarrow> tr_revoked s = {} \<Longrightarrow> auth_run cfg key s"
| more: "auth_run cfg key s \<Longrightarrow> auth_step cfg key s t \<Longrightarrow> auth_run cfg key t"

inductive_cases auth_stepE: "auth_step cfg key s t"

text \<open>Digests of what was drawn so far.\<close>

definition drawn :: "auth_config \<Rightarrow> world \<Rightarrow> string set" where
  "drawn cfg w = (\<lambda>k. au_sha cfg (rand w k)) ` {..<draws w}"

definition auth_ok :: "auth_config \<Rightarrow> auth_trace \<Rightarrow> bool" where
  "auth_ok cfg s \<longleftrightarrow>
     (let w = tr_world s; vs = devices (live w); ps = pairing_codes (live w) in
      inj (\<lambda>k. au_sha cfg (rand w k)) \<and>
      distinct (map dv_id vs) \<and> distinct (map refresh_token_hash vs) \<and>
      distinct (map pc_id ps) \<and> distinct (map code_hash ps) \<and>
      refresh_token_hash ` set vs \<subseteq> drawn cfg w \<and> code_hash ` set ps \<subseteq> drawn cfg w \<and>
      au_sha cfg ` tr_spent s \<subseteq> drawn cfg w - refresh_token_hash ` set vs \<and>
      au_sha cfg ` tr_used s \<subseteq> drawn cfg w \<and>
      (\<forall>p \<in> set ps. code_hash p \<in> au_sha cfg ` tr_used s \<longrightarrow> consumed_at p \<noteq> None) \<and>
      tr_revoked s \<subseteq> dv_id ` {v \<in> set vs. revoked_at v \<noteq> None})"

lemma auth_okD:
  assumes "auth_ok cfg s"
  shows "inj (\<lambda>k. au_sha cfg (rand (tr_world s) k))"
    "distinct (map dv_id (devices (live (tr_world s))))"
    "distinct (map refresh_token_hash (devices (live (tr_world s))))"
    "distinct (map pc_id (pairing_codes (live (tr_world s))))"
    "distinct (map code_hash (pairing_codes (live (tr_world s))))"
    "refresh_token_hash ` set (devices (live (tr_world s))) \<subseteq> drawn cfg (tr_world s)"
    "code_hash ` set (pairing_codes (live (tr_world s))) \<subseteq> drawn cfg (tr_world s)"
    "au_sha cfg ` tr_spent s \<subseteq> drawn cfg (tr_world s) - refresh_token_hash ` set (devices (live (tr_world s)))"
    "au_sha cfg ` tr_used s \<subseteq> drawn cfg (tr_world s)"
    "\<And>p. p \<in> set (pairing_codes (live (tr_world s))) \<Longrightarrow> code_hash p \<in> au_sha cfg ` tr_used s \<Longrightarrow> consumed_at p \<noteq> None"
    "tr_revoked s \<subseteq> dv_id ` {v \<in> set (devices (live (tr_world s))). revoked_at v \<noteq> None}"
  using assms by (simp_all add: auth_ok_def Let_def)

lemma key_unique: "distinct (map f t) \<Longrightarrow> x \<in> set t \<Longrightarrow> y \<in> set t \<Longrightarrow> f x = f y \<Longrightarrow> x = y"
  by (auto simp: distinct_map dest: inj_onD)

lemma revoked_upd:
  assumes "\<And>v. dv_id (f v) = dv_id v" "\<And>v. revoked_at v \<noteq> None \<Longrightarrow> revoked_at (f v) \<noteq> None"
  shows "dv_id ` {v \<in> set t. revoked_at v \<noteq> None} \<subseteq> dv_id ` {v \<in> set (tbl_upd dv_id i f t). revoked_at v \<noteq> None}"
proof
  fix j assume "j \<in> dv_id ` {v \<in> set t. revoked_at v \<noteq> None}"
  then obtain v where v: "v \<in> set t" "revoked_at v \<noteq> None" "j = dv_id v" by auto
  let ?v = "if dv_id v = i then f v else v"
  have "?v \<in> {v \<in> set (tbl_upd dv_id i f t). revoked_at v \<noteq> None}" using v assms(2) by (simp add: tbl_upd_def)
  moreover have "j = dv_id ?v" using v assms(1) by simp
  ultimately show "j \<in> dv_id ` {v \<in> set (tbl_upd dv_id i f t). revoked_at v \<noteq> None}" by (rule rev_image_eqI)
qed

lemma distinct_upd:
  assumes "distinct (map i t)" "distinct (map h t)" "\<And>r. h (f r) \<notin> h ` set t"
  shows "distinct (map h (tbl_upd i k f t))"
  using assms
proof (induction t)
  case (Cons r t)
  then have "distinct (map h (tbl_upd i k f t))" by simp
  moreover have "i x \<noteq> k" if "i r = k" "x \<in> set t" for x     using that Cons(2) by (metis distinct.simps(2) image_eqI list.simps(9) set_map)
  moreover have "h r \<noteq> h (f x)" "h (f r) \<noteq> h x" "h r \<noteq> h x" if "x \<in> set t" for x
    using that Cons(3) Cons(4) [of x] Cons(4) [of r] by (auto simp: image_iff)
  ultimately have "h (if i r = k then f r else r) \<noteq> h (if i x = k then f x else x)" if "x \<in> set t" for x
    using that by (cases "i r = k"; cases "i x = k"; simp)
  then have "h (if i r = k then f r else r) \<notin> h ` set (tbl_upd i k f t)"
    unfolding tbl_upd_def set_map image_image image_iff by blast
  with \<open>distinct (map h (tbl_upd i k f t))\<close> show ?case
    by (simp only: tbl_upd_def list.simps(9) distinct.simps(2) set_map not_False_eq_True)
qed (simp add: tbl_upd_def)

lemma drawn_mono: "rand w' = rand w \<Longrightarrow> draws w \<le> draws w' \<Longrightarrow> drawn cfg w \<subseteq> drawn cfg w'"
  by (auto simp: drawn_def)

lemma drawn_new: "rand w' = rand w \<Longrightarrow> draws w < draws w' \<Longrightarrow> au_sha cfg (rand w (draws w)) \<in> drawn cfg w'"
  by (auto simp: drawn_def)

lemma not_drawn: "inj (\<lambda>k. au_sha cfg (rand w k)) \<Longrightarrow> au_sha cfg (rand w (draws w)) \<notin> drawn cfg w"
  by (auto simp: drawn_def dest: injD)

lemma created_ok: "create_pairing_code cfg (tr_world s) = (Inr c, w) \<Longrightarrow> auth_ok cfg s \<Longrightarrow> auth_ok cfg (s\<lparr>tr_world := w\<rparr>)"
proof (elim create_Inr)
  fix p
  let ?w = "tr_world s"
  assume ok: "auth_ok cfg s" and w: "c = rand ?w (draws ?w)" "devices (live w) = devices (live ?w)"
    "draws w = draws ?w + 2" "rand w = rand ?w" "pairing_codes (live w) = pairing_codes (live ?w) @ [p]"
    "code_hash p = au_sha cfg c" "distinct (map pc_id (pairing_codes (live w)))"
    "distinct (map code_hash (pairing_codes (live w)))"
  have m: "drawn cfg ?w \<subseteq> drawn cfg w" and n: "au_sha cfg c \<in> drawn cfg w"
    using w by (simp_all add: drawn_mono drawn_new)
  have "au_sha cfg c \<notin> drawn cfg ?w" using ok w by (auto simp: auth_ok_def Let_def intro!: not_drawn)
  then have "code_hash p \<notin> au_sha cfg ` tr_used s" using ok w by (auto simp: auth_ok_def Let_def)
  with ok w m n show ?thesis by (auto simp: auth_ok_def Let_def)
qed

lemma exchanged_ok:
  assumes "exchange_pairing_code cfg c name key (tr_world s) = (Inr t, w)" and ok: "auth_ok cfg s"
  shows "auth_ok cfg (s\<lparr>tr_world := w, tr_used := insert c (tr_used s)\<rparr>)"
  using assms(1)
proof (rule exchange_Inr)
  fix p v
  let ?w = "tr_world s" and ?f = "\<lambda>c. c\<lparr>consumed_at := Some (Aware (clock (tr_world s) (ticks (tr_world s))))\<rparr>"
  assume g: "tbl_get code_hash (au_sha cfg c) (pairing_codes (live ?w)) = Some p"
    and w: "refresh_token_hash v = au_sha cfg (rand ?w (draws ?w))" "revoked_at v = None"
    "pairing_codes (live w) = tbl_upd pc_id (pc_id p) ?f (pairing_codes (live ?w))"
    "devices (live w) = devices (live ?w) @ [v]" "distinct (map dv_id (devices (live w)))"
    "distinct (map refresh_token_hash (devices (live w)))" "draws w = draws ?w + 2" "rand w = rand ?w"
  note okD = auth_okD [OF ok]
  have m: "drawn cfg ?w \<subseteq> drawn cfg w" and n: "au_sha cfg (rand ?w (draws ?w)) \<in> drawn cfg w"
    using w by (simp_all add: drawn_mono drawn_new)
  have f: "au_sha cfg (rand ?w (draws ?w)) \<notin> drawn cfg ?w"
    using okD(1) by (rule not_drawn)
  have k: "map pc_id (pairing_codes (live w)) = map pc_id (pairing_codes (live ?w))"
    "map code_hash (pairing_codes (live w)) = map code_hash (pairing_codes (live ?w))"
    using w by (auto simp: tbl_upd_def)
  then have h: "code_hash ` set (pairing_codes (live w)) = code_hash ` set (pairing_codes (live ?w))"
    by (metis set_map)
  have p: "p \<in> set (pairing_codes (live ?w))" "code_hash p = au_sha cfg c" using tbl_get_Some [OF g] by auto
  have c: "au_sha cfg c \<in> drawn cfg ?w" using okD(6,7) p by (metis image_eqI subsetD)
  have u: "consumed_at q \<noteq> None" if q: "q \<in> set (pairing_codes (live w))"
    "code_hash q \<in> au_sha cfg ` insert c (tr_used s)" for q
  proof -
    from q w obtain r where r: "r \<in> set (pairing_codes (live ?w))" "q = (if pc_id r = pc_id p then ?f r else r)"
      by (auto simp: tbl_upd_def)
    show ?thesis
    proof (cases "pc_id r = pc_id p")
      case False
      have "code_hash r \<noteq> au_sha cfg c"
        using key_unique [OF okD(5) r(1) p(1)] p(2) False by metis
      with r False q have "code_hash r \<in> au_sha cfg ` tr_used s" by auto
      with okD(10) [OF r(1)] r(2) False show ?thesis by simp
    qed (use r in simp)
  qed
  have "au_sha cfg ` tr_spent s \<inter> refresh_token_hash ` set (devices (live w)) = {}"
    using okD(8) w f by auto
  then have "au_sha cfg ` tr_spent s \<subseteq> drawn cfg w - refresh_token_hash ` set (devices (live w))"
    using okD(8) m by blast
  moreover have "tr_revoked s \<subseteq> dv_id ` {v \<in> set (devices (live w)). revoked_at v \<noteq> None}"
    using okD(11) w by auto
  moreover have "refresh_token_hash ` set (devices (live w)) \<subseteq> drawn cfg w" using okD(6) w(1,4) m n by auto
  moreover have "code_hash ` set (pairing_codes (live w)) \<subseteq> drawn cfg w"
    "au_sha cfg ` insert c (tr_used s) \<subseteq> drawn cfg w" using okD(7,9) h c m by auto
  ultimately show ?thesis using w(5,6,8) k okD(1,4,5) u by (simp add: auth_ok_def Let_def)
qed

lemma rotated_ok:
  assumes "rotate_refresh_token cfg r key (tr_world s) = (Inr t, w)" and ok: "auth_ok cfg s"
  shows "auth_ok cfg (s\<lparr>tr_world := w, tr_spent := insert r (tr_spent s)\<rparr>)"
  using assms(1)
proof (rule rotate_Inr)
  fix p
  let ?w = "tr_world s" and ?now = "Aware (clock (tr_world s) (ticks (tr_world s)))"
  let ?h = "au_sha cfg (rand (tr_world s) (draws (tr_world s)))"
  let ?f = "\<lambda>v. v\<lparr>refresh_token_hash := ?h, refresh_expires_at := Aware (clock ?w (ticks ?w) + days 90),
    last_used_at := Some ?now\<rparr>"
  assume g: "tbl_get refresh_token_hash (au_sha cfg r) (devices (live ?w)) = Some p"
    and w: "pairing_codes (live w) = pairing_codes (live ?w)"
    "devices (live w) = tbl_upd dv_id (dv_id p) ?f (devices (live ?w))"
    "distinct (map refresh_token_hash (devices (live w)))" "draws w = draws ?w + 1" "rand w = rand ?w"
  note okD = auth_okD [OF ok]
  have m: "drawn cfg ?w \<subseteq> drawn cfg w" and n: "?h \<in> drawn cfg w"
    using w by (simp_all add: drawn_mono drawn_new)
  have f: "?h \<notin> drawn cfg ?w" using okD(1) by (rule not_drawn)
  have p: "p \<in> set (devices (live ?w))" "refresh_token_hash p = au_sha cfg r" using tbl_get_Some [OF g] by auto
  have c: "au_sha cfg r \<in> drawn cfg ?w" using okD(6,7) p by (metis image_eqI subsetD)
  have k: "map dv_id (devices (live w)) = map dv_id (devices (live ?w))" using w by (auto simp: tbl_upd_def)
  have h: "refresh_token_hash v = ?h \<or> refresh_token_hash v \<in> refresh_token_hash ` set (devices (live ?w))
      \<and> refresh_token_hash v \<noteq> au_sha cfg r" if "v \<in> set (devices (live w))" for v
  proof -
    from that w obtain q where q: "q \<in> set (devices (live ?w))" "v = (if dv_id q = dv_id p then ?f q else q)"
      by (auto simp: tbl_upd_def)
    show ?thesis using q key_unique [OF okD(3) q(1) p(1)] p(2) by (cases "dv_id q = dv_id p") auto
  qed
  then have h': "refresh_token_hash ` set (devices (live w)) \<subseteq>
      insert ?h (refresh_token_hash ` set (devices (live ?w)) - {au_sha cfg r})" by auto
  have r: "dv_id ` {v \<in> set (devices (live ?w)). revoked_at v \<noteq> None} \<subseteq> dv_id ` {v \<in> set (devices (live w)). revoked_at v \<noteq> None}"
    unfolding w(2) by (rule revoked_upd) simp_all
  have sub: "refresh_token_hash ` set (devices (live w)) \<subseteq> drawn cfg w" 
    by (rule subset_trans [OF h']) (use n subset_trans [OF okD(6) m] in simp_all, simp add: subset_iff)
  have spent: "au_sha cfg ` insert r (tr_spent s) \<subseteq> drawn cfg w - refresh_token_hash ` set (devices (live w))"
  proof -
    have "au_sha cfg ` insert r (tr_spent s) \<subseteq> drawn cfg ?w" using c okD(8) by auto
    moreover have "x \<notin> refresh_token_hash ` set (devices (live w))" if "x \<in> au_sha cfg ` insert r (tr_spent s)" for x
    proof
      assume "x \<in> refresh_token_hash ` set (devices (live w))"
      with h' consider "x = ?h" | "x \<in> refresh_token_hash ` set (devices (live ?w))" "x \<noteq> au_sha cfg r" by blast
      then show False using that f c okD(8) by cases auto
    qed
    ultimately show ?thesis using m by blast
  qed
  have k': "distinct (map dv_id (devices (live w)))" using k okD(2) by simp
  show ?thesis
    using okD(1,4,5,10) w(1,3,5) k' sub spent subset_trans [OF okD(7) m] subset_trans [OF okD(9) m]
      subset_trans [OF okD(11) r] by (simp add: auth_ok_def Let_def)
qed

lemma same_hashes: "(\<And>v. refresh_token_hash (f v) = refresh_token_hash v) \<Longrightarrow> (\<And>v. dv_id (f v) = dv_id v) \<Longrightarrow>
    map refresh_token_hash (tbl_upd dv_id i f t) = map refresh_token_hash t \<and>
    map dv_id (tbl_upd dv_id i f t) = map dv_id t"
  by (simp add: tbl_upd_def)

lemma touched_ok:
  assumes ok: "auth_ok cfg s" and w: "devices (live w) = tbl_upd dv_id i f (devices (live (tr_world s)))"
    "pairing_codes (live w) = pairing_codes (live (tr_world s))" "draws w = draws (tr_world s)" "rand w = rand (tr_world s)"
    and f: "\<And>v. refresh_token_hash (f v) = refresh_token_hash v" "\<And>v. dv_id (f v) = dv_id v"
      "\<And>v. revoked_at v \<noteq> None \<Longrightarrow> revoked_at (f v) \<noteq> None"
  shows "auth_ok cfg (s\<lparr>tr_world := w\<rparr>)"
proof -
  note okD = auth_okD [OF ok]
  have h: "map refresh_token_hash (devices (live w)) = map refresh_token_hash (devices (live (tr_world s)))"
    "map dv_id (devices (live w)) = map dv_id (devices (live (tr_world s)))"
    using w(1) same_hashes [where f = f and i = i, OF f(1,2)] by simp_all
  then have h': "refresh_token_hash ` set (devices (live w)) = refresh_token_hash ` set (devices (live (tr_world s)))"
    by (metis set_map)
  have d: "drawn cfg w = drawn cfg (tr_world s)" using w by (simp add: drawn_def)
  have "tr_revoked s \<subseteq> dv_id ` {v \<in> set (devices (live w)). revoked_at v \<noteq> None}"
    unfolding w(1) by (rule subset_trans [OF okD(11) revoked_upd]) (use f in auto)
  with okD h h' d w(2,4) show ?thesis by (simp add: auth_ok_def Let_def)
qed

lemma revoked_ok:
  assumes "revoke_device i (tr_world s) = (Inr True, w)" and ok: "auth_ok cfg s"
  shows "auth_ok cfg (s\<lparr>tr_world := w, tr_revoked := insert i (tr_revoked s)\<rparr>)"
  using assms(1)
proof (rule revoke_Inr)
  fix u
  assume w: "devices (live w) = tbl_upd dv_id i (\<lambda>v. v\<lparr>revoked_at := Some u\<rparr>) (devices (live (tr_world s)))"
    "pairing_codes (live w) = pairing_codes (live (tr_world s))" "draws w = draws (tr_world s)" "rand w = rand (tr_world s)"
    "True \<longleftrightarrow> i \<in> dv_id ` set (devices (live (tr_world s)))"
  have "auth_ok cfg (s\<lparr>tr_world := w\<rparr>)" by (rule touched_ok [OF ok w(1-4)]) simp_all
  moreover have "i \<in> dv_id ` {v \<in> set (devices (live w)). revoked_at v \<noteq> None}"
  proof -
    from w(5) obtain v where "v \<in> set (devices (live (tr_world s)))" "dv_id v = i" by auto
    then have "v\<lparr>revoked_at := Some u\<rparr> \<in> {v \<in> set (devices (live w)). revoked_at v \<noteq> None}"
      using w(1) by (force simp: tbl_upd_def)
    then show ?thesis by (rule rev_image_eqI) (use \<open>dv_id v = i\<close> in simp)
  qed
  ultimately show ?thesis by (simp add: auth_ok_def Let_def)
qed

lemma verified_ok:
  assumes "verify_access_token cfg token key (tr_world s) = (Inr i, w)" "auth_ok cfg s"
  shows "auth_ok cfg (s\<lparr>tr_world := w\<rparr>)"
  using assms(1)
proof (rule verify_Inr)
  fix u
  assume w: "devices (live w) = tbl_upd dv_id i (\<lambda>v. v\<lparr>last_used_at := u\<rparr>) (devices (live (tr_world s)))"
    "pairing_codes (live w) = pairing_codes (live (tr_world s))" "draws w = draws (tr_world s)" "rand w = rand (tr_world s)"
  show ?thesis by (rule touched_ok [OF assms(2) w]) simp_all
qed

lemma refused_ok:
  assumes "auth_ok cfg s"
  shows "auth_ok cfg (s\<lparr>tr_world := (tr_world s)\<lparr>draws := draws (tr_world s) + n, ticks := ticks (tr_world s) + m\<rparr>\<rparr>)"
proof -
  note okD = auth_okD [OF assms]
  have d: "drawn cfg (tr_world s) \<subseteq> drawn cfg ((tr_world s)\<lparr>draws := draws (tr_world s) + n, ticks := ticks (tr_world s) + m\<rparr>)"
    by (simp add: drawn_mono)
  have "au_sha cfg ` tr_spent s \<subseteq> drawn cfg ((tr_world s)\<lparr>draws := draws (tr_world s) + n, ticks := ticks (tr_world s) + m\<rparr>)
      - refresh_token_hash ` set (devices (live (tr_world s)))"
    using okD(8) d by blast
  with okD(1-5,10,11) subset_trans [OF okD(6) d] subset_trans [OF okD(7) d] subset_trans [OF okD(9) d]
  show ?thesis by (simp add: auth_ok_def Let_def)
qed

lemma step_ok:
  assumes "auth_step cfg key s t" "auth_ok cfg s"
  shows "auth_ok cfg t"
  using assms(1) by cases (auto intro: created_ok exchanged_ok rotated_ok verified_ok revoked_ok refused_ok assms(2))

lemma step_rand:
  assumes "auth_step cfg key s t"
  shows "rand (tr_world t) = rand (tr_world s)"
  using assms by cases (auto elim: create_Inr exchange_Inr rotate_Inr verify_Inr revoke_Inr)

lemma run_ok: "auth_run cfg key s \<Longrightarrow> inj (\<lambda>k. au_sha cfg (rand (tr_world s) k)) \<Longrightarrow> auth_ok cfg s"
proof (induction rule: auth_run.induct)
  case (more s t)
  with step_rand [OF more(2)] have "auth_ok cfg s" by simp
  with more(2) show ?case by (rule step_ok)
qed (simp add: auth_ok_def Let_def)

section \<open>Properties\<close>


text \<open>A device that is paired gets access. Where the token library returns the claims it signed until
  they expire, the access token of a fresh pairing is accepted for its device during its fifteen
  minutes, and the refresh token is exchanged for the same device during its ninety days, if the next
  random token is new.\<close>

theorem paired_device_has_access:
  assumes run: "exchange_pairing_code cfg code name key w = (Inr t, w')"
    and jwt: "\<And>now i. clock w (ticks w + 1) \<le> now \<Longrightarrow> now < clock w (ticks w + 1) + minutes 15 \<Longrightarrow>
      jwt_decode cfg (jwt_encode cfg (access_claims i (clock w (ticks w + 1))) key) key ''mnema-file-provider'' now
        = Some (access_claims i (clock w (ticks w + 1)))"
    and now: "clock w (ticks w + 1) \<le> clock w (ticks w + 2)"
    and new: "au_sha cfg (rand w (draws w + 2)) \<notin> refresh_token_hash ` set (devices (live w'))"
  shows "(clock w (ticks w + 2) < clock w (ticks w + 1) + minutes 15 \<longrightarrow>
      fst (verify_access_token cfg (it_access t) key w') = Inr (it_device t)) \<and>
    (clock w (ticks w + 2) < clock w (ticks w) + days 90 \<longrightarrow>
      (\<exists>t' w''. rotate_refresh_token cfg (it_refresh t) key w' = (Inr t', w'') \<and> it_device t' = it_device t))"
  using run
proof (rule exchange_Inr)
  fix v
  assume acc: "it_access t = jwt_encode cfg (access_claims (rand w (Suc (draws w))) (clock w (Suc (ticks w)))) key"
    and t: "it_refresh t = rand w (draws w)" "it_device t = rand w (Suc (draws w))"
    and v: "dv_id v = rand w (Suc (draws w))" "refresh_token_hash v = au_sha cfg (rand w (draws w))"
      "revoked_at v = None" "refresh_expires_at v = Aware (clock w (ticks w) + days 90)"
    and w: "devices (live w') = devices (live w) @ [v]" "distinct (map dv_id (devices (live w')))"
      "distinct (map refresh_token_hash (devices (live w')))" "draws w' = draws w + 2" "rand w' = rand w"
      "clock w' = clock w" "ticks w' = ticks w + 2"
  have g: "tbl_get dv_id (dv_id v) (devices (live w')) = Some v"
    "tbl_get refresh_token_hash (refresh_token_hash v) (devices (live w')) = Some v"
    using tbl_get_in [OF w(2)] tbl_get_in [OF w(3)] w(1) by auto
  let ?f = "\<lambda>r. r\<lparr>refresh_token_hash := au_sha cfg (rand w' (draws w')),
    refresh_expires_at := Aware (clock w' (ticks w') + days 90), last_used_at := Some (Aware (clock w' (ticks w')))\<rparr>"
  have "distinct (map refresh_token_hash (tbl_upd dv_id (dv_id v) ?f (devices (live w'))))"
  proof (rule distinct_upd [OF w(2,3)])
    show "refresh_token_hash (?f r) \<notin> refresh_token_hash ` set (devices (live w'))" for r
      using new w(4,5) by simp
  qed
  moreover have "map dv_id (tbl_upd dv_id (dv_id v) ?f (devices (live w'))) = map dv_id (devices (live w'))"
    by (rule keys_tbl_upd) simp
  ultimately have "\<exists>t' w''. rotate_refresh_token cfg (it_refresh t) key w' = (Inr t', w'') \<and> it_device t' = it_device t"
    if "clock w (ticks w + 2) < clock w (ticks w) + days 90"
    using that g(2) t v w(2,6,7)
    by (simp add: rotate_refresh_token_def utcnow_def query_def bind_py_def seq_def refresh_usable_def aware_def
        write_devices_run fresh_token_def access_token_def Let_def dt_add_def)
  moreover have "fst (verify_access_token cfg (it_access t) key w') = Inr (it_device t)"
    if "clock w (ticks w + 2) < clock w (ticks w + 1) + minutes 15"
    using that acc g(1) t v w(6,7) now
      jwt [of "clock w (ticks w + 2)" "rand w (Suc (draws w))"]
    by (simp add: access_claims_def verify_access_token_def utcnow_def query_def bind_py_def seq_def on_db_def)
  ultimately show ?thesis by simp
qed

section \<open>Witnesses\<close>

definition example_auth :: auth_config where
  "example_auth = \<lparr>jwt_encode = (\<lambda>c k. jc_sub c),
     jwt_decode = (\<lambda>s k a now. if now < minutes 15 then Some (access_claims s 0) else None), au_sha = (\<lambda>s. s)\<rparr>"

definition auth_world :: "pairing_code list \<Rightarrow> device list \<Rightarrow> nat \<Rightarrow> world" where
  "auth_world ps vs n = \<lparr>disk = [], live = empty_db\<lparr>pairing_codes := ps, devices := vs\<rparr>, durable = empty_db,
     clock = (\<lambda>n. 0), ticks = n, rand = (\<lambda>n. replicate n CHR ''a''), draws = n\<rparr>"

definition example_code :: pairing_code where
  "example_code = \<lparr>pc_id = ''a'', code_hash = '''', pc_expires_at = Aware (minutes 10), consumed_at = None\<rparr>"

lemma example_exchange:
  "\<exists>t w'. exchange_pairing_code example_auth '''' '' Ana '' [] (auth_world [example_code] [] 2) = (Inr t, w')
     \<and> it_device t = ''aaa'' \<and> it_refresh t = ''aa'' \<and> it_access t = ''aaa'' \<and> map refresh_token_hash (devices (live w')) = [''aa'']"
proof -
  let ?run = "exchange_pairing_code example_auth '''' '' Ana '' [] (auth_world [example_code] [] 2)"
  have "case ?run of (r, w') \<Rightarrow> (case r of Inl e \<Rightarrow> False | Inr t \<Rightarrow> it_device t = ''aaa'' \<and> it_refresh t = ''aa''
     \<and> it_access t = ''aaa'' \<and> map refresh_token_hash (devices (live w')) = [''aa''])"
    by code_simp
  then show ?thesis by (cases ?run) (auto split: sum.splits)
qed

theorem paired_device_has_access_witness:
  "\<exists>t w'. exchange_pairing_code example_auth '''' '' Ana '' [] (auth_world [example_code] [] 2) = (Inr t, w')
     \<and> fst (verify_access_token example_auth (it_access t) [] w') = Inr (it_device t)
     \<and> (\<exists>t' w''. rotate_refresh_token example_auth (it_refresh t) [] w' = (Inr t', w'') \<and> it_device t' = it_device t)"
proof -
  let ?w = "auth_world [example_code] [] 2"
  from example_exchange obtain t w' where run: "exchange_pairing_code example_auth '''' '' Ana '' [] ?w = (Inr t, w')"
    and h: "map refresh_token_hash (devices (live w')) = [''aa'']" by (elim exE conjE)
  have "refresh_token_hash ` set (devices (live w')) = {''aa''}" using h by (metis list.set(1,2) set_map)
  moreover have "au_sha example_auth (rand ?w (draws ?w + 2)) = ''aaaa''" by code_simp
  ultimately have new: "au_sha example_auth (rand ?w (draws ?w + 2)) \<notin> refresh_token_hash ` set (devices (live w'))" by simp
  have "jwt_decode example_auth (jwt_encode example_auth (access_claims i (clock ?w (ticks ?w + 1))) []) [] ''mnema-file-provider'' now
      = Some (access_claims i (clock ?w (ticks ?w + 1)))" if "now < clock ?w (ticks ?w + 1) + minutes 15" for now i
    using that by (simp add: example_auth_def auth_world_def access_claims_def)
  from paired_device_has_access [OF run this _ new] show ?thesis
    using run by (auto simp: auth_world_def minutes_def seconds_def days_def hours_def)
qed

definition auth_start :: auth_trace where
  "auth_start = \<lparr>tr_world = auth_world [] [] 0, tr_spent = {}, tr_used = {}, tr_revoked = {}\<rparr>"

lemma returned: "(case fst r of Inl e \<Rightarrow> False | Inr _ \<Rightarrow> True) \<Longrightarrow> \<exists>x. r = (Inr x, snd r)"
  by (cases r) (auto split: sum.splits)

lemma returned_val: "fst r = x \<Longrightarrow> r = (x, snd r)"
  by (cases r) simp

lemma four_requests:
  assumes run: "auth_run cfg key s" and c: "create_pairing_code cfg (tr_world s) = (Inr c, w1)"
    and e: "exchange_pairing_code cfg code name key w1 = (Inr t, w2)"
    and r: "rotate_refresh_token cfg token key w2 = (Inr t', w3)" and v: "revoke_device i w3 = (Inr True, w4)"
  shows "\<exists>s'. auth_run cfg key s' \<and> tr_used s' = insert code (tr_used s) \<and> tr_spent s' = insert token (tr_spent s)
    \<and> tr_revoked s' = insert i (tr_revoked s) \<and> rand (tr_world s') = rand (tr_world s)"
proof -
  let ?s1 = "s\<lparr>tr_world := w1\<rparr>"
  let ?s2 = "?s1\<lparr>tr_world := w2, tr_used := insert code (tr_used ?s1)\<rparr>"
  let ?s3 = "?s2\<lparr>tr_world := w3, tr_spent := insert token (tr_spent ?s2)\<rparr>"
  let ?s4 = "?s3\<lparr>tr_world := w4, tr_revoked := insert i (tr_revoked ?s3)\<rparr>"
  from run have "auth_run cfg key ?s1" by (rule more) (rule created [OF c])
  then have "auth_run cfg key ?s2" by (rule more) (rule exchanged [where w = w2 and t = t and name = name], simp add: e)
  then have "auth_run cfg key ?s3" by (rule more) (rule rotated [where w = w3 and t = t'], simp add: r)
  then have end_: "auth_run cfg key ?s4" by (rule more) (rule revoked, simp add: v)
  have "rand w1 = rand (tr_world s)" using c by (rule create_Inr)
  moreover have "rand w2 = rand w1" using e by (rule exchange_Inr)
  moreover have "rand w3 = rand w2" using r by (rule rotate_Inr)
  moreover have "rand w4 = rand w3" using v by (rule revoke_Inr)
  ultimately show ?thesis using end_ by (intro exI [of _ ?s4]) simp
qed

text \<open>Create a code, exchange it, rotate the token and revoke the device.\<close>

lemma example_auth_run:
  "\<exists>s. auth_run example_auth [] s \<and> tr_used s = {''''} \<and> tr_spent s = {''aa''} \<and> tr_revoked s = {''aaa''}
     \<and> rand (tr_world s) = (\<lambda>n. replicate n CHR ''a'')"
proof -
  let ?c = "create_pairing_code example_auth (tr_world auth_start)"
  let ?e = "exchange_pairing_code example_auth '''' ''b'' [] (snd ?c)"
  let ?r = "rotate_refresh_token example_auth ''aa'' [] (snd ?e)"
  let ?v = "revoke_device ''aaa'' (snd ?r)"
  have "case fst ?c of Inl e \<Rightarrow> False | Inr _ \<Rightarrow> True" "case fst ?e of Inl e \<Rightarrow> False | Inr _ \<Rightarrow> True"
    "case fst ?r of Inl e \<Rightarrow> False | Inr _ \<Rightarrow> True" "fst ?v = Inr True" by code_simp+
  note ran = this(1-3) [THEN returned] this(4) [THEN returned_val]
  from ran(1) obtain c where c: "create_pairing_code example_auth (tr_world auth_start) = (Inr c, snd ?c)" ..
  from ran(2) obtain t where e: "exchange_pairing_code example_auth '''' ''b'' [] (snd ?c) = (Inr t, snd ?e)" ..
  from ran(3) obtain t' where r: "rotate_refresh_token example_auth ''aa'' [] (snd ?e) = (Inr t', snd ?r)" ..
  note v = ran(4)
  have "auth_run example_auth [] auth_start"
    by (rule fresh) (simp_all add: auth_start_def auth_world_def empty_db_def)
  from four_requests [OF this c e r v] show ?thesis by (simp only: auth_start_def auth_world_def auth_trace.simps world.simps)
qed


end
