(* ===== verification/Job_Queue.thy ===== *)
theory Job_Queue
  imports Models
begin

text \<open>
  The durable job queue (\<open>jobs/queue.py\<close>): enqueueing under an idempotency key, leasing within the
  concurrency limits, heartbeats, success, failure with exponential backoff and the recovery of
  expired leases. A job is passed by its id.
\<close>

section \<open>Operations\<close>

definition load_job :: "nat \<Rightarrow> (world, job) py" where
  "load_job i = bind_py (query (\<lambda>d. tbl_get jb_id i (jobs d)))
     (\<lambda>r. case r of None \<Rightarrow> raise_py ObjectDeletedError | Some x \<Rightarrow> ret x)"

definition upd_job :: "nat \<Rightarrow> (job \<Rightarrow> job) \<Rightarrow> (world, unit) py" where
  "upd_job i f = on_db (jobs_update (tbl_upd jb_id i f))"

definition enqueue :: "string \<Rightarrow> string \<Rightarrow> pyval \<Rightarrow> string \<Rightarrow> nat \<Rightarrow> (world, job) py" where
  "enqueue kind adapter data key attempts_limit =
     bind_py (query (\<lambda>d. tbl_get idempotency_key key (jobs d))) (\<lambda>existing.
     case existing of Some j \<Rightarrow> ret j
     | None \<Rightarrow>
       bind_py utcnow (\<lambda>now. bind_py (query (\<lambda>d. fresh_id jb_id (jobs d))) (\<lambda>i.
         (let j = \<lparr>jb_id = i, jb_kind = kind, jb_adapter = adapter, payload = data, idempotency_key = key,
              jb_status = JPending, attempts = 0, max_attempts = attempts_limit, available_at = now,
              lease_owner = None, lease_expires_at = None, heartbeat_at = None, last_error = None\<rparr>
          in seq (on_db (jobs_update (\<lambda>t. t @ [j]))) (ret j)))))"

definition leased_at :: "int \<Rightarrow> job \<Rightarrow> bool" where
  "leased_at now j \<longleftrightarrow> jb_status j = JRunning
     \<and> (case lease_expires_at j of None \<Rightarrow> False | Some t \<Rightarrow> now < instant t)"

definition waiting :: "job \<Rightarrow> bool" where
  "waiting j \<longleftrightarrow> jb_status j \<in> {JPending, JRetry}"

definition ready_for :: "string \<Rightarrow> int \<Rightarrow> job \<Rightarrow> bool" where
  "ready_for adapter now j \<longleftrightarrow> jb_adapter j = adapter \<and> waiting j \<and> instant (available_at j) \<le> now"

definition sooner :: "job \<Rightarrow> job \<Rightarrow> bool" where
  "sooner a b \<longleftrightarrow> instant (available_at a) < instant (available_at b)
     \<or> instant (available_at a) = instant (available_at b) \<and> jb_id a \<le> jb_id b"

text \<open>\<open>ORDER BY available_at, id LIMIT 1\<close>.\<close>

fun soonest :: "job list \<Rightarrow> job option" where
  "soonest [] = None"
| "soonest (j # js) = (case soonest js of None \<Rightarrow> Some j | Some k \<Rightarrow> Some (if sooner j k then j else k))"

text \<open>The columns a lease writes.\<close>

definition claim :: "string \<Rightarrow> datetime \<Rightarrow> int \<Rightarrow> job \<Rightarrow> job" where
  "claim worker now secs j = j\<lparr>jb_status := JRunning, lease_owner := Some worker,
     lease_expires_at := Some (dt_add now (seconds secs)), heartbeat_at := Some now, attempts := attempts j + 1\<rparr>"

definition lease ::
  "string \<Rightarrow> string \<Rightarrow> int \<Rightarrow> nat \<Rightarrow> nat \<Rightarrow> (world, job option) py" where
  "lease worker adapter lease_seconds adapter_limit global_limit =
     bind_py utcnow (\<lambda>now.
     bind_py (query (\<lambda>d. filter (leased_at (instant now)) (jobs d))) (\<lambda>running.
     if length running \<ge> global_limit then ret None
     else if length (filter (\<lambda>j. jb_adapter j = adapter) running) \<ge> adapter_limit then ret None
     else
       bind_py (query (\<lambda>d. soonest (filter (ready_for adapter (instant now)) (jobs d)))) (\<lambda>candidate.
       case candidate of None \<Rightarrow> ret None
       | Some c \<Rightarrow>
         bind_py (query (\<lambda>d. length (filter (\<lambda>j. jb_id j = jb_id c \<and> waiting j) (jobs d)))) (\<lambda>claimed.
         seq (on_db (jobs_update (map (\<lambda>j. if jb_id j = jb_id c \<and> waiting j
                then claim worker now lease_seconds j
                else j)))) (
         if claimed \<noteq> 1 then ret None
         else bind_py (load_job (jb_id c)) (\<lambda>j. ret (Some j)))))))"

definition owns :: "job \<Rightarrow> string \<Rightarrow> bool" where
  "owns j worker \<longleftrightarrow> jb_status j = JRunning \<and> lease_owner j = Some worker"

definition heartbeat :: "nat \<Rightarrow> string \<Rightarrow> int \<Rightarrow> (world, unit) py" where
  "heartbeat i worker lease_seconds =
     bind_py (load_job i) (\<lambda>j.
     seq (require (owns j worker) (RuntimeError ''worker does not own job lease'')) (
     bind_py utcnow (\<lambda>now.
     seq (upd_job i (\<lambda>j. j\<lparr>heartbeat_at := Some now,
            lease_expires_at := Some (dt_add now (seconds lease_seconds))\<rparr>)) (
     bind_py (query (\<lambda>d. tbl_get wh_worker worker (heartbeats d))) (\<lambda>h.
     case h of
       None \<Rightarrow> on_db (heartbeats_update (\<lambda>t. t @ [\<lparr>wh_worker = worker, wh_adapter = jb_adapter j, wh_at = now\<rparr>]))
     | Some _ \<Rightarrow> on_db (heartbeats_update (tbl_upd wh_worker worker (\<lambda>h. h\<lparr>wh_at := now\<rparr>))))))))"

definition succeed :: "nat \<Rightarrow> string \<Rightarrow> (world, bool) py" where
  "succeed i worker = bind_py (load_job i) (\<lambda>j.
     if \<not> owns j worker then ret False
     else seq (upd_job i (\<lambda>j. j\<lparr>jb_status := JSucceeded, lease_owner := None, lease_expires_at := None\<rparr>)) (ret True))"

text \<open>\<open>math.pow(2, exponent) * base_backoff_seconds\<close> in microseconds; a job without attempts would
  have exponent \<open>-1\<close>.\<close>

definition backoff :: "nat \<Rightarrow> int \<Rightarrow> int" where
  "backoff n base = (if n = 0 then base * 500000 else 2 ^ min (n - 1) 10 * seconds base)"

definition fail_job :: "nat \<Rightarrow> string \<Rightarrow> string \<Rightarrow> int \<Rightarrow> (world, bool) py" where
  "fail_job i worker err base_backoff_seconds =
     (let message = redact_str err in
      bind_py (load_job i) (\<lambda>j.
      if lease_owner j \<noteq> None \<and> lease_owner j \<noteq> Some worker then ret False else
      seq (upd_job i (\<lambda>j. j\<lparr>last_error := Some message\<rparr>)) (
      if \<not> owns j worker then ret False else
      seq (upd_job i (\<lambda>j. j\<lparr>lease_owner := None, lease_expires_at := None\<rparr>)) (
      seq (if attempts j \<ge> max_attempts j then upd_job i (\<lambda>j. j\<lparr>jb_status := JManualReview\<rparr>)
           else seq (upd_job i (\<lambda>j. j\<lparr>jb_status := JRetry\<rparr>))
             (bind_py utcnow (\<lambda>now. upd_job i (\<lambda>x. x\<lparr>available_at :=
                dt_add now (backoff (attempts j) base_backoff_seconds)\<rparr>))))
      (ret True)))))"

definition expired_at :: "int \<Rightarrow> job \<Rightarrow> bool" where
  "expired_at now j \<longleftrightarrow> jb_status j = JRunning
     \<and> (case lease_expires_at j of None \<Rightarrow> False | Some t \<Rightarrow> instant t < now)"

definition recover_job :: "datetime \<Rightarrow> job \<Rightarrow> job" where
  "recover_job now j = j\<lparr>jb_status := JRetry, lease_owner := None, lease_expires_at := None,
     available_at := now, last_error := Some ''lease expired; recovered after interruption''\<rparr>"

definition recover_expired :: "datetime option \<Rightarrow> (world, nat) py" where
  "recover_expired moment =
     bind_py (case moment of Some t \<Rightarrow> ret t | None \<Rightarrow> utcnow) (\<lambda>now.
     bind_py (query (\<lambda>d. length (filter (expired_at (instant now)) (jobs d)))) (\<lambda>n.
     seq (on_db (jobs_update (map (\<lambda>j. if expired_at (instant now) j then recover_job now j else j))))
         (ret n)))"

definition log_job :: "nat \<Rightarrow> string \<Rightarrow> string \<Rightarrow> (string \<times> pyval) list \<Rightarrow> (world, unit) py" where
  "log_job i lvl message extra =
     on_db (job_logs_update (\<lambda>t. t @ [\<lparr>jl_id = fresh_id jl_id t, jl_job = i, jl_level = lvl,
       jl_message = redact_str message, jl_fields = redact (PDict extra)\<rparr>]))"

section \<open>Leasing\<close>

lemma sooner_total: "sooner a b \<or> sooner b a"
  by (auto simp: sooner_def)

lemma sooner_trans: "sooner a b \<Longrightarrow> sooner b c \<Longrightarrow> sooner a c"
  by (auto simp: sooner_def)

lemma soonest_Some: "soonest js = Some j \<Longrightarrow> j \<in> set js \<and> (\<forall>k \<in> set js. sooner j k)"
proof (induction js arbitrary: j)
  case (Cons k ks)
  have refl: "sooner x x" for x by (simp add: sooner_def)
  show ?case
  proof (cases "soonest ks")
    case None
    then have "ks = []" by (cases ks) (auto split: option.splits)
    with Cons.prems refl show ?thesis by simp
  next
    case (Some m)
    with Cons.IH have m: "m \<in> set ks" "\<forall>x \<in> set ks. sooner m x" by blast+
    show ?thesis
    proof (cases "sooner k m")
      case True
      with Some Cons.prems have "j = k" by simp
      with m True refl show ?thesis by (auto intro: sooner_trans)
    next
      case False
      with Some Cons.prems have "j = m" by simp
      with m False sooner_total show ?thesis by auto
    qed
  qed
qed simp

lemma soonest_None: "soonest js = None \<longleftrightarrow> js = []"
  by (cases js) (auto split: option.splits)

lemma claim_fields [simp]:
  "jb_id (claim w now s j) = jb_id j" "jb_adapter (claim w now s j) = jb_adapter j"
  "idempotency_key (claim w now s j) = idempotency_key j"
  by (simp_all add: claim_def)

lemma lease_Some:
  assumes run: "lease worker adapter secs alimit glimit w = (Inr (Some j), w')"
    and ids: "distinct (map jb_id (jobs (live w)))"
  obtains c now where "c \<in> set (jobs (live w))" "ready_for adapter (instant now) c"
    "\<forall>k \<in> set (jobs (live w)). ready_for adapter (instant now) k \<longrightarrow> sooner c k"
    "now = Aware (clock w (ticks w))" "j = claim worker now secs c"
    "jobs (live w') = tbl_upd jb_id (jb_id c) (claim worker now secs) (jobs (live w))"
    "length (filter (leased_at (instant now)) (jobs (live w))) < glimit"
    "length (filter (\<lambda>j. leased_at (instant now) j \<and> jb_adapter j = adapter) (jobs (live w))) < alimit"
proof -
  let ?now = "Aware (clock w (ticks w))" and ?js = "jobs (live w)"
  from run obtain c where c: "soonest (filter (ready_for adapter (instant ?now)) ?js) = Some c"
    and lim: "length (filter (leased_at (instant ?now)) ?js) < glimit"
      "length (filter (\<lambda>j. jb_adapter j = adapter) (filter (leased_at (instant ?now)) ?js)) < alimit"
    and js: "jobs (live w') = map (\<lambda>j. if jb_id j = jb_id c \<and> waiting j then claim worker ?now secs j else j) ?js"
    and got: "tbl_get jb_id (jb_id c) (jobs (live w')) = Some j"
    by (auto simp: lease_def utcnow_def query_def on_db_def load_job_def bind_py_def seq_def
        split: if_splits option.splits)
  from soonest_Some [OF c] have cm: "c \<in> set ?js" "ready_for adapter (instant ?now) c"
    and best: "\<forall>k \<in> set ?js. ready_for adapter (instant ?now) k \<longrightarrow> sooner c k" by auto
  have upd: "jobs (live w') = tbl_upd jb_id (jb_id c) (claim worker ?now secs) ?js"
    unfolding js tbl_upd_def
  proof (rule map_cong [OF refl])
    fix k assume k: "k \<in> set ?js"
    have "k = c" if "jb_id k = jb_id c" using that k cm(1) ids by (metis option.inject tbl_get_in)
    then show "(if jb_id k = jb_id c \<and> waiting k then claim worker ?now secs k else k)
        = (if jb_id k = jb_id c then claim worker ?now secs k else k)"
      using cm(2) by (auto simp: ready_for_def)
  qed
  have "tbl_get jb_id (jb_id c) ?js = Some c" using ids cm(1) by (rule tbl_get_in)
  with got upd have "j = claim worker ?now secs c" by (simp add: tbl_get_upd_same)
  with that [of c ?now] cm best upd lim show thesis by (simp add: conj_commute)
qed

text \<open>C16: a lease goes to the ready job of the adapter that has waited longest, makes the worker its
  owner until the lease ends, counts the attempt, and touches no other job; afterwards the jobs
  running under an unexpired lease still respect the global and the adapter's limit.\<close>

theorem lease_respects_limits:
  assumes run: "lease worker adapter secs alimit glimit w = (Inr (Some j), w')"
    and ids: "distinct (map jb_id (jobs (live w)))"
  shows "owns j worker \<and> jb_adapter j = adapter
    \<and> (\<exists>c. tbl_get jb_id (jb_id j) (jobs (live w)) = Some c \<and> waiting c \<and> attempts j = attempts c + 1
        \<and> instant (available_at c) \<le> clock w (ticks w)
        \<and> (\<forall>k \<in> set (jobs (live w)). ready_for adapter (clock w (ticks w)) k \<longrightarrow> sooner c k))
    \<and> (\<forall>i. i \<noteq> jb_id j \<longrightarrow> tbl_get jb_id i (jobs (live w')) = tbl_get jb_id i (jobs (live w)))
    \<and> tbl_get jb_id (jb_id j) (jobs (live w')) = Some j
    \<and> length (filter (leased_at (clock w (ticks w))) (jobs (live w'))) \<le> glimit
    \<and> length (filter (\<lambda>k. leased_at (clock w (ticks w)) k \<and> jb_adapter k = adapter) (jobs (live w'))) \<le> alimit"
proof -
  from lease_Some [OF run ids] obtain c now where c: "c \<in> set (jobs (live w))" "ready_for adapter (instant now) c"
    "\<forall>k \<in> set (jobs (live w)). ready_for adapter (instant now) k \<longrightarrow> sooner c k"
    "now = Aware (clock w (ticks w))" "j = claim worker now secs c"
    "jobs (live w') = tbl_upd jb_id (jb_id c) (claim worker now secs) (jobs (live w))"
    "length (filter (leased_at (instant now)) (jobs (live w))) < glimit"
    "length (filter (\<lambda>j. leased_at (instant now) j \<and> jb_adapter j = adapter) (jobs (live w))) < alimit" .
  have get: "tbl_get jb_id (jb_id c) (jobs (live w)) = Some c" using ids c(1) by (rule tbl_get_in)
  have count: "length (filter P (tbl_upd jb_id k f t)) \<le> Suc (length (filter P t))"
    if "distinct (map jb_id t)" for P k f and t :: "job list"
    using that
  proof (induction t)
    case (Cons x t)
    have same: "tbl_upd jb_id k f t = t" if "k \<notin> jb_id ` set t"
      using that unfolding tbl_upd_def by (intro map_idI) auto
    from Cons show ?case
    proof (cases "jb_id x = k")
      case True
      with Cons.prems have "k \<notin> jb_id ` set t" by auto
      from same [OF this] True show ?thesis by (simp add: tbl_upd_def)
    next
      case False
      with Cons show ?thesis by (simp add: tbl_upd_def)
    qed
  qed simp
  show ?thesis
  proof (intro conjI)
    show "owns j worker" "jb_adapter j = adapter"
      using c(2,5) by (simp_all add: owns_def claim_def ready_for_def)
    show "\<exists>c. tbl_get jb_id (jb_id j) (jobs (live w)) = Some c \<and> waiting c \<and> attempts j = attempts c + 1
        \<and> instant (available_at c) \<le> clock w (ticks w)
        \<and> (\<forall>k \<in> set (jobs (live w)). ready_for adapter (clock w (ticks w)) k \<longrightarrow> sooner c k)"
      using get c(2-5) by (intro exI [of _ c]) (auto simp: ready_for_def claim_def)
    show "\<forall>i. i \<noteq> jb_id j \<longrightarrow> tbl_get jb_id i (jobs (live w')) = tbl_get jb_id i (jobs (live w))"
      using c(5,6) by (simp add: tbl_get_upd_other)
    show "tbl_get jb_id (jb_id j) (jobs (live w')) = Some j"
      using c(5,6) get by (simp add: tbl_get_upd_same)
    show "length (filter (leased_at (clock w (ticks w))) (jobs (live w'))) \<le> glimit"
      using count [OF ids, of "leased_at (clock w (ticks w))" "jb_id c" "claim worker now secs"] c(4,6,7) by simp
    show "length (filter (\<lambda>k. leased_at (clock w (ticks w)) k \<and> jb_adapter k = adapter) (jobs (live w'))) \<le> alimit"
      using count [OF ids, of "\<lambda>k. leased_at (clock w (ticks w)) k \<and> jb_adapter k = adapter" "jb_id c" "claim worker now secs"]
        c(4,6,8) by simp
  qed
qed

section \<open>Failures, ownership, recovery\<close>

text \<open>A job runs exactly while it is leased, and a running job has been attempted.\<close>

definition job_ok :: "job \<Rightarrow> bool" where
  "job_ok j \<longleftrightarrow> (jb_status j = JRunning \<longleftrightarrow> lease_owner j \<noteq> None) \<and> (jb_status j = JRunning \<longleftrightarrow> lease_expires_at j \<noteq> None)
     \<and> (jb_status j = JRunning \<longrightarrow> 1 \<le> attempts j)"

lemma tbl_upd_upd: "(\<And>r. key (g r) = key r) \<Longrightarrow> tbl_upd key k f (tbl_upd key k g t) = tbl_upd key k (\<lambda>r. f (g r)) t"
  by (simp add: tbl_upd_def)

definition failed_job :: "string \<Rightarrow> datetime \<Rightarrow> int \<Rightarrow> job \<Rightarrow> job" where
  "failed_job message now base j =
     (if attempts j \<ge> max_attempts j
      then j\<lparr>jb_status := JManualReview, lease_owner := None, lease_expires_at := None, last_error := Some message\<rparr>
      else j\<lparr>jb_status := JRetry, available_at := dt_add now (backoff (attempts j) base), lease_owner := None,
             lease_expires_at := None, last_error := Some message\<rparr>)"

lemma fail_job_owner:
  assumes "tbl_get jb_id i (jobs (live w)) = Some j" "owns j worker" "distinct (map jb_id (jobs (live w)))"
  shows "\<exists>w'. fail_job i worker err base w = (Inr True, w') \<and> disk w' = disk w \<and> durable w' = durable w
    \<and> jobs (live w') = tbl_upd jb_id i (\<lambda>_. failed_job (redact_str err) (Aware (clock w (ticks w))) base j) (jobs (live w))"
proof -
  have only: "tbl_upd jb_id i f (jobs (live w)) = tbl_upd jb_id i (\<lambda>_. f j) (jobs (live w))" for f
    unfolding tbl_upd_def
    by (rule map_cong [OF refl]) (use assms(1,3) in \<open>auto dest: tbl_get_in\<close>)
  let ?now = "Aware (clock w (ticks w))"
  show ?thesis
  proof (cases "max_attempts j \<le> attempts j")
    case True
    let ?F = "\<lambda>x::job. x\<lparr>last_error := Some (redact_str err), lease_owner := None, lease_expires_at := None, jb_status := JManualReview\<rparr>"
    have "\<exists>w'. fail_job i worker err base w = (Inr True, w') \<and> disk w' = disk w \<and> durable w' = durable w
        \<and> jobs (live w') = tbl_upd jb_id i ?F (jobs (live w))"
      using assms(1,2) True
      by (simp add: fail_job_def load_job_def query_def upd_job_def on_db_def bind_py_def seq_def owns_def tbl_upd_upd)
    moreover have "?F j = failed_job (redact_str err) ?now base j" using True by (simp add: failed_job_def)
    ultimately show ?thesis unfolding only [of ?F] by simp
  next
    case False
    let ?F = "\<lambda>x::job. x\<lparr>last_error := Some (redact_str err), lease_owner := None, lease_expires_at := None,
       jb_status := JRetry, available_at := dt_add ?now (backoff (attempts j) base)\<rparr>"
    have "\<exists>w'. fail_job i worker err base w = (Inr True, w') \<and> disk w' = disk w \<and> durable w' = durable w
        \<and> jobs (live w') = tbl_upd jb_id i ?F (jobs (live w))"
      using assms(1,2) False
      by (simp add: fail_job_def load_job_def query_def upd_job_def on_db_def bind_py_def seq_def owns_def utcnow_def tbl_upd_upd)
    moreover have "?F j = failed_job (redact_str err) ?now base j" using False by (simp add: failed_job_def)
    ultimately show ?thesis unfolding only [of ?F] by simp
  qed
qed

lemma backoff_bound:
  assumes "1 \<le> n" "0 \<le> base" shows "0 \<le> backoff n base \<and> backoff n base \<le> 1024 * seconds base"
proof -
  have "(2::int) ^ min (n - 1) 10 \<le> 2 ^ 10" by (rule power_increasing) auto
  then have "2 ^ min (n - 1) 10 * seconds base \<le> 1024 * seconds base"
    using assms(2) by (intro mult_right_mono) (auto simp: seconds_def)
  with assms show ?thesis by (auto simp: backoff_def seconds_def)
qed

text \<open>The owner's failure report always ends the lease; a job with attempts left is retried after
  a delay of at least nothing and at most 1024 times the base, doubling with every attempt up to the
  eleventh; a job without attempts left goes to manual review and is not leased again.\<close>

theorem fail_schedules_retry:
  assumes "tbl_get jb_id i (jobs (live w)) = Some j" "owns j worker" "distinct (map jb_id (jobs (live w)))"
    and "1 \<le> attempts j" "0 \<le> base"
  shows "\<exists>w' k. fail_job i worker err base w = (Inr True, w') \<and> tbl_get jb_id i (jobs (live w')) = Some k
    \<and> lease_owner k = None \<and> last_error k = Some (redact_str err) \<and> attempts k = attempts j
    \<and> (if attempts j < max_attempts j
       then jb_status k = JRetry
         \<and> instant (available_at k) = clock w (ticks w) + backoff (attempts j) base
         \<and> instant (available_at k) \<le> clock w (ticks w) + 1024 * seconds base
         \<and> clock w (ticks w) \<le> instant (available_at k)
       else jb_status k = JManualReview \<and> waiting k = False)"
proof -
  from fail_job_owner [OF assms(1-3)] obtain w' where run: "fail_job i worker err base w = (Inr True, w')"
    and js: "jobs (live w') = tbl_upd jb_id i (\<lambda>_. failed_job (redact_str err) (Aware (clock w (ticks w))) base j) (jobs (live w))"
    by blast
  have id: "jb_id j = i" using assms(1) by (auto dest: tbl_get_Some)
  have "tbl_get jb_id i (tbl_upd jb_id i (\<lambda>_. k) t) = Some k"
    if "tbl_get jb_id i t = Some j" "jb_id k = i" for k t
    using that by (induction t) (auto simp: tbl_upd_def split: if_splits)
  with assms(1) id js have "tbl_get jb_id i (jobs (live w')) = Some (failed_job (redact_str err) (Aware (clock w (ticks w))) base j)"
    by (simp add: failed_job_def)
  with run backoff_bound [OF assms(4,5)] show ?thesis
    by (intro exI [of _ w'] exI [of _ "failed_job (redact_str err) (Aware (clock w (ticks w))) base j"])
       (auto simp: failed_job_def waiting_def not_less)
qed

text \<open>A worker that no longer owns a job's lease can neither complete, fail nor extend it:
  completion and failure answer no, a heartbeat raises, and at most the error text of an unowned job
  changes.\<close>

theorem lost_lease_is_powerless:
  assumes "tbl_get jb_id i (jobs (live w)) = Some j" "\<not> owns j worker"
  shows "succeed i worker w = (Inr False, w)
    \<and> heartbeat i worker secs w = (Inl (RuntimeError ''worker does not own job lease''), w)
    \<and> fst (fail_job i worker err base w) = Inr False
    \<and> (jobs (live (snd (fail_job i worker err base w))) = jobs (live w)
       \<or> lease_owner j \<in> {None, Some worker} \<and> jobs (live (snd (fail_job i worker err base w)))
           = tbl_upd jb_id i (last_error_update (\<lambda>_. Some (redact_str err))) (jobs (live w)))"
  using assms
  by (auto simp: succeed_def heartbeat_def fail_job_def load_job_def query_def upd_job_def on_db_def bind_py_def
      seq_def require_def)

lemma recover_fields [simp]:
  "jb_id (recover_job now j) = jb_id j" "idempotency_key (recover_job now j) = idempotency_key j"
  "attempts (recover_job now j) = attempts j" "max_attempts (recover_job now j) = max_attempts j"
  "jb_status (recover_job now j) = JRetry" "lease_owner (recover_job now j) = None"
  by (simp_all add: recover_job_def)

lemma recovered [simp]: "\<not> expired_at t (recover_job now j)" "job_ok (recover_job now j)"
  by (simp_all add: expired_at_def job_ok_def recover_job_def)

lemma failed_fields [simp]:
  "jb_id (failed_job message now base j) = jb_id j"
  "idempotency_key (failed_job message now base j) = idempotency_key j"
  by (simp_all add: failed_job_def)

lemma job_ok_simps [simp]:
  "job_ok (claim worker now secs j)" "job_ok (last_error_update f j) = job_ok j"
  "job_ok (failed_job message now base j)"
  by (simp_all add: job_ok_def claim_def failed_job_def)

text \<open>Recovery puts exactly the running jobs whose lease has ended back to \<open>RETRY\<close>, available
  now and without owner, reports their number, and leaves unexpired leases and all other jobs alone;
  a second recovery at the same time finds nothing.\<close>

theorem recover_expired_correct:
  "\<exists>w'. recover_expired (Some now) w = (Inr (length (filter (expired_at (instant now)) (jobs (live w)))), w')
    \<and> jobs (live w') = map (\<lambda>j. if expired_at (instant now) j then recover_job now j else j) (jobs (live w))
    \<and> list_all (\<lambda>j. expired_at (instant now) j = False) (jobs (live w'))
    \<and> filter (leased_at (instant now)) (jobs (live w')) = filter (leased_at (instant now)) (jobs (live w))
    \<and> fst (recover_expired (Some now) w') = Inr 0"
proof -
  let ?f = "\<lambda>j. if expired_at (instant now) j then recover_job now j else j"
  have none: "\<not> expired_at (instant now) (?f j)" for j
    by (simp add: expired_at_def)
  have keep: "filter (leased_at (instant now)) (map ?f js) = filter (leased_at (instant now)) js" for js
    by (induction js) (auto simp: leased_at_def expired_at_def split: option.splits)
  have zero: "filter (expired_at (instant now)) (map ?f js) = []" for js
    by (auto simp: filter_empty_conv)
  have run: "recover_expired (Some now) v = (Inr (length (filter (expired_at (instant now)) (jobs (live v)))),
      v\<lparr>live := jobs_update (map ?f) (live v)\<rparr>)" for v
    by (simp add: recover_expired_def query_def on_db_def seq_def)
  show ?thesis
    using keep zero by (auto simp: run list_all_iff)
qed

section \<open>The invariant of the table\<close>

definition queue_ok :: "world \<Rightarrow> bool" where
  "queue_ok w \<longleftrightarrow> distinct (map jb_id (jobs (live w))) \<and> distinct (map idempotency_key (jobs (live w)))
     \<and> list_all job_ok (jobs (live w))"

lemma queue_ok_map:
  assumes "queue_ok w" "jobs (live w') = map f (jobs (live w))"
    and "\<And>j. jb_id (f j) = jb_id j \<and> idempotency_key (f j) = idempotency_key j"
    and "\<And>j. j \<in> set (jobs (live w)) \<Longrightarrow> job_ok j \<Longrightarrow> job_ok (f j)"
  shows "queue_ok w'"
proof -
  have "map jb_id (map f (jobs (live w))) = map jb_id (jobs (live w))"
    "map idempotency_key (map f (jobs (live w))) = map idempotency_key (jobs (live w))" using assms(3) by simp_all
  with assms(1,4) show ?thesis unfolding queue_ok_def assms(2) by (simp only: list_all_iff set_map) blast
qed

lemma queue_ok_same: "queue_ok w \<Longrightarrow> jobs (live w') = jobs (live w) \<Longrightarrow> queue_ok w'"
  by (simp add: queue_ok_def)

lemma enqueue_run:
  "enqueue kind adapter data key n w = (case tbl_get idempotency_key key (jobs (live w)) of Some j \<Rightarrow> (Inr j, w)
     | None \<Rightarrow> (let j = \<lparr>jb_id = fresh_id jb_id (jobs (live w)), jb_kind = kind, jb_adapter = adapter, payload = data,
              idempotency_key = key, jb_status = JPending, attempts = 0, max_attempts = n,
              available_at = Aware (clock w (ticks w)), lease_owner = None, lease_expires_at = None,
              heartbeat_at = None, last_error = None\<rparr>
         in (Inr j, w\<lparr>ticks := Suc (ticks w), live := jobs_update (\<lambda>t. t @ [j]) (live w)\<rparr>)))"
  by (simp add: enqueue_def query_def utcnow_def on_db_def bind_py_def seq_def Let_def split: option.split)

lemma queue_ok_enqueue: "keeps queue_ok (enqueue kind adapter data key n)"
proof (rule keepsI)
  fix w assume "queue_ok w"
  then show "queue_ok (snd (enqueue kind adapter data key n w))"
    using fresh_id_notin [of jb_id "jobs (live w)"]
    by (auto simp: enqueue_run Let_def queue_ok_def job_ok_def tbl_get_None split: option.split)
qed

lemma queue_ok_lease: "keeps queue_ok (lease worker adapter secs alimit glimit)"
proof (rule keepsI)
  fix w assume ok: "queue_ok w"
  let ?now = "Aware (clock w (ticks w))"
  have "jobs (live (snd (lease worker adapter secs alimit glimit w))) = jobs (live w) \<or>
    (\<exists>c :: job. jobs (live (snd (lease worker adapter secs alimit glimit w)))
      = map (\<lambda>j. if jb_id j = jb_id c \<and> waiting j then claim worker ?now secs j else j) (jobs (live w)))"
  proof (cases "soonest (filter (ready_for adapter (instant ?now)) (jobs (live w)))")
    case None
    then show ?thesis
      by (simp add: lease_def utcnow_def query_def bind_py_def)
  next
    case (Some c)
    then have "jobs (live (snd (lease worker adapter secs alimit glimit w))) = jobs (live w) \<or>
        jobs (live (snd (lease worker adapter secs alimit glimit w)))
      = map (\<lambda>j. if jb_id j = jb_id c \<and> waiting j then claim worker ?now secs j else j) (jobs (live w))"
      by (simp add: lease_def utcnow_def query_def on_db_def load_job_def bind_py_def seq_def split: option.split)
    then show ?thesis by blast
  qed
  then show "queue_ok (snd (lease worker adapter secs alimit glimit w))"
  proof
    assume "jobs (live (snd (lease worker adapter secs alimit glimit w))) = jobs (live w)"
    with ok show ?thesis by (rule queue_ok_same)
  next
    assume "\<exists>c :: job. jobs (live (snd (lease worker adapter secs alimit glimit w)))
      = map (\<lambda>j. if jb_id j = jb_id c \<and> waiting j then claim worker ?now secs j else j) (jobs (live w))"
    then obtain c :: job where c: "jobs (live (snd (lease worker adapter secs alimit glimit w)))
      = map (\<lambda>j. if jb_id j = jb_id c \<and> waiting j then claim worker ?now secs j else j) (jobs (live w))" by blast
    from ok c show ?thesis
      by (rule queue_ok_map) simp_all
  qed
qed

lemma queue_ok_recover: "keeps queue_ok (recover_expired t)"
proof (rule keepsI)
  fix w assume ok: "queue_ok w"
  have "\<exists>now. jobs (live (snd (recover_expired t w)))
      = map (\<lambda>j. if expired_at (instant now) j then recover_job now j else j) (jobs (live w))"
    by (cases t) (auto simp: recover_expired_def query_def on_db_def seq_def utcnow_def bind_py_def)
  then obtain now where r: "jobs (live (snd (recover_expired t w)))
      = map (\<lambda>j. if expired_at (instant now) j then recover_job now j else j) (jobs (live w))" by blast
  from ok r show "queue_ok (snd (recover_expired t w))"
    by (rule queue_ok_map) simp_all
qed

lemma queue_ok_upd:
  assumes "queue_ok w" "jobs (live w') = tbl_upd jb_id i f (jobs (live w))"
    and "\<And>j. jb_id j = i \<Longrightarrow> jb_id (f j) = jb_id j \<and> idempotency_key (f j) = idempotency_key j"
    and "\<And>j. j \<in> set (jobs (live w)) \<Longrightarrow> jb_id j = i \<Longrightarrow> job_ok j \<Longrightarrow> job_ok (f j)"
  shows "queue_ok w'"
  using assms(1) assms(2) [unfolded tbl_upd_def] by (rule queue_ok_map) (use assms(3,4) in auto)

lemma queue_ok_succeed: "keeps queue_ok (succeed i worker)"
proof (rule keepsI)
  fix w assume ok: "queue_ok w"
  have "jobs (live (snd (succeed i worker w))) = jobs (live w) \<or> jobs (live (snd (succeed i worker w)))
     = tbl_upd jb_id i (\<lambda>j. j\<lparr>jb_status := JSucceeded, lease_owner := None, lease_expires_at := None\<rparr>) (jobs (live w))"
    by (simp add: succeed_def load_job_def query_def upd_job_def on_db_def bind_py_def seq_def split: option.split)
  then show "queue_ok (snd (succeed i worker w))"
    using ok queue_ok_same queue_ok_upd [OF ok] by (elim disjE) (blast, simp add: job_ok_def)
qed

lemma queue_ok_heartbeat: "keeps queue_ok (heartbeat i worker secs)"
proof (rule keepsI)
  fix w assume ok: "queue_ok w"
  show "queue_ok (snd (heartbeat i worker secs w))"
  proof (cases "tbl_get jb_id i (jobs (live w))")
    case None
    with ok show ?thesis by (simp add: heartbeat_def load_job_def query_def bind_py_def)
  next
    case (Some j)
    show ?thesis
    proof (cases "owns j worker")
      case False
      with ok Some show ?thesis by (simp add: heartbeat_def load_job_def query_def bind_py_def seq_def)
    next
      case True
      let ?now = "Aware (clock w (ticks w))"
      have js: "jobs (live (snd (heartbeat i worker secs w))) = tbl_upd jb_id i
         (\<lambda>j. j\<lparr>heartbeat_at := Some ?now, lease_expires_at := Some (dt_add ?now (seconds secs))\<rparr>) (jobs (live w))"
        using Some True
        by (simp add: heartbeat_def load_job_def query_def upd_job_def on_db_def bind_py_def seq_def utcnow_def
            split: option.split)
      from ok js show ?thesis
      proof (rule queue_ok_upd)
        fix k assume k: "k \<in> set (jobs (live w))" "jb_id k = i" "job_ok k"
        with ok Some have "k = j" by (auto simp: queue_ok_def dest: tbl_get_in)
        with True k(3) show "job_ok (k\<lparr>heartbeat_at := Some ?now, lease_expires_at := Some (dt_add ?now (seconds secs))\<rparr>)"
          by (simp add: job_ok_def owns_def)
      qed simp
    qed
  qed
qed

lemma queue_ok_fail: "keeps queue_ok (fail_job i worker err base)"
proof (rule keepsI)
  fix w assume ok: "queue_ok w"
  show "queue_ok (snd (fail_job i worker err base w))"
  proof (cases "tbl_get jb_id i (jobs (live w))")
    case None
    with ok show ?thesis by (simp add: fail_job_def load_job_def query_def bind_py_def)
  next
    case (Some j)
    then have id: "jb_id j = i" "j \<in> set (jobs (live w))" by (auto dest: tbl_get_Some)
    show ?thesis
    proof (cases "owns j worker")
      case False
      from lost_lease_is_powerless [OF Some False, of "0" err base]
      have "jobs (live (snd (fail_job i worker err base w))) = jobs (live w)
       \<or> jobs (live (snd (fail_job i worker err base w)))
           = tbl_upd jb_id i (last_error_update (\<lambda>_. Some (redact_str err))) (jobs (live w))" by blast
      then show ?thesis
      proof
        assume "jobs (live (snd (fail_job i worker err base w))) = jobs (live w)"
        with ok show ?thesis by (rule queue_ok_same)
      next
        assume "jobs (live (snd (fail_job i worker err base w)))
           = tbl_upd jb_id i (last_error_update (\<lambda>_. Some (redact_str err))) (jobs (live w))"
        with ok show ?thesis by (rule queue_ok_upd) simp_all
      qed
    next
      case True
      from ok have "distinct (map jb_id (jobs (live w)))" by (simp add: queue_ok_def)
      from fail_job_owner [OF Some True this] obtain w' where w': "fail_job i worker err base w = (Inr True, w')"
        "jobs (live w') = tbl_upd jb_id i (\<lambda>_. failed_job (redact_str err) (Aware (clock w (ticks w))) base j) (jobs (live w))"
        by blast
      have eq: "k = j" if "k \<in> set (jobs (live w))" "jb_id k = i" for k
        using that ok Some by (auto simp: queue_ok_def dest: tbl_get_in)
      have "jobs (live w') = map (\<lambda>k. if k = j then failed_job (redact_str err) (Aware (clock w (ticks w))) base j else k) (jobs (live w))"
        unfolding w'(2) tbl_upd_def
      proof (rule map_cong [OF refl])
        fix k assume "k \<in> set (jobs (live w))"
        with eq id(1) have "jb_id k = i \<longleftrightarrow> k = j" by blast
        then show "(if jb_id k = i then failed_job (redact_str err) (Aware (clock w (ticks w))) base j else k)
          = (if k = j then failed_job (redact_str err) (Aware (clock w (ticks w))) base j else k)" by simp
      qed
      with ok have "queue_ok w'"
        by (rule queue_ok_map) auto
      with w'(1) show ?thesis by simp
    qed
  qed
qed

text \<open>C17: every queue operation keeps ids and idempotency keys unique and a job running exactly
  while it has an owner and a lease.\<close>

theorem queue_invariant:
  "keeps queue_ok (enqueue kind adapter data key n) \<and> keeps queue_ok (lease worker adapter secs alimit glimit)
   \<and> keeps queue_ok (heartbeat i worker secs) \<and> keeps queue_ok (succeed i worker)
   \<and> keeps queue_ok (fail_job i worker err base) \<and> keeps queue_ok (recover_expired moment)"
  by (intro conjI queue_ok_enqueue queue_ok_lease queue_ok_heartbeat queue_ok_succeed queue_ok_fail queue_ok_recover)

text \<open>Enqueueing is idempotent: once a key has a job, enqueueing under that key returns the job as
  it is and changes nothing, whatever the other arguments.\<close>

theorem enqueue_idempotent:
  assumes "enqueue kind adapter data key n w = (Inr j, w')"
  shows "enqueue kind' adapter' data' key n' w' = (Inr j, w')"
  using assms
  by (auto simp: enqueue_run Let_def tbl_get_append split: option.splits)

text \<open>Recovery does not look at the attempts: a job that has used its only attempt and whose lease
  expires is made ready again and leased a second time, so \<open>attempts\<close> exceeds \<open>max_attempts\<close>.\<close>

definition spent_job :: job where
  "spent_job = \<lparr>jb_id = 1, jb_kind = ''archive'', jb_adapter = ''file_provider'', payload = PNone,
     idempotency_key = ''k'', jb_status = JRunning, attempts = 1, max_attempts = 1, available_at = Naive 0,
     lease_owner = Some ''w1'', lease_expires_at = Some (Naive 5), heartbeat_at = None, last_error = None\<rparr>"

definition queue_world :: "job list \<Rightarrow> world" where
  "queue_world js = \<lparr>disk = [], live = empty_db\<lparr>jobs := js\<rparr>, durable = empty_db\<lparr>jobs := js\<rparr>,
     clock = (\<lambda>n. int n + 6), ticks = 0, rand = (\<lambda>n. dec n), draws = 0\<rparr>"

theorem recovery_ignores_max_attempts:
  "\<exists>j. fst (seq (recover_expired None) (lease ''w2'' ''file_provider'' 60 1 1) (queue_world [spent_job])) = Inr (Some j)
     \<and> max_attempts j < attempts j"
proof -
  have "case fst (seq (recover_expired None) (lease ''w2'' ''file_provider'' 60 1 1) (queue_world [spent_job])) of
      Inr (Some j) \<Rightarrow> max_attempts j < attempts j | _ \<Rightarrow> False" by code_simp
  then show ?thesis by (auto split: sum.splits option.splits)
qed

definition idle_job :: job where
  "idle_job = spent_job\<lparr>jb_status := JPending, attempts := 0, lease_owner := None, lease_expires_at := None\<rparr>"

theorem lease_respects_limits_witness:
  "\<exists>j w'. lease ''w'' ''file_provider'' 60 1 1 (queue_world [idle_job]) = (Inr (Some j), w') \<and> owns j ''w''"
proof -
  let ?run = "lease ''w'' ''file_provider'' 60 1 1 (queue_world [idle_job])"
  have "case fst ?run of Inr (Some j) \<Rightarrow> True | _ \<Rightarrow> False" by code_simp
  then obtain j w' where run: "?run = (Inr (Some j), w')"
    by (cases ?run) (auto split: sum.splits option.splits)
  have "distinct (map jb_id (jobs (live (queue_world [idle_job]))))" by (simp add: queue_world_def)
  from lease_respects_limits [OF run this] run show ?thesis by blast
qed

lemma owned_example:
  "tbl_get jb_id 1 (jobs (live (queue_world [spent_job]))) = Some spent_job" "owns spent_job ''w1''"
  "\<not> owns spent_job ''w2''" "distinct (map jb_id (jobs (live (queue_world [spent_job]))))" "1 \<le> attempts spent_job"
  by (simp_all add: queue_world_def spent_job_def owns_def)

theorem fail_schedules_retry_witness:
  "\<exists>w' k. fail_job 1 ''w1'' ''boom'' 5 (queue_world [spent_job]) = (Inr True, w') \<and> lease_owner (k :: job) = None
     \<and> tbl_get jb_id 1 (jobs (live w')) = Some k"
  using fail_schedules_retry [OF owned_example(1,2,4,5), of 5 "''boom''"] by auto

theorem lost_lease_is_powerless_witness:
  "succeed 1 ''w2'' (queue_world [spent_job]) = (Inr False, queue_world [spent_job])"
  using lost_lease_is_powerless [OF owned_example(1,3), of 0 "''boom''" 5] by blast

theorem enqueue_idempotent_witness:
  "\<exists>j w'. enqueue ''archive'' ''a'' PNone ''k'' 5 (queue_world []) = (Inr j, w')
     \<and> enqueue ''other'' ''b'' PNone ''k'' 1 w' = (Inr j, w')"
proof -
  obtain j w' where run: "enqueue ''archive'' ''a'' PNone ''k'' 5 (queue_world []) = (Inr j, w')"
    by (simp add: enqueue_run queue_world_def empty_db_def Let_def)
  from enqueue_idempotent [OF run] run show ?thesis by blast
qed

end
