(* ===== verification/Provider_Items.thy ===== *)
theory Provider_Items
  imports Evidence Job_Queue Workflow
begin

text \<open>
  The item tree of the File Provider (\<open>file_provider/service.py\<close>): its fixed folders, the change
  log behind every item, unique names among the children of a folder, and the projection of archived
  items into the tree. Writing rows that break a unique index raises \<open>IntegrityError\<close>.
\<close>

record fp_config =
  fp_active_root :: path
  fp_staging_root :: path
  fp_upload_root :: path
  fp_max_size :: int
  fp_min_free :: rat
  fp_usage :: "int \<times> int"
  fp_test_delete :: bool
  fp_mtime :: int
  fp_sha :: "bytes \<Rightarrow> string"
  fp_uuid5 :: "string \<Rightarrow> string"

section \<open>Constants\<close>

definition ROOT_ID :: string where "ROOT_ID = ''root''"
definition INBOX_ID :: string where "INBOX_ID = ''inbox''"
definition ARCHIVE_ID :: string where "ARCHIVE_ID = ''archive''"
definition UPLOADS_ID :: string where "UPLOADS_ID = ''archive-uploads''"
definition ICLOUD_ID :: string where "ICLOUD_ID = ''archive-icloud''"
definition LOCAL_ID :: string where "LOCAL_ID = ''archive-local''"

definition collections :: "string \<rightharpoonup> string" where
  "collections = map_of [(''file_provider_upload'', UPLOADS_ID), (''icloud_photos'', ICLOUD_ID),
     (''local_test'', LOCAL_ID)]"

definition ready_states :: "archive_state list" where
  "ready_states = [QUARANTINED, READY_FOR_REVALIDATION, READY_FOR_DELETION, ARCHIVED]"

section \<open>Rows of the tree\<close>

text \<open>
  The primary key, the index \<open>ix_file_provider_parent_name\<close> (rows without a parent never clash)
  and the unique \<open>archive_item_id\<close>.
\<close>

definition placed :: "fp_item list \<Rightarrow> (string \<times> string) list" where
  "placed t = List.map_filter (\<lambda>r. map_option (\<lambda>p. (p, fi_name r)) (fi_parent r)) t"

definition fp_unique :: "fp_item list \<Rightarrow> bool" where
  "fp_unique t \<longleftrightarrow> distinct (map fi_id t) \<and> distinct (placed t) \<and> distinct (List.map_filter fi_archive_item t)"

definition write_items :: "(fp_item list \<Rightarrow> fp_item list) \<Rightarrow> (world, unit) py" where
  "write_items f = bind_py (query (\<lambda>d. fp_unique (f (fp_items d)))) (\<lambda>ok.
     seq (require ok IntegrityError) (on_db (fp_items_update f)))"

definition get_fp :: "string \<Rightarrow> (world, fp_item option) py" where
  "get_fp i = query (\<lambda>d. tbl_get fi_id i (fp_items d))"

definition blank_fp :: "string \<Rightarrow> string option \<Rightarrow> string \<Rightarrow> fp_kind \<Rightarrow> datetime \<Rightarrow> fp_item" where
  "blank_fp i parent name kind now = \<lparr>fi_id = i, fi_parent = parent, fi_name = name, fi_kind = kind,
     fi_status = Ready, fi_archive_item = None, fi_size = 0, content_type = ''application/octet-stream'',
     content_version = [], metadata_version = 1, error_message = None, fi_modified_at = now\<rparr>"

definition get_setting :: "string \<Rightarrow> (world, string) py" where
  "get_setting key = bind_py (query (\<lambda>d. tbl_get rs_key key (Models.settings d))) (\<lambda>found.
     case found of Some r \<Rightarrow> ret (rs_value r)
     | None \<Rightarrow> bind_py fresh_token (\<lambda>v.
         seq (on_db (settings_update (\<lambda>t. t @ [\<lparr>rs_key = key, rs_value = v\<rparr>]))) (ret v)))"

definition record_change :: "string \<Rightarrow> string \<Rightarrow> (world, nat) py" where
  "record_change i operation =
     bind_py (query (\<lambda>d. fresh_id fc_sequence (fp_changes d))) (\<lambda>n.
     seq (on_db (fp_changes_update (\<lambda>t. t @ [\<lparr>fc_sequence = n, fc_item = i, fc_operation = operation\<rparr>]))) (
     bind_py (get_fp i) (\<lambda>found.
     seq (case found of None \<Rightarrow> ret ()
          | Some _ \<Rightarrow> bind_py utcnow (\<lambda>now. on_db (fp_items_update (tbl_upd fi_id i
              (\<lambda>x. x\<lparr>metadata_version := n, fi_modified_at := now\<rparr>)))))
     (ret n))))"

definition upsert :: "string \<Rightarrow> (world, unit) py" where
  "upsert i = bind_py (record_change i ''UPSERT'') (\<lambda>_. ret ())"

definition roots :: "(string \<times> string option \<times> string) list" where
  "roots = [(ROOT_ID, None, ''Mnema''), (INBOX_ID, Some ROOT_ID, ''Inbox''),
     (ARCHIVE_ID, Some ROOT_ID, ''Archive''), (UPLOADS_ID, Some ARCHIVE_ID, ''Uploads''),
     (ICLOUD_ID, Some ARCHIVE_ID, ''iCloud Photos''), (LOCAL_ID, Some ARCHIVE_ID, ''Local Imports'')]"

definition add_folder :: "string \<Rightarrow> string option \<Rightarrow> string \<Rightarrow> (world, unit) py" where
  "add_folder i parent name = bind_py utcnow (\<lambda>now.
     seq (write_items (\<lambda>t. t @ [blank_fp i parent name FolderKind now])) (upsert i))"

definition bootstrap_roots :: "(world, unit) py" where
  "bootstrap_roots =
     seq (for_each (\<lambda>(i, parent, name). bind_py (get_fp i) (\<lambda>found.
            case found of Some _ \<Rightarrow> ret () | None \<Rightarrow> add_folder i parent name)) roots)
     (bind_py (get_setting ''file_provider_generation'') (\<lambda>_. ret ()))"

section \<open>Names\<close>

definition path_name :: "string \<Rightarrow> string" where
  "path_name s = (if parts s = [] then [] else last (parts s))"

definition suffixed :: "string \<Rightarrow> string \<Rightarrow> string" where
  "suffixed name suffix = path_stem (path_name name) @ ''-'' @ suffix @ path_suffix (path_name name)"

definition name_taken :: "string \<Rightarrow> string \<Rightarrow> string \<Rightarrow> fp_item list \<Rightarrow> bool" where
  "name_taken parent i name t = list_ex (\<lambda>r. fi_parent r = Some parent \<and> fi_name r = name \<and> fi_id r \<noteq> i) t"

definition name_candidates :: "string \<Rightarrow> string \<Rightarrow> string list" where
  "name_candidates desired i = [desired, suffixed desired (take 8 i), suffixed desired i]"

definition unique_child_name :: "string \<Rightarrow> string \<Rightarrow> string \<Rightarrow> (world, string) py" where
  "unique_child_name parent desired i =
     bind_py (query (\<lambda>d. List.find (\<lambda>c. \<not> name_taken parent i c (fp_items d)) (name_candidates desired i)))
       (\<lambda>found. case found of Some c \<Rightarrow> ret c
          | None \<Rightarrow> raise_py (ValueError ''cannot derive a unique File Provider name''))"

section \<open>Publishing archived items\<close>

definition publishable :: "archive_item \<Rightarrow> bool" where
  "publishable r \<longleftrightarrow> ai_state r \<in> set ready_states \<and> cold_archived_at r \<noteq> None"

definition promote_upload :: "nat \<Rightarrow> string \<Rightarrow> (world, unit) py" where
  "promote_upload a i = bind_py (load_item a) (\<lambda>arc.
     if \<not> publishable arc then ret () else
     bind_py (get_fp i) (\<lambda>found.
     case found of None \<Rightarrow> ret ()
     | Some x \<Rightarrow> if fi_status x = Ready then ret () else
         (let prefix = dec a @ ''-'';
              desired = (if startswith (fi_name x) prefix then fi_name x else prefix @ fi_name x)
          in bind_py (unique_child_name UPLOADS_ID desired i) (\<lambda>name.
             seq (write_items (tbl_upd fi_id i (\<lambda>r. r\<lparr>fi_name := name, fi_parent := Some UPLOADS_ID,
                    fi_status := Ready, error_message := None\<rparr>)))
             (upsert i)))))"

definition mark_upload_failed :: "string \<Rightarrow> string \<Rightarrow> (world, unit) py" where
  "mark_upload_failed i why = bind_py (get_fp i) (\<lambda>found.
     case found of None \<Rightarrow> ret ()
     | Some _ \<Rightarrow> seq (write_items (tbl_upd fi_id i (\<lambda>r. r\<lparr>fi_status := Failed,
                   error_message := Some (take 120 why)\<rparr>))) (upsert i))"

definition archive_fp_id :: "fp_config \<Rightarrow> archive_item \<Rightarrow> string" where
  "archive_fp_id cfg arc = fp_uuid5 cfg (''mnema:archive:'' @ dec (ai_id arc))"

definition folder_id :: "fp_config \<Rightarrow> string \<Rightarrow> string list \<Rightarrow> string" where
  "folder_id cfg provider cumulative =
     fp_uuid5 cfg (''mnema:collection:'' @ provider @ '':'' @ join ''/'' cumulative)"

text \<open>The folders of an iCloud path, one below the other: \<open>walked\<close> are the components walked.\<close>

fun icloud_folders :: "fp_config \<Rightarrow> string \<Rightarrow> string list \<Rightarrow> string \<Rightarrow> string list \<Rightarrow> (world, string) py" where
  "icloud_folders cfg provider walked parent [] = ret parent"
| "icloud_folders cfg provider walked parent (c # cs) =
     (let i = folder_id cfg provider (walked @ [c]) in
      bind_py (get_fp i) (\<lambda>found.
      seq (case found of Some _ \<Rightarrow> ret ()
           | None \<Rightarrow> bind_py (unique_child_name parent c i) (\<lambda>name. add_folder i (Some parent) name))
      (icloud_folders cfg provider (walked @ [c]) i cs)))"

definition project_place :: "fp_config \<Rightarrow> archive_item \<Rightarrow> string list \<Rightarrow> string \<Rightarrow> (world, string \<times> string) py" where
  "project_place cfg arc original i =
     (let collection = (case collections (source_provider arc) of Some c \<Rightarrow> c | None \<Rightarrow> LOCAL_ID) in
      if source_provider arc = ''icloud_photos'' then
        bind_py (icloud_folders cfg (source_provider arc) [] collection (butlast original)) (\<lambda>parent.
        bind_py (unique_child_name parent (last original) i) (\<lambda>name. ret (parent, name)))
      else bind_py (unique_child_name collection (dec (ai_id arc) @ ''-'' @ last original) i)
             (\<lambda>name. ret (collection, name)))"

definition project_archive :: "fp_config \<Rightarrow> archive_item \<Rightarrow> (world, nat) py" where
  "project_archive cfg arc =
     (if \<not> publishable arc then ret 0 else
      bind_py (query (\<lambda>d. List.find (\<lambda>x. fi_archive_item x = Some (ai_id arc)) (fp_items d))) (\<lambda>existing.
      bind_py (lift_sum (safe_relative_path (original_path arc))) (\<lambda>original.
      (let identifier = archive_fp_id cfg arc in
       bind_py (project_place cfg arc original (case existing of Some x \<Rightarrow> fi_id x | None \<Rightarrow> identifier))
         (\<lambda>(parent, name).
         case existing of
           None \<Rightarrow>
             seq (write_items (\<lambda>t. t @ [(blank_fp identifier (Some parent) name FileKind (original_modified_at arc))
                    \<lparr>fi_archive_item := Some (ai_id arc), fi_size := original_size arc,
                     content_version := (case plaintext_sha256 arc of Some h \<Rightarrow> h | None \<Rightarrow> [])\<rparr>]))
             (seq (upsert identifier) (ret 1))
         | Some x \<Rightarrow>
             if fi_parent x \<noteq> Some parent \<or> fi_name x \<noteq> name then
               seq (write_items (tbl_upd fi_id (fi_id x) (\<lambda>r. r\<lparr>fi_parent := Some parent, fi_name := name\<rparr>)))
               (seq (upsert (fi_id x)) (ret 1))
             else ret 0)))))"

definition project_verified_archives :: "fp_config \<Rightarrow> (world, nat) py" where
  "project_verified_archives cfg =
     seq bootstrap_roots (
     bind_py (query (\<lambda>d. filter (\<lambda>r. nas_path r \<noteq> None) (items d))) (\<lambda>candidates.
     bind_py (map_py (project_archive cfg) candidates) (\<lambda>ns. ret (sum_list ns))))"

section \<open>The invariant of the tree\<close>

text \<open>
  Keys are unique, the log is strictly ascending, and the metadata version of every item is the
  sequence number of a change logged for it; both for the session and for the committed data.
\<close>

definition logged :: "db \<Rightarrow> bool" where
  "logged d \<longleftrightarrow> sorted_wrt (<) (map fc_sequence (fp_changes d)) \<and>
     (\<forall>x \<in> set (fp_items d). (fi_id x, metadata_version x) \<in> set (map (\<lambda>c. (fc_item c, fc_sequence c)) (fp_changes d)))"

definition tree_ok :: "db \<Rightarrow> bool" where
  "tree_ok d \<longleftrightarrow> fp_unique (fp_items d) \<and> logged d"

definition tree :: "world \<Rightarrow> bool" where
  "tree w \<longleftrightarrow> tree_ok (live w) \<and> tree_ok (durable w)"

named_theorems tree_rules \<open>what keeps the invariant of the tree\<close>

lemma tree_frame:
  assumes "\<And>w. fp_items (live (snd (m w))) = fp_items (live w)"
    "\<And>w. fp_changes (live (snd (m w))) = fp_changes (live w)" "\<And>w. durable (snd (m w)) = durable w"
  shows "keeps tree m"
  using assms by (simp add: keeps_def tree_def tree_ok_def logged_def)

lemma tree_on_db:
  assumes "\<And>d. fp_items (f d) = fp_items d" "\<And>d. fp_changes (f d) = fp_changes d"
  shows "keeps tree (on_db f)"
  by (rule tree_frame) (simp_all add: on_db_def assms)

lemma tree_basic [tree_rules]:
  "keeps tree (on_disk m)" "keeps tree utcnow" "keeps tree fresh_token" "keeps tree (query f)"
  by (rule tree_frame; simp add: on_disk_def utcnow_def fresh_token_def query_def split: prod.split)+

lemma tree_session [tree_rules]:
  assumes "keeps tree m" shows "keeps tree (session_block m)"
proof (rule keepsI)
  fix w assume "tree w"
  then have "tree (w\<lparr>live := durable w\<rparr>)" by (simp add: tree_def)
  then have "tree (snd (m (w\<lparr>live := durable w\<rparr>)))" by (rule keepsD [OF assms])
  then show "tree (snd (session_block m w))"
    by (auto simp: session_block_def tree_def split: prod.split sum.split)
qed

lemma tree_get [tree_rules]: "keeps tree (get_fp i)" "keeps tree (load_item a)"
  unfolding get_fp_def load_item_def
  by (auto intro!: keeps_bind keeps_ret keeps_raise tree_rules split: option.split)

lemma tree_get_setting [tree_rules]: "keeps tree (get_setting k)"
  unfolding get_setting_def
  by (auto intro!: keeps_bind keeps_seq keeps_ret tree_rules tree_on_db split: option.split)

lemma tree_unique_child_name [tree_rules]: "keeps tree (unique_child_name p n i)"
  unfolding unique_child_name_def
  by (auto intro!: keeps_bind keeps_ret keeps_raise tree_rules split: option.split)

lemma seq_assoc: "seq m (seq n k) = seq (seq m n) k"
  by (rule ext) (simp add: seq_def bind_py_def split: prod.split sum.split)

lemma map_filter_map: "List.map_filter g (map f t) = List.map_filter (\<lambda>x. g (f x)) t"
  by (induction t) (auto simp: List.map_filter_def)

lemma fp_unique_upd:
  assumes "\<And>r. fi_id (f r) = fi_id r" "\<And>r. fi_parent (f r) = fi_parent r" "\<And>r. fi_name (f r) = fi_name r"
    "\<And>r. fi_archive_item (f r) = fi_archive_item r"
  shows "fp_unique (tbl_upd fi_id i f t) = fp_unique t"
proof -
  have "map fi_id (tbl_upd fi_id i f t) = map fi_id t" by (simp add: keys_tbl_upd assms)
  moreover have "placed (tbl_upd fi_id i f t) = placed t"
    unfolding placed_def tbl_upd_def map_filter_map
    by (rule arg_cong2 [where f = List.map_filter]) (auto simp: assms)
  moreover have "List.map_filter fi_archive_item (tbl_upd fi_id i f t) = List.map_filter fi_archive_item t"
    unfolding tbl_upd_def map_filter_map
    by (rule arg_cong2 [where f = List.map_filter]) (auto simp: assms)
  ultimately show ?thesis by (simp add: fp_unique_def)
qed

text \<open>What logging a change does: one more entry, with a number above all others.\<close>

definition stamp :: "nat \<Rightarrow> datetime \<Rightarrow> fp_item \<Rightarrow> fp_item" where
  "stamp n now x = x\<lparr>metadata_version := n, fi_modified_at := now\<rparr>"

lemma stamp_fields [simp]: "fi_id (stamp n now r) = fi_id r" "fi_parent (stamp n now r) = fi_parent r"
  "fi_name (stamp n now r) = fi_name r" "fi_archive_item (stamp n now r) = fi_archive_item r"
  "metadata_version (stamp n now r) = n" "fi_status (stamp n now r) = fi_status r"
  "error_message (stamp n now r) = error_message r" "content_version (stamp n now r) = content_version r"
  "fi_modified_at (stamp n now r) = now" "fi_kind (stamp n now r) = fi_kind r"
  by (simp_all add: stamp_def)

lemma record_change_run:
  "record_change i op w =
     (let n = fresh_id fc_sequence (fp_changes (live w));
          d = fp_changes_update (\<lambda>t. t @ [\<lparr>fc_sequence = n, fc_item = i, fc_operation = op\<rparr>]) (live w)
      in (Inr n, if tbl_get fi_id i (fp_items (live w)) = None then w\<lparr>live := d\<rparr>
           else w\<lparr>live := fp_items_update (tbl_upd fi_id i (stamp n (Aware (clock w (ticks w))))) d,
                  ticks := Suc (ticks w)\<rparr>))"
  by (simp add: record_change_def get_fp_def query_def on_db_def utcnow_def py_defs Let_def stamp_def [abs_def]
      split: option.split)

lemma record_change_tree:
  assumes un: "fp_unique (fp_items (live w))" and du: "tree_ok (durable w)"
    and so: "sorted_wrt (<) (map fc_sequence (fp_changes (live w)))"
    and others: "\<And>x. x \<in> set (fp_items (live w)) \<Longrightarrow> fi_id x \<noteq> i \<Longrightarrow>
      (fi_id x, metadata_version x) \<in> set (map (\<lambda>c. (fc_item c, fc_sequence c)) (fp_changes (live w)))"
  shows "tree (snd (record_change i op w))"
proof -
  let ?n = "fresh_id fc_sequence (fp_changes (live w))" and ?cs = "fp_changes (live w)"
  let ?now = "Aware (clock w (ticks w))"
  have sorted: "sorted_wrt (<) (map fc_sequence ?cs @ [?n])"
    using so fresh_id_gt [of _ ?cs fc_sequence] by (auto simp: sorted_wrt_append)
  have rows: "(fi_id x, metadata_version x) \<in> insert (i, ?n) (set (map (\<lambda>c. (fc_item c, fc_sequence c)) ?cs))"
    if "x \<in> set (tbl_upd fi_id i (stamp ?n ?now) (fp_items (live w)))" for x
    using that others by (auto dest!: set_tbl_upd)
  have none: "fi_id x \<noteq> i" if "tbl_get fi_id i (fp_items (live w)) = None" "x \<in> set (fp_items (live w))" for x
    using that by (auto simp: tbl_get_None)
  show ?thesis
  proof (cases "tbl_get fi_id i (fp_items (live w)) = None")
    case True
    with un du sorted others none show ?thesis
      by (auto simp: record_change_run Let_def tree_def tree_ok_def logged_def)
  next
    case False
    with un du sorted rows show ?thesis
      by (auto simp: record_change_run Let_def tree_def tree_ok_def logged_def fp_unique_upd)
  qed
qed

lemma tree_record_change [tree_rules]: "keeps tree (record_change i op)"
  by (rule keepsI, rule record_change_tree) (auto simp: tree_def tree_ok_def logged_def)

lemma tree_upsert [tree_rules]: "keeps tree (upsert i)"
  unfolding upsert_def by (intro keeps_bind tree_rules keeps_ret)

text \<open>A write that touches only the row whose change is logged next.\<close>

lemma tree_write_upsert [tree_rules]:
  assumes "\<And>t x. x \<in> set (f t) \<Longrightarrow> fi_id x \<noteq> i \<Longrightarrow> x \<in> set t"
  shows "keeps tree (seq (write_items f) (upsert i))"
proof (rule keepsI)
  fix w assume w: "tree w"
  show "tree (snd (seq (write_items f) (upsert i) w))"
  proof (cases "fp_unique (f (fp_items (live w)))")
    case True
    let ?w = "w\<lparr>live := fp_items_update f (live w)\<rparr>"
    have "tree (snd (record_change i ''UPSERT'' ?w))"
      by (rule record_change_tree) (use w True assms in \<open>auto simp: tree_def tree_ok_def logged_def\<close>)
    with True show ?thesis
      by (simp add: seq_def write_items_def query_def on_db_def upsert_def bind_py_def split: prod.split sum.split)
        (metis snd_conv)
  next
    case False
    with w show ?thesis by (simp add: seq_def write_items_def query_def bind_py_def)
  qed
qed

lemma tree_write_upsert_then [tree_rules]:
  assumes "\<And>t x. x \<in> set (f t) \<Longrightarrow> fi_id x \<noteq> i \<Longrightarrow> x \<in> set t" "keeps tree m"
  shows "keeps tree (seq (write_items f) (seq (upsert i) m))"
  unfolding seq_assoc by (rule keeps_seq [OF tree_write_upsert assms(2)]) (rule assms(1))

text \<open>The same for an update of that row.\<close>

lemma tree_upd_upsert [tree_rules]:
  assumes "\<And>r. fi_id (f r) = fi_id r"
  shows "keeps tree (seq (write_items (tbl_upd fi_id i f)) (upsert i))"
  using assms by (intro tree_write_upsert) (auto dest!: set_tbl_upd)

lemma tree_add_folder [tree_rules]: "keeps tree (add_folder i p n)"
  unfolding add_folder_def
  by (intro keeps_bind tree_rules) (auto simp: blank_fp_def)

lemma tree_bootstrap_roots [tree_rules]: "keeps tree bootstrap_roots"
  unfolding bootstrap_roots_def
  by (auto intro!: keeps_seq keeps_bind keeps_for_each keeps_ret tree_rules split: option.split)

lemma tree_mark_upload_failed [tree_rules]: "keeps tree (mark_upload_failed i c)"
  unfolding mark_upload_failed_def
  by (auto intro!: keeps_bind keeps_ret tree_rules split: option.split)

lemma tree_promote_upload [tree_rules]: "keeps tree (promote_upload a i)"
  unfolding promote_upload_def Let_def
  by (auto intro!: keeps_bind keeps_ret tree_rules split: option.split)

lemma tree_icloud_folders [tree_rules]: "keeps tree (icloud_folders cfg p walked par cs)"
  by (induction cs arbitrary: walked par)
    (auto simp: Let_def intro!: keeps_bind keeps_seq keeps_ret tree_rules split: option.split)

lemma tree_project_place [tree_rules]: "keeps tree (project_place cfg arc original i)"
  unfolding project_place_def Let_def by (auto intro!: keeps_bind keeps_ret tree_rules)

lemma tree_project_archive [tree_rules]: "keeps tree (project_archive cfg arc)"
proof -
  have "keeps tree (seq (write_items (\<lambda>t. t @ [x])) (seq (upsert (fi_id x)) (ret 1)))" for x
    by (intro tree_rules keeps_ret) auto
  then have new: "keeps tree (seq (write_items (\<lambda>t. t @ [x])) (seq (upsert i) (ret 1)))" if "fi_id x = i" for x i
    using that by blast
  show ?thesis
    unfolding project_archive_def Let_def
    by (auto intro!: keeps_bind keeps_ret keeps_lift_sum tree_rules new simp: blank_fp_def
        dest!: set_tbl_upd split: option.split)
qed

lemma tree_project [tree_rules]: "keeps tree (project_verified_archives cfg)"
  unfolding project_verified_archives_def
  by (intro keeps_seq keeps_bind keeps_map_py keeps_ret tree_rules)

section \<open>Unique names\<close>

lemma placed_append: "placed (s @ t) = placed s @ placed t"
  by (simp add: placed_def List.map_filter_def)

lemma placed_member: "(p, n) \<in> set (placed t) \<longleftrightarrow> (\<exists>r \<in> set t. fi_parent r = Some p \<and> fi_name r = n)"
  by (auto simp: placed_def List.map_filter_def intro: rev_image_eqI)

lemma tbl_upd_absent: "k \<notin> key ` set t \<Longrightarrow> tbl_upd key k f t = t"
  unfolding tbl_upd_def by (rule map_idI) auto

text \<open>A row moved to a place no other row has keeps the indices unique.\<close>

lemma fp_unique_place:
  assumes un: "fp_unique t" and free: "\<not> name_taken p i name t"
    and f: "\<And>r. fi_id (f r) = fi_id r" "\<And>r. fi_archive_item (f r) = fi_archive_item r"
      "\<And>r. fi_parent (f r) = Some p" "\<And>r. fi_name (f r) = name"
  shows "fp_unique (tbl_upd fi_id i f t)"
proof (cases "i \<in> fi_id ` set t")
  case False
  then show ?thesis using un by (simp add: tbl_upd_absent)
next
  case True
  then obtain us x vs where t: "t = us @ x # vs" "fi_id x = i" by (metis imageE split_list)
  with un have out: "i \<notin> fi_id ` set us" "i \<notin> fi_id ` set vs" by (auto simp: fp_unique_def)
  from out have other: "\<forall>r \<in> set us \<union> set vs. fi_id r \<noteq> i" by blast
  from out have upd: "tbl_upd fi_id i f t = us @ f x # vs"
    using t tbl_upd_absent [of i fi_id us f] tbl_upd_absent [of i fi_id vs f] by (simp add: tbl_upd_def)
  have place: "placed [f x] = [(p, name)]" by (simp add: placed_def List.map_filter_def f)
  have "(p, name) \<notin> set (placed us)" "(p, name) \<notin> set (placed vs)"
    using free other t unfolding placed_member name_taken_def list_ex_iff by auto
  moreover have "placed (us @ [x] @ vs) = placed us @ placed [x] @ placed vs"
    "placed (us @ [f x] @ vs) = placed us @ placed [f x] @ placed vs" by (simp_all only: placed_append)
  ultimately have "distinct (placed (us @ f x # vs))"
    using un t place by (auto simp: fp_unique_def)
  moreover have "map fi_id (us @ f x # vs) = map fi_id t" using t f by simp
  moreover have "List.map_filter fi_archive_item (us @ f x # vs) = List.map_filter fi_archive_item t"
    using t f by (simp add: List.map_filter_def)
  ultimately show ?thesis using un upd by (simp add: fp_unique_def)
qed

lemma unique_child_name_cases:
  obtains (free) c where "unique_child_name p n i w = (Inr c, w)" "c \<in> set (name_candidates n i)"
      "\<not> name_taken p i c (fp_items (live w))"
  | (full) "\<forall>c \<in> set (name_candidates n i). name_taken p i c (fp_items (live w))"
      "unique_child_name p n i w = (Inl (ValueError ''cannot derive a unique File Provider name''), w)"
proof (cases "List.find (\<lambda>c. \<not> name_taken p i c (fp_items (live w))) (name_candidates n i)")
  case None
  then have "unique_child_name p n i w = (Inl (ValueError ''cannot derive a unique File Provider name''), w)"
    by (simp add: unique_child_name_def query_def bind_py_def)
  moreover from None have "\<forall>c \<in> set (name_candidates n i). name_taken p i c (fp_items (live w))"
    by (auto simp: find_None_iff)
  ultimately show thesis using full by blast
next
  case (Some c)
  then have "unique_child_name p n i w = (Inr c, w)" by (simp add: unique_child_name_def query_def bind_py_def)
  moreover from Some have "c \<in> set (name_candidates n i) \<and> \<not> name_taken p i c (fp_items (live w))"
    by (auto simp: find_Some_iff)
  ultimately show thesis using free by blast
qed

lemma upsert_present:
  assumes "tbl_get fi_id i (fp_items (live w)) = Some x"
  shows "upsert i w = (Inr (), w\<lparr>live := fp_items_update (tbl_upd fi_id i
      (stamp (fresh_id fc_sequence (fp_changes (live w))) (Aware (clock w (ticks w)))))
      (fp_changes_update (\<lambda>t. t @ [\<lparr>fc_sequence = fresh_id fc_sequence (fp_changes (live w)), fc_item = i,
         fc_operation = ''UPSERT''\<rparr>]) (live w)), ticks := Suc (ticks w)\<rparr>)"
  using assms by (simp add: upsert_def record_change_run bind_py_def Let_def)

lemma tbl_upd_twice: "(\<And>r. key (g r) = key r) \<Longrightarrow> tbl_upd key k f (tbl_upd key k g t) = tbl_upd key k (\<lambda>r. f (g r)) t"
  unfolding tbl_upd_def map_map by (rule map_cong) auto

definition promoted :: "string \<Rightarrow> fp_item \<Rightarrow> fp_item" where
  "promoted name r = r\<lparr>fi_name := name, fi_parent := Some UPLOADS_ID, fi_status := Ready, error_message := None\<rparr>"

text \<open>Promoting the upload of a publishable archive item moves its row, and no other, to the
  uploads folder under a name no other child of that folder has and logs the change; the unique index
  is never violated, and only when all three names derived from the item are taken does it raise,
  without having changed anything.\<close>

theorem promote_upload_publishes:
  assumes un: "fp_unique (fp_items (live w))"
    and arc: "tbl_get ai_id a (items (live w)) = Some (arc :: archive_item)" "publishable arc"
    and row: "tbl_get fi_id i (fp_items (live w)) = Some (x :: fp_item)" "fi_status x \<noteq> Ready"
  defines "desired \<equiv> if startswith (fi_name x) (dec a @ ''-'') then fi_name x else dec a @ ''-'' @ fi_name x"
    and "n \<equiv> fresh_id fc_sequence (fp_changes (live w))"
  shows "promote_upload a i w = (Inl (ValueError ''cannot derive a unique File Provider name''), w)
      \<and> (\<forall>c \<in> set (name_candidates desired i). name_taken UPLOADS_ID i c (fp_items (live w)))
    \<or> (\<exists>name \<in> set (name_candidates desired i). \<not> name_taken UPLOADS_ID i name (fp_items (live w))
        \<and> promote_upload a i w = (Inr (), w\<lparr>live := fp_items_update
             (tbl_upd fi_id i (\<lambda>r. stamp n (Aware (clock w (ticks w))) (promoted name r)))
             (fp_changes_update (\<lambda>t. t @ [\<lparr>fc_sequence = n, fc_item = i, fc_operation = ''UPSERT''\<rparr>]) (live w)),
             ticks := Suc (ticks w)\<rparr>))"
proof (cases rule: unique_child_name_cases [of UPLOADS_ID desired i w])
  case (free name)
  let ?f = "promoted name"
  have un': "fp_unique (tbl_upd fi_id i ?f (fp_items (live w)))"
    using un free(3) by (rule fp_unique_place) (simp_all add: promoted_def)
  let ?w = "w\<lparr>live := fp_items_update (tbl_upd fi_id i ?f) (live w)\<rparr>"
  have "tbl_get fi_id i (fp_items (live ?w)) = Some (?f x)"
    using row by (simp add: tbl_get_upd_same promoted_def)
  note up = upsert_present [OF this]
  have "promote_upload a i w = upsert i ?w"
    using arc row free un'
    by (simp add: promote_upload_def load_item_def get_fp_def query_def bind_py_def desired_def
        write_items_def on_db_def seq_def promoted_def [abs_def] split: if_splits)
  with up free show ?thesis by (auto simp: n_def tbl_upd_twice promoted_def)
next
  case full
  then show ?thesis
    using arc row
    by (simp add: promote_upload_def load_item_def get_fp_def query_def bind_py_def desired_def
        split: if_splits)
qed

section \<open>Projection converges\<close>

fun folder_ids :: "fp_config \<Rightarrow> string \<Rightarrow> string list \<Rightarrow> string list \<Rightarrow> string list" where
  "folder_ids cfg provider walked [] = []"
| "folder_ids cfg provider walked (c # cs) =
     folder_id cfg provider (walked @ [c]) # folder_ids cfg provider (walked @ [c]) cs"

definition has_row :: "db \<Rightarrow> string \<Rightarrow> bool" where
  "has_row d i \<longleftrightarrow> tbl_get fi_id i (fp_items d) \<noteq> None"

text \<open>\<open>grows w w'\<close>: only folder rows were added to the tree.\<close>

definition grows :: "world \<Rightarrow> world \<Rightarrow> bool" where
  "grows w w' \<longleftrightarrow> (\<exists>F. fp_items (live w') = fp_items (live w) @ F \<and> (\<forall>r \<in> set F. fi_archive_item r = None))"

lemma grows_refl: "grows w w"
  by (simp add: grows_def)

lemma grows_trans: "grows a b \<Longrightarrow> grows b c \<Longrightarrow> grows a c"
  unfolding grows_def by (metis Un_iff append.assoc set_append)

lemma grows_has_row: "grows w w' \<Longrightarrow> has_row (live w) i \<Longrightarrow> has_row (live w') i"
  by (auto simp: grows_def has_row_def tbl_get_append split: option.splits)

lemma add_folder_grows:
  assumes "add_folder i p n w = (Inr u, w')" "\<not> has_row (live w) i"
  shows "grows w w' \<and> has_row (live w') i"
proof -
  let ?row = "blank_fp i p n FolderKind (Aware (clock w (ticks w)))"
  let ?w = "w\<lparr>ticks := Suc (ticks w), live := fp_items_update (\<lambda>t. t @ [?row]) (live w)\<rparr>"
  from assms(2) have none: "tbl_get fi_id i (fp_items (live w)) = None" by (simp add: has_row_def)
  then have get: "tbl_get fi_id i (fp_items (live ?w)) = Some ?row"
    by (simp add: tbl_get_append blank_fp_def)
  from assms(1) have "upsert i ?w = (Inr u, w')"
    by (auto simp: add_folder_def utcnow_def write_items_def query_def on_db_def seq_def bind_py_def
        require_def split: if_splits)
  with get have "\<exists>s. fp_items (live w') = tbl_upd fi_id i s (fp_items (live w) @ [?row])
      \<and> (\<forall>r. fi_archive_item (s r) = fi_archive_item r) \<and> (\<forall>r. fi_id (s r) = fi_id r)"
    by (auto simp: upsert_present)
  then obtain s where s: "fp_items (live w') = tbl_upd fi_id i s (fp_items (live w) @ [?row])"
    "\<And>r. fi_archive_item (s r) = fi_archive_item r" "\<And>r. fi_id (s r) = fi_id r" by blast
  have "tbl_upd fi_id i s (fp_items (live w)) = fp_items (live w)"
    using none by (intro tbl_upd_absent) (auto simp: tbl_get_None)
  then have "fp_items (live w') = fp_items (live w) @ [s ?row]"
    using s(1) by (simp add: tbl_upd_def blank_fp_def)
  then show ?thesis using s(2,3) by (auto simp: grows_def has_row_def tbl_get_append blank_fp_def split: option.split)
qed

lemma icloud_folders_grows:
  "icloud_folders cfg pr walked par cs w = (Inr p, w') \<Longrightarrow>
     grows w w' \<and> (\<forall>i \<in> set (folder_ids cfg pr walked cs). has_row (live w') i)
     \<and> p = last (par # folder_ids cfg pr walked cs)"
proof (induction cs arbitrary: walked par w)
  case Nil
  then show ?case by (simp add: grows_refl)
next
  case (Cons c cs)
  let ?i = "folder_id cfg pr (walked @ [c])"
  have "\<exists>w1. grows w w1 \<and> has_row (live w1) ?i \<and> icloud_folders cfg pr (walked @ [c]) ?i cs w1 = (Inr p, w')"
  proof (cases "tbl_get fi_id ?i (fp_items (live w))")
    case (Some r)
    with Cons.prems have "icloud_folders cfg pr (walked @ [c]) ?i cs w = (Inr p, w')"
      by (simp add: Let_def get_fp_def query_def bind_py_def seq_def)
    with Some grows_refl [of w] show ?thesis unfolding has_row_def by (metis option.distinct(1))
  next
    case None
    show ?thesis
    proof (cases rule: unique_child_name_cases [of par c ?i w])
      case (free name)
      obtain r w1 where run: "add_folder ?i (Some par) name w = (r, w1)" by force
      with Cons.prems None free obtain u where u: "r = Inr u"
        "icloud_folders cfg pr (walked @ [c]) ?i cs w1 = (Inr p, w')"
        by (cases r) (simp_all add: Let_def get_fp_def query_def bind_py_def seq_def)
      with add_folder_grows [of ?i "Some par" name w _ w1] run None have "grows w w1 \<and> has_row (live w1) ?i"
        by (simp add: has_row_def)
      with u(2) show ?thesis by blast
    next
      case full
      with Cons.prems None show ?thesis by (simp add: Let_def get_fp_def query_def bind_py_def seq_def)
    qed
  qed
  then obtain w1 where w1: "grows w w1" "has_row (live w1) ?i"
    "icloud_folders cfg pr (walked @ [c]) ?i cs w1 = (Inr p, w')" by blast
  from Cons.IH [OF w1(3)] have IH: "grows w1 w'" "\<forall>i \<in> set (folder_ids cfg pr (walked @ [c]) cs). has_row (live w') i"
    "p = last (?i # folder_ids cfg pr (walked @ [c]) cs)" by blast+
  from grows_has_row [OF IH(1) w1(2)] grows_trans [OF w1(1) IH(1)] IH(2,3) show ?case
    by (simp only: folder_ids.simps list.set ball_simps last.simps if_False if_True simp_thms list.distinct)
qed

lemma icloud_folders_again:
  "\<forall>i \<in> set (folder_ids cfg pr walked cs). has_row (live w) i \<Longrightarrow>
     icloud_folders cfg pr walked par cs w = (Inr (last (par # folder_ids cfg pr walked cs)), w)"
  by (induction cs arbitrary: walked par)
    (auto simp: Let_def get_fp_def query_def bind_py_def seq_def has_row_def)

lemma project_place_settled:
  assumes "project_place cfg arc original i w = (Inr (par, name), w1)"
    "fp_items (live w2) = g (fp_items (live w1))"
    "\<And>k. has_row (live w1) k \<Longrightarrow> has_row (live w2) k"
    "\<And>c. name_taken par i c (g (fp_items (live w1))) = name_taken par i c (fp_items (live w1))"
  shows "project_place cfg arc original i w2 = (Inr (par, name), w2) \<and> grows w w1
    \<and> \<not> name_taken par i name (fp_items (live w1))"
proof -
  have again: "unique_child_name par n i w2 = (Inr name, w2)"
    if "unique_child_name par n i w1 = (Inr name, w1')" for n w1'
    using that assms(2,4) by (simp add: unique_child_name_def query_def bind_py_def split: option.splits)
  have name: "unique_child_name p n i v = (Inr c, v') \<Longrightarrow> v' = v \<and> \<not> name_taken p i c (fp_items (live v))"
    for p n v c v' by (cases rule: unique_child_name_cases [of p n i v]) auto
  show ?thesis
  proof (cases "source_provider arc = ''icloud_photos''")
    case True
    let ?coll = "case collections (source_provider arc) of Some c \<Rightarrow> c | None \<Rightarrow> LOCAL_ID"
    from assms(1) True obtain p v where run: "icloud_folders cfg (source_provider arc) [] ?coll (butlast original) w = (Inr p, v)"
      and nm: "unique_child_name p (last original) i v = (Inr name, w1)" and "p = par"
      by (auto simp: project_place_def Let_def elim!: bind_py_Inr_E)
    with name [OF nm] icloud_folders_grows [OF run] have v: "v = w1" "\<not> name_taken par i name (fp_items (live w1))"
      "grows w w1" "\<forall>k \<in> set (folder_ids cfg (source_provider arc) [] (butlast original)). has_row (live w2) k"
      "par = last (?coll # folder_ids cfg (source_provider arc) [] (butlast original))" using assms(3) by auto
    have "icloud_folders cfg (source_provider arc) [] ?coll (butlast original) w2 = (Inr par, w2)"
      unfolding v(5) by (rule icloud_folders_again [OF v(4)])
    with again nm v \<open>p = par\<close> True show ?thesis by (simp add: project_place_def Let_def)
  next
    case False
    with assms(1) obtain n where par: "par = (case collections (source_provider arc) of Some c \<Rightarrow> c | None \<Rightarrow> LOCAL_ID)"
      and nm: "unique_child_name par n i w = (Inr name, w1)" and n: "n = dec (ai_id arc) @ ''-'' @ last original"
      by (auto simp: project_place_def Let_def elim!: bind_py_Inr_E)
    with name [OF nm] have "w1 = w" "\<not> name_taken par i name (fp_items (live w1))" by auto
    with again [of n w1] nm False par n show ?thesis by (simp add: project_place_def Let_def grows_refl)
  qed
qed

lemma find_tbl_upd:
  "(\<And>r. P (f r) = P r) \<Longrightarrow>
     List.find P (tbl_upd key k f t) = map_option (\<lambda>r. if key r = k then f r else r) (List.find P t)"
  by (induction t) (auto simp: tbl_upd_def)

lemma find_append: "List.find P (s @ t) = (case List.find P s of Some x \<Rightarrow> Some x | None \<Rightarrow> List.find P t)"
  by (induction s) auto

lemma name_taken_append: "name_taken p i c (t @ u) \<longleftrightarrow> name_taken p i c t \<or> name_taken p i c u"
  by (simp add: name_taken_def)

lemma name_taken_upd:
  "(\<And>r. fi_id (f r) = fi_id r) \<Longrightarrow> name_taken p i c (tbl_upd fi_id i f t) = name_taken p i c t"
  by (induction t) (auto simp: name_taken_def tbl_upd_def)

lemma has_row_iff: "has_row d k \<longleftrightarrow> k \<in> fi_id ` set (fp_items d)"
  by (simp add: has_row_def tbl_get_None)

lemma keys_upd: "(\<And>r. key (f r) = key r) \<Longrightarrow> key ` set (tbl_upd key k f t) = key ` set t"
  using keys_tbl_upd [of key f k t] by (metis set_map)

text \<open>The world after a projection that had to write: one row with the place it computed.\<close>

definition fp_row_of :: "fp_config \<Rightarrow> archive_item \<Rightarrow> string \<Rightarrow> string \<Rightarrow> fp_item" where
  "fp_row_of cfg arc par name = (blank_fp (archive_fp_id cfg arc) (Some par) name FileKind
     (original_modified_at arc))\<lparr>fi_archive_item := Some (ai_id arc), fi_size := original_size arc,
     content_version := (case plaintext_sha256 arc of Some h \<Rightarrow> h | None \<Rightarrow> [])\<rparr>"

lemma project_archive_Inr:
  assumes "project_archive cfg arc w = (Inr n, w')" "publishable arc"
  obtains (new) original par name w1 k now where "List.find (\<lambda>x. fi_archive_item x = Some (ai_id arc)) (fp_items (live w)) = None"
      "safe_relative_path (original_path arc) = Inr original" "n = 1"
      "project_place cfg arc original (fi_id (fp_row_of cfg arc par name)) w = (Inr (par, name), w1)"
      "fi_id (fp_row_of cfg arc par name) \<notin> fi_id ` set (fp_items (live w1))"
      "fp_items (live w') = fp_items (live w1) @ [stamp k (Aware (clock w1 now)) (fp_row_of cfg arc par name)]"
  | (moved) original par name w1 x k now where "List.find (\<lambda>x. fi_archive_item x = Some (ai_id arc)) (fp_items (live w)) = Some x"
      "safe_relative_path (original_path arc) = Inr original" "n = 1"
      "project_place cfg arc original (fi_id x) w = (Inr (par, name), w1)" "fi_id x \<in> fi_id ` set (fp_items (live w1))"
      "fp_items (live w') = tbl_upd fi_id (fi_id x)
         (\<lambda>r. stamp k (Aware (clock w1 now)) (r\<lparr>fi_parent := Some par, fi_name := name\<rparr>)) (fp_items (live w1))"
  | (kept) original par name x where "List.find (\<lambda>x. fi_archive_item x = Some (ai_id arc)) (fp_items (live w)) = Some x"
      "safe_relative_path (original_path arc) = Inr original" "n = 0"
      "project_place cfg arc original (fi_id x) w = (Inr (par, name), w')" "fi_parent x = Some par" "fi_name x = name"
proof -
  let ?P = "\<lambda>x. fi_archive_item x = Some (ai_id arc)" and ?ws = "fp_items (live w)"
  from assms obtain original where ori: "safe_relative_path (original_path arc) = Inr original"
    by (cases "safe_relative_path (original_path arc)") (auto simp: project_archive_def query_def bind_py_def)
  show thesis
  proof (cases "List.find ?P ?ws")
    case None
    let ?i = "archive_fp_id cfg arc"
    from None assms ori obtain par name w1
      where place: "project_place cfg arc original ?i w = (Inr (par, name), w1)"
        and rest: "seq (write_items (\<lambda>t. t @ [fp_row_of cfg arc par name])) (seq (upsert ?i) (ret 1)) w1 = (Inr n, w')"
      unfolding fp_row_of_def
      by (auto simp: project_archive_def query_def Let_def elim!: bind_py_Inr_E)
    have id: "fi_id (fp_row_of cfg arc par name) = ?i" by (simp add: fp_row_of_def blank_fp_def)
    from rest have un: "fp_unique (fp_items (live w1) @ [fp_row_of cfg arc par name])"
      by (auto simp: seq_def write_items_def query_def bind_py_def require_def split: if_splits)
    then have out: "?i \<notin> fi_id ` set (fp_items (live w1))" by (auto simp: fp_unique_def id)
    let ?w = "w1\<lparr>live := fp_items_update (\<lambda>t. t @ [fp_row_of cfg arc par name]) (live w1)\<rparr>"
    have none: "tbl_get fi_id ?i (fp_items (live w1)) = None" using out by (simp add: tbl_get_None)
    then have "tbl_get fi_id ?i (fp_items (live ?w)) = Some (fp_row_of cfg arc par name)"
      by (simp add: tbl_get_append id)
    from rest upsert_present [OF this] un have n: "n = 1" and
      fin: "fp_items (live w') = tbl_upd fi_id ?i (stamp (fresh_id fc_sequence (fp_changes (live w1))) (Aware (clock w1 (ticks w1))))
         (fp_items (live w1) @ [fp_row_of cfg arc par name])"
      by (auto simp: seq_def write_items_def query_def on_db_def bind_py_def)
    have app: "tbl_upd fi_id ?i g (s @ t) = tbl_upd fi_id ?i g s @ tbl_upd fi_id ?i g t" for g s t
      by (simp add: tbl_upd_def)
    have one: "tbl_upd fi_id ?i g [fp_row_of cfg arc par name] = [g (fp_row_of cfg arc par name)]" for g
      by (simp add: tbl_upd_def id)
    show thesis
      by (rule new [OF None ori n place [folded id] out [folded id]], unfold fin app one tbl_upd_absent [OF out], rule refl)
  next
    case (Some x)
    from Some assms ori obtain par name w1
      where place: "project_place cfg arc original (fi_id x) w = (Inr (par, name), w1)"
        and rest: "(if fi_parent x \<noteq> Some par \<or> fi_name x \<noteq> name then
               seq (write_items (tbl_upd fi_id (fi_id x) (\<lambda>r. r\<lparr>fi_parent := Some par, fi_name := name\<rparr>)))
               (seq (upsert (fi_id x)) (ret 1)) else ret 0) w1 = (Inr n, w')"
      by (auto simp: project_archive_def query_def Let_def elim!: bind_py_Inr_E)
    show thesis
    proof (cases "fi_parent x \<noteq> Some par \<or> fi_name x \<noteq> name")
      case True
      have "x \<in> set ?ws" using Some by (auto simp: find_Some_iff)
      moreover have "grows w w1" using project_place_settled [OF place, of w1 "\<lambda>t. t"] by simp
      ultimately have mem: "fi_id x \<in> fi_id ` set (fp_items (live w1))" by (auto simp: grows_def)
      let ?f = "\<lambda>r. r\<lparr>fi_parent := Some par, fi_name := name\<rparr>"
      let ?w = "w1\<lparr>live := fp_items_update (tbl_upd fi_id (fi_id x) ?f) (live w1)\<rparr>"
      obtain y where y: "tbl_get fi_id (fi_id x) (fp_items (live w1)) = Some y"
        using mem by (metis not_None_eq tbl_get_None)
      then have "tbl_get fi_id (fi_id x) (fp_items (live ?w)) = Some (?f y)" by (simp add: tbl_get_upd_same)
      from rest True upsert_present [OF this] have n: "n = 1" and
        "fp_items (live w') = tbl_upd fi_id (fi_id x) (stamp (fresh_id fc_sequence (fp_changes (live w1))) (Aware (clock w1 (ticks w1))))
          (tbl_upd fi_id (fi_id x) ?f (fp_items (live w1)))"
        by (auto simp: seq_def write_items_def query_def on_db_def bind_py_def require_def split: if_splits)
      then show thesis
        by (intro moved [OF Some ori n place mem]) (simp add: tbl_upd_twice)
    next
      case False
      with rest have "n = 0" "w' = w1" by simp_all
      with kept [OF Some ori \<open>n = 0\<close>] place False show thesis by simp
    qed
  qed
qed

lemma fp_row_of_id: "fi_id (fp_row_of cfg arc par name) = archive_fp_id cfg arc"
  "fi_archive_item (fp_row_of cfg arc par name) = Some (ai_id arc)"
  "fi_parent (fp_row_of cfg arc par name) = Some par" "fi_name (fp_row_of cfg arc par name) = name"
  by (simp_all add: fp_row_of_def blank_fp_def)

text \<open>A row at the place the projection computes for it is left alone.\<close>

lemma project_archive_kept:
  assumes "publishable arc" "safe_relative_path (original_path arc) = Inr original"
    "List.find (\<lambda>x. fi_archive_item x = Some (ai_id arc)) (fp_items (live w)) = Some x"
    "project_place cfg arc original (fi_id x) w = (Inr (fpar, name), w)" "fi_parent x = Some fpar" "fi_name x = name"
  shows "project_archive cfg arc w = (Inr 0, w)"
  using assms by (simp add: project_archive_def query_def bind_py_def Let_def)

text \<open>C23: projecting an archived item converges: run again in the world it left, the projection finds
  the row where it put it, whatever names collided the first time, and writes nothing.\<close>

theorem project_archive_converges:
  assumes run: "project_archive cfg arc w = (Inr n, w')"
  shows "project_archive cfg arc w' = (Inr 0, w')"
proof (cases "publishable arc")
  case False
  with run show ?thesis by (simp add: project_archive_def)
next
  case pub: True
  let ?P = "\<lambda>x :: fp_item. fi_archive_item x = Some (ai_id arc)"
  from run pub show ?thesis
  proof (cases rule: project_archive_Inr)
    case (new original par name w1 k now)
    let ?row = "stamp k (Aware (clock w1 now)) (fp_row_of cfg arc par name)"
    have "project_place cfg arc original (archive_fp_id cfg arc) w' = (Inr (par, name), w') \<and> grows w w1
        \<and> \<not> name_taken par (archive_fp_id cfg arc) name (fp_items (live w1))"
      using new(4) unfolding fp_row_of_id by (rule project_place_settled [where g = "\<lambda>t. t @ [?row]"])
        (use new(6) in \<open>auto simp: has_row_iff name_taken_append\<close>,
         auto simp: name_taken_def fp_row_of_id)
    then have place: "project_place cfg arc original (fi_id ?row) w' = (Inr (par, name), w')" "grows w w1"
      by (simp_all add: fp_row_of_id)
    from place(2) obtain F where "fp_items (live w1) = fp_items (live w) @ F" "\<forall>r \<in> set F. fi_archive_item r = None"
      by (auto simp: grows_def)
    then have "List.find ?P (fp_items (live w1)) = None" using new(1) by (auto simp: find_None_iff)
    then have "List.find ?P (fp_items (live w')) = Some ?row" by (simp add: new(6) find_append fp_row_of_id)
    with pub new(2) place show ?thesis by (intro project_archive_kept) (auto simp: fp_row_of_id)
  next
    case (moved original par name w1 x k now)
    let ?f = "\<lambda>r. stamp k (Aware (clock w1 now)) (r\<lparr>fi_parent := Some par, fi_name := name\<rparr>)"
    have "project_place cfg arc original (fi_id x) w' = (Inr (par, name), w') \<and> grows w w1
        \<and> \<not> name_taken par (fi_id x) name (fp_items (live w1))"
      using moved(4) by (rule project_place_settled [where g = "tbl_upd fi_id (fi_id x) ?f"])
        (simp_all add: moved(6) has_row_iff name_taken_upd keys_upd)
    then have place: "project_place cfg arc original (fi_id (?f x)) w' = (Inr (par, name), w')" "grows w w1" by simp_all
    from place(2) obtain F where "fp_items (live w1) = fp_items (live w) @ F" by (auto simp: grows_def)
    with moved(1) have "List.find ?P (fp_items (live w1)) = Some x" by (simp add: find_append)
    then have "List.find ?P (fp_items (live w')) = Some (?f x)" by (simp add: moved(6) find_tbl_upd)
    with pub moved(2) place show ?thesis by (intro project_archive_kept) auto
  next
    case (kept original par name x)
    have "project_place cfg arc original (fi_id x) w' = (Inr (par, name), w') \<and> grows w w'
        \<and> \<not> name_taken par (fi_id x) name (fp_items (live w'))"
      using kept(4) by (rule project_place_settled [where g = "\<lambda>t. t"]) simp_all
    then have place: "project_place cfg arc original (fi_id x) w' = (Inr (par, name), w')" "grows w w'" by simp_all
    from place(2) obtain F where "fp_items (live w') = fp_items (live w) @ F" by (auto simp: grows_def)
    with kept(1) have "List.find ?P (fp_items (live w')) = Some x" by (simp add: find_append)
    with pub kept place show ?thesis by (intro project_archive_kept) auto
  qed
qed

text \<open>The clock is never set.\<close>

definition ticking :: "(nat \<Rightarrow> int) \<Rightarrow> world \<Rightarrow> bool" where "ticking c w \<longleftrightarrow> clock w = c"

lemma ticking_basic: "keeps (ticking c) utcnow" "keeps (ticking c) (query f)" "keeps (ticking c) (on_db g)"
  "keeps (ticking c) (get_fp i)" "keeps (ticking c) (record_change i op)" "keeps (ticking c) (unique_child_name p n i)"
  by (auto simp: keeps_def ticking_def utcnow_def query_def on_db_def get_fp_def record_change_run Let_def
      unique_child_name_def bind_py_def split: option.split)

lemma ticking_upsert: "keeps (ticking c) (upsert i)"
  unfolding upsert_def by (intro keeps_bind ticking_basic keeps_ret)

lemma ticking_write: "keeps (ticking c) (write_items f)"
  unfolding write_items_def by (intro keeps_bind keeps_seq ticking_basic keeps_require)

lemma ticking_folders: "keeps (ticking c) (icloud_folders cfg p walked par cs)"
  by (induction cs arbitrary: walked par)
    (auto simp: Let_def add_folder_def intro!: keeps_bind keeps_seq keeps_ret ticking_basic ticking_upsert
        ticking_write split: option.split)

lemma ticking_place:
  assumes "project_place cfg arc original i w = (Inr r, w1)"
  shows "clock w1 = clock w"
proof -
  have "keeps (ticking (clock w)) (project_place cfg arc original i)"
    unfolding project_place_def Let_def by (auto intro!: keeps_bind keeps_ret ticking_basic ticking_folders)
  from keepsD2 [OF this _ assms] show ?thesis by (simp add: ticking_def)
qed

text \<open>An archived item that has no row yet gets one with its size, digest and kind, ready, under a
  name no sibling has; its modification time is the time of the projection, never the original
  modification time the code passes when it creates the row.\<close>

theorem projected_row:
  assumes run: "project_archive cfg arc w = (Inr n, w')" and pub: "publishable arc"
    and absent: "\<forall>x \<in> set (fp_items (live w)). fi_archive_item x \<noteq> Some (ai_id arc)"
  shows "n = 1 \<and> (\<exists>x k par. tbl_get fi_id (archive_fp_id cfg arc) (fp_items (live w')) = Some x
    \<and> fi_archive_item x = Some (ai_id arc) \<and> fi_parent x = Some par
    \<and> fi_kind x = FileKind \<and> fi_status x = Ready \<and> fi_size x = original_size arc
    \<and> content_version x = (case plaintext_sha256 arc of Some h \<Rightarrow> h | None \<Rightarrow> [])
    \<and> \<not> name_taken par (fi_id x) (fi_name x) (fp_items (live w'))
    \<and> fi_modified_at x = Aware (clock w k))"
  using run pub
proof (cases rule: project_archive_Inr)
  case (new original par name w1 k now)
  let ?row = "stamp k (Aware (clock w1 now)) (fp_row_of cfg arc par name)"
  have "project_place cfg arc original (archive_fp_id cfg arc) w1 = (Inr (par, name), w1) \<and> grows w w1
      \<and> \<not> name_taken par (archive_fp_id cfg arc) name (fp_items (live w1))"
    using new(4) unfolding fp_row_of_id by (rule project_place_settled [where g = "\<lambda>t. t"]) simp_all
  then have "\<not> name_taken par (archive_fp_id cfg arc) name (fp_items (live w'))"
    unfolding new(6) name_taken_append by (simp add: name_taken_def fp_row_of_id)
  moreover have "tbl_get fi_id (archive_fp_id cfg arc) (fp_items (live w')) = Some ?row"
    using new(5,6) tbl_get_None [of fi_id "archive_fp_id cfg arc" "fp_items (live w1)"]
    by (simp add: tbl_get_append fp_row_of_id)
  moreover have "clock w1 = clock w" using ticking_place [OF new(4)] .
  ultimately have "tbl_get fi_id (archive_fp_id cfg arc) (fp_items (live w')) = Some ?row
    \<and> fi_archive_item ?row = Some (ai_id arc) \<and> fi_parent ?row = Some par
    \<and> fi_kind ?row = FileKind \<and> fi_status ?row = Ready \<and> fi_size ?row = original_size arc
    \<and> content_version ?row = (case plaintext_sha256 arc of Some h \<Rightarrow> h | None \<Rightarrow> [])
    \<and> \<not> name_taken par (fi_id ?row) (fi_name ?row) (fp_items (live w'))
    \<and> fi_modified_at ?row = Aware (clock w now)"
    by (simp add: fp_row_of_id) (simp add: fp_row_of_def blank_fp_def stamp_def)
  with new(3) show ?thesis by blast
qed (use absent in \<open>auto simp: find_Some_iff\<close>)

section \<open>A small tree\<close>

text \<open>The folders, one upload still in the inbox, and its archive item.\<close>

definition example_fp :: fp_config where
  "example_fp = \<lparr>fp_active_root = [''active''], fp_staging_root = [''stage''], fp_upload_root = [''active'', ''up''],
     fp_max_size = 100, fp_min_free = 10, fp_usage = (1000, 900), fp_test_delete = True, fp_mtime = 0,
     fp_sha = (\<lambda>b. b), fp_uuid5 = (\<lambda>s. s)\<rparr>"

definition example_archive :: archive_item where
  "example_archive = (blank_item 7 ''local_test'' ''a'')\<lparr>original_path := ''d/a.txt'', original_size := 2,
     ai_state := ARCHIVED, plaintext_sha256 := Some ''hi'', nas_path := Some [''active'', ''a''],
     cold_archived_at := Some (Aware 1)\<rparr>"

definition example_tree :: "fp_item list" where
  "example_tree = [blank_fp UPLOADS_ID (Some ARCHIVE_ID) ''Uploads'' FolderKind (Aware 0),
     blank_fp LOCAL_ID (Some ARCHIVE_ID) ''Local Imports'' FolderKind (Aware 0),
     (blank_fp ''up1'' (Some INBOX_ID) ''a.txt'' FileKind (Aware 0))\<lparr>fi_status := Processing\<rparr>]"

definition tree_world :: "fp_item list \<Rightarrow> archive_item list \<Rightarrow> world" where
  "tree_world t rs = \<lparr>disk = [], live = empty_db\<lparr>fp_items := t, items := rs\<rparr>,
     durable = empty_db\<lparr>fp_items := t, items := rs\<rparr>, clock = (\<lambda>n. int n + 6), ticks = 0, rand = (\<lambda>n. dec n), draws = 0\<rparr>"

theorem promote_upload_publishes_witness:
  "\<exists>w' x. promote_upload 7 ''up1'' (tree_world example_tree [example_archive]) = (Inr (), w')
     \<and> tbl_get fi_id ''up1'' (fp_items (live w')) = Some x \<and> fi_parent x = Some UPLOADS_ID"
proof -
  let ?w = "tree_world example_tree [example_archive]"
  let ?x = "(blank_fp ''up1'' (Some INBOX_ID) ''a.txt'' FileKind (Aware 0))\<lparr>fi_status := Processing\<rparr>"
  have un: "fp_unique (fp_items (live ?w))" by code_simp
  have arc: "tbl_get ai_id 7 (items (live ?w)) = Some example_archive" "publishable example_archive"
    by (simp_all add: tree_world_def example_archive_def blank_item_def publishable_def ready_states_def)
  have row: "tbl_get fi_id ''up1'' (fp_items (live ?w)) = Some ?x" "fi_status ?x \<noteq> Ready"
    by (simp_all add: tree_world_def example_tree_def blank_fp_def UPLOADS_ID_def LOCAL_ID_def)
  have "fst (promote_upload 7 ''up1'' ?w) = Inr ()" by code_simp
  with promote_upload_publishes [OF un arc row] row show ?thesis
    by (auto simp: tbl_get_upd_same promoted_def)
qed

lemma projected_example:
  obtains w' where "project_archive example_fp example_archive (tree_world example_tree [example_archive]) = (Inr 1, w')"
proof -
  have "fst (project_archive example_fp example_archive (tree_world example_tree [example_archive])) = Inr 1" by code_simp
  then show thesis using that by (metis prod.collapse)
qed

theorem project_archive_converges_witness:
  "\<exists>w'. project_archive example_fp example_archive (tree_world example_tree [example_archive]) = (Inr 1, w')
     \<and> project_archive example_fp example_archive w' = (Inr 0, w')"
  by (rule projected_example) (blast dest: project_archive_converges)

theorem projected_row_witness:
  "\<exists>w' x k. project_archive example_fp example_archive (tree_world example_tree [example_archive]) = (Inr 1, w')
     \<and> x \<in> set (fp_items (live w')) \<and> fi_archive_item x = Some 7 \<and> fi_size x = 2
     \<and> fi_modified_at x = Aware (int k + 6)"
proof -
  obtain w' where run: "project_archive example_fp example_archive (tree_world example_tree [example_archive]) = (Inr 1, w')"
    by (rule projected_example)
  have "publishable example_archive" by (simp add: example_archive_def publishable_def ready_states_def)
  moreover have "\<forall>x \<in> set (fp_items (live (tree_world example_tree [example_archive]))).
      fi_archive_item x \<noteq> Some (ai_id example_archive)"
    by (simp add: tree_world_def example_tree_def blank_fp_def)
  moreover have "ai_id example_archive = 7" "original_size example_archive = 2"
    by (simp_all add: example_archive_def blank_item_def)
  ultimately obtain x k where "tbl_get fi_id (archive_fp_id example_fp example_archive) (fp_items (live w')) = Some x"
    "fi_archive_item x = Some 7" "fi_size x = 2"
    "fi_modified_at x = Aware (clock (tree_world example_tree [example_archive]) k)"
    using projected_row [OF run] by auto
  with run show ?thesis by (auto simp: tree_world_def dest: tbl_get_Some)
qed

end
