(* ===== verification/Provider_Uploads.thy ===== *)
theory Provider_Uploads
  imports Provider_Items
begin

text \<open>
  The uploads of the File Provider (\<open>file_provider/service.py\<close>): creating one with its archive item,
  sealing the received bytes into the staging area, the clean-up of test uploads, the completion of
  seals cut off by a restart and the reaping of expired uploads. An upload is passed by its id; its
  bytes lie in the upload root until the seal moves them.
\<close>

section \<open>Names and paths\<close>

definition is_ascii :: "string \<Rightarrow> bool" where
  "is_ascii s = list_all (\<lambda>c. of_char c < (128 :: nat)) s"

definition isalnum :: "string \<Rightarrow> bool" where
  "isalnum s \<longleftrightarrow> s \<noteq> [] \<and> list_all is_alnum s"

text \<open>The length of \<open>s.encode()\<close>: UTF-8 takes two bytes for the code points from 128 to 255.\<close>

definition utf8_length :: "string \<Rightarrow> nat" where
  "utf8_length s = sum_list (map (\<lambda>c. if of_char c < (128 :: nat) then 1 else 2) s)"

definition resolved :: "path \<Rightarrow> (fsys, path) py" where
  "resolved p = (\<lambda>fs. (resolve_path fs False p, fs))"

definition upload_path :: "fp_config \<Rightarrow> string \<Rightarrow> (fsys, path) py" where
  "upload_path cfg u =
     seq (require (is_ascii u \<and> isalnum (filter (\<lambda>c. c \<noteq> CHR ''-'') u)) (ValueError ''invalid upload identifier'')) (
     bind_py (resolved (fp_upload_root cfg)) (\<lambda>rt.
     seq (mkdirs rt) (
     bind_py (resolved rt) (\<lambda>parent.
     bind_py (resolved (fp_active_root cfg)) (\<lambda>active.
     seq (require (is_relative_to parent active) (ValueError ''upload path escapes active storage''))
     (ret (rt @ [u @ ''.upload''])))))))"

definition validate_upload_name :: "string \<Rightarrow> exn + string" where
  "validate_upload_name name =
     (let candidate = strip name in
      case safe_relative_path candidate of Inl e \<Rightarrow> Inl e
      | Inr _ \<Rightarrow>
        if path_name candidate \<noteq> candidate \<or> candidate \<in> {''.'', ''..''}
        then Inl (ValueError ''uploads must use one safe file name'')
        else if utf8_length candidate > 255 then Inl (ValueError ''upload name is too long'')
        else Inr candidate)"

section \<open>Creating an upload\<close>

text \<open>\<open>fp_usage\<close> is the total and the free space \<open>shutil.disk_usage\<close> reports.\<close>

definition check_space :: "fp_config \<Rightarrow> int \<Rightarrow> ('s, unit) py" where
  "check_space cfg sz =
     (case fp_usage cfg of (capacity, free) \<Rightarrow>
       (let projected = free - sz * 3;
            refuse = raise_py (OSErr ''active storage cannot hold this upload and its verification scratch'') in
        if projected < 0 then refuse
        else if capacity = 0 then raise_py (OtherError ''division by zero'')
        else if rat_of_int (projected * 100) / rat_of_int capacity < fp_min_free cfg then refuse
        else ret ()))"

definition hex_digest :: "string \<Rightarrow> bool" where
  "hex_digest h \<longleftrightarrow> length h = 64 \<and> list_all (\<lambda>c. c \<in> set ''0123456789abcdef'') h"

definition insert_archive :: "(nat \<Rightarrow> archive_item) \<Rightarrow> (world, nat) py" where
  "insert_archive mk =
     bind_py (query (\<lambda>d. let r = mk (fresh_id ai_id (items d)) in
        find_item (source_provider r) (source_identifier r) d)) (\<lambda>clash.
     seq (require (clash = None) IntegrityError) (add_item mk))"

definition insert_upload :: "fp_upload \<Rightarrow> (world, unit) py" where
  "insert_upload u =
     bind_py (query (\<lambda>d. list_ex (\<lambda>v. fu_id v = fu_id u \<or> fu_item v = fu_item u
        \<or> fu_archive_item v = fu_archive_item u) (fp_uploads d))) (\<lambda>clash.
     seq (require (\<not> clash) IntegrityError) (on_db (fp_uploads_update (\<lambda>t. t @ [u]))))"

definition upload_item :: "string \<Rightarrow> string \<Rightarrow> nat \<Rightarrow> datetime \<Rightarrow> nat \<Rightarrow> archive_item" where
  "upload_item u name sz now i = (blank_item i ''file_provider_upload'' u)
     \<lparr>original_path := ''Uploads/'' @ name, original_size := sz, original_modified_at := now, source_version := u\<rparr>"

text \<open>The two halves of \<open>create_upload\<close>: the checks, and the rows of an accepted upload.\<close>

definition check_upload :: "fp_config \<Rightarrow> string \<Rightarrow> int \<Rightarrow> string option \<Rightarrow> (world, string) py" where
  "check_upload cfg raw_name sz sha256 =
     bind_py (lift_sum (validate_upload_name raw_name)) (\<lambda>name.
     seq (require (\<not> (sz < 0 \<or> sz > fp_max_size cfg)) (ValueError ''upload size exceeds configured limit'')) (
     seq (check_space cfg sz) (
     seq (require (case sha256 of None \<Rightarrow> True | Some h \<Rightarrow> hex_digest h)
            (ValueError ''SHA-256 must use 64 lowercase hexadecimal characters''))
     (ret name))))"

definition insert_rows :: "string \<Rightarrow> string \<Rightarrow> nat \<Rightarrow> string \<Rightarrow> nat \<Rightarrow> string \<Rightarrow> string option \<Rightarrow> (world, fp_upload) py" where
  "insert_rows u fp a name sz ctype sha256 =
     bind_py utcnow (\<lambda>now.
     seq (write_items (\<lambda>t. t @ [(blank_fp fp (Some INBOX_ID) name FileKind now)\<lparr>fi_status := Processing,
            fi_archive_item := Some a, fi_size := sz,
            content_type := (if ctype = [] then ''application/octet-stream'' else ctype)\<rparr>])) (
     bind_py utcnow (\<lambda>now2.
     (let up = \<lparr>fu_id = u, fu_item = fp, fu_archive_item = a, expected_size = sz, received_size = 0,
          expected_sha256 = sha256, fu_status = Open, fu_expires_at = dt_add now2 (hours 24)\<rparr>
      in seq (insert_upload up) (seq (upsert fp) (ret up))))))"

definition make_upload :: "string \<Rightarrow> nat \<Rightarrow> string \<Rightarrow> string option \<Rightarrow> (world, fp_upload) py" where
  "make_upload name sz ctype sha256 =
     bind_py fresh_token (\<lambda>u. bind_py fresh_token (\<lambda>fp.
     bind_py utcnow (\<lambda>now.
     bind_py (insert_archive (upload_item u name sz now)) (\<lambda>a.
     seq (transition_item a ELIGIBLE ''file-provider'' []) (
     seq (transition_item a QUEUED ''file-provider'' []) (
     seq (transition_item a DOWNLOADING ''file-provider'' [])
     (insert_rows u fp a name sz ctype sha256)))))))"

definition create_upload ::
  "fp_config \<Rightarrow> string \<Rightarrow> int \<Rightarrow> string \<Rightarrow> string option \<Rightarrow> (world, fp_upload) py" where
  "create_upload cfg raw_name sz ctype sha256 =
     seq bootstrap_roots (
     bind_py (check_upload cfg raw_name sz sha256) (\<lambda>name. make_upload name (nat sz) ctype sha256))"

section \<open>Sealing\<close>

definition load_upload :: "string \<Rightarrow> (world, fp_upload) py" where
  "load_upload u = bind_py (query (\<lambda>d. tbl_get fu_id u (fp_uploads d)))
     (\<lambda>r. case r of None \<Rightarrow> raise_py ObjectDeletedError | Some x \<Rightarrow> ret x)"

definition upd_upload :: "string \<Rightarrow> (fp_upload \<Rightarrow> fp_upload) \<Rightarrow> (world, unit) py" where
  "upd_upload u f = on_db (fp_uploads_update (tbl_upd fu_id u f))"

definition unlink_missing_ok :: "path \<Rightarrow> (fsys, unit) py" where
  "unlink_missing_ok p = try_py (unlink p) (\<lambda>e. if e = FileNotFoundError then Some (ret ()) else None)"

text \<open>The file to hash: the upload, or what a seal cut off before already moved to staging.\<close>

definition seal_candidate :: "fp_config \<Rightarrow> fp_upload \<Rightarrow> path \<Rightarrow> path \<Rightarrow> (fsys, path) py" where
  "seal_candidate cfg up source destination =
     bind_py (gets (\<lambda>fs. expected_size up = 0 \<and> \<not> path_exists fs source)) (\<lambda>empty.
     seq (when_py empty (write_new source [] (fp_mtime cfg))) (
     bind_py (gets (\<lambda>fs. if is_file fs source then source else destination)) (\<lambda>candidate.
     bind_py (gets (\<lambda>fs. is_symlink fs candidate \<or> \<not> is_file fs candidate)) (\<lambda>bad.
     seq (require (\<not> bad) (ValueError ''upload file is incomplete'')) (
     bind_py (stat_size candidate) (\<lambda>sz.
     seq (require (sz = expected_size up) (ValueError ''upload file is incomplete'')) (ret candidate)))))))"

definition seal_move :: "fp_upload \<Rightarrow> path \<Rightarrow> path \<Rightarrow> (fsys, unit) py" where
  "seal_move up source destination =
     seq (mkdirs (butlast destination)) (
     bind_py (gets (\<lambda>fs. path_exists fs destination)) (\<lambda>ex.
     if ex then
       bind_py (gets (\<lambda>fs. is_symlink fs destination)) (\<lambda>link.
       seq (require (\<not> link) (RuntimeError ''staging collision requires manual review'')) (
       bind_py (stat_size destination) (\<lambda>sz.
       seq (require (sz = expected_size up) (RuntimeError ''staging collision requires manual review''))
       (unlink_missing_ok source))))
     else os_replace source destination))"

definition seal_bytes :: "fp_config \<Rightarrow> fp_upload \<Rightarrow> path \<Rightarrow> path \<Rightarrow> (fsys, string) py" where
  "seal_bytes cfg up source destination =
     bind_py (seal_candidate cfg up source destination) (\<lambda>candidate.
     bind_py (sha256_file (fp_sha cfg) candidate) (\<lambda>checksum.
     seq (require (case expected_sha256 up of None \<Rightarrow> True | Some h \<Rightarrow> checksum = h)
            (ValueError ''upload SHA-256 does not match'')) (
     seq (seal_move up source destination) (ret checksum))))"

definition seal_queue :: "string \<Rightarrow> nat \<Rightarrow> string \<Rightarrow> string \<Rightarrow> (world, nat) py" where
  "seal_queue u a i checksum =
     seq (on_db (fp_items_update (tbl_upd fi_id i (\<lambda>r. r\<lparr>content_version := checksum\<rparr>)))) (
     seq (bind_py (enqueue ''archive_upload'' ''file_provider''
            (PDict [(''archive_item_id'', PInt (int a)), (''file_provider_item_id'', PStr i)])
            (''file-provider-upload:'' @ u) 5) (\<lambda>_. ret ())) (
     seq (upsert i) (ret a)))"

definition seal_record :: "string \<Rightarrow> fp_upload \<Rightarrow> archive_item \<Rightarrow> string \<Rightarrow> (world, nat) py" where
  "seal_record u up a checksum =
     seq (upd_item (ai_id a) (\<lambda>x. x\<lparr>plaintext_sha256 := Some checksum\<rparr>)) (
     seq (transition_item (ai_id a) LOCAL_STAGED ''file-provider'' []) (
     seq (upd_upload u (\<lambda>x. x\<lparr>fu_status := Sealed\<rparr>)) (
     bind_py (get_fp (fu_item up)) (\<lambda>row.
     case row of None \<Rightarrow> raise_py (RuntimeError ''File Provider item is missing'')
     | Some x \<Rightarrow> seal_queue u (ai_id a) (fi_id x) checksum))))"

definition seal_upload :: "fp_config \<Rightarrow> string \<Rightarrow> (world, nat) py" where
  "seal_upload cfg u =
     bind_py (load_upload u) (\<lambda>up.
     bind_py (on_disk (upload_path cfg u)) (\<lambda>source.
     seq (require (fu_status up = Sealing) (ValueError ''upload is not ready to seal'')) (
     bind_py (query (\<lambda>d. tbl_get ai_id (fu_archive_item up) (items d))) (\<lambda>arc.
     case arc of None \<Rightarrow> raise_py (RuntimeError ''upload archive item is missing'')
     | Some a \<Rightarrow>
       bind_py (on_disk (seal_bytes cfg up source (partial_path (fp_staging_root cfg) (ai_id a))))
         (seal_record u up a)))))"

section \<open>Cleaning up, reconciling, reaping\<close>

definition cleanup_rows :: "string \<Rightarrow> fp_upload \<Rightarrow> archive_item \<Rightarrow> (world, unit) py" where
  "cleanup_rows i up a =
     seq (transition_item (ai_id a) TEST_CLEANED ''e2e-cleanup'' []) (
     seq (bind_py (record_change i ''DELETE'') (\<lambda>_. ret ())) (
     seq (on_db (fp_uploads_update (filter (\<lambda>v. fu_id v \<noteq> fu_id up))))
         (on_db (fp_items_update (filter (\<lambda>r. fi_id r \<noteq> i))))))"

definition cleanup_staged :: "fp_config \<Rightarrow> string \<Rightarrow> fp_upload \<Rightarrow> archive_item \<Rightarrow> (world, unit) py" where
  "cleanup_staged cfg i up a =
     (let staged = partial_path (fp_staging_root cfg) (ai_id a) in
      bind_py (on_disk (resolved (fp_staging_root cfg))) (\<lambda>rt.
      bind_py (gets (\<lambda>w. is_symlink (disk w) staged)) (\<lambda>link.
      seq (require (\<not> link) (PermissionError ''E2E upload path is unsafe'')) (
      bind_py (on_disk (resolved staged)) (\<lambda>there.
      seq (require (butlast there = rt) (PermissionError ''E2E upload path is unsafe'')) (
      seq (on_disk (unlink_missing_ok staged)) (
      bind_py (gets (\<lambda>w. path_exists (disk w) staged)) (\<lambda>still.
      seq (require (\<not> still) (OSErr ''E2E upload cleanup could not be verified''))
      (cleanup_rows i up a)))))))))"

definition cleanup_e2e_upload :: "fp_config \<Rightarrow> string \<Rightarrow> (world, unit) py" where
  "cleanup_e2e_upload cfg i =
     seq (require (fp_test_delete cfg) (PermissionError ''test deletion is disabled'')) (
     bind_py (get_fp i) (\<lambda>row.
     case row of None \<Rightarrow> ret ()
     | Some x \<Rightarrow>
       seq (require (startswith (fi_name x) ''mnema-e2e-'') (PermissionError ''only E2E-prefixed uploads may be cleaned'')) (
       bind_py (query (\<lambda>d. tbl_get fu_item i (fp_uploads d))) (\<lambda>found.
       case found of None \<Rightarrow> raise_py (PermissionError ''item is not a sealed File Provider upload'')
       | Some up \<Rightarrow>
         seq (require (fu_status up = Sealed) (PermissionError ''item is not a sealed File Provider upload'')) (
         bind_py (query (\<lambda>d. tbl_get ai_id (fu_archive_item up) (items d))) (\<lambda>arc.
         case arc of None \<Rightarrow> raise_py (PermissionError ''upload is outside the E2E cleanup lifecycle'')
         | Some a \<Rightarrow>
           seq (require (source_provider a = ''file_provider_upload'' \<and> ai_state a = LOCAL_STAGED)
                  (PermissionError ''upload is outside the E2E cleanup lifecycle''))
           (cleanup_staged cfg i up a)))))))"

definition reconcile_sealing :: "fp_config \<Rightarrow> string \<Rightarrow> (world, nat) py" where
  "reconcile_sealing cfg u =
     try_py
       (session_block (bind_py (query (\<lambda>d. tbl_get fu_id u (fp_uploads d))) (\<lambda>found.
          case found of None \<Rightarrow> ret 0 | Some _ \<Rightarrow> bind_py (seal_upload cfg u) (\<lambda>_. ret 1))))
       (\<lambda>e. if is_ValueError e \<or> is_OSError e \<or> is_RuntimeError e then
          Some (session_block (bind_py (query (\<lambda>d. tbl_get fu_id u (fp_uploads d))) (\<lambda>found.
            case found of None \<Rightarrow> ret 0
            | Some up \<Rightarrow> seq (upd_upload u (\<lambda>x. x\<lparr>fu_status := UploadFailed\<rparr>))
                (seq (mark_upload_failed (fu_item up) ''seal_failed'') (ret 0)))))
        else None)"

definition reconcile_sealing_uploads :: "fp_config \<Rightarrow> (world, nat) py" where
  "reconcile_sealing_uploads cfg =
     bind_py (session_block (query (\<lambda>d. map fu_id (filter (\<lambda>v. fu_status v = Sealing) (fp_uploads d))))) (\<lambda>pending.
     bind_py (map_py (reconcile_sealing cfg) pending) (\<lambda>ns. ret (sum_list ns)))"

definition reap_archive :: "nat \<Rightarrow> (world, unit) py" where
  "reap_archive k = bind_py (query (\<lambda>d. tbl_get ai_id k (items d))) (\<lambda>arc.
     case arc of None \<Rightarrow> ret ()
     | Some a \<Rightarrow> when_py (ai_state a \<noteq> MANUAL_REVIEW)
         (transition_item (ai_id a) MANUAL_REVIEW ''upload-reaper''
           [(''reason'', PStr ''upload expired before completion'')]))"

definition reap_upload :: "fp_config \<Rightarrow> datetime \<Rightarrow> fp_upload \<Rightarrow> (world, nat) py" where
  "reap_upload cfg now up =
     (if instant (aware (fu_expires_at up)) > instant now then ret 0 else
      bind_py (on_disk (upload_path cfg (fu_id up))) (\<lambda>p.
      bind_py (gets (\<lambda>w. is_file (disk w) p \<and> \<not> is_symlink (disk w) p)) (\<lambda>there.
      seq (when_py there (on_disk (unlink_missing_ok p))) (
      seq (upd_upload (fu_id up) (\<lambda>x. x\<lparr>fu_status := UploadFailed\<rparr>)) (
      seq (mark_upload_failed (fu_item up) ''upload_expired'') (
      seq (reap_archive (fu_archive_item up)) (ret 1)))))))"

definition reap_expired_uploads :: "fp_config \<Rightarrow> (world, nat) py" where
  "reap_expired_uploads cfg =
     bind_py utcnow (\<lambda>now.
     session_block (
       bind_py (query (\<lambda>d. filter (\<lambda>v. fu_status v = Open) (fp_uploads d))) (\<lambda>ups.
       bind_py (map_py (reap_upload cfg now) ups) (\<lambda>ns. ret (sum_list ns)))))"

section \<open>The invariants\<close>

lemma tree_enqueue: "keeps tree (enqueue k a d key n)" and evidenced_enqueue: "keeps evidenced (enqueue k a d key n)"
  unfolding enqueue_def Let_def
  by (auto intro!: keeps_bind keeps_seq keeps_ret tree_rules tree_on_db evidence_rules keeps_on_db split: option.split)

lemma tree_upd_item: "keeps tree (upd_item i f)"
  unfolding upd_item_def by (rule tree_on_db) simp_all

lemma tree_add_audit: "keeps tree (add_audit i k a b c d)"
  unfolding add_audit_def by (rule tree_on_db) simp_all

lemma tree_transition: "keeps tree (transition_item i t who d)"
  unfolding transition_item_def
  by (intro keeps_bind keeps_seq tree_rules keeps_lift_sum tree_upd_item tree_add_audit)

lemma tree_upd_upload: "keeps tree (upd_upload u f)" and evidenced_upd_upload: "keeps evidenced (upd_upload u f)"
  unfolding upd_upload_def by (rule tree_on_db; simp) (rule keeps_on_db; simp)

lemma tree_load_upload: "keeps tree (load_upload u)" and evidenced_load_upload: "keeps evidenced (load_upload u)"
  unfolding load_upload_def
  by (auto intro!: keeps_bind keeps_ret keeps_raise tree_rules evidence_rules split: option.split)

lemma tree_insert_archive: "keeps tree (insert_archive mk)"
  unfolding insert_archive_def add_item_def
  by (intro keeps_bind keeps_seq keeps_require keeps_ret tree_rules tree_on_db) simp_all

lemma tree_insert_upload: "keeps tree (insert_upload u)" and evidenced_insert_upload: "keeps evidenced (insert_upload u)"
  unfolding insert_upload_def
  by (intro keeps_bind keeps_seq keeps_require tree_rules tree_on_db evidence_rules keeps_on_db; simp)+

lemma tree_set_version: "keeps tree (on_db (fp_items_update (tbl_upd fi_id i (\<lambda>r. r\<lparr>content_version := h\<rparr>))))"
proof (rule keepsI)
  fix w assume "tree w"
  moreover have "fp_unique (tbl_upd fi_id i (\<lambda>r. r\<lparr>content_version := h\<rparr>) t) = fp_unique t" for t
    by (rule fp_unique_upd) simp_all
  ultimately show "tree (snd (on_db (fp_items_update (tbl_upd fi_id i (\<lambda>r. r\<lparr>content_version := h\<rparr>))) w))"
    by (fastforce simp: tree_def tree_ok_def logged_def on_db_def dest!: set_tbl_upd)
qed

lemma distinct_map_filter: "distinct (List.map_filter g t) \<Longrightarrow> distinct (List.map_filter g (filter P t))"
proof (induction t)
  case (Cons x t)
  have "set (List.map_filter g (filter P t)) \<subseteq> set (List.map_filter g t)"
    by (auto simp: List.map_filter_def)
  with Cons show ?case by (cases "g x") (auto simp: List.map_filter_simps)
qed (simp add: List.map_filter_def)

lemma fp_unique_filter: "fp_unique t \<Longrightarrow> fp_unique (filter P t)"
  unfolding fp_unique_def placed_def by (simp add: distinct_map_filter distinct_map inj_on_def)

lemma tree_filter_uploads: "keeps tree (on_db (fp_uploads_update f))"
  by (rule tree_on_db) simp_all

lemma tree_filter_items: "keeps tree (on_db (fp_items_update (filter P)))"
  by (rule keepsI) (auto simp: tree_def tree_ok_def logged_def on_db_def fp_unique_filter)

lemmas tree_steps = keeps_bind keeps_seq keeps_ret keeps_raise keeps_require keeps_lift_sum keeps_when tree_rules
  tree_enqueue tree_upd_item tree_transition tree_upd_upload tree_load_upload tree_insert_archive tree_insert_upload
  tree_set_version tree_filter_items tree_filter_uploads keeps_gets keeps_map_py

lemma keeps_check_space: "keeps P (check_space cfg n)"
  by (auto simp: check_space_def Let_def keeps_raise keeps_ret split: prod.split)

text \<open>
  Creating an upload writes its row before the upload and the change, so an error in between leaves
  the session, which its block then rolls back, with an unlogged row.
\<close>

definition tree_safe :: "(world, 'a) py \<Rightarrow> bool" where
  "tree_safe m \<longleftrightarrow> (\<forall>w. tree w \<longrightarrow> tree_ok (durable (snd (m w))) \<and> (\<forall>x. fst (m w) = Inr x \<longrightarrow> tree (snd (m w))))"

lemma tree_safe_keeps: "keeps tree m \<Longrightarrow> tree_safe m"
  unfolding tree_safe_def keeps_def tree_def by blast

lemma tree_safe_bind: "keeps tree m \<Longrightarrow> (\<And>x. tree_safe (f x)) \<Longrightarrow> tree_safe (bind_py m f)"
  unfolding tree_safe_def keeps_def bind_py_def
  by (auto simp: tree_def split: prod.split sum.split)

lemma tree_safe_seq: "keeps tree m \<Longrightarrow> tree_safe n \<Longrightarrow> tree_safe (seq m n)"
  unfolding seq_def by (rule tree_safe_bind)

lemma tree_safe_session:
  assumes "tree_safe m" shows "keeps tree (session_block m)"
proof (rule keepsI)
  fix w assume "tree w"
  then have "tree (w\<lparr>live := durable w\<rparr>)" by (simp add: tree_def)
  with assms have "tree_ok (durable (snd (m (w\<lparr>live := durable w\<rparr>))))"
    "\<forall>x. fst (m (w\<lparr>live := durable w\<rparr>)) = Inr x \<longrightarrow> tree (snd (m (w\<lparr>live := durable w\<rparr>)))"
    unfolding tree_safe_def by blast+
  then show "tree (snd (session_block m w))"
    by (auto simp: session_block_def tree_def split: prod.split sum.split)
qed

lemma insert_upload_cases:
  "insert_upload u w = (Inl IntegrityError, w)
    \<or> insert_upload u w = (Inr (), w\<lparr>live := fp_uploads_update (\<lambda>t. t @ [u]) (live w)\<rparr>)"
  by (auto simp: insert_upload_def query_def on_db_def bind_py_def seq_def require_def)

lemma tree_safe_row:
  assumes "fi_id x = i" "\<And>now. keeps tree (m now)"
  shows "tree_safe (seq (write_items (\<lambda>t. t @ [x])) (bind_py utcnow (\<lambda>now. seq (insert_upload (up now)) (seq (upsert i) (m now)))))"
  unfolding tree_safe_def
proof (intro allI impI)
  fix w assume w: "tree w"
  let ?m = "bind_py utcnow (\<lambda>now. seq (insert_upload (up now)) (seq (upsert i) (m now)))"
  let ?run = "seq (write_items (\<lambda>t. t @ [x])) ?m w"
  show "tree_ok (durable (snd ?run)) \<and> (\<forall>v. fst ?run = Inr v \<longrightarrow> tree (snd ?run))"
  proof (cases "fp_unique (fp_items (live w) @ [x])")
    case False
    with w show ?thesis by (simp add: seq_def write_items_def query_def bind_py_def tree_def)
  next
    case True
    let ?now = "Aware (clock w (ticks w))"
    let ?v = "w\<lparr>live := fp_items_update (\<lambda>t. t @ [x]) (live w)\<rparr>"
    let ?w = "?v\<lparr>ticks := Suc (ticks w)\<rparr>"
    let ?w1 = "?w\<lparr>live := fp_uploads_update (\<lambda>t. t @ [up ?now]) (live ?w)\<rparr>"
    have eq: "?run = seq (insert_upload (up ?now)) (seq (upsert i) (m ?now)) ?w"
    proof -
      have a: "write_items (\<lambda>t. t @ [x]) w = (Inr (), ?v)"
        using True by (simp add: seq_def write_items_def query_def on_db_def bind_py_def)
      have b: "utcnow ?v = (Inr ?now, ?w)" by (simp add: utcnow_def)
      show ?thesis
        by (simp only: seq_def bind_py_Inr [where m = "write_items _" and s = w, OF a]
            bind_py_Inr [where m = utcnow and s = "?v", OF b])
    qed
    have "tree (snd (record_change i ''UPSERT'' ?w1))"
      by (rule record_change_tree) (use w True assms in \<open>auto simp: tree_def tree_ok_def logged_def\<close>)
    then have up: "tree (snd (upsert i ?w1))"
      by (simp add: upsert_def bind_py_def split: prod.split sum.split) (metis snd_conv)
    have good: "tree (snd (seq (upsert i) (m ?now) ?w1))"
    proof (cases "upsert i ?w1")
      case (Pair r v)
      with up keepsD [OF assms(2), of v] show ?thesis by (cases r) (simp_all add: seq_def)
    qed
    from insert_upload_cases [of "up ?now" ?w] show ?thesis
    proof
      assume "insert_upload (up ?now) ?w = (Inr (), ?w1)"
      with eq good show ?thesis by (simp add: seq_def tree_def)
    next
      assume "insert_upload (up ?now) ?w = (Inl IntegrityError, ?w)"
      with eq w show ?thesis by (simp add: seq_def tree_def)
    qed
  qed
qed

lemma keeps_check_upload: "keeps P (check_upload cfg name n h)"
  unfolding check_upload_def by (intro keeps_bind keeps_seq keeps_ret keeps_require keeps_lift_sum keeps_check_space)

lemma tree_create_upload: "tree_safe (create_upload cfg name n c h)"
  unfolding create_upload_def make_upload_def insert_rows_def Let_def
  by (intro tree_safe_seq tree_safe_bind tree_safe_row tree_steps keeps_check_upload) (simp add: blank_fp_def)

lemma tree_seal_upload: "keeps tree (seal_upload cfg u)"
  unfolding seal_upload_def seal_record_def seal_queue_def
  by (auto intro!: tree_steps split: option.split)

lemma tree_cleanup: "keeps tree (cleanup_e2e_upload cfg i)"
  unfolding cleanup_e2e_upload_def cleanup_staged_def cleanup_rows_def Let_def
  by (auto intro!: tree_steps split: option.split)

lemma tree_reconcile_sealing: "keeps tree (reconcile_sealing cfg u)"
  unfolding reconcile_sealing_def
  by (auto intro!: keeps_try tree_session tree_steps tree_seal_upload split: option.split if_splits)

lemma tree_reap: "keeps tree (reap_upload cfg now up)"
  unfolding reap_upload_def reap_archive_def
  by (auto intro!: tree_steps split: option.split)


lemma evidenced_fp [evidence_rules]: "keeps evidenced (write_items f)" "keeps evidenced (get_fp i)"
  "keeps evidenced (record_change i op)" "keeps evidenced (unique_child_name p n i)" "keeps evidenced (upsert i)"
  unfolding write_items_def get_fp_def record_change_def unique_child_name_def upsert_def
  by (auto intro!: keeps_bind keeps_seq keeps_ret keeps_raise keeps_require evidence_rules keeps_on_db split: option.split)

lemma evidenced_get_setting [evidence_rules]: "keeps evidenced (get_setting k)"
  unfolding get_setting_def
  by (auto intro!: keeps_bind keeps_seq keeps_ret evidence_rules keeps_on_db split: option.split)

lemma evidenced_folders [evidence_rules]: "keeps evidenced (add_folder i p n)" "keeps evidenced bootstrap_roots"
  "keeps evidenced (icloud_folders cfg pr walked par cs)"
proof -
  show add: "keeps evidenced (add_folder i p n)" for i p n
    unfolding add_folder_def by (intro keeps_bind keeps_seq evidence_rules)
  show "keeps evidenced bootstrap_roots"
    unfolding bootstrap_roots_def
    by (auto intro!: keeps_seq keeps_bind keeps_for_each keeps_ret evidence_rules add split: option.split)
  show "keeps evidenced (icloud_folders cfg pr walked par cs)"
    by (induction cs arbitrary: walked par)
      (auto simp: Let_def intro!: keeps_bind keeps_seq keeps_ret evidence_rules add split: option.split)
qed

lemma evidenced_publishing [evidence_rules]: "keeps evidenced (promote_upload a i)" "keeps evidenced (mark_upload_failed i why)"
  "keeps evidenced (project_archive cfg arc)"
  unfolding promote_upload_def mark_upload_failed_def project_archive_def project_place_def Let_def
  by (auto intro!: keeps_bind keeps_seq keeps_ret keeps_lift_sum evidence_rules split: option.split)

lemma evidenced_insert_archive:
  assumes "\<And>i. ai_id (mk i) = i" "\<And>i. evidence (mk i)"
  shows "keeps evidenced (insert_archive mk)"
  unfolding insert_archive_def
  by (intro keeps_bind keeps_seq keeps_require evidence_rules keeps_add_item assms)

lemma evidence_upload_item: "ai_id (upload_item u n z now i) = i" "evidence (upload_item u n z now i)"
  by (simp_all add: upload_item_def blank_item_def evidence_def evidence_at_def)

lemmas evidence_steps = keeps_bind keeps_seq keeps_ret keeps_raise keeps_require keeps_lift_sum keeps_when evidence_rules
  evidenced_enqueue evidenced_upd_upload evidenced_load_upload evidenced_insert_upload keeps_check_space keeps_gets
  keeps_map_py not_gaining

lemma evidenced_create_upload: "keeps evidenced (create_upload cfg name n c h)"
  unfolding create_upload_def make_upload_def insert_rows_def Let_def
  by (intro evidence_steps evidenced_insert_archive evidence_upload_item keeps_check_upload)

lemma evidenced_seal_record: "keeps evidenced (seal_record u up a checksum)"
  unfolding seal_record_def seal_queue_def
  by (rule keeps_gain [OF gain_sha]) (auto intro!: evidence_steps keeps_on_db split: option.split)

lemma evidenced_seal_upload: "keeps evidenced (seal_upload cfg u)"
  unfolding seal_upload_def
  by (auto intro!: evidence_steps evidenced_seal_record split: option.split)

lemma evidenced_cleanup: "keeps evidenced (cleanup_e2e_upload cfg i)"
  unfolding cleanup_e2e_upload_def cleanup_staged_def cleanup_rows_def Let_def
  by (auto intro!: evidence_steps keeps_on_db split: option.split)

lemma evidenced_reconcile: "keeps evidenced (reconcile_sealing cfg u)"
  unfolding reconcile_sealing_def
  by (auto intro!: keeps_try evidence_steps evidenced_seal_upload split: option.split if_splits)

lemma evidenced_reap: "keeps evidenced (reap_upload cfg now up)"
  unfolding reap_upload_def reap_archive_def
  by (auto intro!: evidence_steps split: option.split)

text \<open>The provider's operations keep the evidence invariant of the archive: an uploaded item has its
  digest when its bytes are staged, and none of these operations moves an item past its evidence.\<close>

theorem provider_keeps_evidence:
  "keeps evidenced (create_upload cfg name n ctype h) \<and> keeps evidenced (seal_upload cfg u)
   \<and> keeps evidenced (cleanup_e2e_upload cfg i) \<and> keeps evidenced (promote_upload a i)
   \<and> keeps evidenced (mark_upload_failed i why) \<and> keeps evidenced (project_verified_archives cfg)
   \<and> keeps evidenced (reconcile_sealing_uploads cfg) \<and> keeps evidenced (reap_expired_uploads cfg)"
  by (intro conjI evidenced_create_upload evidenced_seal_upload evidenced_cleanup)
    (auto simp: project_verified_archives_def reconcile_sealing_uploads_def reap_expired_uploads_def
      intro!: evidence_steps evidenced_reconcile evidenced_reap)

end
