(* ===== verification/Upload_Proofs.thy ===== *)
theory Upload_Proofs
  imports Provider_Uploads
begin

text \<open>
  What the upload operations of \<open>file_provider/service.py\<close> guarantee: which uploads are accepted, that
  a sealed upload is staged byte for byte under the digest recorded for it, also when the seal was cut
  off before, that the clean-up removes nothing but test uploads, and what reaping leaves.
\<close>

section \<open>Sealed bytes\<close>

lemma regular_canonical:
  assumes "canonical fs (butlast p)" "p \<noteq> []" "last p \<noteq> ''..''" "is_file fs p" "\<not> is_symlink fs p"
  shows "canonical fs p"
proof -
  from assms(4) obtain q where q: "resolve_path fs True p = Inr q"
    by (auto simp: is_file_def is_reg_def follow_def split: sum.splits)
  have p: "butlast p @ [last p] = p" using assms(2) by simp
  have "canonical fs (butlast p @ [last p])"
    by (rule no_symlinks_canonical [where p = q]) (use q assms in \<open>simp_all add: p\<close>)
  with p show ?thesis by simp
qed

lemma mkdirs_from_creates:
  "mkdirs_from acc cs fs = (r, fs') \<Longrightarrow> canonical fs (acc @ cs) \<Longrightarrow> node_at fs' q \<noteq> node_at fs q \<Longrightarrow>
     is_relative_to (acc @ cs) q"
proof (induction cs arbitrary: acc fs)
  case (Cons c cs)
  have can: "canonical fs (acc @ [c])" "canonical fs acc"
    using Cons.prems(2) canonical_prefix [of fs "acc @ [c]" cs] canonical_prefix [of fs acc] by auto
  show ?case
  proof (cases "follow fs (acc @ [c])")
    case None
    show ?thesis
    proof (cases "parent_dir fs (acc @ [c])")
      case (Inl e)
      with Cons.prems None show ?thesis by simp
    next
      case (Inr d)
      then have d: "d = acc" using parent_dir_canonical [of fs "acc @ [c]" d] can by simp
      show ?thesis
      proof (cases "node_at fs (acc @ [c])")
        case (Some n)
        with Cons.prems None Inr d show ?thesis by simp
      next
        case none: None
        let ?fs = "set_node (acc @ [c]) Dir fs"
        have run: "mkdirs_from (acc @ [c]) cs ?fs = (r, fs')"
          using Cons.prems(1) None Inr d none by simp
        have "canonical ?fs (acc @ c # cs)"
          using Cons.prems(2) by (rule canonical_change) (auto simp: is_link_def split: if_splits)
        with Cons.IH [OF run] Cons.prems(3) show ?thesis
          by (cases "q = acc @ [c]") (auto simp: is_relative_to_def)
      qed
    qed
  next
    case (Some n)
    with Cons.prems Cons.IH [of "acc @ [c]" fs] show ?thesis by (cases n) (auto split: if_splits)
  qed
qed simp

lemma mkdirs_creates:
  "mkdirs p fs = (r, fs') \<Longrightarrow> canonical fs p \<Longrightarrow> \<not> is_relative_to p q \<Longrightarrow> node_at fs' q = node_at fs q"
  unfolding mkdirs_def using mkdirs_from_creates [of "[]" p fs r fs' q] by auto

lemma mkdirs_extends: "mkdirs p fs = (r, fs') \<Longrightarrow> extends fs fs'"
  unfolding mkdirs_def by (rule mkdirs_from_extends)

text \<open>The candidate a seal accepts: the upload itself, perhaps just created empty, or staged bytes.\<close>

lemma seal_candidate_Inr:
  assumes run: "seal_candidate cfg up source dst fs = (Inr cand, fs1)"
    and src: "canonical fs (butlast source)" "source \<noteq> []" "last source \<noteq> ''..''" and dst: "canonical fs dst"
  shows "cand \<in> {source, dst} \<and> (\<exists>b. content fs1 cand = Some b \<and> length b = expected_size up)
    \<and> (fs1 = fs \<or> expected_size up = 0 \<and> node_at fs source = None \<and> (\<exists>i m. fs1 = set_node source (File [] i m) fs))
    \<and> (cand = source \<longrightarrow> canonical fs1 source)"
proof -
  note E = bind_py_Inr_E seq_Inr_E
  let ?e = "expected_size up = 0 \<and> \<not> path_exists fs source"
  from run have w: "when_py ?e (write_new source [] (fp_mtime cfg)) fs = (Inr (), fs1)"
    and c: "cand = (if is_file fs1 source then source else dst)" "\<not> is_symlink fs1 cand" "is_file fs1 cand"
    and sz: "stat_size cand fs1 = (Inr (expected_size up), fs1)"
    by (auto simp: seal_candidate_def require_Inr_iff stat_size_def elim!: E split: option.splits)
  have fs1: "fs1 = fs \<or> expected_size up = 0 \<and> node_at fs source = None \<and> (\<exists>i m. fs1 = set_node source (File [] i m) fs)"
    using w write_new_InrD [of source "[]" "fp_mtime cfg" fs fs1, OF _ src] by (auto simp: when_py_def split: if_splits)
  have can: "canonical fs1 (butlast source)"
  proof (cases "fs1 = fs")
    case False
    with fs1 src(2) show ?thesis
      by (intro canonical_change [OF src(1)]) (auto simp: is_link_def split: if_splits)
  qed (use src in simp)
  from c sz have "\<exists>b. content fs1 cand = Some b \<and> length b = expected_size up"
    by (auto simp: is_file_content content_def stat_size_def st_size_def split: option.splits node.splits)
  with c fs1 can src show ?thesis by (auto intro: regular_canonical)
qed

lemma unlink_missing_ok_run:
  assumes "canonical fs (butlast p)" "p \<noteq> []" "unlink_missing_ok p fs = (Inr (), fs')"
  shows "fs' = fs \<and> node_at fs p = None \<or> fs' = fs \<and> \<not> dirs_to fs p
    \<or> fs' = del_node p fs \<and> dirs_to fs p \<and> node_at fs p \<noteq> Some Dir \<and> node_at fs p \<noteq> None"
proof -
  from assms(3) consider "unlink p fs = (Inr (), fs')" | "unlink p fs = (Inl FileNotFoundError, fs')"
    by (auto simp: unlink_missing_ok_def try_py_def split: prod.splits sum.splits option.splits if_splits)
  then show ?thesis
  proof cases
    case 1
    then obtain q where "parent_dir fs p = Inr q"
      by (cases "parent_dir fs p") (simp_all add: unlink_def)
    with parent_dir_InrD [OF this assms(1,2)] 1 show ?thesis
      by (auto simp: unlink_def Let_def split: option.splits node.splits)
  next
    case 2
    show ?thesis
    proof (cases "parent_dir fs p")
      case (Inl e)
      then have "\<not> dirs_to fs p"
        using parent_dir_canonical [OF assms(1,2), of "butlast p"] by auto
      moreover from 2 Inl have "fs' = fs" by (simp add: unlink_def)
      ultimately show ?thesis by simp
    next
      case (Inr q)
      with parent_dir_InrD [OF this assms(1,2)] 2 show ?thesis
        by (auto simp: unlink_def Let_def split: option.splits node.splits)
    qed
  qed
qed

text \<open>A seal either moves the upload or finds the bytes a former seal moved.\<close>

lemma seal_bytes_Inr:
  assumes run: "seal_bytes cfg up source dst fs = (Inr h, fs')"
    and src: "canonical fs (butlast source)" "source \<noteq> []" "last source \<noteq> ''..''"
    and dst: "canonical fs dst" "dst \<noteq> []" "last dst \<noteq> ''..''" and ne: "source \<noteq> dst"
    and one: "node_at fs dst = None \<or> node_at fs source = None"
  shows "\<exists>b. content fs' dst = Some b \<and> h = fp_sha cfg b \<and> length b = expected_size up
    \<and> (case expected_sha256 up of None \<Rightarrow> True | Some k \<Rightarrow> h = k)"
proof -
  note E = bind_py_Inr_E seq_Inr_E
  from run obtain cand fs1 b where cand: "seal_candidate cfg up source dst fs = (Inr cand, fs1)"
    and b: "content fs1 cand = Some b" "h = fp_sha cfg b" and exp: "case expected_sha256 up of None \<Rightarrow> True | Some k \<Rightarrow> h = k"
    and move: "seal_move up source dst fs1 = (Inr (), fs')"
    by (auto simp: seal_bytes_def require_Inr_iff elim!: E dest!: sha256_file_InrD)
  from seal_candidate_Inr [OF cand src dst(1)] b(1)
  have c: "cand \<in> {source, dst}" "length b = expected_size up"
    "fs1 = fs \<or> expected_size up = 0 \<and> node_at fs source = None \<and> (\<exists>i m. fs1 = set_node source (File [] i m) fs)"
    "cand = source \<longrightarrow> canonical fs1 source" by auto
  have can1: "canonical fs1 (butlast source)" "canonical fs1 dst"
    using c(3) src(2) by (auto intro!: canonical_change [OF src(1)] canonical_change [OF dst(1)]
        simp: src(1) dst(1) is_link_def split: if_splits)
  from move obtain fs2 where mk: "mkdirs (butlast dst) fs1 = (Inr (), fs2)"
    and rest: "(if path_exists fs2 dst then
       bind_py (gets (\<lambda>fs. is_symlink fs dst)) (\<lambda>link.
       seq (require (\<not> link) (RuntimeError ''staging collision requires manual review'')) (
       bind_py (stat_size dst) (\<lambda>sz.
       seq (require (sz = expected_size up) (RuntimeError ''staging collision requires manual review''))
       (unlink_missing_ok source)))) else os_replace source dst) fs2 = (Inr (), fs')"
    by (auto simp: seal_move_def elim!: E)
  note ext = mkdirs_extends [OF mk]
  have same: "node_at fs2 dst = node_at fs1 dst"
    using mk canonical_butlast [OF can1(2)]
    by (rule mkdirs_creates) (use dst(2) in \<open>cases dst rule: rev_cases; simp add: is_relative_to_def\<close>)
  have can2: "canonical fs2 (butlast source)" "canonical fs2 dst" using can1 ext by (simp_all add: extends_canonical)
  have cand2: "content fs2 cand = Some b"
    using ext _ b(1) by (rule extends_content) (use c(1,4) can1(2) in auto)
  have "content fs' dst = Some b"
  proof (cases "path_exists fs2 dst")
    case False
    with cand2 c(1) have "cand = source" by (auto simp: content_def path_exists_def)
    with c(4) ext cand2 have s: "canonical fs2 source" "content fs2 source = Some b" by (auto simp: extends_canonical)
    from content_canonicalD(2) [OF s] obtain i m where n: "node_at fs2 source = Some (File b i m)" by blast
    from False rest have "os_replace source dst fs2 = (Inr (), fs')" by simp
    note eff = os_replace_effect [OF this s(1) n canonical_butlast [OF can2(2)] dst(2,3) ne]
    show ?thesis by (simp add: content_File [OF eff(4,5)] eff(1))
  next
    case True
    then have sz: "stat_size dst fs2 = (Inr (expected_size up), fs2)"
      and un: "unlink_missing_ok source fs2 = (Inr (), fs')"
      using rest by (auto simp: stat_size_def require_Inr_iff elim!: E split: option.splits)
    from True can2(2) have some: "node_at fs2 dst \<noteq> None" and dirs: "dirs_to fs2 dst"
      by (auto simp: path_exists_def follow_canonical split: if_splits)
    have none: "node_at fs source = None"
      using one same some c(3) ne src(2) by (auto split: if_splits)
    have here: "content fs2 dst = Some b"
    proof (cases "cand = dst")
      case False
      with c(1) have cs: "cand = source" by simp
      have "fs1 \<noteq> fs"
      proof
        assume "fs1 = fs"
        with cs b(1) c(4) content_canonicalD(2) [of fs source b] none show False by auto
      qed
      with c(3) have "expected_size up = 0" by blast
      with sz c(2) can2(2) dirs some show ?thesis
        by (auto simp: stat_size_def st_size_def content_def follow_canonical dest: canonical_node
            split: option.splits node.splits simp: is_link_def)
    qed (use cand2 in simp)
    from unlink_missing_ok_run [OF can2(1) src(2) un] show ?thesis
    proof (elim disjE conjE)
      assume fs': "fs' = del_node source fs2" and "node_at fs2 source \<noteq> Some Dir"
      show ?thesis
        using can2(2) here
        by (rule content_kept [where ps = "{source}"])
          (use fs' src(2) ne \<open>node_at fs2 source \<noteq> Some Dir\<close> in \<open>auto simp: only_changed_def is_link_def\<close>)
    qed (use here in auto)
  qed
  with b(2) c(2) exp show ?thesis by blast
qed

text \<open>Recording the seal in the database.\<close>

lemma tbl_get_set_state: "tbl_get ai_id k (tbl_upd ai_id i (ai_state_update f) t) =
    map_option (\<lambda>r. if ai_id r = i then ai_state_update f r else r) (tbl_get ai_id k t)"
  by (induction t) (auto simp: tbl_upd_def)

definition sealed_by :: "string \<Rightarrow> nat \<Rightarrow> string \<Rightarrow> world \<Rightarrow> bool" where
  "sealed_by u a h w \<longleftrightarrow>
     (\<exists>r. tbl_get ai_id a (items (live w)) = Some (r :: archive_item) \<and> ai_state r = LOCAL_STAGED \<and> plaintext_sha256 r = Some h)
     \<and> (\<exists>up. tbl_get fu_id u (fp_uploads (live w)) = Some (up :: fp_upload) \<and> fu_status up = Sealed)
     \<and> tbl_get idempotency_key (''file-provider-upload:'' @ u) (jobs (live w)) \<noteq> None"

lemma transition_keeps:
  assumes "transition_item i t who d w = (Inr x, w')"
  shows "fp_uploads (live w') = fp_uploads (live w)" "fp_items (live w') = fp_items (live w)" "jobs (live w') = jobs (live w)"
    "disk w' = disk w"
  using assms
  by (auto simp: transition_item_run seq_def bind_py_def upd_item_def on_db_def add_audit_def split: option.splits sum.splits)

lemma enqueue_has_job:
  assumes "enqueue k ad d key n w = (Inr j, w')"
  shows "tbl_get idempotency_key key (jobs (live w')) \<noteq> None" "items (live w') = items (live w)"
    "fp_uploads (live w') = fp_uploads (live w)" "disk w' = disk w" "fp_items (live w') = fp_items (live w)"
  using assms
  by (auto simp: enqueue_def query_def utcnow_def on_db_def bind_py_def seq_def Let_def tbl_get_append
      split: option.splits)

lemma upsert_frame:
  "items (live (snd (upsert i w))) = items (live w)" "fp_uploads (live (snd (upsert i w))) = fp_uploads (live w)"
  "jobs (live (snd (upsert i w))) = jobs (live w)" "disk (snd (upsert i w)) = disk w"
  by (simp_all add: upsert_def bind_py_def record_change_run Let_def)

lemma seal_queue_Inr:
  assumes "seal_queue u a i h v = (Inr k, w')"
  shows "k = a" "items (live w') = items (live v)" "fp_uploads (live w') = fp_uploads (live v)" "disk w' = disk v"
    "tbl_get idempotency_key (''file-provider-upload:'' @ u) (jobs (live w')) \<noteq> None"
proof -
  let ?v = "v\<lparr>live := fp_items_update (tbl_upd fi_id i (\<lambda>r. r\<lparr>content_version := h\<rparr>)) (live v)\<rparr>"
  let ?q = "enqueue ''archive_upload'' ''file_provider''
         (PDict [(''archive_item_id'', PInt (int a)), (''file_provider_item_id'', PStr i)])
         (''file-provider-upload:'' @ u) 5"
  have "seq (bind_py ?q (\<lambda>_. ret ())) (seq (upsert i) (ret a)) ?v = (Inr k, w')"
    using assms unfolding seal_queue_def by (rule seq_Inr_E) (simp add: on_db_def)
  then obtain x v2 where q0: "bind_py ?q (\<lambda>_. ret ()) ?v = (Inr x, v2)"
    and up: "seq (upsert i) (ret a) v2 = (Inr k, w')" by (rule seq_Inr_E)
  from q0 obtain j where q: "?q ?v = (Inr j, v2)" by (rule bind_py_Inr_E) simp
  from up obtain y where up: "upsert i v2 = (Inr y, w')" and k: "k = a" by (rule seq_Inr_E) simp
  note f = upsert_frame [of i v2, unfolded up snd_conv] and e = enqueue_has_job [OF q]
  show "k = a" by (rule k)
  show "items (live w') = items (live v)" using f(1) e(2) by simp
  show "fp_uploads (live w') = fp_uploads (live v)" using f(2) e(3) by simp
  show "disk w' = disk v" using f(4) e(4) by simp
  show "tbl_get idempotency_key (''file-provider-upload:'' @ u) (jobs (live w')) \<noteq> None"
    unfolding f(3) by (rule e(1))
qed

lemma seal_record_Inr:
  assumes run: "seal_record u up a h w = (Inr k, w')"
    and row: "tbl_get fu_id u (fp_uploads (live w)) \<noteq> None" "tbl_get ai_id (ai_id a) (items (live w)) \<noteq> None"
  shows "k = ai_id a \<and> disk w' = disk w \<and> sealed_by u k h w'"
proof -
  let ?w1 = "w\<lparr>live := items_update (tbl_upd ai_id (ai_id a) (\<lambda>x. x\<lparr>plaintext_sha256 := Some h\<rparr>)) (live w)\<rparr>"
  from run obtain v where v: "transition_item (ai_id a) LOCAL_STAGED ''file-provider'' [] ?w1 = (Inr (), v)"
    and rest: "bind_py (get_fp (fu_item up)) (\<lambda>row.
     case row of None \<Rightarrow> raise_py (RuntimeError ''File Provider item is missing'')
     | Some x \<Rightarrow> seal_queue u (ai_id a) (fi_id x) h)
     (v\<lparr>live := fp_uploads_update (tbl_upd fu_id u (\<lambda>x. x\<lparr>fu_status := Sealed\<rparr>)) (live v)\<rparr>) = (Inr k, w')"
    by (auto simp: seal_record_def upd_item_def upd_upload_def on_db_def elim!: seq_Inr_E)
  let ?v1 = "v\<lparr>live := fp_uploads_update (tbl_upd fu_id u (\<lambda>x. x\<lparr>fu_status := Sealed\<rparr>)) (live v)\<rparr>"
  from rest obtain i where q: "seal_queue u (ai_id a) i h ?v1 = (Inr k, w')"
    by (auto simp: bind_py_def get_fp_def query_def split: option.splits)
  note t = transition_keeps [OF v] and s = seal_queue_Inr [OF q]
  from transition_item_outcome [OF v]
  have "items (live v) = tbl_upd ai_id (ai_id a) (ai_state_update (\<lambda>_. LOCAL_STAGED)) (items (live ?w1))" by auto
  with row(2) s(1,2) have "\<exists>r. tbl_get ai_id k (items (live w')) = Some r \<and> ai_state r = LOCAL_STAGED \<and> plaintext_sha256 r = Some h"
    by (auto simp: tbl_get_upd_same)
  moreover have "\<exists>up. tbl_get fu_id u (fp_uploads (live w')) = Some up \<and> fu_status up = Sealed"
    using row(1) s(3) t by (auto simp: tbl_get_upd_same)
  ultimately show ?thesis using s t by (simp add: sealed_by_def)
qed

text \<open>The path of an upload: its name beneath the resolved upload root.\<close>

lemma upload_path_Inr:
  assumes "upload_path cfg u fs = (Inr p, fs')"
  obtains rt where "resolve_path fs False (fp_upload_root cfg) = Inr rt" "p = rt @ [u @ ''.upload'']"
    "mkdirs rt fs = (Inr (), fs')" "canonical fs rt" "is_ascii u" "isalnum (filter (\<lambda>c. c \<noteq> CHR ''-'') u)"
proof -
  from assms obtain rt where r: "resolve_path fs False (fp_upload_root cfg) = Inr rt" "p = rt @ [u @ ''.upload'']"
    "mkdirs rt fs = (Inr (), fs')" "is_ascii u" "isalnum (filter (\<lambda>c. c \<noteq> CHR ''-'') u)"
    by (auto simp: upload_path_def resolved_def require_Inr_iff elim!: bind_py_Inr_E seq_Inr_E)
  with that resolve_root_canonical [OF r(1)] show thesis by blast
qed

lemma upload_name_not_dots: "u @ ''.upload'' \<noteq> ''..''"
  by (cases u) auto


section \<open>Accepted uploads\<close>

lemma split_on_parts: "x \<in> set (split_on c s) \<Longrightarrow> c \<notin> set x"
proof (induction s arbitrary: x)
  case (Cons y s)
  then show ?case by (cases "split_on c s") (auto split: if_splits)
qed simp

lemma split_on_none: "c \<notin> set s \<Longrightarrow> split_on c s = [s]"
  by (induction s) auto

lemma split_on_nonempty: "split_on c s \<noteq> []"
  by (cases s) (auto split: list.splits)

lemma split_on_at: "split_on c (s @ c # t) = split_on c s @ split_on c t"
proof (induction s)
  case (Cons x s)
  then show ?case using split_on_nonempty [of c s] by (cases "split_on c s") auto
qed simp

lemma validate_upload_name_Inr:
  assumes "validate_upload_name raw = Inr name"
  shows "name = strip raw \<and> parts name = [name] \<and> name \<noteq> ''..'' \<and> utf8_length name \<le> 255
    \<and> safe_relative_path (''Uploads/'' @ name) = Inr [''Uploads'', name]"
proof -
  from assms have n: "name = strip raw" "parts name \<noteq> []" "path_name name = name" "name \<noteq> ''..''" "utf8_length name \<le> 255"
    by (auto simp: validate_upload_name_def Let_def safe_relative_path_Inr split: sum.splits if_splits)
  then have "name \<in> set (parts name)" by (metis last_in_set path_name_def)
  then have mem: "name \<in> set (split_on (CHR ''/'') name)" "name \<noteq> []" "name \<noteq> ''.''" by (auto simp: parts_def)
  then have split: "split_on (CHR ''/'') name = [name]" using split_on_parts split_on_none by metis
  with mem have p: "parts name = [name]" by (simp add: parts_def)
  have "split_on (CHR ''/'') (''Uploads/'' @ name) = [''Uploads'', name]"
    using split_on_at [of "CHR ''/''" "''Uploads''" name] split by simp
  with mem have "parts (''Uploads/'' @ name) = [''Uploads'', name]" by (simp add: parts_def)
  moreover have "\<not> is_absolute (''Uploads/'' @ name)" by (simp add: is_absolute_def startswith_def)
  ultimately have "safe_relative_path (''Uploads/'' @ name) = Inr [''Uploads'', name]"
    using n(4) by (simp add: safe_relative_path_Inr)
  with n p show ?thesis by blast
qed

lemma check_space_Inr:
  "check_space cfg n s = (Inr x, t) \<Longrightarrow>
     t = s \<and> n * 3 \<le> snd (fp_usage cfg)
     \<and> fp_min_free cfg \<le> rat_of_int ((snd (fp_usage cfg) - n * 3) * 100) / rat_of_int (fst (fp_usage cfg))"
  by (cases "fp_usage cfg") (auto simp: check_space_def Let_def split: if_splits)

lemma bootstrap_rows:
  assumes "bootstrap_roots w = (Inr x, w')" "r \<in> set (fp_items (live w))"
  shows "r \<in> set (fp_items (live w'))"
proof -
  let ?P = "\<lambda>v. r \<in> set (fp_items (live v))"
  let ?body = "\<lambda>(i, parent, name). bind_py (get_fp i) (\<lambda>found.
      case found of Some _ \<Rightarrow> ret () | None \<Rightarrow> add_folder i parent name)"
  have body: "?P v'" if run: "?body e v = (Inr u, v')" and p: "?P v" for e u v v'
  proof -
    obtain i p n where e: "e = (i, p, n)" by (cases e)
    show ?thesis
    proof (cases "tbl_get fi_id i (fp_items (live v))")
      case None
      with run e have "add_folder i p n v = (Inr u, v')" by (simp add: get_fp_def query_def bind_py_def)
      with None add_folder_grows [of i p n v u v'] p show ?thesis by (auto simp: grows_def has_row_def)
    qed (use run e p in \<open>simp add: get_fp_def query_def bind_py_def\<close>)
  qed
  have each: "?P v'" if "for_each ?body es v = (Inr u, v')" "?P v" for es u v v'
    using that
  proof (induction es arbitrary: v)
    case (Cons e es)
    from Cons.prems(1) obtain y v1 where "?body e v = (Inr y, v1)" "for_each ?body es v1 = (Inr u, v')"
      unfolding for_each.simps by (rule seq_Inr_E)
    with Cons.IH body Cons.prems(2) show ?case by blast
  qed simp
  from assms(1) obtain v where v: "for_each ?body roots w = (Inr (), v)"
    and g: "get_setting ''file_provider_generation'' v = (Inr y, w') \<or> True"
    and rest: "bind_py (get_setting ''file_provider_generation'') (\<lambda>_. ret ()) v = (Inr x, w')"
    unfolding bootstrap_roots_def by (auto elim!: seq_Inr_E)
  have "fp_items (live w') = fp_items (live v)"
    using rest by (auto simp: get_setting_def query_def fresh_token_def on_db_def bind_py_def seq_def split: option.splits)
  with each [OF v assms(2)] show ?thesis by simp
qed

lemma check_upload_Inr:
  assumes "check_upload cfg raw n h v = (Inr name, v')"
  shows "v' = v" "validate_upload_name raw = Inr name" "0 \<le> n" "n \<le> fp_max_size cfg" "n * 3 \<le> snd (fp_usage cfg)"
    "fp_min_free cfg \<le> rat_of_int ((snd (fp_usage cfg) - n * 3) * 100) / rat_of_int (fst (fp_usage cfg))"
    "case h of None \<Rightarrow> True | Some d \<Rightarrow> hex_digest d"
  using assms unfolding check_upload_def
  by (auto simp: require_Inr_iff dest!: check_space_Inr elim!: bind_py_Inr_E seq_Inr_E)

lemma insert_rows_Inr:
  assumes "insert_rows u fp a name z ctype h v = (Inr up, v')"
  shows "fu_status up = Open \<and> received_size up = 0 \<and> expected_size up = z \<and> expected_sha256 up = h"
    "\<forall>r \<in> set (fp_items (live v)). \<not> (fi_parent r = Some INBOX_ID \<and> fi_name r = name)"
proof -
  let ?row = "(blank_fp fp (Some INBOX_ID) name FileKind (Aware (clock v (ticks v))))\<lparr>fi_status := Processing,
      fi_archive_item := Some a, fi_size := z,
      content_type := (if ctype = [] then ''application/octet-stream'' else ctype)\<rparr>"
  from assms have un: "fp_unique (fp_items (live v) @ [?row])"
    by (auto simp: insert_rows_def utcnow_def write_items_def query_def require_Inr_iff elim!: bind_py_Inr_E seq_Inr_E)
  have "placed [?row] = [(INBOX_ID, name)]" by (simp add: placed_def List.map_filter_def blank_fp_def)
  with un have "(INBOX_ID, name) \<notin> set (placed (fp_items (live v)))"
    unfolding fp_unique_def placed_append by auto
  then show "\<forall>r \<in> set (fp_items (live v)). \<not> (fi_parent r = Some INBOX_ID \<and> fi_name r = name)"
    by (auto simp: placed_member)
  from assms show "fu_status up = Open \<and> received_size up = 0 \<and> expected_size up = z \<and> expected_sha256 up = h"
    by (auto simp: insert_rows_def Let_def elim!: bind_py_Inr_E seq_Inr_E)
qed

lemma keeps_bind_E:
  assumes "bind_py m f s = (Inr y, t)" "keeps P m" "P s"
  obtains x s' where "P s'" "f x s' = (Inr y, t)"
  using assms by (elim bind_py_Inr_E) (blast dest: keepsD2)

lemma make_upload_Inr:
  assumes "make_upload name z ctype h v = (Inr up, v')"
  shows "fu_status up = Open \<and> received_size up = 0" "expected_size up = z \<and> expected_sha256 up = h"
    "\<forall>r \<in> set (fp_items (live v)). \<not> (fi_parent r = Some INBOX_ID \<and> fi_name r = name)"
proof -
  define P where "P w \<longleftrightarrow> fp_items (live w) = fp_items (live v)" for w :: world
  have keep: "keeps P fresh_token" "keeps P utcnow" "keeps P (transition_item i t who d)" "keeps P (insert_archive mk)" for i t who d mk
    by (auto simp: keeps_def P_def fresh_token_def utcnow_def insert_archive_def add_item_def transition_item_run
        query_def on_db_def upd_item_def add_audit_def bind_py_def seq_def require_def split: option.split sum.split)
  have "P v" by (simp add: P_def)
  with assms have "\<exists>u fp a v1. P v1 \<and> insert_rows u fp a name z ctype h v1 = (Inr up, v')"
    unfolding make_upload_def seq_def
    by - ((erule keeps_bind_E, rule keep, assumption)+, blast)
  then obtain u fp a v1 where "P v1" "insert_rows u fp a name z ctype h v1 = (Inr up, v')" by blast
  with insert_rows_Inr [of u fp a name z ctype h v1 up v']
  show "fu_status up = Open \<and> received_size up = 0" "expected_size up = z \<and> expected_sha256 up = h"
    "\<forall>r \<in> set (fp_items (live v)). \<not> (fi_parent r = Some INBOX_ID \<and> fi_name r = name)"
    by (auto simp: P_def)
qed

text \<open>An accepted upload has a single safe component as its name, so its archive path stays two
  components deep, fits the size limit and leaves the configured share of the disk free after three
  times its size; its row is open and empty, and no row of the inbox had its name, since a taken name
  is not replaced by a unique one but ends the request in an integrity error.\<close>

theorem create_upload_accepts:
  assumes run: "create_upload cfg raw n ctype h w = (Inr up, w')"
  shows "\<exists>name. name = strip raw \<and> safe_relative_path (''Uploads/'' @ name) = Inr [''Uploads'', name] \<and> utf8_length name \<le> 255
    \<and> 0 \<le> n \<and> n \<le> fp_max_size cfg \<and> n * 3 \<le> snd (fp_usage cfg)
    \<and> fp_min_free cfg \<le> rat_of_int ((snd (fp_usage cfg) - n * 3) * 100) / rat_of_int (fst (fp_usage cfg))
    \<and> (\<forall>d. h = Some d \<longrightarrow> hex_digest d)
    \<and> fu_status up = Open \<and> received_size up = 0 \<and> int (expected_size up) = n \<and> expected_sha256 up = h
    \<and> \<not> (\<exists>r \<in> set (fp_items (live w)). fi_parent r = Some INBOX_ID \<and> fi_name r = name)"
proof -
  from run obtain x v0 name where boot: "bootstrap_roots w = (Inr x, v0)" and check: "check_upload cfg raw n h v0 = (Inr name, v0)"
    and make: "make_upload name (nat n) ctype h v0 = (Inr up, w')"
    unfolding create_upload_def by (elim seq_Inr_E bind_py_Inr_E) (auto dest: check_upload_Inr)
  note c = check_upload_Inr [OF check] and m = make_upload_Inr [OF make]
  have "\<not> (\<exists>r \<in> set (fp_items (live w)). fi_parent r = Some INBOX_ID \<and> fi_name r = name)"
    using m(3) bootstrap_rows [OF boot] by blast
  with c m validate_upload_name_Inr [OF c(2)] show ?thesis by (auto split: option.splits)
qed

section \<open>Clean-up of test uploads\<close>

lemma resolve_strict_weak: "resolve fs True n acc cs = Inr p \<Longrightarrow> resolve fs False n acc cs = Inr p"
proof (induction fs True n acc cs rule: resolve.induct)
  case (2 fs n acc c cs)
  then show ?case by (auto split: if_splits option.splits node.splits)
qed simp

text \<open>Unlinking removes one entry: the last name in the directory its parent resolves to.\<close>

lemma unlink_missing_ok_entry:
  assumes "unlink_missing_ok p fs = (r, fs')" "node_at fs' q \<noteq> node_at fs q"
  shows "\<exists>d. resolve_path fs False (butlast p) = Inr d \<and> q = d @ [last p]"
proof -
  have "snd (unlink p fs) = fs'"
    using assms(1) by (auto simp: unlink_missing_ok_def try_py_def split: prod.splits sum.splits option.splits if_splits)
  with assms(2) obtain d where d: "parent_dir fs p = Inr d" "fs' = del_node (d @ [last p]) fs"
    by (auto simp: unlink_def Let_def split: sum.splits option.splits node.splits)
  from d(1) have "resolve_path fs True (butlast p) = Inr d"
    by (auto simp: parent_dir_def split: sum.splits if_splits)
  then have "resolve_path fs False (butlast p) = Inr d"
    unfolding resolve_path_def by (rule resolve_strict_weak)
  with assms(2) d(2) show ?thesis by (auto split: if_splits)
qed

lemma cleanup_staged_entry:
  assumes run: "cleanup_staged cfg i up a w = (res, w')" and q: "node_at (disk w') q \<noteq> node_at (disk w) q"
  shows "\<exists>rt. resolve_path (disk w) False (fp_staging_root cfg) = Inr rt \<and> q = partial_path rt (ai_id a)"
proof -
  let ?p = "partial_path (fp_staging_root cfg) (ai_id a)"
  let ?tail = "bind_py (gets (\<lambda>w. path_exists (disk w) ?p)) (\<lambda>still.
      seq (require (\<not> still) (OSErr ''E2E upload cleanup could not be verified'')) (cleanup_rows i up a))"
  have rest: "disk w' = disk w \<or> seq (on_disk (unlink_missing_ok ?p)) ?tail w = (res, w')"
    using run by (auto simp: cleanup_staged_def Let_def seq_def bind_py_def require_def on_disk_def resolved_def
        split: sum.splits if_splits)
  obtain r fs' where un: "unlink_missing_ok ?p (disk w) = (r, fs')" by force
  define P where "P v \<longleftrightarrow> disk v = fs'" for v :: world
  have keep: "keeps P (transition_item k t who d)" "keeps P (record_change j op)" "keeps P (on_db f)" for k t who d j op f
    by (auto simp: keeps_def P_def transition_item_run query_def on_db_def upd_item_def add_audit_def bind_py_def
        seq_def record_change_run Let_def split: option.split sum.split)
  have "keeps P ?tail"
    unfolding cleanup_rows_def by (intro keeps_bind keeps_seq keeps_require keeps_ret keeps_gets keep)
  then have "P (snd (?tail (w\<lparr>disk := fs'\<rparr>)))" by (rule keepsD) (simp add: P_def)
  with rest q un have "disk w' = fs'"
    by (cases r) (auto simp: P_def seq_def on_disk_def)
  with unlink_missing_ok_entry [OF un] q show ?thesis by (auto simp: partial_path_def)
qed

text \<open>The clean-up endpoint touches disk and database only when test deletion is enabled, and then only
  for a sealed upload with the test prefix whose archive item is still merely staged; the one entry it
  can remove is that item's partial file in the staging root.\<close>

theorem cleanup_only_test_uploads:
  assumes run: "cleanup_e2e_upload cfg i w = (res, w')" and changed: "w' \<noteq> w"
  shows "fp_test_delete cfg \<and> (\<exists>x up a. tbl_get fi_id i (fp_items (live w)) = Some (x :: fp_item)
    \<and> startswith (fi_name x) ''mnema-e2e-''
    \<and> tbl_get fu_item i (fp_uploads (live w)) = Some (up :: fp_upload) \<and> fu_status up = Sealed
    \<and> tbl_get ai_id (fu_archive_item up) (items (live w)) = Some (a :: archive_item)
    \<and> source_provider a = ''file_provider_upload'' \<and> ai_state a = LOCAL_STAGED
    \<and> (\<forall>q. node_at (disk w') q \<noteq> node_at (disk w) q \<longrightarrow>
         (\<exists>rt. resolve_path (disk w) False (fp_staging_root cfg) = Inr rt \<and> q = partial_path rt (ai_id a))))"
proof -
  have ends: "seq (raise_py e) m v = (Inl e, v)" for e and m :: "(world, unit) py" and v by (simp add: seq_def)
  have goes: "seq (ret u) m v = m v" for u :: unit and m :: "(world, unit) py" and v by (simp add: seq_def)
  have steps: "seq (require b e) m v = m v" if b for b e and m :: "(world, unit) py" and v using that by (simp add: goes)
  from run changed have test: "fp_test_delete cfg"
    by (cases "fp_test_delete cfg") (simp_all add: cleanup_e2e_upload_def ends)
  note run = run [unfolded cleanup_e2e_upload_def steps [OF test] get_fp_def query_def]
  from run changed obtain x where x: "tbl_get fi_id i (fp_items (live w)) = Some x"
    by (cases "tbl_get fi_id i (fp_items (live w))") (simp_all add: bind_py_def)
  from run changed x have name: "startswith (fi_name x) ''mnema-e2e-''"
    by (cases "startswith (fi_name x) ''mnema-e2e-''") (simp_all add: bind_py_def ends goes)
  from run changed x name obtain up where up: "tbl_get fu_item i (fp_uploads (live w)) = Some up"
    by (cases "tbl_get fu_item i (fp_uploads (live w))") (simp_all add: bind_py_def steps goes ends)
  from run changed x name up have sealed: "fu_status up = Sealed"
    by (cases "fu_status up = Sealed") (simp_all add: bind_py_def steps goes ends)
  from run changed x name up sealed obtain a where a: "tbl_get ai_id (fu_archive_item up) (items (live w)) = Some a"
    by (cases "tbl_get ai_id (fu_archive_item up) (items (live w))") (simp_all add: bind_py_def steps goes ends)
  from run changed x name up sealed a have st: "source_provider a = ''file_provider_upload'' \<and> ai_state a = LOCAL_STAGED"
    by (cases "source_provider a = ''file_provider_upload'' \<and> ai_state a = LOCAL_STAGED")
      (auto simp: bind_py_def steps goes ends)
  from run x name up sealed a st have "cleanup_staged cfg i up a w = (res, w')"
    by (simp add: bind_py_def steps goes)
  from cleanup_staged_entry [OF this] test x name up sealed a st show ?thesis by blast
qed

section \<open>Reaping\<close>

lemma mark_upload_failed_uploads: "fp_uploads (live (snd (mark_upload_failed i why w))) = fp_uploads (live w)"
  by (auto simp: mark_upload_failed_def get_fp_def query_def bind_py_def seq_def write_items_def require_def on_db_def
      upsert_frame split: option.split)

lemma keeps_tail_uploads:
  defines "P \<equiv> \<lambda>T (w :: world). fp_uploads (live w) = T"
  shows "keeps (P T) (seq (mark_upload_failed j why) (seq (reap_archive k) (ret n)))"
    "keeps (P T) (on_disk m)"
proof -
  have keep: "keeps (P T) (transition_item i t who d)" "keeps (P T) (mark_upload_failed j why)" "keeps (P T) (query f)"
    for i t who d f
    by (auto simp: keeps_def P_def transition_item_run query_def on_db_def upd_item_def add_audit_def bind_py_def
        seq_def mark_upload_failed_uploads split: option.split sum.split)
  show "keeps (P T) (seq (mark_upload_failed j why) (seq (reap_archive k) (ret n)))"
    unfolding reap_archive_def
    by (auto intro!: keeps_seq keeps_bind keeps_ret keeps_when keep split: option.split)
  show "keeps (P T) (on_disk m)" by (auto simp: keeps_def P_def on_disk_def split: prod.split)
qed

lemma reap_upload_uploads:
  assumes "reap_upload cfg now up v = (Inr k, v')"
  shows "fp_uploads (live v') = (if instant (fu_expires_at up) > instant now then fp_uploads (live v)
    else tbl_upd fu_id (fu_id up) (\<lambda>x. x\<lparr>fu_status := UploadFailed\<rparr>) (fp_uploads (live v)))"
proof (cases "instant (fu_expires_at up) > instant now")
  case True
  with assms show ?thesis by (simp add: reap_upload_def)
next
  case False
  let ?f = "\<lambda>x :: fp_upload. x\<lparr>fu_status := UploadFailed\<rparr>"
  from assms have "bind_py (on_disk (upload_path cfg (fu_id up))) (\<lambda>p.
      bind_py (gets (\<lambda>w. is_file (disk w) p \<and> \<not> is_symlink (disk w) p)) (\<lambda>there.
      seq (when_py there (on_disk (unlink_missing_ok p))) (
      seq (upd_upload (fu_id up) ?f) (
      seq (mark_upload_failed (fu_item up) ''upload_expired'') (
      seq (reap_archive (fu_archive_item up)) (ret 1)))))) v = (Inr k, v')"
    using False by (simp add: reap_upload_def)
  then obtain p v1 where v1: "on_disk (upload_path cfg (fu_id up)) v = (Inr p, v1)"
    and r: "bind_py (gets (\<lambda>w. is_file (disk w) p \<and> \<not> is_symlink (disk w) p)) (\<lambda>there.
      seq (when_py there (on_disk (unlink_missing_ok p))) (
      seq (upd_upload (fu_id up) ?f) (
      seq (mark_upload_failed (fu_item up) ''upload_expired'') (
      seq (reap_archive (fu_archive_item up)) (ret 1))))) v1 = (Inr k, v')" by (rule bind_py_Inr_E)
  from r obtain there x where "there = x" and r: "seq (when_py there (on_disk (unlink_missing_ok p))) (
      seq (upd_upload (fu_id up) ?f) (
      seq (mark_upload_failed (fu_item up) ''upload_expired'') (
      seq (reap_archive (fu_archive_item up)) (ret 1)))) v1 = (Inr k, v')" by (rule bind_py_Inr_E) simp
  from r obtain y v2 where v2: "when_py there (on_disk (unlink_missing_ok p)) v1 = (Inr y, v2)"
    and r: "seq (upd_upload (fu_id up) ?f) (
      seq (mark_upload_failed (fu_item up) ''upload_expired'') (
      seq (reap_archive (fu_archive_item up)) (ret 1))) v2 = (Inr k, v')" by (rule seq_Inr_E)
  from r have r: "seq (mark_upload_failed (fu_item up) ''upload_expired'') (seq (reap_archive (fu_archive_item up)) (ret 1))
      (v2\<lparr>live := fp_uploads_update (tbl_upd fu_id (fu_id up) ?f) (live v2)\<rparr>) = (Inr k, v')"
    by (rule seq_Inr_E) (simp add: upd_upload_def on_db_def)
  have "fp_uploads (live v2) = fp_uploads (live v)"
    using keepsD2 [OF keeps_tail_uploads(2) _ v1] keepsD2 [OF keeps_when [OF keeps_tail_uploads(2)] _ v2] by simp
  moreover have "fp_uploads (live v') = tbl_upd fu_id (fu_id up) ?f (fp_uploads (live v2))"
    using keepsD2 [OF keeps_tail_uploads(1) _ r] by simp
  ultimately show ?thesis using False by simp
qed

lemma reap_all:
  "map_py (reap_upload cfg now) ups v = (Inr ns, v') \<Longrightarrow> r \<in> set (fp_uploads (live v')) \<Longrightarrow> fu_status r = Open \<Longrightarrow>
     r \<in> set (fp_uploads (live v)) \<and> (\<forall>up \<in> set ups. fu_id up = fu_id r \<longrightarrow> instant (fu_expires_at up) > instant now)"
proof (induction ups arbitrary: v ns)
  case (Cons up ups)
  from Cons.prems(1) obtain k v1 ms where k: "reap_upload cfg now up v = (Inr k, v1)"
    and ms: "map_py (reap_upload cfg now) ups v1 = (Inr ms, v')"
    by (auto elim!: bind_py_Inr_E)
  from Cons.IH [OF ms Cons.prems(2,3)] have IH: "r \<in> set (fp_uploads (live v1))"
    "\<forall>up \<in> set ups. fu_id up = fu_id r \<longrightarrow> instant (fu_expires_at up) > instant now" by blast+
  from IH(1) Cons.prems(3) have "r \<in> set (fp_uploads (live v)) \<and> (fu_id up = fu_id r \<longrightarrow> instant (fu_expires_at up) > instant now)"
    unfolding reap_upload_uploads [OF k] by (auto split: if_splits dest!: set_tbl_upd)
  with IH(2) show ?case by simp
qed simp

text \<open>Once the reaper has run, no open upload is past its expiry, and it opened none itself: every
  upload still open was open before.\<close>

theorem reap_leaves_no_expired:
  assumes run: "reap_expired_uploads cfg w = (Inr n, w')"
    and still: "r \<in> set (fp_uploads (durable w'))" "fu_status r = Open"
  shows "r \<in> set (fp_uploads (durable w)) \<and> clock w (ticks w) < instant (fu_expires_at r)"
proof -
  let ?now = "Aware (clock w (ticks w))" and ?w = "w\<lparr>ticks := Suc (ticks w), live := durable w\<rparr>"
  let ?ups = "filter (\<lambda>v. fu_status v = Open) (fp_uploads (durable w))"
  from run obtain ns v where all: "map_py (reap_upload cfg ?now) ?ups ?w = (Inr ns, v)" and w': "durable w' = live v"
    by (auto simp: reap_expired_uploads_def utcnow_def session_block_def query_def bind_py_def
        split: prod.splits sum.splits)
  from reap_all [OF all] still w' have "r \<in> set (fp_uploads (durable w))"
    "\<forall>up \<in> set ?ups. fu_id up = fu_id r \<longrightarrow> instant (fu_expires_at up) > instant ?now" by auto
  with still(2) show ?thesis by auto
qed

section \<open>A small installation\<close>

definition upload_disk :: fsys where
  "upload_disk = [([''active''], Dir), ([''active'', ''up''], Dir), ([''active'', ''up'', ''u1.upload''], File ''hi'' 3 0), ([''stage''], Dir)]"

definition example_upload :: "upload_status \<Rightarrow> fp_upload" where
  "example_upload st = \<lparr>fu_id = ''u1'', fu_item = ''f1'', fu_archive_item = 7, expected_size = 2, received_size = 2,
     expected_sha256 = Some ''hi'', fu_status = st, fu_expires_at = Naive 5\<rparr>"

definition upload_world :: "fsys \<Rightarrow> upload_status \<Rightarrow> archive_state \<Rightarrow> world" where
  "upload_world fs st ast = (let d = empty_db\<lparr>
       items := [(blank_item 7 ''file_provider_upload'' ''u1'')\<lparr>ai_state := ast\<rparr>],
       fp_items := [(blank_fp ''f1'' (Some INBOX_ID) ''mnema-e2e-a'' FileKind (Aware 0))\<lparr>fi_archive_item := Some 7\<rparr>],
       fp_uploads := [example_upload st]\<rparr>
     in \<lparr>disk = fs, live = d, durable = d, clock = (\<lambda>n. int n + 6), ticks = 0, rand = (\<lambda>n. dec n), draws = 0\<rparr>)"


theorem create_upload_accepts_witness:
  "\<exists>up w'. create_upload example_fp '' b.txt '' 3 [] None (upload_world [] Open DOWNLOADING) = (Inr up, w')
     \<and> expected_size up = 3 \<and> safe_relative_path (''Uploads/'' @ ''b.txt'') = Inr [''Uploads'', ''b.txt'']"
proof -
  let ?run = "create_upload example_fp '' b.txt '' 3 [] None (upload_world [] Open DOWNLOADING)"
  have "case fst ?run of Inl e \<Rightarrow> False | Inr up \<Rightarrow> True" by code_simp
  then obtain up w' where run: "?run = (Inr up, w')" by (cases ?run) (auto split: sum.splits)
  have "strip '' b.txt '' = ''b.txt''" by code_simp
  with create_upload_accepts [OF run] run show ?thesis by auto
qed

theorem cleanup_only_test_uploads_witness:
  "\<exists>res w'. cleanup_e2e_upload example_fp ''f1'' (upload_world [([''stage''], Dir), ([''stage'', ''7.partial''], File ''hi'' 1 0)]
       Sealed LOCAL_STAGED) = (res, w') \<and> fp_items (live w') = [] \<and> fp_test_delete example_fp"
proof -
  let ?w = "upload_world [([''stage''], Dir), ([''stage'', ''7.partial''], File ''hi'' 1 0)] Sealed LOCAL_STAGED"
  obtain res w' where run: "cleanup_e2e_upload example_fp ''f1'' ?w = (res, w')" by force
  have gone: "fp_items (live (snd (cleanup_e2e_upload example_fp ''f1'' ?w))) = []" by code_simp
  then have "w' \<noteq> ?w" using run by (auto simp: upload_world_def Let_def)
  from cleanup_only_test_uploads [OF run this] run gone show ?thesis by auto
qed

theorem reap_leaves_no_expired_witness:
  "\<exists>w' r. reap_expired_uploads example_fp (upload_world upload_disk Open DOWNLOADING) = (Inr 1, w')
     \<and> reap_expired_uploads example_fp w' = (Inr 0, snd (reap_expired_uploads example_fp w'))
     \<and> r \<in> set (fp_uploads (durable w')) \<and> fu_status r \<noteq> Open"
proof -
  let ?w = "upload_world upload_disk Open DOWNLOADING"
  have "fst (reap_expired_uploads example_fp ?w) = Inr 1"
    "map fu_id (fp_uploads (durable (snd (reap_expired_uploads example_fp ?w)))) = [''u1'']"
    "map (instant \<circ> fu_expires_at) (fp_uploads (durable ?w)) = [5]"
    "fst (reap_expired_uploads example_fp (snd (reap_expired_uploads example_fp ?w))) = Inr 0" by code_simp+
  then obtain w' r where run: "reap_expired_uploads example_fp ?w = (Inr 1, w')" and r: "r \<in> set (fp_uploads (durable w'))"
    and again: "fst (reap_expired_uploads example_fp w') = Inr 0" and five: "\<forall>u \<in> set (fp_uploads (durable ?w)). instant (fu_expires_at u) = 5"
    by (cases "reap_expired_uploads example_fp ?w") auto
  have "fu_status r \<noteq> Open"
  proof
    assume "fu_status r = Open"
    from reap_leaves_no_expired [OF run r this] five show False by (auto simp: upload_world_def Let_def)
  qed
  with run r again show ?thesis by (metis prod.collapse)
qed

end
