(* ===== verification/Provider_Api.thy ===== *)
theory Provider_Api
  imports Provider_Auth Upload_Proofs
begin

text \<open>
  The HTTP interface of the File Provider (\<open>file_provider/api.py\<close>): authorization, the payload of an
  item, listing children, byte ranges, the change feed and the requests of an upload. A handler that
  returns is a response, an \<open>HTTPException\<close> is an error response and any other exception a status 500.
  FastAPI itself (routing, parsing of headers and bodies) is not modelled; the constraints the request
  models declare are.
\<close>

section \<open>Requests and responses\<close>

record pair_request =
  pr_code :: string
  pr_device_name :: string

definition valid_pair_request :: "pair_request \<Rightarrow> bool" where
  "valid_pair_request r \<longleftrightarrow> 20 \<le> length (pr_code r) \<and> length (pr_code r) \<le> 256
     \<and> 1 \<le> length (pr_device_name r) \<and> length (pr_device_name r) \<le> 100"

definition valid_refresh_request :: "string \<Rightarrow> bool" where
  "valid_refresh_request token \<longleftrightarrow> 32 \<le> length token \<and> length token \<le> 512"

record upload_request =
  ur_name :: string
  ur_size :: int
  ur_content_type :: string
  ur_sha256 :: "string option"

definition valid_upload_request :: "upload_request \<Rightarrow> bool" where
  "valid_upload_request r \<longleftrightarrow> 1 \<le> length (ur_name r) \<and> length (ur_name r) \<le> 255 \<and> 0 \<le> ur_size r
     \<and> length (ur_content_type r) \<le> 255"

record item_view =
  iv_id :: string
  iv_parent :: "string option"
  iv_name :: string
  iv_kind :: string
  iv_size :: nat
  iv_content_type :: string
  iv_content_version :: string
  iv_metadata_version :: string
  iv_modified_at :: datetime
  iv_status :: string
  iv_error :: "string option"
  iv_capabilities :: "string list"

definition fp_kind_value :: "fp_kind \<Rightarrow> string" where
  "fp_kind_value k = (case k of FileKind \<Rightarrow> ''FILE'' | FolderKind \<Rightarrow> ''FOLDER'')"

definition fp_status_value :: "fp_status \<Rightarrow> string" where
  "fp_status_value s = (case s of Ready \<Rightarrow> ''READY'' | Processing \<Rightarrow> ''PROCESSING'' | Failed \<Rightarrow> ''FAILED'')"

definition item_capabilities :: "fp_config \<Rightarrow> fp_item \<Rightarrow> string list" where
  "item_capabilities cfg x =
     (if fi_kind x = FolderKind then [''read'', ''enumerate''] else [''read''])
     @ (if fi_id x = ''inbox'' then [''addFile''] else [])
     @ (if fp_test_delete cfg \<and> startswith (fi_name x) ''mnema-e2e-'' then [''delete''] else [])"

definition item_payload :: "fp_config \<Rightarrow> fp_item \<Rightarrow> item_view" where
  "item_payload cfg x = \<lparr>iv_id = fi_id x, iv_parent = fi_parent x, iv_name = fi_name x,
     iv_kind = lower (fp_kind_value (fi_kind x)), iv_size = fi_size x, iv_content_type = content_type x,
     iv_content_version = content_version x, iv_metadata_version = dec (metadata_version x),
     iv_modified_at = aware (fi_modified_at x), iv_status = lower (fp_status_value (fi_status x)),
     iv_error = error_message x, iv_capabilities = item_capabilities cfg x\<rparr>"

section \<open>Authorization\<close>

definition bearer :: "string option \<Rightarrow> exn + string" where
  "bearer v = (case v of None \<Rightarrow> Inl (HTTPException 401 ''bearer token required'')
     | Some s \<Rightarrow> if startswith s ''Bearer '' then Inr (strip (removeprefix s ''Bearer ''))
         else Inl (HTTPException 401 ''bearer token required''))"

definition authorize :: "auth_config \<Rightarrow> nat list \<Rightarrow> string option \<Rightarrow> (world, string) py" where
  "authorize au key header =
     try_py (session_block (bind_py (lift_sum (bearer header)) (\<lambda>token. verify_access_token au token key)))
       (\<lambda>e. if is_PermissionError e then Some (raise_py (HTTPException 401 ''access token is invalid'')) else None)"

text \<open>A request body that breaks its constraints is answered with status 422 before the handler runs.\<close>

definition pair :: "auth_config \<Rightarrow> nat list \<Rightarrow> pair_request \<Rightarrow> (world, issued_tokens) py" where
  "pair au key r =
     seq (require (valid_pair_request r) (HTTPException 422 ''invalid request''))
     (try_py (session_block (exchange_pairing_code au (pr_code r) (pr_device_name r) key))
       (\<lambda>e. case e of PermissionError m \<Rightarrow> Some (raise_py (HTTPException 401 m)) | _ \<Rightarrow> None))"

definition refresh :: "auth_config \<Rightarrow> nat list \<Rightarrow> string \<Rightarrow> (world, issued_tokens) py" where
  "refresh au key token =
     seq (require (valid_refresh_request token) (HTTPException 422 ''invalid request''))
     (try_py (session_block (rotate_refresh_token au token key))
       (\<lambda>e. case e of PermissionError m \<Rightarrow> Some (raise_py (HTTPException 401 m)) | _ \<Rightarrow> None))"

record account_view =
  av_root :: string
  av_generation :: string
  av_device :: string
  av_device_name :: string

definition generation_row :: "(world, string) py" where
  "generation_row = bind_py (query (\<lambda>d. tbl_get rs_key ''file_provider_generation'' (Models.settings d)))
     (\<lambda>r. case r of None \<Rightarrow> raise_py (HTTPException 503 ''File Provider generation is unavailable'')
        | Some x \<Rightarrow> ret (rs_value x))"

definition account :: "string \<Rightarrow> (world, account_view) py" where
  "account dvc = session_block (
     bind_py generation_row (\<lambda>generation.
     bind_py (query (\<lambda>d. tbl_get dv_id dvc (devices d))) (\<lambda>dev.
     case dev of None \<Rightarrow> raise_py (HTTPException 401 ''device is unavailable'')
     | Some v \<Rightarrow> ret \<lparr>av_root = ROOT_ID, av_generation = generation, av_device = dv_id v, av_device_name = dv_name v\<rparr>)))"

section \<open>Items and children\<close>

definition get_item :: "fp_config \<Rightarrow> string \<Rightarrow> (world, item_view) py" where
  "get_item cfg i = session_block (bind_py (get_fp i) (\<lambda>found.
     case found of None \<Rightarrow> raise_py (HTTPException 404 ''item not found'') | Some x \<Rightarrow> ret (item_payload cfg x)))"

text \<open>Numbers bound to a statement must fit the integers of SQLite.\<close>

definition sqlite_int :: "int \<Rightarrow> ('s, unit) py" where
  "sqlite_int n = require (n < 2 ^ 63) (OtherError ''OverflowError'')"

definition child_rows :: "string \<Rightarrow> db \<Rightarrow> fp_item list" where
  "child_rows i d = sort_key fi_name (sort_key fi_id (filter (\<lambda>x. fi_parent x = Some i) (fp_items d)))"

definition children :: "fp_config \<Rightarrow> string \<Rightarrow> int \<Rightarrow> int \<Rightarrow> (world, item_view list \<times> int option) py" where
  "children cfg i limit0 offset0 =
     (let limit = max 1 (min limit0 500); offset = max 0 offset0 in
      session_block (bind_py (get_fp i) (\<lambda>parent.
        seq (require (parent \<noteq> None) (HTTPException 404 ''parent item not found'')) (
        seq (sqlite_int offset) (
        bind_py (query (\<lambda>d. take (nat (limit + 1)) (drop (nat offset) (child_rows i d)))) (\<lambda>rows.
        ret (map (item_payload cfg) (take (nat limit) rows),
             if int (length rows) > limit then Some (offset + limit) else None)))))))"

section \<open>Content\<close>

definition digit_text :: "string \<Rightarrow> bool" where
  "digit_text s \<longleftrightarrow> s \<noteq> [] \<and> list_all (\<lambda>c. is_digit c \<or> c \<in> {CHR 0xB2, CHR 0xB3, CHR 0xB9}) s"

text \<open>\<open>partition s\<close> is \<open>s.partition("-")\<close>: the text before, whether the separator occurs, the text after.\<close>

definition partition_dash :: "string \<Rightarrow> string \<times> bool \<times> string" where
  "partition_dash s = (case dropWhile (\<lambda>c. c \<noteq> CHR ''-'') s of
     [] \<Rightarrow> (s, False, []) | _ # t \<Rightarrow> (takeWhile (\<lambda>c. c \<noteq> CHR ''-'') s, True, t))"

definition content_range :: "string option \<Rightarrow> int \<Rightarrow> exn + int \<times> int \<times> nat" where
  "content_range v sz = (case v of None \<Rightarrow> Inr (0, sz - 1, 200)
     | Some s \<Rightarrow>
       if \<not> startswith s ''bytes='' \<or> CHR '','' \<in> set s then Inl (HTTPException 416 ''unsupported byte range'')
       else (case partition_dash (removeprefix s ''bytes='') of (start_text, sep, end_text) \<Rightarrow>
         if \<not> sep \<or> \<not> digit_text start_text then Inl (HTTPException 416 ''invalid byte range'')
         else (case py_int start_text of Inl e \<Rightarrow> Inl e | Inr start \<Rightarrow>
              (case (if end_text \<noteq> [] then py_int end_text else Inr (sz - 1)) of Inl e \<Rightarrow> Inl e | Inr stop \<Rightarrow>
                if start \<ge> sz \<or> stop < start \<or> stop \<ge> sz
                then Inl (HTTPException 416 ''byte range is outside file'') else Inr (start, stop, 206)))))"

text \<open>The generator: chunks of one mebibyte until \<open>remaining\<close> is zero or the file ends.\<close>

function chunks_from :: "bytes \<Rightarrow> nat \<Rightarrow> bytes list" where
  "chunks_from rest remaining =
     (if remaining = 0 then []
      else (let chunk = take (min (1024 * 1024) remaining) rest in
        if chunk = [] then [] else chunk # chunks_from (drop (length chunk) rest) (remaining - length chunk)))"
  by pat_completeness auto
termination
  by (relation "measure snd") auto

declare chunks_from.simps [simp del]

definition file_chunks :: "path \<Rightarrow> nat \<Rightarrow> nat \<Rightarrow> (fsys, bytes list) py" where
  "file_chunks p start len = bind_py (read_bytes p) (\<lambda>b. ret (chunks_from (drop start b) len))"

record content_response =
  co_status :: nat
  co_path :: path
  co_start :: int
  co_length :: int
  co_etag :: string
  co_range :: "(int \<times> int \<times> int) option"
  co_media :: string

definition safe_content_path :: "fp_config \<Rightarrow> path \<Rightarrow> (fsys, path) py" where
  "safe_content_path cfg p =
     (bind_py (\<lambda>fs. (resolve_path fs True p, fs)) (\<lambda>found.
      bind_py (resolved (fp_active_root cfg)) (\<lambda>active.
      bind_py (gets (\<lambda>fs. is_symlink fs p)) (\<lambda>link.
      seq (require (\<not> link \<and> is_relative_to found active) (HTTPException 409 ''recorded content path is unsafe''))
      (ret found)))))"

definition content_item :: "string \<Rightarrow> (world, fp_item \<times> path) py" where
  "content_item i =
     bind_py (get_fp i) (\<lambda>found.
     case found of None \<Rightarrow> raise_py (HTTPException 404 ''file content not found'')
     | Some x \<Rightarrow> (case fi_archive_item x of None \<Rightarrow> raise_py (HTTPException 404 ''file content not found'')
       | Some a \<Rightarrow> bind_py (query (\<lambda>d. tbl_get ai_id a (items d))) (\<lambda>arc.
         case Option.bind arc nas_path of None \<Rightarrow> raise_py (HTTPException 409 ''file is not ready'')
         | Some nas \<Rightarrow> seq (require (fi_status x = Ready) (HTTPException 409 ''file is not ready'')) (ret (x, nas)))))"

definition serve :: "fp_config \<Rightarrow> fp_item \<Rightarrow> path \<Rightarrow> string option \<Rightarrow> (world, content_response) py" where
  "serve cfg x nas range_header =
     bind_py (on_disk (safe_content_path cfg nas)) (\<lambda>p.
     bind_py (on_disk (stat_size p)) (\<lambda>sz.
     bind_py (lift_sum (content_range range_header (int sz))) (\<lambda>(start, stop, status).
     ret \<lparr>co_status = status, co_path = p, co_start = start, co_length = stop - start + 1,
       co_etag = CHR 0x22 # content_version x @ [CHR 0x22],
       co_range = (if status = 206 then Some (start, stop, int sz) else None), co_media = content_type x\<rparr>)))"

definition content_of :: "fp_config \<Rightarrow> string \<Rightarrow> string option \<Rightarrow> (world, content_response) py" where
  "content_of cfg i range_header =
     session_block (bind_py (content_item i) (\<lambda>(x, nas). serve cfg x nas range_header))"

section \<open>The change feed\<close>

record change_view =
  cv_operation :: string
  cv_item_id :: string
  cv_item :: "item_view option"

record changes_response =
  cr_changes :: "change_view list"
  cr_cursor :: string
  cr_reset :: bool
  cr_more :: bool

definition change_rows :: "int \<Rightarrow> db \<Rightarrow> fp_change list" where
  "change_rows after d = sort_key fc_sequence (filter (\<lambda>c. int (fc_sequence c) > after) (fp_changes d))"

definition change_payload :: "fp_config \<Rightarrow> db \<Rightarrow> fp_change \<Rightarrow> change_view" where
  "change_payload cfg d c = \<lparr>cv_operation = lower (fc_operation c), cv_item_id = fc_item c,
     cv_item = map_option (item_payload cfg) (tbl_get fi_id (fc_item c) (fp_items d))\<rparr>"

definition changes_after :: "fp_config \<Rightarrow> string \<Rightarrow> int \<Rightarrow> int \<Rightarrow> (world, changes_response) py" where
  "changes_after cfg generation after limit =
     seq (sqlite_int after) (
     bind_py (query (\<lambda>d. take (nat (limit + 1)) (change_rows after d))) (\<lambda>found.
     (let rows = take (nat limit) found;
          final = (if rows = [] then after else int (fc_sequence (last rows))) in
      bind_py (query (\<lambda>d. map (change_payload cfg d) rows)) (\<lambda>payload.
      ret \<lparr>cr_changes = payload, cr_cursor = encode_cursor generation final, cr_reset = False,
           cr_more = int (length found) > limit\<rparr>))))"

definition changes :: "fp_config \<Rightarrow> string option \<Rightarrow> int \<Rightarrow> (world, changes_response) py" where
  "changes cfg cursor limit0 =
     (let limit = max 1 (min limit0 1000) in
      session_block (bind_py generation_row (\<lambda>generation.
      case cursor of None \<Rightarrow> changes_after cfg generation 0 limit
      | Some c \<Rightarrow>
        if c = [] then changes_after cfg generation 0 limit
        else (case decode_cursor c of
            Inl (ValueError m) \<Rightarrow> raise_py (HTTPException 400 m)
          | Inl e \<Rightarrow> raise_py e
          | Inr (g, after) \<Rightarrow>
            if g \<noteq> cps generation
            then ret \<lparr>cr_changes = [], cr_cursor = encode_cursor generation 0, cr_reset = True, cr_more = False\<rparr>
            else changes_after cfg generation after limit))))"

section \<open>Uploads\<close>

record upload_view =
  uv_upload :: string
  uv_item :: string
  uv_offset :: nat
  uv_expires :: datetime

definition begin_upload :: "fp_config \<Rightarrow> upload_request \<Rightarrow> (world, upload_view) py" where
  "begin_upload cfg r =
     seq (require (valid_upload_request r) (HTTPException 422 ''invalid request''))
     (try_py (session_block (
        bind_py (create_upload cfg (ur_name r) (ur_size r) (ur_content_type r) (ur_sha256 r)) (\<lambda>up.
        ret \<lparr>uv_upload = fu_id up, uv_item = fu_item up, uv_offset = 0, uv_expires = fu_expires_at up\<rparr>)))
       (\<lambda>e. if is_ValueError e \<or> is_OSError e then Some (raise_py (HTTPException 400 ''rejected'')) else None))"

text \<open>
  Writing at the end of an open file and truncating it. The body of a request is the list of chunks
  that arrive and, when the client disconnects before the end, the exception the stream raises then.
\<close>

definition write_end :: "path \<Rightarrow> bytes \<Rightarrow> int \<Rightarrow> (fsys, unit) py" where
  "write_end p b t = (\<lambda>fs. (case resolve_path fs True p of Inl e \<Rightarrow> (Inl e, fs)
     | Inr q \<Rightarrow> (case node_at fs q of
         Some (File c i m) \<Rightarrow> (Inr (), set_node q (File (c @ b) i t) fs)
       | _ \<Rightarrow> (Inl IsADirectoryError, fs))))"

definition open_end :: "path \<Rightarrow> (fsys, unit) py" where
  "open_end p = (\<lambda>fs. (case resolve_path fs True p of Inl e \<Rightarrow> (Inl e, fs)
     | Inr q \<Rightarrow> (if is_reg (node_at fs q) then Inr () else Inl IsADirectoryError, fs)))"

definition truncated :: "nat \<Rightarrow> bytes \<Rightarrow> bytes" where
  "truncated n c = take n c @ replicate (n - length c) CHR 0x00"

definition truncate :: "path \<Rightarrow> nat \<Rightarrow> int \<Rightarrow> (fsys, unit) py" where
  "truncate p n t = (\<lambda>fs. (case resolve_path fs True p of Inl e \<Rightarrow> (Inl e, fs)
     | Inr q \<Rightarrow> (case node_at fs q of
         Some (File c i m) \<Rightarrow> (Inr (), set_node q (File (truncated n c) i t) fs)
       | _ \<Rightarrow> (Inl IsADirectoryError, fs))))"

fun receive :: "path \<Rightarrow> nat \<Rightarrow> nat \<Rightarrow> int \<Rightarrow> nat \<Rightarrow> bytes list \<Rightarrow> exn option \<Rightarrow> (fsys, nat) py" where
  "receive p offset expected t written [] broken =
     (case broken of None \<Rightarrow> ret written | Some e \<Rightarrow> raise_py e)"
| "receive p offset expected t written (chunk # chunks) broken =
     (if offset + written + length chunk > expected then raise_py (HTTPException 413 ''upload exceeds declared size'')
      else seq (write_end p chunk t) (receive p offset expected t (written + length chunk) chunks broken))"

definition undo_append :: "path \<Rightarrow> nat \<Rightarrow> int \<Rightarrow> exn \<Rightarrow> (fsys, nat) py" where
  "undo_append p offset t e =
     bind_py (gets (\<lambda>fs. path_exists fs p \<and> \<not> is_symlink fs p)) (\<lambda>there.
     seq (when_py there (truncate p offset t)) (raise_py e))"

definition write_body :: "fp_config \<Rightarrow> path \<Rightarrow> nat \<Rightarrow> nat \<Rightarrow> bytes list \<Rightarrow> exn option \<Rightarrow> (fsys, nat) py" where
  "write_body cfg p offset expected chunks broken =
     bind_py (gets (\<lambda>fs. path_exists fs p)) (\<lambda>ex.
     try_py
       (seq (if ex then open_end p else write_new p [] (fp_mtime cfg))
         (receive p offset expected (fp_mtime cfg) 0 chunks broken))
       (\<lambda>e. Some (undo_append p offset (fp_mtime cfg) e)))"

definition check_staged :: "path \<Rightarrow> nat \<Rightarrow> (fsys, unit) py" where
  "check_staged p offset =
     bind_py (gets (\<lambda>fs. path_exists fs p \<and> is_symlink fs p)) (\<lambda>link.
     seq (require (\<not> link) (HTTPException 409 ''upload staging state is inconsistent'')) (
     bind_py (gets (\<lambda>fs. path_exists fs p)) (\<lambda>ex.
     when_py ex (bind_py (stat_size p) (\<lambda>sz.
       require (sz = offset) (HTTPException 409 ''upload staging state is inconsistent''))))))"

definition append_upload :: "fp_config \<Rightarrow> string \<Rightarrow> nat \<Rightarrow> bytes list \<Rightarrow> exn option \<Rightarrow> (world, nat) py" where
  "append_upload cfg u offset chunks broken = session_block (
     bind_py (query (\<lambda>d. tbl_get fu_id u (fp_uploads d))) (\<lambda>found.
     case found of None \<Rightarrow> raise_py (HTTPException 404 ''upload not found'')
     | Some up \<Rightarrow>
       seq (require (fu_status up = Open) (HTTPException 409 ''upload is closed or expired'')) (
       bind_py utcnow (\<lambda>now.
       seq (require (\<not> instant (fu_expires_at up) \<le> instant now) (HTTPException 409 ''upload is closed or expired'')) (
       seq (require (received_size up = offset) (HTTPException 409 (''expected offset '' @ dec (received_size up)))) (
       bind_py (on_disk (upload_path cfg (fu_id up))) (\<lambda>p.
       seq (on_disk (check_staged p offset)) (
       bind_py (on_disk (write_body cfg p offset (expected_size up) chunks broken)) (\<lambda>written.
       seq (upd_upload u (\<lambda>r. r\<lparr>received_size := received_size up + written\<rparr>))
       (ret (received_size up + written)))))))))))"

definition start_sealing :: "string \<Rightarrow> (world, string option) py" where
  "start_sealing u = session_block (
     bind_py (query (\<lambda>d. tbl_get fu_id u (fp_uploads d))) (\<lambda>found.
     case found of None \<Rightarrow> raise_py (HTTPException 404 ''upload not found'')
     | Some up \<Rightarrow> if fu_status up = Sealed then ret (Some (fu_item up)) else
         seq (require (fu_status up = Open \<and> received_size up = expected_size up) (HTTPException 409 ''upload is incomplete'')) (
         seq (upd_upload u (\<lambda>r. r\<lparr>fu_status := Sealing\<rparr>)) (ret None))))"

definition finish_sealing :: "fp_config \<Rightarrow> string \<Rightarrow> (world, string) py" where
  "finish_sealing cfg u = try_py (session_block (
       bind_py (query (\<lambda>d. tbl_get fu_id u (fp_uploads d))) (\<lambda>found.
       case found of None \<Rightarrow> raise_py (RuntimeError ''upload disappeared while sealing'')
       | Some up \<Rightarrow> bind_py (seal_upload cfg u) (\<lambda>_. ret (fu_item up)))))
     (\<lambda>e. if is_ValueError e \<or> is_OSError e \<or> is_RuntimeError e then Some (raise_py (HTTPException 409 ''rejected'')) else None)"

definition complete_upload :: "fp_config \<Rightarrow> string \<Rightarrow> (world, string) py" where
  "complete_upload cfg u = bind_py (start_sealing u) (\<lambda>sealed.
     case sealed of Some i \<Rightarrow> ret i | None \<Rightarrow> finish_sealing cfg u)"

definition delete_e2e_item :: "fp_config \<Rightarrow> string \<Rightarrow> (world, unit) py" where
  "delete_e2e_item cfg i =
     try_py (bind_py (session_block (cleanup_e2e_upload cfg i)) (\<lambda>_. ret ()))
       (\<lambda>e. case e of PermissionError m \<Rightarrow> Some (raise_py (HTTPException 403 m)) | _ \<Rightarrow> None)"

text \<open>\<open>integrity\<close> is the outcome of the integrity check of SQLite.\<close>

definition health_status :: "bool \<Rightarrow> bool \<Rightarrow> string" where
  "health_status enabled integrity = (if enabled \<and> integrity then ''ok'' else ''disabled'')"

definition start_api :: "fp_config \<Rightarrow> (world, nat) py" where
  "start_api cfg = session_block (seq bootstrap_roots (project_verified_archives cfg))"

section \<open>Served content\<close>

lemma take_its_length: "take k s = take (length (take k s)) s"
  by (cases "k \<le> length s") simp_all

lemma concat_chunks_from: "concat (chunks_from rest n) = take n rest"
proof (induction rest n rule: chunks_from.induct)
  case (1 rest n)
  let ?c = "take (min (1024 * 1024) n) rest"
  show ?case
  proof (cases "n = 0 \<or> ?c = []")
    case True
    then show ?thesis by (subst chunks_from.simps) (auto simp: Let_def)
  next
    case False
    with 1 have "concat (chunks_from (drop (length ?c) rest) (n - length ?c)) = take (n - length ?c) (drop (length ?c) rest)"
      by (simp add: Let_def)
    then have "concat (chunks_from rest n) = ?c @ take (n - length ?c) (drop (length ?c) rest)"
      using False by (subst chunks_from.simps) (simp add: Let_def del: length_take)
    also have "?c = take (length ?c) rest" by (rule take_its_length)
    also have "take (length ?c) rest @ take (n - length (take (length ?c) rest)) (drop (length (take (length ?c) rest)) rest)
        = take (length ?c + (n - length ?c)) rest"
      unfolding take_add take_its_length [symmetric] ..
    also have "length ?c + (n - length ?c) = n" by simp
    finally show ?thesis .
  qed
qed

lemma chunks_from_small: "c \<in> set (chunks_from rest n) \<Longrightarrow> length c \<le> 1024 * 1024"
proof (induction rest n rule: chunks_from.induct)
  case (1 rest n)
  then show ?case by (subst (asm) (2) chunks_from.simps) (auto simp: Let_def split: if_splits)
qed

lemma digit_text_int: "digit_text s \<Longrightarrow> py_int s = Inr n \<Longrightarrow> 0 \<le> n"
proof -
  assume s: "digit_text s" "py_int s = Inr n"
  have "\<not> startswith (strip s) ''-''"
  proof
    assume "startswith (strip s) ''-''"
    then have "CHR ''-'' \<in> set (strip s)" by (cases "strip s") (auto simp: startswith_def)
    moreover have "set (strip s) \<subseteq> set s"
      by (auto simp: strip_def lstrip_def dest!: set_dropWhileD)
    ultimately have "CHR ''-'' \<in> set s" by auto
    with s(1) show False by (auto simp: digit_text_def list_all_iff is_digit_def dest!: bspec)
  qed
  with s(2) show ?thesis by (auto simp: py_int_def Let_def split: if_splits)
qed

lemma content_range_Inr:
  assumes "content_range v sz = Inr (start, stop, status)" "0 \<le> sz"
  shows "0 \<le> start" "stop < sz" "start \<le> stop + 1" "v = None \<Longrightarrow> start = 0 \<and> stop = sz - 1 \<and> status = 200"
    "v \<noteq> None \<Longrightarrow> start \<le> stop \<and> status = 206"
  using assms
  by (auto simp: content_range_def digit_text_int split: option.splits if_splits prod.splits sum.splits)

lemma safe_content_path_Inr:
  assumes "safe_content_path cfg p fs = (Inr q, fs')"
  obtains active where "fs' = fs" "resolve_path fs True p = Inr q" "\<not> is_symlink fs p"
    "resolve_path fs False (fp_active_root cfg) = Inr active" "is_relative_to q active"
  using assms
  by (auto simp: safe_content_path_def resolved_def require_Inr_iff intro!: that elim!: bind_py_Inr_E seq_Inr_E)

lemma content_item_Inr:
  assumes "content_item i w = (Inr (x, nas), w')"
  obtains a arc where "w' = w" "tbl_get fi_id i (fp_items (live w)) = Some x" "fi_archive_item x = Some a"
    "tbl_get ai_id a (items (live w)) = Some arc" "nas_path arc = Some nas" "fi_status x = Ready"
  using assms
  by (auto simp: content_item_def get_fp_def query_def require_Inr_iff intro!: that elim!: bind_py_Inr_E seq_Inr_E
      split: option.splits Option.bind_splits)

lemma session_block_Inr:
  assumes "session_block m w = (Inr x, w')"
  obtains v where "m (w\<lparr>live := durable w\<rparr>) = (Inr x, v)" "w' = v\<lparr>durable := live v\<rparr>"
  using assms by (auto simp: session_block_def split: prod.splits sum.splits)

lemma on_disk_Inr:
  assumes "on_disk m w = (Inr x, w')"
  obtains d where "m (disk w) = (Inr x, d)" "w' = w\<lparr>disk := d\<rparr>"
  using assms by (auto simp: on_disk_def split: prod.splits)

lemma content_of_Inr:
  assumes "content_of cfg i h w = (Inr r, w')"
  obtains x a arc nas active stop where
    "tbl_get fi_id i (fp_items (durable w)) = Some x" "fi_status x = Ready" "fi_archive_item x = Some a"
    "tbl_get ai_id a (items (durable w)) = Some arc" "nas_path arc = Some nas"
    "resolve_path (disk w) True nas = Inr (co_path r)" "\<not> is_symlink (disk w) nas"
    "resolve_path (disk w) False (fp_active_root cfg) = Inr active" "is_relative_to (co_path r) active"
    "\<exists>n. follow (disk w) (co_path r) = Some n \<and> content_range h (int (st_size n)) = Inr (co_start r, stop, co_status r)"
    "co_length r = stop - co_start r + 1" "disk w' = disk w"
proof -
  from assms obtain v where run: "bind_py (content_item i) (\<lambda>(x, nas). serve cfg x nas h) (w\<lparr>live := durable w\<rparr>) = (Inr r, v)"
    and v: "w' = v\<lparr>durable := live v\<rparr>"
    unfolding content_of_def by (rule session_block_Inr)
  from run obtain x nas v1 where x: "content_item i (w\<lparr>live := durable w\<rparr>) = (Inr (x, nas), v1)"
    and run1: "serve cfg x nas h v1 = (Inr r, v)"
    by (rule bind_py_Inr_E) (simp add: case_prod_beta, metis prod.collapse)
  from x obtain a arc where xa: "v1 = w\<lparr>live := durable w\<rparr>" "tbl_get fi_id i (fp_items (durable w)) = Some x"
    "fi_archive_item x = Some a" "tbl_get ai_id a (items (durable w)) = Some arc" "nas_path arc = Some nas" "fi_status x = Ready"
    by (rule content_item_Inr) simp
  from run1 obtain p v2 where p: "on_disk (safe_content_path cfg nas) v1 = (Inr p, v2)"
    unfolding serve_def by (rule bind_py_Inr_E)
  from p xa(1) obtain active where act: "v2 = w\<lparr>live := durable w\<rparr>" "resolve_path (disk w) True nas = Inr p"
    "\<not> is_symlink (disk w) nas" "resolve_path (disk w) False (fp_active_root cfg) = Inr active" "is_relative_to p active"
    by (elim on_disk_Inr safe_content_path_Inr) simp
  from run1 p act(1) obtain n start stop status where rg: "follow (disk w) p = Some n"
    "content_range h (int (st_size n)) = Inr (start, stop, status)"
    "r = \<lparr>co_status = status, co_path = p, co_start = start, co_length = stop - start + 1,
       co_etag = CHR 0x22 # content_version x @ [CHR 0x22],
       co_range = (if status = 206 then Some (start, stop, int (st_size n)) else None), co_media = content_type x\<rparr>"
    "v = w\<lparr>live := durable w\<rparr>"
    by (auto simp: serve_def stat_size_def on_disk_def bind_py_def split: option.splits sum.splits prod.splits)
  show thesis
    by (rule that [OF xa(2,6,3,4,5), of active stop]) (use act rg v in auto)
qed


section \<open>Appending to an upload\<close>

text \<open>A regular file with the bytes \<open>c\<close> at the path itself.\<close>

definition holds :: "fsys \<Rightarrow> path \<Rightarrow> bytes \<Rightarrow> bool" where
  "holds fs p c \<longleftrightarrow> canonical fs p \<and> dirs_to fs p \<and> p \<noteq> [] \<and> (\<exists>i m. node_at fs p = Some (File c i m))"

lemma holds_content: "holds fs p c \<Longrightarrow> content fs p = Some c"
  by (auto simp: holds_def content_File)

lemma holds_file:
  assumes "holds fs p c"
  shows "path_exists fs p \<and> \<not> is_symlink fs p \<and> resolve_path fs True p = Inr p \<and> follow fs p = node_at fs p"
proof -
  have c: "canonical fs p" "dirs_to fs p" "node_at fs p \<noteq> None" "p \<noteq> []" "\<not> is_link (node_at fs p)"
    using assms by (auto simp: holds_def is_link_def)
  have "resolve_path fs True p = Inr p" using c by (simp add: resolve_path_strict_iff)
  moreover have "follow fs p = node_at fs p" using c by (simp add: follow_canonical)
  moreover have "lnode fs p = node_at fs p" using c by (subst lnode_canonical) (simp_all add: canonical_butlast)
  ultimately show ?thesis using c by (simp add: path_exists_def is_symlink_def)
qed

lemma holds_write:
  assumes "holds fs p c" "node_at fs p = Some (File c i m)"
  shows "holds (set_node p (File b i t) fs) p b"
proof -
  let ?fs = "set_node p (File b i t) fs"
  have p: "p \<noteq> []" using assms(1) by (simp add: holds_def)
  have node: "node_at ?fs q = (if q = p then Some (File b i t) else node_at fs q)" for q
    using p by simp
  have "canonical ?fs p"
    by (rule canonical_change [of fs]) (use assms in \<open>auto simp: holds_def node is_link_def split: if_splits\<close>)
  moreover have "dirs_to ?fs p"
    by (rule dirs_to_change [of fs]) (use assms in \<open>auto simp: holds_def node\<close>)
  ultimately show ?thesis using p by (simp add: holds_def node)
qed

lemma write_end_run:
  assumes "holds fs p c"
  obtains fs' where "write_end p b t fs = (Inr (), fs')" "holds fs' p (c @ b)"
proof -
  from assms obtain i m where n: "node_at fs p = Some (File c i m)" by (auto simp: holds_def)
  show thesis
    by (rule that [of "set_node p (File (c @ b) i t) fs"])
      (use assms n in \<open>simp_all add: write_end_def holds_file holds_write\<close>)
qed

lemma truncate_run:
  assumes "holds fs p c"
  obtains fs' where "truncate p n t fs = (Inr (), fs')" "holds fs' p (truncated n c)"
proof -
  from assms obtain i m where n: "node_at fs p = Some (File c i m)" by (auto simp: holds_def)
  show thesis
    by (rule that [of "set_node p (File (truncated n c) i t) fs"])
      (use assms n in \<open>simp_all add: truncate_def holds_file holds_write\<close>)
qed

lemma receive_run:
  assumes "receive p off ex t k chunks broken fs = (r, fs')" "holds fs p c"
  shows "\<exists>d. holds fs' p (c @ d) \<and> (\<forall>n. r = Inr n \<longrightarrow> d = concat chunks \<and> n = k + length d \<and> broken = None
    \<and> (chunks \<noteq> [] \<longrightarrow> off + n \<le> ex))"
  using assms
proof (induction chunks arbitrary: k fs c)
  case Nil
  then show ?case by (intro exI [of _ "[]"]) (auto split: option.splits)
next
  case (Cons b bs)
  show ?case
  proof (cases "off + k + length b > ex")
    case True
    with Cons.prems show ?thesis by (intro exI [of _ "[]"]) auto
  next
    case False
    obtain fs1 where w: "write_end p b t fs = (Inr (), fs1)" "holds fs1 p (c @ b)"
      using write_end_run [OF Cons.prems(2)] by blast
    with Cons.prems(1) False have rest: "receive p off ex t (k + length b) bs broken fs1 = (r, fs')"
      by (simp add: seq_def)
    from Cons.IH [OF this w(2)] obtain d where d: "holds fs' p ((c @ b) @ d)"
      "\<And>n. r = Inr n \<Longrightarrow> d = concat bs \<and> n = k + length b + length d \<and> broken = None \<and> (bs \<noteq> [] \<longrightarrow> off + n \<le> ex)"
      by blast
    show ?thesis
    proof (intro exI [of _ "b @ d"] conjI allI impI)
      show "holds fs' p (c @ b @ d)" using d(1) by simp
      fix n assume n: "r = Inr n"
      show "b @ d = concat (b # bs)" "n = k + length (b @ d)" "broken = None" using d(2) [OF n] by auto
      show "off + n \<le> ex" using d(2) [OF n] False by (cases "bs = []") auto
    qed
  qed
qed

lemma undo_run:
  assumes "holds fs p (c @ d)" "length c = off" "undo_append p off t e fs = (r, fs')"
  shows "r = Inl e" "holds fs' p c"
proof -
  obtain fs1 where "truncate p off t fs = (Inr (), fs1)" "holds fs1 p (truncated off (c @ d))"
    using truncate_run [OF assms(1)] by blast
  then show "r = Inl e" "holds fs' p c"
    using assms(2,3) holds_file [OF assms(1)] by (auto simp: undo_append_def seq_def bind_py_def truncated_def)
qed

text \<open>The staging file of an upload with the received bytes \<open>b\<close>; before the first request there is none.\<close>

definition staged :: "fsys \<Rightarrow> path \<Rightarrow> bytes \<Rightarrow> bool" where
  "staged fs p b \<longleftrightarrow> holds fs p b \<or> canonical fs p \<and> p \<noteq> [] \<and> last p \<noteq> ''..'' \<and> node_at fs p = None \<and> b = []"

lemma write_body_run:
  assumes run: "write_body cfg p off ex chunks broken fs = (r, fs')" and st: "staged fs p b" "length b = off"
  shows "case r of Inl e \<Rightarrow> staged fs' p b
    | Inr n \<Rightarrow> holds fs' p (b @ concat chunks) \<and> n = length (concat chunks) \<and> broken = None \<and> (chunks \<noteq> [] \<longrightarrow> off + n \<le> ex)"
proof -
  have received: ?thesis if h: "holds fs1 p b"
    and body: "try_py (receive p off ex (fp_mtime cfg) 0 chunks broken) (\<lambda>e. Some (undo_append p off (fp_mtime cfg) e)) fs1 = (r, fs')" for fs1
  proof -
    obtain q fs2 where rc: "receive p off ex (fp_mtime cfg) 0 chunks broken fs1 = (q, fs2)" by fastforce
    from receive_run [OF rc h] obtain d where d: "holds fs2 p (b @ d)"
      "\<And>n. q = Inr n \<Longrightarrow> d = concat chunks \<and> n = length d \<and> broken = None \<and> (chunks \<noteq> [] \<longrightarrow> off + n \<le> ex)" by auto
    show ?thesis
    proof (cases q)
      case (Inl e)
      with body rc have "undo_append p off (fp_mtime cfg) e fs2 = (r, fs')" by (simp add: try_py_def)
      from undo_run [OF d(1) st(2) this] show ?thesis by (simp add: staged_def)
    next
      case (Inr n)
      with body rc d show ?thesis by (auto simp: try_py_def)
    qed
  qed
  show ?thesis
  proof (cases "node_at fs p = None")
    case True
    with st have c: "canonical fs p" "p \<noteq> []" "last p \<noteq> ''..''" "b = []" by (auto simp: staged_def holds_def)
    then have ex: "\<not> path_exists fs p" using True by (simp add: path_exists_def follow_canonical)
    show ?thesis
    proof (cases "write_new p [] (fp_mtime cfg) fs")
      case (Pair q fs1)
      show ?thesis
      proof (cases q)
        case (Inl e)
        with Pair have "fs1 = fs" by (auto simp: write_new_def split: sum.splits if_splits)
        with Pair Inl run ex have "r = Inl e \<and> fs' = fs"
          by (simp add: write_body_def bind_py_def seq_def try_py_def undo_append_def)
        then show ?thesis using st(1) by simp
      next
        case (Inr x)
        with Pair have new: "write_new p [] (fp_mtime cfg) fs = (Inr (), fs1)" by simp
        note wn = write_new_InrD [OF new canonical_butlast [OF c(1)] c(2,3)]
        have "holds fs1 p b"
        proof -
          have node: "node_at fs1 q = (if q = p then Some (File [] (fresh_inode fs) (fp_mtime cfg)) else node_at fs q)" for q
            using c(2) wn(2) by simp
          have "canonical fs1 p"
            by (rule canonical_change [OF c(1)]) (auto simp: node is_link_def split: if_splits)
          moreover have "dirs_to fs1 p" by (rule dirs_to_change [OF wn(3)]) (use True in \<open>auto simp: node\<close>)
          ultimately show ?thesis using c by (simp add: holds_def node)
        qed
        moreover have "try_py (receive p off ex (fp_mtime cfg) 0 chunks broken) (\<lambda>e. Some (undo_append p off (fp_mtime cfg) e)) fs1 = (r, fs')"
          using run ex new by (simp add: write_body_def bind_py_def seq_def try_py_def)
        ultimately show ?thesis by (rule received)
      qed
    qed
  next
    case False
    with st have h: "holds fs p b" by (simp add: staged_def)
    then have "open_end p fs = (Inr (), fs)" using holds_file [OF h] by (auto simp: open_end_def holds_def is_reg_def)
    with run holds_file [OF h] have "try_py (receive p off ex (fp_mtime cfg) 0 chunks broken)
        (\<lambda>e. Some (undo_append p off (fp_mtime cfg) e)) fs = (r, fs')"
      by (simp add: write_body_def bind_py_def seq_def try_py_def)
    with h show ?thesis by (rule received)
  qed
qed

lemma check_staged_run: "check_staged p n fs = (r, fs') \<Longrightarrow> fs' = fs"
  by (auto simp: check_staged_def stat_size_def when_py_def require_def bind_py_def seq_def
      split: if_splits option.splits)

lemma staged_mkdirs:
  assumes "staged fs (rt @ [n]) b" "mkdirs rt fs = (r, fs')" "canonical fs rt"
  shows "staged fs' (rt @ [n]) b"
proof -
  have ext: "extends fs fs'" by (rule mkdirs_extends [OF assms(2)])
  have same: "node_at fs' (rt @ [n]) = node_at fs (rt @ [n])"
    by (rule mkdirs_creates [OF assms(2,3)]) (simp add: is_relative_to_def)
  show ?thesis
    using assms(1) same extends_dirs_to [OF ext, of "rt @ [n]"] extends_canonical [OF ext, of "rt @ [n]"]
    by (auto simp: staged_def holds_def)
qed

lemma upload_path_any:
  assumes "upload_path cfg u fs = (r, fs')" "resolve_path fs False (fp_upload_root cfg) = Inr rt"
  shows "fs' = fs \<or> (\<exists>q. mkdirs rt fs = (q, fs'))"
  using assms
  by (auto simp: upload_path_def resolved_def require_def bind_py_def seq_def split: if_splits prod.splits sum.splits)

text \<open>The part of \<open>append_upload\<close> after its checks of the row.\<close>

lemma append_upload_run:
  assumes "append_upload cfg u off chunks broken w = (r, w')" "tbl_get fu_id u (fp_uploads (durable w)) = Some up"
  obtains (refused) e where "r = Inl e" "disk w' = disk w" "durable w' = durable w"
  | (path) e where "r = Inl e" "upload_path cfg u (disk w) = (Inl e, disk w')" "durable w' = durable w"
  | (body) p fs1 res where "upload_path cfg u (disk w) = (Inr p, fs1)" "received_size up = off" "fu_status up = Open"
      "check_staged p off fs1 = (Inr (), fs1)"
      "write_body cfg p off (expected_size up) chunks broken fs1 = (res, disk w')"
      "\<And>e. res = Inl e \<Longrightarrow> r = Inl e \<and> durable w' = durable w"
      "\<And>k. res = Inr k \<Longrightarrow> r = Inr (received_size up + k) \<and>
         fp_uploads (durable w') = tbl_upd fu_id u (\<lambda>r. r\<lparr>received_size := received_size up + k\<rparr>) (fp_uploads (durable w))"
  | (unsafe) p e where "upload_path cfg u (disk w) = (Inr p, disk w')" "r = Inl e" "durable w' = durable w"
proof -
  have u: "fu_id up = u" using tbl_get_Some [OF assms(2)] by simp
  show thesis
  proof (cases "fu_status up = Open \<and> \<not> instant (fu_expires_at up) \<le> clock w (ticks w) \<and> received_size up = off")
    case False
    with assms u have "\<exists>e. r = Inl e \<and> disk w' = disk w \<and> durable w' = durable w"
      by (auto simp: append_upload_def session_block_def query_def bind_py_def seq_def utcnow_def require_def
          split: if_splits)
    then show thesis by (elim exE conjE) (rule refused)
  next
    case True
    obtain q fs1 where q: "upload_path cfg u (disk w) = (q, fs1)" by fastforce
    show thesis
    proof (cases q)
      case (Inl e)
      then show thesis using assms u True q
        by (intro path) (auto simp: append_upload_def session_block_def query_def bind_py_def seq_def utcnow_def on_disk_def)
    next
      case (Inr p)
      obtain c fs2 where c: "check_staged p off fs1 = (c, fs2)" by fastforce
      with check_staged_run have fs2: "fs2 = fs1" by blast
      show thesis
      proof (cases c)
        case (Inl e)
        then show thesis using assms u True q Inr c fs2
          by (intro unsafe [of p e]) (auto simp: append_upload_def session_block_def query_def bind_py_def seq_def utcnow_def on_disk_def)
      next
        case ok: (Inr x)
        obtain res fs3 where b: "write_body cfg p off (expected_size up) chunks broken fs1 = (res, fs3)" by fastforce
        show thesis
          by (rule body [of p fs1 res]) (use assms u True q Inr c ok fs2 b in
            \<open>auto simp: append_upload_def session_block_def query_def bind_py_def seq_def utcnow_def on_disk_def
               upd_upload_def on_db_def split: sum.splits\<close>)
      qed
    qed
  qed
qed

text \<open>C27: A request that appends to an upload takes effect completely or not at all. Where the staging file
  holds exactly the bytes the row counts as received, a successful request appends the body at the
  offset the client named, which was the number of bytes received so far, within the announced size,
  and the row counts the new bytes; a refused, oversized or broken-off request leaves the row, and the
  staging file with its old bytes.\<close>

theorem append_upload_atomic:
  assumes run: "append_upload cfg u off chunks broken w = (r, w')"
    and up: "tbl_get fu_id u (fp_uploads (durable w)) = Some (up :: fp_upload)"
    and root: "resolve_path (disk w) False (fp_upload_root cfg) = Inr rt"
    and st: "staged (disk w) (rt @ [u @ ''.upload'']) b" "length b = received_size up"
  shows "case r of
      Inl e \<Rightarrow> durable w' = durable w \<and> staged (disk w') (rt @ [u @ ''.upload'']) b
    | Inr n \<Rightarrow> off = length b \<and> n = length (b @ concat chunks) \<and> broken = None \<and> (chunks \<noteq> [] \<longrightarrow> n \<le> expected_size up)
        \<and> staged (disk w') (rt @ [u @ ''.upload'']) (b @ concat chunks)
        \<and> tbl_get fu_id u (fp_uploads (durable w')) = Some (up\<lparr>received_size := n\<rparr>)"
proof -
  let ?p = "rt @ [u @ ''.upload'']"
  have can: "canonical (disk w) rt" by (rule resolve_root_canonical [OF root])
  have keep: "staged fs' ?p b" if "upload_path cfg u (disk w) = (q, fs')" for q fs'
    using upload_path_any [OF that root] st(1) staged_mkdirs [OF st(1) _ can] by blast
  from run up show ?thesis
  proof (cases rule: append_upload_run)
    case (body p fs1 res)
    have p: "p = ?p" using body(1) root by (auto elim!: upload_path_Inr)
    have wb: "write_body cfg ?p off (expected_size up) chunks broken fs1 = (res, disk w')" using body(5) p by simp
    have off: "length b = off" using body(2) st(2) by simp
    note wr = write_body_run [OF wb keep [OF body(1)] off]
    show ?thesis
    proof (cases res)
      case (Inl e)
      with body(6) wr show ?thesis by simp
    next
      case (Inr k)
      with wr have k: "holds (disk w') ?p (b @ concat chunks)" "k = length (concat chunks)" "broken = None"
        "chunks \<noteq> [] \<longrightarrow> off + k \<le> expected_size up" by auto
      have "tbl_get fu_id u (fp_uploads (durable w')) = Some (up\<lparr>received_size := received_size up + k\<rparr>)"
        using body(7) [OF Inr] up by (simp add: tbl_get_upd_same)
      with body(7) [OF Inr] k off st(2) show ?thesis by (auto simp: staged_def)
    qed
  qed (use st(1) keep in auto)
qed

end
