(* ===== verification/Provider_Sync.thy ===== *)
theory Provider_Sync
  imports Provider_Api "HOL-Library.Multiset"
begin

text \<open>
  What a client of the File Provider API can rely on: following \<open>nextOffset\<close> lists every child once,
  following \<open>nextCursor\<close> brings a mirror of the tree up to date, and no request breaks the invariants
  of the tree and of the archive.
\<close>

section \<open>Sessions that only read\<close>

lemma session_block_run: "session_block m w = (case m (w\<lparr>live := durable w\<rparr>) of
     (Inr x, w') \<Rightarrow> (Inr x, w'\<lparr>durable := live w'\<rparr>) | (Inl e, w') \<Rightarrow> (Inl e, w'\<lparr>live := durable w'\<rparr>))"
  by (simp add: session_block_def)

lemma same_durable [simp]: "w\<lparr>live := durable w, durable := durable w\<rparr> = w\<lparr>live := durable w\<rparr>"
  by simp

section \<open>Listing children\<close>

lemma child_rows_set: "set (child_rows i d) = {x \<in> set (fp_items d). fi_parent x = Some i}"
  by (auto simp: child_rows_def)

lemma child_rows_sorted: "sorted (map fi_name (child_rows i d))"
  by (simp add: child_rows_def)

lemma children_run:
  assumes "tbl_get fi_id i (fp_items (durable w)) \<noteq> None" "int off < 2 ^ 63" "n = nat (max 1 (min limit 500))"
  shows "children cfg i limit (int off) w = (Inr (map (item_payload cfg) (take n (drop off (child_rows i (durable w)))),
     if off + n < length (child_rows i (durable w)) then Some (int (off + n)) else None), w\<lparr>live := durable w\<rparr>)"
proof -
  have l: "max 1 (min limit 500) = int n" using assms(3) by auto
  then show ?thesis
    using assms(1,2)
    by (auto simp: children_def l session_block_run get_fp_def query_def bind_py_def seq_def sqlite_int_def Let_def
        nat_add_distrib min_def)
qed

text \<open>A client that follows the offsets; every step needs one unit of fuel.\<close>

fun list_children :: "nat \<Rightarrow> fp_config \<Rightarrow> string \<Rightarrow> int \<Rightarrow> int \<Rightarrow> (world, item_view list) py" where
  "list_children 0 cfg i limit off = raise_py (OtherError ''out of fuel'')"
| "list_children (Suc k) cfg i limit off =
     bind_py (children cfg i limit off) (\<lambda>(page, next).
     case next of None \<Rightarrow> ret page
     | Some o' \<Rightarrow> bind_py (list_children k cfg i limit o') (\<lambda>more. ret (page @ more)))"

lemma list_children_from:
  assumes "tbl_get fi_id i (fp_items (durable w)) \<noteq> None" "int (length (child_rows i (durable w))) < 2 ^ 63"
    "off \<le> length (child_rows i (durable w))" "length (child_rows i (durable w)) - off < k"
  shows "list_children k cfg i limit (int off) w =
     (Inr (map (item_payload cfg) (drop off (child_rows i (durable w)))), w\<lparr>live := durable w\<rparr>)"
  using assms
proof (induction k arbitrary: off w)
  case (Suc k)
  let ?rows = "child_rows i (durable w)"
  obtain n where n: "n = nat (max 1 (min limit 500))" by blast
  then have pos: "0 < n" by auto
  have page: "children cfg i limit (int off) w = (Inr (map (item_payload cfg) (take n (drop off ?rows)),
     if off + n < length ?rows then Some (int (off + n)) else None), w\<lparr>live := durable w\<rparr>)"
    by (rule children_run [OF Suc.prems(1) _ n]) (use Suc.prems in linarith)
  show ?case
  proof (cases "off + n < length ?rows")
    case False
    then show ?thesis by (simp add: page bind_py_def)
  next
    case True
    have "list_children k cfg i limit (int (off + n)) (w\<lparr>live := durable w\<rparr>) =
       (Inr (map (item_payload cfg) (drop (off + n) ?rows)), w\<lparr>live := durable w\<rparr>)"
      using Suc.IH [of "w\<lparr>live := durable w\<rparr>" "off + n"] Suc.prems True pos by simp
    moreover have "take n (drop off ?rows) @ drop (off + n) ?rows = drop off ?rows"
      by (metis add.commute append_take_drop_id drop_drop)
    ultimately show ?thesis
      using True by (simp add: page bind_py_def del: of_nat_add) (metis map_append)
  qed
qed simp

text \<open>Listing a folder is complete: a client that follows the offsets, with any page size, gets every child
  of an existing item exactly once, in the order of the names, after at most one request per child and
  one more; the listing changes nothing.\<close>

theorem children_complete:
  assumes "tbl_get fi_id i (fp_items (durable w)) \<noteq> None" "int (length (child_rows i (durable w))) < 2 ^ 63"
  shows "list_children (Suc (length (child_rows i (durable w)))) cfg i limit 0 w =
      (Inr (map (item_payload cfg) (child_rows i (durable w))), w\<lparr>live := durable w\<rparr>)
    \<and> mset (child_rows i (durable w)) = mset (filter (\<lambda>x. fi_parent x = Some i) (fp_items (durable w)))
    \<and> sorted (map fi_name (child_rows i (durable w)))"
proof (intro conjI child_rows_sorted)
  show "list_children (Suc (length (child_rows i (durable w)))) cfg i limit 0 w =
      (Inr (map (item_payload cfg) (child_rows i (durable w))), w\<lparr>live := durable w\<rparr>)"
    using list_children_from [OF assms, of 0 "Suc (length (child_rows i (durable w)))"] by (simp del: list_children.simps)
qed (simp add: child_rows_def)

section \<open>Following the changes\<close>

lemma change_rows_set: "set (change_rows s d) = {c \<in> set (fp_changes d). int (fc_sequence c) > s}"
  by (auto simp: change_rows_def)

lemma change_rows_sorted: "sorted (map fc_sequence (change_rows s d))"
  by (simp add: change_rows_def)

text \<open>What the server holds of an item, and a client's copy of it.\<close>

type_synonym mirror = "string \<rightharpoonup> item_view"

definition server_view :: "fp_config \<Rightarrow> db \<Rightarrow> mirror" where
  "server_view cfg d i = map_option (item_payload cfg) (tbl_get fi_id i (fp_items d))"

definition apply_change :: "mirror \<Rightarrow> change_view \<Rightarrow> mirror" where
  "apply_change m v = m(cv_item_id v := cv_item v)"

text \<open>A mirror is current up to \<open>s\<close> when it is right on every item without a later change.\<close>

definition current :: "fp_config \<Rightarrow> db \<Rightarrow> int \<Rightarrow> mirror \<Rightarrow> bool" where
  "current cfg d s m \<longleftrightarrow> (\<forall>i. (\<forall>c \<in> set (fp_changes d). fc_item c = i \<longrightarrow> int (fc_sequence c) \<le> s) \<longrightarrow> m i = server_view cfg d i)"

definition apply_rows :: "fp_config \<Rightarrow> db \<Rightarrow> fp_change list \<Rightarrow> mirror \<Rightarrow> mirror" where
  "apply_rows cfg d rows m = foldl apply_change m (map (change_payload cfg d) rows)"

lemma apply_rows_at: "apply_rows cfg d rows m i = (if i \<in> fc_item ` set rows then server_view cfg d i else m i)"
  by (induction rows arbitrary: m) (auto simp: apply_rows_def apply_change_def change_payload_def server_view_def)


lemma change_rows_logged:
  assumes "logged d"
  shows "sorted_wrt (<) (map fc_sequence (change_rows s d))"
proof -
  have "sorted_wrt (\<lambda>a b. fc_sequence a < fc_sequence b) (fp_changes d)"
    using assms by (simp add: logged_def sorted_wrt_map)
  then have "sorted_wrt (\<lambda>a b. fc_sequence a < fc_sequence b) (filter (\<lambda>c. s < int (fc_sequence c)) (fp_changes d))"
    by (rule sorted_wrt_filter)
  moreover from this have "sorted (map fc_sequence (filter (\<lambda>c. s < int (fc_sequence c)) (fp_changes d)))"
    unfolding sorted_map by (rule sorted_wrt_mono_rel [rotated]) simp
  ultimately show ?thesis by (simp add: change_rows_def sort_key_id_if_sorted sorted_wrt_map)
qed

text \<open>The rows after a page are the rows after its last change.\<close>

lemma change_rows_split:
  assumes "logged d" "rows = take n (change_rows s d)" "rows \<noteq> []"
  shows "change_rows (int (fc_sequence (last rows))) d = drop n (change_rows s d)"
proof -
  let ?all = "change_rows s d" and ?l = "fc_sequence (last rows)"
  have so: "sorted_wrt (<) (map fc_sequence ?all)" by (rule change_rows_logged [OF assms(1)])
  have all: "?all = rows @ drop n ?all" using assms(2) by simp
  have l: "last rows \<in> set rows" using assms(3) by simp
  have so': "sorted_wrt (\<lambda>a b. fc_sequence a < fc_sequence b) (rows @ drop n ?all)"
    using so all by (simp add: sorted_wrt_map)
  have below: "fc_sequence c \<le> ?l" if "c \<in> set rows" for c
  proof -
    obtain ys where "rows = ys @ [last rows]" using assms(3) by (metis append_butlast_last_id)
    with so' that show ?thesis
      by (metis (no_types, lifting) Un_iff empty_iff list.set(1) nat_less_le set_ConsD set_append sorted_wrt_append list.set_intros(1) order_refl)
  qed
  have above: "?l < fc_sequence c" if "c \<in> set (drop n ?all)" for c
    using so' that l by (auto simp: sorted_wrt_append)
  have gt: "s < int ?l" using l assms(2) change_rows_set [of s d] by (metis in_set_takeD mem_Collect_eq)
  have "change_rows (int ?l) d = filter (\<lambda>c. ?l < fc_sequence c) ?all"
  proof -
    have "filter (\<lambda>c. ?l < fc_sequence c) ?all = sort_key fc_sequence (filter (\<lambda>c. ?l < fc_sequence c) (filter (\<lambda>c. s < int (fc_sequence c)) (fp_changes d)))"
      unfolding change_rows_def by (rule filter_sort)
    also have "filter (\<lambda>c. ?l < fc_sequence c) (filter (\<lambda>c. s < int (fc_sequence c)) (fp_changes d))
        = filter (\<lambda>c. int ?l < int (fc_sequence c)) (fp_changes d)"
      using gt by (auto intro!: filter_cong)
    finally show ?thesis by (simp add: change_rows_def)
  qed
  also have "\<dots> = filter (\<lambda>c. ?l < fc_sequence c) rows @ filter (\<lambda>c. ?l < fc_sequence c) (drop n ?all)"
    by (subst all) simp
  also have "\<dots> = drop n ?all"
    using below above by (auto simp: filter_id_conv filter_empty_conv not_less)
  finally show ?thesis .
qed

lemma current_page:
  assumes "logged d" "current cfg d s m" "rows = take n (change_rows s d)"
  shows "current cfg d (if rows = [] then s else int (fc_sequence (last rows))) (apply_rows cfg d rows m)"
proof (cases "rows = []")
  case False
  let ?l = "fc_sequence (last rows)"
  have split: "change_rows (int ?l) d = drop n (change_rows s d)" by (rule change_rows_split [OF assms(1,3) False])
  have "apply_rows cfg d rows m i = server_view cfg d i"
    if old: "\<forall>c \<in> set (fp_changes d). fc_item c = i \<longrightarrow> int (fc_sequence c) \<le> int ?l" for i
  proof (cases "i \<in> fc_item ` set rows")
    case out: False
    have "int (fc_sequence c) \<le> s" if c: "c \<in> set (fp_changes d)" "fc_item c = i" for c
    proof (rule ccontr)
      assume "\<not> int (fc_sequence c) \<le> s"
      then have "c \<in> set (change_rows s d)" using c(1) by (simp add: change_rows_set)
      moreover have "c \<notin> set rows" using out c(2) by auto
      ultimately have "c \<in> set (drop n (change_rows s d))"
        using assms(3) by (metis Un_iff append_take_drop_id set_append)
      then have "int ?l < int (fc_sequence c)" unfolding split [symmetric] by (simp add: change_rows_set)
      with old c show False by auto
    qed
    with assms(2) out show ?thesis by (simp add: current_def apply_rows_at)
  qed (simp add: apply_rows_at)
  with False show ?thesis by (simp add: current_def)
qed (use assms(2) in \<open>simp_all add: apply_rows_def\<close>)

lemma current_all: "current cfg d s m \<Longrightarrow> change_rows s d = [] \<Longrightarrow> m = server_view cfg d"
proof
  fix i assume c: "current cfg d s m" and none: "change_rows s d = []"
  have "set (change_rows s d) = {}" using none by simp
  then have "\<forall>c \<in> set (fp_changes d). int (fc_sequence c) \<le> s" by (auto simp: change_rows_set)
  with c show "m i = server_view cfg d i" by (simp add: current_def)
qed

text \<open>A client that starts from a cursor and a mirror and follows the feed until nothing more is announced.\<close>

fun sync :: "nat \<Rightarrow> fp_config \<Rightarrow> int \<Rightarrow> string option \<Rightarrow> mirror \<Rightarrow> (world, mirror \<times> string) py" where
  "sync 0 cfg limit cursor m = raise_py (OtherError ''out of fuel'')"
| "sync (Suc k) cfg limit cursor m =
     bind_py (changes cfg cursor limit) (\<lambda>r.
     if cr_reset r then sync k cfg limit (Some (cr_cursor r)) Map.empty
     else (let m' = foldl apply_change m (cr_changes r) in
       if cr_more r then sync k cfg limit (Some (cr_cursor r)) m' else ret (m', cr_cursor r)))"

definition generation_of :: "db \<Rightarrow> string option" where
  "generation_of d = map_option rs_value (tbl_get rs_key ''file_provider_generation'' (Models.settings d))"

text \<open>What a cursor stands for: nothing yet, a place in the feed, or a feed of an older generation.\<close>

definition cursor_at :: "string \<Rightarrow> string option \<Rightarrow> int option" where
  "cursor_at generation cursor = (case cursor of None \<Rightarrow> Some 0
     | Some c \<Rightarrow> if c = [] then Some 0
         else (case decode_cursor c of Inr (g, s) \<Rightarrow> if g = cps generation then Some s else None | Inl _ \<Rightarrow> None))"

definition foreign_cursor :: "string \<Rightarrow> string option \<Rightarrow> bool" where
  "foreign_cursor generation cursor = (\<exists>c g s. cursor = Some c \<and> c \<noteq> [] \<and> decode_cursor c = Inr (g, s) \<and> g \<noteq> cps generation)"

lemma changes_run:
  assumes "generation_of (durable w) = Some gen" "cursor_at gen cursor = Some s" "s < 2 ^ 63" "n = nat (max 1 (min limit 1000))"
  shows "changes cfg cursor limit w = (Inr (let rows = take n (change_rows s (durable w)) in
      \<lparr>cr_changes = map (change_payload cfg (durable w)) rows,
       cr_cursor = encode_cursor gen (if rows = [] then s else int (fc_sequence (last rows))), cr_reset = False,
       cr_more = n < length (change_rows s (durable w))\<rparr>), w\<lparr>live := durable w\<rparr>)"
proof -
  obtain row where row: "tbl_get rs_key ''file_provider_generation'' (Models.settings (durable w)) = Some row" "rs_value row = gen"
    using assms(1) by (auto simp: generation_of_def)
  have n: "max 1 (min limit 1000) = int n" using assms(4) by auto
  have t: "nat (int n + 1) = Suc n" "take n (take (Suc n) xs) = take n xs" "n < length (take (Suc n) xs) \<longleftrightarrow> n < length xs"
    for xs :: "fp_change list" by (simp_all add: min.absorb1)
  have after: "changes_after cfg gen s (int n) (w\<lparr>live := durable w\<rparr>) =
      (Inr (let rows = take n (change_rows s (durable w)) in
      \<lparr>cr_changes = map (change_payload cfg (durable w)) rows,
       cr_cursor = encode_cursor gen (if rows = [] then s else int (fc_sequence (last rows))), cr_reset = False,
       cr_more = n < length (change_rows s (durable w))\<rparr>), w\<lparr>live := durable w\<rparr>)"
    using assms(3) by (simp add: changes_after_def sqlite_int_def query_def bind_py_def seq_def Let_def t del: length_take)
  have "changes cfg cursor limit w = (Inr r, w\<lparr>live := durable w\<rparr>)"
    if "changes_after cfg gen s (int n) (w\<lparr>live := durable w\<rparr>) = (Inr r, w\<lparr>live := durable w\<rparr>)" for r
    using assms(2) row that
    by (auto simp: changes_def n cursor_at_def session_block_run generation_row_def query_def bind_py_def Let_def
        split: option.splits if_splits sum.splits prod.splits)
  then show ?thesis using after by blast
qed

lemma changes_reset:
  assumes "generation_of (durable w) = Some gen" "foreign_cursor gen cursor"
  shows "changes cfg cursor limit w = (Inr \<lparr>cr_changes = [], cr_cursor = encode_cursor gen 0, cr_reset = True, cr_more = False\<rparr>,
    w\<lparr>live := durable w\<rparr>)"
  using assms
  by (auto simp: changes_def foreign_cursor_def generation_of_def session_block_run generation_row_def query_def bind_py_def Let_def)

lemma dec_short: "n < 10 ^ k \<Longrightarrow> 0 < k \<Longrightarrow> length (dec n) \<le> k"
proof (induction k arbitrary: n)
  case (Suc k)
  show ?case
  proof (cases "n < 10")
    case True
    then show ?thesis by (subst dec.simps) simp
  next
    case False
    with Suc.prems have "k \<noteq> 0" by (cases k) auto
    have "n div 10 < 10 ^ k" using Suc.prems(1) by (simp add: less_mult_imp_div_less mult.commute)
    with Suc.IH \<open>k \<noteq> 0\<close> have "length (dec (n div 10)) \<le> k" by simp
    with False show ?thesis by (subst dec.simps) simp
  qed
qed simp

lemma cursor_at_encode: "n < 2 ^ 63 \<Longrightarrow> cursor_at gen (Some (encode_cursor gen (int n))) = Some (int n)"
proof -
  assume "n < 2 ^ 63"
  then have "n < 10 ^ 20" by simp
  then have "length (dec n) \<le> 4300" using dec_short [of n 20] by simp
  then have d: "decode_cursor (encode_cursor gen (int n)) = Inr (cps gen, int n)" by (rule decode_encode)
  have "encode_cursor gen (int n) \<noteq> []"
  proof
    assume "encode_cursor gen (int n) = []"
    with d have "decode_cursor [] = Inr (cps gen, int n)" by simp
    moreover have "decode_cursor [] = Inl (ValueError ''invalid change cursor'')" by code_simp
    ultimately show False by simp
  qed
  with d show ?thesis by (simp add: cursor_at_def)
qed

text \<open>Every page but the last shortens what is left of the feed.\<close>

lemma sync_from:
  assumes "generation_of (durable w) = Some gen" "logged (durable w)" "\<forall>c \<in> set (fp_changes (durable w)). fc_sequence c < 2 ^ 63"
    "cursor_at gen cursor = Some s" "s < 2 ^ 63" "current cfg (durable w) s m" "length (change_rows s (durable w)) < k"
  shows "\<exists>cur. sync k cfg limit cursor m w = (Inr (server_view cfg (durable w), cur), w\<lparr>live := durable w\<rparr>)
    \<and> (0 \<le> s \<longrightarrow> (\<exists>e. cursor_at gen (Some cur) = Some e \<and> change_rows e (durable w) = []))"
  using assms
proof (induction k arbitrary: cursor s m w)
  case (Suc k)
  let ?d = "durable w"
  obtain n where n: "n = nat (max 1 (min limit 1000))" by blast
  then have pos: "0 < n" by auto
  obtain rows where rows: "rows = take n (change_rows s ?d)" by blast
  obtain e where e: "e = (if rows = [] then s else int (fc_sequence (last rows)))" by blast
  have page: "changes cfg cursor limit w = (Inr \<lparr>cr_changes = map (change_payload cfg ?d) rows, cr_cursor = encode_cursor gen e,
      cr_reset = False, cr_more = n < length (change_rows s ?d)\<rparr>, w\<lparr>live := ?d\<rparr>)"
    using changes_run [OF Suc.prems(1,4,5) n, of cfg] by (simp add: rows e Let_def)
  have cur: "current cfg ?d e (apply_rows cfg ?d rows m)"
    unfolding e by (rule current_page [OF Suc.prems(2,6) rows])
  have member: "rows \<noteq> [] \<Longrightarrow> last rows \<in> set (fp_changes ?d)"
    using rows change_rows_set [of s ?d] by (metis (no_types, lifting) in_set_takeD last_in_set mem_Collect_eq)
  have at: "cursor_at gen (Some (encode_cursor gen e)) = Some e" if "rows \<noteq> [] \<or> 0 \<le> s"
  proof -
    have "0 \<le> e" "e < 2 ^ 63" using that e Suc.prems(3,5) member by (auto split: if_splits)
    then show ?thesis using cursor_at_encode [of "nat e" gen] by simp
  qed
  have rest: "change_rows e ?d = drop n (change_rows s ?d)"
    using e rows pos change_rows_split [OF Suc.prems(2) rows] by (cases "rows = []") auto
  show ?case
  proof (cases "n < length (change_rows s ?d)")
    case True
    with rows pos have ne: "rows \<noteq> []" by auto
    have "\<exists>cur. sync k cfg limit (Some (encode_cursor gen e)) (apply_rows cfg ?d rows m) (w\<lparr>live := ?d\<rparr>)
        = (Inr (server_view cfg ?d, cur), w\<lparr>live := ?d\<rparr>)
        \<and> (0 \<le> e \<longrightarrow> (\<exists>x. cursor_at gen (Some cur) = Some x \<and> change_rows x ?d = []))"
      using Suc.IH [of "w\<lparr>live := ?d\<rparr>" "Some (encode_cursor gen e)" e "apply_rows cfg ?d rows m"]
        Suc.prems at ne cur rest True pos e member by simp
    moreover have "0 \<le> e" using e ne by simp
    ultimately show ?thesis using True by (auto simp: page bind_py_def apply_rows_def)
  next
    case False
    then have none: "change_rows e ?d = []" using rest by simp
    have "apply_rows cfg ?d rows m = server_view cfg ?d" by (rule current_all [OF cur none])
    with False at none show ?thesis by (simp add: page bind_py_def apply_rows_def Let_def)
  qed
qed simp

text \<open>C29: The feed refines a copy of the tree. A client whose mirror is right on every item that has not
  changed since its cursor, or that has nothing yet, or a cursor of an older generation, follows the
  cursors of \<open>/v1/changes\<close>, whatever the page size, and ends after at most one request per change and
  two more with exactly the server's view of every item; its new cursor has no later changes.\<close>

theorem sync_converges:
  assumes gen: "generation_of (durable w) = Some gen" and ok: "tree w"
    and seqs: "\<forall>c \<in> set (fp_changes (durable w)). 0 < fc_sequence c \<and> fc_sequence c < 2 ^ 63"
    and start: "cursor = None \<and> m = Map.empty
      \<or> (\<exists>s. cursor = Some (encode_cursor gen (int s)) \<and> s < 2 ^ 63 \<and> current cfg (durable w) (int s) m)
      \<or> foreign_cursor gen cursor"
    and fuel: "length (fp_changes (durable w)) + 1 < k"
  shows "\<exists>cur. sync k cfg limit cursor m w = (Inr (server_view cfg (durable w), cur), w\<lparr>live := durable w\<rparr>)
    \<and> (\<exists>e. cursor_at gen (Some cur) = Some e \<and> change_rows e (durable w) = [])"
proof -
  let ?d = "durable w"
  have lg: "logged ?d" using ok by (simp add: tree_def tree_ok_def)
  have seqs': "\<forall>c \<in> set (fp_changes ?d). fc_sequence c < 2 ^ 63" using seqs by blast
  have short: "length (change_rows s ?d) \<le> length (fp_changes ?d)" for s
    by (simp add: change_rows_def)
  have empty: "current cfg ?d 0 Map.empty"
    unfolding current_def
  proof (intro allI impI)
    fix i assume old: "\<forall>c \<in> set (fp_changes ?d). fc_item c = i \<longrightarrow> int (fc_sequence c) \<le> 0"
    have "tbl_get fi_id i (fp_items ?d) = None"
    proof (rule ccontr)
      assume "tbl_get fi_id i (fp_items ?d) \<noteq> None"
      then obtain x where "x \<in> set (fp_items ?d)" "fi_id x = i" by (auto dest: tbl_get_Some)
      with lg obtain c where "c \<in> set (fp_changes ?d)" "fc_item c = i" by (force simp: logged_def)
      with old seqs show False by fastforce
    qed
    then show "Map.empty i = server_view cfg ?d i" by (simp add: server_view_def)
  qed
  consider (fresh) "cursor = None" "m = Map.empty"
    | (known) s where "cursor = Some (encode_cursor gen (int s))" "s < 2 ^ 63" "current cfg ?d (int s) m"
    | (foreign) "foreign_cursor gen cursor" using start by blast
  then show ?thesis
  proof cases
    case fresh
    then show ?thesis
      using sync_from [OF gen lg seqs', of cursor 0 cfg m k limit] empty short [of 0] fuel by (simp add: cursor_at_def)
  next
    case known
    then show ?thesis
      using sync_from [OF gen lg seqs', of cursor "int s" cfg m k limit] short [of "int s"] fuel cursor_at_encode [of s gen] by simp
  next
    case foreign
    obtain k' where k: "k = Suc k'" using fuel by (cases k) auto
    have "cursor_at gen (Some (encode_cursor gen 0)) = Some 0" using cursor_at_encode [of 0 gen] by simp
    then have "\<exists>cur. sync k' cfg limit (Some (encode_cursor gen 0)) Map.empty (w\<lparr>live := ?d\<rparr>)
        = (Inr (server_view cfg ?d, cur), w\<lparr>live := ?d\<rparr>) \<and> (\<exists>e. cursor_at gen (Some cur) = Some e \<and> change_rows e ?d = [])"
      using sync_from [of "w\<lparr>live := ?d\<rparr>" gen "Some (encode_cursor gen 0)" 0 cfg Map.empty k' limit]
        gen lg seqs' empty short [of 0] fuel k by simp
    then show ?thesis by (simp add: k bind_py_def changes_reset [OF gen foreign])
  qed
qed

section \<open>Requests\<close>

text \<open>The routes of the application; all but pairing and refreshing depend on \<open>authorize\<close>.\<close>

datatype api_request =
    Pair pair_request
  | Refresh string
  | Account
  | GetItem string
  | Children string int int
  | Content string "string option"
  | Changes "string option" int
  | BeginUpload upload_request
  | AppendUpload string nat "bytes list" "exn option"
  | CompleteUpload string
  | DeleteItem string

definition answer :: "(world, 'a) py \<Rightarrow> (world, unit) py" where
  "answer m = bind_py m (\<lambda>_. ret ())"

fun public_request :: "api_request \<Rightarrow> bool" where
  "public_request (Pair _) = True"
| "public_request (Refresh _) = True"
| "public_request _ = False"

fun handler :: "fp_config \<Rightarrow> auth_config \<Rightarrow> nat list \<Rightarrow> string \<Rightarrow> api_request \<Rightarrow> (world, unit) py" where
  "handler cfg au key dvc (Pair r) = answer (pair au key r)"
| "handler cfg au key dvc (Refresh t) = answer (refresh au key t)"
| "handler cfg au key dvc Account = answer (account dvc)"
| "handler cfg au key dvc (GetItem i) = answer (get_item cfg i)"
| "handler cfg au key dvc (Children i limit off) = answer (children cfg i limit off)"
| "handler cfg au key dvc (Content i h) = answer (content_of cfg i h)"
| "handler cfg au key dvc (Changes c limit) = answer (changes cfg c limit)"
| "handler cfg au key dvc (BeginUpload r) = answer (begin_upload cfg r)"
| "handler cfg au key dvc (AppendUpload u n cs e) = answer (append_upload cfg u n cs e)"
| "handler cfg au key dvc (CompleteUpload u) = answer (complete_upload cfg u)"
| "handler cfg au key dvc (DeleteItem i) = answer (delete_e2e_item cfg i)"

definition api :: "fp_config \<Rightarrow> auth_config \<Rightarrow> nat list \<Rightarrow> string option \<Rightarrow> api_request \<Rightarrow> (world, unit) py" where
  "api cfg au key header r =
     (if public_request r then handler cfg au key [] r
      else bind_py (authorize au key header) (\<lambda>dvc. handler cfg au key dvc r))"

lemma session_block_Inl: "session_block m w = (Inl e, w') \<Longrightarrow> \<exists>v. m (w\<lparr>live := durable w\<rparr>) = (Inl e, v) \<and> w' = v\<lparr>live := durable v\<rparr>"
  by (auto simp: session_block_def split: prod.splits sum.splits)

lemma verify_frame: "verify_access_token au t key w = (r, w') \<Longrightarrow> durable w' = durable w \<and> disk w' = disk w
    \<and> (\<forall>e. r = Inl e \<longrightarrow> is_PermissionError e)"
  by (auto simp: verify_access_token_def utcnow_def query_def on_db_def bind_py_def seq_def require_def is_PermissionError_def
      split: option.splits if_splits)

text \<open>Nothing happens without a valid token. A request to any route but pairing and refreshing either
  carries a bearer token whose claims were accepted, with the access type and scope, for a device that
  is in the committed database and not revoked, or it is answered with status 401 and neither the
  committed database nor the disk changes.\<close>

theorem unauthorized_refused:
  assumes "\<not> public_request r"
  shows "(\<exists>s c v. header = Some s \<and> startswith s ''Bearer ''
        \<and> jwt_decode au (strip (removeprefix s ''Bearer '')) key ''mnema-file-provider'' (clock w (ticks w)) = Some c
        \<and> jc_type c = ''access'' \<and> jc_scope c = ''files:read files:upload''
        \<and> tbl_get dv_id (jc_sub c) (devices (durable w)) = Some v \<and> revoked_at v = None)
    \<or> (\<exists>m w'. api cfg au key header r w = (Inl (HTTPException 401 m), w') \<and> durable w' = durable w \<and> disk w' = disk w)"
proof (cases "fst (authorize au key header w)")
  case (Inl e)
  then obtain w' where a: "authorize au key header w = (Inl e, w')" by (metis prod.collapse)
  have "\<exists>m. e = HTTPException 401 m" "durable w' = durable w" "disk w' = disk w"
    using a verify_frame
    by (auto simp: authorize_def try_py_def bearer_def session_block_def bind_py_def is_PermissionError_def
        split: option.splits if_splits sum.splits prod.splits exn.splits)
  with a assms show ?thesis by (auto simp: api_def bind_py_def)
next
  case (Inr dvc)
  then obtain w' where a: "authorize au key header w = (Inr dvc, w')" by (metis prod.collapse)
  then obtain s v where s: "header = Some s" "startswith s ''Bearer ''"
    "verify_access_token au (strip (removeprefix s ''Bearer '')) key (w\<lparr>live := durable w\<rparr>) = (Inr dvc, v)"
    by (auto simp: authorize_def try_py_def bearer_def session_block_def bind_py_def
        split: option.splits if_splits sum.splits prod.splits)
  then show ?thesis
    by (auto simp: verify_access_token_def utcnow_def query_def on_db_def bind_py_def seq_def require_def
        split: option.splits if_splits)
qed

section \<open>Invariants of the interface\<close>

lemma tree_auth: "keeps tree (exchange_pairing_code au c n key)" "keeps tree (rotate_refresh_token au r key)"
  "keeps tree (verify_access_token au t key)"
  unfolding exchange_pairing_code_def rotate_refresh_token_def verify_access_token_def access_token_def write_devices_def Let_def
  by (auto intro!: tree_steps tree_on_db split: option.split)

lemma evidenced_auth: "keeps evidenced (exchange_pairing_code au c n key)" "keeps evidenced (rotate_refresh_token au r key)"
  "keeps evidenced (verify_access_token au t key)"
  unfolding exchange_pairing_code_def rotate_refresh_token_def verify_access_token_def access_token_def write_devices_def Let_def
  by (auto intro!: evidence_steps keeps_on_db split: option.split)

lemma keeps_answer: "keeps P m \<Longrightarrow> keeps P (answer m)"
  by (simp add: answer_def keeps_bind keeps_ret)

lemmas session_steps = keeps_answer keeps_try tree_session keeps_session keeps_bind keeps_seq keeps_ret keeps_raise
  keeps_require keeps_lift_sum keeps_gets keeps_when

lemma keeps_reading:
  "keeps tree (get_item cfg i)" "keeps evidenced (get_item cfg i)"
  "keeps tree (account dvc)" "keeps evidenced (account dvc)"
  "keeps tree (children cfg i limit off)" "keeps evidenced (children cfg i limit off)"
  "keeps tree (content_of cfg i h)" "keeps evidenced (content_of cfg i h)"
  "keeps tree (changes cfg c limit)" "keeps evidenced (changes cfg c limit)"
  unfolding get_item_def account_def generation_row_def children_def content_of_def content_item_def serve_def
    changes_def changes_after_def sqlite_int_def Let_def
  by (auto intro!: session_steps tree_rules evidence_rules split: option.split sum.split exn.split prod.split)

lemma keeps_auth_routes:
  "keeps tree (pair au key p)" "keeps evidenced (pair au key p)"
  "keeps tree (refresh au key t)" "keeps evidenced (refresh au key t)"
  "keeps tree (authorize au key h)" "keeps evidenced (authorize au key h)"
  unfolding pair_def refresh_def authorize_def
  by (auto intro!: session_steps tree_auth evidenced_auth split: exn.splits if_splits)

lemma keeps_upload_routes:
  "keeps tree (begin_upload cfg q)" "keeps evidenced (begin_upload cfg q)"
  "keeps tree (append_upload cfg u n cs e)" "keeps evidenced (append_upload cfg u n cs e)"
  "keeps tree (complete_upload cfg u)" "keeps evidenced (complete_upload cfg u)"
  "keeps tree (delete_e2e_item cfg i)" "keeps evidenced (delete_e2e_item cfg i)"
proof -
  have "tree_safe (bind_py (create_upload cfg n z c h) (\<lambda>up. ret (f up)))" for n z c h and f :: "fp_upload \<Rightarrow> upload_view"
    using tree_create_upload [of cfg n z c h]
    by (auto simp: tree_safe_def bind_py_def split: prod.splits sum.splits)
  then show "keeps tree (begin_upload cfg q)"
    unfolding begin_upload_def
    by (intro keeps_seq keeps_require keeps_try tree_safe_session) (auto intro: keeps_raise split: if_splits)
  show "keeps evidenced (begin_upload cfg q)"
    unfolding begin_upload_def
    by (auto intro!: session_steps evidenced_create_upload split: if_splits)
  show "keeps tree (append_upload cfg u n cs e)" "keeps evidenced (append_upload cfg u n cs e)"
    unfolding append_upload_def
    by (auto intro!: session_steps tree_rules tree_upd_upload evidence_rules evidenced_upd_upload split: option.split)
  show "keeps tree (complete_upload cfg u)" "keeps evidenced (complete_upload cfg u)"
    unfolding complete_upload_def start_sealing_def finish_sealing_def
    by (auto intro!: session_steps tree_rules tree_upd_upload tree_seal_upload evidence_rules evidenced_upd_upload
        evidenced_seal_upload split: option.split if_splits)
  show "keeps tree (delete_e2e_item cfg i)" "keeps evidenced (delete_e2e_item cfg i)"
    unfolding delete_e2e_item_def
    by (auto intro!: session_steps tree_cleanup evidenced_cleanup split: exn.splits)
qed

text \<open>C26: No request breaks the library: whatever requests arrive, with or without a valid token, on any
  branch, the tree of the provider keeps its unique keys, its ascending change log and its versions, and
  every archive item keeps the evidence of its state, in the session and in the committed database.\<close>

theorem api_keeps_invariants:
  "keeps tree (api cfg au key header r) \<and> keeps evidenced (api cfg au key header r)"
proof -
  have "keeps tree (handler cfg au key dvc r) \<and> keeps evidenced (handler cfg au key dvc r)" for dvc
    by (cases r) (simp_all add: keeps_answer keeps_reading keeps_auth_routes keeps_upload_routes)
  then show ?thesis by (auto simp: api_def intro!: keeps_bind keeps_auth_routes)
qed

section \<open>Witnesses\<close>

definition api_disk :: fsys where
  "api_disk = [([''active''], Dir), ([''active'', ''a''], File ''hello'' 4 0), ([''active'', ''up''], Dir),
     ([''active'', ''up'', ''u1.upload''], File ''hi'' 3 0)]"

definition api_upload :: fp_upload where
  "api_upload = \<lparr>fu_id = ''u1'', fu_item = ''f2'', fu_archive_item = 8, expected_size = 5, received_size = 2,
     expected_sha256 = None, fu_status = Open, fu_expires_at = Naive 50\<rparr>"

definition api_db :: db where
  "api_db = empty_db\<lparr>items := [(blank_item 7 ''local_test'' ''a'')\<lparr>nas_path := Some [''active'', ''a'']\<rparr>],
     settings := [\<lparr>rs_key = ''file_provider_generation'', rs_value = ''g1''\<rparr>],
     fp_items := [(blank_fp ''f0'' None ''Mnema'' FolderKind (Aware 0)),
       (blank_fp ''f1'' (Some ''f0'') ''a'' FileKind (Aware 0))\<lparr>fi_archive_item := Some 7, metadata_version := 2\<rparr>],
     fp_changes := [\<lparr>fc_sequence = 1, fc_item = ''f0'', fc_operation = ''UPSERT''\<rparr>,
       \<lparr>fc_sequence = 2, fc_item = ''f1'', fc_operation = ''UPSERT''\<rparr>],
     fp_uploads := [api_upload]\<rparr>"

definition api_world :: world where
  "api_world = \<lparr>disk = api_disk, live = api_db, durable = api_db, clock = (\<lambda>n. int n), ticks = 0,
     rand = (\<lambda>n. dec n), draws = 0\<rparr>"


theorem append_upload_atomic_witness:
  "\<exists>w'. append_upload example_fp ''u1'' 2 [''ab'', ''c''] None api_world = (Inr 5, w')
     \<and> staged (disk w') [''active'', ''up'', ''u1.upload''] ''hiabc''"
proof -
  let ?run = "append_upload example_fp ''u1'' 2 [''ab'', ''c''] None api_world"
  have "fst ?run = Inr 5" by code_simp
  then obtain w' where run: "?run = (Inr 5, w')" by (metis prod.collapse)
  have up: "tbl_get fu_id ''u1'' (fp_uploads (durable api_world)) = Some api_upload" by code_simp
  have rt: "resolve_path (disk api_world) False (fp_upload_root example_fp) = Inr [''active'', ''up'']" by code_simp
  have "canonical (disk api_world) [''active'', ''up'', ''u1.upload'']" "dirs_to (disk api_world) [''active'', ''up'', ''u1.upload'']"
    "node_at (disk api_world) [''active'', ''up'', ''u1.upload''] = Some (File ''hi'' 3 0)" by code_simp+
  then have st: "staged (disk api_world) ([''active'', ''up''] @ [''u1'' @ ''.upload'']) ''hi''"
    by (simp add: staged_def holds_def)
  have "length ''hi'' = received_size api_upload" by code_simp
  from append_upload_atomic [OF run up rt st this] run show ?thesis by simp
qed

theorem children_complete_witness:
  "list_children 2 example_fp ''f0'' 1 0 api_world =
     (Inr (map (item_payload example_fp) (child_rows ''f0'' api_db)), api_world) \<and> length (child_rows ''f0'' api_db) = 1"
proof -
  have l: "length (child_rows ''f0'' api_db) = 1" by code_simp
  have p: "tbl_get fi_id ''f0'' (fp_items (durable api_world)) \<noteq> None" by code_simp
  have d: "durable api_world = api_db" "api_world\<lparr>live := api_db\<rparr> = api_world" by (simp_all add: api_world_def)
  have "int (length (child_rows ''f0'' (durable api_world))) < 2 ^ 63" unfolding d l by simp
  from children_complete [OF p this, of example_fp 1, unfolded d l] show ?thesis
    using l by (simp add: numeral_2_eq_2 del: list_children.simps)
qed

theorem sync_converges_witness:
  "\<exists>cur. sync 4 example_fp 1 None Map.empty api_world = (Inr (server_view example_fp api_db, cur), api_world)
     \<and> server_view example_fp api_db ''f1'' \<noteq> None"
proof -
  have d: "durable api_world = api_db" "api_world\<lparr>live := api_db\<rparr> = api_world" by (simp_all add: api_world_def)
  have gen: "generation_of (durable api_world) = Some ''g1''" by code_simp
  have "tree_ok api_db" by code_simp
  then have ok: "tree api_world" by (simp add: tree_def api_world_def)
  have seqs: "\<forall>c \<in> set (fp_changes (durable api_world)). 0 < fc_sequence c \<and> fc_sequence c < 2 ^ 63"
    by (simp add: api_world_def api_db_def)
  have fuel: "length (fp_changes (durable api_world)) + 1 < 4" by (simp add: api_world_def api_db_def)
  have "server_view example_fp api_db ''f1'' \<noteq> None" by code_simp
  with sync_converges [OF gen ok seqs _ fuel, of None Map.empty example_fp 1] show ?thesis unfolding d by auto
qed

theorem unauthorized_refused_witness:
  "\<exists>m w'. api example_fp example_auth [] (Some ''Basic x'') (DeleteItem ''f1'') api_world = (Inl (HTTPException 401 m), w')
     \<and> durable w' = api_db"
proof -
  have "\<not> public_request (DeleteItem ''f1'')" by simp
  from unauthorized_refused [OF this, of "Some ''Basic x''" example_auth "[]" api_world example_fp]
  show ?thesis by (auto simp: startswith_def api_world_def)
qed

end
