(* ===== verification/Hoare_Rules.thy ===== *)
theory Hoare_Rules
  imports Prelude
begin

text \<open>Rules for Hoare triples of computations that keep an invariant until their last step.\<close>

lemma keeps_hoare: "keeps P m \<Longrightarrow> hoare P m (\<lambda>_. P) (\<lambda>_. P)"
  by (auto simp: keeps_def hoare_def split: prod.split sum.split)

lemma hoare_bind: "hoare P m R E \<Longrightarrow> (\<And>x. hoare (R x) (f x) Q E) \<Longrightarrow> hoare P (bind_py m f) Q E"
  by (fastforce simp: hoare_def bind_py_def split: prod.split sum.split)

lemma hoare_keeps_bind: "keeps P m \<Longrightarrow> (\<And>x. hoare P (f x) Q (\<lambda>_. P)) \<Longrightarrow> hoare P (bind_py m f) Q (\<lambda>_. P)"
  by (rule hoare_bind) (auto intro: keeps_hoare)

lemma hoare_keeps_seq: "keeps P m \<Longrightarrow> hoare P n Q (\<lambda>_. P) \<Longrightarrow> hoare P (seq m n) Q (\<lambda>_. P)"
  unfolding seq_def by (rule hoare_keeps_bind)

lemma hoare_try:
  assumes m: "hoare P m Q (\<lambda>_. P)" and k: "\<And>e. hoare P (k e) Q (\<lambda>_. P)"
  shows "hoare P (try_py m (\<lambda>e. Some (k e))) Q (\<lambda>_. P)"
  unfolding hoare_def
proof (intro allI impI)
  fix s assume s: "P s"
  obtain r t where run: "m s = (r, t)" by fastforce
  show "case try_py m (\<lambda>e. Some (k e)) s of (Inl e, w') \<Rightarrow> P w' | (Inr x, w') \<Rightarrow> Q x w'"
  proof (cases r)
    case (Inl e)
    with m s run have "P t" by (auto dest: hoare_Inl)
    from k [of e, unfolded hoare_def, THEN spec, THEN mp, OF this] Inl run show ?thesis by (simp add: try_py_def)
  next
    case (Inr x)
    with m s run show ?thesis by (auto simp: try_py_def dest: hoare_Inr)
  qed
qed

lemma hoare_post: "hoare P m Q E \<Longrightarrow> (\<And>x s. Q x s \<Longrightarrow> R x s) \<Longrightarrow> hoare P m R E"
  by (fastforce simp: hoare_def split: prod.split sum.split)

end
