(* ===== verification/Runtime_Settings.thy ===== *)
theory Runtime_Settings
  imports Models
begin

text \<open>Setting a value in the table of runtime settings, as the worker and the clean-up do.\<close>

definition set_setting :: "string \<Rightarrow> string \<Rightarrow> (world, unit) py" where
  "set_setting k v = bind_py (query (\<lambda>d. tbl_get rs_key k (settings d))) (\<lambda>found.
     case found of None \<Rightarrow> on_db (settings_update (\<lambda>t. t @ [\<lparr>rs_key = k, rs_value = v\<rparr>]))
     | Some _ \<Rightarrow> on_db (settings_update (tbl_upd rs_key k (\<lambda>r. r\<lparr>rs_value := v\<rparr>))))"

lemma set_setting_run:
  "\<exists>w'. set_setting k v w = (Inr (), w') \<and> tbl_get rs_key k (settings (live w')) = Some \<lparr>rs_key = k, rs_value = v\<rparr>
    \<and> (\<forall>j. j \<noteq> k \<longrightarrow> tbl_get rs_key j (settings (live w')) = tbl_get rs_key j (settings (live w)))
    \<and> items (live w') = items (live w) \<and> disk w' = disk w \<and> durable w' = durable w"
proof (cases "tbl_get rs_key k (settings (live w))")
  case None
  then show ?thesis
    by (auto simp: set_setting_def query_def on_db_def bind_py_def tbl_get_append split: option.split)
next
  case (Some r)
  then have "rs_key r = k" using tbl_get_Some by fastforce
  with Some show ?thesis
    by (auto simp: set_setting_def query_def on_db_def bind_py_def tbl_get_upd_same tbl_get_upd_other)
qed


lemma set_setting_frame:
  "set_setting k v w = (r, w') \<Longrightarrow> live w' = settings_update (\<lambda>_. settings (live w')) (live w)"
  by (auto simp: set_setting_def query_def on_db_def bind_py_def split: option.splits)

end
