(* ===== verification/Recovery.thy ===== *)
theory Recovery
  imports Workflow
begin

text \<open>
  What the worker does with items a restart interrupted (\<open>worker/recovery.py\<close>). The items fetched by
  the query are rows of one session, each changed only by its own turn of the loop.
\<close>

definition retry_after_restart :: "archive_state list" where
  "retry_after_restart = [DOWNLOADING, RESTORING]"

definition resume_in_place :: "archive_state list" where
  "resume_in_place = [LOCAL_BACKUP_PENDING, COLD_UPLOAD_PENDING, COLD_ARCHIVE_PENDING]"

definition live_upload_states :: "upload_status list" where
  "live_upload_states = [Open, Sealing]"

definition awaiting_client_upload :: "archive_item \<Rightarrow> db \<Rightarrow> bool" where
  "awaiting_client_upload r d =
     (if source_provider r \<noteq> ''file_provider_upload'' then False
      else (case tbl_get fu_archive_item (ai_id r) (fp_uploads d) of None \<Rightarrow> False
        | Some up \<Rightarrow> fu_status up \<in> set live_upload_states))"

definition reconcile_item :: "archive_item \<Rightarrow> (world, nat) py" where
  "reconcile_item r =
     (if ai_state r = DELETING then
        seq (transition_item (ai_id r) MANUAL_REVIEW ''startup-recovery''
          [(''reason'', PStr ''deletion result unknown after restart'')]) (ret 1)
      else if ai_state r \<in> set resume_in_place then
        seq (add_audit (Some (ai_id r)) ''interrupted_step_resumed'' (Some (state_value (ai_state r)))
          (Some (state_value (ai_state r))) ''startup-recovery''
          (PDict [(''reason'', PStr ''step interrupted by restart; resuming in place'')])) (ret 1)
      else bind_py (query (awaiting_client_upload r)) (\<lambda>live.
        if live then ret 0 else
        seq (transition_item (ai_id r) FAILED_RETRYABLE ''startup-recovery''
          [(''reason'', PStr ''transfer interrupted by restart; retrying from source'')]) (ret 1)))"

definition interrupted_states :: "bool \<Rightarrow> archive_state list" where
  "interrupted_states only_deletions =
     (if only_deletions then [DELETING] else DELETING # retry_after_restart @ resume_in_place)"

definition reconcile_interrupted_items :: "bool \<Rightarrow> (world, nat) py" where
  "reconcile_interrupted_items only_deletions = session_block (
     bind_py (query (\<lambda>d. filter (\<lambda>r. ai_state r \<in> set (interrupted_states only_deletions)) (items d))) (\<lambda>rs.
     bind_py (map_py reconcile_item rs) (\<lambda>ns. ret (sum_list ns))))"

definition reconcile_interrupted_deletions :: "(world, nat) py" where
  "reconcile_interrupted_deletions = reconcile_interrupted_items True"

section \<open>What is left of an interruption\<close>

text \<open>The state an item is left in, and whether it was reconciled.\<close>

definition settled_state :: "db \<Rightarrow> archive_item \<Rightarrow> archive_state" where
  "settled_state d r =
     (if ai_state r = DELETING then MANUAL_REVIEW
      else if ai_state r \<in> set retry_after_restart \<and> \<not> awaiting_client_upload r d then FAILED_RETRYABLE
      else ai_state r)"

definition reconciles :: "db \<Rightarrow> archive_item \<Rightarrow> bool" where
  "reconciles d r \<longleftrightarrow> ai_state r = DELETING \<or> ai_state r \<in> set resume_in_place
     \<or> ai_state r \<in> set retry_after_restart \<and> \<not> awaiting_client_upload r d"

lemma recovery_transitions:
  "validate_transition DELETING MANUAL_REVIEW = Inr ()" "validate_transition DOWNLOADING FAILED_RETRYABLE = Inr ()"
  "validate_transition RESTORING FAILED_RETRYABLE = Inr ()"
  by code_simp+

lemma awaiting_same: "fp_uploads d' = fp_uploads d \<Longrightarrow> awaiting_client_upload r d' = awaiting_client_upload r d"
  by (simp add: awaiting_client_upload_def)

lemma reconcile_item_run:
  assumes "ai_state r \<in> set (interrupted_states only)" "tbl_get ai_id (ai_id r) (items (live w)) = Some r"
  obtains w' where "reconcile_item r w = (Inr (if reconciles (live w) r then 1 else 0), w')"
    "items (live w') = tbl_upd ai_id (ai_id r) (ai_state_update (\<lambda>_. settled_state (live w) r)) (items (live w))
      \<or> settled_state (live w) r = ai_state r \<and> items (live w') = items (live w)"
    "fp_uploads (live w') = fp_uploads (live w)" "durable w' = durable w" "disk w' = disk w"
proof -
  have s: "ai_state r \<in> {DELETING, DOWNLOADING, RESTORING, LOCAL_BACKUP_PENDING, COLD_UPLOAD_PENDING, COLD_ARCHIVE_PENDING}"
    using assms(1) by (auto simp: interrupted_states_def retry_after_restart_def resume_in_place_def split: if_splits)
  show thesis
    by (rule that [of "snd (reconcile_item r w)"])
      (use s assms(2) recovery_transitions in \<open>auto simp: reconcile_item_def reconciles_def settled_state_def retry_after_restart_def
        resume_in_place_def transition_item_def load_item_def upd_item_def add_audit_def on_db_def query_def bind_py_def seq_def\<close>)
qed

definition settle :: "db \<Rightarrow> archive_item list \<Rightarrow> archive_item list \<Rightarrow> archive_item list" where
  "settle d rs t = map (\<lambda>x. if x \<in> set rs then x\<lparr>ai_state := settled_state d x\<rparr> else x) t"

lemma settled_same: "fp_uploads d' = fp_uploads d \<Longrightarrow> settled_state d' r = settled_state d r \<and> reconciles d' r = reconciles d r"
  unfolding settled_state_def reconciles_def using awaiting_same [of d' d r] by auto

lemma reconcile_items_run:
  assumes "\<forall>r \<in> set rs. ai_state r \<in> set (interrupted_states only) \<and> tbl_get ai_id (ai_id r) (items (live w)) = Some r"
    "distinct (map ai_id rs)" "distinct (map ai_id (items (live w)))"
  shows "\<exists>ns w'. map_py reconcile_item rs w = (Inr ns, w') \<and> sum_list ns = length (filter (reconciles (live w)) rs)
    \<and> items (live w') = settle (live w) rs (items (live w)) \<and> durable w' = durable w \<and> disk w' = disk w"
  using assms
proof (induction rs arbitrary: w)
  case Nil
  then show ?case by (simp add: settle_def)
next
  case (Cons r rs)
  let ?d = "live w"
  obtain w1 where r: "reconcile_item r w = (Inr (if reconciles ?d r then 1 else 0), w1)"
    "items (live w1) = tbl_upd ai_id (ai_id r) (ai_state_update (\<lambda>_. settled_state ?d r)) (items ?d)
      \<or> settled_state ?d r = ai_state r \<and> items (live w1) = items ?d"
    "fp_uploads (live w1) = fp_uploads ?d" "durable w1 = durable w" "disk w1 = disk w"
    using reconcile_item_run [of r only w] Cons.prems(1) by auto
  have mem: "r \<in> set (items ?d)" using Cons.prems(1) tbl_get_Some by force
  have only: "ai_id x = ai_id r \<longleftrightarrow> x = r" if "x \<in> set (items ?d)" for x
    using that mem Cons.prems(3) by (auto simp: distinct_map dest: inj_onD)
  have items1: "items (live w1) = map (\<lambda>x. if x = r then x\<lparr>ai_state := settled_state ?d x\<rparr> else x) (items ?d)"
    using r(2) only by (auto simp: tbl_upd_def intro!: map_cong map_idI [symmetric])
  have ids: "map ai_id (items (live w1)) = map ai_id (items ?d)" unfolding items1 by simp
  have rest: "tbl_get ai_id (ai_id x) (items (live w1)) = Some x" if x: "x \<in> set rs" for x
  proof -
    have "x \<in> set (items ?d)" using Cons.prems(1) x tbl_get_Some by force
    moreover have "x \<noteq> r" using Cons.prems(2) x by auto
    ultimately have "x \<in> set (items (live w1))" unfolding items1 by force
    then show ?thesis using tbl_get_in [of ai_id "items (live w1)"] ids Cons.prems(3) by metis
  qed
  have "\<exists>ns w'. map_py reconcile_item rs w1 = (Inr ns, w') \<and> sum_list ns = length (filter (reconciles (live w1)) rs)
    \<and> items (live w') = settle (live w1) rs (items (live w1)) \<and> durable w' = durable w1 \<and> disk w' = disk w1"
    by (rule Cons.IH) (use Cons.prems rest ids in auto)
  then obtain ns w' where ih: "map_py reconcile_item rs w1 = (Inr ns, w')" "sum_list ns = length (filter (reconciles (live w1)) rs)"
    "items (live w') = settle (live w1) rs (items (live w1))" "durable w' = durable w1" "disk w' = disk w1" by blast
  have "settle (live w1) rs (items (live w1)) = settle ?d (r # rs) (items ?d)"
  proof -
    have "x\<lparr>ai_state := s\<rparr> \<notin> set rs" if "x = r" for x s
    proof
      assume "x\<lparr>ai_state := s\<rparr> \<in> set rs"
      then have "ai_id r \<in> ai_id ` set rs" using that by (metis archive_item.ext_inject archive_item.surjective archive_item.update_convs(8) image_eqI)
      then show False using Cons.prems(2) by simp
    qed
    then show ?thesis unfolding items1 settle_def using settled_same [OF r(3)] by (auto simp: o_def)
  qed
  moreover have "reconciles (live w1) = reconciles ?d" using settled_same [OF r(3)] by (intro ext) blast
  ultimately show ?case using ih r(1,4,5) by (auto simp: bind_py_def)
qed

text \<open>Recovery after a restart always succeeds and settles every interrupted item: an item whose deletion
  was cut off goes to manual review, an unfinished transfer is retried from its source unless the client
  can still finish its upload, a step after the verified commit is resumed where it stopped, and every
  other item keeps its state. No item is left DELETING, the number returned counts the settled items,
  and the disk is untouched.\<close>

theorem recovery_settles:
  assumes "distinct (map ai_id (items (durable w)))"
  shows "\<exists>w'. reconcile_interrupted_items False w =
      (Inr (length (filter (reconciles (durable w)) (items (durable w)))), w')
    \<and> items (durable w') = map (\<lambda>r. r\<lparr>ai_state := settled_state (durable w) r\<rparr>) (items (durable w))
    \<and> (\<forall>r \<in> set (items (durable w')). ai_state r \<noteq> DELETING
        \<and> (ai_state r \<in> set retry_after_restart \<longrightarrow> awaiting_client_upload r (durable w)))
    \<and> disk w' = disk w"
proof -
  let ?d = "durable w"
  let ?rs = "filter (\<lambda>r. ai_state r \<in> set (interrupted_states False)) (items ?d)"
  have "\<exists>ns w'. map_py reconcile_item ?rs (w\<lparr>live := ?d\<rparr>) = (Inr ns, w') \<and> sum_list ns = length (filter (reconciles (live (w\<lparr>live := ?d\<rparr>))) ?rs)
    \<and> items (live w') = settle (live (w\<lparr>live := ?d\<rparr>)) ?rs (items (live (w\<lparr>live := ?d\<rparr>))) \<and> durable w' = durable (w\<lparr>live := ?d\<rparr>)
    \<and> disk w' = disk (w\<lparr>live := ?d\<rparr>)"
    by (rule reconcile_items_run [of _ False]) (use assms tbl_get_in [OF assms] in \<open>auto simp: distinct_map_filter\<close>)
  then obtain ns w' where run: "map_py reconcile_item ?rs (w\<lparr>live := ?d\<rparr>) = (Inr ns, w')"
    "sum_list ns = length (filter (reconciles ?d) ?rs)" "items (live w') = settle ?d ?rs (items ?d)" "disk w' = disk w" by auto
  have "filter (reconciles ?d) ?rs = filter (reconciles ?d) (items ?d)"
    by (auto simp: reconciles_def interrupted_states_def intro!: filter_cong)
  then have n: "sum_list ns = length (filter (reconciles ?d) (items ?d))" using run(2) by simp
  have it: "items (live w') = map (\<lambda>r. r\<lparr>ai_state := settled_state ?d r\<rparr>) (items ?d)"
  proof -
    have "r\<lparr>ai_state := settled_state ?d r\<rparr> = r" if "r \<in> set (items ?d)" "r \<notin> set ?rs" for r
    proof -
      have "settled_state ?d r = ai_state r" using that
        by (auto simp: interrupted_states_def settled_state_def)
      then show ?thesis by simp
    qed
    then show ?thesis unfolding run(3) settle_def by (intro map_cong) auto
  qed
  have settled: "settled_state ?d r \<noteq> DELETING \<and> (settled_state ?d r \<in> set retry_after_restart \<longrightarrow>
      awaiting_client_upload (r\<lparr>ai_state := settled_state ?d r\<rparr>) ?d)" for r
    by (auto simp: settled_state_def retry_after_restart_def awaiting_client_upload_def)
  have "reconcile_interrupted_items False w = (Inr (length (filter (reconciles ?d) (items ?d))), w'\<lparr>durable := live w'\<rparr>)"
    using run(1) n by (simp add: reconcile_interrupted_items_def session_block_def query_def bind_py_def)
  then show ?thesis using it run(4) settled by auto
qed

section \<open>Witness\<close>

definition recovery_db :: db where
  "recovery_db = empty_db\<lparr>items := [(blank_item 1 ''local_test'' ''a'')\<lparr>ai_state := DELETING\<rparr>,
     (blank_item 2 ''local_test'' ''b'')\<lparr>ai_state := DOWNLOADING\<rparr>,
     (blank_item 3 ''local_test'' ''c'')\<lparr>ai_state := COLD_UPLOAD_PENDING\<rparr>, blank_item 4 ''local_test'' ''d'']\<rparr>"

theorem recovery_settles_witness:
  "\<exists>w'. reconcile_interrupted_items False \<lparr>disk = [], live = empty_db, durable = recovery_db, clock = int, ticks = 0,
      rand = (\<lambda>n. dec n), draws = 0\<rparr> = (Inr 3, w')
    \<and> map ai_state (items (durable w')) = [MANUAL_REVIEW, FAILED_RETRYABLE, COLD_UPLOAD_PENDING, DISCOVERED]"
proof -
  let ?w = "\<lparr>disk = [], live = empty_db, durable = recovery_db, clock = int, ticks = 0, rand = (\<lambda>n. dec n), draws = 0\<rparr>"
  have "distinct (map ai_id (items recovery_db))" by code_simp
  moreover have "length (filter (reconciles recovery_db) (items recovery_db)) = 3" by code_simp
  moreover have "map ai_state (map (\<lambda>r. r\<lparr>ai_state := settled_state recovery_db r\<rparr>) (items recovery_db))
      = [MANUAL_REVIEW, FAILED_RETRYABLE, COLD_UPLOAD_PENDING, DISCOVERED]" by code_simp
  ultimately show ?thesis using recovery_settles [of ?w] by auto
qed

end
