(* ===== verification/Json_Values.thy ===== *)
theory Json_Values
  imports Cursors
begin

text \<open>
  What several components do with a decoded JSON value: its truth value, the lookup of a key, iterating over
  it. Errors are values of the sum type.
\<close>

definition bind_sum :: "exn + 'a \<Rightarrow> ('a \<Rightarrow> exn + 'b) \<Rightarrow> exn + 'b" where
  "bind_sum r f = (case r of Inl e \<Rightarrow> Inl e | Inr x \<Rightarrow> f x)"

lemma bind_sum_Inr: "bind_sum r f = Inr y \<longleftrightarrow> (\<exists>x. r = Inr x \<and> f x = Inr y)"
  by (auto simp: bind_sum_def split: sum.splits)

definition json_truthy :: "json \<Rightarrow> bool" where
  "json_truthy v = (case v of JNull \<Rightarrow> False | JBool b \<Rightarrow> b | JInt n \<Rightarrow> n \<noteq> 0
     | JFloat t \<Rightarrow> \<not> (list_all (\<lambda>c. c \<in> {48, 46, 45, 43}) (takeWhile (\<lambda>c. c \<noteq> 101 \<and> c \<noteq> 69) t))
     | JText t \<Rightarrow> t \<noteq> [] | JList l \<Rightarrow> l \<noteq> [] | JObject kvs \<Rightarrow> kvs \<noteq> [])"

text \<open>
  Iterating an object yields its keys, which are no objects, and a text its characters; other values
  cannot be iterated. A payload that is no object has no \<open>get\<close>, an \<open>AttributeError\<close>.
\<close>

definition json_entries :: "json \<Rightarrow> exn + json list" where
  "json_entries v = (case v of JList l \<Rightarrow> Inr l | JObject kvs \<Rightarrow> Inr (map (JText \<circ> fst) kvs)
     | JText t \<Rightarrow> Inr (map (\<lambda>c. JText [c]) t) | _ \<Rightarrow> Inl TypeError)"

text \<open>\<open>payload.get(k)\<close>, where only a dictionary has a \<open>get\<close>.\<close>

definition dict_get :: "json \<Rightarrow> string \<Rightarrow> exn + json option" where
  "dict_get v k = (case v of JObject kvs \<Rightarrow> Inr (map_of (rev kvs) (cps k)) | _ \<Rightarrow> Inl (OtherError ''AttributeError''))"

end
