(* ===== verification/Health.thy ===== *)
theory Health
  imports Job_Queue Json_Values
begin

text \<open>
  The startup checks (\<open>diagnostics/health.py\<close>) and the report about the disks' own health
  (\<open>diagnostics/smart.py\<close>). What the operating system reports of a path is a parameter: disk usage,
  access rights and device numbers. So is the conversion of a floating-point number to an integer.
\<close>

record host =
  ho_usage :: "path \<Rightarrow> int \<times> int"
  ho_writable :: "path \<Rightarrow> bool"
  ho_device :: "path \<Rightarrow> nat"
  ho_float_int :: "nat list \<Rightarrow> exn + int"
  ho_integrity :: bool

section \<open>Disk reports\<close>

text \<open>The texts of a report are kept as the JSON values \<open>str\<close> is applied to.\<close>

record smart_disk =
  sd_mount :: json
  sd_device :: json
  sd_model :: json
  sd_serial :: json
  sd_passed :: bool
  sd_temperature :: "int option"
  sd_power_on :: "int option"

text \<open>\<open>entry[k]\<close> and \<open>entry.get(k, default)\<close> of a decoded object.\<close>

definition json_get :: "(nat list \<times> json) list \<Rightarrow> string \<Rightarrow> exn + json" where
  "json_get kvs k = (case map_of (rev kvs) (cps k) of None \<Rightarrow> Inl KeyError | Some v \<Rightarrow> Inr v)"

definition json_default :: "(nat list \<times> json) list \<Rightarrow> string \<Rightarrow> json \<Rightarrow> json" where
  "json_default kvs k v = (case map_of (rev kvs) (cps k) of None \<Rightarrow> v | Some x \<Rightarrow> x)"

definition text_int :: "nat list \<Rightarrow> exn + int" where
  "text_int t = (if list_all (\<lambda>c. c < 128) t then py_int (map char_of t) else Inl (ValueError ''invalid literal for int()''))"

definition optional_int :: "host \<Rightarrow> json \<Rightarrow> exn + int option" where
  "optional_int h v = (case v of JNull \<Rightarrow> Inr None | JInt n \<Rightarrow> Inr (Some n) | JBool b \<Rightarrow> Inr (Some (if b then 1 else 0))
     | JFloat t \<Rightarrow> map_sum id Some (ho_float_int h t) | JText t \<Rightarrow> map_sum id Some (text_int t)
     | _ \<Rightarrow> Inl TypeError)"

definition smart_entry :: "host \<Rightarrow> json \<Rightarrow> exn + smart_disk" where
  "smart_entry h v = (case v of JObject kvs \<Rightarrow>
       bind_sum (json_get kvs ''mount'') (\<lambda>mount. bind_sum (json_get kvs ''device'') (\<lambda>dvc.
       bind_sum (json_get kvs ''passed'') (\<lambda>passed.
       bind_sum (optional_int h (json_default kvs ''temperature_celsius'' JNull)) (\<lambda>temperature.
       bind_sum (optional_int h (json_default kvs ''power_on_hours'' JNull)) (\<lambda>power.
       Inr \<lparr>sd_mount = mount, sd_device = dvc, sd_model = json_default kvs ''model'' (JText (cps ''unknown'')),
         sd_serial = json_default kvs ''serial'' (JText (cps ''unknown'')), sd_passed = json_truthy passed,
         sd_temperature = temperature, sd_power_on = power\<rparr>)))))
     | _ \<Rightarrow> Inl (ValueError ''invalid SMART disk record''))"

fun smart_entries :: "host \<Rightarrow> json list \<Rightarrow> exn + smart_disk list" where
  "smart_entries h [] = Inr []"
| "smart_entries h (v # vs) = bind_sum (smart_entry h v) (\<lambda>d. bind_sum (smart_entries h vs) (\<lambda>ds. Inr (d # ds)))"

definition parse_smart :: "host \<Rightarrow> nat list \<Rightarrow> exn + smart_disk list" where
  "parse_smart h s = (case json_loads s of None \<Rightarrow> Inl (ValueError ''JSONDecodeError'')
     | Some (JObject kvs) \<Rightarrow>
       bind_sum (json_entries (json_default kvs ''disks'' (JList []))) (\<lambda>vs. bind_sum (smart_entries h vs) (\<lambda>disks.
       if disks = [] then Inl (ValueError ''SMART health report contains no disks'') else Inr disks))
     | Some _ \<Rightarrow> Inl (OtherError ''AttributeError''))"

definition read_smart_health :: "host \<Rightarrow> path \<Rightarrow> fsys \<Rightarrow> exn + smart_disk list" where
  "read_smart_health h p fs = bind_sum (fst (read_bytes p fs)) (\<lambda>b.
     case utf8_decode (map of_char b) of None \<Rightarrow> Inl (ValueError ''invalid utf-8'') | Some s \<Rightarrow> parse_smart h s)"

definition smart_report_healthy :: "host \<Rightarrow> path \<Rightarrow> fsys \<Rightarrow> exn + bool" where
  "smart_report_healthy h p fs = (case read_smart_health h p fs of
       Inl e \<Rightarrow> if is_OSError e \<or> is_ValueError e \<or> e = KeyError then Inr False else Inl e
     | Inr disks \<Rightarrow> Inr (list_all sd_passed disks))"

section \<open>Startup\<close>

record storage_health =
  sh_path :: path
  sh_exists :: bool
  sh_writable :: bool
  sh_free :: rat

definition storage_healthy :: "storage_health \<Rightarrow> bool" where
  "storage_healthy s \<longleftrightarrow> sh_exists s \<and> sh_writable s \<and> sh_free s > 0"

record startup_health =
  su_active :: storage_health
  su_backup :: storage_health
  su_differ :: bool
  su_staging :: bool
  su_sqlite :: bool
  su_recovered :: nat
  su_partials :: "path list"
  su_smart :: "bool option"
  su_required :: bool

definition startup_healthy :: "startup_health \<Rightarrow> bool" where
  "startup_healthy s \<longleftrightarrow> storage_healthy (su_active s) \<and> storage_healthy (su_backup s) \<and> su_differ s \<and> su_staging s
     \<and> su_sqlite s \<and> (if su_required s then su_smart s = Some True else True)"

definition storage_health_of :: "host \<Rightarrow> path \<Rightarrow> fsys \<Rightarrow> storage_health" where
  "storage_health_of h p fs =
     (if \<not> is_dir fs p then \<lparr>sh_path = p, sh_exists = False, sh_writable = False, sh_free = 0\<rparr>
      else (case ho_usage h p of (total_bytes, free_bytes) \<Rightarrow>
        \<lparr>sh_path = p, sh_exists = True, sh_writable = ho_writable h p,
         sh_free = (if total_bytes \<noteq> 0 then rat_of_int free_bytes / rat_of_int total_bytes * 100 else 0)\<rparr>))"

definition devices_of :: "host \<Rightarrow> path \<Rightarrow> path \<Rightarrow> fsys \<Rightarrow> exn + bool" where
  "devices_of h active backup fs =
     (if is_dir fs active \<and> is_dir fs backup then
        bind_sum (storage_identity_of fs (ho_device h) active None) (\<lambda>a.
        bind_sum (storage_identity_of fs (ho_device h) backup None) (\<lambda>b. Inr (storage_is_separate a b)))
      else Inr False)"

definition shares_of :: "host \<Rightarrow> path \<Rightarrow> path \<Rightarrow> fsys \<Rightarrow> exn + bool" where
  "shares_of h active staging fs =
     (if is_dir fs active \<and> is_dir fs staging then
        bind_sum (storage_identity_of fs (ho_device h) active None) (\<lambda>a.
        bind_sum (storage_identity_of fs (ho_device h) staging None) (\<lambda>s. Inr (device_id a = device_id s)))
      else Inr False)"

definition partials_of :: "path \<Rightarrow> fsys \<Rightarrow> path list" where
  "partials_of staging fs = (if is_dir fs staging then inspect_partial_files fs staging else [])"

definition smart_of :: "host \<Rightarrow> path option \<Rightarrow> fsys \<Rightarrow> exn + bool option" where
  "smart_of h smart_file fs = (case smart_file of None \<Rightarrow> Inr None
     | Some p \<Rightarrow> map_sum id Some (smart_report_healthy h p fs))"

text \<open>\<open>look f\<close> asks something of the disk.\<close>

definition look :: "(fsys \<Rightarrow> exn + 'a) \<Rightarrow> (world, 'a) py" where
  "look f = (\<lambda>w. (f (disk w), w))"

definition startup_checks :: "host \<Rightarrow> path \<Rightarrow> path \<Rightarrow> path \<Rightarrow> path option \<Rightarrow> bool \<Rightarrow> bool \<Rightarrow> (world, startup_health) py" where
  "startup_checks h active_root backup_root staging_root smart_file required recover =
     bind_py (look (\<lambda>fs. Inr (storage_health_of h active_root fs, storage_health_of h backup_root fs))) (\<lambda>(active, backup).
     bind_py (look (devices_of h active_root backup_root)) (\<lambda>differ.
     bind_py (look (shares_of h active_root staging_root)) (\<lambda>shares.
     bind_py (if recover then session_block (recover_expired None) else ret 0) (\<lambda>recovered.
     bind_py (look (\<lambda>fs. Inr (partials_of staging_root fs))) (\<lambda>partials.
     bind_py (look (smart_of h smart_file)) (\<lambda>smart.
     ret \<lparr>su_active = active, su_backup = backup, su_differ = differ, su_staging = shares, su_sqlite = ho_integrity h,
       su_recovered = recovered, su_partials = partials, su_smart = smart, su_required = required\<rparr>))))))"

section \<open>What a healthy start means\<close>

lemma parse_smart_nonempty: "parse_smart h s = Inr ds \<Longrightarrow> ds \<noteq> []"
  unfolding parse_smart_def
  by (auto simp: bind_sum_Inr split: option.split_asm json.split_asm if_split_asm)

lemma read_smart_nonempty: "read_smart_health h p fs = Inr ds \<Longrightarrow> ds \<noteq> []"
  unfolding read_smart_health_def bind_sum_Inr
  by (auto split: option.split_asm dest: parse_smart_nonempty)

definition on_device :: "host \<Rightarrow> fsys \<Rightarrow> path \<Rightarrow> nat \<Rightarrow> bool" where
  "on_device h fs p n \<longleftrightarrow> (\<exists>q. resolve_path fs True p = Inr q \<and> ho_device h q = n)"

text \<open>The disk does not change during the checks.\<close>

lemma recover_disk: "session_block (recover_expired None) w = (r, w') \<Longrightarrow> disk w' = disk w"
  by (auto simp: session_block_def recover_expired_def utcnow_def query_def on_db_def bind_py_def seq_def
      split: prod.splits sum.splits)

lemma look_Inr: "look f w = (Inr x, w') \<longleftrightarrow> f (disk w) = Inr x \<and> w' = w"
  by (auto simp: look_def)

lemma look_pure: "bind_py (look (\<lambda>fs. Inr (f fs))) g w = g (f (disk w)) w"
  by (simp add: look_def bind_py_def)

lemma startup_checks_Inr:
  assumes "startup_checks h a b st sf req recover w = (Inr s, w')"
  obtains "su_active s = storage_health_of h a (disk w)" "su_backup s = storage_health_of h b (disk w)"
    "devices_of h a b (disk w) = Inr (su_differ s)" "shares_of h a st (disk w) = Inr (su_staging s)"
    "su_sqlite s = ho_integrity h" "su_required s = req" "smart_of h sf (disk w) = Inr (su_smart s)"
    "(if recover then session_block (recover_expired None) else ret 0) w = (Inr (su_recovered s), w')" "disk w' = disk w"
proof -
  from assms obtain differ where d: "devices_of h a b (disk w) = Inr differ"
    and r1: "bind_py (look (shares_of h a st)) (\<lambda>shares.
     bind_py (if recover then session_block (recover_expired None) else ret 0) (\<lambda>recovered.
     bind_py (look (\<lambda>fs. Inr (partials_of st fs))) (\<lambda>partials.
     bind_py (look (smart_of h sf)) (\<lambda>smart.
     ret \<lparr>su_active = storage_health_of h a (disk w), su_backup = storage_health_of h b (disk w), su_differ = differ,
       su_staging = shares, su_sqlite = ho_integrity h,
       su_recovered = recovered, su_partials = partials, su_smart = smart, su_required = req\<rparr>)))) w = (Inr s, w')"
    unfolding startup_checks_def look_pure case_prod_conv by (elim bind_py_Inr_E) (simp add: look_Inr)
  from r1 obtain shares n w1 where sh: "shares_of h a st (disk w) = Inr shares"
    and rec: "(if recover then session_block (recover_expired None) else ret 0) w = (Inr n, w1)"
    and r2: "bind_py (look (\<lambda>fs. Inr (partials_of st fs))) (\<lambda>partials.
     bind_py (look (smart_of h sf)) (\<lambda>smart.
     ret \<lparr>su_active = storage_health_of h a (disk w), su_backup = storage_health_of h b (disk w), su_differ = differ,
       su_staging = shares, su_sqlite = ho_integrity h,
       su_recovered = n, su_partials = partials, su_smart = smart, su_required = req\<rparr>)) w1 = (Inr s, w')"
    by (elim bind_py_Inr_E) (simp add: look_Inr)
  from r2 obtain smart w2 where sm: "look (smart_of h sf) w1 = (Inr smart, w2)"
    "ret \<lparr>su_active = storage_health_of h a (disk w), su_backup = storage_health_of h b (disk w), su_differ = differ,
       su_staging = shares, su_sqlite = ho_integrity h,
       su_recovered = n, su_partials = partials_of st (disk w1), su_smart = smart, su_required = req\<rparr> w2 = (Inr s, w')"
    unfolding look_pure by (rule bind_py_Inr_E)
  have w: "w' = w1" "smart_of h sf (disk w1) = Inr smart" using sm by (simp_all add: look_Inr)
  have s: "s = \<lparr>su_active = storage_health_of h a (disk w), su_backup = storage_health_of h b (disk w), su_differ = differ,
       su_staging = shares, su_sqlite = ho_integrity h,
       su_recovered = n, su_partials = partials_of st (disk w1), su_smart = smart, su_required = req\<rparr>" using sm by simp
  have "disk w1 = disk w" using rec by (cases recover) (auto dest: recover_disk)
  then show thesis by (intro that) (use d sh rec w in \<open>simp_all add: s\<close>)
qed

text \<open>A start that is reported healthy is safe to work on: active and backup storage exist, are writable and
  have free space, lie on different devices, the staging area shares the device of the active storage,
  the database passes its integrity check, and where a report about the disks is required it was read,
  names at least one disk and every disk in it passed.\<close>

theorem healthy_start_is_safe:
  assumes run: "startup_checks h a b st sf req recover w = (Inr s, w')" and ok: "startup_healthy s"
  shows "is_dir (disk w) a \<and> is_dir (disk w) b \<and> ho_writable h a \<and> ho_writable h b \<and> ho_integrity h
    \<and> (\<forall>p \<in> {a, b}. 0 < rat_of_int (snd (ho_usage h p)) / rat_of_int (fst (ho_usage h p)))
    \<and> (\<exists>n m. on_device h (disk w) a n \<and> on_device h (disk w) st n \<and> on_device h (disk w) b m \<and> n \<noteq> m)
    \<and> (req \<longrightarrow> (\<exists>p ds. sf = Some p \<and> read_smart_health h p (disk w) = Inr ds \<and> ds \<noteq> [] \<and> list_all sd_passed ds))"
  using run
proof (rule startup_checks_Inr)
  assume act: "su_active s = storage_health_of h a (disk w)" and bak: "su_backup s = storage_health_of h b (disk w)"
    and dif: "devices_of h a b (disk w) = Inr (su_differ s)" and sta: "shares_of h a st (disk w) = Inr (su_staging s)"
    and sql: "su_sqlite s = ho_integrity h" and rq: "su_required s = req" and smart: "smart_of h sf (disk w) = Inr (su_smart s)"
  have storage: "is_dir (disk w) p \<and> ho_writable h p \<and> 0 < rat_of_int (snd (ho_usage h p)) / rat_of_int (fst (ho_usage h p))"
    if "storage_healthy (storage_health_of h p (disk w))" for p
    using that by (auto simp: storage_healthy_def storage_health_of_def zero_less_mult_iff zero_less_divide_iff split: if_splits prod.splits)
  from dif ok obtain qa qb where ab: "resolve_path (disk w) True a = Inr qa" "resolve_path (disk w) True b = Inr qb"
    "ho_device h qa \<noteq> ho_device h qb"
    by (auto simp: startup_healthy_def devices_of_def bind_sum_Inr storage_identity_of_def
        storage_is_separate_def truthy_str_def split: sum.split_asm if_split_asm)
  from sta ok obtain q1 q2 where as: "resolve_path (disk w) True a = Inr q1" "resolve_path (disk w) True st = Inr q2"
    "ho_device h q1 = ho_device h q2"
    by (auto simp: startup_healthy_def shares_of_def bind_sum_Inr storage_identity_of_def split: sum.split_asm if_split_asm)
  from ab as have dev: "\<exists>n m. on_device h (disk w) a n \<and> on_device h (disk w) st n \<and> on_device h (disk w) b m \<and> n \<noteq> m"
    unfolding on_device_def by auto
  have "\<exists>p ds. sf = Some p \<and> read_smart_health h p (disk w) = Inr ds \<and> ds \<noteq> [] \<and> list_all sd_passed ds" if "req"
  proof -
    from ok that rq have "su_smart s = Some True" by (simp add: startup_healthy_def)
    with smart obtain p where p: "sf = Some p" "smart_report_healthy h p (disk w) = Inr True"
      by (auto simp: smart_of_def map_sum_def split: option.split_asm sum.split_asm)
    then obtain ds where "read_smart_health h p (disk w) = Inr ds" "list_all sd_passed ds"
      by (auto simp: smart_report_healthy_def split: sum.split_asm if_split_asm)
    with p read_smart_nonempty show ?thesis by blast
  qed
  with dev storage [of a] storage [of b] ok sql act bak show ?thesis by (simp add: startup_healthy_def)
qed

definition example_host :: host where
  "example_host = \<lparr>ho_usage = (\<lambda>p. (100, 50)), ho_writable = (\<lambda>p. True),
     ho_device = (\<lambda>p. if p = [''backup''] then 2 else 1), ho_float_int = (\<lambda>t. Inr 0), ho_integrity = True\<rparr>"

definition health_world :: world where
  "health_world = \<lparr>disk = [([''active''], Dir), ([''backup''], Dir), ([''stage''], Dir)],
     live = empty_db, durable = empty_db, clock = int, ticks = 0, rand = (\<lambda>n. dec n), draws = 0\<rparr>"

theorem healthy_start_is_safe_witness:
  "\<exists>s w'. startup_checks example_host [''active''] [''backup''] [''stage''] None False True health_world = (Inr s, w')
     \<and> startup_healthy s \<and> is_dir (disk health_world) [''backup'']"
proof -
  let ?run = "startup_checks example_host [''active''] [''backup''] [''stage''] None False True health_world"
  have "case fst ?run of Inl e \<Rightarrow> False | Inr s \<Rightarrow> startup_healthy s" by code_simp
  then obtain s w' where run: "?run = (Inr s, w')" and ok: "startup_healthy s"
    by (cases ?run) (auto split: sum.splits)
  from healthy_start_is_safe [OF run ok] run ok show ?thesis by auto
qed

end
