(* ===== verification/Worker.thy ===== *)
theory Worker
  imports Hoare_Rules Runtime_Settings Recovery Health Provider_Uploads Workflow_Proofs
begin

text \<open>
  The worker process (\<open>worker/main.py\<close>): its start, the heartbeat of a job, one turn of its loop and the
  processing of a File Provider job. The workflow a job runs on, which \<open>build_local_workflow\<close> of the theory
  \<open>Factory\<close> builds on the disk of the host, and the text of an exception are parameters.
\<close>

record worker_config =
  wc_id :: string
  wc_fp :: fp_config
  wc_host :: host
  wc_backup_root :: path
  wc_smart_file :: "path option"
  wc_require_smart :: bool
  wc_per_adapter :: nat
  wc_concurrency :: nat
  wc_workflow :: "source_policy \<Rightarrow> (fsys, workflow) py"
  wc_show :: "exn \<Rightarrow> string"

definition lease_secs :: int where "lease_secs = 120"

section \<open>Heartbeats\<close>

text \<open>One turn of \<open>_heartbeat\<close>: whether it goes on.\<close>

definition beat :: "worker_config \<Rightarrow> nat \<Rightarrow> (world, bool) py" where
  "beat c j = try_py
     (session_block (bind_py (query (\<lambda>d. tbl_get jb_id j (jobs d))) (\<lambda>found.
        case found of None \<Rightarrow> ret False
        | Some x \<Rightarrow> if lease_owner x \<noteq> Some (wc_id c) then ret False
            else seq (heartbeat j (wc_id c) lease_secs) (ret True))))
     (\<lambda>e. Some (ret True))"

section \<open>Processing a job\<close>

definition upload_policy :: source_policy where
  "upload_policy = default_policy\<lparr>archive_after_days := 0, stability_window_hours := 0, quarantine_days := 7,
     dry_run := False, manual_approval := False, deletion_enabled := False\<rparr>"

text \<open>\<open>int(payload.get(key, 0))\<close> and \<open>str(payload.get(key, ""))\<close>.\<close>

definition payload_get :: "pyval \<Rightarrow> string \<Rightarrow> pyval option" where
  "payload_get p k = (case p of PDict kvs \<Rightarrow> map_of (rev kvs) k | _ \<Rightarrow> None)"

definition payload_int :: "pyval \<Rightarrow> string \<Rightarrow> exn + int" where
  "payload_int p k = (case payload_get p k of None \<Rightarrow> Inr 0 | Some (PInt n) \<Rightarrow> Inr n
     | Some (PBool b) \<Rightarrow> Inr (if b then 1 else 0) | Some (PStr s) \<Rightarrow> py_int s | Some _ \<Rightarrow> Inl TypeError)"

definition payload_str :: "pyval \<Rightarrow> string \<Rightarrow> exn + string" where
  "payload_str p k = (case payload_get p k of None \<Rightarrow> Inr [] | Some (PStr s) \<Rightarrow> Inr s | Some (PInt n) \<Rightarrow> Inr (py_str_int n)
     | Some PNone \<Rightarrow> Inr ''None'' | Some (PBool b) \<Rightarrow> Inr (if b then ''True'' else ''False'')
     | Some _ \<Rightarrow> Inl (OtherError ''str''))"

definition run_job :: "worker_config \<Rightarrow> nat \<Rightarrow> int \<Rightarrow> string \<Rightarrow> (world, unit) py" where
  "run_job c j i provider_item =
     bind_py (on_disk (wc_workflow c upload_policy)) (\<lambda>wk.
     session_block (
       bind_py (query (\<lambda>d. if i < 0 then None else tbl_get ai_id (nat i) (items d))) (\<lambda>found.
       case found of None \<Rightarrow> raise_py (RuntimeError ''queued File Provider archive item is missing'')
       | Some x \<Rightarrow>
         seq (archive wk (ai_id x)) (
         seq (promote_upload (ai_id x) provider_item) (
         bind_py (project_verified_archives (wc_fp c)) (\<lambda>_.
         bind_py (query (\<lambda>d. tbl_get jb_id j (jobs d))) (\<lambda>active.
         case active of None \<Rightarrow> raise_py (RuntimeError ''queued File Provider job is missing'')
         | Some _ \<Rightarrow> bind_py (succeed j (wc_id c)) (\<lambda>_. ret ()))))))))"

definition job_failed :: "worker_config \<Rightarrow> nat \<Rightarrow> string \<Rightarrow> exn \<Rightarrow> (world, unit) py" where
  "job_failed c j provider_item e = session_block (
     bind_py (query (\<lambda>d. tbl_get jb_id j (jobs d))) (\<lambda>active.
     case active of None \<Rightarrow> ret ()
     | Some _ \<Rightarrow>
       bind_py (fail_job j (wc_id c) (wc_show c e) 5) (\<lambda>_.
       bind_py (load_job j) (\<lambda>x.
       when_py (attempts x \<ge> max_attempts x) (mark_upload_failed provider_item (''archive_failed:job-'' @ dec j))))))"

definition process_file_provider_job :: "worker_config \<Rightarrow> (world, bool) py" where
  "process_file_provider_job c =
     bind_py (session_block (lease (wc_id c) ''file_provider'' lease_secs (wc_per_adapter c) (wc_concurrency c))) (\<lambda>leased.
     case leased of None \<Rightarrow> ret False
     | Some x \<Rightarrow>
       bind_py (lift_sum (payload_int (payload x) ''archive_item_id'')) (\<lambda>i.
       bind_py (lift_sum (payload_str (payload x) ''file_provider_item_id'')) (\<lambda>p.
       seq (try_py (run_job c (jb_id x) i p) (\<lambda>e. Some (job_failed c (jb_id x) p e)))
       (ret True))))"

section \<open>The process\<close>

definition pause_deletion :: "(world, unit) py" where
  "pause_deletion = session_block (
     for_each (\<lambda>(k, v). set_setting k v) [(''global_deletion_enabled'', ''false''), (''safety_lock'', ''true'')])"

definition worker_start :: "worker_config \<Rightarrow> (world, unit) py" where
  "worker_start c =
     (let fp = wc_fp c in
      bind_py (startup_checks (wc_host c) (fp_active_root fp) (wc_backup_root c) (fp_staging_root fp) (wc_smart_file c)
        (wc_require_smart c) True) (\<lambda>health.
      seq (if startup_healthy health then ret ()
        else seq pause_deletion (raise_py (RuntimeError ''startup safety checks failed; deletion remains paused''))) (
      bind_py (reconcile_interrupted_items False) (\<lambda>_.
      bind_py (reconcile_sealing_uploads fp) (\<lambda>_.
      bind_py (reap_expired_uploads fp) (\<lambda>_. ret ()))))))"

text \<open>One turn of the loop; whether there may be more work at once.\<close>

definition worker_turn :: "worker_config \<Rightarrow> (world, bool) py" where
  "worker_turn c = bind_py (session_block (recover_expired None)) (\<lambda>_. process_file_provider_job c)"

text \<open>The loop runs until a signal sets the stop event: here for \<open>n\<close> turns.\<close>

fun worker_loop :: "worker_config \<Rightarrow> nat \<Rightarrow> (world, unit) py" where
  "worker_loop c 0 = ret ()"
| "worker_loop c (Suc n) = bind_py (worker_turn c) (\<lambda>_. worker_loop c n)"

definition run_worker :: "worker_config \<Rightarrow> nat \<Rightarrow> (world, unit) py" where
  "run_worker c n = seq (worker_start c) (worker_loop c n)"

section \<open>Invariants of a table in session and database\<close>

definition both :: "(db \<Rightarrow> bool) \<Rightarrow> world \<Rightarrow> bool" where
  "both T w \<longleftrightarrow> T (live w) \<and> T (durable w)"

named_theorems both_rules \<open>what keeps a property of session and database\<close>

lemma both_on_db: "(\<And>d. T d \<Longrightarrow> T (f d)) \<Longrightarrow> keeps (both T) (on_db f)"
  by (simp add: keeps_def both_def on_db_def)

lemma both_basic [both_rules]:
  "keeps (both T) (on_disk m)" "keeps (both T) utcnow" "keeps (both T) fresh_token" "keeps (both T) (query f)"
  "keeps (both T) commit"
  by (auto simp: keeps_def both_def on_disk_def utcnow_def fresh_token_def query_def commit_def split: prod.split)

lemma both_session [both_rules]: "keeps (both T) m \<Longrightarrow> keeps (both T) (session_block m)"
proof (rule keepsI)
  fix w assume m: "keeps (both T) m" and w: "both T w"
  then have "both T (w\<lparr>live := durable w\<rparr>)" by (simp add: both_def)
  from keepsD [OF m this] show "both T (snd (session_block m w))"
    by (auto simp: session_block_def both_def split: prod.split sum.split)
qed

lemma both_load [both_rules]: "keeps (both T) (load_item i)" "keeps (both T) (load_job i)" "keeps (both T) (get_fp x)"
  unfolding load_item_def load_job_def get_fp_def
  by (auto intro!: keeps_bind keeps_ret keeps_raise both_rules split: option.split)

text \<open>Tables the archive workflow does not write: all but the items and the audit log.\<close>

definition off_items :: "(db \<Rightarrow> bool) \<Rightarrow> bool" where
  "off_items T \<longleftrightarrow> (\<forall>d f. T (items_update f d) = T d) \<and> (\<forall>d f. T (audits_update f d) = T d)"

lemma off_items_rules:
  assumes "off_items T"
  shows "keeps (both T) (upd_item i f)" "keeps (both T) (add_audit a k o' n who det)"
    "keeps (both T) (transition_item i t who ds)"
proof -
  show u: "keeps (both T) (upd_item i f)" for i f
    unfolding upd_item_def by (rule both_on_db) (use assms in \<open>simp add: off_items_def\<close>)
  show a: "keeps (both T) (add_audit a k o' n who det)" for a k o' n who det
    unfolding add_audit_def by (rule both_on_db) (use assms in \<open>simp add: off_items_def\<close>)
  show "keeps (both T) (transition_item i t who ds)"
    unfolding transition_item_def by (intro keeps_bind keeps_seq keeps_lift_sum both_rules u a)
qed

lemma both_archive:
  assumes "off_items T" shows "keeps (both T) (archive wk i)"
proof -
  note steps = off_items_rules [OF assms] both_rules hoare_rules
  have adv: "keeps (both T) (advance i f t d)" for i f t d
    unfolding advance_def by (intro steps)
  have here: "keeps (both T) (at_state i s m)" if "\<And>r. keeps (both T) (m r)" for i s m
    unfolding at_state_def using that by (intro steps)
  have part: "keeps (both T) (staged_partial wk i)" for i
    unfolding staged_partial_def by (intro steps)
  have q: "keeps (both T) (stage_queue i)" unfolding stage_queue_def by (intro here steps)
  have dis: "keeps (both T) (discard_staged wk it p)" for it p
    unfolding discard_staged_def by (intro steps) (auto split: if_splits intro: keeps_raise)
  have down: "keeps (both T) (stage_download wk i)"
    unfolding stage_download_def
    by (intro steps part dis) (auto split: if_splits option.splits intro!: steps adv)
  have adopt: "keeps (both T) (adopt_active wk it p)" for it p
    unfolding adopt_active_def by (intro steps)
  have "keeps (both T) m" if "m \<in> set (archive_rest wk i p)" for m p
    using that unfolding archive_rest_def stage_staged_def stage_commit_def stage_backup_def stage_upload_def
      stage_cold_verify_def stage_cold_archive_def stage_quarantine_def pass_on_def
    by (auto intro!: here steps adv adopt split: option.split)
  then show ?thesis
    unfolding archive_def by (intro steps q down part) auto
qed

text \<open>And tables publishing does not write: all but those of the provider and the settings.\<close>

definition off_provider :: "(db \<Rightarrow> bool) \<Rightarrow> bool" where
  "off_provider T \<longleftrightarrow> (\<forall>d f. T (fp_items_update f d) = T d) \<and> (\<forall>d f. T (fp_changes_update f d) = T d)
     \<and> (\<forall>d f. T (settings_update f d) = T d)"

lemma both_publish:
  assumes "off_provider T"
  shows "keeps (both T) (promote_upload a i)" "keeps (both T) (mark_upload_failed i why)"
    "keeps (both T) (project_verified_archives cfg)"
proof -
  have off: "T (fp_items_update f d) = T d" "T (fp_changes_update g d) = T d" "T (settings_update h d) = T d" for f g h d
    using assms by (simp_all add: off_provider_def)
  have w: "keeps (both T) (write_items f)" for f
    unfolding write_items_def by (intro keeps_bind keeps_seq keeps_require both_rules both_on_db) (simp add: off)
  have rc: "keeps (both T) (record_change i op)" for i op
    unfolding record_change_def
    by (intro keeps_bind keeps_seq keeps_ret both_rules both_on_db)
      (auto simp: off split: option.split intro!: keeps_bind keeps_ret both_rules both_on_db)
  have up: "keeps (both T) (upsert i)" for i unfolding upsert_def by (intro keeps_bind keeps_ret rc)
  have uc: "keeps (both T) (unique_child_name p n i)" for p n i
    unfolding unique_child_name_def by (auto intro!: keeps_bind keeps_ret keeps_raise both_rules split: option.split)
  have af: "keeps (both T) (add_folder i p n)" for i p n
    unfolding add_folder_def by (intro keeps_bind keeps_seq both_rules w up)
  have gs: "keeps (both T) (get_setting k)" for k
    unfolding get_setting_def
    by (auto simp: off intro!: keeps_bind keeps_seq keeps_ret both_rules both_on_db split: option.split)
  have bs: "keeps (both T) bootstrap_roots"
    unfolding bootstrap_roots_def
    by (auto intro!: keeps_seq keeps_bind keeps_ret keeps_for_each both_rules af gs split: option.split)
  have ic: "keeps (both T) (icloud_folders cfg pr walked par cs)" for pr walked par cs
    by (induction cs arbitrary: walked par)
      (auto simp: Let_def intro!: keeps_bind keeps_seq keeps_ret both_rules uc af split: option.split)
  have pl: "keeps (both T) (project_place cfg arc o' i)" for arc o' i
    unfolding project_place_def Let_def by (auto intro!: keeps_bind keeps_ret ic uc split: option.split)
  have pa: "keeps (both T) (project_archive cfg arc)" for arc
    unfolding project_archive_def Let_def
    by (auto intro!: keeps_bind keeps_seq keeps_ret keeps_lift_sum both_rules w up pl split: option.split)
  show "keeps (both T) (project_verified_archives cfg)"
    unfolding project_verified_archives_def by (intro keeps_seq keeps_bind keeps_ret keeps_map_py both_rules bs pa)
  show "keeps (both T) (promote_upload a i)"
    unfolding promote_upload_def Let_def
    by (auto intro!: keeps_bind keeps_seq keeps_ret both_rules w up uc split: option.split)
  show "keeps (both T) (mark_upload_failed i why)"
    unfolding mark_upload_failed_def
    by (auto intro!: keeps_bind keeps_seq keeps_ret both_rules w up split: option.split)
qed


section \<open>What a turn does to the queue\<close>

lemma hoare_session:
  assumes m: "hoare (both T) m (\<lambda>x w. T' (live w)) (\<lambda>_. both T)"
  shows "hoare (\<lambda>w. T (durable w)) (session_block m) (\<lambda>x w. T' (durable w)) (\<lambda>_ w. T (durable w))"
proof -
  show ?thesis
    unfolding hoare_def
  proof (intro allI impI)
    fix w :: world assume "T (durable w)"
    then have "both T (w\<lparr>live := durable w\<rparr>)" by (simp add: both_def)
    note m [unfolded hoare_def, THEN spec, THEN mp, OF this]
    moreover obtain r v where run: "m (w\<lparr>live := durable w\<rparr>) = (r, v)" by fastforce
    ultimately have r: "case r of Inl e \<Rightarrow> both T v | Inr x \<Rightarrow> T' (live v)" by simp
    show "case session_block m w of (Inl e, w') \<Rightarrow> T (durable w') | (Inr x, w') \<Rightarrow> T' (durable w')"
    proof (cases r)
      case (Inl e)
      with run have "session_block m w = (Inl e, v\<lparr>live := durable v\<rparr>)" by (simp add: session_block_def)
      with r Inl show ?thesis by (simp add: both_def)
    next
      case (Inr x)
      with run have "session_block m w = (Inr x, v\<lparr>durable := live v\<rparr>)" by (simp add: session_block_def)
      with r Inr show ?thesis by simp
    qed
  qed
qed

lemma only_row:
  "distinct (map jb_id L) \<Longrightarrow> tbl_get jb_id j L = Some x \<Longrightarrow> tbl_upd jb_id j f L = tbl_upd jb_id j (\<lambda>_. f x) L"
  unfolding tbl_upd_def by (rule map_cong [OF refl]) (auto dest: tbl_get_in)

definition succeeded :: "job \<Rightarrow> job" where
  "succeeded x = x\<lparr>jb_status := JSucceeded, lease_owner := None, lease_expires_at := None\<rparr>"

lemma succeed_run:
  assumes "jobs (live w) = L" "tbl_get jb_id j L = Some x" "owns x worker" "distinct (map jb_id L)"
  shows "\<exists>w'. succeed j worker w = (Inr True, w') \<and> jobs (live w') = tbl_upd jb_id j (\<lambda>_. succeeded x) L"
proof -
  let ?F = "\<lambda>y::job. y\<lparr>jb_status := JSucceeded, lease_owner := None, lease_expires_at := None\<rparr>"
  have "\<exists>w'. succeed j worker w = (Inr True, w') \<and> jobs (live w') = tbl_upd jb_id j ?F L"
    using assms(1-3)
    by (simp add: succeed_def load_job_def query_def upd_job_def on_db_def bind_py_def seq_def)
  then show ?thesis using only_row [OF assms(4,2), of ?F] by (simp add: succeeded_def)
qed

lemma off_jobs: "off_items (\<lambda>d. jobs d = L)" "off_provider (\<lambda>d. jobs d = L)"
  by (simp_all add: off_items_def off_provider_def)

lemma run_job_outcome:
  assumes "tbl_get jb_id j L = Some x" "owns x (wc_id c)" "distinct (map jb_id L)"
  shows "hoare (\<lambda>w. jobs (durable w) = L) (run_job c j i p)
    (\<lambda>_ w. jobs (durable w) = tbl_upd jb_id j (\<lambda>_. succeeded x) L) (\<lambda>_ w. jobs (durable w) = L)"
proof -
  let ?T = "\<lambda>d. jobs d = L" and ?T' = "\<lambda>d. jobs d = tbl_upd jb_id j (\<lambda>_. succeeded x) L"
  have last: "hoare (both ?T) (bind_py (succeed j (wc_id c)) (\<lambda>_. ret ())) (\<lambda>_ w. ?T' (live w)) (\<lambda>_. both ?T)"
    unfolding hoare_def
  proof (intro allI impI)
    fix w assume "both ?T w"
    then have "jobs (live w) = L" by (simp add: both_def)
    from succeed_run [OF this assms] obtain w' where "succeed j (wc_id c) w = (Inr True, w')" "?T' (live w')" by blast
    then show "case bind_py (succeed j (wc_id c)) (\<lambda>_. ret ()) w of (Inl e, w') \<Rightarrow> both ?T w' | (Inr x, w') \<Rightarrow> ?T' (live w')"
      by simp
  qed
  have raise: "hoare (both ?T) (raise_py e) (\<lambda>_ w. ?T' (live w)) (\<lambda>_. both ?T)" for e :: exn
    by (simp add: hoare_def)
  note k = both_rules both_archive [OF off_jobs(1)] both_publish [OF off_jobs(2)]
  have body: "hoare (both ?T) (
       bind_py (query (\<lambda>d. if i < 0 then None else tbl_get ai_id (nat i) (items d))) (\<lambda>found.
       case found of None \<Rightarrow> raise_py (RuntimeError ''queued File Provider archive item is missing'')
       | Some x \<Rightarrow>
         seq (archive wk (ai_id x)) (
         seq (promote_upload (ai_id x) p) (
         bind_py (project_verified_archives (wc_fp c)) (\<lambda>_.
         bind_py (query (\<lambda>d. tbl_get jb_id j (jobs d))) (\<lambda>active.
         case active of None \<Rightarrow> raise_py (RuntimeError ''queued File Provider job is missing'')
         | Some _ \<Rightarrow> bind_py (succeed j (wc_id c)) (\<lambda>_. ret ()))))))) (\<lambda>_ w. ?T' (live w)) (\<lambda>_. both ?T)" for wk
    by (intro hoare_keeps_bind k) (auto split: option.split intro!: raise hoare_keeps_seq hoare_keeps_bind k last)
  show ?thesis
    unfolding run_job_def
    by (rule hoare_bind [where R = "\<lambda>_ w. ?T (durable w)"])
      (simp add: hoare_def on_disk_def split: prod.split sum.split, rule hoare_session [OF body])
qed


lemma mark_frame:
  assumes "mark_upload_failed i why w = (r, w')" shows "jobs (live w') = jobs (live w)" "durable w' = durable w"
  using assms
  by (auto simp: mark_upload_failed_def get_fp_def write_items_def upsert_def record_change_def query_def on_db_def
      utcnow_def bind_py_def seq_def require_def raise_py_def split: option.splits if_splits prod.splits sum.splits)

lemma job_failed_outcome:
  assumes "tbl_get jb_id j L = Some x" "owns x (wc_id c)" "distinct (map jb_id L)"
  shows "hoare (\<lambda>w. jobs (durable w) = L) (job_failed c j p e)
    (\<lambda>_ w. \<exists>now. jobs (durable w) = tbl_upd jb_id j (\<lambda>_. failed_job (redact_str (wc_show c e)) now 5 x) L)
    (\<lambda>_ w. jobs (durable w) = L)"
  unfolding hoare_def
proof (intro allI impI)
  fix w :: world assume w: "jobs (durable w) = L"
  let ?w = "w\<lparr>live := durable w\<rparr>" and ?msg = "wc_show c e"
  have "tbl_get jb_id j (jobs (live ?w)) = Some x" "distinct (map jb_id (jobs (live ?w)))" using assms w by simp_all
  from fail_job_owner [OF this(1) assms(2) this(2), of ?msg 5] obtain w1 now where f:
    "fail_job j (wc_id c) ?msg 5 ?w = (Inr True, w1)" "durable w1 = durable w"
    "jobs (live w1) = tbl_upd jb_id j (\<lambda>_. failed_job (redact_str ?msg) now 5 x) L" using w by auto
  let ?mark = "bind_py (load_job j) (\<lambda>x. when_py (attempts x \<ge> max_attempts x) (mark_upload_failed p (''archive_failed:job-'' @ dec j)))"
  obtain r w2 where m: "?mark w1 = (r, w2)" by (cases "?mark w1")
  then have fr: "jobs (live w2) = jobs (live w1)" "durable w2 = durable w1"
    by (auto simp: load_job_def query_def bind_py_def when_py_def split: option.splits if_splits dest: mark_frame)
  have "job_failed c j p e w = (case r of Inl e \<Rightarrow> (Inl e, w2\<lparr>live := durable w2\<rparr>) | Inr u \<Rightarrow> (Inr u, w2\<lparr>durable := live w2\<rparr>))"
    using assms(1) w f(1) m
    by (simp add: job_failed_def session_block_def bind_py_def query_def split: sum.split prod.split)
  with f fr w show "case job_failed c j p e w of (Inl e, w') \<Rightarrow> jobs (durable w') = L
      | (Inr u, w') \<Rightarrow> \<exists>now. jobs (durable w') = tbl_upd jb_id j (\<lambda>_. failed_job (redact_str ?msg) now 5 x) L"
    by (auto split: sum.split)
qed

text \<open>A lease never fails, and it changes no job when it finds none.\<close>

lemma lease_outcome:
  assumes ids: "distinct (map jb_id (jobs (live w)))"
  shows "\<exists>r w'. lease worker adapter secs alimit glimit w = (Inr r, w') \<and> (r = None \<longrightarrow> jobs (live w') = jobs (live w))"
proof -
  let ?now = "clock w (ticks w)" and ?js = "jobs (live w)"
  have one: "length (filter (\<lambda>j. jb_id j = jb_id c \<and> waiting j) ?js) = 1" "tbl_get jb_id (jb_id c) ?js = Some c"
    if "soonest (filter (ready_for adapter ?now) ?js) = Some c" for c
  proof -
    from soonest_Some [OF that] have c: "c \<in> set ?js" "waiting c" by (auto simp: ready_for_def)
    with ids show "tbl_get jb_id (jb_id c) ?js = Some c" by (simp add: tbl_get_in)
    have "filter (\<lambda>j. jb_id j = jb_id c \<and> waiting j) ?js = filter (\<lambda>j. j = c) ?js"
      by (rule filter_cong [OF refl]) (use ids c in \<open>auto simp: distinct_map dest: inj_onD\<close>)
    moreover have "length (filter (\<lambda>j. j = c) ?js) = 1"
    proof -
      have "{j. j = c} \<inter> set ?js = {c}" using c(1) by auto
      with ids show ?thesis by (simp add: distinct_map distinct_length_filter)
    qed
    ultimately show "length (filter (\<lambda>j. jb_id j = jb_id c \<and> waiting j) ?js) = 1" by simp
  qed
  have get: "tbl_get jb_id i (map (\<lambda>j. if jb_id j = i \<and> waiting j then claim worker now secs j else j) t) \<noteq> None"
    if "tbl_get jb_id i t = Some c" for i c now and t :: "job list"
    using that by (induction t) auto
  show ?thesis
  proof (cases "soonest (filter (ready_for adapter ?now) ?js)")
    case None
    then show ?thesis by (simp add: lease_def utcnow_def query_def bind_py_def)
  next
    case (Some c)
    show ?thesis
      using Some one [OF Some] get [OF one(2) [OF Some], of "Aware ?now"]
      by (auto simp: lease_def utcnow_def query_def on_db_def load_job_def bind_py_def seq_def split: option.split)
  qed
qed


lemma failed_owner: "lease_owner (failed_job m now b x) = None"
  by (simp add: failed_job_def)



section \<open>The start and the invariants\<close>

lemma pause_deletion_run:
  "\<exists>w'. pause_deletion w = (Inr (), w') \<and> disk w' = disk w \<and> items (durable w') = items (durable w)
    \<and> tbl_get rs_key ''global_deletion_enabled'' (Models.settings (durable w')) = Some \<lparr>rs_key = ''global_deletion_enabled'', rs_value = ''false''\<rparr>
    \<and> tbl_get rs_key ''safety_lock'' (Models.settings (durable w')) = Some \<lparr>rs_key = ''safety_lock'', rs_value = ''true''\<rparr>"
proof -
  let ?w = "w\<lparr>live := durable w\<rparr>"
  obtain w1 where a: "set_setting ''global_deletion_enabled'' ''false'' ?w = (Inr (), w1)"
    "tbl_get rs_key ''global_deletion_enabled'' (Models.settings (live w1)) = Some \<lparr>rs_key = ''global_deletion_enabled'', rs_value = ''false''\<rparr>"
    "items (live w1) = items (durable w)" "disk w1 = disk w"
    using set_setting_run [of "''global_deletion_enabled''" "''false''" ?w] by (elim exE conjE) (rule that, assumption+, simp_all)
  have ne: "''global_deletion_enabled'' \<noteq> ''safety_lock''" by simp
  obtain w2 where b: "set_setting ''safety_lock'' ''true'' w1 = (Inr (), w2)"
    "tbl_get rs_key ''safety_lock'' (Models.settings (live w2)) = Some \<lparr>rs_key = ''safety_lock'', rs_value = ''true''\<rparr>"
    "tbl_get rs_key ''global_deletion_enabled'' (Models.settings (live w2)) = tbl_get rs_key ''global_deletion_enabled'' (Models.settings (live w1))"
    "items (live w2) = items (live w1)" "disk w2 = disk w1"
    using set_setting_run [of "''safety_lock''" "''true''" w1] ne by (elim exE conjE) (rule that, assumption+, simp_all)
  have "pause_deletion w = (Inr (), w2\<lparr>durable := live w2\<rparr>)"
    by (simp add: pause_deletion_def session_block_def seq_def bind_py_def a(1) b(1))
  then show ?thesis using a b by simp
qed

lemma recover_items: "session_block (recover_expired None) w = (r, w') \<Longrightarrow> items (durable w') = items (durable w)"
  by (auto simp: session_block_def recover_expired_def utcnow_def query_def on_db_def bind_py_def seq_def
      split: prod.splits sum.splits)


lemma tree_both: "tree = both tree_ok"
  by (rule ext) (simp add: tree_def both_def)

lemma off_tree: "off_items tree_ok"
  by (simp add: off_items_def tree_ok_def logged_def)

lemma worker_steps_tree:
  "keeps tree (load_job i)" "keeps tree (archive wk i)" "keeps tree (recover_expired t)" "keeps tree (lease a b l m n)"
  "keeps tree (succeed j o')" "keeps tree (fail_job j o' err base)" "keeps tree (heartbeat j o' l)"
  "keeps tree (reconcile_item r)" "keeps tree (set_setting k v)"
proof -
  have lj: "keeps tree (load_job i)" "keeps tree (upd_job i f)" for i f
    unfolding load_job_def upd_job_def
    by (auto intro!: keeps_bind keeps_ret keeps_raise tree_rules tree_on_db split: option.split)
  show "keeps tree (load_job i)" by (rule lj)
  show "keeps tree (archive wk i)" unfolding tree_both by (rule both_archive [OF off_tree])
  show "keeps tree (reconcile_item r)"
    unfolding tree_both reconcile_item_def by (auto intro!: keeps_bind keeps_seq keeps_ret both_rules off_items_rules [OF off_tree])
  show "keeps tree (recover_expired t)" "keeps tree (succeed j o')" "keeps tree (fail_job j o' err base)" "keeps tree (heartbeat j o' l)"
      "keeps tree (set_setting k v)"
    unfolding recover_expired_def succeed_def fail_job_def heartbeat_def set_setting_def Let_def
    by (auto intro!: keeps_bind keeps_seq keeps_ret keeps_raise keeps_require tree_rules tree_on_db lj split: option.split)
  show "keeps tree (lease a b l m n)"
    unfolding lease_def
    by (auto intro!: keeps_bind keeps_seq keeps_ret tree_rules tree_on_db lj split: option.split)
qed


lemma worker_steps_evidence:
  "keeps evidenced (load_job i)" "keeps evidenced (recover_expired t)" "keeps evidenced (lease a b l m n)" "keeps evidenced (succeed j o')"
  "keeps evidenced (fail_job j o' err base)" "keeps evidenced (heartbeat j o' l)" "keeps evidenced (reconcile_item r)"
  "keeps evidenced (set_setting k v)"
proof -
  have lj: "keeps evidenced (load_job i)" "keeps evidenced (upd_job i f)" for i f
    unfolding load_job_def upd_job_def
    by (auto intro!: keeps_bind keeps_ret keeps_raise evidence_rules keeps_on_db split: option.split)
  show "keeps evidenced (load_job i)" by (rule lj)
  have recovered: "MANUAL_REVIEW \<notin> set gaining" "FAILED_RETRYABLE \<notin> set gaining" by (simp_all add: gaining_def)
  show "keeps evidenced (reconcile_item r)"
    unfolding reconcile_item_def
    by (auto intro!: keeps_bind keeps_seq keeps_ret evidence_rules keeps_transition recovered)
  show "keeps evidenced (recover_expired t)" "keeps evidenced (succeed j o')" "keeps evidenced (fail_job j o' err base)"
      "keeps evidenced (heartbeat j o' l)" "keeps evidenced (set_setting k v)"
    unfolding recover_expired_def succeed_def fail_job_def heartbeat_def set_setting_def Let_def
    by (auto intro!: keeps_bind keeps_seq keeps_ret keeps_raise keeps_require evidence_rules keeps_on_db lj split: option.split)
  show "keeps evidenced (lease a b l m n)"
    unfolding lease_def
    by (auto intro!: keeps_bind keeps_seq keeps_ret evidence_rules keeps_on_db lj split: option.split)
qed

lemma keeps_look: "keeps P (look f)"
  by (simp add: keeps_def look_def)

text \<open>What every step of the worker keeps, every step of its loop keeps.\<close>

lemma keeps_run_worker:
  assumes session: "\<And>m :: (world, nat) py. keeps P m \<Longrightarrow> keeps P (session_block m)"
      "\<And>m :: (world, bool) py. keeps P m \<Longrightarrow> keeps P (session_block m)"
      "\<And>m :: (world, unit) py. keeps P m \<Longrightarrow> keeps P (session_block m)"
      "\<And>m :: (world, job option) py. keeps P m \<Longrightarrow> keeps P (session_block m)"
    and basic: "\<And>f :: db \<Rightarrow> archive_item list. keeps P (query f)" "\<And>f :: db \<Rightarrow> archive_item option. keeps P (query f)"
      "\<And>f :: db \<Rightarrow> job option. keeps P (query f)" "\<And>j. keeps P (load_job j)"
      "\<And>m :: (fsys, workflow) py. keeps P (on_disk m)"
    and steps: "\<And>t. keeps P (recover_expired t)" "\<And>a b l m n. keeps P (lease a b l m n)" "\<And>j o'. keeps P (succeed j o')"
      "\<And>j o' e b. keeps P (fail_job j o' e b)" "\<And>r. keeps P (reconcile_item r)" "\<And>k v. keeps P (set_setting k v)"
      "\<And>wk i. keeps P (archive wk i)" "\<And>a i. keeps P (promote_upload a i)" "\<And>i y. keeps P (mark_upload_failed i y)"
      "\<And>cfg. keeps P (project_verified_archives cfg)" "\<And>cfg. keeps P (reconcile_sealing_uploads cfg)"
      "\<And>cfg. keeps P (reap_expired_uploads cfg)"
  shows "keeps P (run_worker c n)"
proof -
  have pair: "keeps P (Pair (Inr ()))" by (simp add: keeps_def)
  note ks = pair keeps_bind keeps_seq keeps_ret keeps_raise keeps_lift_sum keeps_when keeps_for_each keeps_map_py basic steps session
  have "keeps P (startup_checks h a b st sf req recover)" for h a b st sf req recover
    unfolding startup_checks_def case_prod_beta by (intro keeps_if ks keeps_look)
  moreover have "keeps P pause_deletion" unfolding pause_deletion_def by (intro ks) (auto intro: ks)
  ultimately have start: "keeps P (worker_start c)"
    unfolding worker_start_def Let_def reconcile_interrupted_items_def
    by (intro ks keeps_if) auto
  have run: "keeps P (run_job c j i p)" and fail: "keeps P (job_failed c j p e)" for j i p e
    unfolding run_job_def job_failed_def by (auto intro!: ks split: option.split)
  have "keeps P (process_file_provider_job c)"
    unfolding process_file_provider_job_def by (auto intro!: ks keeps_try run fail split: option.split)
  then have turn: "keeps P (worker_turn c)" unfolding worker_turn_def by (intro ks)
  have "keeps P (worker_loop c n)" by (induction n) (auto intro!: ks turn)
  with start show ?thesis unfolding run_worker_def by (rule keeps_seq)
qed

lemma keeps_cleaning:
  "keeps tree (reconcile_sealing_uploads cfg)" "keeps tree (reap_expired_uploads cfg)"
  "keeps evidenced (project_verified_archives cfg)" "keeps evidenced (reconcile_sealing_uploads cfg)"
  "keeps evidenced (reap_expired_uploads cfg)"
  unfolding project_verified_archives_def reconcile_sealing_uploads_def reap_expired_uploads_def
  by (auto intro!: tree_steps tree_session tree_reconcile_sealing tree_reap evidence_steps evidenced_reconcile evidenced_reap)

text \<open>C21: A run of the worker, however many turns it takes and whether or not it fails, keeps the tree of the
  provider consistent and every archive item backed by the evidence its state promises, in the session and
  in what is committed.\<close>

theorem worker_keeps_invariants:
  "keeps tree (run_worker c n) \<and> keeps evidenced (run_worker c n)"
proof
  show "keeps tree (run_worker c n)"
    by (rule keeps_run_worker)
      (auto intro!: worker_steps_tree tree_rules tree_promote_upload tree_mark_upload_failed tree_project
        keeps_cleaning)
  show "keeps evidenced (run_worker c n)"
    by (rule keeps_run_worker)
      (auto intro!: worker_steps_evidence evidence_rules keeps_archive keeps_cleaning)
qed


section \<open>Witnesses\<close>

definition example_worker :: worker_config where
  "example_worker = \<lparr>wc_id = ''w1'', wc_fp = example_fp, wc_host = example_host, wc_backup_root = [''backup''],
     wc_smart_file = None, wc_require_smart = False, wc_per_adapter = 1, wc_concurrency = 1,
     wc_workflow = (\<lambda>_. raise_py (RuntimeError ''rclone is missing'')), wc_show = (\<lambda>_. ''failed'')\<rparr>"

definition queued_job :: job where
  "queued_job = idle_job\<lparr>payload := PDict [(''archive_item_id'', PInt 7), (''file_provider_item_id'', PStr ''f2'')]\<rparr>"


definition sick_world :: world where
  "sick_world = health_world\<lparr>disk := [([''active''], Dir)]\<rparr>"


end
