(* ===== verification/Access.thy ===== *)
theory Access
  imports Json_Values
begin

text \<open>
  Access to the administration: the password of the administrator (\<open>security/auth.py\<close>) and the Cloudflare Access
  middleware (\<open>security/cloudflare.py\<close>). \<open>kdf\<close> is \<open>hashlib.scrypt\<close> with the parameters of the code, of a
  password and a salt; the functions of PyJWT and the application behind the middleware are parameters.
\<close>

section \<open>Passwords\<close>

definition to_hex :: "bytes \<Rightarrow> string" where
  "to_hex b = concat (map (\<lambda>c. [hex_char (of_char c div 16), hex_char (of_char c mod 16)]) b)"

text \<open>\<open>bytes.fromhex\<close>: pairs of digits, white space between the pairs.\<close>

fun from_hex :: "string \<Rightarrow> bytes option" where
  "from_hex [] = Some []"
| "from_hex [c] = (if of_char c \<in> {9, 10, 11, 12, 13, 32 :: nat} then Some [] else None)"
| "from_hex (c # d # s) =
     (if of_char c \<in> {9, 10, 11, 12, 13, 32 :: nat} then from_hex (d # s)
      else (case (hex_val (of_char c), hex_val (of_char d), from_hex s) of
        (Some x, Some y, Some b) \<Rightarrow> Some (char_of (16 * x + y) # b) | _ \<Rightarrow> None))"

text \<open>\<open>urandom\<close> is the result of \<open>os.urandom(16)\<close>, used when no salt or an empty one is given.\<close>

definition hash_password :: "(string \<Rightarrow> bytes \<Rightarrow> bytes) \<Rightarrow> bytes \<Rightarrow> string \<Rightarrow> bytes option \<Rightarrow> exn + string" where
  "hash_password kdf urandom password salt =
     (if length password < 12 then Inl (ValueError ''administrator password must contain at least 12 characters'')
      else let s = (case salt of Some (c # b) \<Rightarrow> c # b | _ \<Rightarrow> urandom)
           in Inr (''scrypt$'' @ to_hex s @ ''$'' @ to_hex (kdf password s)))"

text \<open>\<open>compare_digest\<close> of two texts raises unless both are ASCII.\<close>

definition is_ascii_text :: "string \<Rightarrow> bool" where
  "is_ascii_text s = list_all (\<lambda>c. of_char c < (128 :: nat)) s"

definition compare_digest :: "string \<Rightarrow> string \<Rightarrow> exn + bool" where
  "compare_digest a b = (if is_ascii_text a \<and> is_ascii_text b then Inr (a = b) else Inl TypeError)"

definition verify_password :: "(string \<Rightarrow> bytes \<Rightarrow> bytes) \<Rightarrow> bytes \<Rightarrow> string \<Rightarrow> string \<Rightarrow> exn + bool" where
  "verify_password kdf urandom password encoded =
     (case partition_at (CHR ''$'') encoded of (algorithm, two, rest) \<Rightarrow>
      case partition_at (CHR ''$'') rest of (salt_hex, three, expected_hex) \<Rightarrow>
      if \<not> two \<or> \<not> three \<or> algorithm \<noteq> ''scrypt'' then Inr False
      else (case from_hex salt_hex of None \<Rightarrow> Inr False
        | Some salt \<Rightarrow> (case hash_password kdf urandom password (Some salt) of Inl _ \<Rightarrow> Inr False
            | Inr actual \<Rightarrow> compare_digest actual encoded)))"

section \<open>Cloudflare Access\<close>

record jwt_demand =
  jd_algorithms :: "string list"
  jd_audience :: string
  jd_issuer :: string
  jd_leeway :: nat
  jd_require :: "string list"

record 'k jwt_library =
  jl_key :: "string \<Rightarrow> exn + 'k"
  jl_decode :: "string \<Rightarrow> 'k \<Rightarrow> jwt_demand \<Rightarrow> exn + json"

definition cf_demand :: "string \<Rightarrow> string \<Rightarrow> jwt_demand" where
  "cf_demand team_domain audience = \<lparr>jd_algorithms = [''RS256''], jd_audience = audience,
     jd_issuer = rstrip_char (CHR ''/'') team_domain, jd_leeway = 30,
     jd_require = [''aud'', ''exp'', ''iat'', ''iss'', ''sub'', ''type'']\<rparr>"

definition cf_validate :: "'k jwt_library \<Rightarrow> string \<Rightarrow> string \<Rightarrow> string \<Rightarrow> exn + json" where
  "cf_validate j team_domain audience token =
     bind_sum (jl_key j token) (\<lambda>k.
     bind_sum (jl_decode j token k (cf_demand team_domain audience)) (\<lambda>p.
     case p of
       JObject kvs \<Rightarrow> if map_of (rev kvs) (cps ''type'') \<noteq> Some (JText (cps ''app''))
         then Inl (InvalidToken ''Cloudflare Access token is not an application token'') else Inr p
     | _ \<Rightarrow> Inl (InvalidToken ''Cloudflare Access payload is not an object'')))"

text \<open>What the middleware reads of the scope of a request; \<open>sc_client\<close> is the host of the peer.\<close>

record http_scope =
  hs_type :: string
  hs_path :: "string option"
  hs_client :: "string option"
  hs_headers :: "(bytes \<times> bytes) list"

datatype cf_decision = Forwarded | Refused

definition loopback_hosts :: "string list" where
  "loopback_hosts = [''127.0.0.1'', ''::1'']"

definition is_local_probe :: "string list \<Rightarrow> http_scope \<Rightarrow> bool" where
  "is_local_probe probe_paths s =
     ((case hs_path s of None \<Rightarrow> False | Some p \<Rightarrow> p \<in> set probe_paths)
      \<and> (case hs_client s of None \<Rightarrow> False | Some h \<Rightarrow> h \<in> set loopback_hosts))"

text \<open>The last header of the name, without its bytes beyond ASCII.\<close>

definition cf_token :: "http_scope \<Rightarrow> string" where
  "cf_token s = (case map_of (rev (map (\<lambda>(k, v). (lower k, v)) (hs_headers s))) ''cf-access-jwt-assertion'' of
     None \<Rightarrow> [] | Some v \<Rightarrow> filter (\<lambda>c. of_char c < (128 :: nat)) v)"

definition cf_middleware :: "(string \<Rightarrow> exn + json) \<Rightarrow> string list \<Rightarrow> http_scope \<Rightarrow> cf_decision" where
  "cf_middleware validate probe_paths s =
     (if hs_type s \<noteq> ''http'' then Forwarded
      else if is_local_probe probe_paths s then Forwarded
      else let token = cf_token s in
        if token = [] then Refused
        else (case validate token of Inl _ \<Rightarrow> Refused | Inr _ \<Rightarrow> Forwarded))"

section \<open>What they guarantee\<close>

lemma hex_digits: "\<forall>d \<in> set [0..<16]. hex_val (of_char (hex_char d)) = Some d
    \<and> of_char (hex_char d) \<notin> {9, 10, 11, 12, 13, 32, 36 :: nat} \<and> (of_char (hex_char d) :: nat) < 128"
  by code_simp

lemma hex_char_val: "d < 16 \<Longrightarrow> hex_val (of_char (hex_char d)) = Some d"
  using hex_digits by simp

lemma hex_char_plain: "d < 16 \<Longrightarrow> of_char (hex_char d) \<notin> {9, 10, 11, 12, 13, 32, 36 :: nat}
    \<and> (of_char (hex_char d) :: nat) < 128"
proof -
  assume "d < 16"
  then have "d \<in> set [0..<16]" by simp
  from bspec [OF hex_digits this] show ?thesis by blast
qed

lemma nibbles: "(of_char (c :: char) :: nat) div 16 < 16" "(of_char c :: nat) mod 16 < 16"
proof -
  show "(of_char c :: nat) div 16 < 16" using nat_of_char_less_256 [of c] by (simp only: less_mult_imp_div_less)
qed simp

lemma from_hex_to_hex: "from_hex (to_hex b) = Some b"
proof (induction b)
  case Nil
  then show ?case by (simp add: to_hex_def)
next
  case (Cons c b)
  have "to_hex (c # b) = hex_char (of_char c div 16) # hex_char (of_char c mod 16) # to_hex b" by (simp add: to_hex_def)
  then show ?case
    using Cons hex_char_val nibbles [of c] hex_char_plain [OF nibbles(1), of c] by simp
qed

lemma to_hex_inj: "to_hex a = to_hex b \<longleftrightarrow> a = b"
  by (metis from_hex_to_hex option.inject)

lemma to_hex_chars: "c \<in> set (to_hex b) \<Longrightarrow> c \<noteq> CHR ''$'' \<and> (of_char c :: nat) < 128"
proof -
  assume "c \<in> set (to_hex b)"
  then obtain d where "c = hex_char d" "d < 16" by (auto simp: to_hex_def nibbles)
  with hex_char_plain [of d] show ?thesis by auto
qed

lemma partition_at_append: "c \<notin> set a \<Longrightarrow> partition_at c (a @ c # b) = (a, True, b)"
  by (induction a) auto

text \<open>A password is accepted against the stored hash of a password exactly when it is long enough and scrypt
  derives the same key from it under the stored salt; the password that was hashed is accepted, and without
  a collision of scrypt no other is. The check never raises on a stored hash.\<close>

theorem password_accepted_iff:
  assumes hashed: "hash_password kdf urandom password salt = Inr encoded" and salted: "urandom \<noteq> []"
  shows "\<exists>s. verify_password kdf urandom' attempt encoded = Inr (12 \<le> length attempt \<and> kdf attempt s = kdf password s)
    \<and> 12 \<le> length password \<and> verify_password kdf urandom' password encoded = Inr True"
proof -
  define s where "s = (case salt of Some (c # b) \<Rightarrow> c # b | _ \<Rightarrow> urandom)"
  have ne: "s \<noteq> []" using salted by (auto simp: s_def split: option.split list.split)
  have long: "12 \<le> length password" and enc: "encoded = ''scrypt$'' @ to_hex s @ ''$'' @ to_hex (kdf password s)"
    using hashed by (auto simp: hash_password_def s_def Let_def split: if_splits)
  have p1: "partition_at (CHR ''$'') encoded = (''scrypt'', True, to_hex s @ ''$'' @ to_hex (kdf password s))"
    unfolding enc using partition_at_append [of "CHR ''$''" "''scrypt''"] by simp
  have p2: "partition_at (CHR ''$'') (to_hex s @ ''$'' @ to_hex (kdf password s)) = (to_hex s, True, to_hex (kdf password s))"
    using partition_at_append [of "CHR ''$''" "to_hex s"] to_hex_chars by auto
  have ascii: "is_ascii_text (''scrypt$'' @ to_hex a @ ''$'' @ to_hex b)" for a b
    using to_hex_chars by (auto simp: is_ascii_text_def list_all_iff)
  have v: "verify_password kdf urandom' q encoded = Inr (12 \<le> length q \<and> kdf q s = kdf password s)" for q
  proof -
    obtain c b where "s = c # b" using ne by (cases s) auto
    then show ?thesis
      unfolding verify_password_def p1 p2 prod.case
      using ascii by (auto simp: from_hex_to_hex hash_password_def compare_digest_def enc to_hex_inj Let_def)
  qed
  show ?thesis using v long by auto
qed

text \<open>C36: a request over HTTP reaches the application only from the local health check or with a token that the JWT
  library accepted, with the team's key, for the configured audience and issuer and with every required
  claim, and whose payload is of an application; every other request is refused.\<close>

theorem access_needs_token:
  assumes "hs_type s = ''http''"
  shows "cf_middleware (cf_validate j team_domain audience) probe_paths s =
    (if (\<exists>p h. hs_path s = Some p \<and> p \<in> set probe_paths \<and> hs_client s = Some h \<and> h \<in> {''127.0.0.1'', ''::1''})
        \<or> (\<exists>k kvs. cf_token s \<noteq> [] \<and> jl_key j (cf_token s) = Inr k
            \<and> jl_decode j (cf_token s) k \<lparr>jd_algorithms = [''RS256''], jd_audience = audience,
                jd_issuer = rstrip_char (CHR ''/'') team_domain, jd_leeway = 30,
                jd_require = [''aud'', ''exp'', ''iat'', ''iss'', ''sub'', ''type'']\<rparr> = Inr (JObject kvs)
            \<and> map_of (rev kvs) (cps ''type'') = Some (JText (cps ''app'')))
     then Forwarded else Refused)"
proof -
  have valid: "(\<exists>p. cf_validate j team_domain audience t = Inr p) \<longleftrightarrow>
      (\<exists>k kvs. jl_key j t = Inr k \<and> jl_decode j t k (cf_demand team_domain audience) = Inr (JObject kvs)
        \<and> map_of (rev kvs) (cps ''type'') = Some (JText (cps ''app'')))" for t
  proof -
    have app: "(case p of JObject kvs \<Rightarrow> if map_of (rev kvs) (cps ''type'') \<noteq> Some (JText (cps ''app''))
           then Inl (InvalidToken ''Cloudflare Access token is not an application token'') else Inr p
         | _ \<Rightarrow> Inl (InvalidToken ''Cloudflare Access payload is not an object'')) = Inr q
       \<longleftrightarrow> q = p \<and> (\<exists>kvs. p = JObject kvs \<and> map_of (rev kvs) (cps ''type'') = Some (JText (cps ''app'')))" for p q
      by (cases p) auto
    show ?thesis unfolding cf_validate_def bind_sum_Inr app by blast
  qed
  have probe: "is_local_probe probe_paths s \<longleftrightarrow>
      (\<exists>p h. hs_path s = Some p \<and> p \<in> set probe_paths \<and> hs_client s = Some h \<and> h \<in> {''127.0.0.1'', ''::1''})"
    by (auto simp: is_local_probe_def loopback_hosts_def split: option.splits)
  show ?thesis
    using assms valid [of "cf_token s"] unfolding probe [symmetric] cf_demand_def [symmetric]
    by (auto simp: cf_middleware_def Let_def split: sum.splits)
qed

theorem password_accepted_iff_witness:
  "\<exists>e. hash_password (\<lambda>p s. p) ''salt'' ''correct horse battery'' None = Inr e
     \<and> verify_password (\<lambda>p s. p) ''other'' ''correct horse battery'' e = Inr True
     \<and> verify_password (\<lambda>p s. p) ''other'' ''correct horse bakery'' e = Inr False"
proof -
  obtain e where h: "hash_password (\<lambda>p s. p) ''salt'' ''correct horse battery'' None = Inr e" by (simp add: hash_password_def)
  have n: "''salt'' \<noteq> []" by simp
  from password_accepted_iff [OF h n, of "''other''" "''correct horse bakery''"] h show ?thesis by auto
qed

theorem access_needs_token_witness:
  "cf_middleware (cf_validate \<lparr>jl_key = \<lambda>t. Inr (), jl_decode = \<lambda>t k d. Inl (InvalidToken t)\<rparr> ''https://t.cloudflareaccess.com'' ''aud'')
     [''/healthz''] \<lparr>hs_type = ''http'', hs_path = Some ''/dashboard'', hs_client = Some ''10.0.0.2'', hs_headers = []\<rparr> = Refused"
  by (subst access_needs_token) (simp_all add: cf_token_def)

end
