(* ===== verification/Settings_Model.thy ===== *)
theory Settings_Model
  imports Policies
begin

text \<open>
  The settings of the application (\<open>config/settings.py\<close>): their fields and defaults, the bounds of the
  fields and the validators. Reading them from the environment is pydantic's. Paths are kept as the text they
  are given as. Of \<open>urllib.parse\<close> the parts of \<open>urlsplit\<close> the validators use are modelled; whether a
  bracketed host is an IP address is the parameter \<open>br\<close>.
\<close>

section \<open>Fields\<close>

record app_settings =
  st_database_url :: string
  st_active_root :: string
  st_backup_root :: string
  st_staging_root :: string
  st_source_root :: string
  st_scratch_root :: "string option"
  st_secret_key_file :: string
  st_cold_encryption_key_file :: string
  st_kopia_password_file :: string
  st_kopia_repository :: string
  st_kopia_config_file :: string
  st_use_external_test_storage :: bool
  st_s3_endpoint_url :: string
  st_s3_provider :: string
  st_s3_region :: string
  st_s3_bucket :: string
  st_s3_access_key_file :: string
  st_s3_secret_key_file :: string
  st_cold_storage_transport :: string
  st_rclone_config_file :: string
  st_rclone_remote_root :: string
  st_sftpgo_endpoint_url :: string
  st_sftpgo_api_key_file :: string
  st_smart_health_file :: string
  st_require_smart_health :: bool
  st_onboarding_token_file :: string
  st_global_deletion_enabled :: bool
  st_safety_lock :: bool
  st_worker_concurrency :: int
  st_per_adapter_concurrency :: int
  st_pause_active :: rat
  st_pause_backup :: rat
  st_cloudflare_access_required :: bool
  st_cloudflare_team_domain :: string
  st_cloudflare_audience :: string
  st_cloudflare_admin_hostname :: string
  st_file_provider_enabled :: bool
  st_file_provider_public_url :: string
  st_file_provider_upload_root :: string
  st_file_provider_max_file_size :: int
  st_file_provider_minimum_free_percent :: rat
  st_telegram_enabled :: bool
  st_telegram_bot_token_file :: string
  st_telegram_allowed_user_ids :: "int list"
  st_icloud_enabled :: bool
  st_icloud_apple_id :: string
  st_icloud_library :: string
  st_icloud_session_directory :: string
  st_icloud_import_root :: string
  st_icloud_capacity_relief_enabled :: bool
  st_icloud_deletion_milestone_approved :: bool
  st_icloud_cleanup_trigger_percent :: rat
  st_icloud_cleanup_target_percent :: rat
  st_icloud_cleanup_quarantine_days :: int
  st_icloud_cleanup_max_assets :: int
  st_icloud_cleanup_max_quota_percent :: rat

definition default_settings :: app_settings where
  "default_settings = \<lparr>
     st_database_url = ''sqlite:///./mnema.db'',
     st_active_root = ''/data/active'', st_backup_root = ''/data/backup'', st_staging_root = ''/data/staging'',
     st_source_root = ''/data/test-source'', st_scratch_root = None,
     st_secret_key_file = ''/run/secrets/mnema_secret_key'', st_cold_encryption_key_file = ''/run/secrets/mnema_cold_key'',
     st_kopia_password_file = ''/run/secrets/kopia_password'', st_kopia_repository = ''/data/backup/kopia-repository'',
     st_kopia_config_file = ''/var/lib/mnema/kopia/repository.config'', st_use_external_test_storage = False,
     st_s3_endpoint_url = ''http://minio:9000'', st_s3_provider = ''generic'', st_s3_region = ''us-east-1'',
     st_s3_bucket = ''mnema-integration'', st_s3_access_key_file = ''/run/secrets/minio_user'',
     st_s3_secret_key_file = ''/run/secrets/minio_password'', st_cold_storage_transport = ''s3'',
     st_rclone_config_file = ''/run/secrets/rclone.conf'', st_rclone_remote_root = ''minio:mnema-integration'',
     st_sftpgo_endpoint_url = ''http://sftpgo:8080'', st_sftpgo_api_key_file = ''/run/secrets/sftpgo_api_key'',
     st_smart_health_file = ''/var/lib/mnema/smart-health.json'', st_require_smart_health = False,
     st_onboarding_token_file = ''/run/secrets/onboarding_token'', st_global_deletion_enabled = False, st_safety_lock = True,
     st_worker_concurrency = 1, st_per_adapter_concurrency = 1, st_pause_active = 10, st_pause_backup = 10,
     st_cloudflare_access_required = False, st_cloudflare_team_domain = '''', st_cloudflare_audience = '''',
     st_cloudflare_admin_hostname = '''', st_file_provider_enabled = False, st_file_provider_public_url = '''',
     st_file_provider_upload_root = ''/data/active/.mnema-file-provider'', st_file_provider_max_file_size = 53687091200,
     st_file_provider_minimum_free_percent = 10, st_telegram_enabled = False,
     st_telegram_bot_token_file = ''/run/secrets/telegram_bot_token'', st_telegram_allowed_user_ids = [],
     st_icloud_enabled = False, st_icloud_apple_id = '''', st_icloud_library = ''PrimarySync'',
     st_icloud_session_directory = ''/var/lib/mnema/icloud-session'', st_icloud_import_root = ''/data/active/iCloud Photos'',
     st_icloud_capacity_relief_enabled = False, st_icloud_deletion_milestone_approved = False,
     st_icloud_cleanup_trigger_percent = 90, st_icloud_cleanup_target_percent = 80, st_icloud_cleanup_quarantine_days = 7,
     st_icloud_cleanup_max_assets = 1000, st_icloud_cleanup_max_quota_percent = 10\<rparr>"

section \<open>URLs\<close>

record split_url =
  us_scheme :: string
  us_netloc :: string
  us_path :: string
  us_query :: string
  us_fragment :: string

definition url_clean :: "string \<Rightarrow> string" where
  "url_clean s = filter (\<lambda>c. of_char c \<notin> {9, 10, 13 :: nat}) (dropWhile (\<lambda>c. of_char c \<le> (32 :: nat)) s)"

definition scheme_char :: "char \<Rightarrow> bool" where
  "scheme_char c = (is_alnum c \<or> c = CHR ''+'' \<or> c = CHR ''-'' \<or> c = CHR ''.'')"

definition split_scheme :: "string \<Rightarrow> string \<times> string" where
  "split_scheme u = (case partition_at (CHR '':'') u of (a, found, b) \<Rightarrow>
     if found \<and> a \<noteq> [] \<and> (is_upper (hd a) \<or> is_lower (hd a)) \<and> list_all scheme_char a then (lower a, b) else ([], u))"

definition in_netloc :: "char \<Rightarrow> bool" where
  "in_netloc c = (c \<noteq> CHR ''/'' \<and> c \<noteq> CHR ''?'' \<and> c \<noteq> CHR ''#'')"

definition urlsplit :: "(string \<Rightarrow> bool) \<Rightarrow> string \<Rightarrow> exn + split_url" where
  "urlsplit br s =
     (case split_scheme (url_clean s) of (scheme, rest) \<Rightarrow>
      case (if startswith rest ''//'' then (takeWhile in_netloc (drop 2 rest), dropWhile in_netloc (drop 2 rest)) else ([], rest)) of
        (netloc, tail) \<Rightarrow>
      if (CHR ''['' \<in> set netloc) \<noteq> (CHR '']'' \<in> set netloc) \<or> CHR ''['' \<in> set netloc \<and> \<not> br netloc
      then Inl (ValueError ''Invalid IPv6 URL'')
      else case partition_at (CHR ''#'') tail of (front, _, fragment) \<Rightarrow>
        case partition_at (CHR ''?'') front of (path, _, query) \<Rightarrow>
        Inr \<lparr>us_scheme = scheme, us_netloc = netloc, us_path = path, us_query = query, us_fragment = fragment\<rparr>)"

text \<open>The part of the network location after the last \<open>@\<close>, split into host and port.\<close>

definition host_info :: "string \<Rightarrow> string" where
  "host_info netloc = rev (takeWhile (\<lambda>c. c \<noteq> CHR ''@'') (rev netloc))"

definition host_port :: "string \<Rightarrow> string \<times> string" where
  "host_port netloc =
     (let info = host_info netloc in
      case partition_at (CHR ''['') info of (_, bracketed, inner) \<Rightarrow>
      if bracketed then (case partition_at (CHR '']'') inner of (host, _, rest) \<Rightarrow>
           case partition_at (CHR '':'') rest of (_, _, port) \<Rightarrow> (host, port))
      else case partition_at (CHR '':'') info of (host, _, port) \<Rightarrow> (host, port))"

definition url_hostname :: "split_url \<Rightarrow> string option" where
  "url_hostname u = (case host_port (us_netloc u) of (host, _) \<Rightarrow>
     if host = [] then None
     else case partition_at (CHR ''%'') host of (name, found, zone) \<Rightarrow>
       Some (lower name @ (if found then CHR ''%'' # zone else [])))"

definition url_port :: "split_url \<Rightarrow> exn + int option" where
  "url_port u = (case host_port (us_netloc u) of (_, port) \<Rightarrow>
     if port = [] then Inr None
     else if \<not> list_all is_digit port then Inl (ValueError ''Port could not be cast to integer value'')
     else if undec port > 65535 then Inl (ValueError ''Port out of range 0-65535'')
     else Inr (Some (int (undec port))))"

definition has_credentials :: "split_url \<Rightarrow> bool" where
  "has_credentials u = (CHR ''@'' \<in> set (us_netloc u))"

section \<open>Validation\<close>

definition absolute_path :: "string \<Rightarrow> exn + unit" where
  "absolute_path p = (if is_absolute p then Inr () else Inl (ValueError ''storage paths must be absolute''))"

definition lexically_beneath :: "string \<Rightarrow> string \<Rightarrow> bool" where
  "lexically_beneath p base = (take (length (pure_parts base)) (pure_parts p) = pure_parts base)"

definition bounded :: "bool \<Rightarrow> exn + unit" where
  "bounded b = (if b then Inr () else Inl (ValueError ''field out of bounds''))"

fun run_checks :: "(exn + unit) list \<Rightarrow> exn + unit" where
  "run_checks [] = Inr ()"
| "run_checks (c # cs) = (case c of Inl e \<Rightarrow> Inl e | Inr _ \<Rightarrow> run_checks cs)"

definition field_bounds :: "app_settings \<Rightarrow> (exn + unit) list" where
  "field_bounds s = map bounded [
     st_s3_provider s \<in> {''generic'', ''scaleway''}, st_cold_storage_transport s \<in> {''s3'', ''rclone''},
     st_icloud_library s = ''PrimarySync'',
     1 \<le> st_worker_concurrency s \<and> st_worker_concurrency s \<le> 2,
     1 \<le> st_per_adapter_concurrency s \<and> st_per_adapter_concurrency s \<le> 2,
     0 < st_file_provider_max_file_size s,
     1 \<le> st_file_provider_minimum_free_percent s \<and> st_file_provider_minimum_free_percent s \<le> 50,
     0 < st_icloud_cleanup_trigger_percent s \<and> st_icloud_cleanup_trigger_percent s \<le> 100,
     0 \<le> st_icloud_cleanup_target_percent s \<and> st_icloud_cleanup_target_percent s < 100,
     1 \<le> st_icloud_cleanup_quarantine_days s \<and> st_icloud_cleanup_quarantine_days s \<le> 3650,
     1 \<le> st_icloud_cleanup_max_assets s \<and> st_icloud_cleanup_max_assets s \<le> 1000,
     0 < st_icloud_cleanup_max_quota_percent s \<and> st_icloud_cleanup_max_quota_percent s \<le> 10]"

definition absolute_scratch_root :: "app_settings \<Rightarrow> exn + unit" where
  "absolute_scratch_root s = (case st_scratch_root s of None \<Rightarrow> Inr () | Some p \<Rightarrow> absolute_path p)"

definition absolute_paths :: "app_settings \<Rightarrow> (exn + unit) list" where
  "absolute_paths s = map absolute_path [st_active_root s, st_backup_root s, st_staging_root s, st_source_root s,
     st_kopia_repository s, st_kopia_config_file s, st_rclone_config_file s, st_icloud_session_directory s,
     st_icloud_import_root s, st_file_provider_upload_root s, st_telegram_bot_token_file s]"

text \<open>What the two validators of URLs ask for: \<open>https\<close>, a host, and nothing else.\<close>

definition https_origin :: "(string \<Rightarrow> bool) \<Rightarrow> (string \<Rightarrow> bool) \<Rightarrow> string \<Rightarrow> exn + bool" where
  "https_origin br host_ok url = (case urlsplit br url of Inl e \<Rightarrow> Inl e
     | Inr u \<Rightarrow>
       if us_scheme u \<noteq> ''https'' then Inr False
       else case url_hostname u of None \<Rightarrow> Inr False
       | Some host \<Rightarrow>
         if \<not> host_ok host \<or> has_credentials u then Inr False
         else case url_port u of Inl e \<Rightarrow> Inl e
         | Inr port \<Rightarrow> Inr (port = None \<and> us_path u \<in> {'''', ''/''} \<and> us_query u = [] \<and> us_fragment u = []))"

definition cloudflare_access_is_complete :: "(string \<Rightarrow> bool) \<Rightarrow> app_settings \<Rightarrow> exn + unit" where
  "cloudflare_access_is_complete br s =
     (if \<not> st_cloudflare_access_required s then Inr ()
      else case https_origin br (\<lambda>host. endswith host ''.cloudflareaccess.com'') (st_cloudflare_team_domain s) of Inl e \<Rightarrow> Inl e
      | Inr team \<Rightarrow>
        if \<not> team then Inl (ValueError ''Cloudflare Access requires a valid HTTPS team domain'')
        else if st_cloudflare_audience s = [] then Inl (ValueError ''Cloudflare Access audience is required'')
        else Inr ())"

definition file_provider_configuration_is_safe :: "(string \<Rightarrow> bool) \<Rightarrow> app_settings \<Rightarrow> exn + unit" where
  "file_provider_configuration_is_safe br s =
     (if \<not> st_file_provider_enabled s then Inr ()
      else if \<not> lexically_beneath (st_file_provider_upload_root s) (st_active_root s)
      then Inl (ValueError ''File Provider upload root must remain beneath active storage'')
      else case https_origin br (\<lambda>_. True) (st_file_provider_public_url s) of Inl e \<Rightarrow> Inl e
      | Inr public \<Rightarrow>
        if \<not> public then Inl (ValueError ''File Provider requires an HTTPS public URL without a path'') else Inr ())"

definition icloud_configuration_is_complete :: "app_settings \<Rightarrow> exn + unit" where
  "icloud_configuration_is_complete s =
     (if \<not> st_icloud_enabled s then Inr ()
      else if st_icloud_apple_id s = [] then Inl (ValueError ''iCloud Photos requires an Apple ID'')
      else if \<not> lexically_beneath (st_icloud_import_root s) (st_active_root s)
      then Inl (ValueError ''iCloud import root must remain beneath active storage'')
      else if st_icloud_cleanup_target_percent s \<ge> st_icloud_cleanup_trigger_percent s
      then Inl (ValueError ''iCloud cleanup target must be below trigger'') else Inr ())"

definition scaleway_endpoint :: "app_settings \<Rightarrow> string" where
  "scaleway_endpoint s = ''https://s3.'' @ st_s3_region s @ ''.scw.cloud''"

definition scaleway_glacier_configuration_is_safe :: "app_settings \<Rightarrow> exn + unit" where
  "scaleway_glacier_configuration_is_safe s =
     (if st_s3_provider s \<noteq> ''scaleway'' then Inr ()
      else if st_cold_storage_transport s \<noteq> ''s3'' then Inl (ValueError ''Scaleway Glacier requires direct S3 transport'')
      else if st_s3_region s \<notin> {''fr-par'', ''nl-ams''} then Inl (ValueError ''Scaleway Glacier region must be fr-par or nl-ams'')
      else if st_s3_endpoint_url s \<noteq> scaleway_endpoint s then Inl (ValueError (''Scaleway endpoint must be '' @ scaleway_endpoint s))
      else Inr ())"

definition telegram_configuration_is_safe :: "app_settings \<Rightarrow> exn + unit" where
  "telegram_configuration_is_safe s =
     (if list_ex (\<lambda>u. u \<le> 0) (st_telegram_allowed_user_ids s) then Inl (ValueError ''Telegram user IDs must be positive integers'')
      else if st_telegram_enabled s \<and> st_telegram_allowed_user_ids s = []
      then Inl (ValueError ''Telegram requires at least one allowed user ID'') else Inr ())"

definition validate_settings :: "(string \<Rightarrow> bool) \<Rightarrow> app_settings \<Rightarrow> exn + app_settings" where
  "validate_settings br s = (case run_checks (field_bounds s @ [absolute_scratch_root s] @ absolute_paths s @
       [cloudflare_access_is_complete br s, file_provider_configuration_is_safe br s, icloud_configuration_is_complete s,
        scaleway_glacier_configuration_is_safe s, telegram_configuration_is_safe s]) of
     Inl e \<Rightarrow> Inl e | Inr _ \<Rightarrow> Inr s)"

definition scratch_directory_of :: "app_settings \<Rightarrow> string" where
  "scratch_directory_of s = (case st_scratch_root s of Some p \<Rightarrow> p | None \<Rightarrow> st_active_root s @ ''/.mnema-scratch'')"


section \<open>What valid settings are\<close>

lemma partition_at_eq: "partition_at c s = (a, found, b) \<Longrightarrow> s = a @ (if found then c # b else [])"
  by (induction c s arbitrary: a found b rule: partition_at.induct) (auto split: if_splits prod.splits)

text \<open>The text of a URL that is a secure origin and nothing else.\<close>

definition plain_origin :: "string \<Rightarrow> bool" where
  "plain_origin url \<longleftrightarrow> (\<exists>scheme netloc slash q f. url_clean url = scheme @ ''://'' @ netloc @ slash @ q @ f
     \<and> lower scheme = ''https'' \<and> netloc \<noteq> [] \<and> CHR ''@'' \<notin> set netloc \<and> list_all in_netloc netloc
     \<and> slash \<in> {'''', ''/''} \<and> q \<in> {'''', ''?''} \<and> f \<in> {'''', ''#''})"

lemma split_scheme_eq: "split_scheme u = (scheme, rest) \<Longrightarrow> scheme \<noteq> [] \<Longrightarrow> \<exists>a. u = a @ '':'' @ rest \<and> lower a = scheme"
  by (auto simp: split_scheme_def split: prod.splits if_splits dest!: partition_at_eq)

lemma https_origin_plain:
  assumes "https_origin br ok url = Inr True" shows "plain_origin url"
proof -
  from assms obtain u where u: "urlsplit br url = Inr u" and sc: "us_scheme u = ''https''" and host: "url_hostname u \<noteq> None"
    and cred: "\<not> has_credentials u" and rest: "us_path u \<in> {'''', ''/''}" "us_query u = []" "us_fragment u = []"
    by (auto simp: https_origin_def split: sum.splits if_splits option.splits)
  obtain scheme r where sp: "split_scheme (url_clean url) = (scheme, r)" by fastforce
  let ?slashes = "startswith r ''//''"
  let ?netloc = "if ?slashes then takeWhile in_netloc (drop 2 r) else []"
  let ?tail = "if ?slashes then dropWhile in_netloc (drop 2 r) else r"
  obtain front ff fragment where p1: "partition_at (CHR ''#'') ?tail = (front, ff, fragment)" using prod_cases3 by blast
  obtain path fq qry where p2: "partition_at (CHR ''?'') front = (path, fq, qry)" using prod_cases3 by blast
  have ueq: "u = \<lparr>us_scheme = scheme, us_netloc = ?netloc, us_path = path, us_query = qry, us_fragment = fragment\<rparr>"
    using u sp p1 p2 by (auto simp: urlsplit_def split: if_splits)
  have "host_port [] = ([], [])" by (simp add: host_port_def host_info_def)
  with host have "us_netloc u \<noteq> []" by (auto simp: url_hostname_def)
  with ueq have ne: "?netloc \<noteq> []" by simp
  then have sl: "?slashes" by (auto split: if_splits)
  then have "take 2 r = ''//''" by (simp add: startswith_def numeral_2_eq_2)
  then have r: "r = ''//'' @ drop 2 r" using append_take_drop_id [of 2 r] by simp
  from split_scheme_eq [OF sp] ueq sc obtain a where a: "url_clean url = a @ '':'' @ r" "lower a = ''https''" by auto
  have tail: "?tail = path @ (if fq then CHR ''?'' # qry else []) @ (if ff then CHR ''#'' # fragment else [])"
    using partition_at_eq [OF p1] partition_at_eq [OF p2] by simp
  have "url_clean url = a @ '':'' @ ''//'' @ ?netloc @ ?tail"
    using a(1) r sl takeWhile_dropWhile_id [of in_netloc "drop 2 r"] by simp
  then have "url_clean url = a @ ''://'' @ ?netloc @ path @ (if fq then ''?'' else []) @ (if ff then ''#'' else [])"
    unfolding tail using rest(2,3) ueq by simp
  moreover have "list_all in_netloc ?netloc" by (auto simp: list_all_iff dest: set_takeWhileD)
  moreover have "CHR ''@'' \<notin> set ?netloc" using cred ueq by (simp add: has_credentials_def)
  ultimately show ?thesis
    unfolding plain_origin_def using a(2) ne rest(1) ueq
    by (intro exI [of _ a] exI [of _ ?netloc] exI [of _ path] exI [of _ "if fq then ''?'' else []"] exI [of _ "if ff then ''#'' else []"]) simp
qed

lemma run_checks_Inr: "run_checks cs = Inr u \<longleftrightarrow> (\<forall>c \<in> set cs. \<exists>v. c = Inr v)"
  by (induction cs) (auto split: sum.splits)


lemma bounded_Inr: "bounded b = Inr u \<longleftrightarrow> b"
  by (simp add: bounded_def)

lemma absolute_path_Inr: "absolute_path p = Inr u \<longleftrightarrow> is_absolute p"
  by (simp add: absolute_path_def)

lemma beneath_Inr: "lexically_beneath p base \<Longrightarrow> \<exists>rest. pure_parts p = pure_parts base @ rest"
  by (metis append_take_drop_id lexically_beneath_def)

definition path_settings :: "app_settings \<Rightarrow> string set" where
  "path_settings s = {st_active_root s, st_backup_root s, st_staging_root s, st_source_root s, st_kopia_repository s,
     st_kopia_config_file s, st_rclone_config_file s, st_icloud_session_directory s, st_icloud_import_root s,
     st_file_provider_upload_root s, st_telegram_bot_token_file s, scratch_directory_of s}"

lemma absolute_append: "is_absolute p \<Longrightarrow> is_absolute (p @ q)"
  by (cases p) (auto simp: is_absolute_def startswith_def)


text \<open>
  The roots are compared component by component, without resolving them: a path with dot-dot components counts as
  beneath the active storage.
\<close>

lemma beneath_is_lexical: "lexically_beneath ''/data/active/../other'' ''/data/active''"
  by code_simp


end
