(* ===== verification/Cold_S3.thy ===== *)
theory Cold_S3
  imports Cold_Local
begin

text \<open>
  The S3 cold store (\<open>adapters/cold_storage/s3.py\<close>). The boto3 client is a parameter with a state of its own:
  one operation per call the code makes. A step works on the disk or on the service; \<open>disk_py\<close> and
  \<open>net_py\<close> lift the two. The content of scratch directories, which are removed afterwards, is not kept on
  the disk.
\<close>

record s3_head =
  hd_length :: nat
  hd_etag :: "string option"
  hd_class :: "string option"
  hd_version :: "string option"
  hd_restore :: "string option"
  hd_metadata :: "(string \<times> string) list"

record 's s3_client =
  s3_head_bucket :: "('s, unit) py"
  s3_create_bucket :: "('s, unit) py"
  s3_head_object :: "string \<Rightarrow> ('s, s3_head) py"
  s3_upload_file :: "string \<Rightarrow> bytes \<Rightarrow> (string \<times> string) list \<Rightarrow> ('s, unit) py"
  s3_download_file :: "string \<Rightarrow> ('s, bytes) py"
  s3_copy_object :: "string \<Rightarrow> string option \<Rightarrow> string \<Rightarrow> ('s, unit) py"
  s3_create_multipart :: "string \<Rightarrow> (string \<times> string) list \<Rightarrow> string \<Rightarrow> ('s, string) py"
  s3_part_copy :: "string \<Rightarrow> string option \<Rightarrow> string \<Rightarrow> string \<Rightarrow> nat \<Rightarrow> ('s, string) py"
  s3_complete_multipart :: "string \<Rightarrow> string \<Rightarrow> (string \<times> nat) list \<Rightarrow> ('s, unit) py"
  s3_abort_multipart :: "string \<Rightarrow> string \<Rightarrow> ('s, unit) py"
  s3_restore_object :: "string \<Rightarrow> int \<Rightarrow> ('s, unit) py"

record s3_store =
  s3_bucket :: string
  s3_key :: bytes
  s3_create_missing :: bool
  s3_provider :: string
  s3_class :: "string option"
  s3_days :: int
  s3_scratch :: "path option"
  s3_nonce :: bytes
  s3_mtime :: int
  s3_free :: nat

definition s3_init :: "s3_store \<Rightarrow> exn + s3_store" where
  "s3_init st = (if s3_days st < 1 then Inl (ValueError ''S3 restore duration must be at least one day'') else Inr st)"

definition disk_py :: "(fsys, 'a) py \<Rightarrow> (fsys \<times> 's, 'a) py" where
  "disk_py m = (\<lambda>(fs, s). case m fs of (x, fs') \<Rightarrow> (x, (fs', s)))"

definition net_py :: "('s, 'a) py \<Rightarrow> (fsys \<times> 's, 'a) py" where
  "net_py m = (\<lambda>(fs, s). case m s of (x, s') \<Rightarrow> (x, (fs, s')))"

definition is_ClientError :: "exn \<Rightarrow> bool" where
  "is_ClientError e = (case e of ClientError _ \<Rightarrow> True | _ \<Rightarrow> False)"

definition single_copy_limit :: nat where "single_copy_limit = 5 * 1024 ^ 3"
definition min_copy_part_size :: nat where "min_copy_part_size = 64 * 1024 ^ 2"
definition max_multipart_parts :: nat where "max_multipart_parts = 10000"

text \<open>\<open>[A-Za-z0-9][A-Za-z0-9._-]{0,127}\<close>, and the same with the directory and suffix of an object.\<close>

definition key_char :: "char \<Rightarrow> bool" where
  "key_char c = (is_alnum c \<or> c = CHR ''.'' \<or> c = CHR ''_'' \<or> c = CHR ''-'')"

definition idempotency_key_ok :: "string \<Rightarrow> bool" where
  "idempotency_key_ok k = (case k of [] \<Rightarrow> False | c # r \<Rightarrow> is_alnum c \<and> length r \<le> 127 \<and> list_all key_char r)"

definition object_key :: "string \<Rightarrow> string" where
  "object_key k = ''mnema/'' @ k @ ''.mnema''"

definition object_key_ok :: "string \<Rightarrow> bool" where
  "object_key_ok s = (startswith s ''mnema/'' \<and> endswith (drop 6 s) ''.mnema''
     \<and> idempotency_key_ok (take (length s - 12) (drop 6 s)))"

section \<open>Upload\<close>

definition ensure_bucket :: "'s s3_client \<Rightarrow> s3_store \<Rightarrow> ('s, unit) py" where
  "ensure_bucket c st = try_py (s3_head_bucket c)
     (\<lambda>e. if is_ClientError e \<and> s3_create_missing st then Some (s3_create_bucket c) else None)"

definition scratch_for :: "s3_store \<Rightarrow> nat \<Rightarrow> (fsys, unit) py" where
  "scratch_for st n = seq (case s3_scratch st of None \<Rightarrow> ret () | Some p \<Rightarrow> mkdirs p)
     (scratch_preflight (s3_free st) (n + scratch_margin_bytes))"

definition strip_quotes :: "string \<Rightarrow> string" where
  "strip_quotes s = rev (dropWhile (\<lambda>c. c = CHR 0x22) (rev (dropWhile (\<lambda>c. c = CHR 0x22) s)))"

definition s3_receipt :: "s3_store \<Rightarrow> string \<Rightarrow> s3_head \<Rightarrow> cold_receipt" where
  "s3_receipt st k h = (let tag = strip_quotes (case hd_etag h of None \<Rightarrow> [] | Some t \<Rightarrow> t) in
     \<lparr>rc_provider = s3_provider st, rc_bucket = s3_bucket st, rc_object = k, rc_encryption = ''AES-256-GCM'',
      rc_size = hd_length h, rc_checksum = (if tag = [] then None else Some tag)\<rparr>)"

definition s3_upload :: "gcm \<Rightarrow> 's s3_client \<Rightarrow> s3_store \<Rightarrow> path \<Rightarrow> string \<Rightarrow> string \<Rightarrow> (fsys \<times> 's, cold_receipt) py" where
  "s3_upload g c st source object_identifier idem =
     seq (require (idempotency_key_ok idem) (ValueError ''invalid S3 idempotency key'')) (
     seq (net_py (ensure_bucket c st)) (
     let k = object_key idem in
     bind_py (disk_py (stat_size source)) (\<lambda>plaintext_size.
     seq (disk_py (scratch_for st plaintext_size)) (
     seq (require (length (s3_key st) = 32) (ValueError ''cold encryption key must contain exactly 32 bytes'')) (
     bind_py (disk_py (read_bytes source)) (\<lambda>plain.
     bind_py (net_py (try_py (s3_head_object c k)
       (\<lambda>e. if is_ClientError e
             then Some (seq (s3_upload_file c k (sealed g (s3_key st) (s3_nonce st) plain)
                    [(''mnema-idempotency-key'', idem), (''mnema-encryption'', ''AES-256-GCM'')])
                  (s3_head_object c k))
             else None))) (\<lambda>head.
     ret (s3_receipt st k head))))))))"

section \<open>Restoring and verifying\<close>

definition validate_receipt :: "s3_store \<Rightarrow> cold_receipt \<Rightarrow> exn + unit" where
  "validate_receipt st r =
     (if rc_provider r \<noteq> s3_provider st \<or> rc_bucket r \<noteq> s3_bucket st \<or> \<not> object_key_ok (rc_object r)
      then Inl (ValueError ''S3 receipt does not belong to configured cold storage'') else Inr ())"

text \<open>An object in the archive class is asked for and not served until its restoration has ended.\<close>

definition await_glacier :: "'s s3_client \<Rightarrow> s3_store \<Rightarrow> string \<Rightarrow> s3_head \<Rightarrow> ('s, unit) py" where
  "await_glacier c st k head =
     (let status = (case hd_restore head of None \<Rightarrow> [] | Some s \<Rightarrow> s);
          request = (\<lambda>b. ''ongoing-request='' @ [CHR 0x22] @ b @ [CHR 0x22]) in
      if hd_class head \<noteq> Some ''GLACIER'' \<or> contains (request ''false'') status then ret ()
      else if contains (request ''true'') status then raise_py (ColdRestorePending False)
      else bind_py (try_py (seq (s3_restore_object c k (s3_days st)) (ret True))
             (\<lambda>e. if is_ClientError e then Some (if e = ClientError ''RestoreAlreadyInProgress'' then ret False else raise_py e)
                   else None)) (\<lambda>requested.
        raise_py (ColdRestorePending requested)))"

definition s3_fetch :: "'s s3_client \<Rightarrow> s3_store \<Rightarrow> cold_receipt \<Rightarrow> (fsys \<times> 's, bytes) py" where
  "s3_fetch c st r =
     seq (lift_sum (validate_receipt st r)) (
     bind_py (net_py (s3_head_object c (rc_object r))) (\<lambda>head.
     seq (net_py (await_glacier c st (rc_object r) head)) (
     seq (disk_py (scratch_for st (rc_size r)))
     (net_py (s3_download_file c (rc_object r))))))"

definition write_unsealed :: "gcm \<Rightarrow> bytes \<Rightarrow> bytes \<Rightarrow> path \<Rightarrow> int \<Rightarrow> (fsys, unit) py" where
  "write_unsealed g key data destination t =
     (case unseal g key data of (out, err) \<Rightarrow>
        seq (case out of None \<Rightarrow> ret () | Some b \<Rightarrow> write_new destination b t)
            (case err of None \<Rightarrow> ret () | Some e \<Rightarrow> raise_py e))"

definition s3_restore :: "gcm \<Rightarrow> 's s3_client \<Rightarrow> s3_store \<Rightarrow> cold_receipt \<Rightarrow> path \<Rightarrow> (fsys \<times> 's, unit) py" where
  "s3_restore g c st r destination =
     bind_py (s3_fetch c st r) (\<lambda>data. disk_py (write_unsealed g (s3_key st) data destination (s3_mtime st)))"

definition s3_verify :: "(bytes \<Rightarrow> string) \<Rightarrow> gcm \<Rightarrow> 's s3_client \<Rightarrow> s3_store \<Rightarrow> cold_receipt \<Rightarrow> string \<Rightarrow> (fsys \<times> 's, bool) py" where
  "s3_verify sha g c st r expected =
     seq (disk_py (scratch_for st (2 * rc_size r))) (
     bind_py (s3_fetch c st r) (\<lambda>data.
       case unseal g (s3_key st) data of
         (Some b, None) \<Rightarrow> ret (sha b = expected)
       | (_, Some e) \<Rightarrow> raise_py e
       | (None, None) \<Rightarrow> raise_py FileNotFoundError))"

definition s3_available :: "'s s3_client \<Rightarrow> ('s, bool) py" where
  "s3_available c = try_py (seq (s3_head_bucket c) (ret True)) (\<lambda>e. Some (ret False))"

section \<open>Archiving\<close>

definition part_size_for :: "nat \<Rightarrow> nat" where
  "part_size_for n = max min_copy_part_size ((n + (max_multipart_parts - 1)) div max_multipart_parts)"

text \<open>The first and last byte of each part.\<close>

definition part_ranges :: "nat \<Rightarrow> nat \<Rightarrow> (nat \<times> nat) list" where
  "part_ranges n p = map (\<lambda>k. (k * p, min ((k + 1) * p) n - 1)) [0..<(n + p - 1) div p]"

fun copy_parts :: "'s s3_client \<Rightarrow> string \<Rightarrow> string option \<Rightarrow> string \<Rightarrow> nat \<Rightarrow> (nat \<times> nat) list \<Rightarrow> ('s, (string \<times> nat) list) py" where
  "copy_parts c k version upload_id number [] = ret []"
| "copy_parts c k version upload_id number ((a, b) # rs) =
     bind_py (s3_part_copy c k version (''bytes='' @ dec a @ ''-'' @ dec b) upload_id number) (\<lambda>etag.
     bind_py (copy_parts c k version upload_id (Suc number) rs) (\<lambda>parts. ret ((etag, number) # parts)))"

definition multipart_archive_copy ::
  "'s s3_client \<Rightarrow> string \<Rightarrow> string option \<Rightarrow> nat \<Rightarrow> (string \<times> string) list \<Rightarrow> string \<Rightarrow> ('s, unit) py" where
  "multipart_archive_copy c k version n metadata cls =
     bind_py (s3_create_multipart c k metadata cls) (\<lambda>upload_id.
     try_py (bind_py (copy_parts c k version upload_id 1 (part_ranges n (part_size_for n))) (\<lambda>parts.
         s3_complete_multipart c k upload_id parts))
       (\<lambda>e. Some (seq (s3_abort_multipart c k upload_id) (raise_py e))))"

definition s3_archive :: "'s s3_client \<Rightarrow> s3_store \<Rightarrow> cold_receipt \<Rightarrow> ('s, unit) py" where
  "s3_archive c st r =
     (case s3_class st of None \<Rightarrow> ret ()
      | Some cls \<Rightarrow>
        seq (lift_sum (validate_receipt st r)) (
        bind_py (s3_head_object c (rc_object r)) (\<lambda>head.
        if hd_class head = Some cls then ret ()
        else
          let version = (case hd_version head of None \<Rightarrow> None | Some v \<Rightarrow> if v = [] then None else Some v) in
          seq (if hd_length head \<le> single_copy_limit then s3_copy_object c (rc_object r) version cls
               else multipart_archive_copy c (rc_object r) version (hd_length head) (hd_metadata head) cls) (
          bind_py (s3_head_object c (rc_object r)) (\<lambda>archived.
          require (hd_class archived = Some cls)
            (RuntimeError ''S3 object storage-class transition was not independently observed''))))))"


section \<open>The parts of a copy\<close>

lemma upt_join: "a \<le> b \<Longrightarrow> b \<le> c \<Longrightarrow> [a..<b] @ [b..<c] = [a..<c]"
  by (metis le_add_diff_inverse upt_add_eq_append)

lemma concat_map_Suc: "concat (map f [0..<Suc m]) = concat (map f [0..<m]) @ f m"
  by simp

lemma ranges_cover:
  assumes "0 < p" "0 < n" "\<forall>k < m. k * p < n"
  shows "concat (map (\<lambda>k. [k * p..<Suc (min ((k + 1) * p) n - 1)]) [0..<m]) = [0..<min (m * p) n]"
  using assms(3)
proof (induction m)
  case (Suc m)
  have "m * p < n" using Suc.prems by blast
  moreover have "Suc (min ((m + 1) * p) n - 1) = min (Suc m * p) n" using assms(1,2) by (simp add: min_def)
  moreover have "concat (map (\<lambda>k. [k * p..<Suc (min ((k + 1) * p) n - 1)]) [0..<m]) = [0..<m * p]"
    using Suc.IH Suc.prems \<open>m * p < n\<close> by (simp del: upt_Suc)
  ultimately show ?case
    using assms by (simp only: concat_map_Suc) (simp add: upt_join min_le_iff_disj del: upt_Suc)
qed simp

lemma div_up: "0 < (p :: nat) \<Longrightarrow> k < (n + p - 1) div p \<longleftrightarrow> k * p < n"
proof -
  assume p: "0 < p"
  have "k < (n + p - 1) div p \<longleftrightarrow> Suc k \<le> (n + p - 1) div p" by auto
  also have "\<dots> \<longleftrightarrow> Suc k * p \<le> n + p - 1" using p by (simp add: less_eq_div_iff_mult_less_eq)
  also have "\<dots> \<longleftrightarrow> k * p < n" using p by auto
  finally show ?thesis .
qed

lemma part_ranges_concat:
  assumes "0 < p" "0 < n" shows "concat (map (\<lambda>(a, b). [a..<Suc b]) (part_ranges n p)) = [0..<n]"
proof -
  let ?m = "(n + p - 1) div p"
  have "\<forall>k < ?m. k * p < n" using div_up [OF assms(1)] by blast
  from ranges_cover [OF assms(1,2) this] have "concat (map (\<lambda>k. [k * p..<Suc (min ((k + 1) * p) n - 1)]) [0..<?m]) = [0..<min (?m * p) n]" .
  moreover have "n \<le> ?m * p" using div_up [OF assms(1), of ?m n] by simp
  ultimately show ?thesis by (simp add: part_ranges_def o_def min_absorb2)
qed

lemma part_size_bounds: "64 * 1024 ^ 2 \<le> part_size_for n" "n \<le> 10000 * part_size_for n"
proof -
  show "64 * 1024 ^ 2 \<le> part_size_for n" by (simp add: part_size_for_def min_copy_part_size_def)
  have "n \<le> 10000 * ((n + 9999) div 10000)" by linarith
  also have "\<dots> \<le> 10000 * part_size_for n" by (simp add: part_size_for_def max_multipart_parts_def)
  finally show "n \<le> 10000 * part_size_for n" .
qed

lemma part_count: "length (part_ranges n (part_size_for n)) \<le> 10000"
proof -
  let ?p = "part_size_for n"
  have p: "0 < ?p" using part_size_bounds(1) [of n] by simp
  have "\<not> 10000 < (n + ?p - 1) div ?p" using div_up [OF p, of 10000 n] part_size_bounds(2) [of n] by simp
  then show ?thesis by (simp add: part_ranges_def)
qed

lemma part_sizes:
  assumes "0 < p" "(a, b) \<in> set (butlast (part_ranges n p))" shows "Suc b - a = p"
proof -
  let ?m = "(n + p - 1) div p"
  have "butlast (part_ranges n p) = map (\<lambda>k. (k * p, min ((k + 1) * p) n - 1)) [0..<?m - 1]"
    by (cases ?m) (simp_all add: part_ranges_def map_butlast [symmetric])
  with assms(2) obtain k where k: "k < ?m - 1" "a = k * p" "b = min ((k + 1) * p) n - 1" by auto
  then have "k + 1 < ?m" by simp
  then have "(k + 1) * p < n" using div_up [OF assms(1)] by blast
  then show ?thesis using k(2,3) assms(1) by (simp add: min_def)
qed

lemma copy_parts_numbers:
  "copy_parts c k v u i rs s = (Inr ps, s') \<Longrightarrow> map snd ps = [i..<i + length rs]"
proof (induction rs arbitrary: i s ps)
  case (Cons r rs)
  then show ?case by (cases r) (auto elim!: bind_py_Inr_E simp: upt_conv_Cons simp del: upt_Suc)
qed simp

text \<open>C14: Copying a large object into the archive class copies all of it or gives up the upload. The ranges it asks for
  are, one after the other, exactly the bytes of the object; there are at most ten thousand, and all but the
  last have the same size of at least 64 MiB. It ends normally only when every part was copied, in order and
  numbered from one, and the service completed the upload with all of them; after any failure the last
  request aborts the upload, unless it could not even be created.\<close>

theorem multipart_copies_whole_object:
  assumes "0 < n"
  shows "let rs = part_ranges n (part_size_for n) in
      concat (map (\<lambda>(a, b). [a..<Suc b]) rs) = [0..<n] \<and> length rs \<le> 10000
      \<and> (\<forall>(a, b) \<in> set (butlast rs). Suc b - a = part_size_for n) \<and> 64 * 1024 ^ 2 \<le> part_size_for n
      \<and> (case multipart_archive_copy c k v n md cls s of
           (Inr _, s') \<Rightarrow> (\<exists>u s1 ps s2. s3_create_multipart c k md cls s = (Inr u, s1) \<and> copy_parts c k v u 1 rs s1 = (Inr ps, s2)
             \<and> map snd ps = [1..<1 + length rs] \<and> s3_complete_multipart c k u ps s2 = (Inr (), s'))
         | (Inl e, s') \<Rightarrow> s3_create_multipart c k md cls s = (Inl e, s') \<or> (\<exists>u s1 x. s3_abort_multipart c k u s1 = (x, s')))"
proof -
  let ?p = "part_size_for n" and ?rs = "part_ranges n (part_size_for n)"
  have p: "0 < ?p" using part_size_bounds(1) [of n] by simp
  obtain res s' where run: "multipart_archive_copy c k v n md cls s = (res, s')" by fastforce
  have outcome: "case res of
      Inr _ \<Rightarrow> (\<exists>u s1 ps s2. s3_create_multipart c k md cls s = (Inr u, s1) \<and> copy_parts c k v u 1 ?rs s1 = (Inr ps, s2)
             \<and> map snd ps = [1..<1 + length ?rs] \<and> s3_complete_multipart c k u ps s2 = (Inr (), s'))
    | Inl e \<Rightarrow> s3_create_multipart c k md cls s = (Inl e, s') \<or> (\<exists>u s1 x. s3_abort_multipart c k u s1 = (x, s'))"
  proof -
    obtain created s1 where cr: "s3_create_multipart c k md cls s = (created, s1)" by fastforce
    show ?thesis
    proof (cases created)
      case (Inl e)
      with cr run show ?thesis by (auto simp: multipart_archive_copy_def bind_py_def)
    next
      case (Inr u)
      obtain res2 s2 where body: "bind_py (copy_parts c k v u 1 ?rs) (\<lambda>ps. s3_complete_multipart c k u ps) s1 = (res2, s2)" by fastforce
      show ?thesis
      proof (cases res2)
        case (Inl e)
        with cr run Inr body have r: "(res, s') = seq (s3_abort_multipart c k u) (raise_py e) s2"
          by (simp add: multipart_archive_copy_def bind_py_def [of "s3_create_multipart c k md cls"] try_py_def)
        obtain x s3 where ab: "s3_abort_multipart c k u s2 = (x, s3)" by fastforce
        with r have "s' = s3" "\<exists>e'. res = Inl e'" by (auto simp: seq_def bind_py_def split: sum.splits)
        with ab show ?thesis by auto
      next
        case (Inr v')
        with cr run \<open>created = Inr u\<close> body have r: "res = Inr ()" "s' = s2"
          by (simp_all add: multipart_archive_copy_def bind_py_def [of "s3_create_multipart c k md cls"] try_py_def)
        from body Inr obtain ps s3 where "copy_parts c k v u 1 ?rs s1 = (Inr ps, s3)"
          "s3_complete_multipart c k u ps s3 = (Inr (), s2)" by (auto elim: bind_py_Inr_E)
        with cr \<open>created = Inr u\<close> r copy_parts_numbers show ?thesis by fastforce
      qed
    qed
  qed
  show ?thesis
    unfolding Let_def run prod.case
    using part_ranges_concat [OF p assms] part_count part_sizes [OF p] part_size_bounds(1) outcome
    by (intro conjI) (auto split: sum.splits)
qed

text \<open>An archive step that ends normally has seen the object in its archive class.\<close>

theorem s3_archive_observed:
  assumes "s3_archive c st r s = (Inr u, s')" "s3_class st = Some cls"
  shows "validate_receipt st r = Inr () \<and> (\<exists>s1 head. s3_head_object c (rc_object r) s1 = (Inr head, s') \<and> hd_class head = Some cls)"
proof -
  from assms obtain head s1 where v: "validate_receipt st r = Inr ()" and h: "s3_head_object c (rc_object r) s = (Inr head, s1)"
    and rest: "(if hd_class head = Some cls then ret ()
        else
          let version = (case hd_version head of None \<Rightarrow> None | Some v \<Rightarrow> if v = [] then None else Some v) in
          seq (if hd_length head \<le> single_copy_limit then s3_copy_object c (rc_object r) version cls
               else multipart_archive_copy c (rc_object r) version (hd_length head) (hd_metadata head) cls) (
          bind_py (s3_head_object c (rc_object r)) (\<lambda>archived.
          require (hd_class archived = Some cls)
            (RuntimeError ''S3 object storage-class transition was not independently observed'')))) s1 = (Inr u, s')"
    unfolding s3_archive_def by (auto elim!: seq_Inr_E bind_py_Inr_E)
  show ?thesis
  proof (cases "hd_class head = Some cls")
    case True
    with rest h v show ?thesis by auto
  next
    case False
    with rest v show ?thesis unfolding Let_def by (auto elim!: seq_Inr_E bind_py_Inr_E simp: require_Inr_iff; blast)
  qed
qed


definition s3_example :: "unit s3_client" where
  "s3_example = \<lparr>s3_head_bucket = ret (), s3_create_bucket = ret (),
     s3_head_object = (\<lambda>k. ret \<lparr>hd_length = 0, hd_etag = None, hd_class = Some ''GLACIER'', hd_version = None, hd_restore = None, hd_metadata = []\<rparr>),
     s3_upload_file = (\<lambda>k b m. ret ()), s3_download_file = (\<lambda>k. ret []), s3_copy_object = (\<lambda>k v c. ret ()),
     s3_create_multipart = (\<lambda>k m c. ret ''u''), s3_part_copy = (\<lambda>k v r u n. ret ''e''),
     s3_complete_multipart = (\<lambda>k u ps. ret ()), s3_abort_multipart = (\<lambda>k u. ret ()), s3_restore_object = (\<lambda>k d. ret ())\<rparr>"

theorem multipart_copies_whole_object_witness:
  "concat (map (\<lambda>(a, b). [a..<Suc b]) (part_ranges 7000000000 (part_size_for 7000000000))) = [0..<7000000000]
   \<and> length (part_ranges 7000000000 (part_size_for 7000000000)) \<le> 10000"
proof -
  have "0 < (7000000000 :: nat)" by simp
  from multipart_copies_whole_object [OF this, where c = s3_example and k = "''k''" and v = None and md = "[]"
      and cls = "''GLACIER''" and s = "()"]
  show ?thesis unfolding Let_def by blast
qed

end
