(* ===== verification/Factory.thy ===== *)
theory Factory
  imports Access Settings_Model Cold_S3 Workflow Provider_Auth
begin

text \<open>
  Building a workflow from the settings (\<open>domain/factory.py\<close>). What the constructors of the adapters touch of the
  disk is modelled; the adapters that run other programs or speak to S3 are parameters of the environment, made from
  the arguments the code passes. So are the environment variables, the working directory and what the operating
  system answers.
\<close>

record env =
  en_sha :: "bytes \<Rightarrow> string"
  en_gcm :: gcm
  en_nonce :: bytes
  en_mtime :: int
  en_free :: nat
  en_writable :: "path \<Rightarrow> bool"
  en_cold_key_hex :: "string option"
  en_test_delete :: bool
  en_utc_offset :: int
  en_cwd :: path
  en_kopia :: "path \<Rightarrow> path \<Rightarrow> path \<Rightarrow> path \<Rightarrow> backup_ops"
  en_rclone :: "string \<Rightarrow> path \<Rightarrow> bytes \<Rightarrow> path \<Rightarrow> exn + cold_ops"
  en_s3 :: "s3_store \<Rightarrow> string \<Rightarrow> string \<Rightarrow> nat list \<Rightarrow> nat list \<Rightarrow> cold_ops"

text \<open>\<open>Path(text)\<close> as a place on the disk.\<close>

definition place :: "env \<Rightarrow> string \<Rightarrow> path" where
  "place en s = (if is_absolute s then parts s else en_cwd en @ parts s)"

definition cold_key :: "env \<Rightarrow> app_settings \<Rightarrow> (fsys, bytes) py" where
  "cold_key en s =
     (let key_file = place en (st_cold_encryption_key_file s) in
      bind_py (gets (\<lambda>fs. is_file fs key_file)) (\<lambda>ex.
      if ex then read_bytes key_file
      else (case from_hex (case en_cold_key_hex en of None \<Rightarrow> concat (replicate 32 ''00'') | Some h \<Rightarrow> h) of
         None \<Rightarrow> raise_py (ValueError ''non-hexadecimal number found in fromhex() arg'')
       | Some key \<Rightarrow> ret key)))"

text \<open>\<open>read_text(encoding="utf-8").strip()\<close> as code points.\<close>

definition read_stripped :: "path \<Rightarrow> (fsys, nat list) py" where
  "read_stripped p = bind_py (read_bytes p) (\<lambda>b. lift_sum (map_sum id strip_cps (text_cps b)))"

definition scaleway :: "app_settings \<Rightarrow> bool" where
  "scaleway s = (st_s3_provider s = ''scaleway'')"

definition external_cold :: "env \<Rightarrow> app_settings \<Rightarrow> bytes \<Rightarrow> (fsys, cold_ops) py" where
  "external_cold en s key =
     (let scratch = place en (scratch_directory_of s) in
      if st_cold_storage_transport s = ''rclone''
      then lift_sum (en_rclone en (st_rclone_remote_root s) (place en (st_rclone_config_file s)) key scratch)
      else
        bind_py (lift_sum (s3_init \<lparr>s3_bucket = st_s3_bucket s, s3_key = key,
          s3_create_missing = (st_s3_provider s = ''generic''),
          s3_provider = (if scaleway s then ''scaleway-glacier'' else ''s3''),
          s3_class = (if scaleway s then Some ''GLACIER'' else None), s3_days = 1, s3_scratch = Some scratch,
          s3_nonce = en_nonce en, s3_mtime = en_mtime en, s3_free = en_free en\<rparr>)) (\<lambda>store.
        bind_py (read_stripped (place en (st_s3_access_key_file s))) (\<lambda>access.
        bind_py (read_stripped (place en (st_s3_secret_key_file s))) (\<lambda>secret.
        ret (en_s3 en store (st_s3_endpoint_url s) (st_s3_region s) access secret)))))"

definition build_storage :: "env \<Rightarrow> app_settings \<Rightarrow> bytes \<Rightarrow> (fsys, backup_ops \<times> cold_ops) py" where
  "build_storage en s key =
     (let scratch = place en (scratch_directory_of s); backup_root = place en (st_backup_root s) in
      if st_use_external_test_storage s then
        bind_py (external_cold en s key) (\<lambda>cold.
        ret (en_kopia en (place en (st_kopia_repository s)) (place en (st_kopia_password_file s))
               (place en (st_kopia_config_file s)) scratch, cold))
      else
        let repository = backup_root @ [''mnema-test-repository'']; objects = backup_root @ [''mnema-test-cold''] in
        seq (mkdirs repository) (
        seq (mkdirs objects)
        (ret (fs_backup_ops (en_sha en) \<lparr>fb_repository = repository, fb_mtime = en_mtime en\<rparr>,
              cold_local_ops (en_sha en) (en_gcm en) \<lparr>cl_root = objects, cl_key = key, cl_bucket = ''mnema-test'',
                cl_scratch = Some scratch, cl_nonce = en_nonce en, cl_mtime = en_mtime en, cl_free = en_free en,
                cl_writable = en_writable en objects\<rparr>))))"

definition source_at :: "env \<Rightarrow> string \<Rightarrow> bool \<Rightarrow> (fsys, local_source) py" where
  "source_at en source_root allow =
     bind_py (\<lambda>fs. (resolve_path fs True (place en source_root), fs)) (\<lambda>rt.
     ret \<lparr>ls_root = rt, page_size = 100, interrupt_after_bytes = None, allow_delete = allow,
       ls_env = en_test_delete en, ls_mtime = en_mtime en\<rparr>)"

definition standard_policy :: "bool \<Rightarrow> source_policy" where
  "standard_policy deletion = default_policy\<lparr>archive_after_days := 30, stability_window_hours := 24, quarantine_days := 7,
     deletion_enabled := deletion, manual_approval := True\<rparr>"

text \<open>\<open>source\<close> is the adapter of the caller; without one the local test source is made.\<close>

definition build_local_workflow ::
  "env \<Rightarrow> app_settings \<Rightarrow> source_policy option \<Rightarrow> bool \<Rightarrow> source_ops option \<Rightarrow> string \<Rightarrow> bool \<Rightarrow> (fsys, workflow) py" where
  "build_local_workflow en s policy deletion source provider active =
     bind_py (cold_key en s) (\<lambda>key.
     bind_py (build_storage en s key) (\<lambda>(backup, cold).
     bind_py (case source of Some a \<Rightarrow> ret a
              | None \<Rightarrow> bind_py (source_at en (st_source_root s) deletion) (\<lambda>a. ret (local_source_ops (en_sha en) a))) (\<lambda>src.
     ret \<lparr>wf_source = src, wf_backup = backup, wf_cold = cold, wf_active_root = place en (st_active_root s),
       wf_staging_root = place en (st_staging_root s),
       wf_policy = (case policy of Some p \<Rightarrow> p | None \<Rightarrow> standard_policy deletion),
       wf_provider = provider, wf_source_is_active = active, wf_sha = en_sha en, wf_utc_offset = en_utc_offset en\<rparr>)))"

definition build_icloud_workflow :: "env \<Rightarrow> app_settings \<Rightarrow> source_policy option \<Rightarrow> (fsys, workflow) py" where
  "build_icloud_workflow en s policy =
     seq (require (st_icloud_enabled s) (ValueError ''iCloud Photos is disabled'')) (
     bind_py (source_at en (st_icloud_import_root s) False) (\<lambda>a.
     build_local_workflow en s policy False (Some (icloud_source_ops (en_sha en) a)) ''icloud_photos'' True))"

section \<open>What a built workflow can do\<close>

text \<open>C37: a workflow built without the deletion switch cannot delete at its source: it says so, its policy does not
  enable deletion unless the caller's own does, and the delete operation of its adapter only raises. The
  iCloud workflow is always such a workflow.\<close>

theorem built_without_deletion:
  "(build_local_workflow en s policy False None provider active fs = (Inr wk, fs') \<longrightarrow>
      \<not> can_delete (sc_capabilities (wf_source wk)) \<and> (policy = None \<longrightarrow> \<not> deletion_enabled (wf_policy wk))
      \<and> (\<forall>i v d. \<exists>e. sc_delete (wf_source wk) i v d = (Inl e, d)))
   \<and> (build_icloud_workflow en s policy fs = (Inr wk, fs') \<longrightarrow>
      \<not> can_delete (sc_capabilities (wf_source wk)) \<and> (policy = None \<longrightarrow> \<not> deletion_enabled (wf_policy wk))
      \<and> (\<forall>i v d. \<exists>e. sc_delete (wf_source wk) i v d = (Inl e, d)))"
proof -
  have deny: "\<exists>e. local_delete a i v d = (Inl e, d)" if "\<not> allow_delete a" for a i v d
    using that by (simp add: local_delete_def seq_def)
  have local: "\<not> can_delete (sc_capabilities (wf_source wk)) \<and> (policy = None \<longrightarrow> \<not> deletion_enabled (wf_policy wk))
      \<and> (\<forall>i v d. \<exists>e. sc_delete (wf_source wk) i v d = (Inl e, d))"
    if "build_local_workflow en s policy False src provider active fs = (Inr wk, fs')"
      and "\<And>a. src = Some a \<Longrightarrow> \<not> can_delete (sc_capabilities a) \<and> (\<forall>i v d. \<exists>e. sc_delete a i v d = (Inl e, d))"
    for src provider active fs
    using that unfolding build_local_workflow_def
    by (auto elim!: bind_py_Inr_E simp: standard_policy_def source_at_def local_source_ops_def capabilities_def deny
        split: prod.splits option.splits)
  show ?thesis
  proof (intro conjI impI)
    assume run: "build_icloud_workflow en s policy fs = (Inr wk, fs')"
    then obtain a fs1 where "build_local_workflow en s policy False (Some (icloud_source_ops (en_sha en) a)) ''icloud_photos'' True fs1
        = (Inr wk, fs')"
      unfolding build_icloud_workflow_def by (auto elim!: seq_Inr_E bind_py_Inr_E)
    from local [OF this] show "\<not> can_delete (sc_capabilities (wf_source wk))"
        "policy = None \<Longrightarrow> \<not> deletion_enabled (wf_policy wk)"
        "\<forall>i v d. \<exists>e. sc_delete (wf_source wk) i v d = (Inl e, d)"
      by (simp_all add: icloud_source_ops_def capabilities_def icloud_delete_def)
  qed (use local [of None] in auto)
qed

text \<open>
  Without a key file and a key in the environment the cold objects are encrypted under the key of 32 zero bytes.
\<close>

definition example_env :: env where
  "example_env = \<lparr>en_sha = (\<lambda>b. b), en_gcm = \<lparr>gcm_enc = \<lambda>k n p. p, gcm_dec = \<lambda>k n p. p, gcm_tag = \<lambda>k n p. p\<rparr>, en_nonce = [],
     en_mtime = 0, en_free = 0, en_writable = (\<lambda>p. True), en_cold_key_hex = None, en_test_delete = True, en_utc_offset = 0,
     en_cwd = [], en_kopia = (\<lambda>a b c d. fs_backup_ops (\<lambda>b. b) \<lparr>fb_repository = a, fb_mtime = 0\<rparr>),
     en_rclone = (\<lambda>r c k p. Inl (ValueError r)), en_s3 = (\<lambda>st e r a b. cold_local_ops (\<lambda>b. b)
       \<lparr>gcm_enc = \<lambda>k n p. p, gcm_dec = \<lambda>k n p. p, gcm_tag = \<lambda>k n p. p\<rparr> \<lparr>cl_root = [], cl_key = [], cl_bucket = [],
         cl_scratch = None, cl_nonce = [], cl_mtime = 0, cl_free = 0, cl_writable = True\<rparr>)\<rparr>"

definition example_host_files :: fsys where
  "example_host_files = [([''data''], Dir), ([''data'', ''test-source''], Dir), ([''data'', ''backup''], Dir),
     ([''data'', ''active''], Dir), ([''data'', ''active'', ''iCloud Photos''], Dir)]"

theorem built_without_deletion_witness:
  "\<exists>wk fs' wk2 fs2. build_local_workflow example_env default_settings None False None ''local_test'' False example_host_files = (Inr wk, fs')
     \<and> \<not> can_delete (sc_capabilities (wf_source wk)) \<and> \<not> deletion_enabled (wf_policy wk)
     \<and> build_icloud_workflow example_env (default_settings\<lparr>st_icloud_enabled := True\<rparr>) None example_host_files = (Inr wk2, fs2)
     \<and> \<not> can_delete (sc_capabilities (wf_source wk2))"
proof -
  let ?i = "default_settings\<lparr>st_icloud_enabled := True\<rparr>"
  have "case build_local_workflow example_env default_settings None False None ''local_test'' False example_host_files of
      (Inl e, _) \<Rightarrow> False | (Inr wk, _) \<Rightarrow> True" by code_simp
  then obtain wk fs' where a: "build_local_workflow example_env default_settings None False None ''local_test'' False example_host_files
      = (Inr wk, fs')" by (auto split: prod.splits sum.splits)
  have "case build_icloud_workflow example_env ?i None example_host_files of (Inl e, _) \<Rightarrow> False | (Inr wk, _) \<Rightarrow> True" by code_simp
  then obtain wk2 fs2 where b: "build_icloud_workflow example_env ?i None example_host_files = (Inr wk2, fs2)"
    by (auto split: prod.splits sum.splits)
  from built_without_deletion [THEN conjunct1, THEN mp, OF a] built_without_deletion [THEN conjunct2, THEN mp, OF b] a b
  show ?thesis by blast
qed

lemma missing_key_is_zero:
  assumes "\<not> is_file fs (place en (st_cold_encryption_key_file s))" "en_cold_key_hex en = None"
  shows "cold_key en s fs = (Inr (replicate 32 (CHR 0x00)), fs)"
proof -
  have "from_hex (concat (replicate 32 ''00'')) = Some (replicate 32 (CHR 0x00))" by code_simp
  with assms show ?thesis by (simp add: cold_key_def Let_def bind_py_def gets_def)
qed

end
