(* ===== verification/Web_App.thy ===== *)
theory Web_App
  imports Worker Factory
begin

text \<open>
  The administration web application (\<open>web/app.py\<close>): onboarding, login, the pages, and the actions of the
  administrator. The state is the session of one browser, which the signed cookie carries, with the world. A request
  is a value of \<open>web_request\<close>, its form already typed; the bounds of the form fields are checked before the handler
  as the framework does. Templates are left out: a page is the data it is rendered from. The serialisation of a policy
  by pydantic, the answer of SFTPGo and the number of source pages a scan may take are parameters.
\<close>

record web_session =
  ws_authenticated :: bool
  ws_csrf :: "string option"

record web_config =
  wb_settings :: app_settings
  wb_env :: env
  wb_host :: host
  wb_scan_pages :: nat
  wb_dump :: "source_policy \<Rightarrow> string"
  wb_load :: "string \<Rightarrow> exn + source_policy"
  wb_kdf :: "string \<Rightarrow> bytes \<Rightarrow> bytes"
  wb_sftpgo :: "exn + bool"

record setup_form =
  sf_admin_name :: string
  sf_password :: string
  sf_onboarding_token :: string
  sf_active_root :: string
  sf_backup_root :: string
  sf_csrf :: string

record policy_form =
  pf_archive_after_days :: int
  pf_stability_window_hours :: int
  pf_quarantine_days :: int
  pf_minimum_file_size :: int
  pf_maximum_file_size :: string
  pf_dry_run :: bool
  pf_manual_approval :: bool
  pf_csrf :: string

datatype web_request =
    GetHealth
  | GetSetup
  | PostSetup setup_form
  | GetLogin
  | PostLogin string string
  | PostLogout string
  | GetPage string
  | PostPolicies policy_form
  | PostArchive string
  | PostRestore int string string
  | PostPause string

record page_view =
  pv_name :: string
  pv_counts :: "nat \<times> nat \<times> nat"
  pv_items :: "archive_item list option"
  pv_events :: "audit_event list option"
  pv_jobs :: "job list option"
  pv_preview :: "(source_object \<times> policy_decision) list option"
  pv_health :: "startup_health option"
  pv_sftpgo :: "bool option"
  pv_policy :: "source_policy option"
  pv_deletion :: "bool option"
  pv_lock :: "bool option"

datatype web_reply = Healthz bool | Redirect string | SetupPage bool | LoginPage | DataPage page_view

type_synonym web_state = "web_session \<times> world"

definition in_world :: "(world, 'a) py \<Rightarrow> (web_state, 'a) py" where
  "in_world m = (\<lambda>(s, w). case m w of (r, w') \<Rightarrow> (r, (s, w')))"

definition on_session :: "(web_session \<Rightarrow> web_session) \<Rightarrow> (web_state, unit) py" where
  "on_session f = modify (\<lambda>(s, w). (f s, w))"

section \<open>Helpers\<close>

definition path_text :: "path \<Rightarrow> string" where
  "path_text p = ''/'' @ join ''/'' p"

text \<open>\<open>strftime("%Y%m%dT%H%M%S%f")\<close>\<close>

definition compact_stamp :: "datetime \<Rightarrow> string" where
  "compact_stamp dt =
     (let t = instant dt; day = t div 86400000000; r = t mod 86400000000; s = r div 1000000 in
      case civil day of (y, m, d) \<Rightarrow> pad 4 y @ pad 2 m @ pad 2 d @ ''T'' @ pad 2 (nat (s div 3600))
        @ pad 2 (nat (s mod 3600 div 60)) @ pad 2 (nat (s mod 60)) @ pad 6 (nat (r mod 1000000)))"

text \<open>The part of \<open>context\<close> with an effect: a session without a token gets one.\<close>

definition csrf_context :: "(web_state, string) py" where
  "csrf_context = bind_py (gets (\<lambda>(s, w). ws_csrf s)) (\<lambda>token.
     case token of Some (c # t) \<Rightarrow> ret (c # t)
     | _ \<Rightarrow> bind_py (in_world fresh_token) (\<lambda>n. seq (on_session (\<lambda>s. s\<lparr>ws_csrf := Some n\<rparr>)) (ret n)))"

definition require_csrf :: "string \<Rightarrow> (web_state, unit) py" where
  "require_csrf token = bind_py (gets (\<lambda>(s, w). ws_csrf s)) (\<lambda>expected.
     case expected of Some (c # t) \<Rightarrow>
       bind_py (lift_sum (compare_digest (c # t) token)) (\<lambda>ok. require ok (HTTPException 403 ''CSRF validation failed''))
     | _ \<Rightarrow> raise_py (HTTPException 403 ''CSRF validation failed''))"

definition require_login :: "(web_state, unit) py" where
  "require_login = bind_py (gets (\<lambda>(s, w). ws_authenticated s)) (\<lambda>a. require a (HTTPException 401 ''authentication required''))"

definition setting_of :: "string \<Rightarrow> db \<Rightarrow> string option" where
  "setting_of k d = map_option rs_value (tbl_get rs_key k (settings d))"

definition runtime_value :: "string \<Rightarrow> string \<Rightarrow> (world, string) py" where
  "runtime_value k fallback = session_block (bind_py (query (setting_of k)) (\<lambda>v.
     ret (case v of Some x \<Rightarrow> x | None \<Rightarrow> fallback)))"

definition set_runtime_value :: "string \<Rightarrow> string \<Rightarrow> (world, unit) py" where
  "set_runtime_value k v = session_block (set_setting k v)"

definition archive_policy :: "web_config \<Rightarrow> (world, source_policy) py" where
  "archive_policy c = bind_py (runtime_value ''archive_policy'' []) (\<lambda>v.
     if v = [] then ret default_policy else lift_sum (wb_load c v))"

definition local_workflow :: "web_config \<Rightarrow> source_policy option \<Rightarrow> (world, workflow) py" where
  "local_workflow c p = on_disk (build_local_workflow (wb_env c) (wb_settings c) p False None ''local_test'' False)"

definition root_of :: "web_config \<Rightarrow> (app_settings \<Rightarrow> string) \<Rightarrow> path" where
  "root_of c f = place (wb_env c) (f (wb_settings c))"

definition invalid_form :: exn where
  "invalid_form = HTTPException 422 ''invalid form''"

section \<open>Onboarding and login\<close>

definition onboarding_complete :: "(world, bool) py" where
  "onboarding_complete = session_block (query (\<lambda>d. setting_of ''onboarding_complete'' d = Some ''true''))"

definition setup_page :: "web_config \<Rightarrow> (web_state, web_reply) py" where
  "setup_page c = bind_py (in_world onboarding_complete) (\<lambda>complete.
     if complete then ret (Redirect ''/login'') else bind_py csrf_context (\<lambda>_. ret (SetupPage False)))"

definition valid_setup_form :: "setup_form \<Rightarrow> bool" where
  "valid_setup_form f \<longleftrightarrow> 1 \<le> length (sf_admin_name f) \<and> length (sf_admin_name f) \<le> 100
     \<and> 12 \<le> length (sf_password f) \<and> length (sf_password f) \<le> 256
     \<and> 16 \<le> length (sf_onboarding_token f) \<and> length (sf_onboarding_token f) \<le> 256"

text \<open>\<open>compare_digest\<close> of the stored token, as code points, and the text of the form.\<close>

definition onboarding_token_ok :: "web_config \<Rightarrow> string \<Rightarrow> (world, unit) py" where
  "onboarding_token_ok c token =
     (let p = root_of c st_onboarding_token_file in
      bind_py (look (\<lambda>fs. Inr (is_file fs p))) (\<lambda>ex.
      seq (require ex (HTTPException 503 ''onboarding token is unavailable'')) (
      bind_py (on_disk (read_stripped p)) (\<lambda>expected.
      seq (require (list_all (\<lambda>n. n < 128) expected \<and> is_ascii_text token) TypeError)
        (require (expected = cps token) (HTTPException 403 ''invalid onboarding token''))))))"

definition check_storage :: "web_config \<Rightarrow> path \<Rightarrow> path \<Rightarrow> (world, unit) py" where
  "check_storage c active backup =
     bind_py (look (\<lambda>fs. Inr (is_dir fs active \<and> is_dir fs backup))) (\<lambda>ex.
     seq (require ex (HTTPException 400 ''storage paths must exist'')) (
     bind_py (look (devices_of (wb_host c) active backup)) (\<lambda>differ.
     seq (require differ (HTTPException 400 ''active and backup storage must use different devices'')) (
     bind_py (look (\<lambda>fs. Inr (is_dir fs (root_of c st_source_root)))) (\<lambda>src.
     seq (require src (HTTPException 400 ''local test source path must exist'')) (
     bind_py (local_workflow c None) (\<lambda>wk.
     bind_py (on_disk (cs_available (wf_cold wk))) (\<lambda>ok.
     require ok (HTTPException 503 ''test object storage is unavailable'')))))))))"

definition store_onboarding :: "web_config \<Rightarrow> setup_form \<Rightarrow> path \<Rightarrow> path \<Rightarrow> (world, unit) py" where
  "store_onboarding c f active backup = session_block (
     bind_py fresh_token (\<lambda>salt.
     bind_py (lift_sum (hash_password (wb_kdf c) salt (sf_password f) None)) (\<lambda>hashed.
     bind_py (look (\<lambda>fs. resolve_path fs False active)) (\<lambda>a.
     bind_py (look (\<lambda>fs. resolve_path fs False backup)) (\<lambda>b.
     for_each (\<lambda>(k, v). set_setting k v)
       [(''admin_name'', sf_admin_name f), (''admin_password_hash'', hashed), (''active_root'', path_text a),
        (''backup_root'', path_text b), (''global_deletion_enabled'', ''false''), (''safety_lock'', ''true''),
        (''archive_policy'', wb_dump c default_policy), (''onboarding_complete'', ''true'')])))))"

definition setup_submit :: "web_config \<Rightarrow> setup_form \<Rightarrow> (web_state, web_reply) py" where
  "setup_submit c f =
     seq (require (valid_setup_form f) invalid_form) (
     seq (require_csrf (sf_csrf f)) (
     bind_py (in_world onboarding_complete) (\<lambda>complete.
     seq (require (\<not> complete) (HTTPException 409 ''onboarding is already complete'')) (
     seq (in_world (onboarding_token_ok c (sf_onboarding_token f))) (
     let active = place (wb_env c) (sf_active_root f); backup = place (wb_env c) (sf_backup_root f) in
     seq (in_world (check_storage c active backup)) (
     seq (in_world (store_onboarding c f active backup))
       (bind_py csrf_context (\<lambda>_. ret (SetupPage True)))))))))"

definition login_submit :: "web_config \<Rightarrow> string \<Rightarrow> string \<Rightarrow> (web_state, web_reply) py" where
  "login_submit c password csrf =
     seq (require_csrf csrf) (
     bind_py (in_world (session_block (query (setting_of ''admin_password_hash'')))) (\<lambda>stored.
     bind_py (in_world fresh_token) (\<lambda>salt.
     bind_py (lift_sum (case stored of None \<Rightarrow> Inr False | Some h \<Rightarrow> verify_password (wb_kdf c) salt password h)) (\<lambda>ok.
     seq (require ok (HTTPException 401 ''invalid credentials'')) (
     bind_py (in_world fresh_token) (\<lambda>n.
     seq (on_session (\<lambda>s. s\<lparr>ws_authenticated := True, ws_csrf := Some n\<rparr>)) (ret (Redirect ''/dashboard''))))))))"

definition logout :: "string \<Rightarrow> (web_state, web_reply) py" where
  "logout csrf = seq require_login (seq (require_csrf csrf) (
     seq (on_session (\<lambda>_. \<lparr>ws_authenticated = False, ws_csrf = None\<rparr>)) (ret (Redirect ''/login''))))"

section \<open>Pages\<close>

definition pages :: "string list" where
  "pages = [''dashboard'', ''sources'', ''storage'', ''policies'', ''jobs'', ''archive'', ''quarantine'', ''restores'',
     ''audit'', ''settings'', ''diagnostics'']"

definition newest :: "('r \<Rightarrow> nat) \<Rightarrow> 'r list \<Rightarrow> 'r list" where
  "newest key rs = rev (sort_key key rs)"

definition shown :: "bool \<Rightarrow> ('s, 'a) py \<Rightarrow> ('s, 'a option) py" where
  "shown b m = (if b then bind_py m (\<lambda>x. ret (Some x)) else ret None)"

definition page_rows :: "string \<Rightarrow> (world, (nat \<times> nat \<times> nat) \<times> archive_item list option \<times> audit_event list option \<times> job list option) py" where
  "page_rows name = session_block (query (\<lambda>d.
     ((length (items d), length (jobs d), length (audits d)),
      (if name \<in> {''archive'', ''quarantine'', ''restores''}
       then Some (newest ai_id (filter (\<lambda>r. name = ''quarantine'' \<longrightarrow> ai_state r = QUARANTINED) (items d))) else None),
      (if name = ''audit'' then Some (take 200 (newest au_id (audits d))) else None),
      (if name = ''jobs'' then Some (take 200 (newest jb_id (jobs d))) else None))))"

definition preview :: "web_config \<Rightarrow> (world, (source_object \<times> policy_decision) list) py" where
  "preview c = bind_py (archive_policy c) (\<lambda>policy.
     bind_py (local_workflow c (Some policy)) (\<lambda>wk.
     bind_py (on_disk (sc_discover (wf_source wk) None)) (\<lambda>discovery.
     map_py (\<lambda>ob. bind_py utcnow (\<lambda>now. bind_py (lift_sum (evaluate_policy ob (wf_policy wk) now)) (\<lambda>decision.
       ret (ob, decision)))) (objects discovery))))"

definition page_health :: "web_config \<Rightarrow> (world, startup_health) py" where
  "page_health c = startup_checks (wb_host c) (root_of c st_active_root) (root_of c st_backup_root)
     (root_of c st_staging_root) (Some (root_of c st_smart_health_file)) (st_require_smart_health (wb_settings c)) False"

definition page :: "web_config \<Rightarrow> string \<Rightarrow> (web_state, web_reply) py" where
  "page c name = bind_py (gets (\<lambda>(s, w). ws_authenticated s)) (\<lambda>a.
     if \<not> a then ret (Redirect ''/login'') else
     bind_py (in_world (page_rows name)) (\<lambda>(counts, its, events, rows).
     bind_py (in_world (shown (name = ''sources'') (preview c))) (\<lambda>pre.
     bind_py (in_world (shown (name \<in> {''dashboard'', ''storage'', ''diagnostics''}) (page_health c))) (\<lambda>health.
     bind_py (shown (name = ''storage'') (lift_sum (wb_sftpgo c))) (\<lambda>sftpgo.
     bind_py (in_world (shown (name = ''policies'') (archive_policy c))) (\<lambda>policy.
     bind_py (in_world (shown (name = ''settings'') (runtime_value ''global_deletion_enabled'' ''false''))) (\<lambda>deletion.
     bind_py (in_world (shown (name = ''settings'') (runtime_value ''safety_lock'' ''true''))) (\<lambda>lock.
     bind_py csrf_context (\<lambda>_.
     ret (DataPage \<lparr>pv_name = name, pv_counts = counts, pv_items = its, pv_events = events, pv_jobs = rows,
       pv_preview = pre, pv_health = health, pv_sftpgo = sftpgo, pv_policy = policy,
       pv_deletion = map_option (\<lambda>v. v = ''true'') deletion, pv_lock = map_option (\<lambda>v. v = ''true'') lock\<rparr>))))))))))"

section \<open>Actions\<close>

definition valid_policy_form :: "policy_form \<Rightarrow> bool" where
  "valid_policy_form f \<longleftrightarrow> pf_archive_after_days f \<in> {0..36500} \<and> pf_stability_window_hours f \<in> {0..8760}
     \<and> pf_quarantine_days f \<in> {1..3650} \<and> 0 \<le> pf_minimum_file_size f"

definition maximum_size :: "string \<Rightarrow> exn + int option" where
  "maximum_size text =
     (if strip text = [] then Inr None
      else (case py_int text of Inl _ \<Rightarrow> Inl (HTTPException 422 ''maximum file size must be an integer'')
        | Inr n \<Rightarrow> if n < 1 then Inl (HTTPException 422 ''maximum file size must be positive'') else Inr (Some n)))"

definition form_policy :: "policy_form \<Rightarrow> int option \<Rightarrow> source_policy" where
  "form_policy f mx = default_policy\<lparr>archive_after_days := pf_archive_after_days f,
     stability_window_hours := pf_stability_window_hours f, quarantine_days := pf_quarantine_days f,
     minimum_file_size := pf_minimum_file_size f, maximum_file_size := mx, dry_run := pf_dry_run f,
     manual_approval := pf_manual_approval f, deletion_enabled := False\<rparr>"

definition save_policy :: "web_config \<Rightarrow> policy_form \<Rightarrow> (web_state, web_reply) py" where
  "save_policy c f =
     seq (require (valid_policy_form f) invalid_form) (
     seq require_login (
     seq (require_csrf (pf_csrf f)) (
     bind_py (lift_sum (maximum_size (pf_maximum_file_size f))) (\<lambda>mx.
     seq (in_world (set_runtime_value ''archive_policy'' (wb_dump c (form_policy f mx)))) (ret (Redirect ''/policies?saved=1''))))))"

definition web_archivable :: "archive_state list" where
  "web_archivable = [ELIGIBLE, QUEUED, DOWNLOADING, LOCAL_STAGED, LOCAL_VERIFIED, LOCAL_COMMITTED, LOCAL_BACKUP_PENDING,
     LOCAL_BACKUP_VERIFIED, COLD_UPLOAD_PENDING, COLD_UPLOADED, COLD_VERIFIED, COLD_ARCHIVE_PENDING, COLD_ARCHIVED]"

definition scan_and_archive :: "web_config \<Rightarrow> workflow \<Rightarrow> (world, unit) py" where
  "scan_and_archive c wk = session_block (
     bind_py (discover (wb_scan_pages c) wk None) (\<lambda>found.
     case found of None \<Rightarrow> raise_py (OtherError ''more pages than the scan takes'')
     | Some is \<Rightarrow> for_each (\<lambda>i. bind_py (load_item i) (\<lambda>item.
         when_py (ai_state item \<in> set web_archivable) (archive wk i))) is))"

definition archive_source :: "web_config \<Rightarrow> string \<Rightarrow> (web_state, web_reply) py" where
  "archive_source c csrf =
     seq require_login (
     seq (require_csrf csrf) (
     bind_py (in_world (archive_policy c)) (\<lambda>policy.
     seq (require (\<not> dry_run policy) (HTTPException 409 ''disable dry-run before starting an archive'')) (
     bind_py (in_world (local_workflow c (Some policy))) (\<lambda>wk.
     seq (in_world (scan_and_archive c wk)) (ret (Redirect ''/archive'')))))))"

definition note_restore :: "nat \<Rightarrow> archive_state \<Rightarrow> string \<Rightarrow> string \<Rightarrow> (string \<times> pyval) list \<Rightarrow> (world, unit) py" where
  "note_restore i state status event details =
     seq (bind_py utcnow (\<lambda>now. upd_item i (\<lambda>x. x\<lparr>restore_test_status := Some (status @ '':'' @ isoformat now)\<rparr>)))
       (add_audit (Some i) event (Some (state_value state)) (Some (state_value state)) ''administrator'' (PDict details))"

text \<open>\<open>None\<close> when the copy has to be waited for.\<close>

definition restore_copy :: "workflow \<Rightarrow> archive_item \<Rightarrow> string \<Rightarrow> path \<Rightarrow> (world, bool option) py" where
  "restore_copy wk item copy destination =
     (if copy = ''local'' then bind_py (restore_local wk item destination) (\<lambda>v. ret (Some v))
      else try_py (bind_py (restore_remote wk item destination) (\<lambda>v. ret (Some v)))
        (\<lambda>e. case e of ColdRestorePending requested \<Rightarrow>
            Some (seq (note_restore (ai_id item) (ai_state item) ''remote:pending'' ''restore_requested''
                [(''copy'', PStr ''remote''), (''pending'', PBool True), (''request_started'', PBool requested)]) (ret None))
          | _ \<Rightarrow> None))"

definition restore_item :: "workflow \<Rightarrow> int \<Rightarrow> string \<Rightarrow> path \<Rightarrow> (world, web_reply) py" where
  "restore_item wk i copy destination = session_block (
     bind_py (query (\<lambda>d. if i < 0 then None else tbl_get ai_id (nat i) (items d))) (\<lambda>found.
     case found of None \<Rightarrow> raise_py (HTTPException 404 ''archive item not found'')
     | Some item \<Rightarrow>
       bind_py (restore_copy wk item copy destination) (\<lambda>outcome.
       case outcome of None \<Rightarrow> ret (Redirect ''/restores?pending=1'')
       | Some verified \<Rightarrow>
         seq (note_restore (ai_id item) (ai_state item) (copy @ (if verified then '':verified'' else '':failed'')) ''restore_test''
           [(''copy'', PStr copy), (''verified'', PBool verified), (''destination'', PStr (path_text destination))]) (
         seq (require verified (HTTPException 409 ''restore hash verification failed''))
           (ret (Redirect ''/restores?verified=1''))))))"

definition test_restore :: "web_config \<Rightarrow> int \<Rightarrow> string \<Rightarrow> string \<Rightarrow> (web_state, web_reply) py" where
  "test_restore c i copy csrf =
     seq require_login (
     seq (require_csrf csrf) (
     seq (require (copy \<in> {''local'', ''remote''}) (HTTPException 404 ''unknown restore copy'')) (
     bind_py (in_world (archive_policy c)) (\<lambda>policy.
     bind_py (in_world (local_workflow c (Some policy))) (\<lambda>wk.
     let destination_root = root_of c st_backup_root @ [''mnema-restore-tests''] in
     seq (in_world (on_disk (mkdirs destination_root))) (
     bind_py (in_world utcnow) (\<lambda>now.
     in_world (restore_item wk i copy
       (destination_root @ [''item-'' @ py_str_int i @ ''-'' @ copy @ ''-'' @ compact_stamp now])))))))))"

definition emergency_pause :: "web_config \<Rightarrow> string \<Rightarrow> (web_state, web_reply) py" where
  "emergency_pause c csrf =
     seq require_login (
     seq (require_csrf csrf) (
     seq (in_world (set_runtime_value ''global_deletion_enabled'' ''false'')) (
     seq (in_world (set_runtime_value ''safety_lock'' ''true'')) (
     seq (in_world (session_block (add_audit None ''emergency_pause'' None None ''administrator''
         (PDict [(''global_deletion_enabled'', PBool False), (''safety_lock'', PBool True)]))))
       (ret (Redirect ''/settings?paused=1''))))))"

section \<open>The application\<close>

fun web :: "web_config \<Rightarrow> web_request \<Rightarrow> (web_state, web_reply) py" where
  "web c GetHealth = ret (Healthz (ho_integrity (wb_host c)))"
| "web c GetSetup = setup_page c"
| "web c (PostSetup f) = setup_submit c f"
| "web c GetLogin = bind_py csrf_context (\<lambda>_. ret LoginPage)"
| "web c (PostLogin password csrf) = login_submit c password csrf"
| "web c (PostLogout csrf) = logout csrf"
| "web c (GetPage name) = (if name \<in> set pages then page c name else raise_py (HTTPException 404 ''Not Found''))"
| "web c (PostPolicies f) = save_policy c f"
| "web c (PostArchive csrf) = archive_source c csrf"
| "web c (PostRestore i copy csrf) = test_restore c i copy csrf"
| "web c (PostPause csrf) = emergency_pause c csrf"

text \<open>With Cloudflare Access required, its middleware stands before every handler.\<close>

definition serve_web :: "'k jwt_library \<Rightarrow> web_config \<Rightarrow> http_scope \<Rightarrow> web_request \<Rightarrow> (web_state, web_reply) py" where
  "serve_web j c scope r =
     (if st_cloudflare_access_required (wb_settings c)
        \<and> cf_middleware (cf_validate j (st_cloudflare_team_domain (wb_settings c)) (st_cloudflare_audience (wb_settings c)))
            [''/healthz''] scope = Refused
      then raise_py (HTTPException 403 ''Cloudflare Access authentication required'')
      else web c r)"

end
