(* ===== verification/Web_Proofs.thy ===== *)
theory Web_Proofs
  imports Web_App
begin

text \<open>
  What the administration web application guarantees: forged requests change nothing, a session is logged in only by
  the password, onboarding happens once, and no sequence of requests opens the deletion of sources.
\<close>

section \<open>Running computations of the web state\<close>

lemma in_world_run: "m w = (r, w') \<Longrightarrow> in_world m (s, w) = (r, (s, w'))"
  by (simp add: in_world_def)

lemma on_session_run [simp]: "on_session f (s, w) = (Inr (), (f s, w))"
  by (simp add: on_session_def)

lemma keeps_in_world: "keeps P m \<Longrightarrow> keeps (\<lambda>(s, w). P w) (in_world m)"
  by (auto simp: keeps_def in_world_def split: prod.split)

lemma keeps_in_world_session: "keeps (\<lambda>(s, w). P s) (in_world m)"
  by (auto simp: keeps_def in_world_def split: prod.split)

lemma keeps_on_session: "keeps (\<lambda>(s, w). P w) (on_session f)"
  by (auto simp: keeps_def)

lemma keeps_csrf_context:
  "keeps (\<lambda>(s, w). P w) (in_world fresh_token) \<Longrightarrow> keeps (\<lambda>(s, w). P w) csrf_context"
  unfolding csrf_context_def
  by (intro keeps_bind keeps_gets) (auto intro!: keeps_bind keeps_seq keeps_ret keeps_on_session split: option.split list.split)

lemma require_csrf_run:
  "\<exists>r. require_csrf token (s, w) = (r, (s, w)) \<and> (\<forall>u. r = Inr u \<longrightarrow> ws_csrf s = Some token \<and> token \<noteq> [])"
  by (auto simp: require_csrf_def bind_py_def require_def ret_def raise_py_def compare_digest_def split: option.split list.split)

lemma keeps_require_csrf: "keeps P (require_csrf token)"
proof (rule keepsI)
  fix x :: web_state assume x: "P x"
  obtain s w where sw: "x = (s, w)" by (cases x)
  obtain r where "require_csrf token (s, w) = (r, (s, w))" using require_csrf_run [of token s w] by blast
  with x sw show "P (snd (require_csrf token x))" by simp
qed

lemma keeps_require_login: "keeps P require_login"
  unfolding require_login_def by (intro keeps_bind keeps_gets keeps_require)

lemma require_login_run: "require_login (s, w) = (if ws_authenticated s then Inr () else Inl (HTTPException 401 ''authentication required''), (s, w))"
  by (simp add: require_login_def bind_py_def require_def ret_def raise_py_def)

section \<open>Forged requests\<close>

text \<open>The anti-forgery token of a request that may change something.\<close>

fun csrf_of :: "web_request \<Rightarrow> string option" where
  "csrf_of (PostSetup f) = Some (sf_csrf f)"
| "csrf_of (PostLogin p t) = Some t"
| "csrf_of (PostLogout t) = Some t"
| "csrf_of (PostPolicies f) = Some (pf_csrf f)"
| "csrf_of (PostArchive t) = Some t"
| "csrf_of (PostRestore i n t) = Some t"
| "csrf_of (PostPause t) = Some t"
| "csrf_of _ = None"

fun for_everyone :: "web_request \<Rightarrow> bool" where
  "for_everyone (PostSetup f) = True"
| "for_everyone (PostLogin p t) = True"
| "for_everyone _ = False"

lemma csrf_stops:
  assumes "ws_csrf s \<noteq> Some t \<or> t = []" shows "\<exists>e. require_csrf t (s, w) = (Inl e, (s, w))"
proof -
  obtain r where "require_csrf t (s, w) = (r, (s, w))" "\<forall>u. r = Inr u \<longrightarrow> ws_csrf s = Some t \<and> t \<noteq> []"
    using require_csrf_run [of t s w] by blast
  with assms show ?thesis by (cases r) auto
qed

lemma seq_stops: "m x = (Inl e, x) \<Longrightarrow> \<exists>e. seq m n x = (Inl e, x)"
  by (simp add: seq_def)

lemma csrf_seq_stops:
  assumes "ws_csrf s \<noteq> Some t \<or> t = []" shows "\<exists>e. seq (require_csrf t) n (s, w) = (Inl e, (s, w))"
proof -
  obtain e where "require_csrf t (s, w) = (Inl e, (s, w))" using csrf_stops [OF assms] by blast
  then show ?thesis by (intro seq_stops)
qed

lemma seq_passes: "(\<exists>e. m x = (Inl e, x)) \<or> m x = (Inr (), x) \<Longrightarrow> \<exists>e. n x = (Inl e, x) \<Longrightarrow> \<exists>e. seq m n x = (Inl e, x)"
  by (auto simp: seq_def)

text \<open>C34: a request that carries a wrong or no anti-forgery token, or any request but onboarding and login from a
  session that is not logged in, changes neither the session nor the world: it ends in an error, or, for a
  page, in the redirection to the login.\<close>

theorem web_refuses_forged:
  "(\<forall>t. csrf_of r = Some t \<and> (ws_csrf s \<noteq> Some t \<or> t = [] \<or> \<not> for_everyone r \<and> \<not> ws_authenticated s) \<longrightarrow>
      (\<exists>e. web c r (s, w) = (Inl e, (s, w))))
   \<and> (\<forall>name. r = GetPage name \<and> name \<in> set pages \<and> \<not> ws_authenticated s \<longrightarrow> web c r (s, w) = (Inr (Redirect ''/login''), (s, w)))"
proof (intro conjI allI impI)
  fix t assume "csrf_of r = Some t \<and> (ws_csrf s \<noteq> Some t \<or> t = [] \<or> \<not> for_everyone r \<and> \<not> ws_authenticated s)"
  then have t: "csrf_of r = Some t" and bad: "ws_csrf s \<noteq> Some t \<or> t = [] \<or> \<not> for_everyone r \<and> \<not> ws_authenticated s" by auto
  have login: "(\<exists>e. require_login (s, w) = (Inl e, (s, w))) \<or> require_login (s, w) = (Inr (), (s, w))"
    by (simp add: require_login_run)
  have form: "(\<exists>e. require b e0 (s, w) = (Inl e, (s, w))) \<or> require b e0 (s, w) = (Inr (), (s, w))" for b e0
    by (cases b) simp_all
  have guarded: "\<exists>e. seq require_login (seq (require_csrf t) n) (s, w) = (Inl e, (s, w))"
    if "\<not> for_everyone r" for n :: "(web_state, web_reply) py"
  proof (cases "ws_authenticated s")
    case True
    with bad that have "ws_csrf s \<noteq> Some t \<or> t = []" by simp
    from login csrf_seq_stops [OF this] show ?thesis by (rule seq_passes)
  next
    case False
    then show ?thesis by (intro seq_stops) (simp add: require_login_run)
  qed
  have token: "\<exists>e. seq (require_csrf t) n (s, w) = (Inl e, (s, w))" if "for_everyone r" for n :: "(web_state, web_reply) py"
    by (rule csrf_seq_stops) (use bad that in simp)
  show "\<exists>e. web c r (s, w) = (Inl e, (s, w))"
  proof (cases r)
    case (PostSetup f)
    with t have eq: "t = sf_csrf f" and every: "for_everyone r" by simp_all
    show ?thesis
      unfolding PostSetup web.simps setup_submit_def by (rule seq_passes, rule form, rule token [OF every, unfolded eq])
  next
    case (PostLogin p u)
    with t have eq: "t = u" and every: "for_everyone r" by simp_all
    show ?thesis unfolding PostLogin web.simps login_submit_def by (rule token [OF every, unfolded eq])
  next
    case (PostPolicies f)
    with t have eq: "t = pf_csrf f" and only: "\<not> for_everyone r" by simp_all
    show ?thesis
      unfolding PostPolicies web.simps save_policy_def by (rule seq_passes, rule form, rule guarded [OF only, unfolded eq])
  qed (use t guarded in \<open>simp_all add: logout_def archive_source_def test_restore_def emergency_pause_def\<close>)
next
  fix name assume "r = GetPage name \<and> name \<in> set pages \<and> \<not> ws_authenticated s"
  then show "web c r (s, w) = (Inr (Redirect ''/login''), (s, w))" by (simp add: page_def bind_py_def)
qed


section \<open>Invariants of the database\<close>

lemma both_discover:
  assumes "off_items T" shows "keeps (both T) (discover n wk cursor)"
proof -
  note steps = off_items_rules [OF assms] both_rules
  have ap: "keeps (both T) (apply_policy wk i ob)" for i ob
    unfolding apply_policy_def by (intro keeps_bind keeps_lift_sum steps)
  have add: "keeps (both T) (add_item mk)" for mk
    unfolding add_item_def
    by (intro keeps_bind keeps_seq keeps_ret steps both_on_db) (use assms in \<open>simp add: off_items_def\<close>)
  have ob: "keeps (both T) (discover_object wk ob)" for ob
    unfolding discover_object_def
    by (intro keeps_bind steps) (auto split: option.split intro!: keeps_bind keeps_seq keeps_ret steps ap add)
  show ?thesis
  proof (induction n arbitrary: cursor)
    case 0
    then show ?case by (simp add: keeps_def)
  next
    case (Suc n)
    then show ?case
      by (auto intro!: keeps_bind keeps_map_py keeps_ret steps ob split: option.split)
  qed
qed

lemma setting_of_set:
  "\<exists>w'. set_setting k v w = (Inr (), w') \<and> durable w' = durable w
     \<and> (\<forall>j. setting_of j (live w') = (if j = k then Some v else setting_of j (live w)))"
proof -
  obtain w' where "set_setting k v w = (Inr (), w')" "tbl_get rs_key k (settings (live w')) = Some \<lparr>rs_key = k, rs_value = v\<rparr>"
    "\<forall>j. j \<noteq> k \<longrightarrow> tbl_get rs_key j (settings (live w')) = tbl_get rs_key j (settings (live w))" "durable w' = durable w"
    using set_setting_run [of k v w] by blast
  then show ?thesis by (intro exI [of _ w']) (simp add: setting_of_def)
qed

lemma both_set_setting:
  assumes "\<And>d d'. T d \<Longrightarrow> (\<And>j. setting_of j d' = (if j = k then Some v else setting_of j d)) \<Longrightarrow> T d'"
  shows "keeps (both T) (set_setting k v)"
proof (rule keepsI)
  fix w assume w: "both T w"
  obtain w' where w': "set_setting k v w = (Inr (), w')" "durable w' = durable w"
    "\<forall>j. setting_of j (live w') = (if j = k then Some v else setting_of j (live w))" using setting_of_set by blast
  from assms [of "live w" "live w'"] w w'(3) have "T (live w')" by (simp add: both_def)
  with w w' show "both T (snd (set_setting k v w))" by (simp add: both_def)
qed

text \<open>What every handler keeps, if onboarding and the writes of settings do.\<close>

lemma keeps_web:
  assumes T: "off_items T"
    and onboarding: "\<And>f. keeps (\<lambda>(s, w). both T w) (setup_submit c f)"
    and policy: "\<And>f mx. keeps (both T) (set_setting ''archive_policy'' (wb_dump c (form_policy f mx)))"
    and pause: "keeps (both T) (set_setting ''global_deletion_enabled'' ''false'')" "keeps (both T) (set_setting ''safety_lock'' ''true'')"
  shows "keeps (\<lambda>(s, w). both T w) (web c r)"
proof -
  have pair: "keeps P (Pair x)" for P :: "'x \<Rightarrow> bool" and x :: "exn + 'y" by (simp add: keeps_def)
  note steps = pair off_items_rules [OF T] both_rules keeps_look keeps_bind keeps_seq keeps_ret keeps_raise keeps_require keeps_lift_sum
  note lift = keeps_in_world keeps_on_session keeps_require_csrf keeps_require_login
  have ctx: "keeps (\<lambda>(s, w). both T w) csrf_context" by (intro keeps_csrf_context lift steps)
  have shown: "keeps P m \<Longrightarrow> keeps P (shown b m)" for P :: "'x \<Rightarrow> bool" and m :: "('x, 'y) py" and b
    unfolding shown_def by (auto intro: keeps_bind keeps_ret)
  have rv: "keeps (both T) (runtime_value k d)" for k d
    unfolding runtime_value_def by (intro steps)
  have ap: "keeps (both T) (archive_policy c)"
    unfolding archive_policy_def by (auto intro!: steps rv)
  have lw: "keeps (both T) (local_workflow c p)" for p
    unfolding local_workflow_def by (intro steps)
  have health: "keeps (both T) (page_health c)"
    unfolding page_health_def startup_checks_def by (auto intro!: steps)
  have pre: "keeps (both T) (preview c)"
    unfolding preview_def by (intro steps ap lw keeps_map_py)
  have rows: "keeps (both T) (page_rows name)" for name
    unfolding page_rows_def by (intro steps)
  have page: "keeps (\<lambda>(s, w). both T w) (page c name)" for name
    unfolding page_def case_prod_beta
    by (intro steps keeps_gets keeps_if lift [unfolded case_prod_beta] shown ctx [unfolded case_prod_beta] rv ap health pre rows)
  have note_restore: "keeps (both T) (note_restore i s0 status ev ds)" for i s0 status ev ds
    unfolding note_restore_def by (intro steps)
  have copy: "keeps (both T) (restore_copy wk it name dst)" for wk it name dst
    unfolding restore_copy_def restore_local_def restore_remote_def
    by (auto intro!: steps keeps_try note_restore split: option.splits exn.splits)
  have restore: "keeps (both T) (restore_item wk i name dst)" for wk i name dst
    unfolding restore_item_def by (auto intro!: steps copy note_restore split: option.split)
  have scan: "keeps (both T) (scan_and_archive c wk)" for wk
    unfolding scan_and_archive_def
    by (auto intro!: steps both_discover [OF T] both_archive [OF T] keeps_for_each keeps_when split: option.split)
  have set: "keeps (both T) (set_runtime_value k v)" if "keeps (both T) (set_setting k v)" for k v
    unfolding set_runtime_value_def by (intro steps that)
  show ?thesis
  proof (cases r)
    case (PostSetup f)
    with onboarding show ?thesis by simp
  next
    case (PostPolicies f)
    then show ?thesis by (auto simp: save_policy_def intro!: steps lift set policy)
  next
    case (PostPause t)
    then show ?thesis by (auto simp: emergency_pause_def intro!: steps lift set pause)
  next
    case (PostRestore i n t)
    then show ?thesis by (auto simp: test_restore_def Let_def intro!: steps lift ap lw restore)
  next
    case (PostArchive t)
    then show ?thesis by (auto simp: archive_source_def intro!: steps lift ap lw scan)
  next
    case (PostLogin p t)
    then show ?thesis by (auto simp: login_submit_def intro!: steps lift split: option.split)
  next
    case GetSetup
    then show ?thesis by (auto simp: setup_page_def onboarding_complete_def intro!: steps lift ctx)
  qed (auto simp: logout_def intro!: steps lift ctx page)
qed

section \<open>Sequences of requests\<close>

text \<open>Requests of several browsers, each with its own session, one after the other.\<close>

fun web_run ::
  "'k jwt_library \<Rightarrow> web_config \<Rightarrow> (nat \<times> http_scope \<times> web_request) list \<Rightarrow> (nat \<Rightarrow> web_session) \<times> world \<Rightarrow> (nat \<Rightarrow> web_session) \<times> world" where
  "web_run j c [] bw = bw"
| "web_run j c ((b, scope, r) # rs) (B, w) =
     (case serve_web j c scope r (B b, w) of (res, (s', w')) \<Rightarrow> web_run j c rs (B(b := s'), w'))"

lemma web_run_append: "web_run j c (xs @ ys) bw = web_run j c ys (web_run j c xs bw)"
  by (induction j c xs bw rule: web_run.induct) (simp_all split: prod.split)

lemma keeps_serve: "(\<And>r. keeps P (web c r)) \<Longrightarrow> keeps P (serve_web j c scope r)"
  unfolding serve_web_def by (intro keeps_if keeps_raise)

lemma web_run_invariant:
  assumes step: "\<And>r. keeps (\<lambda>(s, w). P w) (web c r)" and start: "P (snd bw)"
  shows "P (snd (web_run j c rs bw))"
  using start
proof (induction rs arbitrary: bw)
  case (Cons x rs)
  obtain b scope r B w where x: "x = (b, scope, r)" "bw = (B, w)" by (metis prod.exhaust)
  obtain res s' w' where run: "serve_web j c scope r (B b, w) = (res, (s', w'))" by (metis prod.exhaust)
  have "P w'" using keepsD2 [OF keeps_serve [OF step] _ run] Cons.prems x by simp
  with Cons.IH [of "(B(b := s'), w')"] show ?case by (simp add: x run)
qed simp

text \<open>Deletion is not enabled, the safety lock not open, and the stored policy does not delete.\<close>

definition deletion_off :: "web_config \<Rightarrow> db \<Rightarrow> bool" where
  "deletion_off c d \<longleftrightarrow> setting_of ''global_deletion_enabled'' d \<noteq> Some ''true''
     \<and> setting_of ''safety_lock'' d \<in> {None, Some ''true''}
     \<and> (\<forall>v. setting_of ''archive_policy'' d = Some v \<longrightarrow> v = [] \<or> (\<exists>p. v = wb_dump c p \<and> \<not> deletion_enabled p))"

lemma deletion_off_setting:
  assumes "k = ''archive_policy'' \<Longrightarrow> v = [] \<or> (\<exists>p. v = wb_dump c p \<and> \<not> deletion_enabled p)"
    and "k = ''global_deletion_enabled'' \<Longrightarrow> v \<noteq> ''true''" and "k = ''safety_lock'' \<Longrightarrow> v = ''true''"
  shows "keeps (both (deletion_off c)) (set_setting k v)"
  using assms by (intro both_set_setting) (auto simp: deletion_off_def split: if_splits)

lemma off_items_settings: "off_items (\<lambda>d. Q (\<lambda>k. setting_of k d))"
  by (simp add: off_items_def setting_of_def)

lemma no_deletion: "\<not> deletion_enabled default_policy" "\<not> deletion_enabled (form_policy f mx)"
  by (simp_all add: default_policy_def form_policy_def)

lemma deletion_off_setup: "keeps (\<lambda>(s, w). both (deletion_off c) w) (setup_submit c f)"
proof -
  note steps = both_rules keeps_look keeps_bind keeps_seq keeps_ret keeps_raise keeps_require keeps_lift_sum
  note lift = keeps_in_world keeps_on_session keeps_require_csrf keeps_require_login
  have store: "keeps (both (deletion_off c)) (store_onboarding c f a b)" for a b
    unfolding store_onboarding_def
    by (intro steps keeps_for_each) (use no_deletion in \<open>auto intro!: deletion_off_setting\<close>)
  have token: "keeps (both (deletion_off c)) (onboarding_token_ok c t)" for t
    unfolding onboarding_token_ok_def Let_def by (intro steps)
  have storage: "keeps (both (deletion_off c)) (check_storage c a b)" for a b
    unfolding check_storage_def local_workflow_def by (intro steps)
  have complete: "keeps (both (deletion_off c)) onboarding_complete"
    unfolding onboarding_complete_def by (intro steps)
  have ctx: "keeps (\<lambda>(s, w). both (deletion_off c) w) csrf_context" by (intro keeps_csrf_context lift steps)
  show ?thesis
    unfolding setup_submit_def Let_def by (intro steps lift store token storage complete ctx)
qed

text \<open>C33: whatever requests whatever browsers send in whatever order, the web application never enables the deletion
  of sources, never opens the safety lock, and never stores a policy that deletes.\<close>

theorem deletion_stays_off:
  assumes "deletion_off c (live w)" "deletion_off c (durable w)"
  shows "deletion_off c (live (snd (web_run j c rs (B, w)))) \<and> deletion_off c (durable (snd (web_run j c rs (B, w))))"
proof -
  have "off_items (deletion_off c)"
    unfolding deletion_off_def by (rule off_items_settings)
  then have "keeps (\<lambda>(s, w). both (deletion_off c) w) (web c r)" for r
    by (rule keeps_web) (use no_deletion in \<open>auto intro!: deletion_off_setting deletion_off_setup\<close>)
  from web_run_invariant [where P = "both (deletion_off c)", OF this, of "(B, w)" j rs] assms show ?thesis
    by (simp add: both_def)
qed

text \<open>Once complete, onboarding is refused.\<close>

definition onboarded :: "string option \<Rightarrow> db \<Rightarrow> bool" where
  "onboarded h d \<longleftrightarrow> setting_of ''onboarding_complete'' d = Some ''true'' \<and> setting_of ''admin_password_hash'' d = h"

lemma onboarded_setup: "keeps (\<lambda>(s, w). both (onboarded h) w) (setup_submit c f)"
proof (rule keepsI)
  fix x :: web_state assume x: "case x of (s, w) \<Rightarrow> both (onboarded h) w"
  obtain s w where sw: "x = (s, w)" by (cases x)
  let ?w = "w\<lparr>live := durable w\<rparr>"
  have d: "onboarded h (durable w)" using x sw by (simp add: both_def)
  then have complete: "in_world onboarding_complete (s, w) = (Inr True, (s, ?w))"
    by (simp add: in_world_def onboarding_complete_def session_block_def query_def onboarded_def)
  have "snd (setup_submit c f x) \<in> {(s, w), (s, ?w)}"
  proof (cases "valid_setup_form f")
    case True
    obtain r where r: "require_csrf (sf_csrf f) (s, w) = (r, (s, w))" using require_csrf_run [of "sf_csrf f" s w] by blast
    with True complete show ?thesis by (cases r) (simp_all add: setup_submit_def seq_def sw)
  qed (simp add: setup_submit_def seq_def sw)
  then show "case snd (setup_submit c f x) of (s, w) \<Rightarrow> both (onboarded h) w"
    using x d sw by (auto simp: both_def)
qed

text \<open>Onboarding happens once. After it is complete no sequence of requests changes the password of the
  administrator or makes onboarding open again.\<close>

theorem web_onboards_once:
  assumes "setting_of ''onboarding_complete'' (durable w) = Some ''true''" "live w = durable w"
  shows "setting_of ''onboarding_complete'' (durable (snd (web_run j c rs (B, w)))) = Some ''true''
    \<and> setting_of ''admin_password_hash'' (durable (snd (web_run j c rs (B, w)))) = setting_of ''admin_password_hash'' (durable w)"
proof -
  let ?h = "setting_of ''admin_password_hash'' (durable w)"
  have "off_items (onboarded ?h)" unfolding onboarded_def by (rule off_items_settings)
  then have "keeps (\<lambda>(s, w). both (onboarded ?h) w) (web c r)" for r
    by (rule keeps_web) (auto intro!: both_set_setting onboarded_setup simp: onboarded_def)
  from web_run_invariant [where P = "both (onboarded ?h)", OF this, of "(B, w)" j rs] assms show ?thesis
    by (simp add: both_def onboarded_def)
qed

section \<open>Logging in\<close>

lemma keeps_logged_out:
  assumes "\<And>p t. r \<noteq> PostLogin p t" shows "keeps (\<lambda>(s, w). \<not> ws_authenticated s) (web c r)"
proof -
  note steps = keeps_in_world_session keeps_gets keeps_bind keeps_seq keeps_ret keeps_raise keeps_require keeps_lift_sum
    keeps_require_csrf keeps_require_login
  have token: "keeps (\<lambda>(s, w). \<not> ws_authenticated s) (on_session (\<lambda>s. s\<lparr>ws_csrf := t\<rparr>))"
    "keeps (\<lambda>(s, w). \<not> ws_authenticated s) (on_session (\<lambda>_. \<lparr>ws_authenticated = False, ws_csrf = None\<rparr>))" for t
    by (auto simp: keeps_def)
  have ctx: "keeps (\<lambda>(s, w). \<not> ws_authenticated s) csrf_context"
    unfolding csrf_context_def by (intro steps) (auto intro!: steps token split: option.split list.split)
  show ?thesis
  proof (cases r)
    case (PostLogin p t)
    with assms show ?thesis by blast
  next
    case (GetPage n)
    have "keeps (\<lambda>(s, w). \<not> ws_authenticated s) (page c n)"
      by (auto simp: keeps_def page_def bind_py_def)
    with GetPage show ?thesis by (auto intro: steps)
  qed (auto simp: setup_page_def setup_submit_def logout_def save_policy_def archive_source_def test_restore_def
      emergency_pause_def Let_def intro!: steps ctx token)
qed

lemma login_Inr:
  assumes "login_submit c p t (s, w) = (res, (s', w'))" "ws_authenticated s'" "\<not> ws_authenticated s"
  shows "\<exists>h salt. setting_of ''admin_password_hash'' (durable w) = Some h \<and> verify_password (wb_kdf c) salt p h = Inr True
    \<and> ws_csrf s = Some t"
proof -
  obtain r where r: "require_csrf t (s, w) = (r, (s, w))" "\<forall>u. r = Inr u \<longrightarrow> ws_csrf s = Some t \<and> t \<noteq> []"
    using require_csrf_run [of t s w] by blast
  let ?hash = "setting_of ''admin_password_hash'' (durable w)" and ?salt = "rand w (draws w)"
  have "\<exists>u. r = Inr u" "(case ?hash of None \<Rightarrow> Inr False | Some h \<Rightarrow> verify_password (wb_kdf c) ?salt p h) = Inr True"
    using assms r(1)
    by (auto simp: login_submit_def bind_py_def seq_def in_world_def session_block_def query_def fresh_token_def require_def
        split: sum.splits if_splits)
  with r(2) show ?thesis by (auto split: option.splits)
qed

text \<open>C35: a browser whose session is logged in sent a login before, with its anti-forgery token and a password that
  the hash stored at that time accepts; nothing else logs a session in.\<close>

theorem web_login_needs_password:
  assumes "ws_authenticated (fst (web_run j c rs (B, w)) b)" "\<not> ws_authenticated (B b)"
  shows "\<exists>before scope p t later h salt. rs = before @ (b, scope, PostLogin p t) # later
    \<and> setting_of ''admin_password_hash'' (durable (snd (web_run j c before (B, w)))) = Some h
    \<and> verify_password (wb_kdf c) salt p h = Inr True
    \<and> ws_csrf (fst (web_run j c before (B, w)) b) = Some t"
  using assms
proof (induction rs rule: rev_induct)
  case (snoc x rs)
  obtain b' scope r where x: "x = (b', scope, r)" by (metis prod.exhaust)
  obtain B1 w1 where bw: "web_run j c rs (B, w) = (B1, w1)" by (metis prod.exhaust)
  obtain res s' w' where run: "serve_web j c scope r (B1 b', w1) = (res, (s', w'))" by (metis prod.exhaust)
  have last: "web_run j c (rs @ [x]) (B, w) = (B1(b' := s'), w')" by (simp add: web_run_append bw x run)
  show ?case
  proof (cases "ws_authenticated (B1 b)")
    case True
    with snoc.IH [unfolded bw] snoc.prems(2) show ?thesis by fastforce
  next
    case False
    with snoc.prems(1) last have b: "b' = b" "ws_authenticated s'" by (auto split: if_splits)
    have logged: "web c r (B1 b, w1) = (res, (s', w'))"
      using run b False by (auto simp: serve_web_def split: if_splits)
    show ?thesis
    proof (cases "\<exists>p t. r = PostLogin p t")
      case True
      then obtain p t where r: "r = PostLogin p t" by blast
      with logged have "login_submit c p t (B1 b, w1) = (res, (s', w'))" by simp
      from login_Inr [OF this b(2) False] x r b(1) bw show ?thesis by fastforce
    next
      case no: False
      then have "keeps (\<lambda>(s, w). \<not> ws_authenticated s) (web c r)" by (intro keeps_logged_out) blast
      from keepsD2 [OF this _ logged] False b(2) show ?thesis by simp
    qed
  qed
qed simp

section \<open>Restores\<close>

text \<open>
  A restore that fails its verification is refused inside the session block, so the status and the audit event that
  should record the failure are rolled back with it.
\<close>

lemma failed_restore_unrecorded:
  assumes item: "tbl_get ai_id i (items (durable w)) = Some item"
    and failed: "restore_copy wk item copy dst (w\<lparr>live := durable w\<rparr>) = (Inr (Some False), w1)" and same: "durable w1 = durable w"
  shows "\<exists>w'. restore_item wk (int i) copy dst w = (Inl (HTTPException 409 ''restore hash verification failed''), w')
    \<and> live w' = durable w \<and> durable w' = durable w"
proof -
  have note_run: "\<exists>w'. note_restore k s0 status ev ds w1 = (Inr (), w') \<and> durable w' = durable w1" for k s0 status ev ds
    by (simp add: note_restore_def seq_def bind_py_def utcnow_def upd_item_def add_audit_def on_db_def)
  obtain w2 where w2: "note_restore (ai_id item) (ai_state item) (copy @ '':failed'') ''restore_test''
      [(''copy'', PStr copy), (''verified'', PBool False), (''destination'', PStr (path_text dst))] w1 = (Inr (), w2)"
    "durable w2 = durable w1"
    using note_run by blast
  show ?thesis
    using item failed w2 same by (simp add: restore_item_def session_block_def query_def seq_def)
qed

section \<open>Witnesses\<close>

definition example_web :: web_config where
  "example_web = \<lparr>wb_settings = default_settings, wb_env = example_env, wb_host = example_host, wb_scan_pages = 1,
     wb_dump = (\<lambda>p. ''policy''), wb_load = (\<lambda>v. Inr default_policy), wb_kdf = (\<lambda>p s. take 2 p), wb_sftpgo = Inr True\<rparr>"

definition example_jwt :: "unit jwt_library" where
  "example_jwt = \<lparr>jl_key = \<lambda>t. Inl (InvalidToken t), jl_decode = \<lambda>t k d. Inl (InvalidToken t)\<rparr>"

definition web_db :: db where
  "web_db = empty_db\<lparr>settings := [\<lparr>rs_key = ''onboarding_complete'', rs_value = ''true''\<rparr>,
     \<lparr>rs_key = ''admin_password_hash'', rs_value = ''scrypt$61$636f''\<rparr>, \<lparr>rs_key = ''safety_lock'', rs_value = ''true''\<rparr>]\<rparr>"

definition web_world :: world where
  "web_world = \<lparr>disk = example_host_files, live = web_db, durable = web_db, clock = (\<lambda>n. 0), ticks = 0,
     rand = (\<lambda>n. ''tok''), draws = 0\<rparr>"

definition visitor :: web_session where
  "visitor = \<lparr>ws_authenticated = False, ws_csrf = None\<rparr>"

definition any_scope :: http_scope where
  "any_scope = \<lparr>hs_type = ''http'', hs_path = None, hs_client = None, hs_headers = []\<rparr>"

definition example_requests :: "(nat \<times> http_scope \<times> web_request) list" where
  "example_requests = [(1, any_scope, GetLogin), (1, any_scope, PostLogin ''correct horse'' ''tok''), (1, any_scope, PostPause ''tok'')]"

theorem web_refuses_forged_witness:
  "(\<exists>e. web example_web (PostPause ''tok'') (visitor, web_world) = (Inl e, (visitor, web_world)))
   \<and> web example_web (GetPage ''settings'') (visitor, web_world) = (Inr (Redirect ''/login''), (visitor, web_world))"
proof
  show "\<exists>e. web example_web (PostPause ''tok'') (visitor, web_world) = (Inl e, (visitor, web_world))"
    by (rule web_refuses_forged [THEN conjunct1, rule_format, of _ "''tok''"]) (simp add: visitor_def)
  show "web example_web (GetPage ''settings'') (visitor, web_world) = (Inr (Redirect ''/login''), (visitor, web_world))"
    by (rule web_refuses_forged [THEN conjunct2, rule_format, of _ "''settings''"]) (simp add: visitor_def pages_def)
qed

theorem deletion_stays_off_witness:
  "deletion_off example_web (durable (snd (web_run example_jwt example_web example_requests (\<lambda>_. visitor, web_world))))"
proof -
  have "deletion_off example_web web_db" by (simp add: deletion_off_def setting_of_def web_db_def empty_db_def)
  then have "deletion_off example_web (live web_world)" "deletion_off example_web (durable web_world)" by (simp_all add: web_world_def)
  from deletion_stays_off [OF this] show ?thesis by blast
qed

theorem web_onboards_once_witness:
  "setting_of ''admin_password_hash'' (durable (snd (web_run example_jwt example_web example_requests (\<lambda>_. visitor, web_world))))
     = Some ''scrypt$61$636f''"
proof -
  have d: "setting_of ''onboarding_complete'' (durable web_world) = Some ''true''" "live web_world = durable web_world"
    "setting_of ''admin_password_hash'' (durable web_world) = Some ''scrypt$61$636f''"
    by (simp_all add: web_world_def web_db_def empty_db_def setting_of_def)
  from web_onboards_once [OF d(1,2), of example_jwt example_web example_requests "\<lambda>_. visitor"] d(3) show ?thesis by metis
qed

theorem web_login_needs_password_witness:
  "ws_authenticated (fst (web_run example_jwt example_web example_requests (\<lambda>_. visitor, web_world)) 1)
   \<and> (\<exists>before scope p t later. example_requests = before @ (1, scope, PostLogin p t) # later)"
proof -
  have logged: "ws_authenticated (fst (web_run example_jwt example_web example_requests (\<lambda>_. visitor, web_world)) 1)" by code_simp
  have "\<not> ws_authenticated visitor" by (simp add: visitor_def)
  from web_login_needs_password [OF logged this] logged show ?thesis by blast
qed

end
