(* ===== verification/ICloud_Control.thy ===== *)
theory ICloud_Control
  imports Models Json_Values
begin

text \<open>
  The iCloud control client (\<open>adapters/sources/icloud_control.py\<close>): the quota, the inventory and the deletion to
  the album of recently deleted photos. The pinned \<open>pyicloud_ipd\<close> service is a parameter with a state of its
  own, \<open>apple\<close>: logging in, the storage report, iterating the two albums and posting a modification.
\<close>

section \<open>Data\<close>

record icloud_quota =
  q_used :: int
  q_quota :: int

definition used_percent :: "icloud_quota \<Rightarrow> exn + rat" where
  "used_percent q = (if q_quota q = 0 then Inl (OtherError ''ZeroDivisionError'')
     else Inr (rat_of_int (q_used q) / rat_of_int (q_quota q) * 100))"

record remote_asset =
  ra_id :: string
  ra_record_name :: string
  ra_change_tag :: string
  ra_created_at :: datetime
  ra_size :: nat
  ra_favorite :: bool
  ra_expected :: nat

text \<open>The protocol the clean-up is written against.\<close>

record 'r control =
  ct_quota :: "('r, icloud_quota) py"
  ct_assets :: "('r, remote_asset list) py"
  ct_delete :: "string \<Rightarrow> string \<Rightarrow> string \<Rightarrow> ('r, bool) py"

section \<open>The service\<close>

text \<open>
  A photo as the library shows it: for each version whether its key is a \<open>LivePhotoVersionSize\<close>, the value of
  the key and the size; entries of its record that may be missing are options.
\<close>

record photo =
  ph_id :: string
  ph_size :: nat
  ph_versions :: "(bool \<times> string \<times> nat) list"
  ph_record_name :: "string option"
  ph_change_tag :: "string option"
  ph_created :: datetime
  ph_favorite :: "bool option"

record 'r apple =
  ap_login :: "('r, bool) py"
  ap_usage :: "('r, json) py"
  ap_photos :: "('r, photo list) py"
  ap_deleted :: "('r, photo list) py"
  ap_zone :: json
  ap_modify :: "json \<Rightarrow> ('r, json) py"
  ap_float :: "nat list \<Rightarrow> rat option"

definition pyi_service :: "'r apple \<Rightarrow> ('r, unit) py" where
  "pyi_service a = bind_py (try_py (ap_login a) (\<lambda>e. Some (raise_py (ICloudControlError ''iCloud authentication is unavailable''))))
     (\<lambda>ok. require ok (ICloudControlError ''iCloud authentication is unavailable''))"

section \<open>Quota\<close>

text \<open>
  A number of a report, \<open>None\<close> for what is no \<open>int\<close> or \<open>float\<close>; \<open>Inl\<close> is an infinite float with its sign.
\<close>

definition report_number :: "(nat list \<Rightarrow> rat option) \<Rightarrow> json \<Rightarrow> (bool + rat) option" where
  "report_number fl v = (case v of JInt n \<Rightarrow> Some (Inr (rat_of_int n)) | JBool b \<Rightarrow> Some (Inr (if b then 1 else 0))
     | JFloat t \<Rightarrow> Some (case fl t of None \<Rightarrow> Inl (t \<noteq> [] \<and> hd t = 45) | Some q \<Rightarrow> Inr q) | _ \<Rightarrow> None)"

definition not_negative :: "bool + rat \<Rightarrow> bool" where
  "not_negative n = (case n of Inl neg \<Rightarrow> \<not> neg | Inr q \<Rightarrow> 0 \<le> q)"

definition py_trunc :: "bool + rat \<Rightarrow> exn + int" where
  "py_trunc n = (case n of Inl _ \<Rightarrow> Inl (OtherError ''OverflowError'') | Inr q \<Rightarrow> Inr (if 0 \<le> q then \<lfloor>q\<rfloor> else \<lceil>q\<rceil>))"

definition report_field :: "(nat list \<Rightarrow> rat option) \<Rightarrow> json \<Rightarrow> string \<Rightarrow> exn + (bool + rat) option" where
  "report_field fl p k = bind_sum (dict_get p k) (\<lambda>v.
     bind_sum (case v of Some (JObject kvs) \<Rightarrow> dict_get (JObject kvs) ''value'' | _ \<Rightarrow> Inr v) (\<lambda>v.
     Inr (Option.bind v (report_number fl))))"

fun positive_int :: "(nat list \<Rightarrow> rat option) \<Rightarrow> json \<Rightarrow> string list \<Rightarrow> exn + int" where
  "positive_int fl p [] = Inl (ValueError ''required storage field is absent'')"
| "positive_int fl p (k # ks) =
     bind_sum (report_field fl p k) (\<lambda>v. case v of
       Some n \<Rightarrow> if not_negative n
         then bind_sum (py_trunc n) (\<lambda>result.
           if contains ''quota'' (lower k) \<and> result = 0 then Inl (ValueError ''required storage field is absent'')
           else Inr result)
         else positive_int fl p ks
     | None \<Rightarrow> positive_int fl p ks)"

fun media_sum :: "(nat list \<Rightarrow> rat option) \<Rightarrow> json list \<Rightarrow> exn + int" where
  "media_sum fl [] = Inr 0"
| "media_sum fl (entry # es) = (case entry of
     JObject kvs \<Rightarrow> bind_sum (dict_get entry ''usage'') (\<lambda>v.
       case Option.bind v (report_number fl) of None \<Rightarrow> Inl (ValueError ''iCloud media usage is malformed'')
       | Some n \<Rightarrow> bind_sum (py_trunc n) (\<lambda>u. bind_sum (media_sum fl es) (\<lambda>s. Inr (u + s))))
   | _ \<Rightarrow> Inl (ValueError ''iCloud media usage is malformed''))"

definition media_used :: "(nat list \<Rightarrow> rat option) \<Rightarrow> json \<Rightarrow> exn \<Rightarrow> exn + int" where
  "media_used fl info e = bind_sum (dict_get info ''storageUsageByMedia'') (\<lambda>media.
     case media of Some (JList es) \<Rightarrow>
         if es = [] then Inl (ValueError ''iCloud media usage is malformed'') else media_sum fl es
     | _ \<Rightarrow> Inl e)"

definition quota_of_reply :: "(nat list \<Rightarrow> rat option) \<Rightarrow> json \<Rightarrow> exn + icloud_quota" where
  "quota_of_reply fl reply =
     bind_sum (dict_get reply ''storageUsageInfo'') (\<lambda>entry.
     let info = (case entry of None \<Rightarrow> reply | Some v \<Rightarrow> v) in
     bind_sum (positive_int fl info [''storageQuota'', ''quotaStorage'', ''quota'']) (\<lambda>quota.
     bind_sum (case positive_int fl info [''storageUsed'', ''totalStorageUsed'', ''used''] of
         Inr used \<Rightarrow> Inr used | Inl e \<Rightarrow> if is_ValueError e then media_used fl info e else Inl e) (\<lambda>used.
     Inr \<lparr>q_used = used, q_quota = quota\<rparr>)))"

definition pyi_quota :: "'r apple \<Rightarrow> ('r, icloud_quota) py" where
  "pyi_quota a = seq (pyi_service a) (
     bind_py (try_py (bind_py (ap_usage a) (\<lambda>reply. lift_sum (quota_of_reply (ap_float a) reply)))
         (\<lambda>e. Some (raise_py (ICloudControlError ''iCloud quota response is unavailable or malformed'')))) (\<lambda>q.
     seq (require (q_used q \<le> q_quota q) (ICloudControlError ''iCloud quota response is inconsistent''))
     (ret q)))"

section \<open>Inventory\<close>

definition remote_asset_of :: "photo \<Rightarrow> exn + remote_asset" where
  "remote_asset_of p =
     (let live = filter fst (ph_versions p);
          extra = (case List.find (\<lambda>(l, v, n). l \<and> v = ''original'') (ph_versions p) of None \<Rightarrow> 0 | Some (l, v, n) \<Rightarrow> n) in
      case (ph_favorite p, ph_record_name p, ph_change_tag p) of
        (Some f, Some name, Some tag) \<Rightarrow>
          Inr \<lparr>ra_id = ph_id p, ra_record_name = name, ra_change_tag = tag, ra_created_at = ph_created p,
            ra_size = ph_size p + extra, ra_favorite = f, ra_expected = 1 + (if live \<noteq> [] then 1 else 0)\<rparr>
      | _ \<Rightarrow> Inl KeyError)"

definition pyi_assets :: "'r apple \<Rightarrow> ('r, remote_asset list) py" where
  "pyi_assets a = seq (pyi_service a)
     (try_py (bind_py (ap_photos a) (map_py (\<lambda>p. lift_sum (remote_asset_of p))))
       (\<lambda>e. Some (raise_py (ICloudControlError ''iCloud asset inventory is unavailable''))))"

section \<open>Deletion\<close>

definition find_photo :: "string \<Rightarrow> photo list \<Rightarrow> photo option" where
  "find_photo i ps = List.find (\<lambda>p. ph_id p = i) ps"

definition delete_body :: "json \<Rightarrow> string \<Rightarrow> string \<Rightarrow> json" where
  "delete_body zone record_name tag =
     (let text = (\<lambda>s. JText (cps s)); obj = (\<lambda>kvs. JObject (map (apfst cps) kvs)) in
      obj [(''atomic'', JBool True), (''desiredKeys'', JList [text ''isDeleted'']),
        (''operations'', JList [obj [(''operationType'', text ''update''),
           (''record'', obj [(''fields'', obj [(''isDeleted'', obj [(''value'', JInt 1)])]),
              (''recordChangeTag'', text tag), (''recordName'', text record_name), (''recordType'', text ''CPLAsset'')])]]),
        (''zoneID'', zone)])"

fun any_error :: "json list \<Rightarrow> exn + bool" where
  "any_error [] = Inr False"
| "any_error (v # vs) = bind_sum (dict_get v ''serverErrorCode'') (\<lambda>code.
     if (case code of None \<Rightarrow> False | Some c \<Rightarrow> json_truthy c) then Inr True else any_error vs)"

definition check_reply :: "json \<Rightarrow> exn + unit" where
  "check_reply reply = bind_sum (dict_get reply ''records'') (\<lambda>r.
     let records = (case r of None \<Rightarrow> JList [] | Some v \<Rightarrow> v);
         rejected = Inl (ICloudControlError ''Apple rejected iCloud asset deletion'') in
     if \<not> json_truthy records then rejected
     else bind_sum (json_entries records) (\<lambda>vs. bind_sum (any_error vs) (\<lambda>bad. if bad then rejected else Inr ())))"

definition is_control_error :: "exn \<Rightarrow> bool" where
  "is_control_error e = (case e of ICloudControlError _ \<Rightarrow> True | _ \<Rightarrow> False)"

definition confirm_deletion :: "'r apple \<Rightarrow> string \<Rightarrow> json \<Rightarrow> ('r, bool) py" where
  "confirm_deletion a i body = try_py
     (bind_py (ap_modify a body) (\<lambda>reply.
      seq (lift_sum (check_reply reply)) (
      seq (pyi_service a) (
      bind_py (ap_photos a) (\<lambda>fresh.
      bind_py (ap_deleted a) (\<lambda>recent.
      ret (find_photo i fresh = None \<and> find_photo i recent \<noteq> None)))))))
     (\<lambda>e. if is_control_error e then None else Some (raise_py (ICloudControlError ''iCloud deletion result is ambiguous'')))"

definition pyi_delete :: "'r apple \<Rightarrow> string \<Rightarrow> string \<Rightarrow> string \<Rightarrow> ('r, bool) py" where
  "pyi_delete a i record_name tag = seq (pyi_service a) (
     bind_py (ap_photos a) (\<lambda>library.
     case find_photo i library of
       None \<Rightarrow> bind_py (ap_deleted a) (\<lambda>recent. ret (find_photo i recent \<noteq> None))
     | Some p \<Rightarrow>
         (case (ph_record_name p, ph_change_tag p) of
            (None, _) \<Rightarrow> raise_py KeyError
          | (Some n, None) \<Rightarrow> if n \<noteq> record_name then raise_py (ICloudControlError ''iCloud asset changed after approval'')
              else raise_py KeyError
          | (Some n, Some t) \<Rightarrow>
              if n \<noteq> record_name \<or> t \<noteq> tag then raise_py (ICloudControlError ''iCloud asset changed after approval'')
              else confirm_deletion a i (delete_body (ap_zone a) record_name tag))))"

definition pyicloud_control :: "'r apple \<Rightarrow> 'r control" where
  "pyicloud_control a = \<lparr>ct_quota = pyi_quota a, ct_assets = pyi_assets a, ct_delete = pyi_delete a\<rparr>"


section \<open>What the client guarantees\<close>

lemma positive_int_bounds:
  assumes "positive_int fl p ks = Inr n" shows "0 \<le> n" "(\<forall>k \<in> set ks. contains ''quota'' (lower k)) \<Longrightarrow> 0 < n"
proof -
  have "0 \<le> n \<and> ((\<forall>k \<in> set ks. contains ''quota'' (lower k)) \<longrightarrow> 0 < n)"
    using assms
  proof (induction ks)
    case (Cons k ks)
    from Cons.prems obtain v where v: "report_field fl p k = Inr v" and
      n: "(case v of Some n' \<Rightarrow> if not_negative n'
         then bind_sum (py_trunc n') (\<lambda>result.
           if contains ''quota'' (lower k) \<and> result = 0 then Inl (ValueError ''required storage field is absent'')
           else Inr result)
         else positive_int fl p ks
       | None \<Rightarrow> positive_int fl p ks) = Inr n"
      by (auto simp: bind_sum_Inr)
    have trunc: "0 \<le> m" if "py_trunc n' = Inr m" "not_negative n'" for m n'
      using that by (auto simp: py_trunc_def not_negative_def split: sum.splits if_splits)
    show ?case
    proof (cases "\<exists>n'. v = Some n' \<and> not_negative n'")
      case True
      then obtain n' where n': "v = Some n'" "not_negative n'" by blast
      with n have "py_trunc n' = Inr n" "\<not> (contains ''quota'' (lower k) \<and> n = 0)"
        by (auto simp: bind_sum_Inr split: if_splits)
      with trunc n'(2) show ?thesis by (auto simp: order_less_le)
    next
      case False
      with n have "positive_int fl p ks = Inr n" by (cases v) auto
      with Cons.IH show ?thesis by simp
    qed
  qed simp
  then show "0 \<le> n" "(\<forall>k \<in> set ks. contains ''quota'' (lower k)) \<Longrightarrow> 0 < n" by blast+
qed

lemma quota_of_reply_positive:
  assumes "quota_of_reply fl v = Inr q" shows "0 < q_quota q"
proof -
  from assms obtain info where
    "positive_int fl info [''storageQuota'', ''quotaStorage'', ''quota''] = Inr (q_quota q)"
    unfolding quota_of_reply_def Let_def by (auto simp: bind_sum_Inr simp del: positive_int.simps)
  moreover have "\<forall>k \<in> set [''storageQuota'', ''quotaStorage'', ''quota'']. contains ''quota'' (lower k)"
    by (simp only: list.set ball_simps) code_simp
  ultimately show ?thesis by (rule positive_int_bounds(2))
qed

lemma try_Inr: "(\<And>e k. h e = Some k \<Longrightarrow> \<exists>e'. k = raise_py e') \<Longrightarrow> try_py m h s = (Inr x, t) \<Longrightarrow> m s = (Inr x, t)"
  by (fastforce simp: try_py_def raise_py_def split: prod.splits sum.splits option.splits)

text \<open>Whatever Apple's report contains, a quota the client returns is usable: the quota is positive and not
  exceeded, so the percentage of its use is defined and at most one hundred.\<close>

theorem pyi_quota_usable:
  assumes "pyi_quota a r = (Inr q, r')"
  shows "0 < q_quota q \<and> q_used q \<le> q_quota q \<and> (\<exists>p. used_percent q = Inr p \<and> p \<le> 100)"
proof -
  from assms obtain r1 r2 where
    got: "try_py (bind_py (ap_usage a) (\<lambda>v. lift_sum (quota_of_reply (ap_float a) v)))
         (\<lambda>e. Some (raise_py (ICloudControlError ''iCloud quota response is unavailable or malformed''))) r1 = (Inr q, r2)"
    and le: "q_used q \<le> q_quota q"
    unfolding pyi_quota_def by (elim seq_Inr_E bind_py_Inr_E) (auto simp: require_Inr_iff)
  have "bind_py (ap_usage a) (\<lambda>v. lift_sum (quota_of_reply (ap_float a) v)) r1 = (Inr q, r2)"
    by (rule try_Inr [OF _ got]) auto
  then have "\<exists>v. quota_of_reply (ap_float a) v = Inr q"
    by (auto elim!: bind_py_Inr_E)
  then have pos: "0 < q_quota q" by (auto dest: quota_of_reply_positive)
  with le have "0 < rat_of_int (q_quota q)" "rat_of_int (q_used q) \<le> rat_of_int (q_quota q)" by simp_all
  then have "rat_of_int (q_used q) / rat_of_int (q_quota q) * 100 \<le> 100" by (simp add: pos_divide_le_eq)
  with pos le show ?thesis unfolding used_percent_def by (intro conjI exI [of _ "rat_of_int (q_used q) / rat_of_int (q_quota q) * 100"]) simp_all
qed

lemma confirm_deletion_Inr:
  assumes "confirm_deletion a i body r = (Inr ok, r')"
  obtains reply r1 r2 fresh r3 recent where "ap_modify a body r = (Inr reply, r1)" "check_reply reply = Inr ()"
    "pyi_service a r1 = (Inr (), r2)" "ap_photos a r2 = (Inr fresh, r3)" "ap_deleted a r3 = (Inr recent, r')"
    "ok = (find_photo i fresh = None \<and> find_photo i recent \<noteq> None)"
proof -
  have "bind_py (ap_modify a body) (\<lambda>reply.
      seq (lift_sum (check_reply reply)) (
      seq (pyi_service a) (
      bind_py (ap_photos a) (\<lambda>fresh.
      bind_py (ap_deleted a) (\<lambda>recent.
      ret (find_photo i fresh = None \<and> find_photo i recent \<noteq> None)))))) r = (Inr ok, r')"
    by (rule try_Inr [OF _ assms [unfolded confirm_deletion_def]]) (auto split: if_splits)
  then show thesis
    by (elim bind_py_Inr_E seq_Inr_E) (rule that, auto)
qed

text \<open>C6: The client reports a deletion as done only when it has seen it. Either the library no longer held the
  asset and the album of recently deleted photos did, and nothing was sent; or the library held it under
  exactly the record name and change tag that were approved, the one request sent names this record and
  tag and sets nothing but \<open>isDeleted\<close>, the reply has records and no error code, and a fresh look
  finds the asset gone from the library and among the recently deleted ones.\<close>

theorem pyi_delete_confirmed:
  assumes run: "pyi_delete a i record_name tag r = (Inr True, r')"
  shows "(\<exists>r1 r2 ps ds. pyi_service a r = (Inr (), r1) \<and> ap_photos a r1 = (Inr ps, r2) \<and> find_photo i ps = None
        \<and> ap_deleted a r2 = (Inr ds, r') \<and> find_photo i ds \<noteq> None)
    \<or> (\<exists>r1 r2 ps p r3 reply r4 r5 ps' ds. pyi_service a r = (Inr (), r1) \<and> ap_photos a r1 = (Inr ps, r2)
        \<and> find_photo i ps = Some p \<and> ph_record_name p = Some record_name \<and> ph_change_tag p = Some tag
        \<and> ap_modify a (delete_body (ap_zone a) record_name tag) r2 = (Inr reply, r3) \<and> check_reply reply = Inr ()
        \<and> pyi_service a r3 = (Inr (), r4) \<and> ap_photos a r4 = (Inr ps', r5) \<and> find_photo i ps' = None
        \<and> ap_deleted a r5 = (Inr ds, r') \<and> find_photo i ds \<noteq> None)"
proof -
  from run obtain r1 r2 ps where s: "pyi_service a r = (Inr (), r1)" "ap_photos a r1 = (Inr ps, r2)"
    and rest: "(case find_photo i ps of
       None \<Rightarrow> bind_py (ap_deleted a) (\<lambda>recent. ret (find_photo i recent \<noteq> None))
     | Some p \<Rightarrow>
         (case (ph_record_name p, ph_change_tag p) of
            (None, _) \<Rightarrow> raise_py KeyError
          | (Some n, None) \<Rightarrow> if n \<noteq> record_name then raise_py (ICloudControlError ''iCloud asset changed after approval'')
              else raise_py KeyError
          | (Some n, Some t) \<Rightarrow>
              if n \<noteq> record_name \<or> t \<noteq> tag then raise_py (ICloudControlError ''iCloud asset changed after approval'')
              else confirm_deletion a i (delete_body (ap_zone a) record_name tag))) r2 = (Inr True, r')"
    unfolding pyi_delete_def by (elim seq_Inr_E bind_py_Inr_E) simp
  show ?thesis
  proof (cases "find_photo i ps")
    case None
    with rest have "\<exists>ds. ap_deleted a r2 = (Inr ds, r') \<and> find_photo i ds \<noteq> None"
      by (auto elim!: bind_py_Inr_E)
    with s None show ?thesis by blast
  next
    case (Some p)
    with rest have p: "ph_record_name p = Some record_name" "ph_change_tag p = Some tag"
      and c: "confirm_deletion a i (delete_body (ap_zone a) record_name tag) r2 = (Inr True, r')"
      by (auto split: option.splits if_splits)
    from c show ?thesis
      by (rule confirm_deletion_Inr) (use s Some p in blast)
  qed
qed


section \<open>Witnesses\<close>

definition photo_example :: photo where
  "photo_example = \<lparr>ph_id = ''p'', ph_size = 2, ph_versions = [], ph_record_name = Some ''n'', ph_change_tag = Some ''t'',
     ph_created = Aware 0, ph_favorite = Some False\<rparr>"

text \<open>A library with one photo; the state says whether it was deleted.\<close>

definition apple_example :: "bool apple" where
  "apple_example = \<lparr>ap_login = ret True, ap_usage = ret (JObject [(cps ''quota'', JInt 100), (cps ''used'', JInt 95)]),
     ap_photos = (\<lambda>gone. (Inr (if gone then [] else [photo_example]), gone)),
     ap_deleted = (\<lambda>gone. (Inr (if gone then [photo_example] else []), gone)), ap_zone = JNull,
     ap_modify = (\<lambda>b gone. (Inr (JObject [(cps ''records'', JList [JObject []])]), True)), ap_float = (\<lambda>_. None)\<rparr>"

theorem pyi_quota_usable_witness:
  "pyi_quota apple_example False = (Inr \<lparr>q_used = 95, q_quota = 100\<rparr>, False)
     \<and> (\<exists>p. used_percent \<lparr>q_used = 95, q_quota = 100\<rparr> = Inr p \<and> p \<le> 100)"
proof -
  have run: "pyi_quota apple_example False = (Inr \<lparr>q_used = 95, q_quota = 100\<rparr>, False)" by code_simp
  from pyi_quota_usable [OF run] run show ?thesis by blast
qed

theorem pyi_delete_confirmed_witness:
  "pyi_delete apple_example ''p'' ''n'' ''t'' False = (Inr True, True)
     \<and> (\<exists>r ds. ap_deleted apple_example r = (Inr ds, True) \<and> find_photo ''p'' ds \<noteq> None)"
proof -
  have run: "pyi_delete apple_example ''p'' ''n'' ''t'' False = (Inr True, True)" by code_simp
  from pyi_delete_confirmed [OF run] run show ?thesis by blast
qed

end
