(* ===== verification/Cleanup.thy ===== *)
theory Cleanup
  imports Policies Workflow ICloud_Control Runtime_Settings Datetimes
begin

text \<open>
  The iCloud clean-up (\<open>domain/icloud_cleanup.py\<close>): the inventory of remote assets and the archived files they
  consist of, the manifest of what is to be deleted, and the execution of an approved manifest. Its state
  is the world of the archive and the state of the remote side, which only the control client reads and
  changes; \<open>local_py\<close> and \<open>remote_py\<close> run a step on one of the two.
\<close>

type_synonym 'r cloud = "world \<times> 'r"

definition local_py :: "(world, 'a) py \<Rightarrow> ('r cloud, 'a) py" where
  "local_py m = (\<lambda>(w, r). case m w of (x, w') \<Rightarrow> (x, (w', r)))"

definition remote_py :: "('r, 'a) py \<Rightarrow> ('r cloud, 'a) py" where
  "remote_py m = (\<lambda>(w, r). case m r of (x, r') \<Rightarrow> (x, (w, r')))"

record cleanup_config =
  cu_relief :: bool
  cu_milestone :: bool
  cu_trigger :: rat
  cu_target :: rat
  cu_days :: int
  cu_max_assets :: nat
  cu_max_quota :: rat
  cu_sha :: "bytes \<Rightarrow> string"

definition cleanup_audit :: "string \<Rightarrow> nat option \<Rightarrow> (string \<times> pyval) list \<Rightarrow> (world, unit) py" where
  "cleanup_audit kind i details = add_audit i kind None None ''icloud-cleanup'' (PDict details)"

definition set_runtime :: "string \<Rightarrow> string \<Rightarrow> (world, unit) py" where
  "set_runtime k v = set_setting k v"

definition blocked :: "string \<Rightarrow> ('s, 'a) py" where
  "blocked why = raise_py (ICloudCleanupBlocked why)"

fun all_py :: "('a \<Rightarrow> ('s, bool) py) \<Rightarrow> 'a list \<Rightarrow> ('s, bool) py" where
  "all_py f [] = ret True"
| "all_py f (x # xs) = bind_py (f x) (\<lambda>ok. if ok then all_py f xs else ret False)"

section \<open>Quota\<close>

definition add_observation :: "icloud_quota \<Rightarrow> (world, quota_observation) py" where
  "add_observation q = bind_py utcnow (\<lambda>now.
     bind_py (query (\<lambda>d. \<lparr>iq_id = fresh_id iq_id (quotas d), iq_used = q_used q, iq_quota = q_quota q, observed_at = now\<rparr>)) (\<lambda>row.
     seq (on_db (quotas_update (\<lambda>t. t @ [row]))) (ret row)))"

definition observe_quota :: "'r control \<Rightarrow> ('r cloud, quota_observation) py" where
  "observe_quota c = bind_py (remote_py (ct_quota c)) (\<lambda>q. local_py (add_observation q))"

section \<open>Inventory\<close>

text \<open>
  Characters from 128 on are two bytes in UTF-8. The standard alphabet of base64 has \<open>+\<close> and \<open>/\<close> where the
  URL-safe one has \<open>-\<close> and \<open>_\<close>.
\<close>

definition utf8_of :: "string \<Rightarrow> nat list" where
  "utf8_of s = concat (map (\<lambda>c. let n = of_char c in if n < 128 then [n] else [192 + n div 64, 128 + n mod 64]) s)"

definition b64_standard :: "string \<Rightarrow> string" where
  "b64_standard s = map (\<lambda>c. if c = CHR ''-'' then CHR ''+'' else if c = CHR ''_'' then CHR ''/'' else c) s"

definition asset_token :: "string \<Rightarrow> string" where
  "asset_token i = take 7 (b64_standard (b64_encode (utf8_of i)))"

text \<open>
  The search for \<open>_([^_]{7})(?:_HEVC)?\.[^.]+$\<close> without regard to case: the leftmost underscore that
  seven other characters follow, then the optional mark and a last suffix.
\<close>

definition is_suffix :: "string \<Rightarrow> bool" where
  "is_suffix s = (case s of [] \<Rightarrow> False | c # r \<Rightarrow> c = CHR ''.'' \<and> r \<noteq> [] \<and> CHR ''.'' \<notin> set r)"

definition token_at :: "string \<Rightarrow> string option" where
  "token_at s = (case s of [] \<Rightarrow> None | c # r \<Rightarrow>
     (let t = take 7 r; r1 = drop 7 r; r2 = (if lower (take 5 r1) = ''_hevc'' then drop 5 r1 else r1) in
      if c = CHR ''_'' \<and> length t = 7 \<and> CHR ''_'' \<notin> set t \<and> is_suffix r2 then Some t else None))"

fun find_token :: "string \<Rightarrow> string option" where
  "find_token [] = None"
| "find_token (c # r) = (case token_at (c # r) of Some t \<Rightarrow> Some t | None \<Rightarrow> find_token r)"

definition path_name :: "string \<Rightarrow> string" where
  "path_name s = (case rev (parts s) of [] \<Rightarrow> [] | x # _ \<Rightarrow> x)"

definition candidates_for :: "archive_item list \<Rightarrow> string \<Rightarrow> archive_item list" where
  "candidates_for its token = filter (\<lambda>i. find_token (path_name (source_identifier i)) = Some token) its"

definition update_asset :: "remote_asset \<Rightarrow> datetime \<Rightarrow> icloud_asset \<Rightarrow> icloud_asset" where
  "update_asset a now r = r\<lparr>ia_record_name := ra_record_name a, ia_change_tag := ra_change_tag a,
     created_at_remote := ra_created_at a, ia_size := ra_size a, favorite := ra_favorite a, ia_library := ''PrimarySync'',
     expected_components := ra_expected a, last_seen_at := now\<rparr>"

definition new_asset :: "nat \<Rightarrow> string \<Rightarrow> icloud_asset" where
  "new_asset i apple = \<lparr>ia_id = i, ia_apple_id = apple, ia_record_name = [], ia_change_tag = [], created_at_remote = Aware 0,
     ia_size = 0, favorite = False, ia_library = ''PrimarySync'', expected_components = 1, last_seen_at = Aware 0,
     remotely_deleted_at = None, manual_review_reason = None\<rparr>"

definition upsert_asset :: "remote_asset \<Rightarrow> datetime \<Rightarrow> (world, nat) py" where
  "upsert_asset a now = bind_py (query (\<lambda>d. tbl_get ia_apple_id (ra_id a) (assets d))) (\<lambda>found.
     case found of
       Some r \<Rightarrow> seq (on_db (assets_update (tbl_upd ia_apple_id (ra_id a) (update_asset a now)))) (ret (ia_id r))
     | None \<Rightarrow> bind_py (query (\<lambda>d. fresh_id ia_id (assets d))) (\<lambda>i.
         seq (on_db (assets_update (\<lambda>t. t @ [update_asset a now (new_asset i (ra_id a))]))) (ret i)))"

text \<open>
  \<open>components.clear()\<close> and the new components reach the database in one flush, which inserts before it deletes:
  an archive item that has a component already, even one of the same asset that is about to go, breaks
  the unique index.
\<close>

fun component_rows :: "nat \<Rightarrow> nat \<Rightarrow> nat list \<Rightarrow> icloud_component list" where
  "component_rows n a [] = []"
| "component_rows n a (i # is) = \<lparr>ic_id = n, ic_asset = a, ic_item = i\<rparr> # component_rows (Suc n) a is"

definition set_components :: "nat \<Rightarrow> nat list \<Rightarrow> (world, unit) py" where
  "set_components a is =
     bind_py (query (\<lambda>d. distinct is \<and> set is \<inter> set (map ic_item (components d)) = {})) (\<lambda>unique.
     seq (require unique IntegrityError)
     (on_db (components_update (\<lambda>t. filter (\<lambda>c. ic_asset c \<noteq> a) t @ component_rows (fresh_id ic_id t) a is))))"

definition map_asset :: "archive_item list \<Rightarrow> remote_asset list \<Rightarrow> datetime \<Rightarrow> remote_asset \<Rightarrow> (world, nat) py" where
  "map_asset its remote now a =
     bind_py (upsert_asset a now) (\<lambda>i.
     let token = asset_token (ra_id a); found = candidates_for its token in
     if length (filter (\<lambda>b. asset_token (ra_id b) = token) remote) = 1 \<and> length found = ra_expected a
     then seq (set_components i (map ai_id found)) (ret 1)
     else seq (set_components i []) (ret 0))"

definition map_inventory :: "remote_asset list \<Rightarrow> (world, nat) py" where
  "map_inventory remote =
     bind_py (query (\<lambda>d. filter (\<lambda>i. source_provider i = ''icloud_photos'') (items d))) (\<lambda>its.
     bind_py utcnow (\<lambda>now.
     bind_py (map_py (map_asset its remote now) remote) (\<lambda>ns. ret (sum_list ns))))"

definition refresh_inventory :: "'r control \<Rightarrow> ('r cloud, nat) py" where
  "refresh_inventory c = bind_py (remote_py (ct_assets c)) (\<lambda>remote. local_py (map_inventory remote))"

section \<open>Evidence\<close>

definition asset_items :: "nat \<Rightarrow> (world, archive_item list) py" where
  "asset_items a = bind_py (query (\<lambda>d. filter (\<lambda>c. ic_asset c = a) (components d)))
     (map_py (\<lambda>c. load_item (ic_item c)))"

definition evidence_complete :: "cleanup_config \<Rightarrow> datetime \<Rightarrow> archive_item \<Rightarrow> bool" where
  "evidence_complete cfg now r \<longleftrightarrow> ai_state r \<in> {QUARANTINED, ARCHIVED} \<and> nas_path r \<noteq> None \<and> plaintext_sha256 r \<noteq> None
     \<and> kopia_verified_at r \<noteq> None \<and> kopia_snapshot_id r \<noteq> None \<and> remote_verified_at r \<noteq> None
     \<and> remote_provider r = Some ''scaleway-glacier'' \<and> remote_bucket r \<noteq> None \<and> remote_object_identifier r \<noteq> None
     \<and> encryption_mode r \<noteq> None \<and> remote_size r \<noteq> None
     \<and> (case quarantine_expires_at r of None \<Rightarrow> False | Some q \<Rightarrow> instant q \<le> instant now)
     \<and> (case cold_archived_at r of None \<Rightarrow> False | Some c \<Rightarrow> instant c + days (cu_days cfg) \<le> instant now)"

definition copy_intact :: "cleanup_config \<Rightarrow> archive_item \<Rightarrow> (world, bool) py" where
  "copy_intact cfg r = (case nas_path r of None \<Rightarrow> ret False
     | Some p \<Rightarrow> bind_py (gets (\<lambda>w. \<not> is_symlink (disk w) p \<and> is_file (disk w) p)) (\<lambda>regular.
         if \<not> regular then ret False
         else bind_py (on_disk (stat_size p)) (\<lambda>sz.
           if sz \<noteq> original_size r then ret False
           else bind_py (on_disk (sha256_file (cu_sha cfg) p)) (\<lambda>h. ret (Some h = plaintext_sha256 r)))))"

definition eligible_asset :: "cleanup_config \<Rightarrow> datetime \<Rightarrow> icloud_asset \<Rightarrow> (world, bool) py" where
  "eligible_asset cfg now a =
     (if favorite a \<or> remotely_deleted_at a \<noteq> None then ret False
      else bind_py (query (\<lambda>d. filter (\<lambda>c. ic_asset c = ia_id a) (components d))) (\<lambda>cs.
        if length cs \<noteq> expected_components a then ret False
        else all_py (\<lambda>c. bind_py (load_item (ic_item c)) (\<lambda>r.
          if evidence_complete cfg now r then copy_intact cfg r else ret False)) cs))"

text \<open>\<open>json.dumps\<close> with sorted keys and without spaces, the values already rendered.\<close>

definition json_object :: "(string \<times> string) list \<Rightarrow> string" where
  "json_object kvs = CHR 0x7B # join '','' (map (\<lambda>(k, v). json_string k @ '':'' @ v) kvs) @ [CHR 0x7D]"

definition json_array :: "string list \<Rightarrow> string" where
  "json_array vs = ''['' @ join '','' vs @ '']''"

definition json_optional :: "string option \<Rightarrow> string" where
  "json_optional s = (case s of None \<Rightarrow> ''null'' | Some t \<Rightarrow> json_string t)"

definition evidence_json :: "archive_item \<Rightarrow> string" where
  "evidence_json r = json_object [(''archive_item_id'', dec (ai_id r)), (''kopia_snapshot_id'', json_optional (kopia_snapshot_id r)),
     (''plaintext_sha256'', json_optional (plaintext_sha256 r)), (''remote_checksum'', json_optional (remote_checksum r)),
     (''remote_object_identifier'', json_optional (remote_object_identifier r))]"

definition evidence_digest_of :: "cleanup_config \<Rightarrow> icloud_asset \<Rightarrow> (world, string) py" where
  "evidence_digest_of cfg a = bind_py (asset_items (ia_id a)) (\<lambda>its.
     ret (cu_sha cfg (json_array (map evidence_json (sort_key ai_id its)))))"


section \<open>The manifest\<close>

fun select_assets :: "nat \<Rightarrow> int \<Rightarrow> int \<Rightarrow> icloud_asset list \<Rightarrow> int \<Rightarrow> icloud_asset list \<Rightarrow> icloud_asset list \<times> int" where
  "select_assets mx needed cap selected planned [] = (selected, planned)"
| "select_assets mx needed cap selected planned (a # as) =
     (if length selected \<ge> mx then (selected, planned)
      else if selected \<noteq> [] \<and> planned + int (ia_size a) > cap then (selected, planned)
      else if planned + int (ia_size a) \<ge> needed then (selected @ [a], planned + int (ia_size a))
      else select_assets mx needed cap (selected @ [a]) (planned + int (ia_size a)) as)"

definition percent_of :: "int \<Rightarrow> rat \<Rightarrow> int" where
  "percent_of n p = (let q = rat_of_int n * p / 100 in if 0 \<le> q then \<lfloor>q\<rfloor> else \<lceil>q\<rceil>)"

definition expire_manifests :: "datetime \<Rightarrow> (world, unit) py" where
  "expire_manifests now = on_db (manifests_update (map (\<lambda>m.
     if im_status m = PendingApproval \<and> instant (im_expires_at m) \<le> instant now then m\<lparr>im_status := Expired\<rparr> else m)))"

definition pending_manifest :: "db \<Rightarrow> cleanup_manifest option" where
  "pending_manifest d = (case rev (sort_key im_id (filter (\<lambda>m. im_status m = PendingApproval) (manifests d))) of
     [] \<Rightarrow> None | m # _ \<Rightarrow> Some m)"

definition asset_rows :: "db \<Rightarrow> icloud_asset list" where
  "asset_rows d = sort_key (\<lambda>a. instant (created_at_remote a)) (sort_key ia_apple_id
     (filter (\<lambda>a. \<not> favorite a \<and> remotely_deleted_at a = None \<and> ia_library a = ''PrimarySync'') (assets d)))"

fun filter_py :: "('a \<Rightarrow> ('s, bool) py) \<Rightarrow> 'a list \<Rightarrow> ('s, 'a list) py" where
  "filter_py f [] = ret []"
| "filter_py f (x # xs) = bind_py (f x) (\<lambda>ok. bind_py (filter_py f xs) (\<lambda>ys. ret (if ok then x # ys else ys)))"

definition asset_json :: "icloud_asset \<times> string \<Rightarrow> string" where
  "asset_json = (\<lambda>(a, ev). json_object [(''apple_asset_id'', json_string (ia_apple_id a)),
     (''asset_record_name'', json_string (ia_record_name a)), (''change_tag'', json_string (ia_change_tag a)),
     (''evidence_digest'', json_string ev), (''size_bytes'', dec (ia_size a))])"

definition manifest_json :: "datetime \<Rightarrow> icloud_quota \<Rightarrow> (icloud_asset \<times> string) list \<Rightarrow> string" where
  "manifest_json now q rows = json_object [(''assets'', json_array (map asset_json rows)),
     (''created_at'', json_string (isoformat now)), (''quota_bytes'', py_str_int (q_quota q)),
     (''used_bytes'', py_str_int (q_used q))]"

definition entry_of :: "nat \<Rightarrow> nat \<Rightarrow> nat \<Rightarrow> icloud_asset \<Rightarrow> string \<Rightarrow> cleanup_entry" where
  "entry_of i m pos a ev = \<lparr>ie_id = i, ie_manifest = m, ie_asset = ia_id a, ie_position = pos, ie_apple_id = ia_apple_id a,
     ie_record_name = ia_record_name a, ie_change_tag = ia_change_tag a, ie_size = ia_size a, evidence_digest = ev,
     ie_completed_at = None\<rparr>"

fun entry_rows :: "nat \<Rightarrow> nat \<Rightarrow> nat \<Rightarrow> (icloud_asset \<times> string) list \<Rightarrow> cleanup_entry list" where
  "entry_rows i m pos [] = []"
| "entry_rows i m pos ((a, ev) # rows) = entry_of i m pos a ev # entry_rows (Suc i) m (Suc pos) rows"

definition insert_manifest ::
  "string \<Rightarrow> datetime \<Rightarrow> icloud_quota \<Rightarrow> int \<Rightarrow> int \<Rightarrow> (icloud_asset \<times> string) list \<Rightarrow> (world, cleanup_manifest) py" where
  "insert_manifest digest now q target planned rows =
     bind_py (query (\<lambda>d. \<lparr>im_id = fresh_id im_id (manifests d), im_status = PendingApproval, im_digest = digest,
       im_used = q_used q, im_quota = q_quota q, im_target = target, im_planned = planned,
       im_expires_at = dt_add now (hours 24), approved_at = None, im_completed_at = None, failure_reason = None\<rparr>)) (\<lambda>m.
     seq (on_db (manifests_update (\<lambda>t. t @ [m]))) (
     seq (on_db (entries_update (\<lambda>t. t @ entry_rows (fresh_id ie_id t) (im_id m) 0 rows))) (
     seq (cleanup_audit ''icloud_cleanup_manifest_created'' None [(''manifest_id'', PInt (int (im_id m)))]) (
     ret m))))"

definition plan_manifest :: "cleanup_config \<Rightarrow> datetime \<Rightarrow> icloud_quota \<Rightarrow> (world, cleanup_manifest option) py" where
  "plan_manifest cfg now q =
     bind_py (query asset_rows) (\<lambda>rows.
     bind_py (filter_py (eligible_asset cfg now) rows) (\<lambda>candidates.
     let target = percent_of (q_quota q) (cu_target cfg);
         needed = max 0 (q_used q - target);
         cap = percent_of (q_quota q) (cu_max_quota cfg) in
     case select_assets (cu_max_assets cfg) needed cap [] 0 candidates of (selected, planned) \<Rightarrow>
     if selected = [] then ret None
     else bind_py (map_py (\<lambda>a. bind_py (evidence_digest_of cfg a) (\<lambda>ev. ret (a, ev))) selected) (\<lambda>rows.
       let digest = cu_sha cfg (manifest_json now q rows) in
       bind_py (query (\<lambda>d. tbl_get im_digest digest (manifests d))) (\<lambda>existing.
       case existing of Some m \<Rightarrow> ret (Some m)
       | None \<Rightarrow> bind_py (insert_manifest digest now q target planned rows) (\<lambda>m. ret (Some m))))))"

definition create_manifest :: "cleanup_config \<Rightarrow> 'r control \<Rightarrow> ('r cloud, cleanup_manifest option) py" where
  "create_manifest cfg c = seq (require (cu_relief cfg) (ICloudCleanupBlocked ''iCloud capacity relief is disabled'')) (
     bind_py (local_py utcnow) (\<lambda>now.
     seq (local_py (expire_manifests now)) (
     bind_py (remote_py (ct_quota c)) (\<lambda>q.
     bind_py (local_py (add_observation q)) (\<lambda>_.
     bind_py (lift_sum (used_percent q)) (\<lambda>percent.
     if percent < cu_trigger cfg then ret None
     else bind_py (local_py (query pending_manifest)) (\<lambda>pending.
       case pending of Some m \<Rightarrow> ret (Some m)
       | None \<Rightarrow> bind_py (refresh_inventory c) (\<lambda>_. local_py (plan_manifest cfg now q)))))))))"

section \<open>Execution\<close>

definition latest_cold :: "datetime \<Rightarrow> archive_item list \<Rightarrow> int" where
  "latest_cold now its = (case List.map_filter (\<lambda>r. map_option instant (cold_archived_at r)) its of
     [] \<Rightarrow> instant now + days 3650 | t # ts \<Rightarrow> foldr max ts t)"

definition cleanup_facts :: "cleanup_config \<Rightarrow> archive_item list \<Rightarrow> bool \<Rightarrow> datetime \<Rightarrow> (world, deletion_facts) py" where
  "cleanup_facts cfg its gates now =
     bind_py (all_py (\<lambda>r. case nas_path r of None \<Rightarrow> ret False
       | Some p \<Rightarrow> bind_py (gets (\<lambda>w. is_file (disk w) p)) (\<lambda>ok.
           if \<not> ok \<or> plaintext_sha256 r = None then ret False
           else bind_py (on_disk (sha256_file (cu_sha cfg) p)) (\<lambda>h. ret (Some h = plaintext_sha256 r)))) its) (\<lambda>hashes.
     bind_py (all_py (\<lambda>r. case nas_path r of None \<Rightarrow> ret False | Some p \<Rightarrow> gets (\<lambda>w. is_file (disk w) p)) its) (\<lambda>present.
     bind_py (all_py (\<lambda>r. case nas_path r of None \<Rightarrow> ret False
       | Some p \<Rightarrow> bind_py (on_disk (stat_size p)) (\<lambda>sz. ret (sz = original_size r))) its) (\<lambda>sizes.
     ret \<lparr>local_exists = present, local_size_matches = sizes,
       local_sha256_exists = list_all (\<lambda>r. plaintext_sha256 r \<noteq> None \<and> plaintext_sha256 r \<noteq> Some []) its,
       local_sha256_matches = hashes, kopia_verified = list_all (\<lambda>r. kopia_verified_at r \<noteq> None) its,
       remote_verified = list_all (\<lambda>r. remote_verified_at r \<noteq> None) its,
       df_quarantine_expires_at = Some (Aware (latest_cold now its + days (cu_days cfg))),
       source_exists = True, source_unchanged = True, source_identity_matches = True,
       active_disk_healthy = gates, backup_disk_healthy = gates, storage_devices_differ = gates,
       sqlite_integrity_healthy = gates, remote_available = gates, global_deletion_enabled = gates,
       source_deletion_enabled = cu_relief cfg, safety_lock = (\<not> gates), manual_approval_required = True,
       manual_approval_granted = True\<rparr>)))"

definition load_asset :: "nat \<Rightarrow> (world, icloud_asset) py" where
  "load_asset i = bind_py (query (\<lambda>d. tbl_get ia_id i (assets d)))
     (\<lambda>r. case r of None \<Rightarrow> raise_py ObjectDeletedError | Some a \<Rightarrow> ret a)"

definition cleanup_limits :: "cleanup_config \<Rightarrow> cleanup_manifest \<Rightarrow> deletion_limits" where
  "cleanup_limits cfg m = \<lparr>max_files_deleted_per_run = cu_max_assets cfg,
     max_bytes_deleted_per_run = nat (percent_of (im_quota m) (cu_max_quota cfg)), max_percentage_deleted_per_run = 100\<rparr>"

definition check_remote :: "remote_asset list \<Rightarrow> cleanup_entry \<Rightarrow> exn + unit" where
  "check_remote remote e = (case map_of (rev (map (\<lambda>a. (ra_id a, a)) remote)) (ie_apple_id e) of
       None \<Rightarrow> Inl (ICloudCleanupBlocked ''approved iCloud asset is missing or protected'')
     | Some a \<Rightarrow> if ra_favorite a then Inl (ICloudCleanupBlocked ''approved iCloud asset is missing or protected'')
         else if ra_record_name a \<noteq> ie_record_name e \<or> ra_change_tag a \<noteq> ie_change_tag e
         then Inl (ICloudCleanupBlocked ''approved iCloud asset changed'') else Inr ())"

definition check_gate ::
  "cleanup_config \<Rightarrow> cleanup_manifest \<Rightarrow> bool \<Rightarrow> datetime \<Rightarrow> deletion_run_usage \<Rightarrow> cleanup_entry \<Rightarrow> icloud_asset \<Rightarrow>
    (world, deletion_run_usage) py" where
  "check_gate cfg m gates now usage e a =
     bind_py (evidence_digest_of cfg a) (\<lambda>ev.
     seq (require (ev = evidence_digest e) (ICloudCleanupBlocked ''archival receipts changed after approval'')) (
     bind_py (asset_items (ia_id a)) (\<lambda>its.
     bind_py (cleanup_facts cfg its gates now) (\<lambda>facts.
     bind_py (lift_sum (evaluate_deletion_gate facts usage (cleanup_limits cfg m) (ie_size e) now)) (\<lambda>decision.
     seq (require (allowed decision) (ICloudCleanupBlocked (join ''; '' (blockers decision))))
     (ret \<lparr>files_deleted = files_deleted usage + 1, bytes_deleted = bytes_deleted usage + ie_size e,
        eligible_files = eligible_files usage\<rparr>))))))"

definition check_entry ::
  "cleanup_config \<Rightarrow> cleanup_manifest \<Rightarrow> remote_asset list \<Rightarrow> bool \<Rightarrow> datetime \<Rightarrow> deletion_run_usage \<Rightarrow> cleanup_entry \<Rightarrow>
    (world, deletion_run_usage) py" where
  "check_entry cfg m remote gates now usage e =
     seq (lift_sum (check_remote remote e)) (
     bind_py (load_asset (ie_asset e)) (\<lambda>a.
     bind_py (eligible_asset cfg now a) (\<lambda>ok.
     seq (require ok (ICloudCleanupBlocked ''archival evidence changed after approval''))
     (check_gate cfg m gates now usage e a))))"

fun check_entries ::
  "cleanup_config \<Rightarrow> cleanup_manifest \<Rightarrow> remote_asset list \<Rightarrow> bool \<Rightarrow> datetime \<Rightarrow> deletion_run_usage \<Rightarrow> cleanup_entry list \<Rightarrow>
    (world, unit) py" where
  "check_entries cfg m remote gates now usage [] = ret ()"
| "check_entries cfg m remote gates now usage (e # es) =
     bind_py (check_entry cfg m remote gates now usage e) (\<lambda>usage. check_entries cfg m remote gates now usage es)"

definition manifest_entries :: "nat \<Rightarrow> db \<Rightarrow> cleanup_entry list" where
  "manifest_entries i d = sort_key ie_position (filter (\<lambda>e. ie_manifest e = i) (entries d))"

definition upd_manifest :: "nat \<Rightarrow> (cleanup_manifest \<Rightarrow> cleanup_manifest) \<Rightarrow> (world, unit) py" where
  "upd_manifest i f = on_db (manifests_update (tbl_upd im_id i f))"

definition check_manifest :: "cleanup_config \<Rightarrow> nat \<Rightarrow> string \<Rightarrow> bool \<Rightarrow> (world, cleanup_manifest \<times> datetime) py" where
  "check_manifest cfg i digest gates =
     seq (require (cu_milestone cfg) (ICloudCleanupBlocked ''iCloud deletion milestone awaits synthetic-account review'')) (
     bind_py (query (\<lambda>d. tbl_get im_id i (manifests d))) (\<lambda>found.
     case found of None \<Rightarrow> blocked ''cleanup manifest or digest is invalid''
     | Some m \<Rightarrow>
       if im_digest m \<noteq> digest then blocked ''cleanup manifest or digest is invalid''
       else bind_py utcnow (\<lambda>now.
         seq (require (im_status m = PendingApproval) (ICloudCleanupBlocked ''cleanup manifest is not pending approval'')) (
         if instant (im_expires_at m) \<le> instant now
         then seq (upd_manifest i (\<lambda>m. m\<lparr>im_status := Expired\<rparr>)) (blocked ''cleanup manifest expired'')
         else seq (require gates (ICloudCleanupBlocked ''global deletion safety gate is closed'')) (ret (m, now))))))"

definition start_execution :: "nat \<Rightarrow> datetime \<Rightarrow> (world, unit) py" where
  "start_execution i now = seq (upd_manifest i (\<lambda>m. m\<lparr>im_status := Executing, approved_at := Some now\<rparr>)) (
     seq (cleanup_audit ''icloud_cleanup_approved'' None [(''manifest_id'', PInt (int i))]) commit)"

definition approval :: "cleanup_config \<Rightarrow> 'r control \<Rightarrow> nat \<Rightarrow> string \<Rightarrow> bool \<Rightarrow> ('r cloud, cleanup_entry list) py" where
  "approval cfg c i digest gates =
     bind_py (local_py (check_manifest cfg i digest gates)) (\<lambda>(m, now).
     bind_py (remote_py (ct_quota c)) (\<lambda>q.
     bind_py (lift_sum (used_percent q)) (\<lambda>percent.
     seq (require (\<not> percent < cu_trigger cfg) (ICloudCleanupBlocked ''iCloud usage is below cleanup trigger'')) (
     bind_py (remote_py (ct_assets c)) (\<lambda>remote.
     bind_py (local_py (query (manifest_entries i))) (\<lambda>es.
     seq (local_py (check_entries cfg m remote gates now \<lparr>files_deleted = 0, bytes_deleted = 0, eligible_files = int (length es)\<rparr> es)) (
     seq (local_py (start_execution i now)) (ret es))))))))"

definition manual_review :: "nat \<Rightarrow> string \<Rightarrow> (world, unit) py" where
  "manual_review i why =
     bind_py (query (\<lambda>d. list_ex (\<lambda>e. ie_completed_at e \<noteq> None) (manifest_entries i d))) (\<lambda>some_done.
     seq (upd_manifest i (\<lambda>m. m\<lparr>im_status := (if some_done then Partial else CleanupReview), failure_reason := Some why\<rparr>)) (
     seq (set_runtime ''global_deletion_enabled'' ''false'') (
     seq (set_runtime ''safety_lock'' ''true'') (
     seq (cleanup_audit ''icloud_cleanup_manual_review'' None [(''manifest_id'', PInt (int i)), (''reason'', PStr why)])
     commit))))"

definition complete_entry :: "nat \<Rightarrow> cleanup_entry \<Rightarrow> (world, unit) py" where
  "complete_entry i e = bind_py utcnow (\<lambda>now.
     seq (on_db (entries_update (tbl_upd ie_id (ie_id e) (\<lambda>x. x\<lparr>ie_completed_at := Some now\<rparr>)))) (
     seq (on_db (assets_update (tbl_upd ia_id (ie_asset e) (\<lambda>a. a\<lparr>remotely_deleted_at := Some now\<rparr>)))) (
     bind_py (query (\<lambda>d. filter (\<lambda>c. ic_asset c = ie_asset e) (components d))) (\<lambda>cs.
     seq (for_each (\<lambda>c. cleanup_audit ''icloud_asset_moved_to_recently_deleted'' (Some (ic_item c))
            [(''manifest_id'', PInt (int i)), (''apple_asset_id'', PStr (ie_apple_id e))]) cs)
     commit))))"

fun delete_entries :: "'r control \<Rightarrow> nat \<Rightarrow> cleanup_entry list \<Rightarrow> ('r cloud, unit) py" where
  "delete_entries c i [] = ret ()"
| "delete_entries c i (e # es) =
     bind_py (attempt (remote_py (ct_delete c (ie_apple_id e) (ie_record_name e) (ie_change_tag e)))) (\<lambda>outcome.
     case outcome of
       Inl err \<Rightarrow> seq (local_py (manual_review i (exn_name err))) (blocked ''iCloud deletion result requires manual review'')
     | Inr False \<Rightarrow> seq (local_py (manual_review i ''absence_not_confirmed'')) (blocked ''iCloud deletion result requires manual review'')
     | Inr True \<Rightarrow> seq (local_py (complete_entry i e)) (delete_entries c i es))"

definition finish_manifest :: "nat \<Rightarrow> (world, unit) py" where
  "finish_manifest i = bind_py utcnow (\<lambda>now.
     seq (upd_manifest i (\<lambda>m. m\<lparr>im_status := Completed, im_completed_at := Some now\<rparr>))
     (cleanup_audit ''icloud_cleanup_completed'' None [(''manifest_id'', PInt (int i))]))"

definition execute_manifest :: "cleanup_config \<Rightarrow> 'r control \<Rightarrow> nat \<Rightarrow> string \<Rightarrow> bool \<Rightarrow> ('r cloud, unit) py" where
  "execute_manifest cfg c i digest gates =
     bind_py (approval cfg c i digest gates) (\<lambda>es. seq (delete_entries c i es) (local_py (finish_manifest i)))"

end
