(* ===== verification/Cleanup_Proofs.thy ===== *)
theory Cleanup_Proofs
  imports Cleanup Hoare_Rules
begin

text \<open>
  What the clean-up promises: the bounds of a manifest, that nothing is deleted without an approved manifest
  and verified copies, and how an execution ends.
\<close>

section \<open>Steps that only read\<close>

definition reads :: "('s, 'a) py \<Rightarrow> bool" where
  "reads m \<longleftrightarrow> (\<forall>s. snd (m s) = s)"

named_theorems reads_rules \<open>what only reads\<close>

lemma readsD: "reads m \<Longrightarrow> m s = (r, s') \<Longrightarrow> s' = s"
  by (metis reads_def snd_conv)

lemma reads_basic [reads_rules]:
  "reads (ret x)" "reads (raise_py e)" "reads (gets f)" "reads (query g)" "reads (lift_sum r)" "reads (require b e)"
  by (simp_all add: reads_def query_def require_def)

lemma reads_bind [reads_rules]: "reads m \<Longrightarrow> (\<And>x. reads (f x)) \<Longrightarrow> reads (bind_py m f)"
  by (auto simp: reads_def bind_py_def split: prod.split sum.split) (metis snd_conv)+

lemma reads_seq [reads_rules]: "reads m \<Longrightarrow> reads n \<Longrightarrow> reads (seq m n)"
  unfolding seq_def by (rule reads_bind)

lemma reads_all [reads_rules]: "(\<And>x. reads (f x)) \<Longrightarrow> reads (all_py f xs)"
  by (induction xs) (auto intro!: reads_rules)

lemma reads_filter [reads_rules]: "(\<And>x. reads (f x)) \<Longrightarrow> reads (filter_py f xs)"
  by (induction xs) (auto intro!: reads_rules)

lemma reads_map [reads_rules]: "(\<And>x. reads (f x)) \<Longrightarrow> reads (map_py f xs)"
  by (induction xs) (auto intro!: reads_rules)

lemma reads_on_disk: "(\<And>fs. snd (m fs) = fs) \<Longrightarrow> reads (on_disk m)"
  unfolding reads_def on_disk_def by (intro allI, rename_tac s, case_tac "m (disk s)") (metis (no_types, lifting) case_prod_conv snd_conv world.surjective world.update_convs(1))

lemma reads_disk [reads_rules]: "reads (on_disk (stat_size p))" "reads (on_disk (sha256_file sha p))"
  by (rule reads_on_disk; simp add: stat_size_def split: option.split)+

lemma reads_load [reads_rules]: "reads (load_item i)" "reads (load_asset i)"
  unfolding load_item_def load_asset_def by (auto intro!: reads_rules split: option.split)

lemma reads_evidence [reads_rules]:
  "reads (asset_items i)" "reads (copy_intact cfg r)" "reads (eligible_asset cfg now a)" "reads (evidence_digest_of cfg a)"
  "reads (cleanup_facts cfg its gates now)" "reads (check_entry cfg m remote gates now u e)"
proof -
  show i: "reads (asset_items i)" for i unfolding asset_items_def by (intro reads_rules)
  show c: "reads (copy_intact cfg r)" for r unfolding copy_intact_def by (auto intro!: reads_rules split: option.split)
  show el: "reads (eligible_asset cfg now a)" for a
    unfolding eligible_asset_def by (auto intro!: reads_rules c)
  show ev: "reads (evidence_digest_of cfg a)" for a
    unfolding evidence_digest_of_def by (intro reads_rules i)
  show fa: "reads (cleanup_facts cfg its gates now)" for its
    unfolding cleanup_facts_def by (auto intro!: reads_rules split: option.split)
  show "reads (check_entry cfg m remote gates now u e)"
    unfolding check_entry_def check_gate_def by (intro reads_rules i el ev fa)
qed

lemma all_py_True:
  assumes "all_py f xs s = (Inr True, s')" "\<And>x. reads (f x)" "x \<in> set xs" shows "f x s = (Inr True, s)"
  using assms(1,3)
proof (induction xs)
  case (Cons y ys)
  from Cons.prems(1) obtain ok s1 where y: "f y s = (Inr ok, s1)"
    and rest: "(if ok then all_py f ys else ret False) s1 = (Inr True, s')" by (auto elim: bind_py_Inr_E)
  then have "ok" "s1 = s" using readsD [OF assms(2)] by (auto split: if_splits)
  with y rest Cons show ?case by auto
qed simp

section \<open>Assets that are safe to delete\<close>

text \<open>Every component of the asset is an archived file with all its evidence and an intact copy on disk.\<close>

definition safe_item :: "cleanup_config \<Rightarrow> datetime \<Rightarrow> fsys \<Rightarrow> archive_item \<Rightarrow> bool" where
  "safe_item cfg now fs r \<longleftrightarrow> evidence_complete cfg now r
     \<and> (\<exists>p b. nas_path r = Some p \<and> \<not> is_symlink fs p \<and> content fs p = Some b \<and> length b = original_size r
          \<and> plaintext_sha256 r = Some (cu_sha cfg b))"

definition safe_asset :: "cleanup_config \<Rightarrow> datetime \<Rightarrow> fsys \<Rightarrow> db \<Rightarrow> icloud_asset \<Rightarrow> bool" where
  "safe_asset cfg now fs d a \<longleftrightarrow> \<not> favorite a \<and> remotely_deleted_at a = None
     \<and> length (filter (\<lambda>c. ic_asset c = ia_id a) (components d)) = expected_components a
     \<and> (\<forall>c \<in> set (components d). ic_asset c = ia_id a \<longrightarrow>
          (\<exists>r. tbl_get ai_id (ic_item c) (items d) = Some r \<and> safe_item cfg now fs r))"

lemma copy_intact_True:
  assumes "copy_intact cfg r w = (Inr True, w')"
  shows "\<exists>p b. nas_path r = Some p \<and> \<not> is_symlink (disk w) p \<and> content (disk w) p = Some b \<and> length b = original_size r
          \<and> plaintext_sha256 r = Some (cu_sha cfg b)"
proof -
  from assms obtain p where p: "nas_path r = Some p" "\<not> is_symlink (disk w) p" "is_file (disk w) p"
    and rest: "bind_py (on_disk (stat_size p)) (\<lambda>sz. if sz \<noteq> original_size r then ret False
           else bind_py (on_disk (sha256_file (cu_sha cfg) p)) (\<lambda>h. ret (Some h = plaintext_sha256 r))) w = (Inr True, w')"
    by (auto simp: copy_intact_def elim!: bind_py_Inr_E split: option.splits if_splits)
  from p(3) obtain b where b: "content (disk w) p = Some b" by (auto simp: is_file_content)
  then have sz: "stat_size p (disk w) = (Inr (length b), disk w)"
    by (auto simp: stat_size_def content_def st_size_def split: option.splits node.splits)
  from rest sz sha256_file_Some [OF b, of "cu_sha cfg"] have "length b = original_size r" "plaintext_sha256 r = Some (cu_sha cfg b)"
    by (auto simp: on_disk_def bind_py_def split: if_splits)
  with p b show ?thesis by blast
qed

lemma load_item_Inr: "load_item i w = (Inr r, w') \<longleftrightarrow> w' = w \<and> tbl_get ai_id i (items (live w)) = Some r"
  by (auto simp: load_item_def query_def bind_py_def split: option.split)

lemma eligible_asset_True:
  assumes "eligible_asset cfg now a w = (Inr True, w')" shows "safe_asset cfg now (disk w) (live w) a"
proof -
  let ?cs = "filter (\<lambda>c. ic_asset c = ia_id a) (components (live w))"
  let ?f = "\<lambda>c. bind_py (load_item (ic_item c)) (\<lambda>r. if evidence_complete cfg now r then copy_intact cfg r else ret False)"
  from assms have a: "\<not> favorite a" "remotely_deleted_at a = None" "length ?cs = expected_components a"
    and all: "all_py ?f ?cs w = (Inr True, w')"
    by (auto simp: eligible_asset_def query_def elim!: bind_py_Inr_E split: if_splits)
  have reads: "reads (?f c)" for c by (auto intro!: reads_rules)
  have "\<exists>r. tbl_get ai_id (ic_item c) (items (live w)) = Some r \<and> safe_item cfg now (disk w) r" if "c \<in> set ?cs" for c
  proof -
    from all_py_True [OF all reads that] obtain r w1 where "load_item (ic_item c) w = (Inr r, w1)"
      "(if evidence_complete cfg now r then copy_intact cfg r else ret False) w1 = (Inr True, w)"
      by (rule bind_py_Inr_E)
    then show ?thesis using copy_intact_True [of cfg r w]
      by (auto simp: load_item_Inr safe_item_def split: if_splits)
  qed
  with a show ?thesis by (auto simp: safe_asset_def)
qed

section \<open>The bounds of a manifest\<close>

definition total_size :: "icloud_asset list \<Rightarrow> int" where
  "total_size as = (\<Sum>a\<leftarrow>as. int (ia_size a))"

lemma select_assets_spec:
  assumes "select_assets mx needed cap sel p as = (r, q)" "p = total_size sel" "length sel \<le> mx"
    "p \<le> cap \<or> length sel \<le> 1" "sel = [] \<or> p < needed"
  shows "\<exists>k. r = sel @ take k as" "q = total_size r" "length r \<le> mx" "q \<le> cap \<or> length r \<le> 1"
    "r = sel \<or> length r = 1 \<or> total_size (butlast r) < needed"
proof -
  have "(\<exists>k. r = sel @ take k as) \<and> q = total_size r \<and> length r \<le> mx \<and> (q \<le> cap \<or> length r \<le> 1)
    \<and> (r = sel \<or> length r = 1 \<or> total_size (butlast r) < needed)"
    using assms
  proof (induction mx needed cap sel p as rule: select_assets.induct)
    case (2 mx needed cap selected planned a as)
    let ?p = "planned + int (ia_size a)"
    consider (stop) "(r, q) = (selected, planned)" | (last) "(r, q) = (selected @ [a], ?p)" "length selected < mx"
        "selected = [] \<or> ?p \<le> cap"
      | (more) "length selected < mx" "selected = [] \<or> ?p \<le> cap" "?p < needed"
        "select_assets mx needed cap (selected @ [a]) ?p as = (r, q)"
      using "2.prems"(1) by (auto split: if_splits)
    then show ?case
    proof cases
      case stop
      with "2.prems" show ?thesis by (auto intro: exI [of _ 0])
    next
      case last
      with "2.prems" show ?thesis by (auto simp: total_size_def intro: exI [of _ 1])
    next
      case more
      have "(\<exists>k. r = (selected @ [a]) @ take k as) \<and> q = total_size r \<and> length r \<le> mx \<and> (q \<le> cap \<or> length r \<le> 1)
        \<and> (r = selected @ [a] \<or> length r = 1 \<or> total_size (butlast r) < needed)"
        by (rule "2.IH") (use more "2.prems" in \<open>auto simp: total_size_def\<close>)
      then show ?thesis using "2.prems" by (auto simp: total_size_def intro: exI [of _ "Suc _"])
    qed
  qed (auto simp: total_size_def)
  then show "\<exists>k. r = sel @ take k as" "q = total_size r" "length r \<le> mx" "q \<le> cap \<or> length r \<le> 1"
    "r = sel \<or> length r = 1 \<or> total_size (butlast r) < needed" by blast+
qed

lemma filter_py_Inr:
  assumes "filter_py f xs s = (Inr ys, s')" "\<And>x. reads (f x)"
  shows "ys = filter (\<lambda>x. f x s = (Inr True, s)) xs"
  using assms(1)
proof (induction xs arbitrary: ys s')
  case (Cons x xs)
  from Cons.prems obtain ok s1 zs s2 where x: "f x s = (Inr ok, s1)" and zs: "filter_py f xs s1 = (Inr zs, s2)"
    and ys: "ys = (if ok then x # zs else zs)" by (auto elim!: bind_py_Inr_E)
  have "s1 = s" using readsD [OF assms(2) x] .
  with Cons.IH zs x ys show ?case by auto
qed simp


lemma entry_rows_facts:
  "length (entry_rows i m pos rows) = length rows" "map ie_position (entry_rows i m pos rows) = [pos..<pos + length rows]"
  "\<forall>e \<in> set (entry_rows i m pos rows). ie_manifest e = m"
  "map ie_size (entry_rows i m pos rows) = map (ia_size \<circ> fst) rows"
  by (induction i m pos rows rule: entry_rows.induct) (auto simp: entry_of_def upt_rec)

text \<open>An entry names an asset as the inventory has it.\<close>

definition entry_names :: "cleanup_entry \<Rightarrow> icloud_asset \<Rightarrow> bool" where
  "entry_names e a \<longleftrightarrow> ie_asset e = ia_id a \<and> ie_apple_id e = ia_apple_id a \<and> ie_record_name e = ia_record_name a
     \<and> ie_change_tag e = ia_change_tag a \<and> ie_size e = ia_size a \<and> ie_completed_at e = None"

lemma entry_rows_names: "e \<in> set (entry_rows i m pos rows) \<Longrightarrow> \<exists>a \<in> fst ` set rows. entry_names e a"
  by (induction i m pos rows rule: entry_rows.induct) (auto simp: entry_of_def entry_names_def)

lemma sort_positions: "map ie_position es = [0..<n] \<Longrightarrow> sort_key ie_position es = es"
  by (rule sort_key_id_if_sorted) (metis sorted_upt)

lemma rows_of: "map_py (\<lambda>a. bind_py (evidence_digest_of cfg a) (\<lambda>ev. ret (a, ev))) as s = (Inr rows, s') \<Longrightarrow> map fst rows = as"
proof (induction as arbitrary: s rows)
  case (Cons a as)
  then show ?case by (auto elim!: bind_py_Inr_E)
qed simp

lemma insert_manifest_run:
  assumes "insert_manifest digest now q target planned rows w = (Inr m, w')"
  shows "im_id m = fresh_id im_id (manifests (live w)) \<and> im_status m = PendingApproval \<and> im_quota m = q_quota q
    \<and> im_planned m = planned \<and> im_expires_at m = dt_add now (hours 24)
    \<and> manifests (live w') = manifests (live w) @ [m]
    \<and> entries (live w') = entries (live w) @ entry_rows (fresh_id ie_id (entries (live w))) (im_id m) 0 rows"
  using assms
  by (auto simp: insert_manifest_def query_def on_db_def cleanup_audit_def add_audit_def bind_py_def seq_def)

lemma plan_manifest_new:
  assumes "plan_manifest cfg now q w = (Inr (Some m), w')" "m \<notin> set (manifests (live w))"
  obtains selected planned rows digest where
    "select_assets (cu_max_assets cfg) (max 0 (q_used q - percent_of (q_quota q) (cu_target cfg)))
       (percent_of (q_quota q) (cu_max_quota cfg)) [] 0
       (filter (\<lambda>a. eligible_asset cfg now a w = (Inr True, w)) (asset_rows (live w))) = (selected, planned)"
    "selected \<noteq> []" "map fst rows = selected"
    "insert_manifest digest now q (percent_of (q_quota q) (cu_target cfg)) planned rows w = (Inr m, w')"
proof -
  let ?rows = "asset_rows (live w)"
  from assms(1) obtain cs w1 where cs: "filter_py (eligible_asset cfg now) ?rows w = (Inr cs, w1)"
    and rest: "(case select_assets (cu_max_assets cfg) (max 0 (q_used q - percent_of (q_quota q) (cu_target cfg)))
       (percent_of (q_quota q) (cu_max_quota cfg)) [] 0 cs of (selected, planned) \<Rightarrow>
     if selected = [] then ret None
     else bind_py (map_py (\<lambda>a. bind_py (evidence_digest_of cfg a) (\<lambda>ev. ret (a, ev))) selected) (\<lambda>rows.
       let digest = cu_sha cfg (manifest_json now q rows) in
       bind_py (query (\<lambda>d. tbl_get im_digest digest (manifests d))) (\<lambda>existing.
       case existing of Some m \<Rightarrow> ret (Some m)
       | None \<Rightarrow> bind_py (insert_manifest digest now q (percent_of (q_quota q) (cu_target cfg)) planned rows) (\<lambda>m. ret (Some m))))) w1
     = (Inr (Some m), w')"
    unfolding plan_manifest_def Let_def by (auto simp: query_def elim!: bind_py_Inr_E)
  have "reads (filter_py (eligible_asset cfg now) ?rows)" by (intro reads_rules)
  from readsD [OF this cs] have w1: "w1 = w" .
  have ceq: "cs = filter (\<lambda>a. eligible_asset cfg now a w = (Inr True, w)) ?rows"
    by (rule filter_py_Inr [OF cs]) (rule reads_rules)
  obtain selected planned where sel: "select_assets (cu_max_assets cfg) (max 0 (q_used q - percent_of (q_quota q) (cu_target cfg)))
       (percent_of (q_quota q) (cu_max_quota cfg)) [] 0 cs = (selected, planned)" by fastforce
  from rest sel w1 have ne: "selected \<noteq> []" by auto
  from rest sel w1 ne obtain rows w2 where rows: "map_py (\<lambda>a. bind_py (evidence_digest_of cfg a) (\<lambda>ev. ret (a, ev))) selected w = (Inr rows, w2)"
    and r3: "bind_py (query (\<lambda>d. tbl_get im_digest (cu_sha cfg (manifest_json now q rows)) (manifests d))) (\<lambda>existing.
       case existing of Some m \<Rightarrow> ret (Some m)
       | None \<Rightarrow> bind_py (insert_manifest (cu_sha cfg (manifest_json now q rows)) now q (percent_of (q_quota q) (cu_target cfg)) planned rows)
           (\<lambda>m. ret (Some m))) w2 = (Inr (Some m), w')"
    unfolding Let_def by (auto elim: bind_py_Inr_E)
  have "reads (map_py (\<lambda>a. bind_py (evidence_digest_of cfg a) (\<lambda>ev. ret (a, ev))) selected)" by (intro reads_rules)
  from readsD [OF this rows] have w2: "w2 = w" .
  from r3 w2 assms(2) have "insert_manifest (cu_sha cfg (manifest_json now q rows)) now q (percent_of (q_quota q) (cu_target cfg)) planned rows w
      = (Inr m, w')"
    by (auto simp: query_def elim!: bind_py_Inr_E split: option.splits dest: tbl_get_Some)
  then show thesis using that sel ne rows_of [OF rows] unfolding ceq by blast
qed



section \<open>What an execution deletes\<close>

text \<open>
  An entry that may be deleted: the remote asset is there, no favorite, and still the one that was approved,
  and the asset of the inventory is safe to delete.
\<close>

definition approved_entry :: "cleanup_config \<Rightarrow> datetime \<Rightarrow> remote_asset list \<Rightarrow> fsys \<Rightarrow> db \<Rightarrow> cleanup_entry \<Rightarrow> bool" where
  "approved_entry cfg now remote fs d e \<longleftrightarrow>
     (\<exists>a \<in> set remote. ra_id a = ie_apple_id e \<and> \<not> ra_favorite a \<and> ra_record_name a = ie_record_name e
        \<and> ra_change_tag a = ie_change_tag e)
     \<and> (\<exists>a. tbl_get ia_id (ie_asset e) (assets d) = Some a \<and> safe_asset cfg now fs d a)"

lemma check_remote_Inr:
  assumes "check_remote remote e = Inr u"
  shows "\<exists>a \<in> set remote. ra_id a = ie_apple_id e \<and> \<not> ra_favorite a \<and> ra_record_name a = ie_record_name e
        \<and> ra_change_tag a = ie_change_tag e"
proof -
  from assms obtain a where a: "map_of (rev (map (\<lambda>a. (ra_id a, a)) remote)) (ie_apple_id e) = Some a"
    and ok: "\<not> ra_favorite a" "ra_record_name a = ie_record_name e" "ra_change_tag a = ie_change_tag e"
    by (auto simp: check_remote_def split: option.splits if_splits)
  from map_of_SomeD [OF a] have "a \<in> set remote" "ra_id a = ie_apple_id e" by auto
  with ok show ?thesis by blast
qed

lemma check_entry_Inr:
  assumes "check_entry cfg m remote gates now u e w = (Inr u', w')"
  shows "w' = w" "approved_entry cfg now remote (disk w) (live w) e"
    "files_deleted u' = files_deleted u + 1" "bytes_deleted u' = bytes_deleted u + ie_size e"
    "files_deleted u < cu_max_assets cfg" "bytes_deleted u + ie_size e \<le> max_bytes_deleted_per_run (cleanup_limits cfg m)"
proof -
  show w': "w' = w" using readsD [OF reads_evidence(6) assms] .
  from assms obtain a w1 w2 where rem: "check_remote remote e = Inr ()" and a: "load_asset (ie_asset e) w = (Inr a, w1)"
    and el: "eligible_asset cfg now a w1 = (Inr True, w2)"
    and rest: "check_gate cfg m gates now u e a w2 = (Inr u', w')"
    unfolding check_entry_def
    by (elim seq_Inr_E bind_py_Inr_E) (auto simp: require_Inr_iff)
  have w1: "w1 = w" using readsD [OF reads_load(2) a] .
  from a w1 have "tbl_get ia_id (ie_asset e) (assets (live w)) = Some a"
    by (auto simp: load_asset_def query_def bind_py_def split: option.splits)
  with check_remote_Inr [OF rem] eligible_asset_True [OF el] w1
  show "approved_entry cfg now remote (disk w) (live w) e" by (auto simp: approved_entry_def)
  from rest obtain facts decision where d: "evaluate_deletion_gate facts u (cleanup_limits cfg m) (ie_size e) now = Inr decision"
    "allowed decision" and u': "u' = \<lparr>files_deleted = files_deleted u + 1, bytes_deleted = bytes_deleted u + ie_size e,
        eligible_files = eligible_files u\<rparr>"
    unfolding check_gate_def by (elim seq_Inr_E bind_py_Inr_E) (auto simp: require_Inr_iff)
  from gate_run(2) [OF d(1)] d(2) have "limits_allow u (cleanup_limits cfg m) (ie_size e)" by blast
  with u' show "files_deleted u' = files_deleted u + 1" "bytes_deleted u' = bytes_deleted u + ie_size e"
    "files_deleted u < cu_max_assets cfg" "bytes_deleted u + ie_size e \<le> max_bytes_deleted_per_run (cleanup_limits cfg m)"
    by (simp_all add: limits_allow_def cleanup_limits_def)
qed

lemma check_entries_Inr:
  assumes "check_entries cfg m remote gates now u es w = (Inr x, w')"
  shows "w' = w \<and> (\<forall>e \<in> set es. approved_entry cfg now remote (disk w) (live w) e)
    \<and> (es \<noteq> [] \<longrightarrow> files_deleted u + length es \<le> cu_max_assets cfg
        \<and> bytes_deleted u + sum_list (map ie_size es) \<le> max_bytes_deleted_per_run (cleanup_limits cfg m))"
  using assms
proof (induction es arbitrary: u)
  case (Cons e es)
  from Cons.prems obtain u' w1 where e: "check_entry cfg m remote gates now u e w = (Inr u', w1)"
    and es: "check_entries cfg m remote gates now u' es w1 = (Inr x, w')" by (auto elim: bind_py_Inr_E)
  note c = check_entry_Inr [OF e]
  from Cons.IH [of u'] es c(1) have ih: "w' = w \<and> (\<forall>e \<in> set es. approved_entry cfg now remote (disk w) (live w) e)
    \<and> (es \<noteq> [] \<longrightarrow> files_deleted u' + length es \<le> cu_max_assets cfg
        \<and> bytes_deleted u' + sum_list (map ie_size es) \<le> max_bytes_deleted_per_run (cleanup_limits cfg m))" by simp
  with c show ?case by (cases es) auto
qed simp

lemma check_entries_reads: "reads (check_entries cfg m remote gates now u es)"
  by (induction es arbitrary: u) (auto intro!: reads_rules)

lemma check_manifest_Inr:
  assumes "check_manifest cfg i dg gates w = (Inr (m, now), w')"
  shows "cu_milestone cfg \<and> gates \<and> tbl_get im_id i (manifests (live w)) = Some m \<and> im_digest m = dg
    \<and> im_status m = PendingApproval \<and> now = Aware (clock w (ticks w)) \<and> instant now < instant (im_expires_at m)
    \<and> w' = w\<lparr>ticks := Suc (ticks w)\<rparr>"
proof -
  from assms obtain found w1 where ms: "cu_milestone cfg" and f: "found = tbl_get im_id i (manifests (live w))" "w1 = w"
    and rest: "(case found of None \<Rightarrow> blocked ''cleanup manifest or digest is invalid''
     | Some m \<Rightarrow>
       if im_digest m \<noteq> dg then blocked ''cleanup manifest or digest is invalid''
       else bind_py utcnow (\<lambda>now.
         seq (require (im_status m = PendingApproval) (ICloudCleanupBlocked ''cleanup manifest is not pending approval'')) (
         if instant (im_expires_at m) \<le> instant now
         then seq (upd_manifest i (\<lambda>m. m\<lparr>im_status := Expired\<rparr>)) (blocked ''cleanup manifest expired'')
         else seq (require gates (ICloudCleanupBlocked ''global deletion safety gate is closed'')) (ret (m, now))))) w1 = (Inr (m, now), w')"
    unfolding check_manifest_def by (elim seq_Inr_E bind_py_Inr_E) (auto simp: require_Inr_iff query_def)
  from rest obtain m' where m': "found = Some m'" "im_digest m' = dg"
    and r2: "bind_py utcnow (\<lambda>now.
         seq (require (im_status m' = PendingApproval) (ICloudCleanupBlocked ''cleanup manifest is not pending approval'')) (
         if instant (im_expires_at m') \<le> instant now
         then seq (upd_manifest i (\<lambda>m. m\<lparr>im_status := Expired\<rparr>)) (blocked ''cleanup manifest expired'')
         else seq (require gates (ICloudCleanupBlocked ''global deletion safety gate is closed'')) (ret (m', now)))) w1 = (Inr (m, now), w')"
    by (auto simp: blocked_def split: option.splits if_splits)
  let ?now = "Aware (clock w (ticks w))" and ?w = "w\<lparr>ticks := Suc (ticks w)\<rparr>"
  from r2 f(2) have r3: "seq (require (im_status m' = PendingApproval) (ICloudCleanupBlocked ''cleanup manifest is not pending approval'')) (
         if instant (im_expires_at m') \<le> instant ?now
         then seq (upd_manifest i (\<lambda>m. m\<lparr>im_status := Expired\<rparr>)) (blocked ''cleanup manifest expired'')
         else seq (require gates (ICloudCleanupBlocked ''global deletion safety gate is closed'')) (ret (m', ?now))) ?w = (Inr (m, now), w')"
    by (elim bind_py_Inr_E) (auto simp: utcnow_def)
  then have "im_status m' = PendingApproval" "\<not> instant (im_expires_at m') \<le> instant ?now" "gates" "m = m'" "now = ?now" "w' = ?w"
    by (auto simp: require_Inr_iff blocked_def split: if_splits elim!: seq_Inr_E)
  with ms f m' show ?thesis by simp
qed


lemma local_py_run: "local_py m s = (x, s') \<longleftrightarrow> (\<exists>w'. m (fst s) = (x, w') \<and> s' = (w', snd s))"
  by (auto simp: local_py_def split: prod.splits)

lemma remote_py_run: "remote_py m s = (x, s') \<longleftrightarrow> (\<exists>r'. m (snd s) = (x, r') \<and> s' = (fst s, r'))"
  by (auto simp: remote_py_def split: prod.splits)

lemma approval_no_delete: "approval cfg (c\<lparr>ct_delete := del\<rparr>) i dg gates = approval cfg c i dg gates"
  by (simp add: approval_def)

lemma start_execution_run:
  "\<exists>w'. start_execution i now w = (Inr (), w') \<and> durable w' = live w' \<and> disk w' = disk w
    \<and> manifests (live w') = tbl_upd im_id i (\<lambda>m. m\<lparr>im_status := Executing, approved_at := Some now\<rparr>) (manifests (live w))
    \<and> entries (live w') = entries (live w) \<and> assets (live w') = assets (live w)"
  by (simp add: start_execution_def upd_manifest_def cleanup_audit_def add_audit_def on_db_def commit_def bind_py_def seq_def)

text \<open>Before the approval is committed, nothing is: neither the database nor the disk changes.\<close>

definition untouched :: "db \<Rightarrow> fsys \<Rightarrow> 'r cloud \<Rightarrow> bool" where
  "untouched d fs s \<longleftrightarrow> durable (fst s) = d \<and> disk (fst s) = fs"

lemma keeps_untouched:
  "keeps (untouched d fs) (remote_py m)" "reads m' \<Longrightarrow> keeps (untouched d fs) (local_py m')"
  "keeps (untouched d fs) (local_py (check_manifest cfg i dg gates))"
proof -
  show "keeps (untouched d fs) (remote_py m)"
    by (simp add: keeps_def untouched_def remote_py_def split: prod.split)
  show "reads m' \<Longrightarrow> keeps (untouched d fs) (local_py m')"
    by (auto simp: keeps_def untouched_def local_py_def dest: readsD split: prod.split)
  have still: "durable (snd (check_manifest cfg i dg gates w)) = durable w \<and> disk (snd (check_manifest cfg i dg gates w)) = disk w" for w
    by (auto simp: check_manifest_def require_def query_def utcnow_def upd_manifest_def on_db_def blocked_def bind_py_def seq_def
        split: option.split)
  show "keeps (untouched d fs) (local_py (check_manifest cfg i dg gates))"
    unfolding keeps_def untouched_def local_py_def using still
    by (auto split: prod.split) (metis snd_conv)+
qed

lemma approval_Inl:
  assumes "approval cfg c i dg gates s = (Inl e, s')"
  shows "durable (fst s') = durable (fst s)" "disk (fst s') = disk (fst s)"
proof -
  let ?P = "untouched (durable (fst s)) (disk (fst s))"
  have last: "hoare ?P (seq (local_py (start_execution i now)) (ret es)) (\<lambda>_ _. True) (\<lambda>_. ?P)" for now es
    unfolding hoare_def
  proof (intro allI impI)
    fix t
    obtain w' where "start_execution i now (fst t) = (Inr (), w')" using start_execution_run by blast
    then have "seq (local_py (start_execution i now)) (ret es) t = (Inr es, (w', snd t))"
      by (cases t) (simp add: seq_def bind_py_def local_py_def)
    then show "case seq (local_py (start_execution i now)) (ret es) t of (Inl e, t') \<Rightarrow> ?P t' | (Inr x, t') \<Rightarrow> True"
      by simp
  qed
  have "hoare ?P (approval cfg c i dg gates) (\<lambda>_ _. True) (\<lambda>_. ?P)"
    unfolding approval_def case_prod_beta
    by (intro hoare_keeps_bind hoare_keeps_seq keeps_untouched keeps_lift_sum keeps_require reads_rules check_entries_reads last)
  from hoare_Inl [OF this _ assms] have "?P s'" by (simp add: untouched_def)
  then show "durable (fst s') = durable (fst s)" "disk (fst s') = disk (fst s)" by (simp_all add: untouched_def)
qed

definition approved :: "cleanup_config \<Rightarrow> 'r control \<Rightarrow> nat \<Rightarrow> string \<Rightarrow> world \<Rightarrow> 'r \<Rightarrow> cleanup_entry list \<Rightarrow> 'r \<Rightarrow> bool" where
  "approved cfg c i dg w r es r' \<longleftrightarrow> cu_milestone cfg \<and> es = manifest_entries i (live w)
     \<and> (\<exists>m. tbl_get im_id i (manifests (live w)) = Some m \<and> im_digest m = dg \<and> im_status m = PendingApproval
          \<and> clock w (ticks w) < instant (im_expires_at m)
          \<and> int (sum_list (map ie_size es)) \<le> max 0 (percent_of (im_quota m) (cu_max_quota cfg)))
     \<and> length es \<le> cu_max_assets cfg
     \<and> (\<exists>q r1 p remote. ct_quota c r = (Inr q, r1) \<and> used_percent q = Inr p \<and> cu_trigger cfg \<le> p \<and> ct_assets c r1 = (Inr remote, r')
          \<and> (\<forall>e \<in> set es. approved_entry cfg (Aware (clock w (ticks w))) remote (disk w) (live w) e))"

lemma approval_Inr:
  assumes "approval cfg c i dg gates (w, r) = (Inr es, s')"
  shows "gates" "approved cfg c i dg w r es (snd s')" "durable (fst s') = live (fst s')" "disk (fst s') = disk w"
    "entries (live (fst s')) = entries (live w)" "assets (live (fst s')) = assets (live w)"
    "\<exists>now. manifests (live (fst s')) = tbl_upd im_id i (\<lambda>m. m\<lparr>im_status := Executing, approved_at := Some now\<rparr>) (manifests (live w))"
proof -
  let ?now = "Aware (clock w (ticks w))" and ?w = "w\<lparr>ticks := Suc (ticks w)\<rparr>"
  from assms obtain m now s1 q s2 p remote s3 s4 s5 where
    m: "local_py (check_manifest cfg i dg gates) (w, r) = (Inr (m, now), s1)"
    and q: "remote_py (ct_quota c) s1 = (Inr q, s2)" and p: "used_percent q = Inr p" "\<not> p < cu_trigger cfg"
    and remote: "remote_py (ct_assets c) s2 = (Inr remote, s3)"
    and es: "local_py (query (manifest_entries i)) s3 = (Inr es, s4)"
    and chk: "local_py (check_entries cfg m remote gates now \<lparr>files_deleted = 0, bytes_deleted = 0, eligible_files = int (length es)\<rparr> es) s4 = (Inr (), s5)"
    and st: "local_py (start_execution i now) s5 = (Inr (), s')"
    unfolding approval_def case_prod_beta
    by (elim seq_Inr_E bind_py_Inr_E) (auto simp: require_Inr_iff)
  from m obtain w1 where m1: "check_manifest cfg i dg gates w = (Inr (m, now), w1)" and s1: "s1 = (w1, r)"
    by (auto simp: local_py_run)
  note cm = check_manifest_Inr [OF m1]
  from q s1 cm obtain r1 where q1: "ct_quota c r = (Inr q, r1)" and s2: "s2 = (?w, r1)" by (auto simp: remote_py_run)
  from remote s2 obtain r2 where a1: "ct_assets c r1 = (Inr remote, r2)" and s3: "s3 = (?w, r2)" by (auto simp: remote_py_run)
  from es s3 have e1: "es = manifest_entries i (live w)" and s4: "s4 = (?w, r2)" by (auto simp: local_py_run query_def)
  from chk s4 obtain w5 where c5: "check_entries cfg m remote gates now \<lparr>files_deleted = 0, bytes_deleted = 0, eligible_files = int (length es)\<rparr> es ?w
      = (Inr (), w5)" and s5: "s5 = (w5, r2)" by (auto simp: local_py_run)
  from check_entries_Inr [OF c5] have ce: "w5 = ?w" "\<forall>e \<in> set es. approved_entry cfg now remote (disk w) (live w) e"
    "es \<noteq> [] \<longrightarrow> length es \<le> cu_max_assets cfg \<and> sum_list (map ie_size es) \<le> max_bytes_deleted_per_run (cleanup_limits cfg m)"
    by simp_all
  have bytes: "int (sum_list (map ie_size es)) \<le> max 0 (percent_of (im_quota m) (cu_max_quota cfg))"
    using ce(3) by (cases es) (auto simp: cleanup_limits_def)
  have count: "length es \<le> cu_max_assets cfg" using ce(3) by (cases es) auto
  from st s5 ce(1) obtain w6 where st6: "start_execution i now ?w = (Inr (), w6)" and s': "s' = (w6, r2)"
    by (auto simp: local_py_run)
  from cm show "gates" by blast
  from cm q1 p a1 e1 ce(2) bytes count s' show "approved cfg c i dg w r es (snd s')"
    by (auto simp: approved_def)
  from start_execution_run [of i now ?w] st6 have "durable w6 = live w6 \<and> disk w6 = disk w \<and> entries (live w6) = entries (live w)
    \<and> assets (live w6) = assets (live w)
    \<and> manifests (live w6) = tbl_upd im_id i (\<lambda>m. m\<lparr>im_status := Executing, approved_at := Some now\<rparr>) (manifests (live w))" by auto
  with s' show "durable (fst s') = live (fst s')" "disk (fst s') = disk w"
    "entries (live (fst s')) = entries (live w)" "assets (live (fst s')) = assets (live w)"
    "\<exists>now. manifests (live (fst s')) = tbl_upd im_id i (\<lambda>m. m\<lparr>im_status := Executing, approved_at := Some now\<rparr>) (manifests (live w))"
    by auto
qed



section \<open>How an execution ends\<close>

text \<open>The state of the remote side after these deletions, if the client confirmed each of them.\<close>

fun confirmed :: "'r control \<Rightarrow> cleanup_entry list \<Rightarrow> 'r \<Rightarrow> 'r option" where
  "confirmed c [] r = Some r"
| "confirmed c (e # es) r = (case ct_delete c (ie_apple_id e) (ie_record_name e) (ie_change_tag e) r of
     (Inr True, r') \<Rightarrow> confirmed c es r' | _ \<Rightarrow> None)"

text \<open>An entry is recorded as deleted: on the entry and on its asset.\<close>

definition recorded :: "db \<Rightarrow> cleanup_entry \<Rightarrow> bool" where
  "recorded d e \<longleftrightarrow> (\<forall>x \<in> set (entries d). ie_id x = ie_id e \<longrightarrow> ie_completed_at x \<noteq> None)
     \<and> (\<forall>a \<in> set (assets d). ia_id a = ie_asset e \<longrightarrow> remotely_deleted_at a \<noteq> None)"

lemma audits_run:
  "\<exists>w'. for_each (\<lambda>c. cleanup_audit kind (f c) (g c)) cs w = (Inr (), w') \<and> entries (live w') = entries (live w)
    \<and> assets (live w') = assets (live w) \<and> manifests (live w') = manifests (live w)
    \<and> settings (live w') = settings (live w) \<and> disk w' = disk w"
proof (induction cs arbitrary: w)
  case (Cons x xs)
  define v where "v = snd (cleanup_audit kind (f x) (g x) w)"
  have a: "cleanup_audit kind (f x) (g x) w = (Inr (), v)" "entries (live v) = entries (live w)"
    "assets (live v) = assets (live w)" "manifests (live v) = manifests (live w)"
    "settings (live v) = settings (live w)" "disk v = disk w"
    by (simp_all add: v_def cleanup_audit_def add_audit_def on_db_def)
  from Cons [of v] a show ?case by (auto simp: seq_def bind_py_def)
qed simp

lemma complete_entry_run:
  "\<exists>w' now. complete_entry i e w = (Inr (), w') \<and> durable w' = live w' \<and> disk w' = disk w
    \<and> manifests (live w') = manifests (live w) \<and> settings (live w') = settings (live w)
    \<and> entries (live w') = tbl_upd ie_id (ie_id e) (\<lambda>x. x\<lparr>ie_completed_at := Some now\<rparr>) (entries (live w))
    \<and> assets (live w') = tbl_upd ia_id (ie_asset e) (\<lambda>a. a\<lparr>remotely_deleted_at := Some now\<rparr>) (assets (live w))"
proof -
  let ?now = "Aware (clock w (ticks w))"
  let ?d = "assets_update (tbl_upd ia_id (ie_asset e) (\<lambda>a. a\<lparr>remotely_deleted_at := Some ?now\<rparr>))
      (entries_update (tbl_upd ie_id (ie_id e) (\<lambda>x. x\<lparr>ie_completed_at := Some ?now\<rparr>)) (live w))"
  let ?w = "w\<lparr>ticks := Suc (ticks w), live := ?d\<rparr>"
  let ?au = "for_each (\<lambda>c. cleanup_audit ''icloud_asset_moved_to_recently_deleted'' (Some (ic_item c))
            [(''manifest_id'', PInt (int i)), (''apple_asset_id'', PStr (ie_apple_id e))])
         (filter (\<lambda>c. ic_asset c = ie_asset e) (components (live w)))"
  obtain w2 where a: "?au ?w = (Inr (), w2)" "entries (live w2) = entries ?d" "assets (live w2) = assets ?d"
    "manifests (live w2) = manifests ?d" "settings (live w2) = settings ?d" "disk w2 = disk w"
    using audits_run [of "''icloud_asset_moved_to_recently_deleted''" "\<lambda>c. Some (ic_item c)"
      "\<lambda>c. [(''manifest_id'', PInt (int i)), (''apple_asset_id'', PStr (ie_apple_id e))]"
      "filter (\<lambda>c. ic_asset c = ie_asset e) (components (live w))" ?w]
    by (elim exE conjE) (rule that, assumption, simp_all)
  have "complete_entry i e w = (Inr (), w2\<lparr>durable := live w2\<rparr>)"
    using a(1) by (simp add: complete_entry_def utcnow_def on_db_def query_def commit_def bind_py_def seq_def)
  with a show ?thesis by (intro exI [of _ "w2\<lparr>durable := live w2\<rparr>"] exI [of _ ?now]) simp
qed

lemma recorded_complete:
  assumes "entries d' = tbl_upd ie_id (ie_id e) (\<lambda>x. x\<lparr>ie_completed_at := Some now\<rparr>) (entries d)"
    "assets d' = tbl_upd ia_id (ie_asset e) (\<lambda>a. a\<lparr>remotely_deleted_at := Some now\<rparr>) (assets d)"
  shows "recorded d' e" "recorded d x \<Longrightarrow> recorded d' x"
  using assms by (auto simp: recorded_def tbl_upd_def)

definition locked :: "db \<Rightarrow> bool" where
  "locked d \<longleftrightarrow> tbl_get rs_key ''global_deletion_enabled'' (settings d) = Some \<lparr>rs_key = ''global_deletion_enabled'', rs_value = ''false''\<rparr>
     \<and> tbl_get rs_key ''safety_lock'' (settings d) = Some \<lparr>rs_key = ''safety_lock'', rs_value = ''true''\<rparr>"

definition status_of :: "nat \<Rightarrow> db \<Rightarrow> cleanup_status option" where
  "status_of i d = map_option im_status (tbl_get im_id i (manifests d))"

lemma status_upd: "manifests d' = tbl_upd im_id i f (manifests d) \<Longrightarrow> (\<And>m. im_id (f m) = im_id m)
    \<Longrightarrow> status_of i d' = map_option (im_status \<circ> f) (tbl_get im_id i (manifests d))"
  by (simp add: status_of_def tbl_get_upd_same option.map_comp)


lemma manual_review_run:
  assumes "status_of i (live w) \<noteq> None"
  shows "\<exists>w'. manual_review i why w = (Inr (), w') \<and> durable w' = live w' \<and> disk w' = disk w \<and> locked (live w')
    \<and> entries (live w') = entries (live w) \<and> assets (live w') = assets (live w)
    \<and> status_of i (live w') = Some (if \<exists>e \<in> set (manifest_entries i (live w)). ie_completed_at e \<noteq> None then Partial else CleanupReview)"
proof -
  let ?some = "list_ex (\<lambda>e. ie_completed_at e \<noteq> None) (manifest_entries i (live w))"
  let ?f = "\<lambda>m::cleanup_manifest. m\<lparr>im_status := (if ?some then Partial else CleanupReview), failure_reason := Some why\<rparr>"
  let ?w = "w\<lparr>live := manifests_update (tbl_upd im_id i ?f) (live w)\<rparr>"
  obtain w1 where a: "set_setting ''global_deletion_enabled'' ''false'' ?w = (Inr (), w1)"
    "tbl_get rs_key ''global_deletion_enabled'' (settings (live w1)) = Some \<lparr>rs_key = ''global_deletion_enabled'', rs_value = ''false''\<rparr>"
    "live w1 = settings_update (\<lambda>_. settings (live w1)) (live ?w)" "disk w1 = disk w"
    using set_setting_run [of "''global_deletion_enabled''" "''false''" ?w]
    by (elim exE conjE) (frule set_setting_frame, rule that, assumption+, simp_all)
  obtain w2 where b: "set_setting ''safety_lock'' ''true'' w1 = (Inr (), w2)"
    "tbl_get rs_key ''safety_lock'' (settings (live w2)) = Some \<lparr>rs_key = ''safety_lock'', rs_value = ''true''\<rparr>"
    "\<forall>j. j \<noteq> ''safety_lock'' \<longrightarrow> tbl_get rs_key j (settings (live w2)) = tbl_get rs_key j (settings (live w1))"
    "live w2 = settings_update (\<lambda>_. settings (live w2)) (live w1)" "disk w2 = disk w1"
    using set_setting_run [of "''safety_lock''" "''true''" w1]
    by (elim exE conjE) (frule set_setting_frame, rule that, assumption+)
  define w3 where "w3 = snd (cleanup_audit ''icloud_cleanup_manual_review'' None [(''manifest_id'', PInt (int i)), (''reason'', PStr why)] w2)"
  have c: "cleanup_audit ''icloud_cleanup_manual_review'' None [(''manifest_id'', PInt (int i)), (''reason'', PStr why)] w2 = (Inr (), w3)"
    "entries (live w3) = entries (live w2)" "assets (live w3) = assets (live w2)" "manifests (live w3) = manifests (live w2)"
    "settings (live w3) = settings (live w2)" "disk w3 = disk w2"
    by (simp_all add: w3_def cleanup_audit_def add_audit_def on_db_def)
  have run: "manual_review i why w = (Inr (), w3\<lparr>durable := live w3\<rparr>)"
    using a(1) b(1) c(1)
    by (simp add: manual_review_def set_runtime_def query_def upd_manifest_def on_db_def commit_def bind_py_def seq_def)
  have live: "entries (live w3) = entries (live w)" "assets (live w3) = assets (live w)"
    "manifests (live w3) = tbl_upd im_id i ?f (manifests (live w))"
    using arg_cong [OF b(4), of entries] arg_cong [OF b(4), of assets] arg_cong [OF b(4), of manifests]
      arg_cong [OF a(3), of entries] arg_cong [OF a(3), of assets] arg_cong [OF a(3), of manifests] c(2-4) by simp_all
  have ne: "''global_deletion_enabled'' \<noteq> ''safety_lock''" by simp
  have "locked (live w3)" unfolding locked_def c(5) using a(2) b(2) b(3) ne by simp
  moreover have "status_of i (live w3) = Some (if ?some then Partial else CleanupReview)"
    using status_upd [OF live(3)] assms by (auto simp: status_of_def)
  ultimately show ?thesis
    using run live a(4) b(5) c(6) by (intro exI [of _ "w3\<lparr>durable := live w3\<rparr>"]) (simp add: list_ex_iff)
qed


lemma delete_entries_run:
  assumes "delete_entries c i es s = (res, s')" "status_of i (live (fst s)) \<noteq> None" "durable (fst s) = live (fst s)"
  shows "disk (fst s') = disk (fst s) \<and> durable (fst s') = live (fst s') \<and> (\<forall>x. recorded (live (fst s)) x \<longrightarrow> recorded (live (fst s')) x) \<and>
    (case res of
       Inr _ \<Rightarrow> confirmed c es (snd s) = Some (snd s') \<and> (\<forall>e \<in> set es. recorded (live (fst s')) e)
         \<and> manifests (live (fst s')) = manifests (live (fst s))
     | Inl err \<Rightarrow> err = ICloudCleanupBlocked ''iCloud deletion result requires manual review'' \<and> locked (live (fst s'))
         \<and> (\<exists>ds e rest r2 out. es = ds @ e # rest \<and> confirmed c ds (snd s) = Some r2
             \<and> ct_delete c (ie_apple_id e) (ie_record_name e) (ie_change_tag e) r2 = (out, snd s') \<and> out \<noteq> Inr True
             \<and> (\<forall>x \<in> set ds. recorded (live (fst s')) x))
         \<and> status_of i (live (fst s')) = Some (if \<exists>x \<in> set (manifest_entries i (live (fst s'))). ie_completed_at x \<noteq> None
             then Partial else CleanupReview))"
  using assms
proof (induction es arbitrary: s)
  case Nil
  then show ?case by auto
next
  case (Cons e es)
  obtain w r where s: "s = (w, r)" by fastforce
  obtain out r2 where d: "ct_delete c (ie_apple_id e) (ie_record_name e) (ie_change_tag e) r = (out, r2)" by fastforce
  have at: "attempt (remote_py (ct_delete c (ie_apple_id e) (ie_record_name e) (ie_change_tag e))) (w, r) = (Inr out, (w, r2))"
    using d by (simp add: attempt_def remote_py_def)
  show ?case
  proof (cases "out = Inr True")
    case True
    obtain w1 now where cr: "complete_entry i e w = (Inr (), w1)" "durable w1 = live w1" "disk w1 = disk w"
      "manifests (live w1) = manifests (live w)"
      "entries (live w1) = tbl_upd ie_id (ie_id e) (\<lambda>x. x\<lparr>ie_completed_at := Some now\<rparr>) (entries (live w))"
      "assets (live w1) = tbl_upd ia_id (ie_asset e) (\<lambda>a. a\<lparr>remotely_deleted_at := Some now\<rparr>) (assets (live w))"
      using complete_entry_run [of i e w] by (elim exE conjE) (rule that)
    have run: "delete_entries c i es (w1, r2) = (res, s')"
      using Cons.prems(1) at cr(1) True s by (simp add: bind_py_def seq_def local_py_def)
    have st: "status_of i (live (fst (w1, r2))) \<noteq> None" using Cons.prems(2) s cr(4) by (simp add: status_of_def)
    note ih = Cons.IH [OF run st] note rc = recorded_complete [OF cr(5,6)]
    have conf: "confirmed c (e # xs) r = confirmed c xs r2" for xs using d True by simp
    show ?thesis
    proof (cases res)
      case (Inr u)
      with ih cr rc conf s show ?thesis by auto
    next
      case (Inl err)
      from ih Inl cr(2) obtain ds e' rest r3 out' where sp: "es = ds @ e' # rest" "confirmed c ds r2 = Some r3"
        "ct_delete c (ie_apple_id e') (ie_record_name e') (ie_change_tag e') r3 = (out', snd s')" "out' \<noteq> Inr True"
        "\<forall>x \<in> set ds. recorded (live (fst s')) x" by auto
      have "e # es = (e # ds) @ e' # rest" "confirmed c (e # ds) r = Some r3" "\<forall>x \<in> set (e # ds). recorded (live (fst s')) x"
        using sp conf ih cr(2) rc(1) by auto
      with sp(3,4) have "\<exists>ds e' rest r3 out'. e # es = ds @ e' # rest \<and> confirmed c ds r = Some r3
          \<and> ct_delete c (ie_apple_id e') (ie_record_name e') (ie_change_tag e') r3 = (out', snd s') \<and> out' \<noteq> Inr True
          \<and> (\<forall>x \<in> set ds. recorded (live (fst s')) x)" by blast
      with ih Inl cr(2,3) rc(2) s show ?thesis by simp
    qed
  next
    case False
    obtain why where run: "delete_entries c i (e # es) s
        = seq (local_py (manual_review i why)) (blocked ''iCloud deletion result requires manual review'') (w, r2)"
    proof (cases out)
      case (Inl err)
      with at s that show thesis by (simp add: bind_py_def)
    next
      case (Inr b)
      with False have "b = False" by simp
      with Inr at s that show thesis by (simp add: bind_py_def)
    qed
    have st: "status_of i (live w) \<noteq> None" using Cons.prems(2) s by simp
    obtain w1 where mr: "manual_review i why w = (Inr (), w1)" "durable w1 = live w1" "disk w1 = disk w" "locked (live w1)"
      "entries (live w1) = entries (live w)" "assets (live w1) = assets (live w)"
      "status_of i (live w1) = Some (if \<exists>e \<in> set (manifest_entries i (live w)). ie_completed_at e \<noteq> None then Partial else CleanupReview)"
      using manual_review_run [OF st, of why] by (elim exE conjE) (rule that)
    have res: "res = Inl (ICloudCleanupBlocked ''iCloud deletion result requires manual review'')" "s' = (w1, r2)"
      using Cons.prems(1) run mr(1) by (simp_all add: seq_def bind_py_def local_py_def blocked_def)
    have same: "manifest_entries i (live w1) = manifest_entries i (live w)" by (simp add: manifest_entries_def mr(5))
    have rec: "recorded (live w1) x = recorded (live w) x" for x by (simp add: recorded_def mr(5,6))
    have "\<exists>ds e' rest r3 out'. e # es = ds @ e' # rest \<and> confirmed c ds r = Some r3
          \<and> ct_delete c (ie_apple_id e') (ie_record_name e') (ie_change_tag e') r3 = (out', r2) \<and> out' \<noteq> Inr True
          \<and> (\<forall>x \<in> set ds. recorded (live w1) x)"
      using d False by (intro exI [of _ "[]"] exI [of _ e] exI [of _ es] exI [of _ r] exI [of _ out]) simp
    with res mr s same rec show ?thesis by simp
  qed
qed


text \<open>C4: An approved execution always ends in a recorded state. When it is approved, the manifest is committed as
  executing before the first deletion. Then either the client confirmed the deletion of every entry, each entry
  and its asset is recorded as deleted and the manifest completed; or the first deletion that failed or was
  not confirmed is the last thing the remote side was asked for, everything before it is recorded, and
  committed are the lock of all deletions and a manifest that is partial, or for review when no entry had been
  deleted. The disk never changes.\<close>

theorem execution_ends_recorded:
  assumes run: "execute_manifest cfg c i dg gates (w, r) = (res, s')"
    and appr: "approval cfg c i dg gates (w, r) = (Inr es, s1)"
  shows "status_of i (durable (fst s1)) = Some Executing \<and> disk (fst s') = disk w \<and>
    (case res of
       Inr _ \<Rightarrow> confirmed c es (snd s1) = Some (snd s') \<and> (\<forall>e \<in> set es. recorded (live (fst s')) e)
         \<and> status_of i (live (fst s')) = Some Completed
     | Inl err \<Rightarrow> err = ICloudCleanupBlocked ''iCloud deletion result requires manual review'' \<and> locked (durable (fst s'))
         \<and> (\<exists>ds e rest r2 out. es = ds @ e # rest \<and> confirmed c ds (snd s1) = Some r2
             \<and> ct_delete c (ie_apple_id e) (ie_record_name e) (ie_change_tag e) r2 = (out, snd s') \<and> out \<noteq> Inr True
             \<and> (\<forall>x \<in> set ds. recorded (durable (fst s')) x))
         \<and> status_of i (durable (fst s')) = Some (if \<exists>x \<in> set (manifest_entries i (durable (fst s'))). ie_completed_at x \<noteq> None
             then Partial else CleanupReview))"
proof -
  note a = approval_Inr [OF appr]
  obtain m where m: "tbl_get im_id i (manifests (live w)) = Some m" using a(2) by (auto simp: approved_def)
  from a(7) obtain now where mm: "manifests (live (fst s1)) = tbl_upd im_id i (\<lambda>m. m\<lparr>im_status := Executing, approved_at := Some now\<rparr>) (manifests (live w))"
    by blast
  have st: "status_of i (live (fst s1)) = Some Executing" using status_upd [OF mm] m by simp
  then have some: "status_of i (live (fst s1)) \<noteq> None" by simp
  obtain x s2 where d: "delete_entries c i es s1 = (x, s2)" by (rule prod.exhaust)
  note dr = delete_entries_run [OF d some a(3)]
  show ?thesis
  proof (cases x)
    case (Inl err)
    then have "res = Inl err" "s' = s2" using run appr d by (simp_all add: execute_manifest_def bind_py_def seq_def)
    then show ?thesis using dr st a(3,4) Inl by simp
  next
    case (Inr u)
    obtain w3 now' where f: "finish_manifest i (fst s2) = (Inr (), w3)" "disk w3 = disk (fst s2)" "entries (live w3) = entries (live (fst s2))"
      "assets (live w3) = assets (live (fst s2))"
      "manifests (live w3) = tbl_upd im_id i (\<lambda>m. m\<lparr>im_status := Completed, im_completed_at := Some now'\<rparr>) (manifests (live (fst s2)))"
      by (simp add: finish_manifest_def utcnow_def upd_manifest_def cleanup_audit_def add_audit_def on_db_def bind_py_def seq_def)
    have res: "res = Inr ()" "s' = (w3, snd s2)"
      using run appr d Inr f(1) by (simp_all add: execute_manifest_def bind_py_def seq_def local_py_def split: prod.splits)
    have "manifests (live (fst s2)) = manifests (live (fst s1))" using dr Inr by simp
    then have "status_of i (live (fst s2)) = Some Executing" using st by (simp add: status_of_def)
    then have "status_of i (live w3) = Some Completed" using status_upd [OF f(5)] by (auto simp: status_of_def)
    moreover have "recorded (live w3) e = recorded (live (fst s2)) e" for e by (simp add: recorded_def f(3,4))
    ultimately show ?thesis using dr st a(3,4) Inr res f(2) by simp
  qed
qed

section \<open>Witnesses\<close>

definition cleanup_example :: cleanup_config where
  "cleanup_example = \<lparr>cu_relief = True, cu_milestone = True, cu_trigger = 90, cu_target = 80, cu_days = 0, cu_max_assets = 5,
     cu_max_quota = 10, cu_sha = (\<lambda>_. ''h'')\<rparr>"

definition safe_example :: archive_item where
  "safe_example = (blank_item 1 ''icloud_photos'' ''a'')\<lparr>original_size := 2, ai_state := QUARANTINED,
     plaintext_sha256 := Some ''h'', nas_path := Some [''a''], kopia_snapshot_id := Some ''s'', kopia_verified_at := Some (Aware 0),
     remote_provider := Some ''scaleway-glacier'', remote_bucket := Some ''b'', remote_object_identifier := Some ''o'',
     encryption_mode := Some ''e'', remote_size := Some 9, remote_verified_at := Some (Aware 0),
     cold_archived_at := Some (Aware 0), quarantine_expires_at := Some (Aware 0)\<rparr>"

definition asset_example :: icloud_asset where
  "asset_example = (new_asset 1 ''p'')\<lparr>ia_record_name := ''n'', ia_change_tag := ''t'', ia_size := 2\<rparr>"

definition cleanup_db :: db where
  "cleanup_db = empty_db\<lparr>items := [safe_example], assets := [asset_example],
     components := [\<lparr>ic_id = 1, ic_asset = 1, ic_item = 1\<rparr>]\<rparr>"

definition approval_db :: db where
  "approval_db = cleanup_db\<lparr>manifests := [\<lparr>im_id = 1, im_status = PendingApproval, im_digest = ''d'', im_used = 95,
     im_quota = 100, im_target = 80, im_planned = 2, im_expires_at = Aware 50, approved_at = None, im_completed_at = None,
     failure_reason = None\<rparr>], entries := [entry_of 1 1 0 asset_example ''h'']\<rparr>"

definition cleanup_world :: "db \<Rightarrow> world" where
  "cleanup_world d = \<lparr>disk = [([''a''], File ''hi'' 1 0)], live = d, durable = d, clock = (\<lambda>n. int n + 6), ticks = 0,
     rand = (\<lambda>n. dec n), draws = 0\<rparr>"

text \<open>A remote side with one asset; the state says whether it was deleted.\<close>

definition control_example :: "bool control" where
  "control_example = \<lparr>ct_quota = ret \<lparr>q_used = 95, q_quota = 100\<rparr>,
     ct_assets = ret [\<lparr>ra_id = ''p'', ra_record_name = ''n'', ra_change_tag = ''t'', ra_created_at = Aware 0, ra_size = 2,
       ra_favorite = False, ra_expected = 1\<rparr>],
     ct_delete = (\<lambda>i n t. (\<lambda>s. (Inr True, True)))\<rparr>"

theorem execution_ends_recorded_witness:
  "\<exists>s'. execute_manifest cleanup_example control_example 1 ''d'' True (cleanup_world approval_db, False) = (Inr (), s')
     \<and> status_of 1 (live (fst s')) = Some Completed \<and> disk (fst s') = disk (cleanup_world approval_db)"
proof -
  let ?s = "(cleanup_world approval_db, False)"
  let ?run = "execute_manifest cleanup_example control_example 1 ''d'' True ?s"
  let ?appr = "approval cleanup_example control_example 1 ''d'' True ?s"
  have "case fst ?appr of Inl e \<Rightarrow> False | Inr es \<Rightarrow> True" "case fst ?run of Inl e \<Rightarrow> False | Inr u \<Rightarrow> True" by code_simp+
  then obtain es s1 s' where "?appr = (Inr es, s1)" "?run = (Inr (), s')"
    by (cases ?appr; cases ?run) (auto split: sum.splits)
  from execution_ends_recorded [OF this(2,1)] this(2) show ?thesis by auto
qed



section \<open>Refreshing twice\<close>

text \<open>
  The second refresh of an inventory with a mapped asset breaks the unique index of the components, because
  the flush inserts the new components before it deletes the old ones.
\<close>

definition photo_asset :: remote_asset where
  "photo_asset = \<lparr>ra_id = ''photo'', ra_record_name = ''n'', ra_change_tag = ''t'', ra_created_at = Aware 0, ra_size = 2,
       ra_favorite = False, ra_expected = 1\<rparr>"

lemma photo_token: "asset_token ''photo'' = ''cGhvdG8''"
  by code_simp

lemma photo_found: "find_token (path_name ''2020/IMG_cGhvdG8_hevc.JPG'') = Some ''cGhvdG8''"
  by code_simp

lemma second_refresh_fails:
  "let w = cleanup_world (empty_db\<lparr>items := [safe_example\<lparr>source_identifier := ''2020/IMG_cGhvdG8_hevc.JPG''\<rparr>]\<rparr>) in
     \<exists>w1. map_inventory [photo_asset] w = (Inr 1, w1) \<and> fst (map_inventory [photo_asset] w1) = Inl IntegrityError"
proof -
  have tok: "asset_token (ra_id photo_asset) = ''cGhvdG8''" by (simp add: photo_asset_def photo_token)
  have src: "find_token (path_name (source_identifier (safe_example\<lparr>source_identifier := ''2020/IMG_cGhvdG8_hevc.JPG''\<rparr>))) = Some ''cGhvdG8''"
    by (simp add: photo_found)
  have prov: "source_provider safe_example = ''icloud_photos''" "ai_id safe_example = 1" by (simp_all add: safe_example_def blank_item_def)
  show ?thesis
    by (simp add: map_inventory_def map_asset_def upsert_asset_def set_components_def candidates_for_def tok src prov photo_asset_def
        cleanup_world_def empty_db_def query_def on_db_def utcnow_def bind_py_def seq_def Let_def photo_token photo_found fresh_id_def
        update_asset_def new_asset_def tbl_upd_def)
qed

end
