(* ===== verification/Cli.thy ===== *)
theory Cli
  imports Web_Proofs Cleanup_Proofs
begin

text \<open>
  The commands of the command line that run inside the appliance (\<open>cli.py\<close>). Their configuration is the one of the
  web application with the parts the commands add: the File Provider, the control client of iCloud and the program
  \<open>icloudpd\<close>, which downloads into the import root. A command returns what it prints, as data. The state is the
  world with the remote side of iCloud; commands that do not speak to iCloud run on the world alone.
\<close>

record 'r cli_config =
  cc_web :: web_config
  cc_fp :: fp_config
  cc_auth :: auth_config
  cc_control :: "'r control"
  cc_icloudpd :: "string list \<Rightarrow> (fsys, int \<times> string) py"
  cc_show :: "exn \<Rightarrow> string"
  cc_fromiso :: "string \<Rightarrow> datetime option"
  cc_canary :: bytes

definition exit_with :: "nat \<Rightarrow> exn" where
  "exit_with n = OtherError (''Exit '' @ dec n)"

definition bad_parameter :: "string \<Rightarrow> exn" where
  "bad_parameter m = OtherError (''BadParameter: '' @ m)"

definition settings_of :: "'r cli_config \<Rightarrow> app_settings" where
  "settings_of c = wb_settings (cc_web c)"

definition cleanup_of :: "'r cli_config \<Rightarrow> cleanup_config" where
  "cleanup_of c = \<lparr>cu_relief = st_icloud_capacity_relief_enabled (settings_of c),
     cu_milestone = st_icloud_deletion_milestone_approved (settings_of c),
     cu_trigger = st_icloud_cleanup_trigger_percent (settings_of c), cu_target = st_icloud_cleanup_target_percent (settings_of c),
     cu_days = st_icloud_cleanup_quarantine_days (settings_of c), cu_max_assets = nat (st_icloud_cleanup_max_assets (settings_of c)),
     cu_max_quota = st_icloud_cleanup_max_quota_percent (settings_of c), cu_sha = en_sha (wb_env (cc_web c))\<rparr>"

text \<open>A session of the database around steps that also speak to iCloud.\<close>

definition cloud_session :: "('r cloud, 'a) py \<Rightarrow> ('r cloud, 'a) py" where
  "cloud_session m = (\<lambda>(w, r). case m (w\<lparr>live := durable w\<rparr>, r) of
     (Inr x, (w', r')) \<Rightarrow> (Inr x, (w'\<lparr>durable := live w'\<rparr>, r'))
   | (Inl e, (w', r')) \<Rightarrow> (Inl e, (w'\<lparr>live := durable w'\<rparr>, r')))"

section \<open>Archive commands\<close>

definition test_policy :: "bool \<Rightarrow> source_policy" where
  "test_policy deletion = default_policy\<lparr>archive_after_days := 30, stability_window_hours := 24, quarantine_days := 7,
     deletion_enabled := deletion, manual_approval := False\<rparr>"

definition test_workflow :: "'r cli_config \<Rightarrow> bool \<Rightarrow> (world, workflow) py" where
  "test_workflow c deletion = on_disk (build_local_workflow (wb_env (cc_web c)) (settings_of c) (Some (test_policy deletion))
     deletion None ''local_test'' False)"

record status_view =
  sv_items :: nat
  sv_jobs :: nat
  sv_audits :: nat
  sv_deletion :: bool
  sv_lock :: bool

definition cli_status :: "(world, status_view) py" where
  "cli_status = bind_py (session_block (query (\<lambda>d. (length (items d), length (jobs d), length (audits d))))) (\<lambda>(i, j, a).
     bind_py (runtime_value ''global_deletion_enabled'' ''false'') (\<lambda>deletion.
     bind_py (runtime_value ''safety_lock'' ''true'') (\<lambda>lock.
     ret \<lparr>sv_items = i, sv_jobs = j, sv_audits = a, sv_deletion = (deletion = ''true''), sv_lock = (lock = ''true'')\<rparr>)))"

definition all_pages :: "'r cli_config \<Rightarrow> workflow \<Rightarrow> (world, nat list) py" where
  "all_pages c wk = bind_py (discover (wb_scan_pages (cc_web c)) wk None) (\<lambda>found.
     case found of None \<Rightarrow> raise_py (OtherError ''more pages than the scan takes'') | Some is \<Rightarrow> ret is)"

text \<open>Archiving the items in one of the given states; how many.\<close>

fun archive_in :: "archive_state list \<Rightarrow> workflow \<Rightarrow> nat list \<Rightarrow> (world, nat) py" where
  "archive_in states wk [] = ret 0"
| "archive_in states wk (i # is) = bind_py (load_item i) (\<lambda>item.
     if ai_state item \<in> set states
     then seq (archive wk i) (bind_py (archive_in states wk is) (\<lambda>n. ret (Suc n)))
     else archive_in states wk is)"

definition cli_scan :: "'r cli_config \<Rightarrow> bool \<Rightarrow> (world, nat) py" where
  "cli_scan c do_archive = bind_py (test_workflow c False) (\<lambda>wk.
     session_block (bind_py (all_pages c wk) (\<lambda>is.
       seq (if do_archive then bind_py (archive_in web_archivable wk is) (\<lambda>_. ret ()) else ret ()) (ret (length is)))))"

definition cli_dry_run :: "'r cli_config \<Rightarrow> (world, (string \<times> policy_decision) list) py" where
  "cli_dry_run c = bind_py (test_workflow c False) (\<lambda>wk.
     bind_py (on_disk (sc_discover (wf_source wk) None)) (\<lambda>found.
     bind_py utcnow (\<lambda>now.
     map_py (\<lambda>ob. bind_py (lift_sum (evaluate_policy ob (wf_policy wk) now)) (\<lambda>d. ret (relative_path ob, d))) (objects found))))"

definition cli_apply_policy :: "'r cli_config \<Rightarrow> int \<Rightarrow> int \<Rightarrow> int \<Rightarrow> (world, unit) py" where
  "cli_apply_policy c age stability quarantine =
     seq (require (age \<in> {0..36500} \<and> stability \<in> {0..8760} \<and> quarantine \<in> {1..3650}) (exit_with 2)) (
     seq (set_runtime_value ''archive_policy'' (wb_dump (cc_web c) (default_policy\<lparr>archive_after_days := age,
         stability_window_hours := stability, quarantine_days := quarantine, dry_run := True, manual_approval := True,
         deletion_enabled := False\<rparr>))) (
     seq (set_runtime_value ''global_deletion_enabled'' ''false'') (set_runtime_value ''safety_lock'' ''true'')))"

text \<open>The canary: \<open>dir\<close> is the temporary directory, removed afterwards by the caller.\<close>

definition cold_canary :: "'r cli_config \<Rightarrow> path \<Rightarrow> workflow \<Rightarrow> (fsys, cold_receipt) py" where
  "cold_canary c dir wk =
     (let env = wb_env (cc_web c); source = dir @ [''source.bin'']; restored = dir @ [''restored.bin''];
          expected = en_sha env (cc_canary c); cold = wf_cold wk in
      bind_py (cs_available cold) (\<lambda>ok.
      seq (require ok (exit_with 2)) (
      seq (write_new source (cc_canary c) (en_mtime env)) (
      bind_py (cs_upload cold source ''source.bin'' ''configuration-proof-v1'') (\<lambda>receipt.
      bind_py (cs_upload cold source ''source.bin'' ''configuration-proof-v1'') (\<lambda>repeated.
      seq (require (receipt = repeated) (RuntimeError ''cold-storage idempotent receipt changed'')) (
      bind_py (cs_verify cold receipt expected) (\<lambda>verified.
      seq (require verified (RuntimeError ''cold-storage independent verification failed'')) (
      seq (cs_restore cold receipt restored) (
      bind_py (sha256_file (en_sha env) restored) (\<lambda>h.
      seq (require (h = expected) (RuntimeError ''cold-storage restored plaintext hash mismatch'')) (ret receipt))))))))))))"

definition cli_cold_check :: "'r cli_config \<Rightarrow> path \<Rightarrow> (world, cold_receipt) py" where
  "cli_cold_check c dir = bind_py (test_workflow c False) (\<lambda>wk. on_disk (cold_canary c dir wk))"

section \<open>The deletion switch\<close>

definition cli_pause_deletion :: "(world, unit) py" where
  "cli_pause_deletion = seq (set_runtime_value ''global_deletion_enabled'' ''false'') (set_runtime_value ''safety_lock'' ''true'')"

definition checks :: "'r cli_config \<Rightarrow> bool \<Rightarrow> (world, startup_health) py" where
  "checks c recover = startup_checks (wb_host (cc_web c)) (root_of (cc_web c) st_active_root) (root_of (cc_web c) st_backup_root)
     (root_of (cc_web c) st_staging_root) (Some (root_of (cc_web c) st_smart_health_file))
     (st_require_smart_health (settings_of c)) recover"

definition cli_resume_deletion :: "'r cli_config \<Rightarrow> (world, unit) py" where
  "cli_resume_deletion c = bind_py (checks c True) (\<lambda>health.
     seq (require (startup_healthy health) (exit_with 2)) (
     seq (set_runtime_value ''global_deletion_enabled'' ''true'') (set_runtime_value ''safety_lock'' ''false'')))"

definition item_good :: "'r cli_config \<Rightarrow> archive_item \<Rightarrow> (world, bool) py" where
  "item_good c r = (case (nas_path r, plaintext_sha256 r) of
     (Some p, Some digest) \<Rightarrow> bind_py (look (\<lambda>fs. Inr (is_file fs p))) (\<lambda>ex.
       if ex then bind_py (on_disk (sha256_file (en_sha (wb_env (cc_web c))) p)) (\<lambda>h. ret (h = digest)) else ret False)
   | _ \<Rightarrow> ret False)"

text \<open>The id, path and result of every item with an active file; a failure ends the command with status 1.\<close>

definition cli_verify :: "'r cli_config \<Rightarrow> (world, (nat \<times> string \<times> bool) list) py" where
  "cli_verify c = bind_py (session_block (bind_py (query (\<lambda>d. filter (\<lambda>r. nas_path r \<noteq> None) (items d)))
       (map_py (\<lambda>r. bind_py (item_good c r) (\<lambda>good. ret (ai_id r, original_path r, good)))))) (\<lambda>rows.
     seq (require (list_all (\<lambda>(i, p, good). good) rows) (exit_with 1)) (ret rows))"

definition cli_diagnostics :: "'r cli_config \<Rightarrow> (world, startup_health) py" where
  "cli_diagnostics c = checks c True"

section \<open>File Provider commands\<close>

definition cli_pair :: "'r cli_config \<Rightarrow> (world, string \<times> string) py" where
  "cli_pair c = seq (require (st_file_provider_enabled (settings_of c)) (bad_parameter ''File Provider is disabled'')) (
     bind_py (session_block (create_pairing_code (cc_auth c))) (\<lambda>code. ret (st_file_provider_public_url (settings_of c), code)))"

definition cli_revoke :: "string \<Rightarrow> (world, unit) py" where
  "cli_revoke i = session_block (bind_py (revoke_device i) (\<lambda>ok. require ok (bad_parameter ''File Provider device does not exist'')))"

definition cli_project :: "'r cli_config \<Rightarrow> (world, nat) py" where
  "cli_project c = session_block (project_verified_archives (cc_fp c))"

section \<open>iCloud commands\<close>

definition icloudpd_arguments :: "'r cli_config \<Rightarrow> string list" where
  "icloudpd_arguments c = [''/usr/local/bin/icloudpd'', ''--no-progress-bar'', ''--log-level'', ''info'', ''--password-provider'', ''console'',
     ''--mfa-provider'', ''console'', ''--username'', st_icloud_apple_id (settings_of c), ''--cookie-directory'',
     st_icloud_session_directory (settings_of c), ''--library'', st_icloud_library (settings_of c), ''--directory'',
     st_icloud_import_root (settings_of c), ''--size'', ''original'', ''--live-photo-size'', ''original'', ''--folder-structure'',
     [CHR 0x7B] @ '':%Y/%m/%d'' @ [CHR 0x7D], ''--file-match-policy'', ''name-id7'']"

definition auth_arguments :: "'r cli_config \<Rightarrow> string list" where
  "auth_arguments c = [''/usr/local/bin/icloudpd'', ''--log-level'', ''info'', ''--password-provider'', ''console'', ''--mfa-provider'',
     ''console'', ''--username'', st_icloud_apple_id (settings_of c), ''--cookie-directory'',
     st_icloud_session_directory (settings_of c), ''--auth-only'']"

definition require_icloud :: "'r cli_config \<Rightarrow> (world, unit) py" where
  "require_icloud c = seq (require (st_icloud_enabled (settings_of c) \<and> st_icloud_apple_id (settings_of c) \<noteq> [])
       (RuntimeError ''iCloud Photos is not configured''))
     (on_disk (mkdirs (root_of (cc_web c) st_icloud_session_directory)))"

text \<open>The end of what the program wrote to standard error explains a failure; an interactive run keeps none. Lines end at
  the line boundaries of ASCII.\<close>

fun split_lines :: "string \<Rightarrow> string \<Rightarrow> string list" where
  "split_lines acc [] = (if acc = [] then [] else [rev acc])"
| "split_lines acc (x # xs) =
     (if x = CHR 0x0D \<and> take 1 xs = [CHR 0x0A] then split_lines acc xs
      else if x \<in> {CHR 0x0A, CHR 0x0B, CHR 0x0C, CHR 0x0D, CHR 0x1C, CHR 0x1D, CHR 0x1E} then rev acc # split_lines [] xs
      else split_lines (x # acc) xs)"

definition failure_detail :: "string \<Rightarrow> string" where
  "failure_detail stderr = (let captured = split_lines [] (strip stderr) in
     take 500 (redact_str (join '' | '' (drop (length captured - 3) captured))))"

definition icloud_run_failed :: "int \<Rightarrow> string \<Rightarrow> exn" where
  "icloud_run_failed code why = RuntimeError (''icloudpd exited '' @ py_str_int code @ (if why = [] then [] else '': '' @ why))"

definition run_icloudpd :: "'r cli_config \<Rightarrow> string list \<Rightarrow> bool \<Rightarrow> (world, unit) py" where
  "run_icloudpd c arguments interactive = bind_py (on_disk (cc_icloudpd c arguments)) (\<lambda>(code, stderr).
     require (code = 0) (icloud_run_failed code (failure_detail (if interactive then [] else stderr))))"

definition cli_icloud_auth :: "'r cli_config \<Rightarrow> (world, unit) py" where
  "cli_icloud_auth c = seq (require_icloud c) (run_icloudpd c (auth_arguments c) True)"

definition sync_archivable :: "archive_state list" where
  "sync_archivable = web_archivable @ [SOURCE_CHANGED, FAILED_RETRYABLE]"

definition sync_policy :: "'r cli_config \<Rightarrow> (world, source_policy) py" where
  "sync_policy c = bind_py (query (setting_of ''archive_policy'')) (\<lambda>v.
     bind_py (case v of Some (x # t) \<Rightarrow> lift_sum (wb_load (cc_web c) (x # t)) | _ \<Rightarrow> ret default_policy) (\<lambda>p.
     ret (p\<lparr>deletion_enabled := False, manual_approval := True\<rparr>)))"

definition is_cleanup_refusal :: "exn \<Rightarrow> bool" where
  "is_cleanup_refusal e = (case e of ICloudControlError _ \<Rightarrow> True | ICloudCleanupBlocked _ \<Rightarrow> True | _ \<Rightarrow> False)"

definition relieve :: "'r cli_config \<Rightarrow> ('r cloud, nat option) py" where
  "relieve c = (if \<not> st_icloud_capacity_relief_enabled (settings_of c) then ret None
     else try_py (seq (local_py (require_icloud c)) (bind_py (create_manifest (cleanup_of c) (cc_control c)) (\<lambda>m.
         seq (local_py (set_setting ''icloud_cleanup_last_error'' [])) (ret (map_option im_id m)))))
       (\<lambda>e. if is_cleanup_refusal e
         then Some (seq (local_py (set_setting ''icloud_cleanup_last_error'' (exn_name e))) (ret None)) else None))"

definition sync_session :: "'r cli_config \<Rightarrow> ('r cloud, nat \<times> nat \<times> nat option) py" where
  "sync_session c =
     bind_py (local_py (sync_policy c)) (\<lambda>policy.
     bind_py (local_py (on_disk (build_icloud_workflow (wb_env (cc_web c)) (settings_of c) (Some policy)))) (\<lambda>wk.
     bind_py (local_py (all_pages c wk)) (\<lambda>is.
     bind_py (local_py (archive_in sync_archivable wk is)) (\<lambda>archived.
     bind_py (relieve c) (\<lambda>manifest.
     seq (local_py (project_verified_archives (cc_fp c))) (ret (length is, archived, manifest)))))))"

definition set_now :: "string \<Rightarrow> (world, unit) py" where
  "set_now k = bind_py utcnow (\<lambda>now. set_runtime_value k (isoformat now))"

definition sync_body :: "'r cli_config \<Rightarrow> ('r cloud, nat \<times> nat \<times> nat option) py" where
  "sync_body c =
     seq (local_py (run_icloudpd c (icloudpd_arguments c) False)) (
     bind_py (cloud_session (sync_session c)) (\<lambda>counts.
     seq (local_py (set_runtime_value ''icloud_last_result'' ''succeeded'')) (
     seq (local_py (set_now ''icloud_last_success'')) (
     seq (local_py (set_runtime_value ''icloud_last_error'' [])) (ret counts)))))"

definition error_text :: "'r cli_config \<Rightarrow> exn \<Rightarrow> string" where
  "error_text c e = take 500 (redact_str (exn_name e @ '': '' @ cc_show c e))"

definition sync_failed :: "'r cli_config \<Rightarrow> exn \<Rightarrow> (world, unit) py" where
  "sync_failed c e = seq (set_runtime_value ''icloud_last_result'' ''failed'')
     (set_runtime_value ''icloud_last_error'' (error_text c e))"

definition cli_icloud_sync :: "'r cli_config \<Rightarrow> ('r cloud, nat \<times> nat \<times> nat option) py" where
  "cli_icloud_sync c =
     seq (local_py (require_icloud c)) (
     seq (local_py (on_disk (mkdirs (root_of (cc_web c) st_icloud_import_root)))) (
     seq (local_py (set_now ''icloud_last_run_started'')) (
     seq (local_py (set_runtime_value ''icloud_last_result'' ''running''))
       (try_py (sync_body c) (\<lambda>e. Some (seq (local_py (sync_failed c e)) (raise_py e)))))))"

record icloud_view =
  iv_enabled :: bool
  iv_status :: authentication_status
  iv_reauthenticate :: bool
  iv_items :: nat
  iv_last_result :: string
  iv_last_success :: "string option"
  iv_last_error :: "string option"

definition nonempty :: "string option \<Rightarrow> string option" where
  "nonempty v = (case v of Some (x # t) \<Rightarrow> Some (x # t) | _ \<Rightarrow> None)"

definition cli_icloud_status :: "'r cli_config \<Rightarrow> (world, icloud_view) py" where
  "cli_icloud_status c =
     bind_py (session_block (query (\<lambda>d. (length (filter (\<lambda>r. source_provider r = ''icloud_photos'') (items d)),
       setting_of ''icloud_last_result'' d, setting_of ''icloud_last_success'' d, setting_of ''icloud_last_error'' d)))) (\<lambda>(n, result, success, err).
     bind_py utcnow (\<lambda>now.
     bind_py (look (\<lambda>fs. icloud_session_status fs (root_of (cc_web c) st_icloud_session_directory)
        (case nonempty success of None \<Rightarrow> None | Some v \<Rightarrow> cc_fromiso c v) result (days 2) now)) (\<lambda>status.
     ret \<lparr>iv_enabled = st_icloud_enabled (settings_of c), iv_status = status,
       iv_reauthenticate = (st_icloud_enabled (settings_of c) \<and> \<not> authenticated status), iv_items = n,
       iv_last_result = (case result of None \<Rightarrow> ''never'' | Some v \<Rightarrow> v), iv_last_success = success,
       iv_last_error = nonempty err\<rparr>)))"

text \<open>The percentage is not rounded here.\<close>

definition cli_icloud_storage :: "'r cli_config \<Rightarrow> ('r cloud, quota_observation \<times> rat) py" where
  "cli_icloud_storage c = cloud_session (seq (local_py (require_icloud c)) (
     bind_py (observe_quota (cc_control c)) (\<lambda>q.
     bind_py (lift_sum (used_percent \<lparr>q_used = iq_used q, q_quota = iq_quota q\<rparr>)) (\<lambda>p. ret (q, p)))))"

definition refuse_cleanup :: "exn \<Rightarrow> ('s, 'a) py option" where
  "refuse_cleanup e = (case e of ICloudCleanupBlocked _ \<Rightarrow> Some (raise_py (exit_with 2)) | _ \<Rightarrow> None)"

definition cli_cleanup_preview :: "'r cli_config \<Rightarrow> ('r cloud, cleanup_manifest option) py" where
  "cli_cleanup_preview c = try_py (cloud_session (seq (local_py (require_icloud c))
     (create_manifest (cleanup_of c) (cc_control c)))) refuse_cleanup"

record cleanup_view =
  cv_relief :: bool
  cv_milestone :: bool
  cv_last_error :: "string option"
  cv_quota :: "quota_observation option"
  cv_manifests :: "(cleanup_manifest \<times> nat) list"

definition cli_cleanup_status :: "'r cli_config \<Rightarrow> (world, cleanup_view) py" where
  "cli_cleanup_status c = session_block (query (\<lambda>d. \<lparr>cv_relief = st_icloud_capacity_relief_enabled (settings_of c),
     cv_milestone = st_icloud_deletion_milestone_approved (settings_of c),
     cv_last_error = nonempty (setting_of ''icloud_cleanup_last_error'' d),
     cv_quota = (case newest iq_id (quotas d) of [] \<Rightarrow> None | q # _ \<Rightarrow> Some q),
     cv_manifests = map (\<lambda>m. (m, length (manifest_entries (im_id m) d))) (take 10 (newest im_id (manifests d)))\<rparr>))"

text \<open>The gates of an approval are asked in the order of the code; a gate that is closed spares the next question.\<close>

definition approval_gates :: "'r cli_config \<Rightarrow> (world, bool) py" where
  "approval_gates c =
     bind_py (checks c False) (\<lambda>health.
     bind_py (on_disk (build_icloud_workflow (wb_env (cc_web c)) (settings_of c) None)) (\<lambda>wk.
     if \<not> startup_healthy health then ret False else
     bind_py (on_disk (cs_available (wf_cold wk))) (\<lambda>ok.
     if \<not> ok then ret False else
     bind_py (runtime_value ''global_deletion_enabled'' ''false'') (\<lambda>deletion.
     if deletion \<noteq> ''true'' then ret False else
     bind_py (runtime_value ''safety_lock'' ''true'') (\<lambda>lock. ret (lock = ''false''))))))"

definition cli_cleanup_approve :: "'r cli_config \<Rightarrow> nat \<Rightarrow> string \<Rightarrow> ('r cloud, unit) py" where
  "cli_cleanup_approve c i digest = try_py (
     bind_py (local_py (approval_gates c)) (\<lambda>gates.
     cloud_session (seq (local_py (require_icloud c)) (execute_manifest (cleanup_of c) (cc_control c) i digest gates))))
     refuse_cleanup"

section \<open>The vertical slice\<close>

text \<open>
  \<open>test-vertical-slice\<close>: archive one file, restore both copies, delete it at its source. \<open>rt\<close> is the temporary
  directory, \<open>bytes0\<close> and \<open>key\<close> the random bytes; the database is a new one. The result is the state of the item,
  whether the source file is gone, the digest and the number of audit events of the item.
\<close>

definition slice_policy :: source_policy where
  "slice_policy = default_policy\<lparr>archive_after_days := 0, stability_window_hours := 0, quarantine_days := 0,
     deletion_enabled := True, manual_approval := False\<rparr>"

definition slice_workflow :: "env \<Rightarrow> path \<Rightarrow> bytes \<Rightarrow> workflow" where
  "slice_workflow en rt key = \<lparr>wf_source = local_source_ops (en_sha en) \<lparr>ls_root = rt @ [''source''], page_size = 100,
       interrupt_after_bytes = None, allow_delete = True, ls_env = True, ls_mtime = en_mtime en\<rparr>,
     wf_backup = fs_backup_ops (en_sha en) \<lparr>fb_repository = rt @ [''backup'', ''versions''], fb_mtime = en_mtime en\<rparr>,
     wf_cold = cold_local_ops (en_sha en) (en_gcm en) \<lparr>cl_root = rt @ [''backup'', ''cold''], cl_key = key, cl_bucket = ''mnema-test'',
       cl_scratch = None, cl_nonce = en_nonce en, cl_mtime = en_mtime en, cl_free = en_free en,
       cl_writable = en_writable en (rt @ [''backup'', ''cold''])\<rparr>,
     wf_active_root = rt @ [''active''], wf_staging_root = rt @ [''staging''], wf_policy = slice_policy,
     wf_provider = ''local_test'', wf_source_is_active = False, wf_sha = en_sha en, wf_utc_offset = en_utc_offset en\<rparr>"

definition slice_session :: "workflow \<Rightarrow> path \<Rightarrow> bool \<Rightarrow> (world, archive_state \<times> bool \<times> string option \<times> nat) py" where
  "slice_session wk rt integrity = session_block (
     bind_py (discover 1 wk None) (\<lambda>found.
     case found of Some (i # _) \<Rightarrow>
       seq (archive wk i) (
       bind_py (load_item i) (\<lambda>item.
       bind_py (restore_local wk item (rt @ [''local-restore''])) (\<lambda>here.
       seq (require here (RuntimeError ''local restore verification failed'')) (
       bind_py (restore_remote wk item (rt @ [''remote-restore''])) (\<lambda>there.
       seq (require there (RuntimeError ''remote restore verification failed'')) (
       bind_py utcnow (\<lambda>now.
       bind_py (deletion_decision wk i \<lparr>env_active_healthy = True, env_backup_healthy = True, env_devices_differ = True,
           env_sqlite_healthy = integrity, env_deletion_enabled = True, env_safety_lock = False, env_approved = False\<rparr>
         \<lparr>files_deleted = 0, bytes_deleted = 0, eligible_files = 100\<rparr> (default_limits\<lparr>max_percentage_deleted_per_run := 100\<rparr>)
         (Some now)) (\<lambda>decision.
       seq (delete_test_item wk i decision) (
       bind_py (load_item i) (\<lambda>item.
       seq (require (ai_state item = ARCHIVED) (RuntimeError (''unexpected final state: '' @ state_value (ai_state item)))) (
       bind_py (look (\<lambda>fs. Inr (path_exists fs (rt @ [''source'', ''proof.txt''])))) (\<lambda>ex.
       bind_py (query (\<lambda>d. length (filter (\<lambda>a. au_item a = Some i) (audits d)))) (\<lambda>n.
       ret (ai_state item, \<not> ex, plaintext_sha256 item, n))))))))))))))
     | _ \<Rightarrow> raise_py IndexError))"

definition slice_setup :: "env \<Rightarrow> path \<Rightarrow> bytes \<Rightarrow> (world, unit) py" where
  "slice_setup en rt bytes0 = on_disk (
     seq (for_each (\<lambda>name. mkdirs (rt @ [name])) [''source'', ''active'', ''backup'', ''staging'']) (
     seq (write_new (rt @ [''source'', ''proof.txt'']) bytes0 (en_mtime en)) (
     seq (mkdirs (rt @ [''backup'', ''versions''])) (mkdirs (rt @ [''backup'', ''cold''])))))"

definition cli_vertical_slice ::
  "env \<Rightarrow> path \<Rightarrow> bytes \<Rightarrow> bytes \<Rightarrow> bool \<Rightarrow> (world, archive_state \<times> bool \<times> string option \<times> nat) py" where
  "cli_vertical_slice en rt bytes0 key integrity =
     seq (slice_setup en rt bytes0) (slice_session (slice_workflow en rt key) rt integrity)"

end
