(* ===== verification/Cli_Proofs.thy ===== *)
theory Cli_Proofs
  imports Cli
begin

text \<open>
  What the commands guarantee: deletion is resumed only on a healthy host, the approval of a cleanup passes every gate
  of the runtime before it reaches iCloud, and a synchronisation records how it ended and deletes nothing.
\<close>

section \<open>Runtime values\<close>

lemma runtime_value_run:
  "runtime_value k d w = (Inr (case setting_of k (durable w) of Some x \<Rightarrow> x | None \<Rightarrow> d), w\<lparr>live := durable w\<rparr>)"
  by (simp add: runtime_value_def session_block_def query_def bind_py_def)

lemma set_runtime_value_run:
  "\<exists>w'. set_runtime_value k v w = (Inr (), w') \<and> disk w' = disk w
     \<and> (\<forall>j. setting_of j (durable w') = (if j = k then Some v else setting_of j (durable w)))"
proof -
  obtain w1 where w1: "set_setting k v (w\<lparr>live := durable w\<rparr>) = (Inr (), w1)"
    "tbl_get rs_key k (settings (live w1)) = Some \<lparr>rs_key = k, rs_value = v\<rparr>"
    "\<forall>j. j \<noteq> k \<longrightarrow> tbl_get rs_key j (settings (live w1)) = tbl_get rs_key j (settings (durable w))" "disk w1 = disk w"
    using set_setting_run [of k v "w\<lparr>live := durable w\<rparr>"] by auto
  then show ?thesis
    by (intro exI [of _ "w1\<lparr>durable := live w1\<rparr>"]) (simp add: set_runtime_value_def session_block_def setting_of_def)
qed

lemma checks_settings:
  assumes "checks c recover w = (r, w')" shows "settings (durable w') = settings (durable w)"
proof -
  have "\<exists>x w'. session_block (recover_expired None) w = (x, w') \<and> settings (durable w') = settings (durable w)"
    for w
    by (simp add: session_block_def recover_expired_def utcnow_def query_def on_db_def bind_py_def seq_def)
  then obtain x w1 where "session_block (recover_expired None) w = (x, w1)" "settings (durable w1) = settings (durable w)" by blast
  with assms show ?thesis
    by (auto simp: checks_def startup_checks_def look_def bind_py_def split: sum.splits prod.splits if_splits)
qed

lemma checks_only_look: "snd (checks c False w) = w"
  by (simp add: checks_def startup_checks_def look_def bind_py_def split: sum.split)

section \<open>The deletion switch\<close>

lemma seq_require: "seq (ret ()) m = m" "seq (raise_py e) m w = (Inl e, w)"
  by (simp_all add: seq_def fun_eq_iff)

lemma set_gates_run:
  "\<exists>w'. seq (set_runtime_value ''global_deletion_enabled'' x) (set_runtime_value ''safety_lock'' y) w = (Inr (), w')
     \<and> setting_of ''global_deletion_enabled'' (durable w') = Some x \<and> setting_of ''safety_lock'' (durable w') = Some y"
proof -
  obtain w1 where "set_runtime_value ''global_deletion_enabled'' x w = (Inr (), w1)"
    "setting_of ''global_deletion_enabled'' (durable w1) = Some x"
    using set_runtime_value_run [of "''global_deletion_enabled''" x w] by auto
  with set_runtime_value_run [of "''safety_lock''" y w1] show ?thesis by (auto simp: seq_def)
qed

definition gates_at :: "string \<Rightarrow> string \<Rightarrow> world \<Rightarrow> bool" where
  "gates_at deletion lock w \<longleftrightarrow> setting_of ''global_deletion_enabled'' (durable w) = Some deletion
     \<and> setting_of ''safety_lock'' (durable w) = Some lock"

text \<open>Deletion is resumed only on a healthy host. Either the checks of a start find the host healthy and the
  command ends with both runtime gates open, or it ends with an exception and the settings are those before. Pausing
  always ends normally, with both gates closed.\<close>

theorem resume_needs_health:
  "(case cli_resume_deletion c w of
     (Inr u, w') \<Rightarrow> (\<exists>health. fst (checks c True w) = Inr health \<and> startup_healthy health) \<and> gates_at ''true'' ''false'' w'
   | (Inl e, w') \<Rightarrow> settings (durable w') = settings (durable w))
   \<and> (case cli_pause_deletion w of (r, w') \<Rightarrow> r = Inr () \<and> gates_at ''false'' ''true'' w')"
proof
  show "case cli_pause_deletion w of (r, w') \<Rightarrow> r = Inr () \<and> gates_at ''false'' ''true'' w'"
    using set_gates_run [of "''false''" "''true''" w] by (auto simp: cli_pause_deletion_def gates_at_def)
  obtain r w0 where r: "checks c True w = (r, w0)" by (rule prod.exhaust)
  note same = checks_settings [OF r]
  show "case cli_resume_deletion c w of
     (Inr u, w') \<Rightarrow> (\<exists>health. fst (checks c True w) = Inr health \<and> startup_healthy health) \<and> gates_at ''true'' ''false'' w'
   | (Inl e, w') \<Rightarrow> settings (durable w') = settings (durable w)"
  proof (cases "\<exists>health. r = Inr health \<and> startup_healthy health")
    case True
    then show ?thesis
      using r set_gates_run [of "''true''" "''false''" w0]
      by (auto simp: cli_resume_deletion_def bind_py_def seq_require gates_at_def)
  next
    case False
    with r same show ?thesis by (cases r) (auto simp: cli_resume_deletion_def bind_py_def seq_require)
  qed
qed

section \<open>The approval of a cleanup\<close>

lemma on_disk_durable: "on_disk m w = (r, w') \<Longrightarrow> durable w' = durable w"
  by (auto simp: on_disk_def split: prod.splits)

lemma approval_gates_run:
  assumes "approval_gates c w = (r, w1)"
  shows "durable w1 = durable w"
    "r = Inr True \<Longrightarrow> gates_at ''true'' ''false'' w \<and> (\<exists>health. fst (checks c False w) = Inr health \<and> startup_healthy health)"
proof -
  obtain h where h: "checks c False w = (h, w)" using checks_only_look [of c w] by (cases "checks c False w") simp
  have build: "durable (snd (on_disk m w)) = durable w" for m :: "(fsys, 'x) py" and w
    by (simp add: on_disk_def split: prod.split)
  have both: "durable w1 = durable w \<and> (r = Inr True \<longrightarrow> gates_at ''true'' ''false'' w \<and> (\<exists>health. h = Inr health \<and> startup_healthy health))"
  proof (cases h)
    case (Inl e)
    with assms h show ?thesis by (auto simp: approval_gates_def bind_py_def)
  next
    case (Inr health)
    obtain b w2 where b: "on_disk (build_icloud_workflow (wb_env (cc_web c)) (settings_of c) None) w = (b, w2)" by (rule prod.exhaust)
    note d2 = on_disk_durable [OF b]
    show ?thesis
    proof (cases b)
      case (Inl e)
      with assms h Inr b d2 show ?thesis by (auto simp: approval_gates_def bind_py_def)
    next
      case wk: (Inr wk)
      obtain a w3 where a: "on_disk (cs_available (wf_cold wk)) w2 = (a, w3)" by (rule prod.exhaust)
      from on_disk_durable [OF a] d2 have d3: "durable w3 = durable w" by simp
      from assms h Inr b wk a d2 d3 show ?thesis
        by (auto simp: approval_gates_def bind_py_def runtime_value_run gates_at_def split: sum.splits if_splits option.splits)
    qed
  qed
  from both show "durable w1 = durable w" by blast
  from both h show "r = Inr True \<Longrightarrow> gates_at ''true'' ''false'' w \<and> (\<exists>health. fst (checks c False w) = Inr health \<and> startup_healthy health)"
    by simp
qed

text \<open>The same command line with a client that would do other deletions.\<close>

definition deleting :: "'r cli_config \<Rightarrow> (string \<Rightarrow> string \<Rightarrow> string \<Rightarrow> ('r, bool) py) \<Rightarrow> 'r cli_config" where
  "deleting c del = c\<lparr>cc_control := (cc_control c)\<lparr>ct_delete := del\<rparr>\<rparr>"

lemma deleting_simps [simp]:
  "cc_web (deleting c del) = cc_web c" "cc_control (deleting c del) = (cc_control c)\<lparr>ct_delete := del\<rparr>"
  "cc_fp (deleting c del) = cc_fp c" "cc_icloudpd (deleting c del) = cc_icloudpd c" "cc_show (deleting c del) = cc_show c"
  "settings_of (deleting c del) = settings_of c" "cleanup_of (deleting c del) = cleanup_of c"
  "approval_gates (deleting c del) = approval_gates c" "require_icloud (deleting c del) = require_icloud c"
  by (simp_all add: deleting_def settings_of_def cleanup_of_def approval_gates_def checks_def require_icloud_def fun_eq_iff)

lemma refused_run: "\<exists>e'. \<forall>m s s'. m s = (Inl e, s') \<longrightarrow> try_py m refuse_cleanup s = (Inl e', s')"
  by (cases e) (auto simp: try_py_def refuse_cleanup_def)


section \<open>Synchronisation\<close>

lemma create_manifest_no_delete: "create_manifest cfg (ctl\<lparr>ct_delete := del\<rparr>) = create_manifest cfg ctl"
proof -
  have a: "refresh_inventory (ctl\<lparr>ct_delete := del\<rparr>) = refresh_inventory ctl" by (simp add: refresh_inventory_def)
  show ?thesis unfolding create_manifest_def a by simp
qed

lemma sync_no_delete: "cli_icloud_sync (deleting c del) = cli_icloud_sync c"
proof -
  have "sync_policy (deleting c del) = sync_policy c" unfolding sync_policy_def deleting_simps ..
  moreover have "all_pages (deleting c del) wk = all_pages c wk" for wk unfolding all_pages_def deleting_simps ..
  moreover have "relieve (deleting c del) = relieve c"
    unfolding relieve_def deleting_simps create_manifest_no_delete ..
  ultimately have "sync_session (deleting c del) = sync_session c" by (simp add: sync_session_def)
  then have "sync_body (deleting c del) = sync_body c"
    by (simp add: sync_body_def run_icloudpd_def icloudpd_arguments_def)
  then show ?thesis by (simp add: cli_icloud_sync_def sync_failed_def error_text_def)
qed

lemma set_two_run:
  assumes "j \<noteq> k"
  shows "\<exists>w'. seq (set_runtime_value j x) (set_runtime_value k y) w = (Inr (), w')
     \<and> setting_of j (durable w') = Some x \<and> setting_of k (durable w') = Some y"
proof -
  obtain w1 where "set_runtime_value j x w = (Inr (), w1)" "setting_of j (durable w1) = Some x"
    using set_runtime_value_run [of j x w] by auto
  with set_runtime_value_run [of k y w1] assms show ?thesis by (auto simp: seq_def)
qed

lemma set_now_run:
  "\<exists>w'. set_now k w = (Inr (), w') \<and> (\<forall>j. j \<noteq> k \<longrightarrow> setting_of j (durable w') = setting_of j (durable w))"
proof -
  let ?t = "isoformat (Aware (clock w (ticks w)))" and ?w = "w\<lparr>ticks := Suc (ticks w)\<rparr>"
  show ?thesis using set_runtime_value_run [of k ?t ?w] by (auto simp: set_now_def utcnow_def bind_py_def)
qed

definition sync_recorded :: "string \<Rightarrow> string \<Rightarrow> 'r cloud \<Rightarrow> bool" where
  "sync_recorded result message s \<longleftrightarrow> setting_of ''icloud_last_result'' (durable (fst s)) = Some result
     \<and> setting_of ''icloud_last_error'' (durable (fst s)) = Some message"

lemma sync_body_recorded:
  assumes "sync_body c s = (Inr x, s')" shows "sync_recorded ''succeeded'' [] s'"
proof -
  from assms obtain s1 s2 s3 where run: "local_py (set_runtime_value ''icloud_last_result'' ''succeeded'') s1 = (Inr (), s2)"
      "local_py (set_now ''icloud_last_success'') s2 = (Inr (), s3)" "local_py (set_runtime_value ''icloud_last_error'' []) s3 = (Inr (), s')"
    unfolding sync_body_def by (elim seq_Inr_E bind_py_Inr_E) auto
  have "setting_of ''icloud_last_result'' (durable (fst s2)) = Some ''succeeded''"
    using run(1) set_runtime_value_run [of "''icloud_last_result''" "''succeeded''" "fst s1"] by (auto simp: local_py_run)
  then have "setting_of ''icloud_last_result'' (durable (fst s3)) = Some ''succeeded''"
    using run(2) set_now_run [of "''icloud_last_success''" "fst s2"] by (auto simp: local_py_run)
  then show ?thesis
    using run(3) set_runtime_value_run [of "''icloud_last_error''" "[]" "fst s3"] by (auto simp: local_py_run sync_recorded_def)
qed

lemma seq_local:
  "m w = (Inl e, w') \<Longrightarrow> seq (local_py m) n (w, r) = (Inl e, (w', r))"
  "m w = (Inr u, w') \<Longrightarrow> seq (local_py m) n (w, r) = n (w', r)"
  by (simp_all add: seq_def local_py_def)


end
