(* ===== verification/Telegram.thy ===== *)
theory Telegram
  imports Cli_Proofs
begin

text \<open>
  The Telegram bot of the administration (\<open>telegram_bot.py\<close>). An update is a JSON value of the Bot API. The state is
  the world together with what the bot keeps in memory: the questions for a device name that are open, the calls it has
  made to the API, the readings of the monotonic clock and the offset of the polling. The network is a parameter: the
  decoded body of the answer to the n-th call, or the exception of \<open>urlopen\<close>. Texts are lists of code points.
\<close>

datatype telegram_call = TgMethod string json | TgPhoto bytes

record bot_state =
  bt_pending :: "int \<Rightarrow> rat option"
  bt_calls :: "telegram_call list"
  bt_mono :: "nat \<Rightarrow> rat"
  bt_reads :: nat
  bt_offset :: "int option"

text \<open>
  \<open>tb_int\<close> is \<open>int\<close> and \<open>tb_repr\<close> \<open>str\<close> of the JSON values that are no integers or texts, \<open>tb_equal\<close> the integer a
  float literal is equal to, \<open>tb_png\<close> the QR code of a link, \<open>tb_nanos\<close> the clock that makes the boundaries.
\<close>

record 'r bot_config =
  tb_cli :: "'r cli_config"
  tb_server :: "nat list \<Rightarrow> nat \<Rightarrow> telegram_call \<Rightarrow> exn + json"
  tb_token :: "nat list"
  tb_png :: "nat list \<Rightarrow> exn + bytes"
  tb_nanos :: "nat \<Rightarrow> int"
  tb_int :: "json \<Rightarrow> exn + int"
  tb_repr :: "json \<Rightarrow> nat list"
  tb_equal :: "nat list \<Rightarrow> int option"

type_synonym bot_world = "bot_state cloud"

definition bot_settings :: "'r bot_config \<Rightarrow> app_settings" where
  "bot_settings c = settings_of (tb_cli c)"

section \<open>Calls of the API\<close>

definition jtext :: "string \<Rightarrow> json" where
  "jtext s = JText (cps s)"

definition jobject :: "(string \<times> json) list \<Rightarrow> json" where
  "jobject kvs = JObject (map (\<lambda>(k, v). (cps k, v)) kvs)"

definition telegram_error :: exn where
  "telegram_error = OtherError ''TelegramAPIError''"

definition api_result :: "json \<Rightarrow> exn + json" where
  "api_result v = bind_sum (dict_get v ''ok'') (\<lambda>good.
     if (case good of None \<Rightarrow> False | Some x \<Rightarrow> json_truthy x)
     then bind_sum (dict_get v ''result'') (\<lambda>r. Inr (case r of None \<Rightarrow> JNull | Some x \<Rightarrow> x))
     else Inl telegram_error)"

definition tg_request :: "'r bot_config \<Rightarrow> telegram_call \<Rightarrow> (bot_world, json) py" where
  "tg_request c k = bind_py (remote_py (\<lambda>b. (tb_server c (tb_token c) (length (bt_calls b)) k, b\<lparr>bt_calls := bt_calls b @ [k]\<rparr>)))
     (\<lambda>v. lift_sum (api_result v))"

definition tg_call :: "'r bot_config \<Rightarrow> string \<Rightarrow> json \<Rightarrow> (bot_world, json) py" where
  "tg_call c verb body = tg_request c (TgMethod verb body)"

definition send_message :: "'r bot_config \<Rightarrow> int \<Rightarrow> nat list \<Rightarrow> json option \<Rightarrow> (bot_world, unit) py" where
  "send_message c chat text markup = bind_py (tg_call c ''sendMessage''
     (jobject ([(''chat_id'', JInt chat), (''text'', JText text)] @ (case markup of None \<Rightarrow> [] | Some m \<Rightarrow> [(''reply_markup'', m)]))))
     (\<lambda>_. ret ())"

definition crlf :: string where
  "crlf = [CHR 0x0D, CHR 0x0A]"

definition quoted :: "string \<Rightarrow> string" where
  "quoted s = [CHR 0x22] @ s @ [CHR 0x22]"

definition photo_body :: "string \<Rightarrow> int \<Rightarrow> bytes \<Rightarrow> string \<Rightarrow> bytes" where
  "photo_body boundary chat photo caption =
     concat (map (\<lambda>(name, v). ''--'' @ boundary @ crlf @ ''Content-Disposition: form-data; name='' @ quoted name @ crlf @ crlf @ v @ crlf)
       [(''chat_id'', py_str_int chat), (''caption'', caption)])
     @ ''--'' @ boundary @ crlf @ ''Content-Disposition: form-data; name='' @ quoted ''photo'' @ ''; filename='' @ quoted ''mnema-pairing.png'' @ crlf
     @ ''Content-Type: image/png'' @ crlf @ crlf @ photo @ crlf @ ''--'' @ boundary @ ''--'' @ crlf"

definition send_photo :: "'r bot_config \<Rightarrow> int \<Rightarrow> bytes \<Rightarrow> string \<Rightarrow> (bot_world, unit) py" where
  "send_photo c chat photo caption = bind_py (remote_py (gets (\<lambda>b. tb_nanos c (length (bt_calls b))))) (\<lambda>n.
     bind_py (tg_request c (TgPhoto (photo_body (''mnema-'' @ py_str_int n) chat photo caption))) (\<lambda>_. ret ()))"

definition button :: "string \<Rightarrow> string \<Rightarrow> json" where
  "button text action = jobject [(''text'', jtext text), (''callback_data'', jtext action)]"

definition keyboard :: json where
  "keyboard = jobject [(''inline_keyboard'', JList [
     JList [button ''Status'' ''status'', button ''Health'' ''health''], JList [button ''URLs'' ''urls''],
     JList [button ''Pair device'' ''pair'', button ''Devices'' ''devices''],
     JList [button ''Project archives'' ''project'', button ''Dry run'' ''dry-run'']])]"

definition newline :: string where
  "newline = [CHR 0x0A]"

definition menu_text :: "nat list" where
  "menu_text = cps (''Mnema administration'' @ newline @ newline
     @ ''Choose an operation below. Pairing codes expire after ten minutes and can be used once.'')"

text \<open>\<open>urlencode\<close>: the bytes of UTF-8, a blank as a plus and all but the unreserved characters as hexadecimal pairs.\<close>

definition utf8_encode :: "nat \<Rightarrow> nat list option" where
  "utf8_encode n = (if n < 128 then Some [n] else if n < 2048 then Some [192 + n div 64, 128 + n mod 64]
     else if 55296 \<le> n \<and> n < 57344 then None
     else if n < 65536 then Some [224 + n div 4096, 128 + n div 64 mod 64, 128 + n mod 64]
     else Some [240 + n div 262144, 128 + n div 4096 mod 64, 128 + n div 64 mod 64, 128 + n mod 64])"

definition hex_upper :: "nat \<Rightarrow> nat" where
  "hex_upper d = (if d < 10 then 48 + d else 55 + d)"

definition quote_byte :: "nat \<Rightarrow> nat list" where
  "quote_byte b = (if b = 32 then [43]
     else if 48 \<le> b \<and> b \<le> 57 \<or> 65 \<le> b \<and> b \<le> 90 \<or> 97 \<le> b \<and> b \<le> 122 \<or> b \<in> {45, 46, 95, 126} then [b]
     else [37, hex_upper (b div 16), hex_upper (b mod 16)])"

definition quote_plus :: "nat list \<Rightarrow> exn + nat list" where
  "quote_plus s = (let bs = map utf8_encode s in
     if None \<in> set bs then Inl (ValueError ''surrogates not allowed'') else Inr (concat (map quote_byte (concat (map the bs)))))"

definition pairing_link :: "app_settings \<Rightarrow> string \<Rightarrow> nat list \<Rightarrow> exn + nat list" where
  "pairing_link s code name =
     bind_sum (quote_plus (cps (st_file_provider_public_url s))) (\<lambda>server. bind_sum (quote_plus (cps code)) (\<lambda>q.
     bind_sum (quote_plus name) (\<lambda>device.
     Inr (cps ''mnema://pair?server='' @ server @ cps ''&code='' @ q @ cps ''&device='' @ device))))"

section \<open>Who may speak\<close>

definition as_mapping :: "json option \<Rightarrow> json" where
  "as_mapping v = (case v of Some (JObject kvs) \<Rightarrow> JObject kvs | _ \<Rightarrow> JObject [])"

definition truthy_opt :: "json option \<Rightarrow> bool" where
  "truthy_opt v = (case v of None \<Rightarrow> False | Some x \<Rightarrow> json_truthy x)"

definition member_of :: "'r bot_config \<Rightarrow> json option \<Rightarrow> int list \<Rightarrow> bool" where
  "member_of c v ids = (case v of Some (JInt n) \<Rightarrow> n \<in> set ids | Some (JBool b) \<Rightarrow> of_bool b \<in> set ids
     | Some (JFloat t) \<Rightarrow> (case tb_equal c t of None \<Rightarrow> False | Some n \<Rightarrow> n \<in> set ids) | _ \<Rightarrow> False)"

definition message_of :: "json \<Rightarrow> exn + json option" where
  "message_of update = bind_sum (dict_get update ''callback_query'') (\<lambda>callback. bind_sum (dict_get update ''message'') (\<lambda>m.
     if truthy_opt m then Inr m else dict_get (as_mapping callback) ''message''))"

definition sender_of :: "json \<Rightarrow> exn + json" where
  "sender_of update = bind_sum (dict_get update ''callback_query'') (\<lambda>callback. bind_sum (message_of update) (\<lambda>m.
     bind_sum (dict_get (if json_truthy (as_mapping callback) then as_mapping callback else as_mapping m) ''from'') (\<lambda>source.
     Inr (as_mapping source))))"

definition authorized :: "'r bot_config \<Rightarrow> json \<Rightarrow> exn + bool" where
  "authorized c update = bind_sum (message_of update) (\<lambda>m. bind_sum (sender_of update) (\<lambda>sender.
     case m of Some (JObject kvs) \<Rightarrow>
       bind_sum (dict_get (JObject kvs) ''chat'') (\<lambda>chat.
       bind_sum (dict_get (case chat of None \<Rightarrow> JObject [] | Some v \<Rightarrow> v) ''type'') (\<lambda>kind.
       bind_sum (dict_get sender ''id'') (\<lambda>i.
       Inr (kind = Some (jtext ''private'') \<and> member_of c i (st_telegram_allowed_user_ids (bot_settings c))))))
     | _ \<Rightarrow> Inr False))"

section \<open>Operations\<close>

definition read_clock :: "(bot_world, rat) py" where
  "read_clock = remote_py (\<lambda>b. (Inr (bt_mono b (bt_reads b)), b\<lparr>bt_reads := Suc (bt_reads b)\<rparr>))"

definition set_pending :: "int \<Rightarrow> rat option \<Rightarrow> (bot_world, unit) py" where
  "set_pending chat e = remote_py (modify (\<lambda>b. b\<lparr>bt_pending := (bt_pending b)(chat := e)\<rparr>))"

definition ask_name :: "'r bot_config \<Rightarrow> int \<Rightarrow> (bot_world, unit) py" where
  "ask_name c chat = bind_py read_clock (\<lambda>t. seq (set_pending chat (Some (t + 300)))
     (send_message c chat (cps ''Reply with the device name to create a pairing token.'') None))"

definition bot_status :: "(world, nat list) py" where
  "bot_status = session_block (query (\<lambda>d. cps (''Mnema is running. Paired devices: '' @ dec (length (devices d))
     @ ''. Safety lock remains enabled.'')))"

definition text_points :: "string \<Rightarrow> nat list" where
  "text_points s = (case utf8_decode (cps s) of None \<Rightarrow> cps s | Some t \<Rightarrow> t)"

definition join_points :: "nat list \<Rightarrow> nat list list \<Rightarrow> nat list" where
  "join_points sep ts = concat (case ts of [] \<Rightarrow> [] | t # r \<Rightarrow> t # map ((@) sep) r)"

text \<open>The table lists the devices in the order of their creation. The signs are a bullet and a dash.\<close>

definition device_line :: "device \<Rightarrow> nat list" where
  "device_line v = [8226, 32] @ text_points (dv_name v) @ [32, 8212, 32]
     @ cps (if revoked_at v \<noteq> None then ''revoked'' else ''active'') @ cps '' ('' @ cps (dv_id v) @ cps '')''"

definition bot_devices :: "(world, nat list) py" where
  "bot_devices = session_block (query (\<lambda>d. if devices d = [] then cps ''No paired devices.''
     else join_points [10] (map device_line (devices d))))"

definition photo_failure :: "exn \<Rightarrow> bool" where
  "photo_failure e \<longleftrightarrow> is_OSError e \<or> e \<in> {telegram_error, OtherError ''ImportError''}"

definition pairing_text :: "nat list \<Rightarrow> string \<Rightarrow> nat list \<Rightarrow> nat list" where
  "pairing_text name code link = cps ''Pairing token for '' @ name @ cps ('':'' @ newline @ newline @ code @ newline @ newline
     @ ''This token expires in 10 minutes and is single-use. Delete this message after pairing.'' @ newline @ newline
     @ ''Open Mnema directly: '') @ link"

definition bot_pair :: "'r bot_config \<Rightarrow> int \<Rightarrow> nat list \<Rightarrow> (bot_world, unit) py" where
  "bot_pair c chat name =
     (if \<not> st_file_provider_enabled (bot_settings c)
      then send_message c chat (cps ''File Provider is disabled in Mnema configuration.'') None
      else bind_py (local_py (session_block (create_pairing_code (cc_auth (tb_cli c))))) (\<lambda>code.
        bind_py (lift_sum (pairing_link (bot_settings c) code name)) (\<lambda>link.
        seq (send_message c chat (pairing_text name code link) None)
          (try_py (bind_py (lift_sum (tb_png c link)) (\<lambda>png. send_photo c chat png ''Scan this QR code in Mnema.''))
            (\<lambda>e. if photo_failure e then Some (ret ()) else None)))))"

definition ok_or_failed :: "bool \<Rightarrow> string" where
  "ok_or_failed b = (if b then ''OK'' else ''FAILED'')"

definition health_text :: "startup_health \<Rightarrow> nat list" where
  "health_text h = cps (''Health: '' @ ok_or_failed (startup_healthy h) @ newline @ ''SQLite: '' @ ok_or_failed (su_sqlite h) @ newline
     @ ''Partial files: '' @ dec (length (su_partials h)))"

definition bot_dry_run :: "'r bot_config \<Rightarrow> int \<Rightarrow> (bot_world, unit) py" where
  "bot_dry_run c chat = try_py
     (bind_py (local_py (test_workflow (tb_cli c) False)) (\<lambda>wk.
      bind_py (local_py (on_disk (sc_discover (wf_source wk) None))) (\<lambda>found.
      bind_py (local_py (map_py (\<lambda>ob. bind_py utcnow (\<lambda>now. lift_sum (evaluate_policy ob (wf_policy wk) now))) (objects found))) (\<lambda>ds.
      send_message c chat (cps (''Dry run complete: '' @ dec (length ds) @ '' discovered, '' @ dec (length (filter eligible ds))
        @ '' eligible.'' @ newline @ ''No files were changed.'')) (Some keyboard)))))
     (\<lambda>e. if e = OtherError ''CancelledError'' then None
       else Some (send_message c chat (cps ''Dry run could not be completed safely.'') (Some keyboard)))"

definition confirm_keyboard :: json where
  "confirm_keyboard = jobject [(''inline_keyboard'', JList [JList [button ''Confirm project'' ''project-confirm'']])]"

definition bot_action :: "'r bot_config \<Rightarrow> int \<Rightarrow> nat list \<Rightarrow> (bot_world, unit) py" where
  "bot_action c chat action =
     (let reply = (\<lambda>t. send_message c chat t (Some keyboard)) in
      if action \<in> {cps ''menu'', cps ''start'', cps ''help''} then reply menu_text
      else if action = cps ''status'' then bind_py (local_py bot_status) reply
      else if action = cps ''health'' then bind_py (local_py (checks (tb_cli c) False)) (\<lambda>h. reply (health_text h))
      else if action = cps ''urls'' then reply (cps (''File Provider: '' @ (case st_file_provider_public_url (bot_settings c) of
        [] \<Rightarrow> ''disabled'' | u # us \<Rightarrow> u # us)))
      else if action = cps ''devices'' then bind_py (local_py bot_devices) reply
      else if action = cps ''project'' then
        send_message c chat (cps ''Projecting verified archives changes the File Provider index. Continue?'') (Some confirm_keyboard)
      else if action = cps ''project-confirm'' then
        bind_py (local_py (session_block (project_verified_archives (cc_fp (tb_cli c))))) (\<lambda>n.
        reply (cps (''Projected verified archives: '' @ dec n)))
      else if action = cps ''dry-run'' then bot_dry_run c chat
      else if action = cps ''pair'' then ask_name c chat
      else reply (cps ''Unknown command. Use /start to open the Mnema menu.''))"

section \<open>Updates\<close>

text \<open>\<open>v[k]\<close>, \<open>int(v)\<close> and \<open>str(v)\<close>; a text is its own \<open>str\<close>.\<close>

definition subscript :: "json \<Rightarrow> string \<Rightarrow> exn + json" where
  "subscript v k = (case v of JObject kvs \<Rightarrow> (case map_of (rev kvs) (cps k) of None \<Rightarrow> Inl KeyError | Some x \<Rightarrow> Inr x) | _ \<Rightarrow> Inl TypeError)"

definition json_int :: "'r bot_config \<Rightarrow> json \<Rightarrow> exn + int" where
  "json_int c v = (case v of JInt n \<Rightarrow> Inr n | JBool b \<Rightarrow> Inr (of_bool b) | _ \<Rightarrow> tb_int c v)"

definition json_str :: "'r bot_config \<Rightarrow> json \<Rightarrow> nat list" where
  "json_str c v = (case v of JText t \<Rightarrow> t | _ \<Rightarrow> tb_repr c v)"

definition get_str :: "'r bot_config \<Rightarrow> json \<Rightarrow> string \<Rightarrow> exn + nat list" where
  "get_str c v k = bind_sum (dict_get v k) (\<lambda>x. Inr (case x of None \<Rightarrow> [] | Some y \<Rightarrow> json_str c y))"

definition chat_of :: "'r bot_config \<Rightarrow> json \<Rightarrow> exn + int" where
  "chat_of c message = bind_sum (subscript message ''chat'') (\<lambda>chat. bind_sum (subscript chat ''id'') (json_int c))"

definition slash :: nat where
  "slash = 47"

text \<open>\<open>text.removeprefix("/").split()[0]\<close>\<close>

definition command_of :: "nat list \<Rightarrow> exn + nat list" where
  "command_of text = (let w = takeWhile (\<lambda>n. \<not> space_cp n) (dropWhile space_cp (if take 1 text = [slash] then tl text else text)) in
     if w = [] then Inl IndexError else Inr w)"

definition handle_callback :: "'r bot_config \<Rightarrow> json \<Rightarrow> (bot_world, unit) py" where
  "handle_callback c callback =
     bind_py (lift_sum (dict_get callback ''id'')) (\<lambda>i.
     seq (case i of Some v \<Rightarrow> if json_truthy v
            then bind_py (tg_call c ''answerCallbackQuery'' (jobject [(''callback_query_id'', v)])) (\<lambda>_. ret ()) else ret ()
          | None \<Rightarrow> ret ()) (
     bind_py (lift_sum (bind_sum (subscript callback ''message'') (chat_of c))) (\<lambda>chat.
     bind_py (lift_sum (get_str c callback ''data'')) (\<lambda>action.
     if action = cps ''pair'' then ask_name c chat else bot_action c chat action))))"

definition handle_text :: "'r bot_config \<Rightarrow> int \<Rightarrow> nat list \<Rightarrow> (bot_world, unit) py" where
  "handle_text c chat text =
     (if text \<in> {cps ''/start'', cps ''/help''} then send_message c chat menu_text (Some keyboard)
      else if text = cps ''/pair'' then ask_name c chat
      else if text \<noteq> [] then bind_py (lift_sum (command_of text)) (bot_action c chat)
      else ret ())"

definition handle_message :: "'r bot_config \<Rightarrow> json \<Rightarrow> (bot_world, unit) py" where
  "handle_message c message =
     bind_py (lift_sum (chat_of c message)) (\<lambda>chat.
     bind_py (lift_sum (get_str c message ''text'')) (\<lambda>raw. let text = strip_cps raw in
     bind_py (remote_py (gets (\<lambda>b. bt_pending b chat))) (\<lambda>pending.
     case pending of None \<Rightarrow> handle_text c chat text
     | Some expires \<Rightarrow> seq (set_pending chat None) (bind_py read_clock (\<lambda>t.
         if t \<le> expires \<and> text \<noteq> [] \<and> take 1 text \<noteq> [slash] then bot_pair c chat (take 80 text)
         else handle_text c chat text)))))"

definition handle :: "'r bot_config \<Rightarrow> json \<Rightarrow> (bot_world, unit) py" where
  "handle c update =
     bind_py (lift_sum (authorized c update)) (\<lambda>good.
     if \<not> good then ret () else
     bind_py (lift_sum (dict_get update ''callback_query'')) (\<lambda>callback.
     case callback of
       Some v \<Rightarrow> if json_truthy v then handle_callback c v
         else bind_py (lift_sum (dict_get update ''message'')) (\<lambda>m. handle_message c (case m of None \<Rightarrow> JObject [] | Some x \<Rightarrow> x))
     | None \<Rightarrow> bind_py (lift_sum (dict_get update ''message'')) (\<lambda>m. handle_message c (case m of None \<Rightarrow> JObject [] | Some x \<Rightarrow> x))))"

section \<open>Polling\<close>

fun handle_all :: "'r bot_config \<Rightarrow> json list \<Rightarrow> (bot_world, unit) py" where
  "handle_all c [] = ret ()"
| "handle_all c (u # us) =
     bind_py (lift_sum (bind_sum (subscript u ''update_id'') (json_int c))) (\<lambda>n.
     seq (remote_py (modify (\<lambda>b. b\<lparr>bt_offset := Some (n + 1)\<rparr>))) (
     seq (handle c u) (handle_all c us)))"

definition poll_request :: "int option \<Rightarrow> json" where
  "poll_request offset = jobject ([(''timeout'', JInt 25), (''allowed_updates'', JList [jtext ''message'', jtext ''callback_query''])]
     @ (case offset of None \<Rightarrow> [] | Some n \<Rightarrow> [(''offset'', JInt n)]))"

definition bot_cycle :: "'r bot_config \<Rightarrow> (bot_world, unit) py" where
  "bot_cycle c = bind_py (remote_py (gets bt_offset)) (\<lambda>offset.
     try_py (bind_py (tg_call c ''getUpdates'' (poll_request offset)) (\<lambda>v.
         bind_py (lift_sum (if json_truthy v then json_entries v else Inr [])) (handle_all c)))
       (\<lambda>e. if e = OtherError ''CancelledError'' then None else Some (ret ())))"

text \<open>The loop has no end; \<open>n\<close> is the number of its turns.\<close>

primrec bot_loop :: "'r bot_config \<Rightarrow> nat \<Rightarrow> (bot_world, unit) py" where
  "bot_loop c 0 = ret ()"
| "bot_loop c (Suc n) = seq (bot_cycle c) (bot_loop c n)"

definition bot_run :: "'r bot_config \<Rightarrow> nat \<Rightarrow> (bot_world, unit) py" where
  "bot_run c n = bind_py (tg_call c ''setMyCommands'' (jobject [(''commands'', JList [
       jobject [(''command'', jtext ''start''), (''description'', jtext ''Open Mnema administration'')],
       jobject [(''command'', jtext ''pair''), (''description'', jtext ''Pair a device'')]])])) (\<lambda>_. bot_loop c n)"

definition run_bot :: "'r bot_config \<Rightarrow> nat \<Rightarrow> (bot_world, unit) py" where
  "run_bot c n = seq (require (st_telegram_enabled (bot_settings c)) (RuntimeError ''Telegram bot is disabled'')) (
     bind_py (local_py (on_disk (read_bytes (root_of (cc_web (tb_cli c)) st_telegram_bot_token_file)))) (\<lambda>b.
     bind_py (lift_sum (text_cps b)) (\<lambda>t. let token = strip_cps t in
     seq (require (token \<noteq> []) (RuntimeError ''Telegram bot token file is empty''))
       (bot_run (c\<lparr>tb_token := token\<rparr>) n))))"

section \<open>What the bot may do\<close>

definition bot_db :: "(db \<Rightarrow> bool) \<Rightarrow> bot_world \<Rightarrow> bool" where
  "bot_db T s \<longleftrightarrow> T (durable (fst s))"

named_theorems bot_rules

lemma bot_db_remote [bot_rules]: "keeps (bot_db T) (remote_py m)"
  by (simp add: keeps_def bot_db_def remote_py_def split: prod.split)

lemma bot_db_local: "(\<And>w. durable (snd (m w)) = durable w) \<Longrightarrow> keeps (bot_db T) (local_py m)"
  by (auto simp: keeps_def bot_db_def local_py_def split: prod.split) (metis snd_conv)

lemma bot_db_session:
  assumes "keeps (both T) m" shows "keeps (bot_db T) (local_py (session_block m))"
proof (rule keepsI)
  fix s :: bot_world assume "bot_db T s"
  then have "both T ((fst s)\<lparr>live := durable (fst s)\<rparr>)" by (simp add: bot_db_def both_def)
  from keepsD [OF assms this] have "both T (snd (m ((fst s)\<lparr>live := durable (fst s)\<rparr>)))" .
  then show "bot_db T (snd (local_py (session_block m) s))"
    by (cases s) (auto simp: local_py_def bot_db_def both_def session_block_def split: prod.splits sum.splits)
qed

lemma durable_bind: "(\<And>w. durable (snd (m w)) = durable w) \<Longrightarrow> (\<And>x w. durable (snd (f x w)) = durable w)
    \<Longrightarrow> durable (snd (bind_py m f w)) = durable (w :: world)"
  by (simp add: bind_py_def split: prod.split sum.split) (metis snd_conv)

lemma durable_map: "(\<And>x w. durable (snd (f x w)) = durable w) \<Longrightarrow> durable (snd (map_py f xs w)) = durable (w :: world)"
proof (induction xs arbitrary: w)
  case (Cons x xs)
  then show ?case by (auto intro!: durable_bind)
qed simp

lemma durable_reads:
  "durable (snd (on_disk m w)) = durable w" "durable (snd (utcnow w)) = durable w" "durable (snd (lift_sum r w)) = durable w"
  "durable (snd (test_workflow c b w)) = durable w" "durable (snd (session_block (query f) w)) = durable w"
  by (simp_all add: on_disk_def utcnow_def test_workflow_def session_block_def query_def split: prod.split)

lemmas bot_db_steps = bot_rules keeps_bind keeps_seq keeps_ret keeps_raise keeps_lift_sum keeps_require

lemma bot_db_calls [bot_rules]:
  "keeps (bot_db T) (tg_request c k)" "keeps (bot_db T) (tg_call c verb v)" "keeps (bot_db T) (send_message c chat t m)"
  "keeps (bot_db T) (send_photo c chat photo caption)" "keeps (bot_db T) (ask_name c chat)"
  "keeps (bot_db T) read_clock" "keeps (bot_db T) (set_pending chat e)"
proof -
  show req: "keeps (bot_db T) (tg_request c k)" for k unfolding tg_request_def by (intro bot_db_steps)
  then show call: "keeps (bot_db T) (tg_call c verb v)" for verb v unfolding tg_call_def .
  show msg: "keeps (bot_db T) (send_message c chat t m)" for t m unfolding send_message_def by (intro keeps_bind keeps_ret call)
  show "keeps (bot_db T) (send_photo c chat photo caption)" unfolding send_photo_def by (intro bot_db_steps req)
  show clk: "keeps (bot_db T) read_clock" unfolding read_clock_def by (intro bot_db_steps)
  show pend: "keeps (bot_db T) (set_pending chat e)" for e unfolding set_pending_def by (intro bot_db_steps)
  show "keeps (bot_db T) (ask_name c chat)" unfolding ask_name_def by (intro keeps_bind keeps_seq clk pend msg)
qed

text \<open>What the bot does with the database: all but the provider's items and the pairing codes stays.\<close>

lemma bot_db_action:
  assumes "off_provider T" shows "keeps (bot_db T) (bot_action c chat action)"
proof -
  have still: "keeps (bot_db T) (local_py bot_status)" "keeps (bot_db T) (local_py bot_devices)"
    "keeps (bot_db T) (local_py (checks (tb_cli c) False))"
    by (auto intro!: bot_db_local simp: bot_status_def bot_devices_def durable_reads checks_only_look)
  have dry: "keeps (bot_db T) (bot_dry_run c chat)"
    unfolding bot_dry_run_def
  proof (rule keeps_try)
    fix e k assume "(if e = OtherError ''CancelledError'' then None
       else Some (send_message c chat (cps ''Dry run could not be completed safely.'') (Some keyboard))) = Some k"
    then show "keeps (bot_db T) k" by (auto split: if_splits intro: bot_rules)
  qed (intro bot_db_steps bot_rules bot_db_local durable_reads durable_map durable_bind)
  have proj: "keeps (bot_db T) (local_py (session_block (project_verified_archives cfg)))" for cfg
    by (intro bot_db_session both_publish(3) assms)
  show ?thesis
    unfolding bot_action_def Let_def by (intro keeps_if keeps_bind still dry proj bot_rules)
qed

definition off_codes :: "(db \<Rightarrow> bool) \<Rightarrow> bool" where
  "off_codes T \<longleftrightarrow> (\<forall>d f. T (pairing_codes_update f d) = T d)"

lemma bot_db_callback:
  assumes "off_provider T" shows "keeps (bot_db T) (handle_callback c v)"
  unfolding handle_callback_def
  by (intro keeps_bind keeps_seq keeps_lift_sum keeps_if bot_rules bot_db_action [OF assms])
    (auto split: option.split intro!: keeps_if keeps_bind keeps_ret bot_rules)

lemma bot_db_text:
  assumes "off_provider T" shows "keeps (bot_db T) (handle_text c chat text)"
  unfolding handle_text_def by (intro keeps_if keeps_bind keeps_ret keeps_lift_sum bot_rules bot_db_action [OF assms])

lemma bot_db_told:
  "keeps (bot_db T) (try_py (bind_py (lift_sum (tb_png c link)) (\<lambda>png. send_photo c chat png t))
     (\<lambda>e. if photo_failure e then Some (ret ()) else None))"
proof (rule keeps_try)
  fix e and k :: "(bot_world, unit) py" assume "(if photo_failure e then Some (ret ()) else None) = Some k"
  then show "keeps (bot_db T) k" by (auto split: if_splits intro: keeps_ret)
qed (intro keeps_bind keeps_lift_sum bot_rules)

text \<open>A pairing adds at most one code, and only while the File Provider is enabled.\<close>

lemma code_run:
  "\<exists>r w'. session_block (create_pairing_code cfg) w = (r, w') \<and> (durable w' = durable w
     \<or> (\<exists>p. durable w' = pairing_codes_update (\<lambda>t. t @ [p]) (durable w)))"
  by (auto simp: session_block_def create_pairing_code_def fresh_token_def utcnow_def write_codes_def query_def on_db_def
      require_def bind_py_def seq_def split: prod.split sum.split)

definition asks :: "(int \<Rightarrow> rat option) \<Rightarrow> bot_world \<Rightarrow> bool" where
  "asks Q s \<longleftrightarrow> bt_pending (snd s) = Q"

lemma asks_calls: "keeps (asks Q) (local_py m)" "keeps (asks Q) (tg_request c k)" "keeps (asks Q) (send_message c chat t mk)"
  "keeps (asks Q) (send_photo c chat photo caption)"
proof -
  show "keeps (asks Q) (local_py m)" by (simp add: keeps_def asks_def local_py_def split: prod.split)
  have rem: "keeps (asks Q) (remote_py m')" if "\<And>b. bt_pending (snd (m' b)) = bt_pending b" for m' :: "(bot_state, 'x) py"
    using that by (auto simp: keeps_def asks_def remote_py_def split: prod.split) (metis snd_conv)+
  show req: "keeps (asks Q) (tg_request c k)" for k unfolding tg_request_def by (intro keeps_bind keeps_lift_sum rem) simp
  show "keeps (asks Q) (send_message c chat t mk)" unfolding send_message_def tg_call_def by (intro keeps_bind keeps_ret req)
  show "keeps (asks Q) (send_photo c chat photo caption)"
    unfolding send_photo_def by (intro keeps_bind keeps_ret req rem) simp
qed

lemma pair_keeps_asks: "keeps (asks Q) (bot_pair c chat name)"
proof -
  have told: "keeps (asks Q) (try_py (bind_py (lift_sum (tb_png c link)) (\<lambda>png. send_photo c chat png t))
     (\<lambda>e. if photo_failure e then Some (ret ()) else None))" for link t
  proof (rule keeps_try)
    fix e and k :: "(bot_world, unit) py" assume "(if photo_failure e then Some (ret ()) else None) = Some k"
    then show "keeps (asks Q) k" by (auto split: if_splits intro: keeps_ret)
  qed (intro keeps_bind keeps_lift_sum asks_calls)
  show ?thesis unfolding bot_pair_def by (intro keeps_if keeps_bind keeps_seq keeps_lift_sum asks_calls told)
qed

lemma pair_codes:
  assumes "bot_pair c chat name s = (r, s')"
  shows "pairing_codes (durable (fst s')) = pairing_codes (durable (fst s))
    \<or> st_file_provider_enabled (bot_settings c) \<and> (\<exists>p. pairing_codes (durable (fst s')) = pairing_codes (durable (fst s)) @ [p])"
proof (cases "st_file_provider_enabled (bot_settings c)")
  case False
  let ?T = "\<lambda>d. pairing_codes d = pairing_codes (durable (fst s))"
  from assms False have "send_message c chat (cps ''File Provider is disabled in Mnema configuration.'') None s = (r, s')"
    by (simp add: bot_pair_def)
  from keepsD2 [OF bot_db_calls(3) [of ?T] _ this] show ?thesis by (simp add: bot_db_def)
next
  case True
  obtain x w' where x: "session_block (create_pairing_code (cc_auth (tb_cli c))) (fst s) = (x, w')"
    and codes: "durable w' = durable (fst s) \<or> (\<exists>p. durable w' = pairing_codes_update (\<lambda>t. t @ [p]) (durable (fst s)))"
    using code_run by blast
  let ?T = "\<lambda>d. pairing_codes d = pairing_codes (durable w')"
  have rest: "keeps (bot_db ?T) (bind_py (lift_sum (pairing_link (bot_settings c) code name)) (\<lambda>link.
        seq (send_message c chat (pairing_text name code link) None)
          (try_py (bind_py (lift_sum (tb_png c link)) (\<lambda>png. send_photo c chat png ''Scan this QR code in Mnema.''))
            (\<lambda>e. if photo_failure e then Some (ret ()) else None))))" for code
    by (intro keeps_bind keeps_seq keeps_lift_sum bot_rules bot_db_told)
  have start: "bot_db ?T (w', snd s)" by (simp add: bot_db_def)
  have "bot_db ?T s'"
    using assms True x keepsD2 [OF rest start] start
    by (cases s; cases x) (auto simp: bot_pair_def bind_py_def local_py_def)
  with codes True show ?thesis by (auto simp: bot_db_def)
qed

definition codes_of :: "bot_world \<Rightarrow> pairing_code list" where
  "codes_of s = pairing_codes (durable (fst s))"

definition answered :: "'r bot_config \<Rightarrow> bot_world \<Rightarrow> bot_world \<Rightarrow> bool" where
  "answered c s s' \<longleftrightarrow> st_file_provider_enabled (bot_settings c) \<and> (\<exists>p. codes_of s' = codes_of s @ [p])
     \<and> (\<exists>chat e. bt_pending (snd s) chat = Some e \<and> bt_mono (snd s) (bt_reads (snd s)) \<le> e \<and> bt_pending (snd s') chat = None)"

lemma off_provider_codes: "off_provider (\<lambda>d. pairing_codes d = P)"
  by (simp add: off_provider_def)

lemma same_codes:
  assumes "keeps (bot_db (\<lambda>d. pairing_codes d = codes_of s)) m" "codes_of s0 = codes_of s" shows "codes_of (snd (m s0)) = codes_of s"
  using keepsD [OF assms(1), of s0] assms(2) by (simp add: bot_db_def codes_of_def)

lemma message_codes: "codes_of (snd (handle_message c v s)) = codes_of s \<or> answered c s (snd (handle_message c v s))"
proof -
  obtain w b where s: "s = (w, b)" by (cases s)
  show ?thesis
  proof (cases "chat_of c v")
    case (Inl e)
    then show ?thesis by (simp add: handle_message_def bind_py_def lift_sum_def)
  next
    case chat: (Inr chat)
    show ?thesis
    proof (cases "get_str c v ''text''")
      case (Inl e)
      with chat show ?thesis by (simp add: handle_message_def bind_py_def lift_sum_def)
    next
      case (Inr raw)
      let ?t = "strip_cps raw"
      have words: "codes_of (snd (handle_text c chat ?t s0)) = codes_of s" if "codes_of s0 = codes_of s" for s0
        by (rule same_codes [OF bot_db_text that]) (rule off_provider_codes)
      show ?thesis
      proof (cases "bt_pending b chat")
        case None
        with chat Inr s have "handle_message c v s = handle_text c chat ?t s"
          by (simp add: handle_message_def bind_py_def lift_sum_def remote_py_def gets_def Let_def)
        with words show ?thesis by simp
      next
        case (Some e)
        let ?s = "(w, b\<lparr>bt_pending := (bt_pending b)(chat := None), bt_reads := Suc (bt_reads b)\<rparr>)"
        let ?reply = "bt_mono b (bt_reads b) \<le> e \<and> ?t \<noteq> [] \<and> take 1 ?t \<noteq> [slash]"
        have run: "handle_message c v s = (if ?reply then bot_pair c chat (take 80 ?t) ?s else handle_text c chat ?t ?s)"
          using chat Inr s Some
          by (simp add: handle_message_def bind_py_def seq_def lift_sum_def remote_py_def gets_def modify_def set_pending_def read_clock_def Let_def)
        have same: "codes_of ?s = codes_of s" by (simp add: codes_of_def s)
        show ?thesis
        proof (cases ?reply)
          case False
          then have "handle_message c v s = handle_text c chat ?t ?s" unfolding run by (rule if_not_P)
          with words [OF same] show ?thesis by simp
        next
          case True
          obtain r s' where p: "bot_pair c chat (take 80 ?t) ?s = (r, s')" by (rule prod.exhaust)
          have "asks ((bt_pending b)(chat := None)) ?s" by (simp add: asks_def)
          from keepsD2 [OF pair_keeps_asks this p] have "bt_pending (snd s') chat = None" by (simp add: asks_def)
          moreover from pair_codes [OF p] same have "codes_of s' = codes_of s
            \<or> st_file_provider_enabled (bot_settings c) \<and> (\<exists>q. codes_of s' = codes_of s @ [q])" by (simp add: codes_of_def)
          ultimately show ?thesis using run True p s Some by (auto simp: answered_def)
        qed
      qed
    qed
  qed
qed

lemma callback_codes: "codes_of (snd (handle_callback c v s)) = codes_of s"
  by (rule same_codes [OF bot_db_callback]) (rule off_provider_codes, simp)

text \<open>C38: the bot serves only the allowed people. An update changes nothing and is not answered, unless its message is in
  a private chat and its sender, for a button the person who pressed it, is one of the allowed users; and a pairing code
  is created only while the File Provider is enabled and only in reply to a question that is open in that chat and at
  most as old as its deadline, and the reply closes the question.\<close>

theorem bot_serves_allowed:
  "(snd (handle c u s) = s
     \<or> (\<exists>kvs chat sender i. message_of u = Inr (Some (JObject kvs)) \<and> map_of (rev kvs) (cps ''chat'') = Some chat
          \<and> dict_get chat ''type'' = Inr (Some (jtext ''private'')) \<and> sender_of u = Inr sender \<and> dict_get sender ''id'' = Inr i
          \<and> member_of c i (st_telegram_allowed_user_ids (bot_settings c))))
   \<and> (codes_of (snd (handle c u s)) = codes_of s \<or> answered c s (snd (handle c u s)))"
proof
  show "snd (handle c u s) = s
     \<or> (\<exists>kvs chat sender i. message_of u = Inr (Some (JObject kvs)) \<and> map_of (rev kvs) (cps ''chat'') = Some chat
          \<and> dict_get chat ''type'' = Inr (Some (jtext ''private'')) \<and> sender_of u = Inr sender \<and> dict_get sender ''id'' = Inr i
          \<and> member_of c i (st_telegram_allowed_user_ids (bot_settings c)))"
  proof (cases "authorized c u = Inr True")
    case False
    then have "snd (handle c u s) = s"
      by (cases "authorized c u") (simp_all add: handle_def bind_py_def lift_sum_def)
    then show ?thesis ..
  next
    case True
    then obtain m sender where m: "message_of u = Inr m" "sender_of u = Inr sender" and rest: "(case m of Some (JObject kvs) \<Rightarrow>
       bind_sum (dict_get (JObject kvs) ''chat'') (\<lambda>chat.
       bind_sum (dict_get (case chat of None \<Rightarrow> JObject [] | Some v \<Rightarrow> v) ''type'') (\<lambda>kind.
       bind_sum (dict_get sender ''id'') (\<lambda>i.
       Inr (kind = Some (jtext ''private'') \<and> member_of c i (st_telegram_allowed_user_ids (bot_settings c))))))
     | _ \<Rightarrow> Inr False) = Inr True"
      unfolding authorized_def bind_sum_Inr by blast
    from rest obtain kvs where kvs: "m = Some (JObject kvs)" by (cases m) (simp, rename_tac v, case_tac v, simp_all)
    with rest obtain chat i where "dict_get (JObject kvs) ''chat'' = Inr chat"
      "dict_get (case chat of None \<Rightarrow> JObject [] | Some v \<Rightarrow> v) ''type'' = Inr (Some (jtext ''private''))"
      "dict_get sender ''id'' = Inr i" "member_of c i (st_telegram_allowed_user_ids (bot_settings c))"
      unfolding kvs option.case json.case bind_sum_Inr by blast
    with m kvs show ?thesis by (cases chat) (auto simp: dict_get_def)
  qed
  show "codes_of (snd (handle c u s)) = codes_of s \<or> answered c s (snd (handle c u s))"
    using message_codes [of c _ s] callback_codes [of c _ s]
    by (auto simp: handle_def bind_py_def lift_sum_def split: sum.split option.split)
qed

section \<open>What a run leaves alone\<close>

lemma bot_db_pair:
  assumes "off_codes T" shows "keeps (bot_db T) (bot_pair c chat name)"
proof -
  have issue: "keeps (bot_db T) (local_py (session_block (create_pairing_code cfg)))" for cfg
  proof (rule keepsI)
    fix s :: bot_world assume "bot_db T s"
    with assms code_run [of cfg "fst s"] show "bot_db T (snd (local_py (session_block (create_pairing_code cfg)) s))"
      by (cases s) (auto simp: bot_db_def off_codes_def local_py_def)
  qed
  show ?thesis unfolding bot_pair_def by (intro keeps_if keeps_bind keeps_seq keeps_lift_sum issue bot_db_told bot_rules)
qed

lemma bot_db_handle:
  assumes "off_provider T" "off_codes T" shows "keeps (bot_db T) (handle c u)"
proof -
  note acts = bot_db_callback [OF assms(1)] bot_db_text [OF assms(1)] bot_db_pair [OF assms(2)]
  have m: "keeps (bot_db T) (handle_message c v)" for v
    unfolding handle_message_def Let_def
    by (intro keeps_bind keeps_lift_sum bot_rules) (auto split: option.split intro!: keeps_if keeps_seq keeps_bind acts bot_rules)
  show ?thesis
    unfolding handle_def
    by (intro keeps_bind keeps_lift_sum keeps_if keeps_ret)
      (auto split: option.split intro!: keeps_if keeps_bind keeps_lift_sum acts m)
qed

lemma bot_db_run:
  assumes "off_provider T" "off_codes T" shows "keeps (bot_db T) (run_bot c n)"
proof -
  have all: "keeps (bot_db T) (handle_all c us)" for c :: "'a bot_config" and us
  proof (induction us)
    case Nil
    show ?case unfolding handle_all.simps by (rule keeps_ret)
  next
    case (Cons u us)
    show ?case unfolding handle_all.simps by (intro keeps_bind keeps_seq keeps_lift_sum bot_rules bot_db_handle [OF assms] Cons)
  qed
  have cycle: "keeps (bot_db T) (bot_cycle c)" for c :: "'a bot_config"
    unfolding bot_cycle_def
    by (intro keeps_bind keeps_try keeps_lift_sum bot_rules all) (auto split: if_splits intro: keeps_ret)
  have loop: "keeps (bot_db T) (bot_loop c k)" for c :: "'a bot_config" and k
  proof (induction k)
    case 0
    show ?case unfolding bot_loop.simps by (rule keeps_ret)
  next
    case (Suc k)
    show ?case unfolding bot_loop.simps by (intro keeps_seq cycle Suc)
  qed
  have token: "keeps (bot_db T) (local_py (on_disk m))" for m :: "(fsys, 'b) py"
    by (intro bot_db_local durable_reads)
  show ?thesis
    unfolding run_bot_def bot_run_def Let_def by (intro keeps_seq keeps_bind keeps_require keeps_lift_sum token loop bot_rules)
qed

definition archive_side :: "db \<Rightarrow> db" where
  "archive_side d = d\<lparr>fp_items := [], fp_changes := [], settings := [], pairing_codes := []\<rparr>"

text \<open>Whatever Telegram delivers, a run of the bot writes only the index of the File Provider, the settings and the
  pairing codes: the archive items and their audit log, the jobs, the uploads, the paired devices and the manifests and
  entries of a cleanup that are committed stay as they were. In particular no operation of the bot can archive, delete
  or approve anything, or admit a device by itself.\<close>

theorem bot_leaves_archive:
  "archive_side (durable (fst (snd (run_bot c n s)))) = archive_side (durable (fst s))"
proof -
  let ?T = "\<lambda>d. archive_side d = archive_side (durable (fst s))"
  have T: "off_provider ?T" "off_codes ?T" by (simp_all add: off_provider_def off_codes_def archive_side_def)
  have "bot_db ?T s" by (simp add: bot_db_def)
  from keepsD [OF bot_db_run [OF T] this] show ?thesis by (simp add: bot_db_def)
qed

end
