(* ===== verification/Admin_Config.thy ===== *)
theory Admin_Config
  imports Web_Proofs
begin

text \<open>
  The configuration of the appliance on the host (\<open>admin/config.py\<close>): its sections with their validators, the
  environment of the containers that is made of it, and the atomic write of its files. Reading YAML and the conversion
  of its values to the types of the fields are the libraries'; paths are kept as the text they are given as. The text of
  a floating-point number is the parameter \<open>fl\<close>.
\<close>

section \<open>Sections\<close>

record storage_config =
  sg_active_root :: string
  sg_backup_root :: string
  sg_source_root :: string

record cold_storage_config =
  cd_transport :: string
  cd_provider :: string
  cd_rclone_remote_root :: string
  cd_rclone_config_file :: string
  cd_s3_endpoint_url :: string
  cd_s3_region :: string
  cd_s3_bucket :: string
  cd_s3_access_key_file :: string
  cd_s3_secret_key_file :: string
  cd_integration_minio :: bool

record cloudflare_config =
  cw_enabled :: bool
  cw_team_domain :: string
  cw_audience :: string
  cw_admin_hostname :: string
  cw_tunnel_token_file :: string

record file_provider_config =
  fv_enabled :: bool
  fv_public_url :: string
  fv_max_file_size :: int
  fv_minimum_free_percent :: rat

record telegram_config =
  tl_enabled :: bool
  tl_bot_token_file :: string
  tl_allowed_user_ids :: "int list"

record icloud_config =
  ip_enabled :: bool
  ip_apple_id :: string
  ip_library :: string
  ip_daily_at :: string
  ip_session_directory :: string
  ip_capacity_relief_enabled :: bool
  ip_cleanup_trigger_percent :: rat
  ip_cleanup_target_percent :: rat
  ip_cleanup_quarantine_days :: int
  ip_cleanup_max_assets :: int
  ip_cleanup_max_quota_percent :: rat

record sftpgo_config =
  sp_username :: string
  sp_bind_address :: string

record service_config =
  se_local_bind_address :: string
  se_start_at_boot :: bool
  se_worker_concurrency :: int

record policy_config =
  po_archive_after_days :: int
  po_stability_window_hours :: int
  po_quarantine_days :: int
  po_dry_run :: bool
  po_manual_approval :: bool

record appliance_config =
  ap_version :: int
  ap_storage :: storage_config
  ap_cold :: cold_storage_config
  ap_cloudflare :: cloudflare_config
  ap_file_provider :: file_provider_config
  ap_telegram :: telegram_config
  ap_icloud :: icloud_config
  ap_sftpgo :: sftpgo_config
  ap_service :: service_config
  ap_policy :: policy_config

definition default_appliance :: appliance_config where
  "default_appliance = \<lparr>ap_version = 1,
     ap_storage = \<lparr>sg_active_root = ''/srv/mnema-active'', sg_backup_root = ''/srv/mnema-backup'',
       sg_source_root = ''/var/lib/mnema/test-source''\<rparr>,
     ap_cold = \<lparr>cd_transport = ''s3'', cd_provider = ''generic'', cd_rclone_remote_root = [],
       cd_rclone_config_file = ''/etc/mnema/secrets/rclone.conf'', cd_s3_endpoint_url = [], cd_s3_region = ''us-east-1'', cd_s3_bucket = [],
       cd_s3_access_key_file = ''/etc/mnema/secrets/s3_access_key'', cd_s3_secret_key_file = ''/etc/mnema/secrets/s3_secret_key'',
       cd_integration_minio = True\<rparr>,
     ap_cloudflare = \<lparr>cw_enabled = False, cw_team_domain = [], cw_audience = [], cw_admin_hostname = [],
       cw_tunnel_token_file = ''/etc/mnema/secrets/cloudflare_tunnel_token''\<rparr>,
     ap_file_provider = \<lparr>fv_enabled = False, fv_public_url = [], fv_max_file_size = 53687091200, fv_minimum_free_percent = 10\<rparr>,
     ap_telegram = \<lparr>tl_enabled = False, tl_bot_token_file = ''/etc/mnema/secrets/telegram_bot_token'', tl_allowed_user_ids = []\<rparr>,
     ap_icloud = \<lparr>ip_enabled = False, ip_apple_id = [], ip_library = ''Personal Library'', ip_daily_at = ''03:00'',
       ip_session_directory = ''/etc/mnema/icloud-session'', ip_capacity_relief_enabled = False, ip_cleanup_trigger_percent = 90,
       ip_cleanup_target_percent = 80, ip_cleanup_quarantine_days = 7, ip_cleanup_max_assets = 1000, ip_cleanup_max_quota_percent = 10\<rparr>,
     ap_sftpgo = \<lparr>sp_username = ''mnema-user'', sp_bind_address = ''0.0.0.0''\<rparr>,
     ap_service = \<lparr>se_local_bind_address = ''127.0.0.1'', se_start_at_boot = True, se_worker_concurrency = 1\<rparr>,
     ap_policy = \<lparr>po_archive_after_days = 30, po_stability_window_hours = 24, po_quarantine_days = 7, po_dry_run = True,
       po_manual_approval = True\<rparr>\<rparr>"

section \<open>Validators\<close>

definition check :: "bool \<Rightarrow> string \<Rightarrow> exn + unit" where
  "check b m = (if b then Inr () else Inl (ValueError m))"

text \<open>\<open>str(Path(s))\<close>\<close>

definition path_str :: "string \<Rightarrow> string" where
  "path_str s = (if is_absolute s then hd (pure_parts s) @ join ''/'' (parts s) else if parts s = [] then ''.'' else join ''/'' (parts s))"

definition absolute_safe_path :: "string \<Rightarrow> exn + unit" where
  "absolute_safe_path p = run_checks [check (is_absolute p) ''storage paths must be absolute'',
     check (set (path_str p) \<inter> {CHR 0x0A, CHR 0x0D, CHR 0x00, CHR 0x5C} = {}) ''storage paths contain unsupported characters'']"

definition distinct_archive_roots :: "storage_config \<Rightarrow> exn + unit" where
  "distinct_archive_roots s = check (pure_parts (sg_active_root s) \<noteq> pure_parts (sg_backup_root s)) ''active and backup roots must differ''"

definition secret_path :: "string \<Rightarrow> string \<Rightarrow> exn + unit" where
  "secret_path m p = check (is_absolute p) m"

definition remote_char :: "char \<Rightarrow> bool" where
  "remote_char c = (is_alnum c \<or> c = CHR ''_'' \<or> c = CHR ''-'')"

definition remote_root_ok :: "string \<Rightarrow> bool" where
  "remote_root_ok s = (case partition_at (CHR '':'') s of (remote, found, path) \<Rightarrow>
     found \<and> remote \<noteq> [] \<and> list_all remote_char remote \<and> path \<noteq> [] \<and> set path \<inter> {CHR 0x0A, CHR 0x0D, CHR 0x00} = {})"

text \<open>\<open>[a-z0-9][a-z0-9.-]{1,61}[a-z0-9]\<close>\<close>

definition bucket_ok :: "string \<Rightarrow> bool" where
  "bucket_ok s = (3 \<le> length s \<and> length s \<le> 63 \<and> list_all (\<lambda>c. is_digit c \<or> is_lower c \<or> c = CHR ''.'' \<or> c = CHR ''-'') s
     \<and> (is_digit (hd s) \<or> is_lower (hd s)) \<and> (is_digit (last s) \<or> is_lower (last s)))"

definition endpoint_ok :: "(string \<Rightarrow> bool) \<Rightarrow> string \<Rightarrow> exn + bool" where
  "endpoint_ok br url = (case urlsplit br url of Inl e \<Rightarrow> Inl e
     | Inr u \<Rightarrow> Inr (us_scheme u = ''https'' \<and> url_hostname u \<noteq> None \<and> \<not> has_credentials u))"

definition transport_is_complete :: "(string \<Rightarrow> bool) \<Rightarrow> cold_storage_config \<Rightarrow> exn + unit" where
  "transport_is_complete br c =
     (if cd_integration_minio c then check (cd_provider c = ''generic'') ''local MinIO cannot use the Scaleway provider''
      else if cd_transport c = ''rclone'' then run_checks [
        check (cd_provider c = ''generic'') ''Scaleway Glacier requires direct S3 transport'',
        check (remote_root_ok (cd_rclone_remote_root c)) ''rclone remote root must use remote:path syntax'']
      else case endpoint_ok br (cd_s3_endpoint_url c) of Inl e \<Rightarrow> Inl e
      | Inr good \<Rightarrow> run_checks [
        check good ''direct S3 requires an HTTPS endpoint without credentials'',
        check (bucket_ok (cd_s3_bucket c)) ''direct S3 bucket name is invalid'',
        check (cd_provider c \<noteq> ''scaleway'' \<or> cd_s3_region c \<in> {''fr-par'', ''nl-ams''}) ''Scaleway Glacier region must be fr-par or nl-ams'',
        check (cd_provider c \<noteq> ''scaleway'' \<or> cd_s3_endpoint_url c = ''https://s3.'' @ cd_s3_region c @ ''.scw.cloud'')
          (''Scaleway endpoint must be https://s3.'' @ cd_s3_region c @ ''.scw.cloud'')])"

definition has_space :: "string \<Rightarrow> bool" where
  "has_space s = list_ex (\<lambda>c. space_cp (of_char c)) s"

definition occurs_in :: "string \<Rightarrow> string \<Rightarrow> bool" where
  "occurs_in p s = list_ex (\<lambda>n. startswith (drop n s) p) [0..<Suc (length s)]"

definition cloudflare_complete :: "(string \<Rightarrow> bool) \<Rightarrow> cloudflare_config \<Rightarrow> exn + unit" where
  "cloudflare_complete br c =
     (if \<not> cw_enabled c then Inr ()
      else case https_origin br (\<lambda>host. endswith host ''.cloudflareaccess.com'') (cw_team_domain c) of Inl e \<Rightarrow> Inl e
      | Inr team \<Rightarrow> run_checks [
        check team ''Cloudflare team domain must be https://<team>.cloudflareaccess.com'',
        check (cw_audience c \<noteq> [] \<and> \<not> has_space (cw_audience c)) ''Cloudflare Access audience is required'',
        check (cw_admin_hostname c \<noteq> [] \<and> \<not> occurs_in ''://'' (cw_admin_hostname c) \<and> CHR ''/'' \<notin> set (cw_admin_hostname c)
          \<and> CHR ''.'' \<in> set (cw_admin_hostname c) \<and> \<not> has_space (cw_admin_hostname c)) ''Cloudflare admin hostname must be a DNS hostname''])"

definition file_provider_complete :: "(string \<Rightarrow> bool) \<Rightarrow> file_provider_config \<Rightarrow> exn + unit" where
  "file_provider_complete br c =
     (if \<not> fv_enabled c then Inr ()
      else case https_origin br (\<lambda>_. True) (fv_public_url c) of Inl e \<Rightarrow> Inl e
      | Inr good \<Rightarrow> check good ''File Provider public URL must be an HTTPS origin without a path'')"

text \<open>\<open>dict.fromkeys\<close> keeps the first of equal values.\<close>

definition firsts :: "int list \<Rightarrow> int list" where
  "firsts xs = rev (remdups (rev xs))"

text \<open>\<open>[A-Za-z0-9._%+-]+@[A-Za-z0-9.-]+\.[A-Za-z]{2,63}\<close>: the last dot ends the host, as the last label has none.\<close>

definition user_char :: "char \<Rightarrow> bool" where
  "user_char c = (is_alnum c \<or> c \<in> {CHR ''.'', CHR ''_'', CHR 0x25, CHR ''+'', CHR ''-''})"

definition host_char :: "char \<Rightarrow> bool" where
  "host_char c = (is_alnum c \<or> c = CHR ''.'' \<or> c = CHR ''-'')"

definition email_ok :: "string \<Rightarrow> bool" where
  "email_ok s = (case partition_at (CHR ''@'') s of (user, found, rest) \<Rightarrow>
     case partition_at (CHR ''.'') (rev rest) of (label, dot, host) \<Rightarrow>
     found \<and> dot \<and> user \<noteq> [] \<and> list_all user_char user \<and> host \<noteq> [] \<and> list_all host_char host
     \<and> 2 \<le> length label \<and> length label \<le> 63 \<and> list_all (\<lambda>c. is_upper c \<or> is_lower c) label)"

definition valid_apple_id :: "string \<Rightarrow> exn + unit" where
  "valid_apple_id s = check (strip s = [] \<or> email_ok (strip s) \<and> length (strip s) \<le> 254) ''Apple ID must be an email address''"

text \<open>\<open>(?:[01]\d|2[0-3]):[0-5]\d\<close>\<close>

definition daily_ok :: "string \<Rightarrow> bool" where
  "daily_ok s = (case s of [a, b, c, d, e] \<Rightarrow> (a \<in> {CHR ''0'', CHR ''1''} \<and> is_digit b \<or> a = CHR ''2'' \<and> b \<in> set ''0123'')
     \<and> c = CHR '':'' \<and> d \<in> set ''012345'' \<and> is_digit e | _ \<Rightarrow> False)"

definition icloud_config_complete :: "icloud_config \<Rightarrow> exn + unit" where
  "icloud_config_complete c = run_checks [
     check (\<not> ip_enabled c \<or> strip (ip_apple_id c) \<noteq> []) ''Apple ID is required when iCloud is enabled'',
     check (ip_cleanup_target_percent c < ip_cleanup_trigger_percent c) ''iCloud cleanup target must be below trigger'',
     check (\<not> ip_capacity_relief_enabled c \<or> ip_enabled c) ''iCloud capacity relief requires iCloud Photos'']"

definition username_ok :: "string \<Rightarrow> bool" where
  "username_ok s = (s \<noteq> [] \<and> length s \<le> 64 \<and> list_all (\<lambda>c. is_alnum c \<or> c \<in> {CHR ''.'', CHR ''_'', CHR ''-''}) s)"

text \<open>An IPv4 address of the module \<open>ipaddress\<close>: four decimal octets without leading zeros.\<close>

definition octet_ok :: "string \<Rightarrow> bool" where
  "octet_ok s = (s \<noteq> [] \<and> list_all is_digit s \<and> length s \<le> 3 \<and> (s = ''0'' \<or> hd s \<noteq> CHR ''0'') \<and> undec s \<le> 255)"

definition ipv4_ok :: "string \<Rightarrow> bool" where
  "ipv4_ok s = (length (split_on (CHR ''.'') s) = 4 \<and> list_all octet_ok (split_on (CHR ''.'') s))"

definition storage_checks :: "storage_config \<Rightarrow> (exn + unit) list" where
  "storage_checks s = map absolute_safe_path [sg_active_root s, sg_backup_root s, sg_source_root s] @ [distinct_archive_roots s]"

definition cold_checks :: "(string \<Rightarrow> bool) \<Rightarrow> cold_storage_config \<Rightarrow> (exn + unit) list" where
  "cold_checks br c = [bounded (cd_transport c \<in> {''rclone'', ''s3''}), bounded (cd_provider c \<in> {''generic'', ''scaleway''})]
     @ map (secret_path ''secret file paths must be absolute'') [cd_rclone_config_file c, cd_s3_access_key_file c, cd_s3_secret_key_file c]
     @ [transport_is_complete br c]"

definition telegram_checks :: "telegram_config \<Rightarrow> (exn + unit) list" where
  "telegram_checks c = [secret_path ''Telegram bot token path must be absolute'' (tl_bot_token_file c),
     check (list_all (\<lambda>i. 0 < i) (tl_allowed_user_ids c)) ''Telegram user IDs must be positive integers'',
     check (\<not> tl_enabled c \<or> tl_allowed_user_ids c \<noteq> []) ''Telegram requires at least one allowed user ID'']"

definition icloud_checks :: "icloud_config \<Rightarrow> (exn + unit) list" where
  "icloud_checks c = map bounded [ip_library c = ''Personal Library'',
       0 < ip_cleanup_trigger_percent c \<and> ip_cleanup_trigger_percent c \<le> 100,
       0 \<le> ip_cleanup_target_percent c \<and> ip_cleanup_target_percent c < 100,
       1 \<le> ip_cleanup_quarantine_days c \<and> ip_cleanup_quarantine_days c \<le> 3650,
       1 \<le> ip_cleanup_max_assets c \<and> ip_cleanup_max_assets c \<le> 1000,
       0 < ip_cleanup_max_quota_percent c \<and> ip_cleanup_max_quota_percent c \<le> 10]
     @ [valid_apple_id (ip_apple_id c), check (daily_ok (ip_daily_at c)) ''iCloud daily schedule must use HH:MM'',
        check (pure_parts (ip_session_directory c) = [''/'', ''etc'', ''mnema'', ''icloud-session'']) ''iCloud session directory must be /etc/mnema/icloud-session'',
        icloud_config_complete c]"

definition policy_checks :: "policy_config \<Rightarrow> (exn + unit) list" where
  "policy_checks c = map bounded [0 \<le> po_archive_after_days c \<and> po_archive_after_days c \<le> 36500,
     0 \<le> po_stability_window_hours c \<and> po_stability_window_hours c \<le> 8760, 1 \<le> po_quarantine_days c \<and> po_quarantine_days c \<le> 3650]"

definition appliance_checks :: "(string \<Rightarrow> bool) \<Rightarrow> appliance_config \<Rightarrow> (exn + unit) list" where
  "appliance_checks br a = [bounded (ap_version a = 1)] @ storage_checks (ap_storage a) @ cold_checks br (ap_cold a)
     @ [secret_path ''Cloudflare tunnel token path must be absolute'' (cw_tunnel_token_file (ap_cloudflare a)), cloudflare_complete br (ap_cloudflare a),
        bounded (0 < fv_max_file_size (ap_file_provider a)),
        bounded (1 \<le> fv_minimum_free_percent (ap_file_provider a) \<and> fv_minimum_free_percent (ap_file_provider a) \<le> 50),
        file_provider_complete br (ap_file_provider a)]
     @ telegram_checks (ap_telegram a) @ icloud_checks (ap_icloud a)
     @ [check (username_ok (sp_username (ap_sftpgo a))) ''SFTPGo username contains unsupported characters'',
        check (ipv4_ok (sp_bind_address (ap_sftpgo a))) ''SFTP bind address must be IPv4'',
        check (ipv4_ok (se_local_bind_address (ap_service a))) ''local web bind address must be IPv4'',
        bounded (1 \<le> se_worker_concurrency (ap_service a) \<and> se_worker_concurrency (ap_service a) \<le> 2)]
     @ policy_checks (ap_policy a)
     @ [check (\<not> fv_enabled (ap_file_provider a) \<or> cw_enabled (ap_cloudflare a)) ''File Provider internet access requires Cloudflare Tunnel'']"

text \<open>Two validators change their value: the Apple ID is stripped, and an allowed user is kept once.\<close>

definition normal_appliance :: "appliance_config \<Rightarrow> appliance_config" where
  "normal_appliance a = a\<lparr>ap_telegram := (ap_telegram a)\<lparr>tl_allowed_user_ids := firsts (tl_allowed_user_ids (ap_telegram a))\<rparr>,
     ap_icloud := (ap_icloud a)\<lparr>ip_apple_id := strip (ip_apple_id (ap_icloud a))\<rparr>\<rparr>"

definition validate_appliance :: "(string \<Rightarrow> bool) \<Rightarrow> appliance_config \<Rightarrow> exn + appliance_config" where
  "validate_appliance br a = (case run_checks (appliance_checks br a) of Inl e \<Rightarrow> Inl e | Inr _ \<Rightarrow> Inr (normal_appliance a))"

section \<open>The environment of the containers\<close>

definition bool_text :: "bool \<Rightarrow> string" where
  "bool_text b = (if b then ''true'' else ''false'')"

text \<open>\<open>json.dumps\<close> of a list of integers.\<close>

definition id_list_text :: "int list \<Rightarrow> string" where
  "id_list_text xs = ''['' @ join '', '' (map py_str_int xs) @ '']''"

definition profiles_of :: "appliance_config \<Rightarrow> string list" where
  "profiles_of a = (if cd_integration_minio (ap_cold a) then [''integration''] else [])
     @ (if cw_enabled (ap_cloudflare a) then [''cloudflare''] else [])
     @ (if fv_enabled (ap_file_provider a) then [''file-provider''] else [])
     @ (if tl_enabled (ap_telegram a) then [''telegram''] else [])"

definition storage_environment :: "appliance_config \<Rightarrow> (string \<times> string) list" where
  "storage_environment a = [
     (''MNEMA_DATABASE_URL'', ''sqlite:////var/lib/mnema/mnema.db''),
     (''MNEMA_ACTIVE_ROOT'', ''/data/active''),
     (''MNEMA_BACKUP_ROOT'', ''/data/backup''),
     (''MNEMA_STAGING_ROOT'', ''/data/active/.mnema-staging''),
     (''MNEMA_SOURCE_ROOT'', ''/data/test-source''),
     (''MNEMA_HOST_ACTIVE_ROOT'', path_str (sg_active_root (ap_storage a))),
     (''MNEMA_HOST_BACKUP_ROOT'', path_str (sg_backup_root (ap_storage a))),
     (''MNEMA_HOST_SOURCE_ROOT'', path_str (sg_source_root (ap_storage a))),
     (''MNEMA_HOST_CONFIG_ROOT'', ''/var/lib/mnema''),
     (''MNEMA_HOST_MINIO_ROOT'', ''/var/lib/mnema/minio''),
     (''MNEMA_HOST_SFTPGO_DATA_ROOT'', ''/var/lib/mnema/sftpgo-data''),
     (''MNEMA_HOST_SFTPGO_HOME_ROOT'', ''/var/lib/mnema/sftpgo-home''),
     (''MNEMA_HOST_ICLOUD_SESSION_ROOT'', path_str (ip_session_directory (ap_icloud a))),
     (''MNEMA_SECRET_KEY_FILE'', ''/run/secrets/mnema_secret_key''),
     (''MNEMA_COLD_ENCRYPTION_KEY_FILE'', ''/run/secrets/mnema_cold_key''),
     (''MNEMA_KOPIA_PASSWORD_FILE'', ''/run/secrets/kopia_password''),
     (''MNEMA_KOPIA_REPOSITORY'', ''/data/backup/kopia-repository''),
     (''MNEMA_KOPIA_CONFIG_FILE'', ''/var/lib/mnema/kopia/repository.config''),
     (''MNEMA_USE_EXTERNAL_TEST_STORAGE'', ''true''),
     (''MNEMA_COLD_STORAGE_TRANSPORT'', cd_transport (ap_cold a)),
     (''MNEMA_S3_PROVIDER'', cd_provider (ap_cold a)),
     (''MNEMA_RCLONE_CONFIG_FILE'', ''/run/secrets/rclone.conf''),
     (''MNEMA_RCLONE_REMOTE_ROOT'', cd_rclone_remote_root (ap_cold a)),
     (''MNEMA_S3_ENDPOINT_URL'', cd_s3_endpoint_url (ap_cold a)),
     (''MNEMA_S3_REGION'', cd_s3_region (ap_cold a)),
     (''MNEMA_S3_BUCKET'', cd_s3_bucket (ap_cold a)),
     (''MNEMA_S3_ACCESS_KEY_FILE'', ''/run/secrets/s3_access_key''),
     (''MNEMA_S3_SECRET_KEY_FILE'', ''/run/secrets/s3_secret_key''),
     (''MNEMA_SFTPGO_ENDPOINT_URL'', ''http://sftpgo:8080''),
     (''MNEMA_SFTPGO_API_KEY_FILE'', ''/run/secrets/sftpgo_api_key''),
     (''MNEMA_SMART_HEALTH_FILE'', ''/var/lib/mnema/smart-health.json''),
     (''MNEMA_REQUIRE_SMART_HEALTH'', ''true''),
     (''MNEMA_ONBOARDING_TOKEN_FILE'', ''/run/secrets/onboarding_token'')]"

definition service_environment :: "(rat \<Rightarrow> string) \<Rightarrow> appliance_config \<Rightarrow> (string \<times> string) list" where
  "service_environment fl a = [
     (''MNEMA_GLOBAL_DELETION_ENABLED'', ''false''),
     (''MNEMA_SAFETY_LOCK'', ''true''),
     (''MNEMA_WORKER_CONCURRENCY'', py_str_int (se_worker_concurrency (ap_service a))),
     (''MNEMA_LOCAL_BIND'', se_local_bind_address (ap_service a)),
     (''MNEMA_SFTP_BIND'', sp_bind_address (ap_sftpgo a)),
     (''MNEMA_CLOUDFLARE_ACCESS_REQUIRED'', ''false''),
     (''MNEMA_CLOUDFLARE_TEAM_DOMAIN'', cw_team_domain (ap_cloudflare a)),
     (''MNEMA_CLOUDFLARE_AUDIENCE'', cw_audience (ap_cloudflare a)),
     (''MNEMA_CLOUDFLARE_ADMIN_HOSTNAME'', cw_admin_hostname (ap_cloudflare a)),
     (''MNEMA_FILE_PROVIDER_ENABLED'', bool_text (fv_enabled (ap_file_provider a))),
     (''MNEMA_FILE_PROVIDER_PUBLIC_URL'', rstrip_char (CHR ''/'') (fv_public_url (ap_file_provider a))),
     (''MNEMA_FILE_PROVIDER_UPLOAD_ROOT'', ''/data/active/.mnema-file-provider''),
     (''MNEMA_FILE_PROVIDER_MAX_FILE_SIZE'', py_str_int (fv_max_file_size (ap_file_provider a))),
     (''MNEMA_FILE_PROVIDER_MINIMUM_FREE_PERCENT'', fl (fv_minimum_free_percent (ap_file_provider a))),
     (''MNEMA_TELEGRAM_ENABLED'', bool_text (tl_enabled (ap_telegram a))),
     (''MNEMA_TELEGRAM_BOT_TOKEN_FILE'', ''/run/secrets/telegram_bot_token''),
     (''MNEMA_TELEGRAM_ALLOWED_USER_IDS'', id_list_text (tl_allowed_user_ids (ap_telegram a))),
     (''MNEMA_ICLOUD_ENABLED'', bool_text (ip_enabled (ap_icloud a))),
     (''MNEMA_ICLOUD_APPLE_ID'', ip_apple_id (ap_icloud a)),
     (''MNEMA_ICLOUD_LIBRARY'', ''PrimarySync''),
     (''MNEMA_ICLOUD_SESSION_DIRECTORY'', ''/var/lib/mnema/icloud-session''),
     (''MNEMA_ICLOUD_IMPORT_ROOT'', ''/data/active/iCloud Photos''),
     (''MNEMA_ICLOUD_CAPACITY_RELIEF_ENABLED'', bool_text (ip_capacity_relief_enabled (ap_icloud a))),
     (''MNEMA_ICLOUD_CLEANUP_TRIGGER_PERCENT'', fl (ip_cleanup_trigger_percent (ap_icloud a))),
     (''MNEMA_ICLOUD_CLEANUP_TARGET_PERCENT'', fl (ip_cleanup_target_percent (ap_icloud a))),
     (''MNEMA_ICLOUD_CLEANUP_QUARANTINE_DAYS'', py_str_int (ip_cleanup_quarantine_days (ap_icloud a))),
     (''MNEMA_ICLOUD_CLEANUP_MAX_ASSETS'', py_str_int (ip_cleanup_max_assets (ap_icloud a))),
     (''MNEMA_ICLOUD_CLEANUP_MAX_QUOTA_PERCENT'', fl (ip_cleanup_max_quota_percent (ap_icloud a))),
     (''COMPOSE_PROFILES'', join '','' (profiles_of a))]"

definition minio_environment :: "(string \<times> string) list" where
  "minio_environment = [
     (''MNEMA_COLD_STORAGE_TRANSPORT'', ''s3''),
     (''MNEMA_S3_PROVIDER'', ''generic''),
     (''MNEMA_S3_ENDPOINT_URL'', ''http://minio:9000''),
     (''MNEMA_S3_REGION'', ''us-east-1''),
     (''MNEMA_S3_BUCKET'', ''mnema-integration''),
     (''MNEMA_S3_ACCESS_KEY_FILE'', ''/run/secrets/minio_user''),
     (''MNEMA_S3_SECRET_KEY_FILE'', ''/run/secrets/minio_password'')]"

text \<open>\<open>dict.update\<close> for keys that are there.\<close>

definition updated_values :: "(string \<times> string) list \<Rightarrow> (string \<times> string) list \<Rightarrow> (string \<times> string) list" where
  "updated_values kvs env = map (\<lambda>(k, v). (k, case map_of kvs k of None \<Rightarrow> v | Some v' \<Rightarrow> v')) env"

definition runtime_environment :: "(rat \<Rightarrow> string) \<Rightarrow> appliance_config \<Rightarrow> (string \<times> string) list" where
  "runtime_environment fl a = updated_values (if cd_integration_minio (ap_cold a) then minio_environment else [])
     (storage_environment a @ service_environment fl a)"

definition unsupported :: "string \<Rightarrow> bool" where
  "unsupported v = list_ex (\<lambda>c. c \<in> {CHR 0x0A, CHR 0x0D, CHR 0x00}) v"

definition render_environment :: "(rat \<Rightarrow> string) \<Rightarrow> appliance_config \<Rightarrow> exn + string" where
  "render_environment fl a = (let env = sort_key fst (runtime_environment fl a) in
     case find (\<lambda>(k, v). unsupported v) env of
       Some (k, v) \<Rightarrow> Inl (ValueError (''runtime value for '' @ k @ '' contains an unsupported character''))
     | None \<Rightarrow> Inr (join [CHR 0x0A] (map (\<lambda>(k, v). k @ ''='' @ v) env) @ [CHR 0x0A]))"

section \<open>Files\<close>

definition try_finally :: "('s, 'a) py \<Rightarrow> ('s, unit) py \<Rightarrow> ('s, 'a) py" where
  "try_finally m f = (\<lambda>s. case m s of (r, s1) \<Rightarrow> (case f s1 of (Inl e, s2) \<Rightarrow> (Inl e, s2) | (Inr _, s2) \<Rightarrow> (r, s2)))"

text \<open>
  \<open>tag\<close> is the random part of the name \<open>mkstemp\<close> chooses and \<open>t\<close> the time of the write. The mode of a file and
  \<open>fsync\<close> are not in the model.
\<close>

definition temporary_of :: "path \<Rightarrow> string \<Rightarrow> path" where
  "temporary_of p tag = butlast p @ [''.'' @ last p @ ''.'' @ tag]"

definition atomic_write_bytes :: "string \<Rightarrow> int \<Rightarrow> path \<Rightarrow> bytes \<Rightarrow> (fsys, unit) py" where
  "atomic_write_bytes tag t p b = seq (mkdirs (butlast p)) (seq (write_new (temporary_of p tag) b t)
     (try_finally (os_replace (temporary_of p tag) p) (unlink_missing_ok (temporary_of p tag))))"

text \<open>Writing to a file that is open. \<open>atomic_write\<close> encodes its text first.\<close>

definition fill :: "path \<Rightarrow> bytes \<Rightarrow> int \<Rightarrow> (fsys, unit) py" where
  "fill p b t = (\<lambda>fs. case parent_dir fs p of Inl e \<Rightarrow> (Inl e, fs)
     | Inr q \<Rightarrow> (case node_at fs (q @ [last p]) of Some (File _ i _) \<Rightarrow> (Inr (), set_node (q @ [last p]) (File b i t) fs)
       | _ \<Rightarrow> (Inl FileNotFoundError, fs)))"

definition atomic_copy :: "string \<Rightarrow> int \<Rightarrow> path \<Rightarrow> path \<Rightarrow> (fsys, unit) py" where
  "atomic_copy tag t src p = seq (mkdirs (butlast p)) (seq (write_new (temporary_of p tag) [] t)
     (try_finally (bind_py (read_bytes src) (\<lambda>b. seq (fill (temporary_of p tag) b t) (os_replace (temporary_of p tag) p)))
       (unlink_missing_ok (temporary_of p tag))))"

end
