(* ===== verification/Admin_Proofs.thy ===== *)
theory Admin_Proofs
  imports Admin_Config
begin

text \<open>
  What the configuration of the appliance guarantees: the environment file says exactly what was configured, with the
  deletion of sources off, and the containers accept the settings they read from it.
\<close>

section \<open>What an environment file says\<close>

text \<open>Reading the file back: a variable per line, named up to the first equals sign.\<close>

definition read_line :: "string \<Rightarrow> string \<times> string" where
  "read_line l = (case partition_at (CHR ''='') l of (k, _, v) \<Rightarrow> (k, v))"

definition read_environment :: "string \<Rightarrow> (string \<times> string) list" where
  "read_environment t = map read_line (butlast (split_on (CHR 0x0A) t))"

lemma split_plain: "c \<notin> set s \<Longrightarrow> split_on c s = [s]"
  by (induction s) auto

lemma split_line: "c \<notin> set s \<Longrightarrow> split_on c (s @ c # t) = s # split_on c t"
  by (induction s) auto

lemma split_lines_of: "\<forall>l \<in> set ls. c \<notin> set l \<Longrightarrow> ls \<noteq> [] \<Longrightarrow> split_on c (join [c] ls @ [c]) = ls @ [[]]"
proof (induction ls)
  case (Cons l ls)
  then show ?case by (cases ls) (simp_all add: split_line)
qed simp

definition environment_keys :: "string list" where
  "environment_keys = [
     ''MNEMA_DATABASE_URL'', ''MNEMA_ACTIVE_ROOT'', ''MNEMA_BACKUP_ROOT'', ''MNEMA_STAGING_ROOT'', ''MNEMA_SOURCE_ROOT'',
     ''MNEMA_HOST_ACTIVE_ROOT'', ''MNEMA_HOST_BACKUP_ROOT'', ''MNEMA_HOST_SOURCE_ROOT'', ''MNEMA_HOST_CONFIG_ROOT'',
     ''MNEMA_HOST_MINIO_ROOT'', ''MNEMA_HOST_SFTPGO_DATA_ROOT'', ''MNEMA_HOST_SFTPGO_HOME_ROOT'',
     ''MNEMA_HOST_ICLOUD_SESSION_ROOT'', ''MNEMA_SECRET_KEY_FILE'', ''MNEMA_COLD_ENCRYPTION_KEY_FILE'',
     ''MNEMA_KOPIA_PASSWORD_FILE'', ''MNEMA_KOPIA_REPOSITORY'', ''MNEMA_KOPIA_CONFIG_FILE'',
     ''MNEMA_USE_EXTERNAL_TEST_STORAGE'', ''MNEMA_COLD_STORAGE_TRANSPORT'', ''MNEMA_S3_PROVIDER'',
     ''MNEMA_RCLONE_CONFIG_FILE'', ''MNEMA_RCLONE_REMOTE_ROOT'', ''MNEMA_S3_ENDPOINT_URL'', ''MNEMA_S3_REGION'',
     ''MNEMA_S3_BUCKET'', ''MNEMA_S3_ACCESS_KEY_FILE'', ''MNEMA_S3_SECRET_KEY_FILE'', ''MNEMA_SFTPGO_ENDPOINT_URL'',
     ''MNEMA_SFTPGO_API_KEY_FILE'', ''MNEMA_SMART_HEALTH_FILE'', ''MNEMA_REQUIRE_SMART_HEALTH'',
     ''MNEMA_ONBOARDING_TOKEN_FILE'', ''MNEMA_GLOBAL_DELETION_ENABLED'', ''MNEMA_SAFETY_LOCK'',
     ''MNEMA_WORKER_CONCURRENCY'', ''MNEMA_LOCAL_BIND'', ''MNEMA_SFTP_BIND'', ''MNEMA_CLOUDFLARE_ACCESS_REQUIRED'',
     ''MNEMA_CLOUDFLARE_TEAM_DOMAIN'', ''MNEMA_CLOUDFLARE_AUDIENCE'', ''MNEMA_CLOUDFLARE_ADMIN_HOSTNAME'',
     ''MNEMA_FILE_PROVIDER_ENABLED'', ''MNEMA_FILE_PROVIDER_PUBLIC_URL'', ''MNEMA_FILE_PROVIDER_UPLOAD_ROOT'',
     ''MNEMA_FILE_PROVIDER_MAX_FILE_SIZE'', ''MNEMA_FILE_PROVIDER_MINIMUM_FREE_PERCENT'', ''MNEMA_TELEGRAM_ENABLED'',
     ''MNEMA_TELEGRAM_BOT_TOKEN_FILE'', ''MNEMA_TELEGRAM_ALLOWED_USER_IDS'', ''MNEMA_ICLOUD_ENABLED'',
     ''MNEMA_ICLOUD_APPLE_ID'', ''MNEMA_ICLOUD_LIBRARY'', ''MNEMA_ICLOUD_SESSION_DIRECTORY'', ''MNEMA_ICLOUD_IMPORT_ROOT'',
     ''MNEMA_ICLOUD_CAPACITY_RELIEF_ENABLED'', ''MNEMA_ICLOUD_CLEANUP_TRIGGER_PERCENT'',
     ''MNEMA_ICLOUD_CLEANUP_TARGET_PERCENT'', ''MNEMA_ICLOUD_CLEANUP_QUARANTINE_DAYS'', ''MNEMA_ICLOUD_CLEANUP_MAX_ASSETS'',
     ''MNEMA_ICLOUD_CLEANUP_MAX_QUOTA_PERCENT'', ''COMPOSE_PROFILES'']"

lemma keys_of_environment: "map fst (runtime_environment fl a) = environment_keys"
proof -
  have "map fst (updated_values kvs env) = map fst env" for kvs env by (simp add: updated_values_def case_prod_beta comp_def)
  then show ?thesis
    unfolding runtime_environment_def
    by (simp only: storage_environment_def service_environment_def environment_keys_def list.map append.simps prod.sel)
qed

lemma environment_keys_distinct: "distinct environment_keys"
  by (simp add: environment_keys_def)

lemma environment_keys_nonempty: "environment_keys \<noteq> []"
  unfolding environment_keys_def by (rule list.distinct)

lemma environment_keys_plain: "k \<in> set environment_keys \<Longrightarrow> CHR ''='' \<notin> set k \<and> CHR 0x0A \<notin> set k"
  by (simp only: environment_keys_def list.set insert_iff empty_iff) auto

lemma environment_of:
  assumes "(k, v) \<in> set (storage_environment a @ service_environment fl a)" "k \<notin> fst ` set minio_environment"
  shows "map_of (runtime_environment fl a) k = Some v"
proof -
  have "distinct (map fst (runtime_environment fl a))" using keys_of_environment environment_keys_distinct by metis
  moreover have "map_of minio_environment k = None" using assms(2) by (simp add: map_of_eq_None_iff)
  then have "(k, v) \<in> set (runtime_environment fl a)"
    using assms(1) by (force simp: runtime_environment_def updated_values_def)
  ultimately show ?thesis by (rule map_of_is_SomeI)
qed

lemma deletion_variables:
  "map_of (runtime_environment fl a) ''MNEMA_GLOBAL_DELETION_ENABLED'' = Some ''false''"
  "map_of (runtime_environment fl a) ''MNEMA_SAFETY_LOCK'' = Some ''true''"
  by (rule environment_of; simp add: service_environment_def minio_environment_def)+

text \<open>C39: the environment file says exactly what was configured. Either a value holds a line break or a zero byte and
  nothing is rendered, or reading the text back line by line gives every variable once, with its configured value and no
  variable besides; in particular no configured text can add or override a variable, and the deletion of sources
  arrives switched off and locked.\<close>

theorem environment_file_exact:
  "case render_environment fl a of
     Inl e \<Rightarrow> \<exists>k v. (k, v) \<in> set (runtime_environment fl a) \<and> unsupported v
   | Inr t \<Rightarrow> read_environment t = sort_key fst (runtime_environment fl a) \<and> distinct (map fst (read_environment t))
       \<and> map_of (read_environment t) = map_of (runtime_environment fl a)
       \<and> map_of (read_environment t) ''MNEMA_GLOBAL_DELETION_ENABLED'' = Some ''false''
       \<and> map_of (read_environment t) ''MNEMA_SAFETY_LOCK'' = Some ''true''"
proof -
  let ?env = "runtime_environment fl a" and ?sorted = "sort_key fst (runtime_environment fl a)"
  have keys: "set (map fst ?sorted) = set environment_keys" "distinct (map fst ?env)" "distinct (map fst ?sorted)"
  proof -
    show "set (map fst ?sorted) = set environment_keys" using keys_of_environment [of fl a] by (metis list.set_map set_sort)
    show d: "distinct (map fst ?env)" using environment_keys_distinct keys_of_environment [of fl a] by simp
    then show "distinct (map fst ?sorted)" by (simp add: distinct_map)
  qed
  have same: "map_of ?sorted = map_of ?env" using map_of_inject_set [OF keys(3,2)] by simp
  show ?thesis
  proof (cases "find (\<lambda>(k, v). unsupported v) ?sorted")
    case (Some kv)
    then obtain i where "i < length ?sorted" "kv = ?sorted ! i" "unsupported (snd kv)" by (auto simp: find_Some_iff)
    then have "kv \<in> set ?env" "unsupported (snd kv)" using nth_mem [of i ?sorted] by simp_all
    with Some show ?thesis by (cases kv) (auto simp: render_environment_def Let_def)
  next
    case None
    let ?ls = "map (\<lambda>(k, v). k @ ''='' @ v) ?sorted"
    have plain: "CHR ''='' \<notin> set k \<and> CHR 0x0A \<notin> set k \<and> CHR 0x0A \<notin> set v" if "(k, v) \<in> set ?sorted" for k v
    proof -
      have "k \<in> set environment_keys" using that keys(1) by force
      moreover have "\<not> unsupported v" using None that by (auto simp: find_None_iff)
      ultimately show ?thesis using environment_keys_plain by (auto simp: unsupported_def list_ex_iff)
    qed
    have "?sorted \<noteq> []"
    proof
      assume "?sorted = []"
      then have "set environment_keys = {}" unfolding keys(1) [symmetric] by simp
      then show False using environment_keys_nonempty by simp
    qed
    then have "split_on (CHR 0x0A) (join [CHR 0x0A] ?ls @ [CHR 0x0A]) = ?ls @ [[]]"
      by (intro split_lines_of) (use plain in auto)
    then have "read_environment (join [CHR 0x0A] ?ls @ [CHR 0x0A]) = map read_line ?ls" by (simp add: read_environment_def)
    also have "\<dots> = ?sorted"
      unfolding map_map by (rule map_idI) (use plain in \<open>auto simp: read_line_def partition_at_append split: prod.split\<close>)
    finally show ?thesis using None keys(3) same deletion_variables by (simp add: render_environment_def Let_def)
  qed
qed

section \<open>What the containers read\<close>

text \<open>
  The settings a container has after reading its environment, as \<open>pydantic-settings\<close> documents it: each variable gives
  the field of its name, and a field without a variable keeps its default. \<open>fr\<close> reads a number and \<open>ids\<close> a list of
  integers from its text.
\<close>

definition variable :: "(string \<Rightarrow> string option) \<Rightarrow> string \<Rightarrow> string" where
  "variable env k = (case env (''MNEMA_'' @ k) of None \<Rightarrow> [] | Some v \<Rightarrow> v)"

definition int_variable :: "(string \<Rightarrow> string option) \<Rightarrow> string \<Rightarrow> int" where
  "int_variable env k = (case py_int (variable env k) of Inl e \<Rightarrow> 0 | Inr n \<Rightarrow> n)"

definition flag :: "(string \<Rightarrow> string option) \<Rightarrow> string \<Rightarrow> bool" where
  "flag env k \<longleftrightarrow> variable env k = ''true''"

definition read_settings :: "(string \<Rightarrow> rat) \<Rightarrow> (string \<Rightarrow> int list) \<Rightarrow> (string \<Rightarrow> string option) \<Rightarrow> app_settings" where
  "read_settings fr ids env = default_settings\<lparr>
     st_database_url := variable env ''DATABASE_URL'', st_active_root := variable env ''ACTIVE_ROOT'',
     st_backup_root := variable env ''BACKUP_ROOT'', st_staging_root := variable env ''STAGING_ROOT'',
     st_source_root := variable env ''SOURCE_ROOT'', st_secret_key_file := variable env ''SECRET_KEY_FILE'',
     st_cold_encryption_key_file := variable env ''COLD_ENCRYPTION_KEY_FILE'',
     st_kopia_password_file := variable env ''KOPIA_PASSWORD_FILE'', st_kopia_repository := variable env ''KOPIA_REPOSITORY'',
     st_kopia_config_file := variable env ''KOPIA_CONFIG_FILE'', st_use_external_test_storage := flag env ''USE_EXTERNAL_TEST_STORAGE'',
     st_s3_endpoint_url := variable env ''S3_ENDPOINT_URL'', st_s3_provider := variable env ''S3_PROVIDER'',
     st_s3_region := variable env ''S3_REGION'', st_s3_bucket := variable env ''S3_BUCKET'',
     st_s3_access_key_file := variable env ''S3_ACCESS_KEY_FILE'', st_s3_secret_key_file := variable env ''S3_SECRET_KEY_FILE'',
     st_cold_storage_transport := variable env ''COLD_STORAGE_TRANSPORT'', st_rclone_config_file := variable env ''RCLONE_CONFIG_FILE'',
     st_rclone_remote_root := variable env ''RCLONE_REMOTE_ROOT'', st_sftpgo_endpoint_url := variable env ''SFTPGO_ENDPOINT_URL'',
     st_sftpgo_api_key_file := variable env ''SFTPGO_API_KEY_FILE'', st_smart_health_file := variable env ''SMART_HEALTH_FILE'',
     st_require_smart_health := flag env ''REQUIRE_SMART_HEALTH'', st_onboarding_token_file := variable env ''ONBOARDING_TOKEN_FILE'',
     st_global_deletion_enabled := flag env ''GLOBAL_DELETION_ENABLED'', st_safety_lock := flag env ''SAFETY_LOCK'',
     st_worker_concurrency := int_variable env ''WORKER_CONCURRENCY'',
     st_cloudflare_access_required := flag env ''CLOUDFLARE_ACCESS_REQUIRED'',
     st_cloudflare_team_domain := variable env ''CLOUDFLARE_TEAM_DOMAIN'', st_cloudflare_audience := variable env ''CLOUDFLARE_AUDIENCE'',
     st_cloudflare_admin_hostname := variable env ''CLOUDFLARE_ADMIN_HOSTNAME'', st_file_provider_enabled := flag env ''FILE_PROVIDER_ENABLED'',
     st_file_provider_public_url := variable env ''FILE_PROVIDER_PUBLIC_URL'', st_file_provider_upload_root := variable env ''FILE_PROVIDER_UPLOAD_ROOT'',
     st_file_provider_max_file_size := int_variable env ''FILE_PROVIDER_MAX_FILE_SIZE'',
     st_file_provider_minimum_free_percent := fr (variable env ''FILE_PROVIDER_MINIMUM_FREE_PERCENT''),
     st_telegram_enabled := flag env ''TELEGRAM_ENABLED'', st_telegram_bot_token_file := variable env ''TELEGRAM_BOT_TOKEN_FILE'',
     st_telegram_allowed_user_ids := ids (variable env ''TELEGRAM_ALLOWED_USER_IDS''), st_icloud_enabled := flag env ''ICLOUD_ENABLED'',
     st_icloud_apple_id := variable env ''ICLOUD_APPLE_ID'', st_icloud_library := variable env ''ICLOUD_LIBRARY'',
     st_icloud_session_directory := variable env ''ICLOUD_SESSION_DIRECTORY'', st_icloud_import_root := variable env ''ICLOUD_IMPORT_ROOT'',
     st_icloud_capacity_relief_enabled := flag env ''ICLOUD_CAPACITY_RELIEF_ENABLED'',
     st_icloud_cleanup_trigger_percent := fr (variable env ''ICLOUD_CLEANUP_TRIGGER_PERCENT''),
     st_icloud_cleanup_target_percent := fr (variable env ''ICLOUD_CLEANUP_TARGET_PERCENT''),
     st_icloud_cleanup_quarantine_days := int_variable env ''ICLOUD_CLEANUP_QUARANTINE_DAYS'',
     st_icloud_cleanup_max_assets := int_variable env ''ICLOUD_CLEANUP_MAX_ASSETS'',
     st_icloud_cleanup_max_quota_percent := fr (variable env ''ICLOUD_CLEANUP_MAX_QUOTA_PERCENT'')\<rparr>"

subsection \<open>An origin without its slash\<close>

lemma partition_at_snoc: "c \<noteq> d \<Longrightarrow> partition_at c (s @ [d])
    = (case partition_at c s of (a, found, b) \<Rightarrow> if found then (a, True, b @ [d]) else (a @ [d], False, b))"
  by (induction s) (auto split: prod.splits if_splits)

lemma url_clean_slash: "url_clean (v @ ''/'') = (if \<forall>c \<in> set v. of_char c \<le> (32 :: nat) then ''/'' else url_clean v @ ''/'')"
  by (auto simp: url_clean_def dropWhile_append)

lemma split_scheme_slash:
  assumes "split_scheme (c @ ''/'') = (scheme, rest)" "scheme \<noteq> []"
  obtains b where "rest = b @ ''/''" "split_scheme c = (scheme, b)"
proof -
  obtain a found b where p: "partition_at (CHR '':'') c = (a, found, b)" using prod_cases3 by blast
  show ?thesis
  proof (cases found)
    case True
    with p assms show ?thesis by (intro that [of b]) (auto simp: split_scheme_def partition_at_snoc split: if_splits)
  next
    case False
    with p assms show ?thesis by (auto simp: split_scheme_def partition_at_snoc split: if_splits)
  qed
qed

text \<open>What follows the scheme of an accepted origin is two slashes and a network location, which has no slash.\<close>

lemma origin_tail:
  assumes r: "r = b @ ''/''" and net: "startswith r ''//''" "takeWhile in_netloc (drop 2 r) \<noteq> []"
    and p1: "partition_at (CHR ''#'') (dropWhile in_netloc (drop 2 r)) = (front, ff, [])"
    and p2: "partition_at (CHR ''?'') front = (path, fq, [])" and path: "path \<in> {[], ''/''}"
  shows "startswith b ''//'' \<and> takeWhile in_netloc (drop 2 b) = takeWhile in_netloc (drop 2 r) \<and> dropWhile in_netloc (drop 2 b) = []"
proof -
  have "length b \<ge> 2"
  proof (rule ccontr)
    assume "\<not> 2 \<le> length b"
    then have "length r \<le> 2" using r by simp
    with net(2) show False by simp
  qed
  then have b: "take 2 r = take 2 b" "drop 2 r = drop 2 b @ ''/''" using r by simp_all
  have "take 2 r = ''//''" using net(1) by (simp add: startswith_def numeral_2_eq_2)
  with b(1) have "take 2 b = ''//''" by metis
  then have start: "startswith b ''//''" by (simp add: startswith_def numeral_2_eq_2)
  have slash: "\<not> in_netloc (CHR ''/'')" by (simp add: in_netloc_def)
  have tw: "takeWhile in_netloc (drop 2 b @ ''/'') = takeWhile in_netloc (drop 2 b)"
    using slash by (simp add: takeWhile_append takeWhile_eq_all_conv [THEN iffD2])
  have dw: "dropWhile in_netloc (drop 2 b @ ''/'') = dropWhile in_netloc (drop 2 b) @ ''/''"
    using slash by (auto simp: dropWhile_append)
  have "dropWhile in_netloc (drop 2 b) @ ''/'' = path @ (if fq then ''?'' else []) @ (if ff then ''#'' else [])"
    using partition_at_eq [OF p1] partition_at_eq [OF p2] b(2) dw by simp
  then have "dropWhile in_netloc (drop 2 b) @ ''/'' \<in> {path, path @ ''?'', path @ ''#'', path @ ''?#''}" by (auto split: if_splits)
  then have "dropWhile in_netloc (drop 2 b) = []" using path by auto
  with start tw b(2) show ?thesis by simp
qed

lemma origin_without_slash:
  assumes "https_origin br ok (v @ ''/'') = Inr True" shows "https_origin br ok v = Inr True"
proof -
  from assms obtain u where u: "urlsplit br (v @ ''/'') = Inr u" and sc: "us_scheme u = ''https''" and host: "url_hostname u \<noteq> None"
    and rest: "us_path u \<in> {[], ''/''}" "us_query u = []" "us_fragment u = []"
    by (auto simp: https_origin_def split: sum.splits if_splits option.splits)
  obtain scheme r where sp: "split_scheme (url_clean (v @ ''/'')) = (scheme, r)" by fastforce
  let ?slashes = "startswith r ''//''"
  let ?netloc = "if ?slashes then takeWhile in_netloc (drop 2 r) else []"
  let ?tail = "if ?slashes then dropWhile in_netloc (drop 2 r) else r"
  obtain front ff fragment where p1: "partition_at (CHR ''#'') ?tail = (front, ff, fragment)" using prod_cases3 by blast
  obtain path fq qry where p2: "partition_at (CHR ''?'') front = (path, fq, qry)" using prod_cases3 by blast
  have ueq: "u = \<lparr>us_scheme = scheme, us_netloc = ?netloc, us_path = path, us_query = qry, us_fragment = fragment\<rparr>"
    and brackets: "\<not> ((CHR ''['' \<in> set ?netloc) \<noteq> (CHR '']'' \<in> set ?netloc) \<or> CHR ''['' \<in> set ?netloc \<and> \<not> br ?netloc)"
    using u sp p1 p2 by (auto simp: urlsplit_def split: if_splits)
  have "host_port [] = ([], [])" by (simp add: host_port_def host_info_def)
  with host have "us_netloc u \<noteq> []" by (auto simp: url_hostname_def)
  with ueq have ne: "?netloc \<noteq> []" by simp
  then have sl: "?slashes" by (auto split: if_splits)
  have scheme: "scheme = ''https''" using ueq sc by simp
  have "\<not> (\<forall>c \<in> set v. of_char c \<le> (32 :: nat))"
  proof
    assume "\<forall>c \<in> set v. of_char c \<le> (32 :: nat)"
    then have "url_clean (v @ ''/'') = ''/''" by (simp add: url_clean_slash)
    with sp scheme show False by (simp add: split_scheme_def)
  qed
  then have clean: "url_clean (v @ ''/'') = url_clean v @ ''/''" by (simp only: url_clean_slash if_False)
  have "scheme \<noteq> []" using scheme by simp
  from split_scheme_slash [OF sp [unfolded clean] this] obtain b where b: "r = b @ ''/''" "split_scheme (url_clean v) = (scheme, b)" .
  have end_: "startswith b ''//''" "takeWhile in_netloc (drop 2 b) = ?netloc" "dropWhile in_netloc (drop 2 b) = []"
    using origin_tail [OF b(1), of front ff path fq] sl ne p1 p2 rest ueq by auto
  have net: "takeWhile in_netloc (drop 2 b) = us_netloc u" using end_(2) ueq by simp
  have ok_net: "\<not> ((CHR ''['' \<in> set (us_netloc u)) \<noteq> (CHR '']'' \<in> set (us_netloc u)) \<or> CHR ''['' \<in> set (us_netloc u) \<and> \<not> br (us_netloc u))"
  proof -
    have eq: "us_netloc u = ?netloc" using ueq by simp
    show ?thesis unfolding eq by (rule brackets)
  qed
  have "u\<lparr>us_path := []\<rparr> = \<lparr>us_scheme = scheme, us_netloc = us_netloc u, us_path = [], us_query = [], us_fragment = []\<rparr>"
    using scheme sc rest(2,3) by (intro split_url.equality) simp_all
  moreover have "urlsplit br v = Inr \<lparr>us_scheme = scheme, us_netloc = us_netloc u, us_path = [], us_query = [], us_fragment = []\<rparr>"
    unfolding urlsplit_def b(2) prod.case end_(3) net
    by (simp only: end_(1) if_True prod.case partition_at.simps if_not_P [OF ok_net])
  ultimately have "urlsplit br v = Inr (u\<lparr>us_path := []\<rparr>)" by simp
  moreover have "url_hostname (u\<lparr>us_path := []\<rparr>) = url_hostname u" "url_port (u\<lparr>us_path := []\<rparr>) = url_port u"
    "has_credentials (u\<lparr>us_path := []\<rparr>) = has_credentials u"
    by (simp_all add: url_hostname_def url_port_def has_credentials_def)
  ultimately show ?thesis
    using assms u by (auto simp: https_origin_def split: sum.splits option.splits if_splits)
qed

lemma origin_rstrip: "https_origin br ok url = Inr True \<Longrightarrow> https_origin br ok (rstrip_char (CHR ''/'') url) = Inr True"
proof (induction url rule: rev_induct)
  case (snoc c v)
  then show ?case using origin_without_slash [of br ok v] by (cases "c = CHR ''/''") (simp_all add: rstrip_char_def)
qed (simp add: rstrip_char_def)

subsection \<open>Accepted configurations\<close>

lemma check_Inr: "check b m = Inr u \<longleftrightarrow> b"
  by (simp add: check_def)

lemma set_firsts: "set (firsts xs) = set xs" "firsts xs = [] \<longleftrightarrow> xs = []"
  by (simp_all add: firsts_def)

lemma accepted_facts:
  assumes "validate_appliance br a0 = Inr a"
  shows "cd_transport (ap_cold a) \<in> {''rclone'', ''s3''}" "cd_provider (ap_cold a) \<in> {''generic'', ''scaleway''}"
    "transport_is_complete br (ap_cold a) = Inr ()" "0 < fv_max_file_size (ap_file_provider a)"
    "1 \<le> fv_minimum_free_percent (ap_file_provider a) \<and> fv_minimum_free_percent (ap_file_provider a) \<le> 50"
    "file_provider_complete br (ap_file_provider a) = Inr ()" "\<forall>i \<in> set (tl_allowed_user_ids (ap_telegram a)). 0 < i"
    "tl_enabled (ap_telegram a) \<Longrightarrow> tl_allowed_user_ids (ap_telegram a) \<noteq> []"
    "0 < ip_cleanup_trigger_percent (ap_icloud a) \<and> ip_cleanup_trigger_percent (ap_icloud a) \<le> 100"
    "0 \<le> ip_cleanup_target_percent (ap_icloud a) \<and> ip_cleanup_target_percent (ap_icloud a) < 100"
    "1 \<le> ip_cleanup_quarantine_days (ap_icloud a) \<and> ip_cleanup_quarantine_days (ap_icloud a) \<le> 3650"
    "1 \<le> ip_cleanup_max_assets (ap_icloud a) \<and> ip_cleanup_max_assets (ap_icloud a) \<le> 1000"
    "0 < ip_cleanup_max_quota_percent (ap_icloud a) \<and> ip_cleanup_max_quota_percent (ap_icloud a) \<le> 10"
    "ip_enabled (ap_icloud a) \<Longrightarrow> ip_apple_id (ap_icloud a) \<noteq> []"
    "ip_cleanup_target_percent (ap_icloud a) < ip_cleanup_trigger_percent (ap_icloud a)"
    "1 \<le> se_worker_concurrency (ap_service a) \<and> se_worker_concurrency (ap_service a) \<le> 2"
proof -
  have a: "a = normal_appliance a0" and checks: "\<forall>c \<in> set (appliance_checks br a0). \<exists>v. c = Inr v"
    using assms run_checks_Inr [of "appliance_checks br a0"] by (auto simp: validate_appliance_def split: sum.splits)
  have sub: "\<forall>c \<in> set (cold_checks br (ap_cold a0)). \<exists>v. c = Inr v" "\<forall>c \<in> set (telegram_checks (ap_telegram a0)). \<exists>v. c = Inr v"
    "\<forall>c \<in> set (icloud_checks (ap_icloud a0)). \<exists>v. c = Inr v" "\<exists>v. file_provider_complete br (ap_file_provider a0) = Inr v"
    "0 < fv_max_file_size (ap_file_provider a0)"
    "1 \<le> fv_minimum_free_percent (ap_file_provider a0) \<and> fv_minimum_free_percent (ap_file_provider a0) \<le> 50"
    "1 \<le> se_worker_concurrency (ap_service a0) \<and> se_worker_concurrency (ap_service a0) \<le> 2"
    using checks by (simp_all add: appliance_checks_def ball_Un bounded_Inr)
  have ic: "\<exists>v. icloud_config_complete (ap_icloud a0) = Inr v" using sub(3) by (simp add: icloud_checks_def)
  from sub(1,4,5,6,7) show "cd_transport (ap_cold a) \<in> {''rclone'', ''s3''}" "cd_provider (ap_cold a) \<in> {''generic'', ''scaleway''}"
    "transport_is_complete br (ap_cold a) = Inr ()" "0 < fv_max_file_size (ap_file_provider a)"
    "1 \<le> fv_minimum_free_percent (ap_file_provider a) \<and> fv_minimum_free_percent (ap_file_provider a) \<le> 50"
    "file_provider_complete br (ap_file_provider a) = Inr ()"
    "1 \<le> se_worker_concurrency (ap_service a) \<and> se_worker_concurrency (ap_service a) \<le> 2"
    unfolding a by (simp_all add: normal_appliance_def cold_checks_def bounded_Inr)
  from sub(2) show "\<forall>i \<in> set (tl_allowed_user_ids (ap_telegram a)). 0 < i"
    "tl_enabled (ap_telegram a) \<Longrightarrow> tl_allowed_user_ids (ap_telegram a) \<noteq> []"
    unfolding a by (auto simp: normal_appliance_def telegram_checks_def check_Inr set_firsts list_all_iff)
  from sub(3) show
    "0 < ip_cleanup_trigger_percent (ap_icloud a) \<and> ip_cleanup_trigger_percent (ap_icloud a) \<le> 100"
    "0 \<le> ip_cleanup_target_percent (ap_icloud a) \<and> ip_cleanup_target_percent (ap_icloud a) < 100"
    "1 \<le> ip_cleanup_quarantine_days (ap_icloud a) \<and> ip_cleanup_quarantine_days (ap_icloud a) \<le> 3650"
    "1 \<le> ip_cleanup_max_assets (ap_icloud a) \<and> ip_cleanup_max_assets (ap_icloud a) \<le> 1000"
    "0 < ip_cleanup_max_quota_percent (ap_icloud a) \<and> ip_cleanup_max_quota_percent (ap_icloud a) \<le> 10"
    unfolding a by (simp_all add: normal_appliance_def icloud_checks_def bounded_Inr)
  from ic have "(\<not> ip_enabled (ap_icloud a0) \<or> strip (ip_apple_id (ap_icloud a0)) \<noteq> [])
      \<and> ip_cleanup_target_percent (ap_icloud a0) < ip_cleanup_trigger_percent (ap_icloud a0)"
    unfolding icloud_config_complete_def run_checks_Inr by (simp add: check_Inr)
  then show "ip_enabled (ap_icloud a) \<Longrightarrow> ip_apple_id (ap_icloud a) \<noteq> []"
    "ip_cleanup_target_percent (ap_icloud a) < ip_cleanup_trigger_percent (ap_icloud a)"
    unfolding a by (auto simp: normal_appliance_def)
qed

lemma variable_of:
  assumes "(''MNEMA_'' @ k, v) \<in> set (storage_environment a @ service_environment fl a)" "''MNEMA_'' @ k \<notin> fst ` set minio_environment"
  shows "variable (map_of (runtime_environment fl a)) k = v"
  using environment_of [OF assms] by (simp add: variable_def)

lemma variable_minio:
  assumes "cd_integration_minio (ap_cold a)" "(''MNEMA_'' @ k, v) \<in> set minio_environment" "''MNEMA_'' @ k \<in> set environment_keys"
  shows "variable (map_of (runtime_environment fl a)) k = v"
proof -
  have "distinct (map fst minio_environment)" by (simp add: minio_environment_def)
  then have m: "map_of minio_environment (''MNEMA_'' @ k) = Some v" using assms(2) by simp
  have "''MNEMA_'' @ k \<in> fst ` set (runtime_environment fl a)" using assms(3) keys_of_environment by (metis list.set_map)
  then obtain w where "(''MNEMA_'' @ k, w) \<in> set (runtime_environment fl a)" by force
  moreover from this m assms(1) have "w = v" by (auto simp: runtime_environment_def updated_values_def)
  moreover have "distinct (map fst (runtime_environment fl a))" using keys_of_environment environment_keys_distinct by metis
  ultimately show ?thesis by (simp add: variable_def)
qed

lemma variable_plain:
  assumes "\<not> cd_integration_minio (ap_cold a)" "(''MNEMA_'' @ k, v) \<in> set (storage_environment a)"
  shows "variable (map_of (runtime_environment fl a)) k = v"
proof -
  have "(''MNEMA_'' @ k, v) \<in> set (runtime_environment fl a)" using assms by (force simp: runtime_environment_def updated_values_def)
  moreover have "distinct (map fst (runtime_environment fl a))" using keys_of_environment environment_keys_distinct by metis
  ultimately show ?thesis by (simp add: variable_def)
qed

lemma variable_cold:
  assumes "(''MNEMA_'' @ k, w) \<in> set minio_environment" "(''MNEMA_'' @ k, v) \<in> set (storage_environment a)" "''MNEMA_'' @ k \<in> set environment_keys"
  shows "variable (map_of (runtime_environment fl a)) k = (if cd_integration_minio (ap_cold a) then w else v)"
  using variable_minio [OF _ assms(1,3)] variable_plain [OF _ assms(2)] by simp

text \<open>The values the checks of the application look at.\<close>

lemma variables:
  fixes a :: appliance_config and fl :: "rat \<Rightarrow> string"
  defines "env \<equiv> map_of (runtime_environment fl a)"
  shows "variable env ''ACTIVE_ROOT'' = ''/data/active''" "variable env ''BACKUP_ROOT'' = ''/data/backup''"
    "variable env ''STAGING_ROOT'' = ''/data/active/.mnema-staging''" "variable env ''SOURCE_ROOT'' = ''/data/test-source''"
    "variable env ''KOPIA_REPOSITORY'' = ''/data/backup/kopia-repository''"
    "variable env ''KOPIA_CONFIG_FILE'' = ''/var/lib/mnema/kopia/repository.config''"
    "variable env ''RCLONE_CONFIG_FILE'' = ''/run/secrets/rclone.conf''"
    "variable env ''ICLOUD_SESSION_DIRECTORY'' = ''/var/lib/mnema/icloud-session''"
    "variable env ''ICLOUD_IMPORT_ROOT'' = ''/data/active/iCloud Photos''"
    "variable env ''FILE_PROVIDER_UPLOAD_ROOT'' = ''/data/active/.mnema-file-provider''"
    "variable env ''TELEGRAM_BOT_TOKEN_FILE'' = ''/run/secrets/telegram_bot_token''" "variable env ''ICLOUD_LIBRARY'' = ''PrimarySync''"
    "variable env ''GLOBAL_DELETION_ENABLED'' = ''false''" "variable env ''SAFETY_LOCK'' = ''true''"
    "variable env ''CLOUDFLARE_ACCESS_REQUIRED'' = ''false''"
  unfolding env_def
  by (rule variable_of; simp add: storage_environment_def service_environment_def minio_environment_def)+

lemma configured_variables:
  fixes a :: appliance_config and fl :: "rat \<Rightarrow> string"
  defines "env \<equiv> map_of (runtime_environment fl a)"
  shows "variable env ''WORKER_CONCURRENCY'' = py_str_int (se_worker_concurrency (ap_service a))"
    "variable env ''FILE_PROVIDER_ENABLED'' = bool_text (fv_enabled (ap_file_provider a))"
    "variable env ''FILE_PROVIDER_PUBLIC_URL'' = rstrip_char (CHR ''/'') (fv_public_url (ap_file_provider a))"
    "variable env ''FILE_PROVIDER_MAX_FILE_SIZE'' = py_str_int (fv_max_file_size (ap_file_provider a))"
    "variable env ''FILE_PROVIDER_MINIMUM_FREE_PERCENT'' = fl (fv_minimum_free_percent (ap_file_provider a))"
    "variable env ''TELEGRAM_ENABLED'' = bool_text (tl_enabled (ap_telegram a))"
    "variable env ''TELEGRAM_ALLOWED_USER_IDS'' = id_list_text (tl_allowed_user_ids (ap_telegram a))"
    "variable env ''ICLOUD_ENABLED'' = bool_text (ip_enabled (ap_icloud a))"
    "variable env ''ICLOUD_APPLE_ID'' = ip_apple_id (ap_icloud a)"
    "variable env ''ICLOUD_CLEANUP_TRIGGER_PERCENT'' = fl (ip_cleanup_trigger_percent (ap_icloud a))"
    "variable env ''ICLOUD_CLEANUP_TARGET_PERCENT'' = fl (ip_cleanup_target_percent (ap_icloud a))"
    "variable env ''ICLOUD_CLEANUP_QUARANTINE_DAYS'' = py_str_int (ip_cleanup_quarantine_days (ap_icloud a))"
    "variable env ''ICLOUD_CLEANUP_MAX_ASSETS'' = py_str_int (ip_cleanup_max_assets (ap_icloud a))"
    "variable env ''ICLOUD_CLEANUP_MAX_QUOTA_PERCENT'' = fl (ip_cleanup_max_quota_percent (ap_icloud a))"
  unfolding env_def
  by (rule variable_of; simp add: service_environment_def minio_environment_def)+

lemma cold_variables:
  fixes a :: appliance_config and fl :: "rat \<Rightarrow> string"
  defines "env \<equiv> map_of (runtime_environment fl a)" and "m \<equiv> cd_integration_minio (ap_cold a)"
  shows "variable env ''COLD_STORAGE_TRANSPORT'' = (if m then ''s3'' else cd_transport (ap_cold a))"
    "variable env ''S3_PROVIDER'' = (if m then ''generic'' else cd_provider (ap_cold a))"
    "variable env ''S3_ENDPOINT_URL'' = (if m then ''http://minio:9000'' else cd_s3_endpoint_url (ap_cold a))"
    "variable env ''S3_REGION'' = (if m then ''us-east-1'' else cd_s3_region (ap_cold a))"
  unfolding env_def m_def
  by (rule variable_cold; simp add: minio_environment_def storage_environment_def environment_keys_def)+

lemma flag_text: "bool_text b = ''true'' \<longleftrightarrow> b"
  by (simp add: bool_text_def)

lemma int_read: "0 \<le> n \<Longrightarrow> (case py_int (py_str_int n) of Inl e \<Rightarrow> 0 | Inr m \<Rightarrow> m) = n"
  by (simp add: py_str_int_def)

lemma cold_accepted:
  assumes "transport_is_complete br c = Inr ()" "cd_transport c \<in> {''rclone'', ''s3''}" "\<not> cd_integration_minio c" "cd_provider c = ''scaleway''"
  shows "cd_transport c = ''s3'' \<and> cd_s3_region c \<in> {''fr-par'', ''nl-ams''} \<and> cd_s3_endpoint_url c = ''https://s3.'' @ cd_s3_region c @ ''.scw.cloud''"
proof (cases "cd_transport c = ''rclone''")
  case True
  with assms show ?thesis by (simp add: transport_is_complete_def check_def)
next
  case False
  with assms(1,3) obtain good where "run_checks [
        check good ''direct S3 requires an HTTPS endpoint without credentials'',
        check (bucket_ok (cd_s3_bucket c)) ''direct S3 bucket name is invalid'',
        check (cd_provider c \<noteq> ''scaleway'' \<or> cd_s3_region c \<in> {''fr-par'', ''nl-ams''}) ''Scaleway Glacier region must be fr-par or nl-ams'',
        check (cd_provider c \<noteq> ''scaleway'' \<or> cd_s3_endpoint_url c = ''https://s3.'' @ cd_s3_region c @ ''.scw.cloud'')
          (''Scaleway endpoint must be https://s3.'' @ cd_s3_region c @ ''.scw.cloud'')] = Inr ()"
    unfolding transport_is_complete_def by (auto simp del: run_checks.simps split: sum.splits)
  then have "cd_s3_region c \<in> {''fr-par'', ''nl-ams''} \<and> cd_s3_endpoint_url c = ''https://s3.'' @ cd_s3_region c @ ''.scw.cloud''"
    using assms(4) unfolding run_checks_Inr by (simp add: check_Inr)
  with False assms(2) show ?thesis by auto
qed

text \<open>C40: the containers start with every accepted configuration. The settings they read from the environment of a
  configuration the administration accepted, where numbers and lists are read as they were written, pass every check of
  the application, and the deletion of sources is switched off and locked in them.\<close>

theorem accepted_configuration_starts:
  assumes accepted: "validate_appliance br a0 = Inr a"
    and numbers: "\<forall>x \<in> {fv_minimum_free_percent (ap_file_provider a), ip_cleanup_trigger_percent (ap_icloud a),
      ip_cleanup_target_percent (ap_icloud a), ip_cleanup_max_quota_percent (ap_icloud a)}. fr (fl x) = x"
    and lists: "ids (id_list_text (tl_allowed_user_ids (ap_telegram a))) = tl_allowed_user_ids (ap_telegram a)"
  shows "\<exists>s. s = read_settings fr ids (map_of (runtime_environment fl a)) \<and> validate_settings br s = Inr s
    \<and> \<not> st_global_deletion_enabled s \<and> st_safety_lock s"
proof -
  let ?env = "map_of (runtime_environment fl a)"
  let ?s = "read_settings fr ids ?env"
  note facts = accepted_facts [OF accepted]
  note vars = variables [of fl a] configured_variables [of fl a] cold_variables [of fl a]
  note read = read_settings_def flag_def int_variable_def vars flag_text int_read
  have fields: "st_active_root ?s = ''/data/active''" "st_global_deletion_enabled ?s = False" "st_safety_lock ?s = True"
    by (simp_all add: read)
  have bounds: "\<forall>c \<in> set (field_bounds ?s). \<exists>v. c = Inr v"
    using facts(1,2,4,5,9-13,16) numbers by (auto simp: field_bounds_def bounded_Inr read default_settings_def)
  have paths: "\<forall>c \<in> set (absolute_paths ?s). \<exists>v. c = Inr v"
    by (simp add: absolute_paths_def absolute_path_def read is_absolute_def startswith_def)
  have scratch: "absolute_scratch_root ?s = Inr ()" by (simp add: absolute_scratch_root_def read default_settings_def)
  have cloudflare: "cloudflare_access_is_complete br ?s = Inr ()" by (simp add: cloudflare_access_is_complete_def read)
  have beneath: "lexically_beneath ''/data/active/.mnema-file-provider'' ''/data/active''" "lexically_beneath ''/data/active/iCloud Photos'' ''/data/active''"
    by code_simp+
  have provider: "file_provider_configuration_is_safe br ?s = Inr ()"
  proof (cases "fv_enabled (ap_file_provider a)")
    case True
    with facts(6) have "https_origin br (\<lambda>_. True) (fv_public_url (ap_file_provider a)) = Inr True"
      by (auto simp: file_provider_complete_def check_def split: sum.splits if_splits)
    from origin_rstrip [OF this] show ?thesis by (simp add: file_provider_configuration_is_safe_def read beneath)
  qed (simp add: file_provider_configuration_is_safe_def read)
  have icloud: "icloud_configuration_is_complete ?s = Inr ()"
    using facts(14,15) numbers by (auto simp: icloud_configuration_is_complete_def read beneath)
  have scaleway: "scaleway_glacier_configuration_is_safe ?s = Inr ()"
    using cold_accepted [OF facts(3,1)] by (auto simp: scaleway_glacier_configuration_is_safe_def scaleway_endpoint_def read)
  have telegram: "telegram_configuration_is_safe ?s = Inr ()"
    using facts(7,8) lists by (auto simp: telegram_configuration_is_safe_def read list_ex_iff)
  have "run_checks (field_bounds ?s @ [absolute_scratch_root ?s] @ absolute_paths ?s @
       [cloudflare_access_is_complete br ?s, file_provider_configuration_is_safe br ?s, icloud_configuration_is_complete ?s,
        scaleway_glacier_configuration_is_safe ?s, telegram_configuration_is_safe ?s]) = Inr ()"
    unfolding run_checks_Inr using bounds paths scratch cloudflare provider icloud scaleway telegram by (simp add: ball_Un)
  then have "validate_settings br ?s = Inr ?s" by (simp add: validate_settings_def)
  with fields show ?thesis by blast
qed

text \<open>The default configuration, with Telegram and the numbers of the defaults written out.\<close>

definition example_appliance :: appliance_config where
  "example_appliance = default_appliance\<lparr>ap_telegram := \<lparr>tl_enabled = True, tl_bot_token_file = ''/t'', tl_allowed_user_ids = [7]\<rparr>\<rparr>"

definition number_text :: "rat \<Rightarrow> string" where
  "number_text x = (if x = 10 then ''10.0'' else if x = 80 then ''80.0'' else ''90.0'')"

definition read_number :: "string \<Rightarrow> rat" where
  "read_number t = (if t = ''10.0'' then 10 else if t = ''80.0'' then 80 else 90)"

theorem accepted_configuration_starts_witness:
  "\<exists>s. s = read_settings read_number (\<lambda>t. [7]) (map_of (runtime_environment number_text example_appliance))
     \<and> validate_settings (\<lambda>h. False) s = Inr s \<and> \<not> st_global_deletion_enabled s \<and> st_safety_lock s"
proof -
  have "run_checks (appliance_checks (\<lambda>h. False) example_appliance) = Inr ()" by code_simp
  moreover have "normal_appliance example_appliance = example_appliance"
    by (simp add: normal_appliance_def example_appliance_def default_appliance_def firsts_def strip_def lstrip_def)
  ultimately have v: "validate_appliance (\<lambda>h. False) example_appliance = Inr example_appliance" by (simp add: validate_appliance_def)
  have n: "\<forall>x \<in> {fv_minimum_free_percent (ap_file_provider example_appliance), ip_cleanup_trigger_percent (ap_icloud example_appliance),
      ip_cleanup_target_percent (ap_icloud example_appliance), ip_cleanup_max_quota_percent (ap_icloud example_appliance)}.
      read_number (number_text x) = x"
    by (simp add: example_appliance_def default_appliance_def number_text_def read_number_def)
  have l: "(\<lambda>t. [7]) (id_list_text (tl_allowed_user_ids (ap_telegram example_appliance))) = tl_allowed_user_ids (ap_telegram example_appliance)"
    by (simp add: example_appliance_def)
  from accepted_configuration_starts [OF v n l] show ?thesis .
qed

section \<open>Atomic writes\<close>

lemma temporary_facts:
  assumes "tag \<noteq> []" shows "butlast (temporary_of p tag) = butlast p" "temporary_of p tag \<noteq> []" "last (temporary_of p tag) \<noteq> ''..''"
    "p \<noteq> [] \<Longrightarrow> temporary_of p tag \<noteq> p"
proof -
  show "butlast (temporary_of p tag) = butlast p" "temporary_of p tag \<noteq> []" by (simp_all add: temporary_of_def)
  show "last (temporary_of p tag) \<noteq> ''..''" using assms by (cases "last p") (auto simp: temporary_of_def)
  show "temporary_of p tag \<noteq> p" if "p \<noteq> []"
  proof
    assume eq: "temporary_of p tag = p"
    have "last (temporary_of p tag) = ''.'' @ last p @ ''.'' @ tag" by (simp add: temporary_of_def)
    then have "length (last p) = length (''.'' @ last p @ ''.'' @ tag)" unfolding eq by metis
    then show False by simp
  qed
qed

lemma write_new_Inl: "write_new p b t fs = (Inl e, fs') \<Longrightarrow> fs' = fs"
  by (auto simp: write_new_def split: sum.splits if_splits)

lemma os_replace_Inl: "os_replace src dst fs = (Inl e, fs') \<Longrightarrow> fs' = fs"
  by (auto simp: os_replace_def split: sum.splits option.splits if_splits)

text \<open>\<open>p\<close> holds \<open>b\<close> and stays so while only its temporary neighbour comes and goes.\<close>

lemma temporary_gone:
  assumes "canonical fs p" "content fs p = Some c" "q \<noteq> p" "canonical fs (butlast q)" "q \<noteq> []" "unlink_missing_ok q fs = (r, fs')"
    "node_at fs q \<noteq> Some Dir"
  shows "content fs' p = Some c"
proof -
  have "fs' = fs \<or> fs' = del_node q fs"
    using assms(4-6) parent_dir_InrD [of fs q]
    by (auto simp: unlink_missing_ok_def try_py_def unlink_def Let_def split: prod.splits sum.splits option.splits if_splits node.splits)
  moreover have "content (del_node q fs) p = Some c"
    by (rule content_kept [OF assms(1,2), of "{q}"]) (use assms(3,5,7) in \<open>auto simp: only_changed_def is_link_def\<close>)
  ultimately show ?thesis using assms(2) by auto
qed

text \<open>A file that is written atomically is never half written: whatever happens, a file that was at the place holds what
  it held or all of the new bytes, and a write that ends normally leaves the new bytes there.\<close>

lemma atomic_write_all_or_nothing:
  assumes run: "atomic_write_bytes tag t p b fs = (r, fs')" and p: "canonical fs p" "p \<noteq> []" and tag: "tag \<noteq> []"
  shows "r = Inr () \<Longrightarrow> content fs' p = Some b" "content fs p = Some c \<Longrightarrow> content fs' p \<in> {Some c, Some b}"
proof -
  let ?q = "temporary_of p tag"
  note q = temporary_facts [OF tag, of p]
  obtain r1 fs1 where mk: "mkdirs (butlast p) fs = (r1, fs1)" by (rule prod.exhaust)
  note ext = mkdirs_from_extends [OF mk [unfolded mkdirs_def]]
  have can1: "canonical fs1 p" using p(1) by (simp add: extends_canonical [OF ext])
  have old1: "content fs1 p = Some c" if "content fs p = Some c" for c using extends_content [OF ext p(1) that] .
  have both: "(r = Inr () \<longrightarrow> content fs' p = Some b) \<and> (\<forall>c. content fs p = Some c \<longrightarrow> content fs' p \<in> {Some c, Some b})"
  proof (cases r1)
    case (Inl e)
    with run mk old1 show ?thesis by (auto simp: atomic_write_bytes_def seq_def)
  next
    case (Inr u)
    obtain r2 fs2 where wr: "write_new ?q b t fs1 = (r2, fs2)" by (rule prod.exhaust)
    show ?thesis
    proof (cases r2)
      case (Inl e)
      with run mk Inr wr write_new_Inl [OF wr [unfolded Inl]] old1 show ?thesis by (auto simp: atomic_write_bytes_def seq_def)
    next
      case (Inr u2)
      have wr': "write_new ?q b t fs1 = (Inr (), fs2)" using wr Inr by simp
      have up: "canonical fs1 (butlast ?q)" using canonical_butlast [OF can1] q(1) by simp
      note new = write_new_InrD [OF wr' up q(2,3)]
      have node2: "node_at fs2 x = (if x = ?q then Some (File b (fresh_inode fs1) t) else node_at fs1 x)" for x
        using q(2) by (simp add: new(2))
      have can2: "canonical fs2 p" using can1 by (rule canonical_change) (auto simp: node2 is_link_def split: if_splits)
      have tq: "butlast p @ [last ?q] = ?q" using q(1,2) append_butlast_last_id by metis
      then have "\<not> is_link (node_at fs2 (butlast p @ [last ?q]))" by (simp only: node2) (simp add: is_link_def)
      with can2 q(3) have "canonical fs2 (butlast p @ [last ?q])" unfolding canonical_snoc by (simp add: canonical_butlast)
      then have cq: "canonical fs2 ?q" unfolding tq .
      have old2: "content fs2 p = Some c" if "content fs p = Some c" for c
        by (rule content_kept [OF can1 old1 [OF that], of "{?q}"]) (use q(4) p(2) node2 new(1) in \<open>auto simp: only_changed_def is_link_def\<close>)
      obtain r3 fs3 where rep: "os_replace ?q p fs2 = (r3, fs3)" by (rule prod.exhaust)
      obtain r4 where un: "unlink_missing_ok ?q fs3 = (r4, fs')" and r: "r = (case r4 of Inl e \<Rightarrow> Inl e | Inr _ \<Rightarrow> r3)"
        using run mk \<open>r1 = Inr u\<close> wr Inr rep
        by (auto simp: atomic_write_bytes_def seq_def try_finally_def split: prod.splits sum.splits)
      show ?thesis
      proof (cases r3)
        case (Inl e)
        have "fs3 = fs2" using os_replace_Inl rep Inl by blast
        then have "content fs' p = Some c" if "content fs p = Some c" for c
          using temporary_gone [OF can2 old2 [OF that] _ _ _ un [unfolded \<open>fs3 = fs2\<close>]] q p(2) cq canonical_butlast [OF cq] node2 [of ?q] by simp
        with r Inl show ?thesis by (auto split: sum.splits)
      next
        case (Inr u3)
        have "last p \<noteq> ''..''" using p canonical_snoc [of fs "butlast p" "last p"] by simp
        have rep': "os_replace ?q p fs2 = (Inr (), fs3)" using rep Inr by simp
        note eff = os_replace_effect [OF rep' cq _ canonical_butlast [OF can2] p(2) \<open>last p \<noteq> ''..''\<close> q(4) [OF p(2)]]
        have f: "node_at fs2 ?q = Some (File b (fresh_inode fs1) t)" by (simp add: node2)
        have "content fs3 p = Some b" using eff(1,4,5) [OF f] by (simp add: content_File)
        then have "content fs' p = Some b"
          using temporary_gone [OF eff(4) [OF f] _ _ _ _ un] q p(2) canonical_butlast [OF eff(4) [OF f]] eff(2) [OF f] by simp
        then show ?thesis by simp
      qed
    qed
  qed
  from both show "r = Inr () \<Longrightarrow> content fs' p = Some b" "content fs p = Some c \<Longrightarrow> content fs' p \<in> {Some c, Some b}" by auto
qed

end
