(* ===== verification/Host.thy ===== *)
theory Host
  imports Telegram Admin_Proofs
begin

text \<open>
  The administration of the appliance on the host (\<open>admin/host.py\<close>): saving a configuration, starting and stopping the
  services, the endpoints they are reached at, the checks of a release and the rollback to the previous one. The state is
  the disk of the host and the commands that were run. A command is a parameter: given the commands before it and the
  disk, it fails to start, or ends with a code and what it printed, and it may change the disk. Owners and modes of
  files and the lock file are not in the model; \<open>hc_busy\<close> says whether another administration command holds the lock.
\<close>

section \<open>The host\<close>

record appliance_paths =
  pa_config :: path
  pa_secrets :: path
  pa_install_root :: path
  pa_data_root :: path
  pa_service :: path
  pa_cli_root :: path
  pa_cli_link :: path

record machine =
  mc_disk :: fsys
  mc_log :: "string list list"

text \<open>
  \<open>hc_load\<close> and \<open>hc_dump\<close> read and write the YAML of a configuration. The formats of the standard library that need a
  library of their own are parameters too: floats, the text of a JSON value, bracketed hosts, tar archives, SQLite files. \<open>hc_fresh\<close> is the name of the
  next temporary directory, \<open>hc_tag\<close> of the next temporary file.
\<close>

record host_config =
  hc_paths :: appliance_paths
  hc_run :: "string list list \<Rightarrow> string list \<Rightarrow> fsys \<Rightarrow> (exn + int \<times> string) \<times> fsys"
  hc_is_root :: bool
  hc_busy :: bool
  hc_load :: "bytes \<Rightarrow> exn + appliance_config"
  hc_dump :: "appliance_config \<Rightarrow> string"
  hc_float :: "rat \<Rightarrow> string"
  hc_tag :: "fsys \<Rightarrow> path \<Rightarrow> string"
  hc_time :: int
  hc_polls :: nat
  hc_whole :: "nat list \<Rightarrow> int option"
  hc_brackets :: "string \<Rightarrow> bool"
  hc_str :: "json \<Rightarrow> string"
  hc_fresh :: "fsys \<Rightarrow> path"
  hc_sha :: "bytes \<Rightarrow> string"
  hc_members :: "bytes \<Rightarrow> exn + (string \<times> bool) list"
  hc_untar :: "bytes \<Rightarrow> path \<Rightarrow> (fsys, unit) py"
  hc_pack :: "path \<Rightarrow> (path \<times> string) list \<Rightarrow> (fsys, unit) py"
  hc_db_copy :: "path \<Rightarrow> path \<Rightarrow> (fsys, unit) py"
  hc_db_check :: "fsys \<Rightarrow> path \<Rightarrow> exn + string option"

definition default_paths :: appliance_paths where
  "default_paths = \<lparr>pa_config = [''etc'', ''mnema'', ''config.yaml''], pa_secrets = [''etc'', ''mnema'', ''secrets''],
     pa_install_root = [''opt'', ''mnema''], pa_data_root = [''var'', ''lib'', ''mnema''],
     pa_service = [''etc'', ''systemd'', ''system'', ''mnema.service''],
     pa_cli_root = [''opt'', ''mnema-cli''], pa_cli_link = [''usr'', ''local'', ''bin'', ''mnema'']\<rparr>"

definition environment_file :: "appliance_paths \<Rightarrow> path" where
  "environment_file p = pa_install_root p @ [''.env'']"

definition compose_file :: "appliance_paths \<Rightarrow> path" where
  "compose_file p = pa_install_root p @ [''compose.yaml'']"

definition icloud_service :: "appliance_paths \<Rightarrow> path" where
  "icloud_service p = butlast (pa_service p) @ [''mnema-icloud.service'']"

definition icloud_timer :: "appliance_paths \<Rightarrow> path" where
  "icloud_timer p = butlast (pa_service p) @ [''mnema-icloud.timer'']"

definition schedule_armed :: "appliance_paths \<Rightarrow> path" where
  "schedule_armed p = pa_data_root p @ [''icloud-schedule-armed'']"

definition icloud_session_of :: "appliance_paths \<Rightarrow> path" where
  "icloud_session_of p = (if pa_service p = pa_service default_paths then [''etc'', ''mnema'', ''icloud-session'']
     else butlast (pa_config p) @ [''icloud-session''])"

definition at_disk :: "(fsys, 'a) py \<Rightarrow> (machine, 'a) py" where
  "at_disk m = (\<lambda>s. case m (mc_disk s) of (r, d) \<Rightarrow> (r, s\<lparr>mc_disk := d\<rparr>))"

definition looks :: "(fsys \<Rightarrow> 'a) \<Rightarrow> (machine, 'a) py" where
  "looks f = gets (\<lambda>s. f (mc_disk s))"

definition called_process_error :: exn where
  "called_process_error = OtherError ''CalledProcessError''"

definition run_command :: "host_config \<Rightarrow> bool \<Rightarrow> string list \<Rightarrow> (machine, int \<times> string) py" where
  "run_command h must args = (\<lambda>s. case hc_run h (mc_log s) args (mc_disk s) of (r, d) \<Rightarrow>
     (let s' = s\<lparr>mc_disk := d, mc_log := mc_log s @ [args]\<rparr> in
      case r of Inl e \<Rightarrow> (Inl e, s')
      | Inr (code, out) \<Rightarrow> if must \<and> code \<noteq> 0 then (Inl called_process_error, s') else (Inr (code, out), s')))"

definition command :: "host_config \<Rightarrow> string list \<Rightarrow> (machine, unit) py" where
  "command h args = bind_py (run_command h True args) (\<lambda>_. ret ())"

definition attempt_command :: "host_config \<Rightarrow> string list \<Rightarrow> (machine, unit) py" where
  "attempt_command h args = bind_py (run_command h False args) (\<lambda>_. ret ())"

definition require_root :: "host_config \<Rightarrow> (machine, unit) py" where
  "require_root h = require (hc_is_root h) (PermissionError ''this command must run as root'')"

definition with_lock :: "host_config \<Rightarrow> (machine, 'a) py \<Rightarrow> (machine, 'a) py" where
  "with_lock h m = seq (require (\<not> hc_busy h) (RuntimeError ''another Mnema administration command is running'')) m"

definition compose_args :: "host_config \<Rightarrow> string list \<Rightarrow> string list" where
  "compose_args h rest = [''docker'', ''compose'', ''-f'', path_text (compose_file (hc_paths h))] @ rest"

definition write_text :: "host_config \<Rightarrow> path \<Rightarrow> bytes \<Rightarrow> (machine, unit) py" where
  "write_text h p b = at_disk (\<lambda>fs. atomic_write_bytes (hc_tag h fs p) (hc_time h) p b fs)"

definition host_config_of :: "host_config \<Rightarrow> (machine, appliance_config) py" where
  "host_config_of h = bind_py (looks (\<lambda>fs. is_file fs (pa_config (hc_paths h)))) (\<lambda>there.
     if \<not> there then ret default_appliance
     else bind_py (at_disk (read_bytes (pa_config (hc_paths h)))) (\<lambda>b. lift_sum (hc_load h b)))"

section \<open>Services\<close>

definition is_active :: "host_config \<Rightarrow> (machine, bool) py" where
  "is_active h = bind_py (run_command h False [''systemctl'', ''is-active'', ''--quiet'', ''mnema.service'']) (\<lambda>(code, out). ret (code = 0))"

definition stop_services :: "host_config \<Rightarrow> (machine, unit) py" where
  "stop_services h = seq (require_root h) (seq (attempt_command h [''systemctl'', ''stop'', ''mnema-icloud.service''])
     (command h [''systemctl'', ''stop'', ''mnema.service'']))"

definition restart_services :: "host_config \<Rightarrow> (machine, unit) py" where
  "restart_services h = seq (require_root h) (command h [''systemctl'', ''restart'', ''mnema.service''])"

text \<open>The health of the web server is asked for every two seconds until the deadline, \<open>hc_polls\<close> times.\<close>

fun wait_for_health :: "host_config \<Rightarrow> nat \<Rightarrow> (machine, unit) py" where
  "wait_for_health h n = bind_py (run_command h False [''curl'', ''--fail'', ''--silent'', ''http://127.0.0.1:8080/healthz'']) (\<lambda>(code, out).
     if code = 0 then ret ()
     else case n of 0 \<Rightarrow> raise_py (RuntimeError ''Mnema did not become healthy before the startup deadline'')
       | Suc k \<Rightarrow> wait_for_health h k)"

declare wait_for_health.simps [simp del]

definition runtime_command :: "host_config \<Rightarrow> string \<Rightarrow> (machine, unit) py" where
  "runtime_command h c = command h [''docker'', ''exec'', ''mnema-web-1'', ''mnema'', c]"

definition apply_runtime_policy :: "host_config \<Rightarrow> appliance_config \<Rightarrow> (machine, unit) py" where
  "apply_runtime_policy h a = command h [''docker'', ''exec'', ''mnema-web-1'', ''mnema'', ''apply-policy'',
     ''--archive-after-days'', py_str_int (po_archive_after_days (ap_policy a)),
     ''--stability-window-hours'', py_str_int (po_stability_window_hours (ap_policy a)),
     ''--quarantine-days'', py_str_int (po_quarantine_days (ap_policy a))]"

definition required_services :: "appliance_config \<Rightarrow> string list" where
  "required_services a = [''web'', ''worker'', ''sftpgo''] @ (if cd_integration_minio (ap_cold a) then [''minio''] else [])
     @ (if cw_enabled (ap_cloudflare a) then [''web-public'', ''cloudflared''] else [])"

definition verify_services :: "host_config \<Rightarrow> appliance_config \<Rightarrow> (machine, unit) py" where
  "verify_services h a = bind_py (run_command h True (compose_args h [''ps'', ''--status'', ''running'', ''--services''])) (\<lambda>(code, out).
     let missing = filter (\<lambda>s. s \<notin> set (split_lines [] out)) (required_services a) in
     require (missing = []) (RuntimeError (''required services are not running: '' @ join '', '' (sort missing))))"

definition start_services :: "host_config \<Rightarrow> (machine, unit) py" where
  "start_services h = seq (require_root h) (seq (command h [''systemctl'', ''start'', ''mnema.service''])
     (try_py (bind_py (looks (\<lambda>fs. is_file fs (pa_config (hc_paths h)))) (\<lambda>there.
        if \<not> there then ret () else
        bind_py (host_config_of h) (\<lambda>a.
        seq (wait_for_health h (hc_polls h)) (seq (verify_services h a) (seq (runtime_command h ''cold-storage-check'')
          (apply_runtime_policy h a))))))
       (\<lambda>e. Some (seq (stop_services h) (raise_py e)))))"

definition start_rollback_stack :: "host_config \<Rightarrow> (machine, unit) py" where
  "start_rollback_stack h = seq (command h [''systemctl'', ''start'', ''mnema.service''])
     (seq (command h (compose_args h [''up'', ''-d'', ''--force-recreate'', ''--remove-orphans''])) (wait_for_health h (hc_polls h)))"

definition enable_services :: "host_config \<Rightarrow> (machine, unit) py" where
  "enable_services h = seq (require_root h) (command h [''systemctl'', ''enable'', ''mnema.service'', ''mnema-smart.timer''])"

definition disable_services :: "host_config \<Rightarrow> (machine, unit) py" where
  "disable_services h = seq (require_root h) (seq (command h [''systemctl'', ''disable'', ''mnema.service'', ''mnema-smart.timer''])
     (attempt_command h [''systemctl'', ''disable'', ''mnema-icloud.timer'']))"

definition uninstall_runtime :: "host_config \<Rightarrow> (machine, unit) py" where
  "uninstall_runtime h = seq (require_root h) (bind_py (is_active h) (\<lambda>active.
     seq (if active then stop_services h else ret ()) (disable_services h)))"

section \<open>Saving a configuration\<close>

definition find_uuid :: "host_config \<Rightarrow> string \<Rightarrow> (machine, string) py" where
  "find_uuid h rt = bind_py (run_command h True [''findmnt'', ''-n'', ''-o'', ''UUID'', ''--target'', path_str rt]) (\<lambda>(code, out). ret (strip out))"

definition check_mount :: "host_config \<Rightarrow> string \<Rightarrow> (machine, unit) py" where
  "check_mount h rt = bind_py (looks (\<lambda>fs. is_dir fs (parts rt))) (\<lambda>there.
     seq (require there (ValueError (''storage root does not exist: '' @ path_str rt)))
       (command h [''mountpoint'', ''--quiet'', path_str rt]))"

definition validate_host :: "host_config \<Rightarrow> appliance_config \<Rightarrow> (machine, unit) py" where
  "validate_host h a = (let active = sg_active_root (ap_storage a); backup = sg_backup_root (ap_storage a) in
     bind_py (looks (\<lambda>fs. is_symlink fs (parts active) \<or> is_symlink fs (parts backup))) (\<lambda>link.
     seq (require (\<not> link) (ValueError ''storage roots cannot be symlinks'')) (
     seq (check_mount h active) (seq (check_mount h backup) (
     bind_py (find_uuid h active) (\<lambda>a_uuid. bind_py (find_uuid h backup) (\<lambda>b_uuid.
     require (a_uuid \<noteq> [] \<and> b_uuid \<noteq> [] \<and> a_uuid \<noteq> b_uuid) (ValueError ''active and backup storage UUIDs must exist and differ''))))))))"

definition lines_text :: "string list \<Rightarrow> string" where
  "lines_text ls = join [CHR 0x0A] ls"

definition service_unit :: string where
  "service_unit = lines_text [''[Unit]'', ''Description=Mnema read-only iCloud Photos import'',
     ''After=docker.service mnema.service network-online.target'', ''Requires=docker.service'', [], ''[Service]'', ''Type=oneshot'',
     ''ExecStart=/usr/local/bin/mnema icloud sync --scheduled'', ''NoNewPrivileges=true'', ''PrivateTmp=true'', ''ProtectHome=true'', []]"

definition timer_unit :: "appliance_config \<Rightarrow> string" where
  "timer_unit a = lines_text [''[Unit]'', ''Description=Run Mnema iCloud Photos import daily'', [], ''[Timer]'',
     ''OnCalendar=*-*-* '' @ ip_daily_at (ap_icloud a) @ '':00'', ''Persistent=true'', ''RandomizedDelaySec=5min'',
     ''Unit=mnema-icloud.service'', [], ''[Install]'', ''WantedBy=timers.target'', []]"

definition write_icloud_units :: "host_config \<Rightarrow> appliance_config \<Rightarrow> (machine, unit) py" where
  "write_icloud_units h a = seq (write_text h (icloud_service (hc_paths h)) service_unit) (write_text h (icloud_timer (hc_paths h)) (timer_unit a))"

definition reconcile_timer :: "host_config \<Rightarrow> appliance_config \<Rightarrow> (machine, unit) py" where
  "reconcile_timer h a = seq (command h [''systemctl'', ''daemon-reload'']) (
     bind_py (looks (\<lambda>fs. is_file fs (schedule_armed (hc_paths h)))) (\<lambda>armed.
     if ip_enabled (ap_icloud a) \<and> armed then command h [''systemctl'', ''enable'', ''--now'', ''mnema-icloud.timer'']
     else attempt_command h [''systemctl'', ''disable'', ''--now'', ''mnema-icloud.timer'']))"

definition previous_bytes :: "path \<Rightarrow> (machine, bytes option) py" where
  "previous_bytes p = bind_py (looks (\<lambda>fs. is_file fs p)) (\<lambda>there.
     if there then bind_py (at_disk (read_bytes p)) (\<lambda>b. ret (Some b)) else ret None)"

definition restore_file :: "host_config \<Rightarrow> path \<times> bytes option \<Rightarrow> (machine, unit) py" where
  "restore_file h kept = (case kept of (p, None) \<Rightarrow> at_disk (unlink_missing_ok p)
     | (p, Some b) \<Rightarrow> seq (require (utf8_decode (map of_char b) \<noteq> None) (ValueError ''UnicodeDecodeError'')) (write_text h p b))"

text \<open>\<open>None\<close> stands for no configuration before.\<close>

definition previous_appliance :: "host_config \<Rightarrow> (machine, appliance_config option) py" where
  "previous_appliance h = bind_py (looks (\<lambda>fs. is_file fs (pa_config (hc_paths h)))) (\<lambda>there.
     if there then bind_py (host_config_of h) (\<lambda>a. ret (Some a)) else ret None)"

definition go_live :: "host_config \<Rightarrow> appliance_config option \<Rightarrow> appliance_config \<Rightarrow> (machine, unit) py" where
  "go_live h previous a = bind_py (is_active h) (\<lambda>active.
     if \<not> active then ret () else
     seq (restart_services h) (seq (wait_for_health h (hc_polls h)) (seq (verify_services h a) (
     seq (if map_option ap_cold previous \<noteq> Some (ap_cold a) then runtime_command h ''cold-storage-check'' else ret ())
       (apply_runtime_policy h a)))))"

definition save_body :: "host_config \<Rightarrow> appliance_config option \<Rightarrow> appliance_config \<Rightarrow> (path \<times> string) list \<Rightarrow> (machine, unit) py" where
  "save_body h previous a updates =
     seq (write_text h (pa_config (hc_paths h)) (hc_dump h a)) (
     bind_py (lift_sum (render_environment (hc_float h) a)) (\<lambda>env.
     seq (write_text h (environment_file (hc_paths h)) env) (
     seq (write_icloud_units h a) (
     seq (for_each (\<lambda>(p, b). write_text h p b) updates) (
     seq (command h (compose_args h [''config'', ''--quiet''])) (
     seq (reconcile_timer h a) (go_live h previous a)))))))"

definition undo_save :: "host_config \<Rightarrow> (path \<times> bytes option) list \<Rightarrow> (path \<times> bytes option) list \<Rightarrow> (machine, unit) py" where
  "undo_save h files secrets =
     seq (for_each (restore_file h) files) (
     seq (attempt_command h [''systemctl'', ''daemon-reload'']) (
     seq (for_each (restore_file h) secrets) (
     bind_py (is_active h) (\<lambda>active.
     if \<not> active then ret () else
     seq (restart_services h) (
     bind_py (looks (\<lambda>fs. is_file fs (pa_config (hc_paths h)))) (\<lambda>there.
     if there then bind_py (host_config_of h) (apply_runtime_policy h) else ret ()))))))"

definition managed_files :: "host_config \<Rightarrow> path list" where
  "managed_files h = [pa_config (hc_paths h), environment_file (hc_paths h), icloud_service (hc_paths h), icloud_timer (hc_paths h)]"

definition keep_bytes :: "path \<Rightarrow> (machine, path \<times> bytes option) py" where
  "keep_bytes p = bind_py (previous_bytes p) (\<lambda>b. ret (p, b))"

definition keep_secret :: "host_config \<Rightarrow> path \<times> string \<Rightarrow> (machine, path \<times> bytes option) py" where
  "keep_secret h up = seq (require (butlast (fst up) = pa_secrets (hc_paths h) \<and> fst up \<noteq> [])
       (ValueError ''secret updates must remain beneath Mnema secret root'')) (keep_bytes (fst up))"

definition save_config :: "host_config \<Rightarrow> appliance_config \<Rightarrow> (path \<times> string) list \<Rightarrow> (machine, unit) py" where
  "save_config h a updates = seq (require_root h) (with_lock h (
     seq (validate_host h a) (
     bind_py (previous_appliance h) (\<lambda>previous.
     bind_py (map_py keep_bytes (managed_files h)) (\<lambda>files.
     bind_py (map_py (keep_secret h) updates) (\<lambda>secrets.
     try_py (save_body h previous a updates) (\<lambda>e. Some (seq (undo_save h files secrets) (raise_py e)))))))))"

section \<open>Installation\<close>

text \<open>The variables the installer gets in its environment stand before its path, as on a shell's command line.\<close>

definition installer_command :: "appliance_config \<Rightarrow> path \<Rightarrow> string list" where
  "installer_command a installer = [''MNEMA_ACTIVE_ROOT='' @ path_str (sg_active_root (ap_storage a)),
     ''MNEMA_BACKUP_ROOT='' @ path_str (sg_backup_root (ap_storage a)), ''MNEMA_SOURCE_ROOT='' @ path_str (sg_source_root (ap_storage a)),
     ''MNEMA_SFTPGO_USER='' @ sp_username (ap_sftpgo a), path_text installer]"

definition install_from_source :: "host_config \<Rightarrow> path \<Rightarrow> appliance_config \<Rightarrow> (machine, unit) py" where
  "install_from_source h source a = (let installer = source @ [''scripts'', ''install.sh''] in
     seq (require_root h) (
     bind_py (looks (\<lambda>fs. is_file fs installer)) (\<lambda>there.
     seq (require there (ValueError ''Mnema source root does not contain scripts/install.sh'')) (
     seq (validate_host h a) (
     seq (command h (installer_command a installer)) (
     seq (write_text h (pa_config (hc_paths h)) (hc_dump h a)) (
     bind_py (lift_sum (render_environment (hc_float h) a)) (\<lambda>env.
     seq (write_text h (environment_file (hc_paths h)) env) (
     seq (write_icloud_units h a) (
     seq (reconcile_timer h a) (
     seq (restart_services h) (
     seq (wait_for_health h (hc_polls h)) (
     seq (verify_services h a) (
     seq (runtime_command h ''cold-storage-check'') (
     seq (apply_runtime_policy h a)
       (if se_start_at_boot (ap_service a) then enable_services h else disable_services h))))))))))))))))"

definition uninstall_plan :: "string list" where
  "uninstall_plan = [''stop and disable Mnema, SMART, and iCloud timer units'', ''retain /opt/mnema application files'',
     ''retain /var/lib/mnema database and service state'', ''retain /etc/mnema secrets'',
     ''retain both archive storage filesystems'']"

end
