(* ===== verification/Host_Services.thy ===== *)
theory Host_Services
  imports Host
begin

text \<open>
  The rest of the daily administration (\<open>admin/host.py\<close>): the endpoints the appliance is reached at, with the
  addresses of its default route, and the commands of the iCloud import and of the file provider, which run in
  containers. What a command prints goes to the caller.
\<close>

section \<open>Addresses\<close>

text \<open>The number of an IPv4 address.\<close>

definition ipv4_number :: "string \<Rightarrow> nat" where
  "ipv4_number s = foldl (\<lambda>n o'. n * 256 + undec o') 0 (split_on (CHR ''.'') s)"

definition ipv4_loopback :: "string \<Rightarrow> bool" where
  "ipv4_loopback s = (ipv4_number s div 2 ^ 24 = 127)"

definition ipv4_link_local :: "string \<Rightarrow> bool" where
  "ipv4_link_local s = (ipv4_number s div 2 ^ 16 = 169 * 256 + 254)"

text \<open>The output of \<open>ip -4\<close> holds IPv4 addresses only: another address in it counts as none.\<close>

definition usable_address :: "json \<Rightarrow> string list" where
  "usable_address v = (case (json_item v ''family'', json_item v ''local'') of
     (Some (JText f), Some (JText t)) \<Rightarrow> (let local = map char_of t in
        if f = cps ''inet'' \<and> list_all (\<lambda>n. n < 128) t \<and> ipv4_ok local
           \<and> \<not> ipv4_loopback local \<and> \<not> ipv4_link_local local \<and> ipv4_number local \<noteq> 0 then [local] else [])
   | _ \<Rightarrow> [])"

definition is_object :: "json \<Rightarrow> bool" where
  "is_object v = (case v of JObject _ \<Rightarrow> True | _ \<Rightarrow> False)"

definition route_devices :: "json \<Rightarrow> exn + nat list list" where
  "route_devices v = bind_sum (json_entries v) (\<lambda>routes.
     Inr (concat (map (\<lambda>r. case json_item r ''dev'' of Some (JText t) \<Rightarrow> [t] | _ \<Rightarrow> []) routes)))"

text \<open>A name that is a list or an object cannot be looked up in a set.\<close>

definition interface_addresses :: "nat list list \<Rightarrow> json \<Rightarrow> exn + string list" where
  "interface_addresses links v =
     (if \<not> is_object v then Inr []
      else case json_item v ''ifname'' of
        Some (JList _) \<Rightarrow> Inl TypeError
      | Some (JObject _) \<Rightarrow> Inl TypeError
      | Some (JText t) \<Rightarrow> (if t \<notin> set links then Inr [] else
          bind_sum (json_entries (case json_item v ''addr_info'' of None \<Rightarrow> JList [] | Some x \<Rightarrow> x)) (\<lambda>candidates.
          Inr (concat (map usable_address candidates))))
      | _ \<Rightarrow> Inr [])"

fun all_addresses :: "nat list list \<Rightarrow> json list \<Rightarrow> exn + string list" where
  "all_addresses links [] = Inr []"
| "all_addresses links (v # vs) = bind_sum (interface_addresses links v) (\<lambda>a.
     bind_sum (all_addresses links vs) (\<lambda>b. Inr (a @ b)))"

text \<open>A command whose program is missing, or that fails, or whose output is no JSON, gives nothing.\<close>

definition json_of_command :: "host_config \<Rightarrow> string list \<Rightarrow> (machine, json option) py" where
  "json_of_command h args = try_py (bind_py (run_command h False args) (\<lambda>(code, out).
     ret (if code \<noteq> 0 then None else json_loads (cps out))))
     (\<lambda>e. if is_OSError e then Some (ret None) else None)"

definition default_route_addresses :: "host_config \<Rightarrow> (machine, string list) py" where
  "default_route_addresses h =
     bind_py (json_of_command h [''ip'', ''-json'', ''-4'', ''route'', ''show'', ''default'']) (\<lambda>routes.
     case routes of None \<Rightarrow> ret [] | Some v \<Rightarrow>
     bind_py (lift_sum (route_devices v)) (\<lambda>links.
     if links = [] then ret [] else
     bind_py (json_of_command h [''ip'', ''-json'', ''-4'', ''address'', ''show'', ''up'']) (\<lambda>found.
     case found of None \<Rightarrow> ret [] | Some a \<Rightarrow>
     bind_py (lift_sum (bind_sum (json_entries a) (all_addresses links))) (\<lambda>discovered.
     ret (sort_key ipv4_number (remdups discovered))))))"

section \<open>Endpoints\<close>

datatype endpoint_scope = Internet | Lan | Localhost

datatype endpoint_state = EndpointRunning | EndpointStopped | EndpointUnknown

record service_endpoint =
  ep_service :: string
  ep_url :: string
  ep_scope :: endpoint_scope
  ep_state :: endpoint_state

type_synonym endpoint_report = "service_endpoint list \<times> string list"

definition running_services :: "host_config \<Rightarrow> (machine, string list option) py" where
  "running_services h = try_py
     (bind_py (run_command h False (compose_args h [''ps'', ''--status'', ''running'', ''--services''])) (\<lambda>(code, out).
       ret (if code \<noteq> 0 then None else Some (filter (\<lambda>l. l \<noteq> []) (map strip (split_lines [] out))))))
     (\<lambda>e. if is_OSError e then Some (ret None) else None)"

definition service_state :: "string list option \<Rightarrow> string list \<Rightarrow> endpoint_state" where
  "service_state running required = (case running of None \<Rightarrow> EndpointUnknown
     | Some r \<Rightarrow> if set required \<subseteq> set r then EndpointRunning else EndpointStopped)"

text \<open>\<open>quote\<close> of an ASCII text.\<close>

definition quote_char :: "char \<Rightarrow> string" where
  "quote_char c = (if is_alnum c \<or> c \<in> {CHR ''.'', CHR ''_'', CHR ''-'', CHR 0x7E} then [c]
     else CHR 0x25 # map char_of [hex_upper (of_char c div 16), hex_upper (of_char c mod 16)])"

definition bound_endpoints ::
    "string \<Rightarrow> string \<Rightarrow> string option \<Rightarrow> string \<Rightarrow> int \<Rightarrow> string list \<Rightarrow> endpoint_state \<Rightarrow> exn + endpoint_report" where
  "bound_endpoints service scheme username bind_address port lan state =
     (let userinfo = (case username of None \<Rightarrow> [] | Some u \<Rightarrow> if u = [] then [] else concat (map quote_char u) @ ''@'');
          ep = \<lambda>scope address. \<lparr>ep_service = service,
            ep_url = scheme @ ''://'' @ userinfo @ address @ '':'' @ py_str_int port, ep_scope = scope, ep_state = state\<rparr> in
      if bind_address = ''0.0.0.0'' then
        (if lan = [] then Inr ([], [service @ '': no usable LAN IPv4 address detected'']) else Inr (map (ep Lan) lan, []))
      else if \<not> ipv4_ok bind_address then Inl (ValueError ''does not appear to be an IPv4 or IPv6 address'')
      else Inr ([ep (if ipv4_loopback bind_address then Localhost else Lan) bind_address], []))"

definition web_endpoints :: "appliance_config \<Rightarrow> string list option \<Rightarrow> string list \<Rightarrow> exn + endpoint_report" where
  "web_endpoints a running lan =
     (if cw_enabled (ap_cloudflare a) then
        Inr ([\<lparr>ep_service = ''mnema-web'', ep_url = ''https://'' @ cw_admin_hostname (ap_cloudflare a), ep_scope = Internet,
               ep_state = service_state running [''web-public'', ''cloudflared'']\<rparr>,
              \<lparr>ep_service = ''mnema-recovery-web'', ep_url = ''http://127.0.0.1:8080'', ep_scope = Localhost,
               ep_state = service_state running [''web'']\<rparr>], [])
      else bind_sum (bound_endpoints ''mnema-web'' ''http'' None (se_local_bind_address (ap_service a)) 8080 lan
                       (service_state running [''web''])) (\<lambda>(eps, ws).
        Inr (eps, ws @ (if se_local_bind_address (ap_service a) = ''127.0.0.1''
          then [''Web is localhost-only. Use: ssh -L 8080:127.0.0.1:8080 USER@HOST''] else []))))"

definition files_endpoints :: "appliance_config \<Rightarrow> string list option \<Rightarrow> service_endpoint list" where
  "files_endpoints a running = (if fv_enabled (ap_file_provider a)
     then [\<lparr>ep_service = ''mnema-files-api'', ep_url = rstrip_char (CHR ''/'') (fv_public_url (ap_file_provider a)),
            ep_scope = Internet, ep_state = service_state running [''file-provider-api'', ''cloudflared'']\<rparr>] else [])"

definition endpoints_of :: "appliance_config \<Rightarrow> string list option \<Rightarrow> string list \<Rightarrow> exn + endpoint_report" where
  "endpoints_of a running lan =
     bind_sum (web_endpoints a running lan) (\<lambda>(web, ws).
     bind_sum (bound_endpoints ''sftp'' ''sftp'' (Some (sp_username (ap_sftpgo a))) (sp_bind_address (ap_sftpgo a)) 2022 lan
                 (service_state running [''sftpgo''])) (\<lambda>(sftp, ws').
     Inr (web @ files_endpoints a running @ sftp, rev (remdups (rev (ws @ ws'))))))"

definition service_endpoints :: "host_config \<Rightarrow> (machine, endpoint_report) py" where
  "service_endpoints h = bind_py (host_config_of h) (\<lambda>a.
     bind_py (running_services h) (\<lambda>running.
     bind_py (default_route_addresses h) (\<lambda>lan.
     lift_sum (endpoints_of a running lan))))"

section \<open>Commands in the containers\<close>

definition file_provider_command :: "host_config \<Rightarrow> string \<Rightarrow> string list \<Rightarrow> (machine, string) py" where
  "file_provider_command h c arguments = bind_py (host_config_of h) (\<lambda>a.
     seq (require (fv_enabled (ap_file_provider a)) (ValueError ''File Provider is disabled''))
     (bind_py (run_command h True (compose_args h ([''exec'', ''-T'', ''file-provider-api'', ''mnema'', c] @ arguments)))
       (\<lambda>(code, out). ret out)))"

definition icloud_command :: "host_config \<Rightarrow> string \<Rightarrow> string list \<Rightarrow> (machine, string) py" where
  "icloud_command h c arguments =
     bind_py (run_command h True (compose_args h ([''run'', ''--rm'', ''icloud-runner'', c] @ arguments))) (\<lambda>(code, out). ret out)"

definition has_session :: "host_config \<Rightarrow> (machine, bool) py" where
  "has_session h = looks (\<lambda>fs. is_dir fs (icloud_session_of (hc_paths h)))"

definition icloud_on :: "host_config \<Rightarrow> (machine, appliance_config) py" where
  "icloud_on h = seq (require_root h) (bind_py (host_config_of h) (\<lambda>a.
     seq (require (ip_enabled (ap_icloud a)) (ValueError ''iCloud Photos is disabled'')) (ret a)))"

text \<open>The entries strictly below a directory, relative to it.\<close>

definition entries_below :: "fsys \<Rightarrow> path \<Rightarrow> path list" where
  "entries_below fs p = (case resolve_path fs True p of Inl _ \<Rightarrow> []
     | Inr q \<Rightarrow> map (\<lambda>(r, n). drop (length q) r) (filter (\<lambda>(r, n). take (length q) r = q \<and> length q < length r) fs))"

definition secure_session :: "path \<Rightarrow> (machine, unit) py" where
  "secure_session p = bind_py (looks (\<lambda>fs. list_ex (\<lambda>r. is_symlink fs (p @ r)) (entries_below fs p))) (\<lambda>link.
     require (\<not> link) (RuntimeError ''iCloud session contains an unsafe link''))"

definition host_icloud_auth :: "host_config \<Rightarrow> (machine, unit) py" where
  "host_icloud_auth h = bind_py (icloud_on h) (\<lambda>a.
     let session = icloud_session_of (hc_paths h) in
     seq (at_disk (mkdirs session)) (
     bind_py (icloud_command h ''icloud-auth-internal'' []) (\<lambda>_.
     secure_session session)))"

definition authenticated_on :: "host_config \<Rightarrow> (machine, appliance_config) py" where
  "authenticated_on h = bind_py (icloud_on h) (\<lambda>a. bind_py (has_session h) (\<lambda>there.
     seq (require there (RuntimeError ''iCloud authentication is required'')) (ret a)))"

definition host_icloud_preview :: "host_config \<Rightarrow> (machine, unit) py" where
  "host_icloud_preview h = bind_py (authenticated_on h) (\<lambda>a.
     bind_py (icloud_command h ''icloud-preview-internal'' []) (\<lambda>_. ret ()))"

definition host_icloud_sync :: "host_config \<Rightarrow> bool \<Rightarrow> (machine, unit) py" where
  "host_icloud_sync h scheduled = bind_py (authenticated_on h) (\<lambda>a. with_lock h (
     bind_py (icloud_command h ''icloud-sync-internal'' []) (\<lambda>_.
     bind_py (looks (\<lambda>fs. is_file fs (schedule_armed (hc_paths h)))) (\<lambda>armed.
     if \<not> scheduled \<and> \<not> armed
     then seq (write_text h (schedule_armed (hc_paths h)) (''armed'' @ [CHR 0x0A])) (reconcile_timer h a)
     else ret ()))))"

text \<open>The status is that of a library never read, or what the container reports.\<close>

datatype icloud_report = NeverRead bool | Reported string

definition host_icloud_status :: "host_config \<Rightarrow> (machine, icloud_report) py" where
  "host_icloud_status h = seq (require_root h) (bind_py (host_config_of h) (\<lambda>a. bind_py (has_session h) (\<lambda>there.
     if \<not> ip_enabled (ap_icloud a) \<or> \<not> there then ret (NeverRead (ip_enabled (ap_icloud a)))
     else bind_py (icloud_command h ''icloud-status-internal'' []) (\<lambda>out.
       seq (attempt_command h [''systemctl'', ''--no-pager'', ''list-timers'', ''mnema-icloud.timer''])
         (ret (Reported out))))))"

definition require_session :: "host_config \<Rightarrow> (machine, unit) py" where
  "require_session h = seq (require_root h) (bind_py (host_config_of h) (\<lambda>a. bind_py (has_session h) (\<lambda>there.
     require (ip_enabled (ap_icloud a) \<and> there) (RuntimeError ''configured iCloud authentication is required''))))"

definition require_capacity_relief :: "host_config \<Rightarrow> (machine, unit) py" where
  "require_capacity_relief h = seq (require_session h) (bind_py (host_config_of h) (\<lambda>a.
     require (ip_capacity_relief_enabled (ap_icloud a)) (ValueError ''iCloud capacity relief is disabled'')))"

definition host_icloud_storage :: "host_config \<Rightarrow> (machine, string) py" where
  "host_icloud_storage h = seq (require_session h) (icloud_command h ''icloud-storage-internal'' [])"

definition host_cleanup_preview :: "host_config \<Rightarrow> (machine, string) py" where
  "host_cleanup_preview h = seq (require_capacity_relief h) (icloud_command h ''icloud-cleanup-preview-internal'' [])"

definition host_cleanup_status :: "host_config \<Rightarrow> (machine, string) py" where
  "host_cleanup_status h = seq (require_session h) (icloud_command h ''icloud-cleanup-status-internal'' [])"

definition number_is :: "host_config \<Rightarrow> json option \<Rightarrow> int \<Rightarrow> bool" where
  "number_is h v n = (case v of Some (JInt m) \<Rightarrow> m = n | Some (JBool b) \<Rightarrow> of_bool b = n
     | Some (JFloat t) \<Rightarrow> hc_whole h t = Some n | _ \<Rightarrow> False)"

fun manifest_of :: "host_config \<Rightarrow> int \<Rightarrow> json list \<Rightarrow> exn + json" where
  "manifest_of h n [] = Inl (ValueError ''iCloud cleanup manifest was not found'')"
| "manifest_of h n (v # vs) = bind_sum (dict_get v ''id'') (\<lambda>i. if number_is h i n then Inr v else manifest_of h n vs)"

definition host_cleanup_manifest :: "host_config \<Rightarrow> int \<Rightarrow> (machine, json) py" where
  "host_cleanup_manifest h n = seq (require_capacity_relief h) (
     bind_py (icloud_command h ''icloud-cleanup-status-internal'' []) (\<lambda>out.
     case json_loads (cps out) of None \<Rightarrow> raise_py (ValueError ''JSONDecodeError'')
     | Some v \<Rightarrow> lift_sum (bind_sum (dict_get v ''manifests'') (\<lambda>m.
         bind_sum (json_entries (case m of None \<Rightarrow> JList [] | Some l \<Rightarrow> l)) (manifest_of h n)))))"

definition host_cleanup_approve :: "host_config \<Rightarrow> int \<Rightarrow> string \<Rightarrow> (machine, unit) py" where
  "host_cleanup_approve h n digest = seq (require_capacity_relief h) (with_lock h (
     bind_py (icloud_command h ''icloud-cleanup-approve-internal'' [py_str_int n, digest]) (\<lambda>_. ret ())))"

definition host_status :: "host_config \<Rightarrow> (machine, unit) py" where
  "host_status h = seq (attempt_command h [''systemctl'', ''--no-pager'', ''--full'', ''status'', ''mnema.service''])
     (attempt_command h (compose_args h [''ps'']))"

definition host_logs :: "host_config \<Rightarrow> bool \<Rightarrow> int \<Rightarrow> (machine, unit) py" where
  "host_logs h follow_on n = command h (compose_args h ([''logs'', ''--tail'', py_str_int n] @ (if follow_on then [''--follow''] else [])))"

end
