(* ===== verification/Host_Release.thy ===== *)
theory Host_Release
  imports Host_Services
begin

text \<open>
  Releases (\<open>admin/host.py\<close>): the backup of the configuration and its restoration, the download of a release from
  GitHub, the update from a release archive and the rollback to the release before it. Temporary directories are on the
  disk while they are used. Reading and writing tar archives and SQLite files are parameters (\<open>Host\<close>).
\<close>

section \<open>Directories\<close>

definition beneath :: "path \<Rightarrow> path \<Rightarrow> bool" where
  "beneath p q = (take (length p) q = p)"

definition remove_tree :: "path \<Rightarrow> fsys \<Rightarrow> fsys" where
  "remove_tree p fs = filter (\<lambda>(q, n). \<not> beneath p q) fs"

text \<open>\<open>os.replace\<close> of a directory, with all that is in it; an empty directory may be replaced.\<close>

definition move_below :: "path \<Rightarrow> path \<Rightarrow> fsys \<Rightarrow> fsys" where
  "move_below a b fs = map (\<lambda>(q, n). if beneath a q then (b @ drop (length a) q, n) else (q, n)) (del_node b fs)"

definition names_in :: "fsys \<Rightarrow> path \<Rightarrow> string list" where
  "names_in fs p = (case resolve_path fs True p of Inl _ \<Rightarrow> []
     | Inr q \<Rightarrow> map (\<lambda>(r, n). last r) (filter (\<lambda>(r, n). r \<noteq> [] \<and> butlast r = q) fs))"

definition replace_tree :: "path \<Rightarrow> path \<Rightarrow> (fsys, unit) py" where
  "replace_tree src dst = (\<lambda>fs.
     (case parent_dir fs src of Inl e \<Rightarrow> (Inl e, fs)
      | Inr a \<Rightarrow>
     (case node_at fs (a @ [last src]) of
        Some Dir \<Rightarrow>
          (case parent_dir fs dst of Inl e \<Rightarrow> (Inl e, fs)
           | Inr b \<Rightarrow> (let s = a @ [last src]; d = b @ [last dst] in
             if s = d then (Inr (), fs)
             else if beneath s d then (Inl (OSErr ''EINVAL''), fs)
             else case node_at fs d of
                 None \<Rightarrow> (Inr (), move_below s d fs)
               | Some Dir \<Rightarrow> (if names_in fs d = [] then (Inr (), move_below s d fs) else (Inl (OSErr ''ENOTEMPTY''), fs))
               | Some _ \<Rightarrow> (Inl NotADirectoryError, fs)))
      | _ \<Rightarrow> os_replace src dst fs)))"

definition symlink_to :: "path \<Rightarrow> path \<Rightarrow> (fsys, unit) py" where
  "symlink_to p target = (\<lambda>fs. (case parent_dir fs p of Inl e \<Rightarrow> (Inl e, fs)
     | Inr q \<Rightarrow> (if node_at fs (q @ [last p]) \<noteq> None then (Inl FileExistsError, fs)
         else (Inr (), set_node (q @ [last p]) (Symlink (path_text target)) fs))))"

text \<open>A directory for the time of a body, removed at its end with what is in it.\<close>

definition with_directory :: "host_config \<Rightarrow> (path \<Rightarrow> (machine, 'a) py) \<Rightarrow> (machine, 'a) py" where
  "with_directory h body = bind_py (looks (hc_fresh h)) (\<lambda>d.
     seq (at_disk (modify (set_node d Dir))) (try_finally (body d) (at_disk (modify (remove_tree d)))))"

text \<open>\<open>shutil.copy2\<close>: the destination may exist.\<close>

definition copy_over :: "host_config \<Rightarrow> path \<Rightarrow> path \<Rightarrow> (machine, unit) py" where
  "copy_over h src dst = bind_py (at_disk (read_bytes src)) (\<lambda>b. bind_py (looks (\<lambda>fs. path_exists fs dst)) (\<lambda>there.
     at_disk (if there then fill dst b (hc_time h) else write_new dst b (hc_time h))))"

definition copy_to :: "host_config \<Rightarrow> path \<Rightarrow> path \<Rightarrow> (machine, unit) py" where
  "copy_to h src dst = at_disk (\<lambda>fs. atomic_copy (hc_tag h fs dst) (hc_time h) src dst fs)"

text \<open>The text of code points as the bytes of UTF-8; a lone surrogate has none.\<close>

definition utf8_text :: "nat list \<Rightarrow> exn + string" where
  "utf8_text t = (let bs = map utf8_encode t in
     if None \<in> set bs then Inl (ValueError ''surrogates not allowed'') else Inr (map char_of (concat (map the bs))))"

definition copy_text :: "host_config \<Rightarrow> path \<Rightarrow> path \<Rightarrow> (machine, unit) py" where
  "copy_text h src dst = bind_py (at_disk (read_bytes src)) (\<lambda>b. bind_py (lift_sum (bind_sum (text_cps b) utf8_text)) (write_text h dst))"

section \<open>Backup and restoration of the configuration\<close>

definition sqlite_healthy :: "host_config \<Rightarrow> path \<Rightarrow> (machine, bool) py" where
  "sqlite_healthy h p = bind_py (looks (\<lambda>fs. hc_db_check h fs p)) (\<lambda>r. bind_py (lift_sum r) (\<lambda>row. ret (row = Some ''ok'')))"

definition database_of :: "host_config \<Rightarrow> path" where
  "database_of h = pa_data_root (hc_paths h) @ [''mnema.db'']"

definition backup_entries :: "host_config \<Rightarrow> path \<Rightarrow> (path \<times> string) list" where
  "backup_entries h copy = [(pa_config (hc_paths h), ''etc/mnema/config.yaml''), (pa_secrets (hc_paths h), ''etc/mnema/secrets''),
     (icloud_session_of (hc_paths h), ''etc/mnema/icloud-session''), (environment_file (hc_paths h), ''opt/mnema/.env''),
     (copy, ''var/lib/mnema/mnema.db'')]"

definition host_backup :: "host_config \<Rightarrow> path \<Rightarrow> (machine, unit) py" where
  "host_backup h destination = seq (require_root h) (
     seq (at_disk (mkdirs (butlast destination))) (with_directory h (\<lambda>d.
     let copy = d @ [''mnema.db''] in
     bind_py (looks (\<lambda>fs. is_file fs (database_of h))) (\<lambda>there.
     seq (if there then seq (at_disk (hc_db_copy h (database_of h) copy)) (bind_py (sqlite_healthy h copy) (\<lambda>good.
            require good (RuntimeError ''configuration backup SQLite integrity failed''))) else ret ()) (
     bind_py (looks (\<lambda>fs. filter (\<lambda>(p, name). path_exists fs p) (backup_entries h copy))) (\<lambda>entries.
     at_disk (hc_pack h destination entries)))))))"

text \<open>Every member of an archive must lie in the destination and none may be a link.\<close>

definition member_target :: "path \<Rightarrow> string \<Rightarrow> path" where
  "member_target d name = (if is_absolute name then parts name else d @ parts name)"

definition member_ok :: "fsys \<Rightarrow> path \<Rightarrow> string \<times> bool \<Rightarrow> exn + unit" where
  "member_ok fs d m = bind_sum (resolve_path fs False (member_target d (fst m))) (\<lambda>t.
     bind_sum (resolve_path fs False d) (\<lambda>base.
     if \<not> beneath base t then Inl (ValueError ''backup archive contains an unsafe path'')
     else if snd m then Inl (ValueError ''backup archive contains a link'') else Inr ()))"

definition safe_extract :: "host_config \<Rightarrow> bytes \<Rightarrow> path \<Rightarrow> (machine, unit) py" where
  "safe_extract h data d = bind_py (lift_sum (hc_members h data)) (\<lambda>ms.
     seq (bind_py (looks (\<lambda>fs. run_checks (map (member_ok fs d) ms))) lift_sum) (at_disk (hc_untar h data d)))"

definition restore_secret :: "host_config \<Rightarrow> path \<Rightarrow> string \<Rightarrow> (machine, unit) py" where
  "restore_secret h d name = bind_py (looks (\<lambda>fs. is_file fs (d @ [name]) \<and> \<not> is_symlink fs (d @ [name]))) (\<lambda>plain.
     seq (require plain (RuntimeError ''configuration backup contains an unsafe secret entry''))
       (copy_to h (d @ [name]) (pa_secrets (hc_paths h) @ [name])))"

definition restore_entry :: "host_config \<Rightarrow> path \<Rightarrow> path \<Rightarrow> path \<Rightarrow> (machine, unit) py" where
  "restore_entry h source destination r = bind_py (looks (\<lambda>fs. (is_symlink fs (source @ r), is_dir fs (source @ r)))) (\<lambda>(link, dir).
     seq (require (\<not> link) (RuntimeError ''configuration backup contains an unsafe session link''))
       (if dir then at_disk (mkdirs (destination @ r)) else copy_to h (source @ r) (destination @ r)))"

definition restore_directory :: "host_config \<Rightarrow> path \<Rightarrow> path \<Rightarrow> (machine, unit) py" where
  "restore_directory h source destination = seq (at_disk (mkdirs destination)) (
     bind_py (looks (\<lambda>fs. entries_below fs source)) (for_each (restore_entry h source destination)))"

definition restore_extracted :: "host_config \<Rightarrow> path \<Rightarrow> (machine, unit) py" where
  "restore_extracted h d =
     (let database = d @ [''var'', ''lib'', ''mnema'', ''mnema.db'']; config = d @ [''etc'', ''mnema'', ''config.yaml''];
          environment = d @ [''opt'', ''mnema'', ''.env'']; secrets = d @ [''etc'', ''mnema'', ''secrets''];
          session = d @ [''etc'', ''mnema'', ''icloud-session''] in
     bind_py (looks (\<lambda>fs. is_file fs database)) (\<lambda>has_db.
     seq (if has_db then bind_py (sqlite_healthy h database) (\<lambda>good.
            require good (RuntimeError ''configuration backup SQLite integrity failed'')) else ret ()) (
     bind_py (looks (\<lambda>fs. is_file fs config \<and> is_file fs environment)) (\<lambda>complete.
     seq (require complete (RuntimeError ''configuration backup is incomplete'')) (
     seq (copy_text h config (pa_config (hc_paths h))) (
     seq (copy_text h environment (environment_file (hc_paths h))) (
     seq (bind_py (looks (\<lambda>fs. if is_dir fs secrets then names_in fs secrets else [])) (for_each (restore_secret h secrets))) (
     bind_py (looks (\<lambda>fs. is_dir fs session)) (\<lambda>has_session.
     seq (if has_session then restore_directory h session (icloud_session_of (hc_paths h)) else ret ()) (
     bind_py (looks (\<lambda>fs. is_file fs database)) (\<lambda>still.
     if still then copy_to h database (database_of h) else ret ())))))))))))"

definition restore_config :: "host_config \<Rightarrow> path \<Rightarrow> (machine, unit) py" where
  "restore_config h source = seq (require_root h) (
     bind_py (looks (\<lambda>fs. is_file fs source)) (\<lambda>there.
     seq (require there (ValueError ''configuration backup does not exist'')) (
     bind_py (is_active h) (\<lambda>was_active.
     seq (if was_active then stop_services h else ret ()) (
     seq (with_lock h (with_directory h (\<lambda>d. bind_py (at_disk (read_bytes source)) (\<lambda>data.
            seq (safe_extract h data d) (restore_extracted h d))))) (
     if was_active then start_services h else ret ()))))))"

section \<open>Updates\<close>

definition beside_root :: "host_config \<Rightarrow> string \<Rightarrow> path" where
  "beside_root h name = with_name (pa_install_root (hc_paths h)) name"

definition staged_has :: "path \<Rightarrow> string \<Rightarrow> (machine, unit) py" where
  "staged_has staged required = bind_py (looks (\<lambda>fs. path_exists fs (staged @ [required]))) (\<lambda>there.
     require there (RuntimeError (''release archive is missing '' @ required)))"

definition image_tag :: "host_config \<Rightarrow> string \<Rightarrow> string \<Rightarrow> (machine, unit) py" where
  "image_tag h old new = command h [''docker'', ''tag'', old, new]"

text \<open>The release is unpacked, completed with the environment and the secrets, checked and built.\<close>

definition stage_release :: "host_config \<Rightarrow> bytes \<Rightarrow> string \<Rightarrow> path \<Rightarrow> (machine, unit) py" where
  "stage_release h data release staged =
     seq (safe_extract h data staged) (
     seq (for_each (staged_has staged) [''Dockerfile'', ''compose.yaml'', ''pyproject.toml'', ''src'']) (
     bind_py (looks (\<lambda>fs. is_file fs (environment_file (hc_paths h)))) (\<lambda>has_env.
     seq (if has_env then copy_over h (environment_file (hc_paths h)) (staged @ [''.env'']) else ret ()) (
     bind_py (looks (\<lambda>fs. path_exists fs (staged @ [''secrets'']))) (\<lambda>has_secrets.
     seq (if has_secrets then ret () else at_disk (symlink_to (staged @ [''secrets'']) (pa_secrets (hc_paths h)))) (
     seq (command h [''docker'', ''compose'', ''-f'', path_text (staged @ [''compose.yaml'']), ''config'', ''--quiet'']) (
     seq (image_tag h ''mnema:0.1.0'' (''mnema:rollback-'' @ release)) (
     seq (command h [''docker'', ''build'', ''--tag'', ''mnema:release-'' @ release, path_text staged])
       (image_tag h (''mnema:release-'' @ release) ''mnema:0.1.0'')))))))))"

definition undo_update :: "host_config \<Rightarrow> bool \<Rightarrow> string \<Rightarrow> (machine, unit) py" where
  "undo_update h was_active release =
     seq (at_disk (replace_tree (pa_install_root (hc_paths h)) (beside_root h (''mnema.failed-'' @ release)))) (
     seq (at_disk (replace_tree (beside_root h (''mnema.previous-'' @ release)) (pa_install_root (hc_paths h)))) (
     seq (image_tag h (''mnema:rollback-'' @ release) ''mnema:0.1.0'')
       (if was_active then start_rollback_stack h else ret ())))"

definition json_pairs :: "(string \<times> string) list \<Rightarrow> string" where
  "json_pairs kvs = CHR 0x7B # join '', '' (map (\<lambda>(k, v). json_string k @ '': '' @ json_string v) kvs) @ [CHR 0x7D]"

definition release_metadata :: "host_config \<Rightarrow> string \<Rightarrow> string" where
  "release_metadata h release = json_pairs [(''previous'', path_text (beside_root h (''mnema.previous-'' @ release))),
     (''release'', release), (''rollback_image'', ''mnema:rollback-'' @ release)] @ [CHR 0x0A]"

definition metadata_file :: "host_config \<Rightarrow> path" where
  "metadata_file h = pa_data_root (hc_paths h) @ [''previous-release.json'']"

definition install_staged :: "host_config \<Rightarrow> bool \<Rightarrow> string \<Rightarrow> path \<Rightarrow> (machine, unit) py" where
  "install_staged h was_active release staged =
     (let backup = pa_data_root (hc_paths h) @ [''backups'', ''mnema-config-pre-'' @ release @ ''.tar.gz''] in
     seq (if was_active then stop_services h else ret ()) (
     seq (at_disk (mkdirs (butlast backup))) (
     seq (host_backup h backup) (
     seq (at_disk (replace_tree (pa_install_root (hc_paths h)) (beside_root h (''mnema.previous-'' @ release)))) (
     seq (at_disk (replace_tree staged (pa_install_root (hc_paths h)))) (
     seq (try_py (if was_active then start_services h else ret ())
            (\<lambda>e. Some (seq (undo_update h was_active release) (raise_py e))))
       (write_text h (metadata_file h) (release_metadata h release))))))))"

section \<open>The command line of the new release\<close>

definition current_cli_target :: "host_config \<Rightarrow> machine \<Rightarrow> path option" where
  "current_cli_target h s = (case resolve_path (mc_disk s) True (pa_cli_link (hc_paths h)) of Inl _ \<Rightarrow> None
     | Inr q \<Rightarrow> Some (butlast (butlast q)))"

definition prune_cli :: "host_config \<Rightarrow> path list \<Rightarrow> (machine, unit) py" where
  "prune_cli h keep = at_disk (modify (\<lambda>fs.
     fold (\<lambda>name fs. let p = pa_cli_root (hc_paths h) @ [name] in
       if startswith name ''venv-'' \<and> is_dir fs p \<and> p \<notin> set keep then remove_tree p fs else fs)
     (names_in fs (pa_cli_root (hc_paths h))) fs))"

text \<open>The text of the failure itself follows in the message of the code.\<close>

definition refresh_failed :: "host_config \<Rightarrow> exn" where
  "refresh_failed h = RuntimeError (''the appliance was updated but the mnema command still runs the previous release; rerun ''
     @ path_text (pa_install_root (hc_paths h) @ [''scripts'', ''bootstrap-cli.sh'']))"

definition install_cli :: "host_config \<Rightarrow> string \<Rightarrow> path \<Rightarrow> (machine, path option) py" where
  "install_cli h release staged =
     (let python = path_text (staged @ [''bin'', ''python'']); launcher = staged @ [''bin'', ''mnema''];
          link = pa_cli_link (hc_paths h); temporary = with_name link (''.'' @ last link @ ''.'' @ release) in
     seq (command h [''python3'', ''-m'', ''venv'', path_text staged]) (
     seq (command h [python, ''-m'', ''pip'', ''install'', ''--upgrade'', ''pip==25.1.1'']) (
     seq (command h [python, ''-m'', ''pip'', ''install'', path_text (pa_install_root (hc_paths h))]) (
     bind_py (looks (\<lambda>fs. is_file fs launcher)) (\<lambda>there.
     seq (require there (RuntimeError ''refreshed CLI is missing its launcher'')) (
     bind_py (gets (current_cli_target h)) (\<lambda>previous.
     seq (at_disk (unlink_missing_ok temporary)) (
     seq (at_disk (symlink_to temporary launcher)) (
     seq (at_disk (os_replace temporary link)) (ret previous))))))))))"

definition refresh_cli :: "host_config \<Rightarrow> string \<Rightarrow> (machine, unit) py" where
  "refresh_cli h release =
     (let staged = pa_cli_root (hc_paths h) @ [''venv-'' @ release] in
     bind_py (looks (\<lambda>fs. is_dir fs (pa_cli_root (hc_paths h)))) (\<lambda>there.
     if \<not> there then ret () else
     seq (at_disk (modify (\<lambda>fs. if path_exists fs staged then remove_tree staged fs else fs))) (
     bind_py (try_py (install_cli h release staged)
       (\<lambda>e. Some (seq (at_disk (modify (remove_tree staged))) (raise_py (refresh_failed h))))) (\<lambda>previous.
     prune_cli h (staged # (case previous of None \<Rightarrow> [] | Some p \<Rightarrow> [p]))))))"

definition update_from_archive :: "host_config \<Rightarrow> path \<Rightarrow> string \<Rightarrow> (machine, string) py" where
  "update_from_archive h tarball expected = seq (require_root h) (
     bind_py (looks (\<lambda>fs. is_file fs tarball)) (\<lambda>there.
     seq (require there (ValueError ''release archive must be an existing absolute path'')) (
     bind_py (at_disk (sha256_file (hc_sha h) tarball)) (\<lambda>actual.
     seq (require (actual = lower expected) (ValueError ''release archive SHA-256 does not match'')) (
     let release = take 12 actual; previous = beside_root h (''mnema.previous-'' @ release) in
     bind_py (looks (\<lambda>fs. path_exists fs previous)) (\<lambda>taken.
     seq (require (\<not> taken) (ValueError (''rollback directory already exists: '' @ path_text previous))) (
     bind_py (is_active h) (\<lambda>was_active.
     seq (with_lock h (with_directory h (\<lambda>staged. bind_py (at_disk (read_bytes tarball)) (\<lambda>data.
            seq (stage_release h data release staged) (install_staged h was_active release staged))))) (
     seq (refresh_cli h release) (ret release))))))))))"

section \<open>Releases on GitHub\<close>

record github_release =
  gh_tag :: string
  gh_archive_url :: string
  gh_checksum_url :: string
  gh_digest :: string

definition repository_ok :: "string \<Rightarrow> bool" where
  "repository_ok s = (case split_on (CHR ''/'') s of [a, b] \<Rightarrow> a \<noteq> [] \<and> b \<noteq> [] \<and> list_all key_char a \<and> list_all key_char b
     | _ \<Rightarrow> False)"

text \<open>\<open>v?[0-9][A-Za-z0-9._-]*\<close> and \<open>sha256:[0-9a-f]{64}\<close>\<close>

definition tag_ok :: "string \<Rightarrow> bool" where
  "tag_ok s = (case (if startswith s ''v'' then tl s else s) of [] \<Rightarrow> False | c # r \<Rightarrow> is_digit c \<and> list_all key_char r)"

definition hex_digit :: "char \<Rightarrow> bool" where
  "hex_digit c = (is_digit c \<or> c \<in> set ''abcdef'')"

definition sha256_text :: "string \<Rightarrow> bool" where
  "sha256_text s = (length s = 64 \<and> list_all hex_digit s)"

definition approved_url :: "host_config \<Rightarrow> string \<Rightarrow> exn + bool" where
  "approved_url h url = bind_sum (urlsplit (hc_brackets h) url) (\<lambda>u.
     let host = (case url_hostname u of None \<Rightarrow> [] | Some n \<Rightarrow> n) in
     if us_scheme u \<noteq> ''https'' \<or> has_credentials u then Inr False
     else bind_sum (url_port u) (\<lambda>port.
       Inr (port = None \<and> (host \<in> {''api.github.com'', ''github.com''} \<or> endswith host ''.githubusercontent.com''))))"

definition download_https :: "host_config \<Rightarrow> string \<Rightarrow> path \<Rightarrow> nat \<Rightarrow> string option \<Rightarrow> (machine, unit) py" where
  "download_https h url destination max_bytes accept = bind_py (lift_sum (approved_url h url)) (\<lambda>good.
     seq (require good (RuntimeError ''release URL is not an approved GitHub HTTPS endpoint'')) (
     seq (command h ([''curl'', ''--fail'', ''--location'', ''--silent'', ''--show-error'', ''--proto'', ''=https'', ''--tlsv1.2'',
            ''--max-filesize'', dec max_bytes, ''--output'', path_text destination]
          @ (case accept of None \<Rightarrow> [] | Some a \<Rightarrow> [''--header'', ''Accept: '' @ a]) @ [url])) (
     bind_py (looks (\<lambda>fs. is_file fs destination \<and> \<not> is_symlink fs destination)) (\<lambda>plain.
     seq (require plain (RuntimeError ''release download did not produce a regular file'')) (
     bind_py (at_disk (stat_size destination)) (\<lambda>size.
     require (0 < size \<and> size \<le> max_bytes) (RuntimeError ''release download size is invalid'')))))))"

definition ascii_text :: "json option \<Rightarrow> string option" where
  "ascii_text v = (case v of Some (JText t) \<Rightarrow> if list_all (\<lambda>n. n < 128) t then Some (map char_of t) else None | _ \<Rightarrow> None)"

text \<open>Among assets of one name the last counts.\<close>

definition asset_named :: "json list \<Rightarrow> string \<Rightarrow> json option" where
  "asset_named listed name = find (\<lambda>v. json_item v ''name'' = Some (JText (cps name))) (rev listed)"

text \<open>A URL with other than ASCII characters is kept by the code and refused only by the download.\<close>

definition release_of :: "json \<Rightarrow> exn + github_release" where
  "release_of v =
     (if \<not> is_object v then Inl (RuntimeError ''GitHub release metadata is invalid'')
      else case ascii_text (json_item v ''tag_name'') of None \<Rightarrow> Inl (RuntimeError ''GitHub release tag is invalid'')
      | Some tag \<Rightarrow>
        if \<not> tag_ok tag then Inl (RuntimeError ''GitHub release tag is invalid'')
        else case json_item v ''assets'' of
          Some (JList listed) \<Rightarrow>
            (case (asset_named listed ''mnema-release.tar.gz'', asset_named listed ''mnema-release.tar.gz.sha256'') of
               (Some tarball, Some checksum) \<Rightarrow>
                 (case (ascii_text (json_item tarball ''browser_download_url''), ascii_text (json_item checksum ''browser_download_url''),
                        ascii_text (json_item tarball ''digest'')) of
                    (Some a, Some c, Some digest) \<Rightarrow>
                      if startswith digest ''sha256:'' \<and> sha256_text (drop 7 digest)
                      then Inr \<lparr>gh_tag = tag, gh_archive_url = a, gh_checksum_url = c, gh_digest = drop 7 digest\<rparr>
                      else Inl (RuntimeError ''latest release lacks a valid GitHub SHA-256 digest'')
                  | _ \<Rightarrow> Inl (RuntimeError ''latest release lacks a valid GitHub SHA-256 digest''))
             | _ \<Rightarrow> Inl (RuntimeError ''latest release lacks Mnema archive or checksum asset''))
        | _ \<Rightarrow> Inl (RuntimeError ''GitHub release assets are missing''))"

definition latest_github_release :: "host_config \<Rightarrow> string \<Rightarrow> (machine, github_release) py" where
  "latest_github_release h repository =
     seq (require (repository_ok repository) (ValueError ''GitHub repository must use owner/name syntax'')) (
     bind_py (with_directory h (\<lambda>d. let file = d @ [''release.json''] in
       seq (download_https h (''https://api.github.com/repos/'' @ repository @ ''/releases/latest'') file (2 * 1024 * 1024)
              (Some ''application/vnd.github+json''))
       (bind_py (at_disk (read_bytes file)) (\<lambda>b. bind_py (lift_sum (text_cps b)) (\<lambda>t.
        case json_loads t of None \<Rightarrow> raise_py (ValueError ''JSONDecodeError'') | Some v \<Rightarrow> ret v)))))
     (\<lambda>v. lift_sum (release_of v)))"

text \<open>The checksum file: a digest, two blanks and the name of the archive.\<close>

definition checksum_of :: "string \<Rightarrow> string option" where
  "checksum_of line = (if sha256_text (take 64 line) \<and> drop 64 line = ''  mnema-release.tar.gz'' then Some (take 64 line) else None)"

definition agreed_digest :: "github_release \<Rightarrow> bytes \<Rightarrow> exn + string" where
  "agreed_digest r b =
     (if \<not> list_all (\<lambda>c. of_char c < (128 :: nat)) b then Inl (ValueError ''UnicodeDecodeError'')
      else case checksum_of (strip b) of None \<Rightarrow> Inl (RuntimeError ''release checksum asset is malformed'')
      | Some expected \<Rightarrow> if expected \<noteq> gh_digest r then Inl (RuntimeError ''publisher checksum and GitHub digest disagree'')
          else Inr expected)"

definition update_from_latest_release :: "host_config \<Rightarrow> string \<Rightarrow> (machine, string \<times> string) py" where
  "update_from_latest_release h repository = seq (require_root h) (
     bind_py (latest_github_release h repository) (\<lambda>latest.
     bind_py (with_directory h (\<lambda>d.
       let tarball = d @ [''mnema-release.tar.gz'']; checksum = d @ [''mnema-release.tar.gz.sha256''] in
       seq (download_https h (gh_archive_url latest) tarball (1024 * 1024 * 1024) None) (
       seq (download_https h (gh_checksum_url latest) checksum 4096 None) (
       bind_py (at_disk (read_bytes checksum)) (\<lambda>b.
       bind_py (lift_sum (agreed_digest latest b)) (\<lambda>expected.
       bind_py (looks (\<lambda>fs. resolve_path fs False tarball)) (\<lambda>r.
       bind_py (lift_sum r) (\<lambda>path. update_from_archive h path expected)))))))) (\<lambda>release.
     ret (gh_tag latest, release))))"

section \<open>Rollback\<close>

definition text_or :: "host_config \<Rightarrow> json \<Rightarrow> string \<Rightarrow> string \<Rightarrow> exn + string" where
  "text_or h v k other = (case json_item v k of None \<Rightarrow> Inr other | Some (JText t) \<Rightarrow> utf8_text t | Some x \<Rightarrow> Inr (hc_str h x))"

definition rollback_metadata :: "host_config \<Rightarrow> (machine, path \<times> string \<times> string) py" where
  "rollback_metadata h =
     bind_py (looks (\<lambda>fs. is_file fs (metadata_file h))) (\<lambda>there.
     seq (require there (RuntimeError ''no previous release metadata exists'')) (
     bind_py (at_disk (read_bytes (metadata_file h))) (\<lambda>b. bind_py (lift_sum (text_cps b)) (\<lambda>t.
     case json_loads t of None \<Rightarrow> raise_py (ValueError ''JSONDecodeError'')
     | Some v \<Rightarrow>
       seq (require (is_object v) (RuntimeError ''previous release metadata is invalid'')) (
       bind_py (lift_sum (text_or h v ''previous'' [])) (\<lambda>previous.
       bind_py (lift_sum (text_or h v ''rollback_image'' [])) (\<lambda>image.
       bind_py (lift_sum (text_or h v ''release'' ''unknown'')) (\<lambda>release.
       bind_py (looks (\<lambda>fs. is_absolute previous \<and> parts previous \<noteq> []
           \<and> butlast (parts previous) = butlast (pa_install_root (hc_paths h))
           \<and> startswith (last (parts previous)) ''mnema.previous-'' \<and> is_dir fs (parts previous)
           \<and> startswith image ''mnema:rollback-'')) (\<lambda>safe.
       seq (require safe (RuntimeError ''previous release metadata contains unsafe values''))
         (ret (parts previous, image, release)))))))))))"

definition undo_rollback :: "host_config \<Rightarrow> bool \<Rightarrow> path \<Rightarrow> path \<Rightarrow> (machine, unit) py" where
  "undo_rollback h was_active previous failed =
     seq (at_disk (replace_tree (pa_install_root (hc_paths h)) previous)) (
     seq (at_disk (replace_tree failed (pa_install_root (hc_paths h))))
       (if was_active then start_rollback_stack h else ret ()))"

definition rollback_release :: "host_config \<Rightarrow> (machine, string) py" where
  "rollback_release h = seq (require_root h) (bind_py (rollback_metadata h) (\<lambda>(previous, image, release).
     let failed = beside_root h (''mnema.rolled-back-'' @ release) in
     seq (require (CHR ''/'' \<notin> set release) (ValueError ''Invalid name'')) (
     bind_py (looks (\<lambda>fs. path_exists fs failed)) (\<lambda>taken.
     seq (require (\<not> taken) (RuntimeError (''rollback target already exists: '' @ path_text failed))) (
     bind_py (is_active h) (\<lambda>was_active.
     seq (with_lock h (
       seq (if was_active then stop_services h else ret ()) (
       seq (at_disk (replace_tree (pa_install_root (hc_paths h)) failed)) (
       seq (at_disk (replace_tree previous (pa_install_root (hc_paths h)))) (
       seq (image_tag h image ''mnema:0.1.0'') (
       seq (try_py (if was_active then start_services h else ret ())
              (\<lambda>e. Some (seq (undo_rollback h was_active previous failed) (raise_py e))))
         (at_disk (unlink (metadata_file h)))))))))
       (ret release)))))))"

end
