(* ===== verification/Host_Proofs.thy ===== *)
theory Host_Proofs
  imports Host_Release
begin

text \<open>
  What the administration of the host promises: a configuration that cannot be saved leaves the old files in place,
  a start that fails is followed by a stop, an archive with another digest than the expected one is not touched, and a
  release from GitHub is installed under the digest GitHub gives for it.
\<close>

section \<open>Files in plain directories\<close>

text \<open>A path whose directories exist, without links, and that holds a regular file or nothing.\<close>

definition spot :: "fsys \<Rightarrow> path \<Rightarrow> bool" where
  "spot fs p \<longleftrightarrow> p \<noteq> [] \<and> ''..'' \<notin> set p \<and> dirs_to fs p \<and> (node_at fs p = None \<or> is_reg (node_at fs p))"

lemma is_reg_iff: "is_reg n \<longleftrightarrow> (\<exists>b i m. n = Some (File b i m))"
  by (auto simp: is_reg_def split: option.splits node.splits)

lemma spot_canonical: "spot fs p \<Longrightarrow> canonical fs p"
  unfolding canonical_def spot_def dirs_to_def by (auto simp: is_reg_iff is_link_def le_less)

lemma spot_parent:
  assumes "spot fs p"
  shows "parent_dir fs p = Inr (butlast p)" "node_at fs (butlast p) = Some Dir" "dirs_to fs (butlast p)" "canonical fs (butlast p)"
proof -
  have p: "p \<noteq> []" "dirs_to fs p" using assms by (simp_all add: spot_def)
  show can: "canonical fs (butlast p)" using spot_canonical [OF assms] by (rule canonical_butlast)
  show "parent_dir fs p = Inr (butlast p)" using parent_dir_canonical [OF can p(1)] p(2) by simp
  show "node_at fs (butlast p) = Some Dir" "dirs_to fs (butlast p)"
    using dirs_to_snoc [of fs "butlast p" "last p"] p by simp_all
qed

lemma spot_content: "spot fs p \<Longrightarrow> content fs p = (case node_at fs p of Some (File b _ _) \<Rightarrow> Some b | _ \<Rightarrow> None)"
  using spot_canonical content_File by (simp add: spot_def)

lemma spot_change:
  assumes "spot fs p" "\<And>q. node_at fs q = Some Dir \<Longrightarrow> node_at fs' q = Some Dir" "node_at fs' p = None \<or> is_reg (node_at fs' p)"
  shows "spot fs' p"
  using assms dirs_to_change [of fs p fs'] by (simp add: spot_def)

lemma mkdirs_from_there:
  "canonical fs (acc @ cs) \<Longrightarrow> dirs_to fs (acc @ cs) \<Longrightarrow> node_at fs (acc @ cs) = Some Dir \<Longrightarrow> mkdirs_from acc cs fs = (Inr (), fs)"
proof (induction cs arbitrary: acc)
  case (Cons c cs)
  have can: "canonical fs (acc @ [c])" using Cons.prems(1) canonical_prefix [of fs "acc @ [c]" cs] by simp
  have dirs: "dirs_to fs (acc @ [c])" using Cons.prems(2) dirs_to_prefix [of fs "acc @ [c]" cs] by simp
  have "node_at fs (acc @ [c]) = Some Dir"
  proof (cases cs)
    case (Cons d ds)
    have "dirs_to fs ((acc @ [c]) @ [d])" using Cons.prems(2) dirs_to_prefix [of fs "acc @ [c, d]" ds] Cons by simp
    then show ?thesis by (simp only: dirs_to_snoc)
  qed (use Cons.prems(3) in simp)
  then have "follow fs (acc @ [c]) = Some Dir" using follow_canonical [OF can] dirs by simp
  with Cons show ?case by simp
qed simp

lemma atomic_write_spot:
  assumes p: "spot fs p" and tag: "tag \<noteq> []" "node_at fs (temporary_of p tag) = None"
  obtains fs' i where "atomic_write_bytes tag t p b fs = (Inr (), fs')"
    "\<And>q. node_at fs' q = (if q = p then Some (File b i t) else node_at fs q)"
proof -
  let ?q = "temporary_of p tag" and ?n = "File b (fresh_inode fs) t"
  note q = temporary_facts [OF tag(1), of p]
  note up = spot_parent [OF p]
  have pne: "p \<noteq> []" using p by (simp add: spot_def)
  have mk: "mkdirs (butlast p) fs = (Inr (), fs)"
    unfolding mkdirs_def using mkdirs_from_there [of fs "[]" "butlast p"] up by simp
  have tq: "butlast p @ [last ?q] = ?q" using q(1,2) append_butlast_last_id by metis
  have tp: "butlast p @ [last p] = p" using pne by simp
  have pq: "parent_dir fs ?q = Inr (butlast p)"
    using up(1) by (simp add: parent_dir_def q(1))
  define fs1 where "fs1 = set_node ?q ?n fs"
  have wr: "write_new ?q b t fs = (Inr (), fs1)" by (simp add: write_new_def pq tq tag(2) fs1_def)
  have n1: "node_at fs1 x = (if x = ?q then Some ?n else node_at fs x)" for x using q(2) by (simp add: fs1_def)
  have spot1: "spot fs1 p"
    by (rule spot_change [OF p]) (use p q(4) [OF pne] tag(2) in \<open>auto simp: n1 spot_def\<close>)
  note up1 = spot_parent [OF spot1]
  have pq1: "parent_dir fs1 ?q = Inr (butlast p)" using up1(1) by (simp add: parent_dir_def q(1))
  define fs2 where "fs2 = set_node p ?n (del_node ?q fs1)"
  have nd: "node_at fs p \<noteq> Some Dir" using p by (auto simp: spot_def is_reg_iff)
  have ne: "?q \<noteq> p" using q(4) [OF pne] .
  have rep: "os_replace ?q p fs1 = (Inr (), fs2)"
    using nd ne by (simp add: os_replace_def pq1 up1(1) tq tp n1 fs2_def)
  have n2: "node_at fs2 x = (if x = p then Some ?n else node_at fs x)" for x
    using q(2) pne tag(2) ne by (simp add: fs2_def n1)
  have spot2: "spot fs2 p"
    by (rule spot_change [OF p]) (use nd in \<open>auto simp: n2 is_reg_def\<close>)
  have pq2: "parent_dir fs2 ?q = Inr (butlast p)" using spot_parent(1) [OF spot2] by (simp add: parent_dir_def q(1))
  have un: "unlink_missing_ok ?q fs2 = (Inr (), fs2)"
    using ne by (simp add: unlink_missing_ok_def try_py_def unlink_def pq2 tq n2 tag(2) Let_def)
  have "atomic_write_bytes tag t p b fs = (Inr (), fs2)"
    by (simp add: atomic_write_bytes_def seq_def mk wr try_finally_def rep un)
  then show thesis using that n2 by blast
qed

lemma unlink_spot:
  assumes p: "spot fs p"
  obtains fs' where "unlink_missing_ok p fs = (Inr (), fs')" "\<And>q. node_at fs' q = (if q = p then None else node_at fs q)"
proof (cases "node_at fs p")
  case None
  have "butlast p @ [last p] = p" using p by (simp add: spot_def)
  with None have "unlink_missing_ok p fs = (Inr (), fs)"
    by (simp add: unlink_missing_ok_def try_py_def unlink_def spot_parent(1) [OF p] Let_def)
  then show thesis using that None by simp
next
  case (Some n)
  have tp: "p \<noteq> []" "butlast p @ [last p] = p" using p by (simp_all add: spot_def)
  from p Some obtain b i m where "n = File b i m" by (auto simp: spot_def is_reg_iff)
  with Some tp have "unlink_missing_ok p fs = (Inr (), del_node p fs)"
    by (simp add: unlink_missing_ok_def try_py_def unlink_def spot_parent(1) [OF p] Let_def)
  then show thesis using that tp(1) by simp
qed

section \<open>Saving a configuration\<close>

text \<open>Two disks that differ in some files only.\<close>

definition apart :: "path set \<Rightarrow> fsys \<Rightarrow> fsys \<Rightarrow> bool" where
  "apart ps fs0 fs \<longleftrightarrow> (\<forall>q. q \<notin> ps \<longrightarrow> node_at fs q = node_at fs0 q) \<and> (\<forall>p \<in> ps. node_at fs p = None \<or> is_reg (node_at fs p))"

lemma apart_spot:
  assumes "apart ps fs0 fs" "\<forall>p \<in> ps. spot fs0 p" "p \<in> ps"
  shows "spot fs p"
proof (rule spot_change)
  show "spot fs0 p" using assms(2,3) by blast
  show "node_at fs q = Some Dir" if "node_at fs0 q = Some Dir" for q
  proof -
    have "q \<notin> ps" using assms(2) that by (auto simp: spot_def is_reg_iff)
    with assms(1) that show ?thesis by (simp add: apart_def)
  qed
  show "node_at fs p = None \<or> is_reg (node_at fs p)" using assms(1,3) by (simp add: apart_def)
qed

lemma apart_put: "apart ps fs0 fs \<Longrightarrow> p \<in> ps \<Longrightarrow> (\<And>q. node_at fs' q = (if q = p then n else node_at fs q)) \<Longrightarrow>
    n = None \<or> is_reg n \<Longrightarrow> apart ps fs0 fs'"
  by (auto simp: apart_def)

text \<open>
  Commands that leave the disk alone, and temporary names that are not taken, as \<open>mkstemp\<close> documents them.
\<close>

definition steady :: "host_config \<Rightarrow> bool" where
  "steady h \<longleftrightarrow> (\<forall>log args fs. snd (hc_run h log args fs) = fs)
     \<and> (\<forall>fs p. hc_tag h fs p \<noteq> [] \<and> node_at fs (temporary_of p (hc_tag h fs p)) = None)"

abbreviation disk_is :: "(fsys \<Rightarrow> bool) \<Rightarrow> machine \<Rightarrow> bool" where
  "disk_is P s \<equiv> P (mc_disk s)"

lemma keeps_looks [hoare_rules]: "keeps P (looks f)"
  by (simp add: looks_def keeps_gets)

lemma keeps_require_root [hoare_rules]: "keeps P (require_root h)"
  by (simp add: require_root_def keeps_require)

lemma keeps_at_disk: "keeps P m \<Longrightarrow> keeps (disk_is P) (at_disk m)"
  by (auto simp: keeps_def at_disk_def split: prod.split)

lemma keeps_read [hoare_rules]: "keeps (disk_is P) (at_disk (read_bytes p))"
  by (rule keeps_at_disk) (simp add: keeps_def)

lemma run_command_disk:
  assumes "steady h" shows "mc_disk (snd (run_command h must args s)) = mc_disk s"
proof -
  obtain r d where run: "hc_run h (mc_log s) args (mc_disk s) = (r, d)" by (rule prod.exhaust)
  with assms have "d = mc_disk s" unfolding steady_def by (metis snd_conv)
  with run show ?thesis by (cases r) (auto simp: run_command_def Let_def)
qed

lemma keeps_run_command [hoare_rules]: "steady h \<Longrightarrow> keeps (disk_is P) (run_command h must args)"
  by (simp add: keeps_def run_command_disk)

lemma keeps_host_config [hoare_rules]: "keeps (disk_is P) (host_config_of h)"
  unfolding host_config_of_def by (intro hoare_rules)

lemmas service_defs = command_def attempt_command_def is_active_def stop_services_def restart_services_def runtime_command_def
  apply_runtime_policy_def verify_services_def Let_def

lemma keeps_wait [hoare_rules]: "steady h \<Longrightarrow> keeps (disk_is P) (wait_for_health h n)"
proof (induction n)
  case 0
  then show ?case by (subst wait_for_health.simps) (auto intro!: hoare_rules split: prod.split)
next
  case (Suc n)
  then show ?case by (subst wait_for_health.simps) (auto intro!: hoare_rules split: prod.split)
qed

lemma keeps_services [hoare_rules]:
  assumes "steady h"
  shows "keeps (disk_is P) (command h args)" "keeps (disk_is P) (attempt_command h args)" "keeps (disk_is P) (is_active h)"
    "keeps (disk_is P) (stop_services h)" "keeps (disk_is P) (restart_services h)" "keeps (disk_is P) (runtime_command h c)"
    "keeps (disk_is P) (apply_runtime_policy h a)" "keeps (disk_is P) (verify_services h a)"
  using assms unfolding service_defs by (auto intro!: hoare_rules split: prod.split)

lemma keeps_checks [hoare_rules]:
  assumes "steady h"
  shows "keeps (disk_is P) (validate_host h a)" "keeps (disk_is P) (go_live h previous a)" "keeps (disk_is P) (reconcile_timer h a)"
  using assms unfolding validate_host_def check_mount_def find_uuid_def go_live_def reconcile_timer_def Let_def
  by (auto intro!: hoare_rules split: prod.split)

text \<open>One file of a set is written: the rest of the disk stays.\<close>

lemma write_text_spot:
  assumes "steady h" "spot (mc_disk s) p"
  obtains s' i where "write_text h p b s = (Inr (), s')"
    "\<And>q. node_at (mc_disk s') q = (if q = p then Some (File b i (hc_time h)) else node_at (mc_disk s) q)"
proof -
  have "hc_tag h (mc_disk s) p \<noteq> []" "node_at (mc_disk s) (temporary_of p (hc_tag h (mc_disk s) p)) = None"
    using assms(1) by (simp_all add: steady_def)
  from atomic_write_spot [OF assms(2) this, of "hc_time h" b] obtain fs' i where
    "atomic_write_bytes (hc_tag h (mc_disk s) p) (hc_time h) p b (mc_disk s) = (Inr (), fs')"
    "\<And>q. node_at fs' q = (if q = p then Some (File b i (hc_time h)) else node_at (mc_disk s) q)" by metis
  then show thesis by (intro that [of "s\<lparr>mc_disk := fs'\<rparr>" i]) (simp_all add: write_text_def at_disk_def)
qed

text \<open>A disk that differs from the one before in files of \<open>ps\<close> only, those of \<open>fixed\<close> excepted.\<close>

definition restored :: "path set \<Rightarrow> fsys \<Rightarrow> path set \<Rightarrow> fsys \<Rightarrow> bool" where
  "restored ps fs0 fixed fs \<longleftrightarrow> apart ps fs0 fs \<and> (\<forall>p \<in> fixed. content fs p = content fs0 p)"

lemma restored_put:
  assumes r: "restored ps fs0 fixed fs" and ps: "\<forall>p \<in> ps. spot fs0 p" "p \<in> ps" "fixed \<subseteq> ps"
    and new: "\<And>q. node_at fs' q = (if q = p then n else node_at fs q)"
    and n: "(case n of Some (File b _ _) \<Rightarrow> Some b | _ \<Rightarrow> None) = content fs0 p" "n = None \<or> is_reg n"
  shows "restored ps fs0 (insert p fixed) fs'"
proof -
  have a: "apart ps fs0 fs" using r by (simp add: restored_def)
  have a': "apart ps fs0 fs'" using apart_put [OF a ps(2) new n(2)] .
  have "content fs' q = content fs0 q" if q: "q \<in> insert p fixed" for q
  proof -
    have qs: "q \<in> ps" using q ps by auto
    have c: "content fs' q = (case node_at fs' q of Some (File b _ _) \<Rightarrow> Some b | _ \<Rightarrow> None)"
      by (rule spot_content [OF apart_spot [OF a' ps(1) qs]])
    show ?thesis
    proof (cases "q = p")
      case True
      with c n(1) new show ?thesis by simp
    next
      case False
      have "content fs q = content fs0 q" using False q r by (auto simp: restored_def)
      moreover have "content fs q = (case node_at fs q of Some (File b _ _) \<Rightarrow> Some b | _ \<Rightarrow> None)"
        by (rule spot_content [OF apart_spot [OF a ps(1) qs]])
      ultimately show ?thesis using c False new by simp
    qed
  qed
  with a' show ?thesis by (simp add: restored_def)
qed

lemma keeps_save_text:
  assumes "steady h" "\<forall>p \<in> ps. spot fs0 p" "p \<in> ps"
  shows "keeps (disk_is (apart ps fs0)) (write_text h p b)"
proof (rule keepsI)
  fix s :: machine assume a: "apart ps fs0 (mc_disk s)"
  from write_text_spot [OF assms(1) apart_spot [OF a assms(2,3)], of b] obtain s' i where
    "write_text h p b s = (Inr (), s')" "\<And>q. node_at (mc_disk s') q = (if q = p then Some (File b i (hc_time h)) else node_at (mc_disk s) q)"
    by metis
  with apart_put [OF a assms(3)] show "apart ps fs0 (mc_disk (snd (write_text h p b s)))" by (simp add: is_reg_def)
qed

lemma keeps_save_body:
  assumes "steady h" "\<forall>p \<in> ps. spot fs0 p" "set (managed_files h) \<subseteq> ps" "fst ` set updates \<subseteq> ps"
  shows "keeps (disk_is (apart ps fs0)) (save_body h previous a updates)"
proof -
  have w: "keeps (disk_is (apart ps fs0)) (write_text h p b)" if "p \<in> ps" for p b
    using keeps_save_text [OF assms(1,2) that] .
  have m: "pa_config (hc_paths h) \<in> ps" "environment_file (hc_paths h) \<in> ps" "icloud_service (hc_paths h) \<in> ps"
    "icloud_timer (hc_paths h) \<in> ps"
    using assms(3) by (simp_all add: managed_files_def)
  have u: "keeps (disk_is (apart ps fs0)) (for_each (\<lambda>(p, b). write_text h p b) updates)"
    using assms(4) by (intro keeps_for_each) (auto intro!: w)
  show ?thesis
    unfolding save_body_def write_icloud_units_def using assms(1) m by (auto intro!: hoare_rules w u)
qed

lemma restore_file_back:
  assumes h: "steady h" and ps: "\<forall>p \<in> ps. spot fs0 p" "p \<in> ps" "fixed \<subseteq> ps"
    and r: "restored ps fs0 fixed (mc_disk s)"
  obtains e where "restore_file h (p, content fs0 p) s = (Inl e, s)" "\<exists>b. content fs0 p = Some b \<and> utf8_decode (map of_char b) = None"
    | s' where "restore_file h (p, content fs0 p) s = (Inr (), s')" "restored ps fs0 (insert p fixed) (mc_disk s')"
proof -
  have spot: "spot (mc_disk s) p" using r ps by (auto simp: restored_def intro: apart_spot)
  show thesis
  proof (cases "content fs0 p")
    case None
    from unlink_spot [OF spot] obtain fs' where fs': "unlink_missing_ok p (mc_disk s) = (Inr (), fs')"
      "\<And>q. node_at fs' q = (if q = p then None else node_at (mc_disk s) q)" by metis
    have "restored ps fs0 (insert p fixed) fs'" by (rule restored_put [OF r ps(1-3) fs'(2)]) (simp_all add: None)
    with fs'(1) None show thesis by (intro that(2) [of "s\<lparr>mc_disk := fs'\<rparr>"]) (simp_all add: restore_file_def at_disk_def)
  next
    case (Some b)
    show thesis
    proof (cases "utf8_decode (map of_char b) :: nat list option")
      case None
      with Some show thesis by (intro that(1)) (auto simp: restore_file_def seq_def)
    next
      case (Some t)
      from write_text_spot [OF h spot, of b] obtain s' i where s': "write_text h p b s = (Inr (), s')"
        "\<And>q. node_at (mc_disk s') q = (if q = p then Some (File b i (hc_time h)) else node_at (mc_disk s) q)" by metis
      have "restored ps fs0 (insert p fixed) (mc_disk s')"
        by (rule restored_put [OF r ps(1-3) s'(2)]) (simp_all add: \<open>content fs0 p = Some b\<close> is_reg_def)
      with s'(1) Some \<open>content fs0 p = Some b\<close> show thesis by (intro that(2) [of s']) (simp_all add: restore_file_def seq_def)
    qed
  qed
qed

lemma keeps_restored:
  assumes "steady h" "\<forall>p \<in> ps. spot fs0 p" "p \<in> ps" "fixed \<subseteq> ps"
  shows "keeps (disk_is (restored ps fs0 fixed)) (restore_file h (p, content fs0 p))"
proof (rule keepsI)
  fix s :: machine assume "restored ps fs0 fixed (mc_disk s)"
  note r = this
  show "restored ps fs0 fixed (mc_disk (snd (restore_file h (p, content fs0 p) s)))"
    by (rule restore_file_back [of h ps fs0 p fixed s, OF assms r]) (use r in \<open>simp_all add: restored_def\<close>)
qed

lemma restore_files_back:
  assumes "steady h" "\<forall>p \<in> ps. spot fs0 p"
    and "set l \<subseteq> ps" "fixed \<subseteq> ps" "restored ps fs0 fixed (mc_disk s)"
    and "\<forall>p \<in> set l. \<forall>b. content fs0 p = Some b \<longrightarrow> (utf8_decode (map of_char b) :: nat list option) \<noteq> None"
  shows "\<exists>s'. for_each (restore_file h) (map (\<lambda>p. (p, content fs0 p)) l) s = (Inr (), s')
    \<and> restored ps fs0 (fixed \<union> set l) (mc_disk s')"
  using assms(3-6)
proof (induction l arbitrary: fixed s)
  case (Cons p l)
  have p: "p \<in> ps" using Cons.prems(1) by simp
  show ?case
  proof (rule restore_file_back [of h ps fs0 p fixed s, OF assms(1,2) p Cons.prems(2,3)], goal_cases)
    case (1 e)
    with Cons.prems(4) show ?case by fastforce
  next
    case (2 s1)
    have sub: "set l \<subseteq> ps" "insert p fixed \<subseteq> ps" using Cons.prems(1,2) by simp_all
    have "\<forall>p \<in> set l. \<forall>b. content fs0 p = Some b \<longrightarrow> (utf8_decode (map of_char b) :: nat list option) \<noteq> None"
      using Cons.prems(4) by simp
    from Cons.IH [OF sub 2(2) this] obtain s' where
      "for_each (restore_file h) (map (\<lambda>p. (p, content fs0 p)) l) s1 = (Inr (), s')"
      "restored ps fs0 (insert p fixed \<union> set l) (mc_disk s')" by blast
    with 2(1) show ?case by (simp add: seq_def)
  qed
qed simp

text \<open>What is kept of the files before: their content.\<close>

lemma keep_bytes_run: "keep_bytes p s = (Inr (p, content (mc_disk s) p), s)"
  by (cases "content (mc_disk s) p")
    (simp_all add: keep_bytes_def previous_bytes_def looks_def is_file_content at_disk_def bind_py_def read_bytes_Some)

lemma keep_all: "map_py keep_bytes l s = (Inr (map (\<lambda>p. (p, content (mc_disk s) p)) l), s)"
  by (induction l) (simp_all add: keep_bytes_run bind_py_def)

lemma keep_secret_run: "keep_secret h u s = (if butlast (fst u) = pa_secrets (hc_paths h) \<and> fst u \<noteq> []
    then (Inr (fst u, content (mc_disk s) (fst u)), s)
    else (Inl (ValueError ''secret updates must remain beneath Mnema secret root''), s))"
  by (simp add: keep_secret_def seq_def bind_py_def require_def keep_bytes_run)

lemma keep_secrets: "map_py (keep_secret h) l s = (r, s') \<Longrightarrow> s' = s \<and>
    (\<forall>k. r = Inr k \<longrightarrow> k = map (\<lambda>u. (fst u, content (mc_disk s) (fst u))) l)"
proof (induction l arbitrary: r s')
  case (Cons u l)
  obtain r1 s1 where m: "map_py (keep_secret h) l s = (r1, s1)" by (rule prod.exhaust)
  from Cons.IH [OF m] Cons.prems m show ?case by (cases r1) (auto simp: bind_py_def keep_secret_run [of h u] split: if_splits)
qed simp

section \<open>Restored after a failure\<close>

lemma keeps_undo:
  assumes h: "steady h" and ps: "\<forall>p \<in> ps. spot fs0 p" "fixed \<subseteq> ps" "set l \<subseteq> ps"
  shows "keeps (disk_is (restored ps fs0 fixed)) (for_each (restore_file h) (map (\<lambda>p. (p, content fs0 p)) l))"
  using ps(3) keeps_restored [OF h ps(1) _ ps(2)] by (intro keeps_for_each) auto

lemma undo_save_restores:
  assumes h: "steady h" and ps: "\<forall>p \<in> ps. spot fs0 p" "set l \<subseteq> ps" "set k \<subseteq> ps"
    and d: "apart ps fs0 (mc_disk s)"
    and utf8: "\<forall>p \<in> set l. \<forall>b. content fs0 p = Some b \<longrightarrow> (utf8_decode (map of_char b) :: nat list option) \<noteq> None"
    and run: "undo_save h (map (\<lambda>p. (p, content fs0 p)) l) (map (\<lambda>p. (p, content fs0 p)) k) s = (r, t)"
  shows "restored ps fs0 (set l) (mc_disk t)"
proof -
  let ?P = "disk_is (restored ps fs0 (set l))"
  have "restored ps fs0 {} (mc_disk s)" using d by (simp add: restored_def)
  from restore_files_back [OF h ps(1,2) empty_subsetI this utf8] obtain s1 where s1:
    "for_each (restore_file h) (map (\<lambda>p. (p, content fs0 p)) l) s = (Inr (), s1)" "?P s1" by auto
  have rest: "keeps ?P (seq (attempt_command h [''systemctl'', ''daemon-reload'']) (
     seq (for_each (restore_file h) (map (\<lambda>p. (p, content fs0 p)) k)) (
     bind_py (is_active h) (\<lambda>active.
     if \<not> active then ret () else
     seq (restart_services h) (
     bind_py (looks (\<lambda>fs. is_file fs (pa_config (hc_paths h)))) (\<lambda>there.
     if there then bind_py (host_config_of h) (apply_runtime_policy h) else ret ()))))))"
    by (intro hoare_rules keeps_undo h ps)
  from keepsD [OF rest s1(2)] run s1(1) show ?thesis by (simp add: undo_save_def seq_def [of "for_each _ (map _ l)"] bind_py_def)
qed


text \<open>A configuration the container engine refuses is never saved.\<close>

lemma refused_not_saved:
  assumes "\<And>log fs. \<exists>d. hc_run h log (compose_args h [''config'', ''--quiet'']) fs = (Inr (1, []), d)"
  shows "\<exists>e t. save_config h a updates s = (Inl e, t)"
proof (rule ccontr)
  assume "\<not> ?thesis"
  then obtain t where "save_config h a updates s = (Inr (), t)" by (cases "save_config h a updates s"; cases "fst (save_config h a updates s)") auto
  then obtain previous files secrets u where
    "try_py (save_body h previous a updates) (\<lambda>e. Some (seq (undo_save h files secrets) (raise_py e))) u = (Inr (), t)"
    unfolding save_config_def with_lock_def by (auto elim!: seq_Inr_E bind_py_Inr_E)
  then have "save_body h previous a updates u = (Inr (), t)"
    by (auto simp: try_py_def seq_def bind_py_def raise_py_def split: prod.splits sum.splits)
  then obtain v w where "command h (compose_args h [''config'', ''--quiet'']) v = (Inr (), w)"
    unfolding save_body_def by (auto elim!: seq_Inr_E bind_py_Inr_E)
  moreover obtain d where "hc_run h (mc_log v) (compose_args h [''config'', ''--quiet'']) (mc_disk v) = (Inr (1, []), d)"
    using assms by blast
  ultimately show False by (simp add: command_def run_command_def bind_py_def Let_def)
qed

definition example_tag :: "fsys \<Rightarrow> path \<Rightarrow> string" where
  "example_tag fs p = replicate (Suc (sum_list (map (\<lambda>(q, n). length (last q)) fs))) (CHR ''x'')"

lemma example_tag_fresh: "example_tag fs p \<noteq> []" "node_at fs (temporary_of p (example_tag fs p)) = None"
proof -
  show "example_tag fs p \<noteq> []" by (simp add: example_tag_def)
  let ?q = "temporary_of p (example_tag fs p)" and ?ls = "map (\<lambda>(q, n). length (last q)) fs"
  have "sum_list ?ls < length (last ?q)" by (simp add: temporary_of_def example_tag_def)
  have "(?q, n) \<notin> set fs" for n
  proof
    assume "(?q, n) \<in> set fs"
    then have "length (last ?q) \<in> set ?ls" by force
    then have "length (last ?q) \<le> sum_list ?ls" using member_le_sum_list by blast
    with \<open>sum_list ?ls < length (last ?q)\<close> show False by simp
  qed
  then have "?q \<notin> fst ` set fs" by auto
  then have "map_of fs ?q = None" by (simp add: map_of_eq_None_iff)
  moreover have "?q \<noteq> []" by (simp add: temporary_of_def)
  ultimately show "node_at fs ?q = None" by (simp add: node_at_def)
qed

text \<open>A host whose container engine refuses every configuration and whose two disks have different names.\<close>

definition example_run :: "string list list \<Rightarrow> string list \<Rightarrow> fsys \<Rightarrow> (exn + int \<times> string) \<times> fsys" where
  "example_run past args fs = (Inr (if args ! 1 = ''compose'' then (1, []) else (0, last args)), fs)"

definition example_host :: host_config where
  "example_host = \<lparr>hc_paths = default_paths, hc_run = example_run, hc_is_root = True, hc_busy = False,
     hc_load = (\<lambda>b. Inr default_appliance), hc_dump = (\<lambda>a. ''version: 1''), hc_float = (\<lambda>r. ''10''), hc_tag = example_tag,
     hc_time = 7, hc_polls = 2, hc_whole = (\<lambda>t. None), hc_brackets = (\<lambda>s. False), hc_str = (\<lambda>v. ''None''),
     hc_fresh = (\<lambda>fs. [''tmp'', ''fresh'']), hc_sha = (\<lambda>b. b), hc_members = (\<lambda>b. Inr []), hc_untar = (\<lambda>b p. ret ()),
     hc_pack = (\<lambda>p l. ret ()), hc_db_copy = (\<lambda>p q. ret ()), hc_db_check = (\<lambda>fs p. Inr None)\<rparr>"

definition example_machine :: machine where
  "example_machine = \<lparr>mc_disk = [([''etc''], Dir), ([''etc'', ''mnema''], Dir), ([''etc'', ''systemd''], Dir),
     ([''etc'', ''systemd'', ''system''], Dir), ([''opt''], Dir), ([''opt'', ''mnema''], Dir), ([''srv''], Dir),
     ([''srv'', ''mnema-active''], Dir), ([''srv'', ''mnema-backup''], Dir),
     ([''etc'', ''mnema'', ''config.yaml''], File ''old'' 3 1)], mc_log = []\<rparr>"


section \<open>Starting\<close>

lemma run_command_log: "mc_log (snd (run_command h must args s)) = mc_log s @ [args]"
  by (auto simp: run_command_def Let_def split: prod.split sum.split)

lemma command_log: "command h args s = (r, t) \<Longrightarrow> mc_log t = mc_log s @ [args]"
  "attempt_command h args s = (r, t) \<Longrightarrow> mc_log t = mc_log s @ [args]"
  using run_command_log [of h True args s] run_command_log [of h False args s]
  by (auto simp: command_def attempt_command_def bind_py_def split: prod.splits sum.splits)

text \<open>A start that fails ends with the services being stopped, unless it was the start itself that failed: the last
  command that was run is a stop.\<close>

theorem failed_start_stops:
  assumes "start_services h s = (Inl e, t)" "hc_is_root h"
  shows "mc_log t = mc_log s @ [[''systemctl'', ''start'', ''mnema.service'']]
    \<or> last (mc_log t) \<in> {[''systemctl'', ''stop'', ''mnema-icloud.service''], [''systemctl'', ''stop'', ''mnema.service'']}"
proof -
  obtain r1 s1 where r1: "command h [''systemctl'', ''start'', ''mnema.service''] s = (r1, s1)" by (rule prod.exhaust)
  show ?thesis
  proof (cases r1)
    case (Inl e1)
    with assms r1 command_log(1) [OF r1] show ?thesis by (simp add: start_services_def seq_def require_root_def require_def bind_py_def)
  next
    case (Inr u)
    obtain body where "start_services h = seq (require_root h) (seq (command h [''systemctl'', ''start'', ''mnema.service''])
        (try_py body (\<lambda>e. Some (seq (stop_services h) (raise_py e)))))" by (rule that, rule start_services_def)
    with assms r1 Inr have "try_py body (\<lambda>e. Some (seq (stop_services h) (raise_py e))) s1 = (Inl e, t)"
      by (simp add: seq_def [of "ret ()"] seq_def [of "command _ _"] bind_py_def require_root_def require_def)
    then obtain r s2 where "stop_services h s2 = (r, t)"
      by (auto simp: try_py_def seq_def bind_py_def raise_py_def split: prod.splits sum.splits)
    with assms(2) show ?thesis
      by (auto simp: stop_services_def seq_def bind_py_def require_root_def require_def dest!: command_log split: prod.splits sum.splits)
  qed
qed

section \<open>Releases\<close>

text \<open>An archive whose digest is another than the expected one is refused before anything is run or written.\<close>

theorem wrong_archive_untouched:
  "hc_is_root h \<Longrightarrow> content (mc_disk s) p = Some b \<Longrightarrow> hc_sha h b \<noteq> lower expected \<Longrightarrow>
     update_from_archive h p expected s = (Inl (ValueError ''release archive SHA-256 does not match''), s)"
  by (simp add: update_from_archive_def seq_def bind_py_def require_root_def require_def looks_def is_file_content at_disk_def
      sha256_file_Some raise_py_def)

end
