(* ===== verification/Remote_Adapters.thy ===== *)
theory Remote_Adapters
  imports Host_Proofs
begin

text \<open>
  The adapters that call a program or a service: the cold store behind \<open>rclone\<close>
  (\<open>adapters/cold_storage/rclone.py\<close>), the backup with \<open>kopia\<close> (\<open>adapters/backup/kopia.py\<close>) and the users of
  \<open>sftpgo\<close> (\<open>adapters/nas/sftpgo.py\<close>). The program is a parameter: given its arguments it ends with a code and what it
  printed, or does not start. JSON is read from UTF-8 without a byte order mark.
\<close>

definition json_of_bytes :: "bytes \<Rightarrow> exn + json" where
  "json_of_bytes b = (case utf8_decode (map of_char b) of None \<Rightarrow> Inl (ValueError ''UnicodeDecodeError'')
     | Some t \<Rightarrow> (case json_loads t of None \<Rightarrow> Inl (ValueError ''JSONDecodeError'') | Some v \<Rightarrow> Inr v))"

definition key_error :: "json \<Rightarrow> string \<Rightarrow> exn + json" where
  "key_error v k = (case v of
     JObject kvs \<Rightarrow> (case map_of (rev kvs) (cps k) of None \<Rightarrow> Inl KeyError | Some x \<Rightarrow> Inr x) | _ \<Rightarrow> Inl TypeError)"

section \<open>rclone\<close>

text \<open>
  \<open>rl_exec\<close> gets the arguments and the bytes of the local file it names, if there is one, and gives the code, what
  was printed and the local file afterwards. \<open>rl_int\<close> and \<open>rl_str\<close> are \<open>int\<close> and \<open>str\<close> of other JSON values than
  integers. The size in a receipt is an integer: a remote may not know it.
\<close>

record 's rclone_store =
  rl_exec :: "string list \<Rightarrow> bytes option \<Rightarrow> ('s, int \<times> bytes \<times> bytes option) py"
  rl_remote_root :: string
  rl_config :: string
  rl_key :: bytes
  rl_scratch :: "path option"
  rl_local :: string
  rl_nonce :: bytes
  rl_time :: int
  rl_free :: nat
  rl_int :: "json \<Rightarrow> exn + int"
  rl_str :: "json \<Rightarrow> nat list"

record rclone_receipt =
  rr_provider :: string
  rr_bucket :: string
  rr_object :: string
  rr_encryption :: string
  rr_size :: int
  rr_checksum :: "nat list option"

definition rclone_init :: "'s rclone_store \<Rightarrow> exn + 's rclone_store" where
  "rclone_init r =
     (if CHR '':'' \<notin> set (rl_remote_root r) \<or> set (rl_remote_root r) \<inter> {CHR 0x0D, CHR 0x0A, CHR 0x00} \<noteq> {}
      then Inl (ValueError ''rclone remote root must use remote:path syntax'')
      else if \<not> is_absolute (rl_config r) then Inl (ValueError ''rclone config path must be absolute'')
      else if length (rl_key r) \<noteq> 32 then Inl (ValueError ''cold encryption key must contain exactly 32 bytes'')
      else Inr (r\<lparr>rl_remote_root := rstrip_char (CHR ''/'') (rl_remote_root r)\<rparr>))"

definition rclone_run :: "'s rclone_store \<Rightarrow> string list \<Rightarrow> bytes option \<Rightarrow> ('s, bytes \<times> bytes option) py" where
  "rclone_run r args local = bind_py (rl_exec r ([''--config'', rl_config r] @ args) local) (\<lambda>(code, out, file').
     if code \<noteq> 0 then raise_py (RcloneCommandError (hd args) code) else ret (out, file'))"

definition rclone_object :: "'s rclone_store \<Rightarrow> string \<Rightarrow> string" where
  "rclone_object r k = rl_remote_root r @ ''/mnema/'' @ k @ ''.mnema''"

definition rclone_object_path :: "'s rclone_store \<Rightarrow> string \<Rightarrow> exn + string" where
  "rclone_object_path r k = (if idempotency_key_ok k then Inr (rclone_object r k) else Inl (ValueError ''invalid rclone idempotency key''))"

definition rclone_stat :: "'s rclone_store \<Rightarrow> string \<Rightarrow> ('s, json option) py" where
  "rclone_stat r p = bind_py
     (try_py (bind_py (rclone_run r [''lsjson'', ''--stat'', p] None) (\<lambda>(out, _). ret (Some out)))
       (\<lambda>e. case e of RcloneCommandError _ code \<Rightarrow> if code = 3 then Some (ret None) else None | _ \<Rightarrow> None))
     (\<lambda>found. case found of None \<Rightarrow> ret None
      | Some out \<Rightarrow> bind_py (lift_sum (json_of_bytes out)) (\<lambda>v. ret (if is_object v then Some v else None)))"

definition rclone_validate :: "'s rclone_store \<Rightarrow> rclone_receipt \<Rightarrow> exn + unit" where
  "rclone_validate r c = (let prefix = rl_remote_root r @ ''/mnema/'' in
     if rr_provider c \<noteq> ''rclone'' \<or> rr_bucket c \<noteq> rl_remote_root r \<or> \<not> startswith (rr_object c) prefix
        \<or> \<not> endswith (rr_object c) ''.mnema''
     then Inl (ValueError ''rclone receipt does not belong to configured remote'')
     else if \<not> idempotency_key_ok (removesuffix (removeprefix (rr_object c) prefix) ''.mnema'')
     then Inl (ValueError ''rclone receipt contains an invalid object identifier'') else Inr ())"

definition rclone_scratch :: "'s rclone_store \<Rightarrow> int \<Rightarrow> (fsys, unit) py" where
  "rclone_scratch r n = seq (case rl_scratch r of None \<Rightarrow> ret () | Some p \<Rightarrow> mkdirs p)
     (scratch_preflight (rl_free r) (nat (n + int scratch_margin_bytes)))"

text \<open>The first of the checksums the remote reports, if it is not empty.\<close>

definition rclone_checksum :: "'s rclone_store \<Rightarrow> json \<Rightarrow> nat list option" where
  "rclone_checksum r v = (case json_item v ''Hashes'' of
     Some (JObject ((k, x) # kvs)) \<Rightarrow> (let y = (case map_of (rev kvs) k of None \<Rightarrow> x | Some z \<Rightarrow> z) in
        if json_truthy y then Some (case y of JText t \<Rightarrow> t | _ \<Rightarrow> rl_str r y) else None)
   | _ \<Rightarrow> None)"

definition rclone_size :: "'s rclone_store \<Rightarrow> json \<Rightarrow> exn + int" where
  "rclone_size r v = bind_sum (key_error v ''Size'') (\<lambda>x. case x of JInt n \<Rightarrow> Inr n | _ \<Rightarrow> rl_int r x)"

definition rclone_send :: "gcm \<Rightarrow> 's rclone_store \<Rightarrow> path \<Rightarrow> string \<Rightarrow> (fsys \<times> 's, unit) py" where
  "rclone_send g r source p =
     bind_py (disk_py (stat_size source)) (\<lambda>size.
     seq (disk_py (rclone_scratch r (int size))) (
     seq (require (length (rl_key r) = 32) (ValueError ''cold encryption key must contain exactly 32 bytes'')) (
     bind_py (disk_py (read_bytes source)) (\<lambda>plain.
     bind_py (net_py (rclone_run r [''copyto'', ''--immutable'', rl_local r, p] (Some (sealed g (rl_key r) (rl_nonce r) plain))))
       (\<lambda>_. ret ())))))"

definition rclone_upload :: "gcm \<Rightarrow> 's rclone_store \<Rightarrow> path \<Rightarrow> string \<Rightarrow> string \<Rightarrow> (fsys \<times> 's, rclone_receipt) py" where
  "rclone_upload g r source object_identifier idem =
     bind_py (lift_sum (rclone_object_path r idem)) (\<lambda>p.
     bind_py (net_py (rclone_stat r p)) (\<lambda>first.
     bind_py (case first of Some v \<Rightarrow> ret (Some v) | None \<Rightarrow> seq (rclone_send g r source p) (net_py (rclone_stat r p))) (\<lambda>found.
     case found of None \<Rightarrow> raise_py (RuntimeError ''rclone upload could not be independently observed'')
     | Some v \<Rightarrow> bind_py (lift_sum (rclone_size r v)) (\<lambda>size.
         ret \<lparr>rr_provider = ''rclone'', rr_bucket = rl_remote_root r, rr_object = p, rr_encryption = ''AES-256-GCM'',
              rr_size = size, rr_checksum = rclone_checksum r v\<rparr>))))"

definition rclone_fetch :: "'s rclone_store \<Rightarrow> rclone_receipt \<Rightarrow> (fsys \<times> 's, bytes) py" where
  "rclone_fetch r c = seq (lift_sum (rclone_validate r c)) (
     seq (disk_py (rclone_scratch r (rr_size c))) (
     bind_py (net_py (rclone_run r [''copyto'', ''--immutable'', rr_object c, rl_local r] None)) (\<lambda>(out, file').
     case file' of None \<Rightarrow> raise_py FileNotFoundError | Some data \<Rightarrow> ret data)))"

definition rclone_restore :: "gcm \<Rightarrow> 's rclone_store \<Rightarrow> rclone_receipt \<Rightarrow> path \<Rightarrow> (fsys \<times> 's, unit) py" where
  "rclone_restore g r c destination = bind_py (rclone_fetch r c) (\<lambda>data.
     disk_py (write_unsealed g (rl_key r) data destination (rl_time r)))"

definition rclone_verify :: "(bytes \<Rightarrow> string) \<Rightarrow> gcm \<Rightarrow> 's rclone_store \<Rightarrow> rclone_receipt \<Rightarrow> string \<Rightarrow> (fsys \<times> 's, bool) py" where
  "rclone_verify sha g r c expected = seq (disk_py (rclone_scratch r (2 * rr_size c))) (
     bind_py (rclone_fetch r c) (\<lambda>data. case unseal g (rl_key r) data of
        (Some b, None) \<Rightarrow> ret (sha b = expected)
      | (_, Some e) \<Rightarrow> raise_py e
      | (None, None) \<Rightarrow> raise_py FileNotFoundError))"

definition rclone_archive_verified :: "'s rclone_store \<Rightarrow> rclone_receipt \<Rightarrow> (fsys \<times> 's, unit) py" where
  "rclone_archive_verified r c = ret ()"

definition rclone_available :: "'s rclone_store \<Rightarrow> ('s, bool) py" where
  "rclone_available r = try_py (bind_py (rclone_run r [''lsd'', rl_remote_root r] None) (\<lambda>_. ret True))
     (\<lambda>e. case e of RcloneCommandError _ _ \<Rightarrow> Some (ret False) | _ \<Rightarrow> None)"

section \<open>kopia\<close>

text \<open>\<open>kp_exec\<close> gets the arguments and may change the disk; the environment only holds the password.\<close>

record kopia_backup =
  kp_exec :: "string list \<Rightarrow> string \<Rightarrow> (fsys, int \<times> bytes \<times> string) py"
  kp_repository :: path
  kp_password_file :: path
  kp_config_file :: path
  kp_temporary :: path
  kp_scratch_root :: "path option"
  kp_verify_dir :: path
  kp_json_str :: "json \<Rightarrow> string"

definition kopia_password :: "kopia_backup \<Rightarrow> (fsys, string) py" where
  "kopia_password k = bind_py (read_bytes (kp_password_file k)) (\<lambda>b. bind_py (lift_sum (text_cps b)) (\<lambda>t.
     lift_sum (utf8_text (strip_cps t))))"

definition kopia_run :: "kopia_backup \<Rightarrow> string list \<Rightarrow> (fsys, bytes) py" where
  "kopia_run k args = seq (mkdirs (butlast (kp_config_file k))) (
     let logs = kp_temporary k @ [''mnema-kopia-logs''] in
     seq (mkdirs logs) (
     bind_py (kopia_password k) (\<lambda>password.
     bind_py (kp_exec k ([''kopia'', ''--config-file='' @ path_text (kp_config_file k), ''--log-dir='' @ path_text logs] @ args) password)
       (\<lambda>(code, out, err). if code \<noteq> 0 then raise_py (RuntimeError (''Kopia command failed: '' @ take 500 err)) else ret out))))"

definition kopia_connect :: "kopia_backup \<Rightarrow> (fsys, unit) py" where
  "kopia_connect k = bind_py (gets (\<lambda>fs. is_file fs (kp_config_file k))) (\<lambda>connected.
     if connected then ret () else
     seq (mkdirs (kp_repository k)) (
     bind_py (gets (\<lambda>fs. names_in fs (kp_repository k) \<noteq> [])) (\<lambda>has_data.
     bind_py (kopia_run k [''repository'', if has_data then ''connect'' else ''create'', ''filesystem'',
        ''--path='' @ path_text (kp_repository k)]) (\<lambda>_. ret ()))))"

definition kopia_id :: "kopia_backup \<Rightarrow> json \<Rightarrow> exn + string" where
  "kopia_id k v = bind_sum (key_error v ''id'') (\<lambda>x. case x of JText t \<Rightarrow> utf8_text t | _ \<Rightarrow> Inr (kp_json_str k x))"

text \<open>What is listed is a list or counts as nothing; \<open>snapshots[0]\<close> of an object or a text fails.\<close>

definition first_snapshot :: "kopia_backup \<Rightarrow> json \<Rightarrow> exn + string option" where
  "first_snapshot k v = (if \<not> json_truthy v then Inr None
     else case v of JList (x # xs) \<Rightarrow> bind_sum (kopia_id k x) (\<lambda>i. Inr (Some i))
       | JObject _ \<Rightarrow> Inl KeyError | _ \<Rightarrow> Inl TypeError)"

definition kopia_snapshot :: "kopia_backup \<Rightarrow> path \<Rightarrow> string \<Rightarrow> (fsys, backup_receipt) py" where
  "kopia_snapshot k source key = seq (kopia_connect k) (
     let marked = ''mnema-id:'' @ key in
     bind_py (kopia_run k [''snapshot'', ''list'', path_text source, ''--json'', ''--tags'', marked]) (\<lambda>existing.
     bind_py (lift_sum (bind_sum (json_of_bytes (if existing = [] then ''[]'' else existing)) (first_snapshot k))) (\<lambda>found.
     case found of Some i \<Rightarrow> ret \<lparr>snapshot_id = i\<rparr>
     | None \<Rightarrow>
       bind_py (kopia_run k [''snapshot'', ''create'', path_text source, ''--json'', ''--tags'', marked]) (\<lambda>created.
       bind_py (lift_sum (bind_sum (json_of_bytes created) (kopia_id k))) (\<lambda>i. ret \<lparr>snapshot_id = i\<rparr>)))))"

definition kopia_restore :: "kopia_backup \<Rightarrow> backup_receipt \<Rightarrow> path \<Rightarrow> (fsys, unit) py" where
  "kopia_restore k c destination = seq (kopia_connect k) (
     bind_py (kopia_run k [''snapshot'', ''restore'', snapshot_id c, path_text destination]) (\<lambda>_. ret ()))"

text \<open>The restored copy is in a directory of its own, which is removed afterwards.\<close>

definition kopia_verify :: "(bytes \<Rightarrow> string) \<Rightarrow> kopia_backup \<Rightarrow> backup_receipt \<Rightarrow> string \<Rightarrow> (fsys, bool) py" where
  "kopia_verify sha k c expected = seq (case kp_scratch_root k of None \<Rightarrow> ret () | Some p \<Rightarrow> mkdirs p) (
     seq (modify (set_node (kp_verify_dir k) Dir)) (
     let destination = kp_verify_dir k @ [''restored''] in
     try_finally (seq (kopia_restore k c destination) (bind_py (sha256_file sha destination) (\<lambda>h. ret (h = expected))))
       (modify (remove_tree (kp_verify_dir k)))))"

section \<open>sftpgo\<close>

datatype sftpgo_call = SftpgoHealth | SftpgoGet string | SftpgoPost string json

record 's sftpgo =
  sg_brackets :: "string \<Rightarrow> bool"
  sg_endpoint :: string
  sg_api_key :: "exn + string"
  sg_send :: "sftpgo_call \<Rightarrow> string \<Rightarrow> ('s, nat \<times> string) py"

definition sftpgo_init :: "'s sftpgo \<Rightarrow> exn + 's sftpgo" where
  "sftpgo_init c = (let e = rstrip_char (CHR ''/'') (sg_endpoint c) in
     bind_sum (urlsplit (sg_brackets c) e) (\<lambda>u.
     if us_scheme u \<notin> {''http'', ''https''} \<or> url_hostname u = None
     then Inl (ValueError ''SFTPGo endpoint must be an HTTP or HTTPS URL'') else Inr (c\<lparr>sg_endpoint := e\<rparr>)))"

text \<open>An answer with an error status is an answer like others. The key is read for every request.\<close>

definition sftpgo_request :: "'s sftpgo \<Rightarrow> sftpgo_call \<Rightarrow> ('s, nat \<times> string) py" where
  "sftpgo_request c call = bind_py (lift_sum (sg_api_key c)) (\<lambda>key. sg_send c call (strip key))"

definition sftpgo_health :: "'s sftpgo \<Rightarrow> ('s, bool) py" where
  "sftpgo_health c = try_py (bind_py (sg_send c SftpgoHealth []) (\<lambda>(status, out). ret (status = 200)))
     (\<lambda>e. if is_OSError e \<or> is_ValueError e then Some (ret False) else None)"

definition sftp_username :: "string \<Rightarrow> bool" where
  "sftp_username s = (case s of [] \<Rightarrow> False | c # r \<Rightarrow> is_alnum c \<and> length r \<le> 63 \<and> list_all key_char r)"

definition sftp_user :: "string \<Rightarrow> string \<Rightarrow> string \<Rightarrow> json" where
  "sftp_user username password active_root = JObject [(cps ''status'', JInt 1), (cps ''username'', JText (cps username)),
     (cps ''password'', JText (cps password)), (cps ''home_dir'', JText (cps active_root)),
     (cps ''permissions'', JObject [(cps ''/'', JList [JText (cps ''*'')])]),
     (cps ''filesystem'', JObject [(cps ''provider'', JInt 0)])]"

definition sftpgo_create_user :: "'s sftpgo \<Rightarrow> string \<Rightarrow> string \<Rightarrow> string \<Rightarrow> ('s, unit) py" where
  "sftpgo_create_user c username password active_root =
     seq (require (sftp_username username) (ValueError ''invalid SFTPGo username'')) (
     seq (require (12 \<le> length password) (ValueError ''SFTPGo password must contain at least 12 characters'')) (
     seq (require (active_root = ''/srv/mnema-active'') (ValueError ''SFTPGo user root must be the isolated active-storage mount'')) (
     bind_py (sftpgo_request c (SftpgoGet (''/api/v2/users/'' @ concat (map quote_char username)))) (\<lambda>(status, _).
     if status = 200 then ret () else
     seq (require (status = 404) (RuntimeError (''SFTPGo user lookup failed with HTTP '' @ dec status))) (
     bind_py (sftpgo_request c (SftpgoPost ''/api/v2/users'' (sftp_user username password active_root))) (\<lambda>(status, body).
     require (status \<in> {200, 201}) (RuntimeError (''SFTPGo user creation failed with HTTP '' @ dec status @ '': '' @ take 200 body))))))))"

section \<open>Receipts and round trip\<close>

lemma affixes: "startswith (a @ b) a" "endswith (a @ b) b" "removeprefix (a @ b) a = b" "removesuffix (a @ b) b = a"
  by (auto simp: startswith_def endswith_def removeprefix_def removesuffix_def)

lemma rclone_own_receipt:
  assumes "idempotency_key_ok k"
  shows "rclone_validate r \<lparr>rr_provider = ''rclone'', rr_bucket = rl_remote_root r, rr_object = rclone_object r k,
      rr_encryption = m, rr_size = n, rr_checksum = h\<rparr> = Inr ()"
proof -
  let ?p = "rl_remote_root r @ ''/mnema/''" and ?s = "''.mnema''"
  have o: "rclone_object r k = ?p @ k @ ?s" by (simp add: rclone_object_def)
  have "startswith (?p @ k @ ?s) ?p" "endswith (?p @ k @ ?s) ?s" "removesuffix (removeprefix (?p @ k @ ?s) ?p) ?s = k"
    using affixes(1,3) [of ?p "k @ ?s"] affixes(2) [of "?p @ k" ?s] affixes(4) [of k ?s] by (simp_all only: append_assoc)
  with assms show ?thesis by (simp only: rclone_validate_def Let_def o rclone_receipt.simps) simp
qed

text \<open>A receipt of an upload is accepted when the object is asked for: it lies below the configured remote, under the
  name of its key.\<close>

theorem rclone_receipt_accepted:
  assumes "rclone_upload g r source ob idem s = (Inr c, t)"
  shows "idempotency_key_ok idem" "rr_object c = rclone_object r idem" "rclone_validate r c = Inr ()"
proof -
  obtain p where p: "rclone_object_path r idem = Inr p"
    using assms by (cases "rclone_object_path r idem") (auto simp: rclone_upload_def bind_py_def)
  then show k: "idempotency_key_ok idem" by (auto simp: rclone_object_path_def split: if_splits)
  with p have o: "p = rclone_object r idem" by (simp add: rclone_object_path_def)
  obtain n v where c: "c = \<lparr>rr_provider = ''rclone'', rr_bucket = rl_remote_root r, rr_object = p, rr_encryption = ''AES-256-GCM'',
      rr_size = n, rr_checksum = rclone_checksum r v\<rparr>"
    using assms unfolding rclone_upload_def p by (auto elim!: bind_py_Inr_E split: option.splits)
  show "rr_object c = rclone_object r idem" by (simp add: c o)
  show "rclone_validate r c = Inr ()" unfolding c o by (rule rclone_own_receipt [OF k])
qed

text \<open>An object that comes back from the remote as it was sent is restored to the file that was uploaded.\<close>

theorem rclone_round_trip:
  assumes "rclone_fetch r c s = (Inr (sealed g (rl_key r) (rl_nonce r) plain), s')"
    and "gcm_sound g" "length (rl_nonce r) = nonce_size" "length (rl_key r) = 32"
    and "rclone_restore g r c destination s = (Inr (), t)" "plain_target (fst s') destination"
  shows "content (fst t) destination = Some plain"
proof -
  note u = unseal_sealed [OF assms(2-4), of plain]
  obtain fs n where s': "s' = (fs, n)" by (cases s')
  from assms(1,5) s' have "disk_py (write_new destination plain (rl_time r)) (fs, n) = (Inr (), t)"
    by (simp add: rclone_restore_def bind_py_def write_unsealed_def u seq_def disk_py_def split: prod.splits sum.splits)
  then have "write_new destination plain (rl_time r) fs = (Inr (), fst t)" by (auto simp: disk_py_def split: prod.splits)
  from write_new_InrD(4) [OF this] assms(6) s' show ?thesis by (auto simp: plain_target_def)
qed

text \<open>A user is provisioned only with a plain name, a password of at least twelve characters and the isolated root;
  otherwise nothing is asked of the service.\<close>

theorem sftpgo_refuses_unsafe:
  "\<not> sftp_username username \<or> length password < 12 \<or> active_root \<noteq> ''/srv/mnema-active''
     \<Longrightarrow> \<exists>e. is_ValueError e \<and> sftpgo_create_user c username password active_root s = (Inl e, s)"
  by (auto simp: sftpgo_create_user_def seq_def bind_py_def require_def raise_py_def is_ValueError_def)

end
