(* ===== verification/Spec2Isabelle.thy ===== *)
theory Spec2Isabelle
  imports Workflow_Proofs Provider_Sync Telegram Remote_Adapters
begin

text \<open>
  Verification development of Mnema, an appliance that archives files and photos: it downloads them from a source,
  commits them to the active disk, backs them up, uploads them encrypted to cold storage, quarantines them and only
  then, if ever, deletes them at the source. The Python package is \<open>src/src/mnema\<close>; the paths below are beneath it.

  \<^bold>\<open>How the program is put together.\<close> The worker (\<open>worker/main.py\<close>) checks the host, recovers interrupted items and
  runs the jobs of a durable queue (\<open>jobs/queue.py\<close>). A job archives one item with the workflow
  (\<open>domain/workflow.py\<close>), which drives the item through the state machine of \<open>domain/states.py\<close> and calls three
  adapters behind protocols: a source, a versioned backup, a cold store. The File Provider (\<open>file_provider\<close>) serves
  the archived files to phones over HTTP and takes uploads, which become archive items and jobs. The iCloud clean-up
  (\<open>domain/icloud_cleanup.py\<close>) plans and, after an approval, executes deletions in an iCloud library. All share one
  SQLite database, one file system and the settings.

  \<^bold>\<open>Conventions.\<close> A Python routine that can raise is a function \<open>('s, 'a) py\<close> from a state to an exception or a
  value and the state it leaves (\<open>Prelude\<close>); a pure one that can raise returns a sum. \<open>world\<close> (\<open>Models\<close>) is the
  state most routines share: the disk, the clock, and the database twice, \<open>live\<close> as the session sees it and
  \<open>durable\<close> as committed; \<open>session_block\<close> is the context manager of \<open>jobs/database.py\<close>, which commits at the end
  and rolls back on an exception. Tables are lists of records in insertion order. Paths on the disk are lists of
  components, and the disk maps them to files, directories and links (\<open>Paths\<close>). Bytes are characters below 256.
  Times are microseconds, \<open>Naive\<close> or \<open>Aware\<close>. Integers are unbounded as in Python; floating-point numbers are
  rational. SHA-256 and AES-GCM, boto3, PyJWT and pyicloud are parameters; what is assumed of one is a named
  hypothesis of the theorems that need it (\<open>gcm_ok\<close>, collision freedom is never assumed).

  \<^bold>\<open>The theories\<close>, in the order of their dependencies.

  \<^item> \<open>Prelude\<close>, \<open>Hoare_Rules\<close>, \<open>Json_Values\<close>, \<open>Datetimes\<close>, \<open>Interfaces\<close>: exceptions, the computations and
    their rules (\<open>keeps\<close>, \<open>hoare\<close>), strings, tables, JSON values; \<open>Interfaces\<close> holds the adapter protocols
    (\<open>domain/source.py\<close>, \<open>adapters/backup/base.py\<close>, \<open>adapters/cold_storage/base.py\<close>) and their laws as locales,
    interpreted on the adapters in \<open>Backup_Fs\<close>, \<open>Cold_Local\<close> and \<open>Source_Local\<close>.
  \<^item> \<open>States\<close> (\<open>domain/states.py\<close>): the transition table; \<open>DELETING\<close> cannot be reached without every mandatory state.
  \<^item> \<open>Paths\<close> (\<open>domain/storage.py\<close>), \<open>Fileops\<close> (\<open>adapters/nas/fileops.py\<close>): containment of paths in a file system
    with links; committing a staged file.
  \<^item> \<open>Redaction\<close> (\<open>security/redaction.py\<close>): both patterns as matchers; redaction removes what it is meant to.
  \<^item> \<open>Policies\<close> (\<open>policies\<close>, the policy and limits of \<open>config/settings.py\<close>): eligibility and the deletion gate.
  \<^item> \<open>Settings_Model\<close> (\<open>config/settings.py\<close>): fields, defaults, bounds and validators; \<open>Runtime_Settings\<close>: the table
    of runtime settings.
  \<^item> \<open>Models\<close> (\<open>jobs/models.py\<close>, \<open>jobs/database.py\<close>, \<open>jobs/state_service.py\<close>): the tables, sessions, state changes.
  \<^item> \<open>Source_Local\<close> (\<open>adapters/sources/local.py\<close>, \<open>icloud.py\<close>), \<open>Backup_Fs\<close> (\<open>adapters/backup/filesystem.py\<close>),
    \<open>Cold_Local\<close> (\<open>adapters/cold_storage/crypto.py\<close>, \<open>local.py\<close>), \<open>Cold_S3\<close> (\<open>adapters/cold_storage/s3.py\<close>): the
    adapters; downloads, snapshots and cold objects give back the bytes they were made of; the ranges of a multipart
    copy cover the object exactly.
  \<^item> \<open>Workflow\<close> (\<open>domain/workflow.py\<close>), with \<open>Evidence\<close> and \<open>Workflow_Proofs\<close>: scanning, archiving and deleting.
    \<open>Evidence\<close> defines the invariant that ties the state of an item to the evidence in its row; every operation
    keeps it, in the session and in the committed database, also when it fails. \<open>Workflow_Proofs\<close> shows what a
    finished archive run and a deletion did.
  \<^item> \<open>Job_Queue\<close> (\<open>jobs/queue.py\<close>), \<open>Recovery\<close> (\<open>worker/recovery.py\<close>), \<open>Health\<close> (\<open>diagnostics/health.py\<close>,
    \<open>smart.py\<close>), \<open>Worker\<close> (\<open>worker/main.py\<close>): leases, recovery after a restart, start-up checks, the loop of the
    worker over all of them.
  \<^item> \<open>Cursors\<close>, \<open>Provider_Items\<close>, \<open>Provider_Uploads\<close>, \<open>Upload_Proofs\<close> (\<open>file_provider/service.py\<close>): change cursors,
    the item tree with its change log, uploads, promotion and projection of archived files.
  \<^item> \<open>Provider_Auth\<close> (\<open>file_provider/auth.py\<close>), \<open>Provider_Api\<close>, \<open>Provider_Sync\<close> (\<open>file_provider/api.py\<close>): pairing,
    tokens, every request handler; \<open>Provider_Sync\<close> composes the handlers with a client that follows the cursors.
  \<^item> \<open>ICloud_Control\<close> (\<open>adapters/sources/icloud_control.py\<close>), \<open>Cleanup\<close>, \<open>Cleanup_Proofs\<close>
    (\<open>domain/icloud_cleanup.py\<close>): the control client and the clean-up.
  \<^item> \<open>Access\<close> (\<open>security/auth.py\<close>, \<open>cloudflare.py\<close>): the administrator's password, the tokens of Cloudflare Access and
    the middleware that asks for them. \<open>Factory\<close> (\<open>domain/factory.py\<close>): the workflows built from the settings.
  \<^item> \<open>Web_App\<close>, \<open>Web_Proofs\<close> (\<open>web/app.py\<close>): the administration in the browser; forged and unauthenticated requests
    change nothing and no request switches the deletion of sources on.
  \<^item> \<open>Cli\<close>, \<open>Cli_Proofs\<close> (\<open>cli.py\<close>): the commands inside the appliance, among them the synchronisation with iCloud
    and the approval of a clean-up. \<open>Telegram\<close> (\<open>telegram_bot.py\<close>): the bot; only allowed users are served.
  \<^item> \<open>Admin_Config\<close>, \<open>Admin_Proofs\<close> (\<open>admin/config.py\<close>): the configuration of the appliance, its checks and the
    environment of the containers: the text says exactly what was configured, and what a container reads from it passes
    the checks of \<open>Settings_Model\<close>.
  \<^item> \<open>Host\<close>, \<open>Host_Services\<close>, \<open>Host_Release\<close>, \<open>Host_Proofs\<close> (\<open>admin/host.py\<close>): the administration of the host over its
    disk and the commands it runs: saving a configuration and undoing a failed save, services and their endpoints,
    backup and restoration, updates and the rollback to the release before.
  \<^item> \<open>Remote_Adapters\<close> (\<open>adapters/cold_storage/rclone.py\<close>, \<open>adapters/backup/kopia.py\<close>, \<open>adapters/nas/sftpgo.py\<close>): the
    adapters that call another program or service.

  \<^bold>\<open>Fuel.\<close> Loops that follow another party get a bound as an argument: the pages of \<open>discover\<close> and \<open>list_children\<close>,
  the turns of \<open>worker_loop\<close> and \<open>bot_loop\<close>, the health checks of
  \<open>wait_for_health\<close>. \<open>local_discover_complete\<close> and the theorems of \<open>Provider_Sync\<close> say which bound is enough;
  the theorems about the worker hold for every number of turns. The links followed by \<open>resolve_path\<close> are bounded by
  the limit of the operating system. Retries of a lease, of a snapshot and of an upload are single calls.

  \<^bold>\<open>Not modelled.\<close> The command line of the host (\<open>admin/cli.py\<close>): prompts, options and printing around the
  operations of \<open>Host\<close> and \<open>Admin_Config\<close>. Reading and writing YAML, the redacted view of a configuration, templates and
  translations (\<open>web/i18n.py\<close>), the start of the servers, the migrations of the database and the scripts for tests and
  measurements. Of the host, programs such as \<open>systemctl\<close> and \<open>docker\<close>, tar archives and SQLite files are
  parameters. Of what is modelled, \<open>fsync\<close>, file modes and owners and concurrent access by other processes have no effect
  in the model; the handlers of one process run one after the other between their awaits.
\<close>

end
